(* ===== verification/Prelude.thy ===== *)
theory Prelude
  imports Main
begin

text \<open>
  Shared vocabulary of the development.

  \<^item> Errors: a TypeScript \<^verbatim>\<open>throw\<close> is the left side of a sum
    (\<open>'a result\<close>); \<open>bindE\<close> is the sequencing that \<^verbatim>\<open>await\<close> and a
    plain call perform: the first exception ends the computation.
  \<^item> Strings: a JavaScript string is represented by its UTF-8 encoding, a \<open>string\<close> with
    one \<open>char\<close> per byte. So \<^verbatim>\<open>new TextEncoder().encode(s).byteLength\<close> is \<open>length s\<close>, and
    \<^verbatim>\<open>s.length\<close> (UTF-16 code units) is \<open>jsLength s\<close>. Case mapping, \<^verbatim>\<open>trim\<close> and the
    regular expressions of the source act on ASCII here.
  \<^item> Lists as sets: \<open>new Set(xs).size\<close> is the length of \<open>remdups xs\<close>.

  The collections \<open>result_simps\<close> (how a successful or failing result decomposes) and
  \<open>js_defs\<close> (the definitions of the string predicates) are filled here and used by every
  other theory.
\<close>

named_theorems result_simps
named_theorems js_defs

section \<open>Results\<close>

datatype js_error =
    Error string                \<comment> \<open>\<^verbatim>\<open>throw new Error(code)\<close>\<close>
  | HttpError nat string        \<comment> \<open>\<^verbatim>\<open>throw new HttpError(status, code)\<close>\<close>
  | HttpConflict string         \<comment> \<open>\<^verbatim>\<open>throw new HttpConflict(message)\<close>\<close>
  | ZodError                    \<comment> \<open>a zod schema refused its input\<close>
  | PermanentJobError string "string option"  \<comment> \<open>\<^verbatim>\<open>throw new PermanentJobError(code, receiptBlock)\<close>\<close>
  | LibraryError                \<comment> \<open>an exception raised inside a third-party package\<close>

type_synonym 'a result = "js_error + 'a"

definition bindE :: "'e + 'a \<Rightarrow> ('a \<Rightarrow> 'e + 'b) \<Rightarrow> 'e + 'b" where
  "bindE m f = (case m of Inl e \<Rightarrow> Inl e | Inr v \<Rightarrow> f v)"

definition ofOption :: "'e \<Rightarrow> 'a option \<Rightarrow> 'e + 'a" where
  "ofOption e v = (case v of None \<Rightarrow> Inl e | Some x \<Rightarrow> Inr x)"

definition orElse :: "'a result \<Rightarrow> (js_error \<Rightarrow> 'a result) \<Rightarrow> 'a result" where
  "orElse m h = (case m of Inl e \<Rightarrow> h e | Inr v \<Rightarrow> Inr v)"

definition succeeds :: "'a result \<Rightarrow> bool" where
  "succeeds m = (case m of Inl _ \<Rightarrow> False | Inr _ \<Rightarrow> True)"

fun mapE :: "('a \<Rightarrow> 'b result) \<Rightarrow> 'a list \<Rightarrow> 'b list result" where
  "mapE f [] = Inr []"
| "mapE f (x # xs) = bindE (f x) (\<lambda>y. bindE (mapE f xs) (\<lambda>ys. Inr (y # ys)))"

lemma bindE_Inl [simp]: "bindE (Inl e) f = Inl e"
  and bindE_Inr [simp]: "bindE (Inr v) f = f v"
  by (simp_all add: bindE_def)

lemma bindE_eq_Inr [result_simps]:
  "(bindE m f = Inr y) \<longleftrightarrow> (\<exists>x. m = Inr x \<and> f x = Inr y)"
  by (cases m) auto

lemma bindE_eq_Inl [result_simps]:
  "(bindE m f = Inl e) \<longleftrightarrow> (m = Inl e \<or> (\<exists>x. m = Inr x \<and> f x = Inl e))"
  by (cases m) auto

lemma bindE_assoc: "bindE (bindE m f) g = bindE m (\<lambda>x. bindE (f x) g)"
  by (cases m) auto

lemma ofOption_simps [simp]:
  "ofOption e None = Inl e" "ofOption e (Some x) = Inr x"
  by (simp_all add: ofOption_def)

lemma ofOption_eq_Inr [result_simps]: "(ofOption e v = Inr x) \<longleftrightarrow> v = Some x"
  by (cases v) auto

lemma ofOption_eq_Inl [result_simps]: "(ofOption e v = Inl e') \<longleftrightarrow> v = None \<and> e' = e"
  by (cases v) auto

lemma orElse_simps [simp]: "orElse (Inl e) h = h e" "orElse (Inr v) h = Inr v"
  by (simp_all add: orElse_def)

text \<open>A guard that throws: the success of the whole is the failure of the guard.\<close>

lemma throw_eq_Inr [result_simps]:
  "((if c then Inl e else m) = Inr y) \<longleftrightarrow> \<not> c \<and> m = Inr y"
  by auto

lemma throw_eq_Inl [result_simps]:
  "((if c then Inl e else m) = Inl e') \<longleftrightarrow> (c \<and> e' = e) \<or> (\<not> c \<and> m = Inl e')"
  by auto

lemma succeeds_iff: "succeeds m \<longleftrightarrow> (\<exists>v. m = Inr v)"
  by (cases m) (auto simp: succeeds_def)

lemma mapE_eq_Inr: "(mapE f xs = Inr ys) \<longleftrightarrow> list_all2 (\<lambda>x y. f x = Inr y) xs ys"
proof (induction xs arbitrary: ys)
  case Nil
  then show ?case by auto
next
  case (Cons x xs)
  then show ?case by (cases ys) (auto simp: bindE_eq_Inr list_all2_Cons1)
qed

section \<open>Characters and strings\<close>

definition digitChars :: string where "digitChars = ''0123456789''"
definition lowerHexChars :: string where "lowerHexChars = ''0123456789abcdef''"
definition upperHexChars :: string where "upperHexChars = ''0123456789ABCDEF''"
definition anyHexChars :: string where "anyHexChars = ''0123456789abcdefABCDEF''"
definition lowerChars :: string where "lowerChars = ''abcdefghijklmnopqrstuvwxyz''"
definition upperChars :: string where "upperChars = ''ABCDEFGHIJKLMNOPQRSTUVWXYZ''"

lemmas char_classes [js_defs] =
  digitChars_def lowerHexChars_def upperHexChars_def anyHexChars_def lowerChars_def upperChars_def

text \<open>A text of the sources that is not ASCII, by its UTF-8 bytes.\<close>

definition utf8Text :: "nat list \<Rightarrow> string" where
  "utf8Text ns = map char_of ns"

text \<open>The regular expression class \<^verbatim>\<open>\s\<close>, on ASCII.\<close>

definition isSpace :: "char \<Rightarrow> bool" where
  "isSpace c \<longleftrightarrow> (let n = (of_char c :: nat) in (9 \<le> n \<and> n \<le> 13) \<or> n = 32)"

definition isLineBreak :: "char \<Rightarrow> bool" where
  "isLineBreak c \<longleftrightarrow> (let n = (of_char c :: nat) in n = 10 \<or> n = 13)"

definition toLower :: "char \<Rightarrow> char" where
  "toLower c = (let n = (of_char c :: nat) in if 65 \<le> n \<and> n \<le> 90 then char_of (n + 32) else c)"

definition toUpper :: "char \<Rightarrow> char" where
  "toUpper c = (let n = (of_char c :: nat) in if 97 \<le> n \<and> n \<le> 122 then char_of (n - 32) else c)"

definition toLowerCase :: "string \<Rightarrow> string" where
  "toLowerCase = map toLower"

definition toUpperCase :: "string \<Rightarrow> string" where
  "toUpperCase = map toUpper"

text \<open>\<^verbatim>\<open>String.prototype.trim\<close>.\<close>

definition trim :: "string \<Rightarrow> string" where
  "trim s = rev (dropWhile isSpace (rev (dropWhile isSpace s)))"

text \<open>
  \<^verbatim>\<open>s.length\<close>: every UTF-8 sequence is one UTF-16 code unit, a four-byte sequence is two.
\<close>

definition jsLength :: "string \<Rightarrow> nat" where
  "jsLength s =
     length (filter (\<lambda>c. (of_char c :: nat) < 128 \<or> 192 \<le> (of_char c :: nat)) s) +
     length (filter (\<lambda>c. 240 \<le> (of_char c :: nat)) s)"

text \<open>
  What \<^verbatim>\<open>new TextDecoder("utf-8", { fatal: true })\<close> accepts: well-formed UTF-8, without
  overlong forms, surrogates and code points above U+10FFFF.
\<close>

definition continuation :: "char \<Rightarrow> bool" where
  "continuation c \<longleftrightarrow> 128 \<le> (of_char c :: nat) \<and> (of_char c :: nat) < 192"

fun isUtf8 :: "string \<Rightarrow> bool" where
  "isUtf8 [] = True"
| "isUtf8 (a # s) =
     (let n = (of_char a :: nat) in
      if n < 128 then isUtf8 s
      else if 194 \<le> n \<and> n \<le> 223 then
        (case s of b # s' \<Rightarrow> continuation b \<and> isUtf8 s' | _ \<Rightarrow> False)
      else if 224 \<le> n \<and> n \<le> 239 then
        (case s of b # c # s' \<Rightarrow>
           continuation b \<and> continuation c \<and> (n = 224 \<longrightarrow> 160 \<le> (of_char b :: nat)) \<and>
           (n = 237 \<longrightarrow> (of_char b :: nat) < 160) \<and> isUtf8 s' | _ \<Rightarrow> False)
      else if 240 \<le> n \<and> n \<le> 244 then
        (case s of b # c # d # s' \<Rightarrow>
           continuation b \<and> continuation c \<and> continuation d \<and>
           (n = 240 \<longrightarrow> 144 \<le> (of_char b :: nat)) \<and> (n = 244 \<longrightarrow> (of_char b :: nat) < 144) \<and>
           isUtf8 s' | _ \<Rightarrow> False)
      else False)"

definition allIn :: "string \<Rightarrow> string \<Rightarrow> bool" where
  "allIn cs s \<longleftrightarrow> list_all (\<lambda>c. c \<in> set cs) s"

definition lengthBetween :: "nat \<Rightarrow> nat \<Rightarrow> string \<Rightarrow> bool" where
  "lengthBetween lo hi s \<longleftrightarrow> lo \<le> jsLength s \<and> jsLength s \<le> hi"

text \<open>\<^verbatim>\<open>/^(0|[1-9][0-9]*)$/\<close>\<close>

definition isDecimalInteger :: "string \<Rightarrow> bool" where
  "isDecimalInteger s \<longleftrightarrow> s = ''0'' \<or> (s \<noteq> [] \<and> hd s \<noteq> CHR ''0'' \<and> allIn digitChars s)"

text \<open>\<^verbatim>\<open>/^\d+$/\<close>\<close>

definition isDigits :: "string \<Rightarrow> bool" where
  "isDigits s \<longleftrightarrow> s \<noteq> [] \<and> allIn digitChars s"

text \<open>\<^verbatim>\<open>/^0x[0-9a-fA-F]{40}$/\<close>, \<^verbatim>\<open>/^[0-9a-f]{64}$/\<close> and \<^verbatim>\<open>/^0x[0-9a-f]{64}$/\<close>\<close>

definition isAddress :: "string \<Rightarrow> bool" where
  "isAddress s \<longleftrightarrow> length s = 42 \<and> take 2 s = ''0x'' \<and> allIn anyHexChars (drop 2 s)"

definition isHex64 :: "string \<Rightarrow> bool" where
  "isHex64 s \<longleftrightarrow> length s = 64 \<and> allIn lowerHexChars s"

definition isHash32 :: "string \<Rightarrow> bool" where
  "isHash32 s \<longleftrightarrow> length s = 66 \<and> take 2 s = ''0x'' \<and> allIn lowerHexChars (drop 2 s)"

definition isAnyHash32 :: "string \<Rightarrow> bool" where
  "isAnyHash32 s \<longleftrightarrow> length s = 66 \<and> take 2 s = ''0x'' \<and> allIn anyHexChars (drop 2 s)"

lemmas string_preds [js_defs] =
  allIn_def lengthBetween_def isDecimalInteger_def isDigits_def isAddress_def isHex64_def
  isHash32_def isAnyHash32_def

text \<open>The decimal value of a digit string: \<^verbatim>\<open>BigInt(s)\<close> on \<^verbatim>\<open>/^\d+$/\<close>.\<close>

definition digitValue :: "char \<Rightarrow> int" where
  "digitValue c = int (of_char c) - 48"

definition bigInt :: "string \<Rightarrow> int" where
  "bigInt s = foldl (\<lambda>n c. 10 * n + digitValue c) 0 s"

lemma allIn_append [simp]: "allIn cs (s @ t) \<longleftrightarrow> allIn cs s \<and> allIn cs t"
  by (simp add: allIn_def)

lemma allIn_Cons [simp]: "allIn cs (c # s) \<longleftrightarrow> c \<in> set cs \<and> allIn cs s"
  by (simp add: allIn_def)

lemma allIn_Nil [simp]: "allIn cs []"
  by (simp add: allIn_def)

lemma allIn_replicate [simp]: "allIn cs (replicate n c) \<longleftrightarrow> n = 0 \<or> c \<in> set cs"
  by (auto simp: allIn_def list_all_iff)

lemma jsLength_simps [simp]:
  "jsLength [] = 0"
  "jsLength (c # s) = (if (of_char c :: nat) < 128 \<or> 192 \<le> (of_char c :: nat) then 1 else 0) +
      (if 240 \<le> (of_char c :: nat) then 1 else 0) + jsLength s"
  "jsLength (s @ t) = jsLength s + jsLength t"
  "jsLength (replicate n c) = n * jsLength [c]"
  by (auto simp: jsLength_def filter_replicate)

lemma length_toLowerCase [simp]: "length (toLowerCase s) = length s"
  by (simp add: toLowerCase_def)

lemma length_toUpperCase [simp]: "length (toUpperCase s) = length s"
  by (simp add: toUpperCase_def)

lemma bigInt_nonneg: "allIn digitChars s \<Longrightarrow> 0 \<le> bigInt s"
proof (induction s rule: rev_induct)
  case Nil
  then show ?case by (simp add: bigInt_def)
next
  case (snoc c s)
  from snoc.prems have "0 \<le> digitValue c"
    by (auto simp: js_defs digitValue_def)
  moreover from snoc have "0 \<le> bigInt s" by simp
  ultimately show ?case by (simp add: bigInt_def)
qed

text \<open>\<^verbatim>\<open>String(n)\<close> for a non-negative integer, and its inverse.\<close>

definition digitChar :: "nat \<Rightarrow> char" where
  "digitChar n = digitChars ! (n mod 10)"

fun decimalString :: "nat \<Rightarrow> string" where
  "decimalString n = (if n < 10 then [digitChar n] else decimalString (n div 10) @ [digitChar n])"

declare decimalString.simps [simp del]

lemma digitValue_digitChar: "digitValue (digitChar n) = int (n mod 10)"
proof -
  have "\<forall>k < 10. digitValue (digitChars ! k) = int k"
    by (auto simp: digitChars_def digitValue_def numeral_eq_Suc less_Suc_eq)
  then show ?thesis by (simp add: digitChar_def)
qed

lemma bigInt_snoc: "bigInt (s @ [c]) = 10 * bigInt s + digitValue c"
  by (simp add: bigInt_def)

lemma bigInt_decimalString [simp]: "bigInt (decimalString n) = int n"
proof (induction n rule: decimalString.induct)
  case (1 n)
  show ?case
  proof (cases "n < 10")
    case True
    then show ?thesis by (simp add: decimalString.simps [of n] bigInt_def digitValue_digitChar)
  next
    case False
    with 1 show ?thesis
      by (simp add: decimalString.simps [of n] bigInt_snoc digitValue_digitChar zdiv_int zmod_int)
  qed
qed

lemma decimalString_inject [simp]: "decimalString m = decimalString n \<longleftrightarrow> m = n"
  by (metis bigInt_decimalString of_nat_eq_iff)

section \<open>Safe integers\<close>

definition maxSafeInteger :: int where
  "maxSafeInteger = 9007199254740991"

definition isSafeInteger :: "int \<Rightarrow> bool" where
  "isSafeInteger n \<longleftrightarrow> - maxSafeInteger \<le> n \<and> n \<le> maxSafeInteger"

section \<open>Lists\<close>

text \<open>\<^verbatim>\<open>new Set(xs.map(f)).size === xs.length\<close>\<close>

definition allDistinct :: "('a \<Rightarrow> 'b) \<Rightarrow> 'a list \<Rightarrow> bool" where
  "allDistinct f xs \<longleftrightarrow> length (remdups (map f xs)) = length xs"

lemma allDistinct_iff [simp]: "allDistinct f xs \<longleftrightarrow> distinct (map f xs)"
  by (simp add: allDistinct_def) (metis length_map length_remdups_eq remdups_id_iff_distinct)

text \<open>Two sublists of one population that are together longer than it share an element.\<close>

lemma quorums_intersect:
  assumes "set xs \<subseteq> set ps" "set ys \<subseteq> set ps" "distinct xs" "distinct ys" "distinct ps"
    and "length ps < length xs + length ys"
  shows "\<exists>w. w \<in> set xs \<and> w \<in> set ys"
proof (rule ccontr)
  assume "\<not> ?thesis"
  then have "set xs \<inter> set ys = {}" by blast
  then have "card (set xs \<union> set ys) = length xs + length ys"
    using assms(3,4) by (simp add: card_Un_disjoint distinct_card)
  moreover have "card (set xs \<union> set ys) \<le> card (set ps)"
    using assms(1,2) by (intro card_mono) auto
  moreover have "card (set ps) = length ps" using assms(5) by (rule distinct_card)
  ultimately show False using assms(6) by simp
qed

end
