(* ===== verification/Json.thy ===== *)
theory Json
  imports Prelude
begin

text \<open>
  JSON values and the zod schemas the protocol is written with.

  The signed messages of CallSign are plain JSON objects, validated at run time by zod and
  accessed by member name; they are modelled as values of \<open>json\<close>, with \<open>jget\<close> for
  member access (a missing member, \<^verbatim>\<open>undefined\<close>, is \<open>None\<close>). A zod schema is modelled by
  the predicate it checks; the combinators below are the ones the sources use. The numbers of
  the protocol are integers: a fractional number is refused by every numeric schema, and is
  left out of \<open>json\<close>.

  The functions of the third-party packages (\<^verbatim>\<open>jose\<close>, \<^verbatim>\<open>@noble/hashes\<close>,
  \<^verbatim>\<open>json-canonicalize\<close>, \<^verbatim>\<open>json-dup-key-validator\<close>) are the fields of the record
  \<open>lib\<close>, a parameter of every definition that uses them.
\<close>

section \<open>Values\<close>

datatype json =
    JNull
  | JBool bool
  | JNum int
  | JStr string
  | JArr "json list"
  | JObj "(string \<times> json) list"

definition jget :: "json \<Rightarrow> string \<Rightarrow> json option" where
  "jget v k = (case v of JObj ms \<Rightarrow> map_of ms k | _ \<Rightarrow> None)"

definition jnum :: "json \<Rightarrow> string \<Rightarrow> int" where
  "jnum v k = (case jget v k of Some (JNum n) \<Rightarrow> n | _ \<Rightarrow> 0)"

definition jstr :: "json \<Rightarrow> string \<Rightarrow> string" where
  "jstr v k = (case jget v k of Some (JStr s) \<Rightarrow> s | _ \<Rightarrow> [])"

definition jbool :: "json \<Rightarrow> string \<Rightarrow> bool" where
  "jbool v k = (case jget v k of Some (JBool b) \<Rightarrow> b | _ \<Rightarrow> False)"

definition jobj :: "json \<Rightarrow> string \<Rightarrow> json" where
  "jobj v k = (case jget v k of Some w \<Rightarrow> w | None \<Rightarrow> JNull)"

definition jarr :: "json \<Rightarrow> string \<Rightarrow> json list" where
  "jarr v k = (case jget v k of Some (JArr xs) \<Rightarrow> xs | _ \<Rightarrow> [])"

text \<open>\<open>a.k === b.k\<close>, for members that hold strings or numbers.\<close>

definition sameMember :: "json \<Rightarrow> json \<Rightarrow> string \<Rightarrow> bool" where
  "sameMember a b k \<longleftrightarrow> jget a k = jget b k"

definition isStr :: "json \<Rightarrow> string \<Rightarrow> string \<Rightarrow> bool" where
  "isStr v k s \<longleftrightarrow> jget v k = Some (JStr s)"

definition isNum :: "json \<Rightarrow> string \<Rightarrow> int \<Rightarrow> bool" where
  "isNum v k n \<longleftrightarrow> jget v k = Some (JNum n)"

text \<open>\<open>a.k === b.k\<close> for each of several members.\<close>

definition sameMembers :: "json \<Rightarrow> json \<Rightarrow> string list \<Rightarrow> bool" where
  "sameMembers a b ks \<longleftrightarrow> list_all (sameMember a b) ks"

text \<open>\<^verbatim>\<open>{ ...v, k: w }\<close>\<close>

definition jset :: "json \<Rightarrow> string \<Rightarrow> json \<Rightarrow> json" where
  "jset v k w = (case v of
     JObj ms \<Rightarrow> JObj ((k, w) # filter (\<lambda>m. fst m \<noteq> k) ms) | _ \<Rightarrow> JObj [(k, w)])"

lemmas member_defs = jget_def jnum_def jstr_def jbool_def jobj_def jarr_def isStr_def isNum_def
  sameMember_def

lemma jget_jset [simp]: "jget (jset v k w) k' = (if k' = k then Some w else jget v k')"
proof -
  have "map_of (filter (\<lambda>m. fst m \<noteq> k) ms) k' = map_of ms k'" if "k' \<noteq> k" for ms
    using that by (induction ms) auto
  then show ?thesis by (auto simp: jget_def jset_def split: json.splits)
qed

lemma sameMembers_Nil [simp]: "sameMembers a b []"
  and sameMembers_Cons [simp]: "sameMembers a b (k # ks) \<longleftrightarrow> sameMember a b k \<and> sameMembers a b ks"
  by (simp_all add: sameMembers_def)

lemma isStr_jstr: "isStr v k s \<Longrightarrow> jstr v k = s"
  by (simp add: isStr_def jstr_def)

lemma isNum_jnum: "isNum v k n \<Longrightarrow> jnum v k = n"
  by (simp add: isNum_def jnum_def)

lemma sameMember_isStr: "sameMember a b k \<Longrightarrow> isStr b k s \<Longrightarrow> isStr a k s"
  by (simp add: sameMember_def isStr_def)

lemma sameMember_sym: "sameMember a b k \<Longrightarrow> sameMember b a k"
  by (simp add: sameMember_def)

section \<open>Schemas\<close>

type_synonym schema = "json \<Rightarrow> bool"

definition zString :: "(string \<Rightarrow> bool) \<Rightarrow> schema" where
  "zString p v = (case v of JStr s \<Rightarrow> p s | _ \<Rightarrow> False)"

text \<open>\<^verbatim>\<open>z.number().int()\<close>: zod's \<^verbatim>\<open>int\<close> is the safe integers.\<close>

definition zInt :: "(int \<Rightarrow> bool) \<Rightarrow> schema" where
  "zInt p v = (case v of JNum n \<Rightarrow> isSafeInteger n \<and> p n | _ \<Rightarrow> False)"

definition zBool :: schema where
  "zBool v = (case v of JBool _ \<Rightarrow> True | _ \<Rightarrow> False)"

definition zLiteral :: "json \<Rightarrow> schema" where
  "zLiteral w v \<longleftrightarrow> v = w"

definition zEnum :: "string list \<Rightarrow> schema" where
  "zEnum ss v = (case v of JStr s \<Rightarrow> s \<in> set ss | _ \<Rightarrow> False)"

definition zArray :: "nat \<Rightarrow> nat \<Rightarrow> schema \<Rightarrow> schema" where
  "zArray lo hi p v = (case v of
     JArr xs \<Rightarrow> lo \<le> length xs \<and> length xs \<le> hi \<and> list_all p xs | _ \<Rightarrow> False)"

definition zTuple :: "schema list \<Rightarrow> schema" where
  "zTuple ps v = (case v of
     JArr xs \<Rightarrow> length xs = length ps \<and> list_all (\<lambda>(p, x). p x) (zip ps xs) | _ \<Rightarrow> False)"

text \<open>
  \<^verbatim>\<open>z.object({...}).strict()\<close>: the members listed as required are present and conform, those
  listed as optional conform where present, and there is no other member.
\<close>

definition zObject :: "(string \<times> schema) list \<Rightarrow> (string \<times> schema) list \<Rightarrow> schema" where
  "zObject req opt v = (case v of
     JObj ms \<Rightarrow>
       list_all (\<lambda>(k, p). case map_of ms k of Some w \<Rightarrow> p w | None \<Rightarrow> False) req \<and>
       list_all (\<lambda>(k, p). case map_of ms k of Some w \<Rightarrow> p w | None \<Rightarrow> True) opt \<and>
       list_all (\<lambda>m. fst m \<in> fst ` set (req @ opt)) ms
   | _ \<Rightarrow> False)"

lemmas zod_defs = zString_def zInt_def zBool_def zLiteral_def zEnum_def zArray_def zTuple_def
  zObject_def

lemmas schema_eval = zString_def zInt_def zBool_def zLiteral_def zEnum_def zArray_def zTuple_def
  isDecimalInteger_def isDigits_def isAddress_def isHex64_def isHash32_def isAnyHash32_def
  lengthBetween_def char_classes isSafeInteger_def maxSafeInteger_def

definition parseWith :: "schema \<Rightarrow> json \<Rightarrow> json result" where
  "parseWith p v = (if p v then Inr v else Inl ZodError)"

lemma parseWith_eq_Inr [result_simps]: "(parseWith p v = Inr w) \<longleftrightarrow> p v \<and> w = v"
  by (auto simp: parseWith_def)

lemma parseWith_eq_Inl [result_simps]: "(parseWith p v = Inl e) \<longleftrightarrow> \<not> p v \<and> e = ZodError"
  by (auto simp: parseWith_def)

text \<open>What a strict object schema says of one of its members.\<close>

lemma zObject_member:
  assumes "zObject req opt v" and "(k, p) \<in> set req"
  shows "\<exists>w. jget v k = Some w \<and> p w"
  using assms
  by (fastforce simp: zObject_def jget_def list_all_iff split: json.splits option.splits)

lemma zObject_optional:
  assumes "zObject req opt v" and "(k, p) \<in> set opt" and "jget v k = Some w"
  shows "p w"
  using assms
  by (fastforce simp: zObject_def jget_def list_all_iff split: json.splits option.splits)

lemma zObject_no_other:
  assumes "zObject req opt v" and "k \<notin> fst ` set (req @ opt)"
  shows "jget v k = None"
proof (rule ccontr)
  assume "jget v k \<noteq> None"
  then obtain ms w where v: "v = JObj ms" and "map_of ms k = Some w"
    by (auto simp: jget_def split: json.splits)
  then have "(k, w) \<in> set ms" by (auto dest: map_of_SomeD)
  moreover from assms(1) v have "\<forall>m \<in> set ms. fst m \<in> fst ` set (req @ opt)"
    by (simp add: zObject_def list_all_iff)
  ultimately have "k \<in> fst ` set (req @ opt)" by (metis fst_conv)
  with assms(2) show False by simp
qed

lemma zObject_string:
  assumes "zObject req opt v" and "(k, zString p) \<in> set req"
  shows "isStr v k (jstr v k) \<and> p (jstr v k)"
proof -
  from zObject_member [OF assms] obtain w where "jget v k = Some w" "zString p w" by blast
  then show ?thesis by (cases w) (simp_all add: zString_def isStr_def jstr_def)
qed

lemma zObject_int:
  assumes "zObject req opt v" and "(k, zInt p) \<in> set req"
  shows "isNum v k (jnum v k) \<and> isSafeInteger (jnum v k) \<and> p (jnum v k)"
proof -
  from zObject_member [OF assms] obtain w where "jget v k = Some w" "zInt p w" by blast
  then show ?thesis by (cases w) (simp_all add: zInt_def isNum_def jnum_def)
qed

lemma zObject_literal:
  assumes "zObject req opt v" and "(k, zLiteral w) \<in> set req"
  shows "jget v k = Some w"
  using zObject_member [OF assms] by (auto simp: zLiteral_def)

text \<open>
  To evaluate a schema on a concrete object that lists its members in the order of the schema,
  it is enough to check the members one by one.
\<close>

lemma zObject_in_order:
  assumes "map fst ms = map fst req" and "distinct (map fst req)"
    and "list_all2 (\<lambda>kp m. snd kp (snd m)) req ms"
  shows "zObject req [] (JObj ms)"
proof -
  have "case map_of ms k of Some w \<Rightarrow> p w | None \<Rightarrow> False" if "(k, p) \<in> set req" for k p
  proof -
    from that obtain i where i: "i < length req" "req ! i = (k, p)" by (auto simp: in_set_conv_nth)
    from assms(1) have len: "length ms = length req" by (metis length_map)
    with i assms(1) have "fst (ms ! i) = k" by (metis fst_conv nth_map)
    moreover have "distinct (map fst ms)" using assms(1,2) by simp
    ultimately have "map_of ms k = Some (snd (ms ! i))"
      using i(1) len by (intro map_of_is_SomeI) (auto simp: in_set_conv_nth intro!: exI [of _ i])
    moreover have "p (snd (ms ! i))"
      using assms(3) i len by (auto simp: list_all2_conv_all_nth)
    ultimately show ?thesis by simp
  qed
  moreover have "fst m \<in> fst ` set req" if "m \<in> set ms" for m
    using assms(1) that by (metis image_eqI image_set)
  ultimately show ?thesis by (auto simp: zObject_def list_all_iff)
qed

section \<open>Third-party packages\<close>

type_synonym keyHandle = string

record lib =
  canonicalize :: "json \<Rightarrow> string"
  sha256hex :: "string \<Rightarrow> string"
  sha256b64 :: "string \<Rightarrow> string"
  validateJson :: "string \<Rightarrow> string + json"
  importJwk :: "json \<Rightarrow> keyHandle option"
  compactVerify :: "string \<Rightarrow> keyHandle \<Rightarrow> (json \<times> string) option"
  compactSign :: "json \<Rightarrow> string \<Rightarrow> keyHandle \<Rightarrow> string"
  keccak256 :: "string \<Rightarrow> string"

text \<open>
  The idealisation under which equal digests identify equal values, stated only for the two
  values at hand: SHA-256 over the canonical form does not collide on them.
\<close>

definition noCollision :: "(json \<Rightarrow> string) \<Rightarrow> json \<Rightarrow> json \<Rightarrow> bool" where
  "noCollision h a b \<longleftrightarrow> (h a = h b \<longrightarrow> a = b)"

end
