(* ===== verification/Protocol.thy ===== *)
theory Protocol
  imports Json
begin

text \<open>
  \<^verbatim>\<open>packages/protocol/src/index.ts\<close>: the message schemas of protocol version 1, canonical
  hashing, SDP and fingerprint normalisation, base64url, signing and verification of a payload,
  and the temporal validity every signed message is checked for.
\<close>

section \<open>Message schemas\<close>

definition MAX_SIGNED_MESSAGE_BYTES :: nat where
  "MAX_SIGNED_MESSAGE_BYTES = 32 * 1024"

definition safeUnixSeconds :: schema where
  "safeUnixSeconds = zInt (\<lambda>n. 0 \<le> n)"

definition identifierSchema :: schema where
  "identifierSchema = zString (lengthBetween 16 128)"

definition address :: schema where
  "address = zString isAddress"

definition decimalInteger :: schema where
  "decimalInteger = zString isDecimalInteger"

definition protocolBase :: "(string \<times> schema) list" where
  "protocolBase =
    [(''protocol'', zLiteral (JStr ''callsign'')),
     (''version'', zLiteral (JNum 1)),
     (''networkId'', decimalInteger),
     (''registryAddress'', address)]"

definition contactAuthorizationSchema :: schema where
  "contactAuthorizationSchema = zObject (protocolBase @
    [(''type'', zLiteral (JStr ''ContactAuthorization'')),
     (''authorizationId'', identifierSchema),
     (''institutionId'', identifierSchema),
     (''epoch'', decimalInteger),
     (''delegationId'', identifierSchema),
     (''recipientId'', identifierSchema),
     (''purposeCode'', zEnum [''CIVIL_REPLY'', ''DOCUMENT_SUPPLEMENT'']),
     (''officialTaskOpaqueId'', identifierSchema),
     (''issuedAt'', safeUnixSeconds),
     (''notBefore'', safeUnixSeconds),
     (''expiresAt'', safeUnixSeconds)]) []"

definition enrollmentProofSchema :: schema where
  "enrollmentProofSchema = zObject (protocolBase @
    [(''type'', zLiteral (JStr ''EnrollmentProof'')),
     (''recipientId'', identifierSchema),
     (''recipientSessionPublicKey'', zString (lengthBetween 32 128)),
     (''issuedAt'', safeUnixSeconds),
     (''expiresAt'', safeUnixSeconds)]) []"

definition recipientChallengeSchema :: schema where
  "recipientChallengeSchema = zObject (protocolBase @
    [(''type'', zLiteral (JStr ''RecipientChallenge'')),
     (''recipientId'', identifierSchema),
     (''recipientSessionPublicKey'', zString (lengthBetween 32 128)),
     (''enrollmentProof'', zString (lengthBetween 32 MAX_SIGNED_MESSAGE_BYTES)),
     (''sessionId'', identifierSchema),
     (''recipientNonce'', identifierSchema),
     (''issuedAt'', safeUnixSeconds),
     (''expiresAt'', safeUnixSeconds)]) []"

text \<open>\<^verbatim>\<open>/^[0-9A-F]{2}(?::[0-9A-F]{2}){31}$/\<close>: \<open>n\<close> pairs of digits separated by colons.\<close>

fun hexPairs :: "nat \<Rightarrow> string \<Rightarrow> bool" where
  "hexPairs (Suc 0) [a, b] \<longleftrightarrow> a \<in> set upperHexChars \<and> b \<in> set upperHexChars"
| "hexPairs (Suc (Suc n)) (a # b # c # s) \<longleftrightarrow>
     a \<in> set upperHexChars \<and> b \<in> set upperHexChars \<and> c = CHR '':'' \<and> hexPairs (Suc n) s"
| "hexPairs _ _ \<longleftrightarrow> False"

definition isFingerprint :: "string \<Rightarrow> bool" where
  "isFingerprint s \<longleftrightarrow> hexPairs 32 s"

definition fingerprint :: schema where
  "fingerprint = zString isFingerprint"

definition sha256Hex :: schema where
  "sha256Hex = zString isHex64"

definition sessionBindingSchema :: schema where
  "sessionBindingSchema = zObject (protocolBase @
    [(''type'', zLiteral (JStr ''SessionBinding'')),
     (''authorizationHash'', sha256Hex),
     (''sessionId'', identifierSchema),
     (''institutionId'', identifierSchema),
     (''epoch'', decimalInteger),
     (''delegationId'', identifierSchema),
     (''recipientId'', identifierSchema),
     (''recipientNonce'', identifierSchema),
     (''recipientSessionKeyHash'', sha256Hex),
     (''gatewayFingerprint'', fingerprint),
     (''receiverFingerprint'', fingerprint),
     (''fingerprintAlgorithm'', zLiteral (JStr ''sha-256'')),
     (''transportProfile'', zLiteral (JStr ''webrtc-bundle-v1'')),
     (''offerSdpHash'', sha256Hex),
     (''answerSdpHash'', sha256Hex),
     (''issuedAt'', safeUnixSeconds),
     (''expiresAt'', safeUnixSeconds)]) []"

definition consumptionReceiptSchema :: schema where
  "consumptionReceiptSchema = zObject (protocolBase @
    [(''type'', zLiteral (JStr ''ConsumptionReceipt'')),
     (''authorizationId'', identifierSchema),
     (''authorizationHash'', sha256Hex),
     (''bindingHash'', sha256Hex),
     (''recipientId'', identifierSchema),
     (''sessionId'', identifierSchema),
     (''consumedAt'', safeUnixSeconds),
     (''expiresAt'', safeUnixSeconds)]) []"

definition gatewayConsumeRequestSchema :: schema where
  "gatewayConsumeRequestSchema = zObject (protocolBase @
    [(''type'', zLiteral (JStr ''GatewayConsumeRequest'')),
     (''role'', zLiteral (JStr ''gateway'')),
     (''authorizationId'', identifierSchema),
     (''authorizationHash'', sha256Hex),
     (''bindingHash'', sha256Hex),
     (''recipientChallengeHash'', sha256Hex),
     (''sessionId'', identifierSchema),
     (''issuedAt'', safeUnixSeconds),
     (''expiresAt'', safeUnixSeconds)]) []"

definition sessionProofSchema :: schema where
  "sessionProofSchema = zObject (protocolBase @
    [(''type'', zLiteral (JStr ''SessionProof'')),
     (''role'', zLiteral (JStr ''gateway'')),
     (''bindingHash'', sha256Hex),
     (''consumptionReceiptHash'', sha256Hex),
     (''binding'', sessionBindingSchema),
     (''issuedAt'', safeUnixSeconds),
     (''expiresAt'', safeUnixSeconds)]) []"

definition transportTranscriptSchema :: schema where
  "transportTranscriptSchema = zObject (protocolBase @
    [(''type'', zLiteral (JStr ''TransportTranscript'')),
     (''role'', zEnum [''gateway'', ''receiver'']),
     (''bindingHash'', sha256Hex),
     (''receiverNonce'', identifierSchema),
     (''gatewayNonce'', identifierSchema),
     (''issuedAt'', safeUnixSeconds),
     (''expiresAt'', safeUnixSeconds)]) []"

section \<open>Identifiers and hashes\<close>

text \<open>\<open>hex\<close> is the hexadecimal text of the sixteen random bytes.\<close>

definition randomId :: "string \<Rightarrow> string \<Rightarrow> string" where
  "randomId pre hex = pre @ ''_'' @ hex"

definition canonicalBytes :: "lib \<Rightarrow> json \<Rightarrow> string" where
  "canonicalBytes L v = canonicalize L v"

definition hashCanonical :: "lib \<Rightarrow> json \<Rightarrow> string" where
  "hashCanonical L v = sha256hex L (canonicalBytes L v)"

definition CR :: char where "CR = char_of (13::nat)"
definition LF :: char where "LF = char_of (10::nat)"

text \<open>\<^verbatim>\<open>sdp.replace(/\r?\n/g, "\r\n")\<close>\<close>

fun crlf :: "string \<Rightarrow> string" where
  "crlf [] = []"
| "crlf [c] = (if c = LF then [CR, LF] else [c])"
| "crlf (c # d # s) =
     (if c = CR \<and> d = LF then CR # LF # crlf s
      else if c = LF then CR # LF # crlf (d # s)
      else c # crlf (d # s))"

definition hashSdp :: "lib \<Rightarrow> string \<Rightarrow> string" where
  "hashSdp L sdp = sha256hex L (crlf sdp)"

section \<open>Fingerprints\<close>

text \<open>\<^verbatim>\<open>replace(/^sha-256\s+/i, "")\<close>\<close>

definition stripAlgorithm :: "string \<Rightarrow> string" where
  "stripAlgorithm s =
     (if toLowerCase (take 7 s) = ''sha-256'' \<and> takeWhile isSpace (drop 7 s) \<noteq> []
      then dropWhile isSpace (drop 7 s) else s)"

text \<open>\<^verbatim>\<open>compact.match(/.{2}/g)!.join(":")\<close>\<close>

fun joinPairs :: "string \<Rightarrow> string" where
  "joinPairs (a # b # c # s) = a # b # CHR '':'' # joinPairs (c # s)"
| "joinPairs s = s"

definition compactFingerprint :: "string \<Rightarrow> string" where
  "compactFingerprint input = toUpperCase (filter (\<lambda>c. c \<noteq> CHR '':'' \<and> c \<noteq> CHR ''-'')
     (stripAlgorithm (trim input)))"

definition normalizeFingerprint :: "string \<Rightarrow> string result" where
  "normalizeFingerprint input =
     (let compact = compactFingerprint input in
      if \<not> (length compact = 64 \<and> allIn upperHexChars compact)
      then Inl (Error ''INVALID_SHA256_FINGERPRINT'')
      else Inr (joinPairs compact))"

text \<open>
  One match of \<^verbatim>\<open>/^a=fingerprint:sha-256\s+([^\r\n]+)$/im\<close> at the start of a line: the captured
  value and the text after the match. When the white space runs to the end of the text, the
  expression gives back white space until the capture has a character that is not a line break.
\<close>

definition fingerprintLine :: "string \<Rightarrow> (string \<times> string) option" where
  "fingerprintLine s =
     (if toLowerCase (take 21 s) \<noteq> ''a=fingerprint:sha-256'' then None
      else
        let w = takeWhile isSpace (drop 21 s); r = dropWhile isSpace (drop 21 s) in
        if w = [] then None
        else if r \<noteq> [] then
          Some (takeWhile (\<lambda>c. \<not> isLineBreak c) r, dropWhile (\<lambda>c. \<not> isLineBreak c) r)
        else
          (case rev (filter (\<lambda>k. \<not> isLineBreak (w ! k)) [1 ..< length w]) of
             [] \<Rightarrow> None
           | k # _ \<Rightarrow> Some (takeWhile (\<lambda>c. \<not> isLineBreak c) (drop k w),
                            dropWhile (\<lambda>c. \<not> isLineBreak c) (drop k w))))"

lemma length_fingerprintLine: "fingerprintLine s = Some (v, r) \<Longrightarrow> length r < length s"
proof -
  assume fl: "fingerprintLine s = Some (v, r)"
  then have "toLowerCase (take 21 s) = ''a=fingerprint:sha-256''"
    by (auto simp: fingerprintLine_def split: if_splits)
  then have "length (toLowerCase (take 21 s)) = 21" by simp
  then have len: "21 \<le> length s" by simp
  have "length r \<le> length (drop 21 s)"
  proof (cases "dropWhile isSpace (drop 21 s) \<noteq> []")
    case True
    with fl have "r = dropWhile (\<lambda>c. \<not> isLineBreak c) (dropWhile isSpace (drop 21 s))"
      by (auto simp: fingerprintLine_def Let_def split: if_splits)
    then show ?thesis by (metis length_dropWhile_le order_trans)
  next
    case False
    with fl obtain k where
      "r = dropWhile (\<lambda>c. \<not> isLineBreak c) (drop k (takeWhile isSpace (drop 21 s)))"
      by (auto simp: fingerprintLine_def Let_def split: if_splits list.splits)
    then have "length r \<le> length (drop k (takeWhile isSpace (drop 21 s)))"
      by (simp only: length_dropWhile_le)
    also have "\<dots> \<le> length (drop 21 s)"
      using length_takeWhile_le [of isSpace "drop 21 s"] by simp
    finally show ?thesis .
  qed
  with len show ?thesis by simp
qed

text \<open>\<^verbatim>\<open>sdp.matchAll(...)\<close>; the flag says whether the position is at the start of a line.\<close>

function sdpFingerprints :: "bool \<Rightarrow> string \<Rightarrow> string list" where
  "sdpFingerprints atStart [] = []"
| "sdpFingerprints atStart (c # s) =
     (case (if atStart then fingerprintLine (c # s) else None) of
        Some m \<Rightarrow> fst m # sdpFingerprints False (snd m)
      | None \<Rightarrow> sdpFingerprints (isLineBreak c) s)"
  by pat_completeness auto
termination
  by (relation "measure (\<lambda>(b, s). length s)")
     (auto split: if_splits dest!: length_fingerprintLine)

definition extractSingleSdpFingerprint :: "string \<Rightarrow> string result" where
  "extractSingleSdpFingerprint sdp =
     bindE (mapE normalizeFingerprint (sdpFingerprints True sdp)) (\<lambda>values.
       case remdups values of
         [] \<Rightarrow> Inl (Error ''MISSING_SHA256_FINGERPRINT'')
       | [f] \<Rightarrow> Inr f
       | _ \<Rightarrow> Inl (Error ''CONFLICTING_SHA256_FINGERPRINTS''))"

section \<open>Parsing, signing and verifying\<close>

definition parseJsonNoDuplicateKeys :: "lib \<Rightarrow> string \<Rightarrow> json result" where
  "parseJsonNoDuplicateKeys L raw =
     (if \<not> isUtf8 raw then Inl LibraryError
      else if length raw > MAX_SIGNED_MESSAGE_BYTES then Inl (Error ''MESSAGE_TOO_LARGE'')
      else case validateJson L raw of
        Inl e \<Rightarrow> Inl (Error (''INVALID_JSON:'' @ e))
      | Inr v \<Rightarrow> Inr v)"

definition messageTyp :: "string \<Rightarrow> string" where
  "messageTyp t = ''callsign/'' @ t @ ''+jws''"

definition protectedHeader :: "string \<Rightarrow> string \<Rightarrow> json" where
  "protectedHeader t kid =
     JObj [(''alg'', JStr ''EdDSA''), (''typ'', JStr (messageTyp t)), (''kid'', JStr kid)]"

definition signPayload :: "lib \<Rightarrow> json \<Rightarrow> keyHandle \<Rightarrow> string \<Rightarrow> string" where
  "signPayload L payload privateKey kid =
     compactSign L (protectedHeader (jstr payload ''type'') kid) (canonicalBytes L payload) privateKey"

definition verifyPayload :: "lib \<Rightarrow> string \<Rightarrow> keyHandle \<Rightarrow> string \<Rightarrow> string \<Rightarrow> schema \<Rightarrow> json result" where
  "verifyPayload L jws publicKey ty kid schema =
     (if length jws > MAX_SIGNED_MESSAGE_BYTES then Inl (Error ''MESSAGE_TOO_LARGE'')
      else bindE (ofOption LibraryError (compactVerify L jws publicKey)) (\<lambda>r.
        let header = fst r in
        if \<not> isStr header ''alg'' ''EdDSA'' \<or> \<not> isStr header ''typ'' (messageTyp ty) \<or>
           \<not> isStr header ''kid'' kid
        then Inl (Error ''INVALID_PROTECTED_HEADER'')
        else bindE (parseJsonNoDuplicateKeys L (snd r)) (\<lambda>parsed.
          bindE (parseWith schema parsed) (\<lambda>v.
            if \<not> isStr v ''type'' ty then Inl (Error ''TYPE_CONFUSION'') else Inr v))))"

definition assertTemporalValidity :: "json \<Rightarrow> int \<Rightarrow> unit result" where
  "assertTemporalValidity v nowSeconds =
     (let issuedAt = jnum v ''issuedAt''; expiresAt = jnum v ''expiresAt'';
          notBefore = jget v ''notBefore'' in
      if \<not> isSafeInteger nowSeconds then Inl (Error ''INVALID_CLOCK'')
      else if issuedAt > nowSeconds then Inl (Error ''FUTURE_ISSUED_AT'')
      else if expiresAt \<le> issuedAt then Inl (Error ''INVALID_TIME_ORDER'')
      else if notBefore \<noteq> None \<and> jnum v ''notBefore'' < issuedAt
        then Inl (Error ''INVALID_TIME_ORDER'')
      else if notBefore \<noteq> None \<and> nowSeconds < jnum v ''notBefore''
        then Inl (Error ''NOT_YET_VALID'')
      else if nowSeconds \<ge> expiresAt then Inl (Error ''EXPIRED'')
      else Inr ())"

section \<open>Line endings\<close>

lemma crlf_ends: "CR \<noteq> LF" by (simp add: CR_def LF_def)

lemma crlf_head: "crlf s = c # t \<Longrightarrow> c \<noteq> LF"
  by (induction s rule: crlf.induct) (auto simp: crlf_ends split: if_splits)

lemma crlf_Cons_other: "c \<noteq> CR \<Longrightarrow> c \<noteq> LF \<Longrightarrow> crlf (c # s) = c # crlf s"
  by (cases s) auto

lemma crlf_Cons_CR: "(\<And>c t. s = c # t \<Longrightarrow> c \<noteq> LF) \<Longrightarrow> crlf (CR # s) = CR # crlf s"
  by (cases s) (auto simp: crlf_ends)

lemma crlf_CRLF: "crlf (CR # LF # s) = CR # LF # crlf s"
  by simp

lemma crlf_LF: "crlf (LF # s) = CR # LF # crlf s"
  using crlf_ends by (cases s) auto

lemma crlf_idem: "crlf (crlf s) = crlf s"
proof (induction s rule: crlf.induct)
  case 1
  then show ?case by simp
next
  case (2 c)
  then show ?case by (simp add: crlf_ends)
next
  case (3 c d s)
  consider (crlf) "c = CR" "d = LF" | (lf) "c = LF" | (other) "c \<noteq> LF" "\<not> (c = CR \<and> d = LF)"
    by blast
  then show ?case
  proof cases
    case crlf
    with 3(1) show ?thesis by simp
  next
    case lf
    with 3(2) crlf_ends show ?thesis by (simp add: crlf_CRLF)
  next
    case other
    then have eq: "crlf (c # d # s) = c # crlf (d # s)" by auto
    have "crlf (c # crlf (d # s)) = c # crlf (crlf (d # s))"
    proof (cases "c = CR")
      case True
      then show ?thesis by (auto intro: crlf_Cons_CR dest: crlf_head)
    next
      case False
      with other show ?thesis by (simp add: crlf_Cons_other)
    qed
    with eq 3(3) other show ?thesis by auto
  qed
qed

section \<open>Fingerprint lemmas\<close>

lemma upperHex_not_space: "c \<in> set upperHexChars \<Longrightarrow> \<not> isSpace c"
  by (auto simp: upperHexChars_def isSpace_def Let_def)

lemma upperHex_not_sep: "c \<in> set upperHexChars \<Longrightarrow> c \<noteq> CHR '':'' \<and> c \<noteq> CHR ''-''"
  by (auto simp: upperHexChars_def)

lemma upperHex_toUpper: "c \<in> set upperHexChars \<Longrightarrow> toUpper c = c"
  by (auto simp: upperHexChars_def toUpper_def Let_def)

lemma upperHex_toLower_s: "c \<in> set upperHexChars \<Longrightarrow> toLower c \<noteq> CHR ''s''"
  by (auto simp: upperHexChars_def toLower_def Let_def char_of_def)

lemma hexPairs_joinPairs:
  "length s = 2 * Suc n \<Longrightarrow> allIn upperHexChars s \<Longrightarrow> hexPairs (Suc n) (joinPairs s)"
proof (induction n arbitrary: s)
  case 0
  then obtain a b where "s = [a, b]" by (auto simp: length_Suc_conv numeral_2_eq_2)
  with 0 show ?case by simp
next
  case (Suc n)
  then obtain a b c t where s: "s = a # b # c # t"
    by (auto simp: length_Suc_conv numeral_2_eq_2)
  with Suc show ?case by simp
qed

lemma hexPairs_inverse:
  "hexPairs n f \<Longrightarrow>
   joinPairs (filter (\<lambda>c. c \<noteq> CHR '':'' \<and> c \<noteq> CHR ''-'') f) = f \<and>
   length (filter (\<lambda>c. c \<noteq> CHR '':'' \<and> c \<noteq> CHR ''-'') f) = 2 * n \<and>
   allIn upperHexChars (filter (\<lambda>c. c \<noteq> CHR '':'' \<and> c \<noteq> CHR ''-'') f)"
proof (induction n f rule: hexPairs.induct)
  case (2 n a b c s)
  let ?g = "filter (\<lambda>c. c \<noteq> CHR '':'' \<and> c \<noteq> CHR ''-'')"
  from 2 have ih: "joinPairs (?g s) = s" "length (?g s) = 2 * Suc n" "allIn upperHexChars (?g s)"
    by auto
  from ih(2) obtain d t where "?g s = d # t" by (cases "?g s") auto
  with 2 ih show ?case using upperHex_not_sep [of a] upperHex_not_sep [of b] by auto
qed (auto dest: upperHex_not_sep)

lemma hexPairs_ends:
  "hexPairs n f \<Longrightarrow> f \<noteq> [] \<and> hd f \<in> set upperHexChars \<and> last f \<in> set upperHexChars"
  by (induction n f rule: hexPairs.induct) auto

lemma trim_no_space: "f \<noteq> [] \<Longrightarrow> \<not> isSpace (hd f) \<Longrightarrow> \<not> isSpace (last f) \<Longrightarrow> trim f = f"
proof -
  assume f: "f \<noteq> []" "\<not> isSpace (hd f)" "\<not> isSpace (last f)"
  then have "dropWhile isSpace f = f" by (cases f) auto
  moreover have "dropWhile isSpace (rev f) = rev f"
    using f by (cases f rule: rev_cases) auto
  ultimately show ?thesis by (simp add: trim_def)
qed

lemma normalizeFingerprint_ok: "normalizeFingerprint s = Inr f \<Longrightarrow> isFingerprint f"
  using hexPairs_joinPairs [of "compactFingerprint s" 31]
  by (auto simp: normalizeFingerprint_def isFingerprint_def Let_def split: if_splits)

lemma normalizeFingerprint_fixed:
  assumes "isFingerprint f" shows "normalizeFingerprint f = Inr f"
proof -
  from assms have hp: "hexPairs 32 f" by (simp add: isFingerprint_def)
  let ?g = "filter (\<lambda>c. c \<noteq> CHR '':'' \<and> c \<noteq> CHR ''-'') f"
  from hexPairs_inverse [OF hp]
  have g: "joinPairs ?g = f" "length ?g = 64" "allIn upperHexChars ?g" by simp_all
  from hexPairs_ends [OF hp] have ends: "f \<noteq> []" "hd f \<in> set upperHexChars"
    "last f \<in> set upperHexChars" by auto
  then have "trim f = f" by (auto intro!: trim_no_space dest: upperHex_not_space)
  moreover have "stripAlgorithm f = f"
    using ends upperHex_toLower_s [of "hd f"]
    by (cases f) (auto simp: stripAlgorithm_def toLowerCase_def)
  moreover have "toUpperCase ?g = ?g"
    using g(3) unfolding toUpperCase_def allIn_def list_all_iff
    by (intro map_idI) (auto dest: upperHex_toUpper)
  ultimately have "compactFingerprint f = ?g" by (simp add: compactFingerprint_def)
  with g show ?thesis by (simp add: normalizeFingerprint_def)
qed

lemma remdups_singleton: "remdups xs = [f] \<longleftrightarrow> xs \<noteq> [] \<and> (\<forall>x \<in> set xs. x = f)"
proof
  assume "remdups xs = [f]"
  then have "set (remdups xs) = {f}" by simp
  then have "set xs = {f}" by (simp only: set_remdups)
  then show "xs \<noteq> [] \<and> (\<forall>x \<in> set xs. x = f)" by auto
next
  assume "xs \<noteq> [] \<and> (\<forall>x \<in> set xs. x = f)"
  then have "set xs \<noteq> {}" "set xs \<subseteq> {f}" by (simp, blast)
  then have "set xs = {f}" by (simp only: subset_singleton_iff) simp
  then have f: "set (remdups xs) = {f}" by (simp only: set_remdups)
  then obtain y ys where r: "remdups xs = y # ys" by (cases "remdups xs") simp_all
  with distinct_remdups [of xs] have "y \<notin> set ys" by simp
  moreover from r f have "y = f" "set ys \<subseteq> {f}" by auto
  ultimately show "remdups xs = [f]" using r by (cases ys) auto
qed

section \<open>Verified payloads\<close>

lemma verifyPayload_eq_Inr:
  "(verifyPayload L jws k ty kid schema = Inr v) \<longleftrightarrow>
   length jws \<le> MAX_SIGNED_MESSAGE_BYTES \<and>
   (\<exists>header payload. compactVerify L jws k = Some (header, payload) \<and>
      isStr header ''alg'' ''EdDSA'' \<and> isStr header ''typ'' (messageTyp ty) \<and>
      isStr header ''kid'' kid \<and> parseJsonNoDuplicateKeys L payload = Inr v \<and>
      schema v \<and> isStr v ''type'' ty)"
  by (auto simp: verifyPayload_def Let_def result_simps not_less)

lemma verifyPayload_type: "verifyPayload L jws k ty kid schema = Inr v \<Longrightarrow> isStr v ''type'' ty"
  and verifyPayload_schema: "verifyPayload L jws k ty kid schema = Inr v \<Longrightarrow> schema v"
  by (auto simp: verifyPayload_eq_Inr)

lemma messageTyp_inject: "messageTyp a = messageTyp b \<Longrightarrow> a = b"
  by (simp add: messageTyp_def)

lemma protectedHeader_members [simp]:
  "isStr (protectedHeader ty kid) ''alg'' ''EdDSA''"
  "isStr (protectedHeader ty kid) ''typ'' (messageTyp ty)"
  "isStr (protectedHeader ty kid) ''kid'' kid"
  by (simp_all add: isStr_def jget_def protectedHeader_def)

section \<open>Temporal validity\<close>

lemma assertTemporalValidity_iff:
  "assertTemporalValidity v t = Inr () \<longleftrightarrow>
   isSafeInteger t \<and> jnum v ''issuedAt'' \<le> t \<and> t < jnum v ''expiresAt'' \<and>
   (jget v ''notBefore'' \<noteq> None \<longrightarrow>
      jnum v ''issuedAt'' \<le> jnum v ''notBefore'' \<and> jnum v ''notBefore'' \<le> t)"
  by (auto simp: assertTemporalValidity_def Let_def)

lemma temporal_window:
  "assertTemporalValidity v t = Inr () \<Longrightarrow> jnum v ''issuedAt'' \<le> t \<and> t < jnum v ''expiresAt''"
  by (simp add: assertTemporalValidity_iff)

end
