(* ===== verification/Base64.thy ===== *)
theory Base64
  imports Protocol
begin

text \<open>
  The base64url codec of \<^verbatim>\<open>packages/protocol/src/index.ts\<close>, over the platform functions
  \<^verbatim>\<open>btoa\<close> and \<^verbatim>\<open>atob\<close>, and the key identifier derived from a public key with it. A byte is a
  \<open>nat\<close> below 256.
\<close>

definition b64alphabet :: string where
  "b64alphabet = ''ABCDEFGHIJKLMNOPQRSTUVWXYZabcdefghijklmnopqrstuvwxyz0123456789+/''"

definition b64char :: "nat \<Rightarrow> char" where
  "b64char n = (if n < 64 then b64alphabet ! n else CHR ''='')"

fun indexOf :: "char \<Rightarrow> string \<Rightarrow> nat option" where
  "indexOf c [] = None"
| "indexOf c (d # s) = (if c = d then Some 0 else map_option Suc (indexOf c s))"

definition b64value :: "char \<Rightarrow> nat option" where
  "b64value c = indexOf c b64alphabet"

fun btoa :: "nat list \<Rightarrow> string" where
  "btoa [] = []"
| "btoa [a] = [b64char (a div 4), b64char (a mod 4 * 16), CHR ''='', CHR ''='']"
| "btoa [a, b] =
     [b64char (a div 4), b64char (a mod 4 * 16 + b div 16), b64char (b mod 16 * 4), CHR ''='']"
| "btoa (a # b # c # r) =
     b64char (a div 4) # b64char (a mod 4 * 16 + b div 16) #
     b64char (b mod 16 * 4 + c div 64) # b64char (c mod 64) # btoa r"

text \<open>The decoding of six-bit values: a last group of two or three values is one or two bytes.\<close>

fun sextets :: "nat list \<Rightarrow> nat list" where
  "sextets (a # b # c # d # r) =
     (a * 4 + b div 16) # (b mod 16 * 16 + c div 4) # (c mod 4 * 64 + d) # sextets r"
| "sextets [a, b, c] = [a * 4 + b div 16, b mod 16 * 16 + c div 4]"
| "sextets [a, b] = [a * 4 + b div 16]"
| "sextets _ = []"

definition stripPadding :: "string \<Rightarrow> string" where
  "stripPadding s =
     (if length s mod 4 = 0 then
        (if take 2 (rev s) = ''=='' then take (length s - 2) s
         else if take 1 (rev s) = ''='' then take (length s - 1) s else s)
      else s)"

fun valuesOf :: "string \<Rightarrow> nat list option" where
  "valuesOf [] = Some []"
| "valuesOf (c # s) =
     (case b64value c of None \<Rightarrow> None | Some n \<Rightarrow> map_option (Cons n) (valuesOf s))"

text \<open>The forgiving-base64 decode behind \<^verbatim>\<open>atob\<close>; \<open>None\<close> is its InvalidCharacterError.\<close>

definition atob :: "string \<Rightarrow> nat list option" where
  "atob s =
     (let t = stripPadding (filter (\<lambda>c. \<not> isSpace c) s) in
      if length t mod 4 = 1 then None else map_option sextets (valuesOf t))"

definition padEnd :: "string \<Rightarrow> nat \<Rightarrow> string" where
  "padEnd s n = s @ replicate (n - length s) (CHR ''='')"

definition replaceChar :: "char \<Rightarrow> char \<Rightarrow> string \<Rightarrow> string" where
  "replaceChar a b = map (\<lambda>c. if c = a then b else c)"

definition base64urlToBytes :: "string \<Rightarrow> nat list result" where
  "base64urlToBytes v =
     ofOption LibraryError (atob
       (padEnd (replaceChar (CHR ''_'') (CHR ''/'') (replaceChar (CHR ''-'') (CHR ''+'') v))
          ((length v + 3) div 4 * 4)))"

definition bytesToBase64url :: "nat list \<Rightarrow> string" where
  "bytesToBase64url bs =
     rev (dropWhile (\<lambda>c. c = CHR ''='')
       (rev (replaceChar (CHR ''/'') (CHR ''_'') (replaceChar (CHR ''+'') (CHR ''-'') (btoa bs)))))"

text \<open>The key identifier computed by \<^verbatim>\<open>generateEd25519KeyPair\<close>; \<open>sha\<close> is SHA-256 on bytes.\<close>

definition ed25519Kid :: "(nat list \<Rightarrow> nat list) \<Rightarrow> string \<Rightarrow> string result" where
  "ed25519Kid sha x =
     bindE (base64urlToBytes x) (\<lambda>raw. Inr (take 22 (bytesToBase64url (sha raw))))"

section \<open>The alphabet\<close>

definition urlChar :: "char \<Rightarrow> char" where
  "urlChar c = (if c = CHR ''+'' then CHR ''-'' else if c = CHR ''/'' then CHR ''_'' else c)"

definition stdChar :: "char \<Rightarrow> char" where
  "stdChar c = (if c = CHR ''-'' then CHR ''+'' else if c = CHR ''_'' then CHR ''/'' else c)"

lemma indexOf_nth: "distinct s \<Longrightarrow> n < length s \<Longrightarrow> indexOf (s ! n) s = Some n"
  by (induction s arbitrary: n) (auto simp: nth_Cons split: nat.splits)

lemma b64_facts:
  "length b64alphabet = 64" "distinct b64alphabet" "CHR ''='' \<notin> set b64alphabet"
  "CHR ''-'' \<notin> set b64alphabet" "CHR ''_'' \<notin> set b64alphabet"
  "list_all (\<lambda>c. \<not> isSpace c) b64alphabet"
  by (simp_all add: b64alphabet_def isSpace_def Let_def)

lemma b64value_b64char: "n < 64 \<Longrightarrow> b64value (b64char n) = Some n"
  by (simp add: b64value_def b64char_def indexOf_nth b64_facts)

lemma b64char_in: "n < 64 \<Longrightarrow> b64char n \<in> set b64alphabet"
  by (simp add: b64char_def b64_facts(1))

lemma alphabet_char:
  assumes "c \<in> set b64alphabet"
  shows "stdChar (urlChar c) = c" "urlChar c \<noteq> CHR ''=''" "\<not> isSpace c" "c \<noteq> CHR ''=''"
  using assms b64_facts(3-6) unfolding list_all_iff stdChar_def urlChar_def by auto

text \<open>The unpadded digits of a byte sequence.\<close>

fun digits64 :: "nat list \<Rightarrow> nat list" where
  "digits64 [] = []"
| "digits64 [a] = [a div 4, a mod 4 * 16]"
| "digits64 [a, b] = [a div 4, a mod 4 * 16 + b div 16, b mod 16 * 4]"
| "digits64 (a # b # c # r) =
     a div 4 # (a mod 4 * 16 + b div 16) # (b mod 16 * 4 + c div 64) # c mod 64 # digits64 r"

definition isByte :: "nat \<Rightarrow> bool" where "isByte n \<longleftrightarrow> n < 256"

lemma digits64_small: "list_all isByte bs \<Longrightarrow> list_all (\<lambda>n. n < 64) (digits64 bs)"
  by (induction bs rule: digits64.induct) (auto simp: isByte_def)

lemma sextets_digits64: "list_all isByte bs \<Longrightarrow> sextets (digits64 bs) = bs"
proof (induction bs rule: digits64.induct)
  case (4 a b c r)
  then have "(a mod 4 * 16 + b div 16) div 16 = a mod 4"
    "(a mod 4 * 16 + b div 16) mod 16 = b div 16"
    "(b mod 16 * 4 + c div 64) div 4 = b mod 16" "(b mod 16 * 4 + c div 64) mod 4 = c div 64"
    by (auto simp: isByte_def)
  with 4 show ?case by simp
qed (auto simp: isByte_def)

lemma digits64_mod: "length (digits64 bs) mod 4 \<noteq> 1"
proof (induction bs rule: digits64.induct)
  case (4 a b c r)
  then show ?case by simp
qed auto

definition padding :: "nat list \<Rightarrow> string" where
  "padding bs = replicate ((length (digits64 bs) + 3) div 4 * 4 - length (digits64 bs)) (CHR ''='')"

lemma btoa_digits64: "list_all isByte bs \<Longrightarrow> btoa bs = map b64char (digits64 bs) @ padding bs"
proof (induction bs rule: digits64.induct)
  case (4 a b c r)
  have "(length (digits64 r) + 4 + 3) div 4 * 4 - (length (digits64 r) + 4) =
      (length (digits64 r) + 3) div 4 * 4 - length (digits64 r)" by presburger
  then have "padding (a # b # c # r) = padding r" by (simp add: padding_def)
  with 4 show ?case by simp
qed (auto simp: padding_def numeral_2_eq_2)

section \<open>Round trip\<close>

lemma replace_url: "replaceChar (CHR ''/'') (CHR ''_'') (replaceChar (CHR ''+'') (CHR ''-'') s) = map urlChar s"
  by (auto simp: replaceChar_def urlChar_def)

lemma replace_std: "replaceChar (CHR ''_'') (CHR ''/'') (replaceChar (CHR ''-'') (CHR ''+'') s) = map stdChar s"
  by (auto simp: replaceChar_def stdChar_def)

lemma dropWhile_replicate_eq:
  "list_all (\<lambda>c. c \<noteq> x) s \<Longrightarrow> dropWhile (\<lambda>c. c = x) (replicate n x @ s) = s"
proof (induction n)
  case 0
  then show ?case by (cases s) auto
qed auto

lemma list_all_chars:
  "list_all (\<lambda>n. n < 64) ds \<Longrightarrow> list_all (\<lambda>c. c \<in> set b64alphabet) (map b64char ds)"
  by (auto simp: list_all_iff b64char_in)

lemma bytesToBase64url_digits64:
  assumes "list_all isByte bs"
  shows "bytesToBase64url bs = map urlChar (map b64char (digits64 bs))"
proof -
  have no_eq: "list_all (\<lambda>c. c \<noteq> CHR ''='') (rev (map urlChar (map b64char (digits64 bs))))"
    using list_all_chars [OF digits64_small [OF assms]] alphabet_char(2)
    by (auto simp: list_all_iff)
  have "map urlChar (padding bs) = padding bs"
    by (simp add: padding_def urlChar_def)
  then have "bytesToBase64url bs =
      rev (dropWhile (\<lambda>c. c = CHR ''='') (padding bs @ rev (map urlChar (map b64char (digits64 bs)))))"
    unfolding bytesToBase64url_def replace_url btoa_digits64 [OF assms] map_append rev_append
    by (simp add: padding_def urlChar_def)
  then show ?thesis
    unfolding padding_def dropWhile_replicate_eq [OF no_eq] by simp
qed

lemma valuesOf_chars: "list_all (\<lambda>n. n < 64) ds \<Longrightarrow> valuesOf (map b64char ds) = Some ds"
  by (induction ds) (auto simp: b64value_b64char)

lemma stripPadding_chars:
  assumes "list_all (\<lambda>c. c \<noteq> CHR ''='') s" and "n \<le> 2" and "(length s + n) mod 4 = 0"
  shows "stripPadding (s @ replicate n (CHR ''='')) = s"
proof -
  from assms(2) consider "n = 0" | "n = 1" | "n = 2" by linarith
  then show ?thesis
  proof cases
    case 1
    with assms show ?thesis
      by (cases s rule: rev_cases) (auto simp: stripPadding_def)
  next
    case 2
    with assms show ?thesis
      by (cases s rule: rev_cases) (auto simp: stripPadding_def)
  next
    case 3
    then have "replicate n (CHR ''='') = ''==''" by (simp add: numeral_2_eq_2)
    with 3 assms show ?thesis by (simp add: stripPadding_def)
  qed
qed

lemma base64url_roundtrip:
  assumes "list_all isByte bs"
  shows "base64urlToBytes (bytesToBase64url bs) = Inr bs"
proof -
  let ?ds = "digits64 bs" and ?n = "(length (digits64 bs) + 3) div 4 * 4 - length (digits64 bs)"
  let ?s = "map b64char ?ds"
  note small = digits64_small [OF assms]
  have chars: "\<forall>c \<in> set ?s. c \<in> set b64alphabet"
    using list_all_chars [OF small] by (simp add: list_all_iff)
  have std: "map stdChar (map urlChar ?s) = ?s"
    using map_idI [of ?s "stdChar \<circ> urlChar"] chars alphabet_char(1) by simp
  have "filter (\<lambda>c. \<not> isSpace c) (?s @ replicate ?n (CHR ''='')) = ?s @ replicate ?n (CHR ''='')"
    using chars alphabet_char(3) by (auto simp: filter_id_conv isSpace_def Let_def)
  moreover have "stripPadding (?s @ replicate ?n (CHR ''='')) = ?s"
  proof (rule stripPadding_chars)
    show "list_all (\<lambda>c. c \<noteq> CHR ''='') ?s" using chars alphabet_char(4) by (auto simp: list_all_iff)
    show "?n \<le> 2" using digits64_mod [of bs] by presburger
    show "(length ?s + ?n) mod 4 = 0" unfolding length_map by presburger
  qed
  ultimately have "atob (padEnd ?s ((length ?ds + 3) div 4 * 4)) = Some bs"
    using digits64_mod [of bs]
    by (simp add: atob_def padEnd_def valuesOf_chars [OF small] sextets_digits64 [OF assms])
  then show ?thesis
    unfolding base64urlToBytes_def bytesToBase64url_digits64 [OF assms] replace_std std
    by simp
qed

lemma bytesToBase64url_alphabet:
  assumes "list_all isByte bs" and "c \<in> set (bytesToBase64url bs)"
  shows "c \<in> set b64alphabet \<or> c = CHR ''-'' \<or> c = CHR ''_''"
proof -
  from assms(2) obtain n where n: "n \<in> set (digits64 bs)" "c = urlChar (b64char n)"
    by (auto simp: bytesToBase64url_digits64 [OF assms(1)])
  with digits64_small [OF assms(1)] have "b64char n \<in> set b64alphabet"
    by (auto simp: list_all_iff b64char_in)
  with n show ?thesis by (auto simp: urlChar_def)
qed

end
