(* ===== verification/Scenario.thy ===== *)
theory Scenario
  imports Protocol
begin

text \<open>
  A concrete instance of the third-party packages, small enough to evaluate: a compact
  serialisation is the four parts key, typ, kid and payload, separated by bars, and verifying it
  compares the key; the canonical text of a value is made of the members that identify it; the
  digest repeats one hexadecimal digit. The theorems of the other theories hold for every
  \<open>lib\<close>; this one shows that their hypotheses can be met.
\<close>

definition bar :: char where "bar = CHR ''|''"

definition demoCanonical :: "json \<Rightarrow> string" where
  "demoCanonical v = jstr v ''type'' @ ''.'' @ jstr v ''x'' @ jstr v ''blockHash''"

definition demoSha :: "string \<Rightarrow> string" where
  "demoSha s = replicate 64 (lowerHexChars ! (length s mod 16))"

definition demoSign :: "json \<Rightarrow> string \<Rightarrow> keyHandle \<Rightarrow> string" where
  "demoSign header payload key =
     key @ [bar] @ jstr header ''typ'' @ [bar] @ jstr header ''kid'' @ [bar] @ payload"

definition cutBar :: "string \<Rightarrow> string \<times> string" where
  "cutBar s = (takeWhile (\<lambda>c. c \<noteq> bar) s, tl (dropWhile (\<lambda>c. c \<noteq> bar) s))"

definition demoVerify :: "string \<Rightarrow> keyHandle \<Rightarrow> (json \<times> string) option" where
  "demoVerify jws key =
     (let p1 = cutBar jws; p2 = cutBar (snd p1); p3 = cutBar (snd p2) in
      if fst p1 = key
      then Some (JObj [(''alg'', JStr ''EdDSA''), (''typ'', JStr (fst p2)), (''kid'', JStr (fst p3))],
                 snd p3)
      else None)"

definition demoValidate :: "json list \<Rightarrow> string \<Rightarrow> string + json" where
  "demoValidate table s =
     (case find (\<lambda>v. demoCanonical v = s) table of Some v \<Rightarrow> Inr v | None \<Rightarrow> Inl ''unexpected'')"

definition demoLib :: "json list \<Rightarrow> lib" where
  "demoLib table = \<lparr> canonicalize = demoCanonical, sha256hex = demoSha, sha256b64 = demoSha,
     validateJson = demoValidate table, importJwk = (\<lambda>j. Some (jstr j ''x'')),
     compactVerify = demoVerify, compactSign = demoSign, keccak256 = demoSha \<rparr>"

definition demoJwk :: "string \<Rightarrow> json" where
  "demoJwk x = JObj [(''kty'', JStr ''OKP''), (''crv'', JStr ''Ed25519''), (''x'', JStr x)]"

lemma cutBar_append: "bar \<notin> set a \<Longrightarrow> cutBar (a @ bar # b) = (a, b)"
proof -
  assume a: "bar \<notin> set a"
  then have "\<forall>c \<in> set a. c \<noteq> bar" by auto
  then show ?thesis by (simp add: cutBar_def)
qed

lemma demoVerify_demoSign:
  assumes "bar \<notin> set key" "bar \<notin> set (jstr header ''typ'')" "bar \<notin> set (jstr header ''kid'')"
  shows "demoVerify (demoSign header payload key) key =
    Some (JObj [(''alg'', JStr ''EdDSA''), (''typ'', JStr (jstr header ''typ'')),
                (''kid'', JStr (jstr header ''kid''))], payload)"
  using assms by (simp add: demoVerify_def demoSign_def cutBar_append)

text \<open>A message of the table that was signed with a key verifies under that key.\<close>

lemma demo_verifyPayload:
  assumes "bar \<notin> set key" "bar \<notin> set ty" "bar \<notin> set kid"
    and "find (\<lambda>w. demoCanonical w = demoCanonical v) table = Some v"
    and "isUtf8 (demoCanonical v)"
    and "length key + length ty + length kid + length (demoCanonical v) < 1000"
    and "schema v" "isStr v ''type'' ty"
  shows "verifyPayload (demoLib table) (signPayload (demoLib table) v key kid) key ty kid schema = Inr v"
proof -
  from assms(8) have ty: "jstr v ''type'' = ty" by (rule isStr_jstr)
  have header: "jstr (protectedHeader ty kid) ''typ'' = messageTyp ty"
    "jstr (protectedHeader ty kid) ''kid'' = kid"
    by (simp_all add: protectedHeader_def jstr_def jget_def)
  have "bar \<notin> set (messageTyp ty)" using assms(2) by (simp add: messageTyp_def bar_def)
  then have "demoVerify (demoSign (protectedHeader ty kid) (demoCanonical v) key) key =
      Some (JObj [(''alg'', JStr ''EdDSA''), (''typ'', JStr (messageTyp ty)), (''kid'', JStr kid)], demoCanonical v)"
    using assms(1,3) by (simp add: demoVerify_demoSign header)
  moreover have "length (demoSign (protectedHeader ty kid) (demoCanonical v) key) \<le> MAX_SIGNED_MESSAGE_BYTES"
    using assms(6) by (simp add: demoSign_def header messageTyp_def MAX_SIGNED_MESSAGE_BYTES_def)
  moreover have "parseJsonNoDuplicateKeys (demoLib table) (demoCanonical v) = Inr v"
    using assms(4,5,6)
    by (simp add: parseJsonNoDuplicateKeys_def demoLib_def demoValidate_def MAX_SIGNED_MESSAGE_BYTES_def)
  ultimately show ?thesis
    using assms(7,8) unfolding verifyPayload_eq_Inr
    by (simp add: signPayload_def ty canonicalBytes_def) (simp add: demoLib_def isStr_def jget_def)
qed

end
