(* ===== verification/Protocol_Properties.thy ===== *)
theory Protocol_Properties
  imports Base64 Scenario
begin

text \<open>
  What the protocol package promises its callers: fingerprints have one normal form and a session
  description names one of them, the base64url codec round-trips, a signed payload verifies to
  itself and to no other message type, and temporal validity is a half-open window.
\<close>

section \<open>Session descriptions\<close>

lemma extract_iff:
  "(extractSingleSdpFingerprint sdp = Inr f) \<longleftrightarrow>
   sdpFingerprints True sdp \<noteq> [] \<and>
   list_all (\<lambda>v. normalizeFingerprint v = Inr f) (sdpFingerprints True sdp)"
proof
  assume "extractSingleSdpFingerprint sdp = Inr f"
  then obtain vs where vs: "mapE normalizeFingerprint (sdpFingerprints True sdp) = Inr vs"
    and sel: "(case remdups vs of [] \<Rightarrow> Inl (Error ''MISSING_SHA256_FINGERPRINT'') | [f] \<Rightarrow> Inr f
       | _ \<Rightarrow> Inl (Error ''CONFLICTING_SHA256_FINGERPRINTS'')) = (Inr f :: string result)"
    unfolding extractSingleSdpFingerprint_def bindE_eq_Inr by blast
  from sel have "remdups vs = [f]"
    by (cases "remdups vs"; cases "tl (remdups vs)") (simp_all split: list.splits)
  then have one: "vs \<noteq> []" "\<forall>x \<in> set vs. x = f" by (simp_all add: remdups_singleton)
  from vs have all2: "list_all2 (\<lambda>x y. normalizeFingerprint x = Inr y) (sdpFingerprints True sdp) vs"
    by (simp add: mapE_eq_Inr)
  from all2 one(1) have "sdpFingerprints True sdp \<noteq> []" by auto
  moreover from all2 one(2)
  have "list_all (\<lambda>v. normalizeFingerprint v = Inr f) (sdpFingerprints True sdp)"
    by (fastforce simp: list_all_iff list_all2_iff set_zip in_set_conv_nth)
  ultimately show "sdpFingerprints True sdp \<noteq> [] \<and>
    list_all (\<lambda>v. normalizeFingerprint v = Inr f) (sdpFingerprints True sdp)" by simp
next
  assume r: "sdpFingerprints True sdp \<noteq> [] \<and>
    list_all (\<lambda>v. normalizeFingerprint v = Inr f) (sdpFingerprints True sdp)"
  let ?n = "length (sdpFingerprints True sdp)"
  from r have "mapE normalizeFingerprint (sdpFingerprints True sdp) = Inr (replicate ?n f)"
    by (simp add: mapE_eq_Inr list_all2_conv_all_nth list_all_length)
  moreover from r have "remdups (replicate ?n f) = [f]"
    by (simp add: remdups_singleton)
  ultimately show "extractSingleSdpFingerprint sdp = Inr f"
    by (simp add: extractSingleSdpFingerprint_def)
qed

text \<open>
  \<^verbatim>\<open>extractSingleSdpFingerprint\<close> returns \<open>f\<close> exactly when the description has at least one
  SHA-256 fingerprint line and every such line normalises to \<open>f\<close>: a second, different certificate
  hidden in the description can never be overlooked.
\<close>

theorem sdp_names_one_certificate:
  "(extractSingleSdpFingerprint sdp = Inr f) =
   (sdpFingerprints True sdp \<noteq> [] \<and>
    list_all (\<lambda>v. normalizeFingerprint v = Inr f) (sdpFingerprints True sdp))"
  by (rule extract_iff)

text \<open>
  A normalised fingerprint matches the protocol's fingerprint expression and is its own normal
  form, so comparing normalised fingerprints as strings is well defined.
\<close>

theorem fingerprint_normal_form:
  assumes "normalizeFingerprint s = Inr f"
  shows "isFingerprint f \<and> normalizeFingerprint f = Inr f"
  using normalizeFingerprint_ok [OF assms] normalizeFingerprint_fixed by blast

definition demoFingerprint :: string where
  "demoFingerprint = joinPairs (replicate 64 (CHR ''A''))"

lemma demoFingerprint_normal:
  "normalizeFingerprint (''sha-256 '' @ replicate 64 (CHR ''a'')) = Inr demoFingerprint"
  by code_simp

theorem fingerprint_normal_form_witness:
  "normalizeFingerprint (''sha-256 '' @ replicate 64 (CHR ''a'')) = Inr demoFingerprint \<and>
   isFingerprint demoFingerprint \<and> normalizeFingerprint demoFingerprint = Inr demoFingerprint"
  using fingerprint_normal_form [OF demoFingerprint_normal] demoFingerprint_normal by blast

section \<open>Base64url\<close>

text \<open>
  Decoding the base64url text of a byte sequence gives the sequence back, for every length and
  so for each of the three padding cases.
\<close>

theorem base64url_decodes_encoding:
  assumes "list_all isByte bs"
  shows "base64urlToBytes (bytesToBase64url bs) = Inr bs"
  using assms by (rule base64url_roundtrip)

theorem base64url_decodes_encoding_witness:
  "list_all isByte [0, 255, 17, 34] \<and>
   base64urlToBytes (bytesToBase64url [0, 255, 17, 34]) = Inr [0, 255, 17, 34]"
proof -
  have h: "list_all isByte [0, 255, 17, 34]" by (simp add: isByte_def)
  with base64url_decodes_encoding [OF h] show ?thesis by simp
qed

section \<open>Signed messages\<close>

text \<open>
  C4: a payload signed by \<^verbatim>\<open>signPayload\<close> is accepted by \<^verbatim>\<open>verifyPayload\<close> under its own type and
  comes back unchanged, and is refused under every other type. The hypotheses are that jose verifies
  what it signed and that parsing inverts the canonical form.
\<close>

theorem signed_payload_round_trip:
  assumes jose: "compactVerify L (compactSign L (protectedHeader ty kid) (canonicalize L v) sk) pk =
      Some (protectedHeader ty kid, canonicalize L v)"
    and json: "validateJson L (canonicalize L v) = Inr v" "isUtf8 (canonicalize L v)"
    and size: "length (canonicalize L v) \<le> MAX_SIGNED_MESSAGE_BYTES"
      "length (signPayload L v sk kid) \<le> MAX_SIGNED_MESSAGE_BYTES"
    and v: "schema v" "isStr v ''type'' ty"
  shows "verifyPayload L (signPayload L v sk kid) pk ty kid schema = Inr v \<and>
    (other \<noteq> ty \<longrightarrow> verifyPayload L (signPayload L v sk kid) pk other kid schema' =
       Inl (Error ''INVALID_PROTECTED_HEADER''))"
proof (intro conjI impI)
  from v(2) have ty: "jstr v ''type'' = ty" by (rule isStr_jstr)
  have "parseJsonNoDuplicateKeys L (canonicalBytes L v) = Inr v"
    using json size(1) by (simp add: parseJsonNoDuplicateKeys_def canonicalBytes_def)
  then show "verifyPayload L (signPayload L v sk kid) pk ty kid schema = Inr v"
    unfolding verifyPayload_eq_Inr
    using v size(2) jose by (auto simp: signPayload_def canonicalBytes_def ty)
  assume "other \<noteq> ty"
  then have "messageTyp ty \<noteq> messageTyp other" by (auto dest: messageTyp_inject)
  then have "\<not> isStr (protectedHeader ty kid) ''typ'' (messageTyp other)"
    by (simp add: protectedHeader_def isStr_def jget_def)
  then show "verifyPayload L (signPayload L v sk kid) pk other kid schema' =
      Inl (Error ''INVALID_PROTECTED_HEADER'')"
    using jose size(2) by (simp add: verifyPayload_def signPayload_def canonicalBytes_def ty)
qed

definition demoEnrollment :: json where
  "demoEnrollment = JObj
    [(''protocol'', JStr ''callsign''), (''version'', JNum 1), (''networkId'', JStr ''20260914''),
     (''registryAddress'', JStr (''0x'' @ replicate 40 (CHR ''1''))),
     (''type'', JStr ''EnrollmentProof''), (''recipientId'', JStr ''recipient_alice_01''),
     (''recipientSessionPublicKey'', JStr (replicate 43 (CHR ''k''))),
     (''issuedAt'', JNum 1000), (''expiresAt'', JNum 1300)]"

lemma demoEnrollment_schema: "enrollmentProofSchema demoEnrollment"
  unfolding enrollmentProofSchema_def demoEnrollment_def
  by (rule zObject_in_order)
     (simp_all add: protocolBase_def schema_eval decimalInteger_def address_def
       identifierSchema_def safeUnixSeconds_def)

theorem signed_payload_round_trip_witness:
  "verifyPayload (demoLib [demoEnrollment])
     (signPayload (demoLib [demoEnrollment]) demoEnrollment ''sk'' ''kid'') ''sk''
     ''EnrollmentProof'' ''kid'' enrollmentProofSchema = Inr demoEnrollment \<and>
   verifyPayload (demoLib [demoEnrollment])
     (signPayload (demoLib [demoEnrollment]) demoEnrollment ''sk'' ''kid'') ''sk''
     ''RecipientChallenge'' ''kid'' recipientChallengeSchema = Inl (Error ''INVALID_PROTECTED_HEADER'')"
proof -
  let ?L = "demoLib [demoEnrollment]"
  have h: "compactVerify ?L (compactSign ?L (protectedHeader ''EnrollmentProof'' ''kid'')
      (canonicalize ?L demoEnrollment) ''sk'') ''sk'' =
      Some (protectedHeader ''EnrollmentProof'' ''kid'', canonicalize ?L demoEnrollment)"
    "validateJson ?L (canonicalize ?L demoEnrollment) = Inr demoEnrollment"
    "isUtf8 (canonicalize ?L demoEnrollment)"
    "length (canonicalize ?L demoEnrollment) \<le> MAX_SIGNED_MESSAGE_BYTES"
    "length (signPayload ?L demoEnrollment ''sk'' ''kid'') \<le> MAX_SIGNED_MESSAGE_BYTES"
    "isStr demoEnrollment ''type'' ''EnrollmentProof''"
    by (simp_all add: signPayload_def demoLib_def demoSign_def demoVerify_def cutBar_def bar_def
      demoCanonical_def demoValidate_def demoEnrollment_def MAX_SIGNED_MESSAGE_BYTES_def
      protectedHeader_def messageTyp_def member_defs canonicalBytes_def)
  from signed_payload_round_trip [where schema = enrollmentProofSchema and
      schema' = recipientChallengeSchema and other = "''RecipientChallenge''",
      OF h(1-5) demoEnrollment_schema h(6)]
  show ?thesis by simp
qed

text \<open>
  A message is temporally valid exactly in the half-open window from its issue (and its
  not-before time, which may not precede the issue) up to its expiry.
\<close>

theorem temporal_validity_window:
  "(assertTemporalValidity v now = Inr ()) =
   (isSafeInteger now \<and> jnum v ''issuedAt'' \<le> now \<and> now < jnum v ''expiresAt'' \<and>
    (jget v ''notBefore'' = None \<or>
     (jnum v ''issuedAt'' \<le> jnum v ''notBefore'' \<and> jnum v ''notBefore'' \<le> now)))"
  by (auto simp: assertTemporalValidity_iff)

end
