(* ===== verification/Contracts.thy ===== *)
theory Contracts
  imports Prelude
begin

text \<open>
  The interfaces the components rely on, as locales: what a provider promises (\<open>assumes\<close>) and
  what every client may conclude (the lemmas inside). Each is interpreted in the theory of the
  component that provides the operations.
\<close>

fun foldE :: "('s \<Rightarrow> 'a \<Rightarrow> 'e + 's) \<Rightarrow> 's \<Rightarrow> 'a list \<Rightarrow> 'e + 's" where
  "foldE f s [] = Inr s"
| "foldE f s (x # xs) = bindE (f s x) (\<lambda>s'. foldE f s' xs)"

lemma foldE_append: "foldE f s (xs @ ys) = bindE (foldE f s xs) (\<lambda>s'. foldE f s' ys)"
  by (induction xs arbitrary: s) (auto simp: bindE_assoc)

lemma foldE_invariant:
  assumes "\<And>s x s'. I s \<Longrightarrow> f s x = Inr s' \<Longrightarrow> I s'"
  shows "I s \<Longrightarrow> foldE f s xs = Inr s' \<Longrightarrow> I s'"
proof (induction xs arbitrary: s)
  case Nil
  then show ?case by simp
next
  case (Cons x xs)
  from Cons.prems(2) obtain s1 where "f s x = Inr s1" "foldE f s1 xs = Inr s'"
    by (auto simp: bindE_eq_Inr)
  with Cons assms show ?case by blast
qed

section \<open>Monotone acceptors\<close>

text \<open>
  A guard that accepts items of non-decreasing height; at one height it accepts one identity.
\<close>

locale monotone_acceptor =
  fixes accept :: "'g \<Rightarrow> 'v \<Rightarrow> 'g result"
    and level :: "'g \<Rightarrow> int"
    and height :: "'v \<Rightarrow> int"
    and mark :: "'g \<Rightarrow> 'm"
    and identity :: "'v \<Rightarrow> 'm"
  assumes accepts_up: "accept g v = Inr g' \<Longrightarrow> level g \<le> height v"
    and accepts_level: "accept g v = Inr g' \<Longrightarrow> level g' = height v"
    and accepts_mark: "accept g v = Inr g' \<Longrightarrow> mark g' = identity v"
    and accepts_same: "accept g v = Inr g' \<Longrightarrow> height v = level g \<Longrightarrow> identity v = mark g"
begin

lemma run_above: "foldE accept g vs = Inr g' \<Longrightarrow> v \<in> set vs \<Longrightarrow> level g \<le> height v"
proof (induction vs arbitrary: g)
  case Nil
  then show ?case by simp
next
  case (Cons w vs)
  then obtain g1 where g1: "accept g w = Inr g1" "foldE accept g1 vs = Inr g'"
    by (auto simp: bindE_eq_Inr)
  then have "level g \<le> level g1" using accepts_up accepts_level by force
  with Cons.IH g1 Cons.prems(2) accepts_up [OF g1(1)] show ?case by (auto intro: order_trans)
qed

lemma run_sorted: "foldE accept g vs = Inr g' \<Longrightarrow> sorted (map height vs)"
proof (induction vs arbitrary: g)
  case Nil
  then show ?case by simp
next
  case (Cons w vs)
  then obtain g1 where g1: "accept g w = Inr g1" "foldE accept g1 vs = Inr g'"
    by (auto simp: bindE_eq_Inr)
  then have "\<forall>v \<in> set vs. height w \<le> height v"
    using run_above accepts_level by fastforce
  with Cons.IH g1(2) show ?case by auto
qed

lemma run_level: "foldE accept g vs = Inr g' \<Longrightarrow> level g \<le> level g'"
proof (induction vs arbitrary: g)
  case Nil
  then show ?case by simp
next
  case (Cons w vs)
  then obtain g1 where "accept g w = Inr g1" "foldE accept g1 vs = Inr g'"
    by (auto simp: bindE_eq_Inr)
  with Cons.IH show ?case using accepts_up accepts_level by fastforce
qed

lemma run_agrees_with_start:
  "foldE accept g vs = Inr g' \<Longrightarrow> v \<in> set vs \<Longrightarrow> height v = level g \<Longrightarrow> identity v = mark g"
proof (induction vs arbitrary: g)
  case Nil
  then show ?case by simp
next
  case (Cons w vs)
  then obtain g1 where g1: "accept g w = Inr g1" "foldE accept g1 vs = Inr g'"
    by (auto simp: bindE_eq_Inr)
  show ?case
  proof (cases "v = w")
    case True
    with g1 Cons.prems show ?thesis by (auto dest: accepts_same)
  next
    case False
    with Cons.prems have v: "v \<in> set vs" by simp
    from g1 v have "level g1 \<le> height v" by (auto dest: run_above)
    moreover from g1 have "level g \<le> level g1" using accepts_up accepts_level by force
    ultimately have "height v = level g1" and same: "level g1 = level g"
      using Cons.prems(3) by auto
    with Cons.IH g1(2) v have "identity v = mark g1" by blast
    also have "mark g1 = mark g"
      using g1(1) same accepts_level accepts_mark accepts_same by metis
    finally show ?thesis .
  qed
qed

lemma run_one_identity_per_height:
  assumes "foldE accept g vs = Inr g'" "v \<in> set vs" "w \<in> set vs" "height v = height w"
  shows "identity v = identity w"
  using assms
proof (induction vs arbitrary: g)
  case Nil
  then show ?case by simp
next
  case (Cons u vs)
  then obtain g1 where g1: "accept g u = Inr g1" "foldE accept g1 vs = Inr g'"
    by (auto simp: bindE_eq_Inr)
  have first: "identity x = identity u" if "x \<in> set vs" "height x = height u" for x
    using run_agrees_with_start [OF g1(2) that(1)] that(2) accepts_level [OF g1(1)]
      accepts_mark [OF g1(1)] by simp
  from Cons.prems consider "v = u" "w = u" | "v = u" "w \<in> set vs" | "v \<in> set vs" "w = u"
    | "v \<in> set vs" "w \<in> set vs" by auto
  then show ?case
  proof cases
    case 1
    then show ?thesis by simp
  next
    case 2
    then show ?thesis using first [of w] Cons.prems(4) by simp
  next
    case 3
    then show ?thesis using first [of v] Cons.prems(4) by simp
  next
    case 4
    then show ?thesis using Cons.IH [OF g1(2)] Cons.prems(4) by simp
  qed
qed

end

section \<open>Write-once stores\<close>

text \<open>
  A store in which the first value written under a key stays: \<open>claim\<close> either reports the value
  stored under the key, or fails.
\<close>

locale once_store =
  fixes claim :: "'s \<Rightarrow> 'c \<Rightarrow> ('r \<times> 's) result"
    and slot :: "'s \<Rightarrow> 'k \<Rightarrow> 'v option"
    and keyOf :: "'c \<Rightarrow> 'k"
    and valueOf :: "'c \<Rightarrow> 'v"
  assumes claim_stores: "claim s c = Inr (r, s') \<Longrightarrow> slot s' (keyOf c) = Some (valueOf c)"
    and claim_keeps: "claim s c = Inr (r, s') \<Longrightarrow> slot s k = Some v \<Longrightarrow> slot s' k = Some v"
    and claim_frame: "claim s c = Inr (r, s') \<Longrightarrow> k \<noteq> keyOf c \<Longrightarrow> slot s' k = slot s k"
begin

text \<open>A run of claims in which a refused claim leaves the store as it was.\<close>

fun claims :: "'s \<Rightarrow> 'c list \<Rightarrow> ('c \<times> 'r) list \<times> 's" where
  "claims s [] = ([], s)"
| "claims s (c # cs) =
     (case claim s c of
        Inl e \<Rightarrow> claims s cs
      | Inr rs \<Rightarrow> (let (done, t) = claims (snd rs) cs in ((c, fst rs) # done, t)))"

lemma claims_keep: "slot s k = Some v \<Longrightarrow> slot (snd (claims s cs)) k = Some v"
proof (induction cs arbitrary: s)
  case Nil
  then show ?case by simp
next
  case (Cons c cs)
  show ?case
  proof (cases "claim s c")
    case (Inl e)
    with Cons show ?thesis by simp
  next
    case (Inr rs)
    then have "slot (snd rs) k = Some v"
      using claim_keeps [of s c "fst rs" "snd rs"] Cons.prems by simp
    with Cons.IH Inr show ?thesis by (simp add: case_prod_beta Let_def)
  qed
qed

lemma claims_value:
  "(c, r) \<in> set (fst (claims s cs)) \<Longrightarrow> slot (snd (claims s cs)) (keyOf c) = Some (valueOf c)"
proof (induction cs arbitrary: s)
  case Nil
  then show ?case by simp
next
  case (Cons d cs)
  show ?case
  proof (cases "claim s d")
    case (Inl e)
    with Cons show ?thesis by simp
  next
    case (Inr rs)
    from Cons.prems Inr consider "c = d" | "(c, r) \<in> set (fst (claims (snd rs) cs))"
      by (auto simp: case_prod_beta Let_def)
    then show ?thesis
    proof cases
      case 1
      then have "slot (snd rs) (keyOf c) = Some (valueOf c)"
        using Inr claim_stores [of s d "fst rs" "snd rs"] by simp
      then show ?thesis using Inr by (simp add: case_prod_beta Let_def claims_keep)
    next
      case 2
      with Cons.IH Inr show ?thesis by (simp add: case_prod_beta Let_def)
    qed
  qed
qed

text \<open>However often a key is claimed, all accepted claims agree on its value.\<close>

lemma claims_agree:
  assumes "(c, r) \<in> set (fst (claims s cs))" "(d, q) \<in> set (fst (claims s cs))"
    and "keyOf c = keyOf d"
  shows "valueOf c = valueOf d"
  using claims_value [OF assms(1)] claims_value [OF assms(2)] assms(3) by simp

end

end
