(* ===== verification/Verifier.thy ===== *)
theory Verifier
  imports Protocol Contracts
begin

text \<open>
  \<^verbatim>\<open>packages/verifier/src/index.ts\<close>: what a receiver accepts as the current state of the
  ledger. A state bundle is a snapshot with the signatures of a quorum of pinned witnesses;
  \<open>verifyStateBundle\<close> checks it against the trust bundle, and the \<open>MonotonicStateGuard\<close>
  refuses rollback, forks and extended deadlines over the lifetime of a page.

  The locale \<open>monotone_acceptor\<close> is the contract of such a guard (every accepted item is at
  or above the current level, and items at the level agree with what was accepted there); the
  properties of a whole sequence of accepted states are proved once in it.
\<close>

unbundle bit_operations_syntax

section \<open>Data\<close>

definition hash32 :: schema where
  "hash32 = zString isHash32"

definition stateId :: schema where
  "stateId = zString (lengthBetween 16 128)"

definition institutionStateSchema :: schema where
  "institutionStateSchema = zObject
    [(''exists'', zBool),
     (''status'', zEnum [''Active'', ''Suspended'']),
     (''epoch'', decimalInteger),
     (''approvalPublicKey'', zString (lengthBetween 32 128)),
     (''policyVersion'', decimalInteger)] []"

definition delegationStateSchema :: schema where
  "delegationStateSchema = zObject
    [(''exists'', zBool),
     (''epoch'', decimalInteger),
     (''gatewayPublicKey'', zString (lengthBetween 32 128)),
     (''purposeMask'', decimalInteger),
     (''validFrom'', zInt (\<lambda>n. 0 \<le> n)),
     (''validUntil'', zInt (\<lambda>n. 0 \<le> n)),
     (''revoked'', zBool)] []"

definition registryProfileName :: string where
  "registryProfileName = ''CALLSIGN_SERVICE_JOINT_CONFIGURATION_1''"

definition stateSnapshotSchema :: schema where
  "stateSnapshotSchema s \<longleftrightarrow> zObject
    [(''protocol'', zLiteral (JStr ''callsign'')),
     (''version'', zLiteral (JNum 1)),
     (''type'', zLiteral (JStr ''SignedStateSnapshot'')),
     (''networkId'', decimalInteger),
     (''genesisHash'', hash32),
     (''registryAddress'', address),
     (''policyVersion'', decimalInteger),
     (''blockNumber'', decimalInteger),
     (''blockHash'', hash32),
     (''blockTimestamp'', zInt (\<lambda>n. 0 \<le> n)),
     (''institutionId'', stateId),
     (''institutionState'', institutionStateSchema),
     (''delegationId'', stateId),
     (''delegationState'', delegationStateSchema),
     (''directoryHash'', hash32),
     (''directoryVersion'', decimalInteger)]
    [(''registryProfile'', zLiteral (JStr registryProfileName)),
     (''policyHash'', hash32)] s \<and>
    (jget s ''registryProfile'' \<noteq> None) = (jget s ''policyHash'' \<noteq> None)"

record WitnessSignature =
  sigWitnessId :: string
  sigJws :: string

record StateBundle =
  snapshot :: json
  signatures :: "WitnessSignature list"

record WitnessKey =
  witnessId :: string
  witnessKid :: string
  witnessJwk :: json

record TrustBundle =
  networkId :: string
  genesisHash :: string
  registryAddress :: string
  policyVersion :: string
  registryProfile :: "string option"
  witnessThreshold :: int
  witnessPublicKeys :: "WitnessKey list"
  enrollmentPublicKey :: json
  supportedProtocolVersions :: "int list"

record VerificationContext =
  maxStateAgeSeconds :: "int option"
  maxFutureSkewSeconds :: "int option"
  nowWallSeconds :: int
  nowMonotonicMs :: int
  expectedInstitutionId :: string
  expectedDelegationId :: string

record VerifiedState =
  vsSnapshot :: json
  signerIds :: "string list"
  snapshotHash :: string
  deadlineMonotonicMs :: int
  observedAgeSeconds :: int

section \<open>Verifying a state bundle\<close>

definition byteOf :: "char \<Rightarrow> int" where
  "byteOf c = int (of_char c)"

text \<open>The comparison without early exit: the differences are accumulated with \<^verbatim>\<open>|=\<close>.\<close>

definition equalBytes :: "string \<Rightarrow> string \<Rightarrow> bool" where
  "equalBytes a b =
     (if length a \<noteq> length b then False
      else foldl (\<lambda>difference p. difference OR (byteOf (fst p) XOR byteOf (snd p))) 0 (zip a b) = 0)"

definition trustedWitness :: "TrustBundle \<Rightarrow> string \<Rightarrow> WitnessKey option" where
  "trustedWitness trust w = map_of (map (\<lambda>e. (witnessId e, e)) (witnessPublicKeys trust)) w"

definition verifyWitnessSignature :: "lib \<Rightarrow> TrustBundle \<Rightarrow> string \<Rightarrow> WitnessSignature \<Rightarrow> unit result" where
  "verifyWitnessSignature L trust expectedBytes sg =
     (case trustedWitness trust (sigWitnessId sg) of
        None \<Rightarrow> Inl (Error ''UNTRUSTED_WITNESS'')
      | Some entry \<Rightarrow>
          bindE (ofOption LibraryError (importJwk L (witnessJwk entry))) (\<lambda>key.
          bindE (ofOption LibraryError (compactVerify L (sigJws sg) key)) (\<lambda>r.
            if \<not> isStr (fst r) ''alg'' ''EdDSA'' \<or>
               \<not> isStr (fst r) ''typ'' ''callsign/SignedStateSnapshot+jws'' \<or>
               \<not> isStr (fst r) ''kid'' (witnessKid entry)
            then Inl (Error ''INVALID_WITNESS_HEADER'')
            else if \<not> equalBytes (snd r) expectedBytes
            then Inl (Error ''MIXED_SNAPSHOT_PAYLOAD'')
            else Inr ())))"

fun verifySignatures :: "lib \<Rightarrow> TrustBundle \<Rightarrow> string \<Rightarrow> string list \<Rightarrow> WitnessSignature list \<Rightarrow>
    string list result" where
  "verifySignatures L trust bytes unique [] = Inr unique"
| "verifySignatures L trust bytes unique (sg # sgs) =
     (if sigWitnessId sg \<in> set unique then Inl (Error ''DUPLICATE_WITNESS'')
      else bindE (verifyWitnessSignature L trust bytes sg) (\<lambda>_.
        verifySignatures L trust bytes (unique @ [sigWitnessId sg]) sgs))"

definition validWitnessTrust :: "TrustBundle \<Rightarrow> bool" where
  "validWitnessTrust trust \<longleftrightarrow>
     1 \<le> witnessThreshold trust \<and>
     witnessThreshold trust \<le> int (length (witnessPublicKeys trust)) \<and>
     allDistinct witnessId (witnessPublicKeys trust) \<and>
     allDistinct (\<lambda>k. jget (witnessJwk k) ''x'') (witnessPublicKeys trust)"

definition maxAge :: "VerificationContext \<Rightarrow> int" where
  "maxAge context = (case maxStateAgeSeconds context of Some n \<Rightarrow> n | None \<Rightarrow> 12)"

definition maxFuture :: "VerificationContext \<Rightarrow> int" where
  "maxFuture context = (case maxFutureSkewSeconds context of Some n \<Rightarrow> n | None \<Rightarrow> 2)"

definition verifyStateBundle :: "lib \<Rightarrow> StateBundle \<Rightarrow> TrustBundle \<Rightarrow> VerificationContext \<Rightarrow>
    VerifiedState result" where
  "verifyStateBundle L bundle trust context =
     (if \<not> validWitnessTrust trust then Inl (Error ''INVALID_WITNESS_TRUST'')
      else bindE (parseWith stateSnapshotSchema (snapshot bundle)) (\<lambda>s.
        if jnum s ''version'' \<notin> set (supportedProtocolVersions trust)
        then Inl (Error ''UNSUPPORTED_PROTOCOL_VERSION'')
        else if registryProfile trust \<noteq> None \<and>
                jget s ''registryProfile'' \<noteq> map_option JStr (registryProfile trust)
        then Inl (Error ''REGISTRY_PROFILE_DOWNGRADE'')
        else if \<not> isStr s ''networkId'' (networkId trust) \<or>
                \<not> isStr s ''genesisHash'' (genesisHash trust) \<or>
                toLowerCase (jstr s ''registryAddress'') \<noteq> toLowerCase (registryAddress trust) \<or>
                \<not> isStr s ''policyVersion'' (policyVersion trust)
        then Inl (Error ''TRUST_BUNDLE_MISMATCH'')
        else if \<not> isStr s ''institutionId'' (expectedInstitutionId context) \<or>
                \<not> isStr s ''delegationId'' (expectedDelegationId context)
        then Inl (Error ''QUERY_KEY_MISMATCH'')
        else if maxAge context \<le> 0 \<or> maxAge context > 12 \<or>
                maxFuture context < 0 \<or> maxFuture context > 2
        then Inl (Error ''INVALID_FRESHNESS_POLICY'')
        else
          let age = nowWallSeconds context - jnum s ''blockTimestamp'' in
          if jnum s ''blockTimestamp'' > nowWallSeconds context + maxFuture context
          then Inl (Error ''FUTURE_SNAPSHOT'')
          else if age \<ge> maxAge context then Inl (Error ''STALE_SNAPSHOT'')
          else bindE (verifySignatures L trust (canonicalBytes L s) [] (signatures bundle)) (\<lambda>unique.
            if int (length unique) < witnessThreshold trust
            then Inl (Error ''WITNESS_THRESHOLD_NOT_MET'')
            else Inr \<lparr> vsSnapshot = s, signerIds = unique, snapshotHash = hashCanonical L s,
                       deadlineMonotonicMs =
                         nowMonotonicMs context + max 0 ((maxAge context - max 0 age) * 1000),
                       observedAgeSeconds = age \<rparr>)))"

section \<open>The monotonic guard\<close>

record MonotonicStateGuard =
  highestBlock :: int
  highestHash :: string
  highestSnapshotHash :: string
  knownRevokedAt :: int
  deadlines :: "string \<rightharpoonup> int"

definition newGuard :: MonotonicStateGuard where
  "newGuard = \<lparr> highestBlock = -1, highestHash = [], highestSnapshotHash = [],
     knownRevokedAt = -1, deadlines = Map.empty \<rparr>"

definition limitDeadline :: "MonotonicStateGuard \<Rightarrow> VerifiedState \<Rightarrow> VerifiedState" where
  "limitDeadline g v =
     (case deadlines g (jstr (vsSnapshot v) ''blockHash'') of
        None \<Rightarrow> v
      | Some prior \<Rightarrow> v\<lparr> deadlineMonotonicMs := min prior (deadlineMonotonicMs v) \<rparr>)"

definition blockOf :: "VerifiedState \<Rightarrow> int" where
  "blockOf v = bigInt (jstr (vsSnapshot v) ''blockNumber'')"

definition blockHashOf :: "VerifiedState \<Rightarrow> string" where
  "blockHashOf v = jstr (vsSnapshot v) ''blockHash''"

definition revokedIn :: "VerifiedState \<Rightarrow> bool" where
  "revokedIn v = jbool (jobj (vsSnapshot v) ''delegationState'') ''revoked''"

definition guardAccept :: "MonotonicStateGuard \<Rightarrow> VerifiedState \<Rightarrow> int \<Rightarrow> MonotonicStateGuard result" where
  "guardAccept g v now =
     (let block = blockOf v; bh = blockHashOf v; prior = deadlines g bh in
      if block = highestBlock g \<and> (bh \<noteq> highestHash g \<or> snapshotHash v \<noteq> highestSnapshotHash g)
      then Inl (Error ''STATE_CONFLICT_AT_HEIGHT'')
      else if block < highestBlock g then Inl (Error ''STATE_ROLLBACK'')
      else if now > deadlineMonotonicMs v then Inl (Error ''MONOTONIC_DEADLINE_EXPIRED'')
      else if (case prior of Some p \<Rightarrow> deadlineMonotonicMs v > p | None \<Rightarrow> False)
      then Inl (Error ''DEADLINE_EXTENSION_ATTEMPT'')
      else if \<not> revokedIn v \<and> block \<le> knownRevokedAt g then Inl (Error ''REVOCATION_ROLLBACK'')
      else
        let g1 = g\<lparr> deadlines := (deadlines g)(bh \<mapsto>
                     (case prior of Some p \<Rightarrow> p | None \<Rightarrow> deadlineMonotonicMs v)) \<rparr>;
            g2 = (if block \<ge> highestBlock g
                  then g1\<lparr> highestBlock := block, highestHash := bh,
                           highestSnapshotHash := snapshotHash v \<rparr>
                  else g1)
        in Inr (if revokedIn v then g2\<lparr> knownRevokedAt := block \<rparr> else g2))"

definition onVisibilityResume :: "MonotonicStateGuard \<Rightarrow> MonotonicStateGuard result" where
  "onVisibilityResume g = Inl (Error ''REVALIDATION_REQUIRED_AFTER_BACKGROUND'')"

section \<open>The authorization in its context\<close>

record AuthorizationContext =
  acRecipientId :: string
  acSessionId :: "string option"
  acEpoch :: string
  acDelegationId :: string
  acPurposeCode :: string
  acNowSeconds :: int
  acBinding :: "json option"

definition verifyAuthorizationContext :: "lib \<Rightarrow> json \<Rightarrow> AuthorizationContext \<Rightarrow> unit result" where
  "verifyAuthorizationContext L a expected =
     bindE (assertTemporalValidity a (acNowSeconds expected)) (\<lambda>_.
       if \<not> isStr a ''recipientId'' (acRecipientId expected) then Inl (Error ''RECIPIENT_MISMATCH'')
       else if \<not> isStr a ''epoch'' (acEpoch expected) then Inl (Error ''EPOCH_MISMATCH'')
       else if \<not> isStr a ''delegationId'' (acDelegationId expected)
         then Inl (Error ''DELEGATION_MISMATCH'')
       else if \<not> isStr a ''purposeCode'' (acPurposeCode expected) then Inl (Error ''PURPOSE_MISMATCH'')
       else case acBinding expected of
         None \<Rightarrow> Inr ()
       | Some b \<Rightarrow>
           if \<not> isStr b ''authorizationHash'' (hashCanonical L a)
             then Inl (Error ''AUTHORIZATION_HASH_MISMATCH'')
           else if \<not> isStr b ''recipientId'' (acRecipientId expected) \<or>
                   \<not> isStr b ''delegationId'' (acDelegationId expected) \<or>
                   \<not> isStr b ''epoch'' (acEpoch expected)
             then Inl (Error ''BINDING_CONTEXT_MISMATCH'')
           else if (case acSessionId expected of
                      Some s \<Rightarrow> s \<noteq> [] \<and> \<not> isStr b ''sessionId'' s | None \<Rightarrow> False)
             then Inl (Error ''SESSION_MISMATCH'')
           else Inr ())"

section \<open>Byte comparison\<close>

lemma byteOf_inject: "byteOf a = byteOf b \<longleftrightarrow> a = b"
  by (simp add: byteOf_def)

lemma foldl_or_zero:
  "foldl (\<lambda>d p. d OR (byteOf (fst p) XOR byteOf (snd p))) d ps = (0::int) \<longleftrightarrow>
   d = 0 \<and> list_all (\<lambda>p. fst p = snd p) ps"
proof (induction ps arbitrary: d)
  case Nil
  then show ?case by simp
next
  case (Cons p ps)
  have "byteOf (fst p) XOR byteOf (snd p) = 0 \<longleftrightarrow> fst p = snd p"
    by (metis byteOf_inject xor.assoc xor.right_neutral xor_self_eq xor.left_neutral)
  with Cons show ?case by (auto simp: or_eq_0_iff)
qed

lemma equalBytes_eq: "equalBytes a b \<longleftrightarrow> a = b"
proof (cases "length a = length b")
  case True
  have "list_all (\<lambda>p. fst p = snd p) (zip a b) \<longleftrightarrow> a = b"
    using True by (induction a b rule: list_induct2) auto
  with True show ?thesis by (simp add: equalBytes_def foldl_or_zero)
next
  case False
  then show ?thesis by (auto simp: equalBytes_def)
qed

section \<open>Quorums\<close>

text \<open>Witness \<open>w\<close>'s pinned key verifies a signature over \<open>bytes\<close>, with the header of a snapshot.\<close>

definition attests :: "lib \<Rightarrow> TrustBundle \<Rightarrow> string \<Rightarrow> string \<Rightarrow> bool" where
  "attests L trust bytes w \<longleftrightarrow>
     (\<exists>entry key jws header. entry \<in> set (witnessPublicKeys trust) \<and> witnessId entry = w \<and>
        importJwk L (witnessJwk entry) = Some key \<and>
        compactVerify L jws key = Some (header, bytes) \<and>
        isStr header ''typ'' ''callsign/SignedStateSnapshot+jws'' \<and>
        isStr header ''kid'' (witnessKid entry))"

lemma trustedWitness_Some:
  "trustedWitness trust w = Some e \<Longrightarrow> e \<in> set (witnessPublicKeys trust) \<and> witnessId e = w"
  unfolding trustedWitness_def by (auto dest: map_of_SomeD)

lemma verifyWitnessSignature_attests:
  assumes "verifyWitnessSignature L trust bytes sg = Inr ()"
  shows "attests L trust bytes (sigWitnessId sg)"
proof -
  from assms obtain e where e: "trustedWitness trust (sigWitnessId sg) = Some e"
    by (auto simp: verifyWitnessSignature_def split: option.splits)
  from assms e obtain key header payload where
    "importJwk L (witnessJwk e) = Some key" "compactVerify L (sigJws sg) key = Some (header, payload)"
    "isStr header ''typ'' ''callsign/SignedStateSnapshot+jws''" "isStr header ''kid'' (witnessKid e)"
    "payload = bytes"
    by (auto simp: verifyWitnessSignature_def result_simps equalBytes_eq)
  with trustedWitness_Some [OF e] show ?thesis unfolding attests_def by blast
qed

lemma verifySignatures_Inr:
  "verifySignatures L trust bytes unique sgs = Inr us \<Longrightarrow> distinct unique \<Longrightarrow>
   us = unique @ map sigWitnessId sgs \<and> distinct (unique @ map sigWitnessId sgs) \<and>
   (\<forall>sg \<in> set sgs. attests L trust bytes (sigWitnessId sg))"
proof (induction sgs arbitrary: unique)
  case Nil
  then show ?case by simp
next
  case (Cons sg sgs)
  from Cons.prems have new: "sigWitnessId sg \<notin> set unique"
    and ok: "verifyWitnessSignature L trust bytes sg = Inr ()"
    and rest: "verifySignatures L trust bytes (unique @ [sigWitnessId sg]) sgs = Inr us"
    by (auto simp: result_simps)
  from new Cons.prems(2) have "distinct (unique @ [sigWitnessId sg])" by simp
  from Cons.IH [OF rest this] verifyWitnessSignature_attests [OF ok] show ?case by simp
qed

text \<open>Everything a successful verification guarantees of its input and of its result.\<close>

lemma verifyStateBundle_Inr:
  assumes "verifyStateBundle L bundle trust context = Inr v"
  shows "validWitnessTrust trust" "vsSnapshot v = snapshot bundle"
    "stateSnapshotSchema (vsSnapshot v)"
    "jnum (vsSnapshot v) ''version'' \<in> set (supportedProtocolVersions trust)"
    "isStr (vsSnapshot v) ''networkId'' (networkId trust)"
    "isStr (vsSnapshot v) ''genesisHash'' (genesisHash trust)"
    "isStr (vsSnapshot v) ''policyVersion'' (policyVersion trust)"
    "toLowerCase (jstr (vsSnapshot v) ''registryAddress'') = toLowerCase (registryAddress trust)"
    "isStr (vsSnapshot v) ''institutionId'' (expectedInstitutionId context)"
    "isStr (vsSnapshot v) ''delegationId'' (expectedDelegationId context)"
    "verifySignatures L trust (canonicalBytes L (vsSnapshot v)) [] (signatures bundle) = Inr (signerIds v)"
    "witnessThreshold trust \<le> int (length (signerIds v))"
    "snapshotHash v = hashCanonical L (vsSnapshot v)"
    "observedAgeSeconds v = nowWallSeconds context - jnum (vsSnapshot v) ''blockTimestamp''"
    "observedAgeSeconds v < maxAge context" "0 < maxAge context" "maxAge context \<le> 12"
    "jnum (vsSnapshot v) ''blockTimestamp'' \<le> nowWallSeconds context + maxFuture context"
    "maxFuture context \<le> 2"
    "deadlineMonotonicMs v =
       nowMonotonicMs context + (maxAge context - max 0 (observedAgeSeconds v)) * 1000"
    "registryProfile trust \<noteq> None \<longrightarrow>
       jget (vsSnapshot v) ''registryProfile'' = map_option JStr (registryProfile trust)"
  using assms unfolding verifyStateBundle_def Let_def result_simps by auto

lemma verifyStateBundle_signers:
  assumes "verifyStateBundle L bundle trust context = Inr v"
  shows "distinct (signerIds v)"
    "w \<in> set (signerIds v) \<Longrightarrow> attests L trust (canonicalBytes L (vsSnapshot v)) w"
    "set (signerIds v) \<subseteq> set (map witnessId (witnessPublicKeys trust))"
proof -
  have "signerIds v = map sigWitnessId (signatures bundle) \<and>
      distinct (map sigWitnessId (signatures bundle)) \<and>
      (\<forall>sg \<in> set (signatures bundle).
         attests L trust (canonicalBytes L (vsSnapshot v)) (sigWitnessId sg))"
    using verifySignatures_Inr [OF verifyStateBundle_Inr(11) [OF assms]] by simp
  then show "distinct (signerIds v)"
    and att: "\<And>w. w \<in> set (signerIds v) \<Longrightarrow> attests L trust (canonicalBytes L (vsSnapshot v)) w"
    by auto
  from att show "set (signerIds v) \<subseteq> set (map witnessId (witnessPublicKeys trust))"
    unfolding attests_def by auto
qed

section \<open>Runs of the guard\<close>

lemma guardAccept_Inr:
  assumes "guardAccept g v now = Inr g'"
  shows "highestBlock g \<le> blockOf v"
    "blockOf v = highestBlock g \<Longrightarrow> blockHashOf v = highestHash g \<and> snapshotHash v = highestSnapshotHash g"
    "now \<le> deadlineMonotonicMs v"
    "highestBlock g' = blockOf v" "highestHash g' = blockHashOf v"
    "highestSnapshotHash g' = snapshotHash v"
    "deadlines g' = (deadlines g)(blockHashOf v \<mapsto>
       (case deadlines g (blockHashOf v) of Some p \<Rightarrow> p | None \<Rightarrow> deadlineMonotonicMs v))"
    "deadlines g (blockHashOf v) = Some p \<Longrightarrow> deadlineMonotonicMs v \<le> p"
    "knownRevokedAt g' = (if revokedIn v then blockOf v else knownRevokedAt g)"
    "revokedIn v \<or> knownRevokedAt g < blockOf v"
  using assms by (auto simp: guardAccept_def Let_def result_simps split: if_splits option.splits)

definition guardStep :: "MonotonicStateGuard \<Rightarrow> VerifiedState \<times> int \<Rightarrow> MonotonicStateGuard result" where
  "guardStep g p = guardAccept g (fst p) (snd p)"

interpretation guard: monotone_acceptor guardStep highestBlock "\<lambda>p. blockOf (fst p)"
  "\<lambda>g. (highestHash g, highestSnapshotHash g)" "\<lambda>p. (blockHashOf (fst p), snapshotHash (fst p))"
  by unfold_locales (auto simp: guardStep_def dest: guardAccept_Inr)

lemma guardStep_deadline_kept:
  "guardStep g p = Inr g' \<Longrightarrow> deadlines g bh = Some d \<Longrightarrow> deadlines g' bh = Some d"
  by (auto simp: guardStep_def guardAccept_Inr(7))

lemma guard_run_deadline_kept:
  "foldE guardStep g ps = Inr g' \<Longrightarrow> deadlines g bh = Some d \<Longrightarrow> deadlines g' bh = Some d"
  using foldE_invariant [of "\<lambda>g. deadlines g bh = Some d" guardStep g ps g']
  by (blast intro: guardStep_deadline_kept)

lemma guard_run_accepted_deadline:
  "foldE guardStep g ps = Inr g' \<Longrightarrow> p \<in> set ps \<Longrightarrow>
   \<exists>d. deadlines g' (blockHashOf (fst p)) = Some d \<and> snd p \<le> d"
proof (induction ps arbitrary: g)
  case Nil
  then show ?case by simp
next
  case (Cons q ps)
  then obtain g1 where g1: "guardStep g q = Inr g1" "foldE guardStep g1 ps = Inr g'"
    by (auto simp: bindE_eq_Inr)
  show ?case
  proof (cases "p = q")
    case True
    from g1(1) have acc: "guardAccept g (fst q) (snd q) = Inr g1" by (simp add: guardStep_def)
    obtain d where d: "deadlines g1 (blockHashOf (fst q)) = Some d" "snd q \<le> d"
      using guardAccept_Inr(3,7) [OF acc] guardAccept_Inr(8) [OF acc]
      by (cases "deadlines g (blockHashOf (fst q))") (auto intro: order_trans)
    with guard_run_deadline_kept [OF g1(2) d(1)] True show ?thesis by auto
  next
    case False
    with Cons g1 show ?thesis by auto
  qed
qed

lemma guardStep_revoked_at:
  assumes "guardStep g p = Inr g'" and "knownRevokedAt g \<le> highestBlock g"
  shows "knownRevokedAt g \<le> knownRevokedAt g'" "knownRevokedAt g' \<le> highestBlock g'"
  using assms guardAccept_Inr(1,4,9) [of g "fst p" "snd p" g']
  by (auto simp: guardStep_def split: if_splits)

lemma guard_run_revocation:
  "foldE guardStep g ps = Inr g' \<Longrightarrow> knownRevokedAt g \<le> highestBlock g \<Longrightarrow> p \<in> set ps \<Longrightarrow>
   \<not> revokedIn (fst p) \<Longrightarrow> knownRevokedAt g < blockOf (fst p)"
proof (induction ps arbitrary: g)
  case Nil
  then show ?case by simp
next
  case (Cons q ps)
  then obtain g1 where g1: "guardStep g q = Inr g1" "foldE guardStep g1 ps = Inr g'"
    by (auto simp: bindE_eq_Inr)
  note mono = guardStep_revoked_at [OF g1(1) Cons.prems(2)]
  show ?case
  proof (cases "p = q")
    case True
    with g1(1) Cons.prems(4) show ?thesis by (auto simp: guardStep_def dest: guardAccept_Inr(10))
  next
    case False
    with Cons.prems have "p \<in> set ps" by simp
    from Cons.IH [OF g1(2) mono(2) this Cons.prems(4)] mono(1) show ?thesis by simp
  qed
qed

lemma limitDeadline_accept:
  assumes "guardAccept g (limitDeadline g v) now = Inl e"
  shows "e \<noteq> Error ''DEADLINE_EXTENSION_ATTEMPT''"
proof -
  have "blockHashOf (limitDeadline g v) = blockHashOf v"
    by (simp add: limitDeadline_def blockHashOf_def split: option.splits)
  moreover have "deadlines g (blockHashOf v) = Some p \<Longrightarrow> deadlineMonotonicMs (limitDeadline g v) \<le> p" for p
    by (simp add: limitDeadline_def blockHashOf_def)
  ultimately show ?thesis
    using assms by (fastforce simp: guardAccept_def Let_def result_simps split: option.splits)
qed

end
