(* ===== verification/Verifier_Properties.thy ===== *)
theory Verifier_Properties
  imports Verifier Scenario
begin

text \<open>
  What accepting a state bundle means, and what a whole sequence of accepted bundles means. The
  concrete bundle at the start (three of four witnesses sign one snapshot) is where the
  theorems are applied.
\<close>

section \<open>A concrete bundle\<close>

definition demoHash32 :: "char \<Rightarrow> string" where
  "demoHash32 c = ''0x'' @ replicate 64 c"

definition demoInstitutionState :: json where
  "demoInstitutionState = JObj
    [(''exists'', JBool True), (''status'', JStr ''Active''), (''epoch'', JStr ''1''),
     (''approvalPublicKey'', JStr (demoHash32 (CHR ''a''))), (''policyVersion'', JStr ''1'')]"

definition demoDelegationState :: json where
  "demoDelegationState = JObj
    [(''exists'', JBool True), (''epoch'', JStr ''1''),
     (''gatewayPublicKey'', JStr (demoHash32 (CHR ''b''))), (''purposeMask'', JStr ''4''),
     (''validFrom'', JNum 1000), (''validUntil'', JNum 9000), (''revoked'', JBool False)]"

definition demoSnapshot :: json where
  "demoSnapshot = JObj
    [(''protocol'', JStr ''callsign''), (''version'', JNum 1), (''type'', JStr ''SignedStateSnapshot''),
     (''networkId'', JStr ''7''), (''genesisHash'', JStr (demoHash32 (CHR ''9''))),
     (''registryAddress'', JStr (''0x'' @ replicate 40 (CHR ''1''))),
     (''policyVersion'', JStr ''1''), (''blockNumber'', JStr ''12''),
     (''blockHash'', JStr (demoHash32 (CHR ''c''))), (''blockTimestamp'', JNum 5000),
     (''institutionId'', JStr (replicate 20 (CHR ''i''))), (''institutionState'', demoInstitutionState),
     (''delegationId'', JStr (replicate 20 (CHR ''d''))), (''delegationState'', demoDelegationState),
     (''directoryHash'', JStr (demoHash32 (CHR ''e''))), (''directoryVersion'', JStr ''1'')]"

definition demoWitness :: "string \<Rightarrow> WitnessKey" where
  "demoWitness w = \<lparr> witnessId = w, witnessKid = w, witnessJwk = demoJwk w \<rparr>"

definition demoTrust :: TrustBundle where
  "demoTrust = \<lparr> networkId = ''7'', genesisHash = demoHash32 (CHR ''9''),
     registryAddress = ''0x'' @ replicate 40 (CHR ''1''), policyVersion = ''1'',
     registryProfile = None, witnessThreshold = 3,
     witnessPublicKeys = map demoWitness [''w1'', ''w2'', ''w3'', ''w4''],
     enrollmentPublicKey = demoJwk ''e'', supportedProtocolVersions = [1] \<rparr>"

definition demoContext :: VerificationContext where
  "demoContext = \<lparr> maxStateAgeSeconds = None, maxFutureSkewSeconds = None, nowWallSeconds = 5004,
     nowMonotonicMs = 700, expectedInstitutionId = replicate 20 (CHR ''i''),
     expectedDelegationId = replicate 20 (CHR ''d'') \<rparr>"

definition demoSignature :: "string \<Rightarrow> WitnessSignature" where
  "demoSignature w = \<lparr> sigWitnessId = w,
     sigJws = demoSign (protectedHeader ''SignedStateSnapshot'' w) (demoCanonical demoSnapshot) w \<rparr>"

definition demoBundle :: StateBundle where
  "demoBundle = \<lparr> snapshot = demoSnapshot, signatures = map demoSignature [''w1'', ''w2'', ''w3''] \<rparr>"

definition demoVerified :: VerifiedState where
  "demoVerified = \<lparr> vsSnapshot = demoSnapshot, signerIds = [''w1'', ''w2'', ''w3''],
     snapshotHash = hashCanonical (demoLib []) demoSnapshot, deadlineMonotonicMs = 8700,
     observedAgeSeconds = 4 \<rparr>"

lemma demoSnapshot_schema: "stateSnapshotSchema demoSnapshot"
proof -
  have inst: "institutionStateSchema demoInstitutionState"
    unfolding institutionStateSchema_def demoInstitutionState_def
    by (rule zObject_in_order) (simp_all add: schema_eval decimalInteger_def demoHash32_def)
  have dele: "delegationStateSchema demoDelegationState"
    unfolding delegationStateSchema_def demoDelegationState_def
    by (rule zObject_in_order) (simp_all add: schema_eval decimalInteger_def demoHash32_def)
  show ?thesis
    using inst dele
    by (simp add: stateSnapshotSchema_def demoSnapshot_def zObject_def schema_eval jget_def
        decimalInteger_def address_def hash32_def stateId_def demoHash32_def)
qed

lemma demoWitness_verifies:
  "w \<in> {''w1'', ''w2'', ''w3''} \<Longrightarrow>
   verifyWitnessSignature (demoLib []) demoTrust (demoCanonical demoSnapshot) (demoSignature w) = Inr ()"
  by (auto simp: verifyWitnessSignature_def trustedWitness_def demoTrust_def demoWitness_def
      demoSignature_def demoLib_def demoJwk_def demoVerify_demoSign protectedHeader_def bar_def
      messageTyp_def isStr_def jget_def jstr_def equalBytes_eq)

lemma demoBundle_verified: "verifyStateBundle (demoLib []) demoBundle demoTrust demoContext = Inr demoVerified"
proof -
  have "verifySignatures (demoLib []) demoTrust (demoCanonical demoSnapshot) [] (signatures demoBundle) =
      Inr [''w1'', ''w2'', ''w3'']"
    by (simp add: demoBundle_def demoWitness_verifies) (simp add: demoSignature_def)
  moreover have "canonicalBytes (demoLib []) demoSnapshot = demoCanonical demoSnapshot"
    by (simp add: canonicalBytes_def demoLib_def)
  moreover have "validWitnessTrust demoTrust"
    by (simp add: validWitnessTrust_def demoTrust_def demoWitness_def demoJwk_def jget_def)
  moreover have "jnum demoSnapshot ''version'' = 1" "jnum demoSnapshot ''blockTimestamp'' = 5000"
    "isStr demoSnapshot ''networkId'' ''7''" "isStr demoSnapshot ''policyVersion'' ''1''"
    "isStr demoSnapshot ''genesisHash'' (demoHash32 (CHR ''9''))"
    "jstr demoSnapshot ''registryAddress'' = ''0x'' @ replicate 40 (CHR ''1'')"
    "isStr demoSnapshot ''institutionId'' (replicate 20 (CHR ''i''))"
    "isStr demoSnapshot ''delegationId'' (replicate 20 (CHR ''d''))"
    by (simp_all add: demoSnapshot_def member_defs)
  ultimately show ?thesis
    using demoSnapshot_schema
    by (simp add: verifyStateBundle_def parseWith_def maxAge_def maxFuture_def demoContext_def demoVerified_def
        demoBundle_def) (simp add: demoTrust_def)
qed

section \<open>One bundle\<close>

text \<open>
  C1: a state bundle is accepted only with a quorum: the reported signers are pairwise distinct
  pinned witnesses, at least as many as the pinned threshold, and the pinned key of each verifies a
  signature over the canonical bytes of exactly the returned snapshot. The snapshot conforms to its
  schema and is the one asked for, of the pinned network and registry.
\<close>

theorem accepted_state_has_quorum:
  assumes "verifyStateBundle L bundle trust context = Inr v"
  shows "vsSnapshot v = snapshot bundle \<and> stateSnapshotSchema (vsSnapshot v) \<and>
    distinct (signerIds v) \<and> witnessThreshold trust \<le> int (length (signerIds v)) \<and>
    list_all (attests L trust (canonicalBytes L (vsSnapshot v))) (signerIds v) \<and>
    isStr (vsSnapshot v) ''networkId'' (networkId trust) \<and>
    isStr (vsSnapshot v) ''genesisHash'' (genesisHash trust) \<and>
    isStr (vsSnapshot v) ''institutionId'' (expectedInstitutionId context) \<and>
    isStr (vsSnapshot v) ''delegationId'' (expectedDelegationId context)"
  using verifyStateBundle_Inr(2,3,5,6,9,10,12) [OF assms] verifyStateBundle_signers [OF assms]
  by (simp add: list_all_iff)

theorem accepted_state_has_quorum_witness:
  "verifyStateBundle (demoLib []) demoBundle demoTrust demoContext = Inr demoVerified \<and>
   3 \<le> length (signerIds demoVerified) \<and>
   list_all (attests (demoLib []) demoTrust (canonicalBytes (demoLib []) demoSnapshot)) (signerIds demoVerified)"
  using accepted_state_has_quorum [OF demoBundle_verified] demoBundle_verified
  by (simp add: demoVerified_def demoTrust_def)

text \<open>
  When the threshold is a strict majority of the pinned witnesses (3 of 4 in every deployment),
  any two accepted bundles have a common witness whose pinned key signed both snapshots; so two
  conflicting snapshots can be accepted only if some pinned witness signed both.
\<close>

theorem accepted_states_share_a_witness:
  assumes "verifyStateBundle L b1 trust c1 = Inr v1" "verifyStateBundle L b2 trust c2 = Inr v2"
    and "int (length (witnessPublicKeys trust)) < 2 * witnessThreshold trust"
  shows "\<exists>w. attests L trust (canonicalBytes L (vsSnapshot v1)) w \<and>
             attests L trust (canonicalBytes L (vsSnapshot v2)) w"
proof -
  from verifyStateBundle_Inr(1) [OF assms(1)]
  have "distinct (map witnessId (witnessPublicKeys trust))" by (simp add: validWitnessTrust_def)
  moreover have "length (map witnessId (witnessPublicKeys trust)) < length (signerIds v1) + length (signerIds v2)"
    using verifyStateBundle_Inr(12) [OF assms(1)] verifyStateBundle_Inr(12) [OF assms(2)] assms(3) by simp
  ultimately obtain w where "w \<in> set (signerIds v1)" "w \<in> set (signerIds v2)"
    using quorums_intersect [of "signerIds v1" "map witnessId (witnessPublicKeys trust)" "signerIds v2"]
      verifyStateBundle_signers(1,3) [OF assms(1)] verifyStateBundle_signers(1,3) [OF assms(2)] by blast
  then show ?thesis
    using verifyStateBundle_signers(2) [OF assms(1)] verifyStateBundle_signers(2) [OF assms(2)] by blast
qed

theorem accepted_states_share_a_witness_witness:
  "int (length (witnessPublicKeys demoTrust)) < 2 * witnessThreshold demoTrust \<and>
   (\<exists>w. attests (demoLib []) demoTrust (canonicalBytes (demoLib []) (vsSnapshot demoVerified)) w \<and>
        attests (demoLib []) demoTrust (canonicalBytes (demoLib []) (vsSnapshot demoVerified)) w)"
proof -
  have h: "int (length (witnessPublicKeys demoTrust)) < 2 * witnessThreshold demoTrust"
    by (simp add: demoTrust_def)
  with accepted_states_share_a_witness [OF demoBundle_verified demoBundle_verified h] show ?thesis by simp
qed

text \<open>
  An accepted snapshot is fresh: its block is at most two seconds in the future and less than
  twelve seconds old, and its monotonic deadline lies after the present and at most twelve seconds
  ahead, so a snapshot can never be used for longer than the age limit.
\<close>

theorem accepted_state_is_fresh:
  assumes "verifyStateBundle L bundle trust context = Inr v"
  shows "jnum (vsSnapshot v) ''blockTimestamp'' \<le> nowWallSeconds context + 2 \<and>
    nowWallSeconds context < jnum (vsSnapshot v) ''blockTimestamp'' + 12 \<and>
    nowMonotonicMs context < deadlineMonotonicMs v \<and>
    deadlineMonotonicMs v \<le> nowMonotonicMs context + 12000"
  using verifyStateBundle_Inr(14-20) [OF assms] by (simp add: max_def)

theorem accepted_state_is_fresh_witness:
  "verifyStateBundle (demoLib []) demoBundle demoTrust demoContext = Inr demoVerified \<and>
   nowMonotonicMs demoContext < deadlineMonotonicMs demoVerified \<and>
   deadlineMonotonicMs demoVerified \<le> nowMonotonicMs demoContext + 12000"
  using accepted_state_is_fresh [OF demoBundle_verified] demoBundle_verified by simp

section \<open>A sequence of bundles\<close>

text \<open>
  C2: over the lifetime of a guard the accepted states never roll back, and two states accepted at
  one height have the same block hash and the same snapshot: no fork is ever accepted.
\<close>

theorem guard_accepts_one_history:
  assumes "foldE guardStep newGuard ps = Inr g"
  shows "sorted (map (\<lambda>p. blockOf (fst p)) ps) \<and>
    (\<forall>p q. p \<in> set ps \<and> q \<in> set ps \<and> blockOf (fst p) = blockOf (fst q) \<longrightarrow>
       blockHashOf (fst p) = blockHashOf (fst q) \<and> snapshotHash (fst p) = snapshotHash (fst q))"
  using guard.run_sorted [OF assms] guard.run_one_identity_per_height [OF assms] by blast

definition demoGuard :: MonotonicStateGuard where
  "demoGuard = \<lparr> highestBlock = 12, highestHash = demoHash32 (CHR ''c''),
     highestSnapshotHash = hashCanonical (demoLib []) demoSnapshot, knownRevokedAt = -1,
     deadlines = [demoHash32 (CHR ''c'') \<mapsto> 8700] \<rparr>"

lemma demo_members:
  "blockOf demoVerified = 12" "blockHashOf demoVerified = demoHash32 (CHR ''c'')"
  "\<not> revokedIn demoVerified"
  by (simp_all add: blockOf_def blockHashOf_def revokedIn_def demoVerified_def demoSnapshot_def
      demoDelegationState_def member_defs bigInt_def digitValue_def)

lemma demoGuard_run: "foldE guardStep newGuard [(demoVerified, 800), (demoVerified, 900)] = Inr demoGuard"
proof -
  have "guardStep newGuard (demoVerified, 800) = Inr demoGuard"
    using demo_members
    by (simp add: guardStep_def guardAccept_def newGuard_def demoGuard_def Let_def)
       (simp add: demoVerified_def)
  moreover have "guardStep demoGuard (demoVerified, 900) = Inr demoGuard"
    using demo_members
    by (simp add: guardStep_def guardAccept_def demoGuard_def Let_def)
       (simp add: demoVerified_def)
  ultimately show ?thesis by simp
qed

theorem guard_accepts_one_history_witness:
  "foldE guardStep newGuard [(demoVerified, 800), (demoVerified, 900)] = Inr demoGuard \<and>
   sorted (map (\<lambda>p. blockOf (fst p)) [(demoVerified, 800::int), (demoVerified, 900)])"
  using guard_accepts_one_history [OF demoGuard_run] demoGuard_run by blast

text \<open>
  The first deadline recorded for a block is final: however often the block is presented again,
  the deadline in the guard stays, and a state is only ever accepted at or before it.
\<close>

theorem guard_deadline_is_final:
  assumes "foldE guardStep newGuard (ps @ qs) = Inr g" "foldE guardStep newGuard ps = Inr g0"
    and "deadlines g0 bh = Some d"
  shows "deadlines g bh = Some d \<and>
    (\<forall>p. p \<in> set qs \<and> blockHashOf (fst p) = bh \<longrightarrow> snd p \<le> d)"
proof -
  from assms(1,2) have run: "foldE guardStep g0 qs = Inr g" by (simp add: foldE_append)
  from guard_run_deadline_kept [OF this assms(3)] have "deadlines g bh = Some d" .
  with guard_run_accepted_deadline [OF run] show ?thesis by fastforce
qed

theorem guard_deadline_is_final_witness:
  "foldE guardStep newGuard ([(demoVerified, 800)] @ [(demoVerified, 900)]) = Inr demoGuard \<and>
   deadlines demoGuard (demoHash32 (CHR ''c'')) = Some 8700"
proof -
  have a: "foldE guardStep newGuard ([(demoVerified, 800)] @ [(demoVerified, 900)]) = Inr demoGuard"
    using demoGuard_run by simp
  have b: "foldE guardStep newGuard [(demoVerified, 800)] = Inr demoGuard"
    using demo_members
    by (simp add: guardStep_def guardAccept_def newGuard_def demoGuard_def Let_def)
       (simp add: demoVerified_def)
  have "deadlines demoGuard (demoHash32 (CHR ''c'')) = Some 8700" by (simp add: demoGuard_def)
  with guard_deadline_is_final [OF a b this] a show ?thesis by blast
qed

text \<open>
  C3: once a revoked delegation has been accepted at some height, no later accepted state at that
  height or below shows the delegation unrevoked.
\<close>

theorem guard_keeps_revocation:
  assumes "foldE guardStep newGuard (ps @ p # qs) = Inr g" "revokedIn (fst p)"
    and "q \<in> set qs" "\<not> revokedIn (fst q)"
  shows "blockOf (fst p) < blockOf (fst q)"
proof -
  from assms(1) obtain g0 g1 where run: "foldE guardStep newGuard ps = Inr g0"
    "guardStep g0 p = Inr g1" "foldE guardStep g1 qs = Inr g"
    by (auto simp: foldE_append bindE_eq_Inr)
  from run(2) assms(2) have "knownRevokedAt g1 = blockOf (fst p)" "highestBlock g1 = blockOf (fst p)"
    by (auto simp: guardStep_def dest: guardAccept_Inr)
  with guard_run_revocation [OF run(3) _ assms(3,4)] show ?thesis by simp
qed

definition demoRevoked :: VerifiedState where
  "demoRevoked = demoVerified\<lparr> vsSnapshot := jset (jset demoSnapshot ''blockNumber'' (JStr ''11''))
     ''delegationState'' (jset demoDelegationState ''revoked'' (JBool True)) \<rparr>"

lemma demoRevoked_members:
  "blockOf demoRevoked = 11" "blockHashOf demoRevoked = demoHash32 (CHR ''c'')" "revokedIn demoRevoked"
proof -
  show "blockOf demoRevoked = 11"
    by (simp add: blockOf_def demoRevoked_def jstr_def bigInt_def digitValue_def)
  show "blockHashOf demoRevoked = demoHash32 (CHR ''c'')"
    by (simp add: blockHashOf_def demoRevoked_def jstr_def) (simp add: demoSnapshot_def jget_def)
  show "revokedIn demoRevoked"
    by (simp add: revokedIn_def demoRevoked_def jbool_def jobj_def)
qed

theorem guard_keeps_revocation_witness:
  "succeeds (foldE guardStep newGuard ([] @ (demoRevoked, 800) # [(demoVerified, 900)])) \<and>
   blockOf demoRevoked < blockOf demoVerified"
proof -
  obtain g where g: "foldE guardStep newGuard ([] @ (demoRevoked, 800) # [(demoVerified, 900)]) = Inr g"
    using demo_members demoRevoked_members
    by (simp add: guardStep_def guardAccept_def newGuard_def Let_def)
       (simp add: demoVerified_def demoRevoked_def)
  have "blockOf (fst (demoRevoked, 800::int)) < blockOf (fst (demoVerified, 900::int))"
    by (rule guard_keeps_revocation [OF g]) (simp_all add: demo_members demoRevoked_members)
  with g show ?thesis by (simp add: succeeds_def)
qed

end
