(* ===== verification/Dates.thy ===== *)
theory Dates
  imports Json
begin

text \<open>
  ISO 8601 instants as the credentials carry them: the text accepted by \<^verbatim>\<open>z.iso.datetime()\<close> (a
  calendar date, a time of day, \<^verbatim>\<open>Z\<close>) and its value under \<^verbatim>\<open>Date.parse\<close>, in milliseconds since
  1970. Fractions of a second are read to the millisecond.
\<close>

definition isDigitsN :: "nat \<Rightarrow> string \<Rightarrow> bool" where
  "isDigitsN n s \<longleftrightarrow> length s = n \<and> allIn digitChars s"

definition isLeapYear :: "int \<Rightarrow> bool" where
  "isLeapYear y \<longleftrightarrow> (y mod 4 = 0 \<and> y mod 100 \<noteq> 0) \<or> y mod 400 = 0"

definition daysInMonth :: "int \<Rightarrow> int \<Rightarrow> int" where
  "daysInMonth y m =
     (if m = 2 then (if isLeapYear y then 29 else 28)
      else if m \<in> {4, 6, 9, 11} then 30 else 31)"

definition field :: "nat \<Rightarrow> nat \<Rightarrow> string \<Rightarrow> int" where
  "field i n s = bigInt (take n (drop i s))"

text \<open>The tail after hours and minutes: \<^verbatim>\<open>Z\<close>, \<^verbatim>\<open>:SSZ\<close> or \<^verbatim>\<open>:SS.fZ\<close>.\<close>

definition isoSeconds :: "string \<Rightarrow> bool" where
  "isoSeconds t \<longleftrightarrow>
     t = ''Z'' \<or>
     (take 1 t = '':'' \<and> isDigitsN 2 (take 2 (drop 1 t)) \<and> field 1 2 t < 60 \<and>
      (drop 3 t = ''Z'' \<or>
       (take 1 (drop 3 t) = ''.'' \<and> 6 \<le> length t \<and> last t = CHR ''Z'' \<and>
        allIn digitChars (butlast (drop 4 t)))))"

definition isIsoDatetime :: "string \<Rightarrow> bool" where
  "isIsoDatetime s \<longleftrightarrow>
     isDigitsN 4 (take 4 s) \<and> take 1 (drop 4 s) = ''-'' \<and> isDigitsN 2 (take 2 (drop 5 s)) \<and>
     take 1 (drop 7 s) = ''-'' \<and> isDigitsN 2 (take 2 (drop 8 s)) \<and> take 1 (drop 10 s) = ''T'' \<and>
     isDigitsN 2 (take 2 (drop 11 s)) \<and> take 1 (drop 13 s) = '':'' \<and>
     isDigitsN 2 (take 2 (drop 14 s)) \<and>
     1 \<le> field 5 2 s \<and> field 5 2 s \<le> 12 \<and>
     1 \<le> field 8 2 s \<and> field 8 2 s \<le> daysInMonth (field 0 4 s) (field 5 2 s) \<and>
     field 11 2 s \<le> 23 \<and> field 14 2 s \<le> 59 \<and> isoSeconds (drop 16 s)"

definition isoDatetime :: schema where
  "isoDatetime = zString isIsoDatetime"

text \<open>Days since 1970-01-01 of a date of the proleptic Gregorian calendar.\<close>

definition daysFromCivil :: "int \<Rightarrow> int \<Rightarrow> int \<Rightarrow> int" where
  "daysFromCivil y m d =
     (let y' = (if m \<le> 2 then y - 1 else y);
          era = y' div 400;
          yoe = y' - era * 400;
          doy = (153 * (m + (if m > 2 then -3 else 9)) + 2) div 5 + d - 1
      in era * 146097 + yoe * 365 + yoe div 4 - yoe div 100 + doy - 719468)"

definition milliseconds :: "string \<Rightarrow> int" where
  "milliseconds fraction = bigInt (take 3 (fraction @ ''000''))"

definition dateParse :: "string \<Rightarrow> int" where
  "dateParse s =
     (let t = drop 16 s;
          sec = (if take 1 t = '':'' then field 1 2 t else 0);
          ms = (if take 1 (drop 3 t) = ''.'' then milliseconds (butlast (drop 4 t)) else 0)
      in ((daysFromCivil (field 0 4 s) (field 5 2 s) (field 8 2 s) * 24 + field 11 2 s) * 60 +
          field 14 2 s) * 60000 + sec * 1000 + ms)"

text \<open>
  \<^verbatim>\<open>new Date(ms).toISOString()\<close> for an instant of the years 0 to 9999: the date of the days since 1970
  and the time of day, with milliseconds.
\<close>

definition civilFromDays :: "int \<Rightarrow> int \<times> int \<times> int" where
  "civilFromDays z =
     (let z' = z + 719468; era = z' div 146097; doe = z' - era * 146097;
          yoe = (doe - doe div 1460 + doe div 36524 - doe div 146096) div 365;
          doy = doe - (365 * yoe + yoe div 4 - yoe div 100);
          mp = (5 * doy + 2) div 153;
          m = (if mp < 10 then mp + 3 else mp - 9)
      in (yoe + era * 400 + (if m \<le> 2 then 1 else 0), m, doy - (153 * mp + 2) div 5 + 1))"

definition padded :: "nat \<Rightarrow> int \<Rightarrow> string" where
  "padded n v = (let s = decimalString (nat v) in replicate (n - length s) (CHR ''0'') @ s)"

definition toISOString :: "int \<Rightarrow> string" where
  "toISOString ms =
     (let day = ms div 86400000; t = ms mod 86400000 in
      case civilFromDays day of (y, m, d) \<Rightarrow>
        padded 4 y @ ''-'' @ padded 2 m @ ''-'' @ padded 2 d @ ''T'' @ padded 2 (t div 3600000) @ '':'' @
        padded 2 (t div 60000 mod 60) @ '':'' @ padded 2 (t div 1000 mod 60) @ ''.'' @ padded 3 (t mod 1000) @ ''Z'')"

lemma toISOString_epoch: "toISOString 3600000 = ''1970-01-01T01:00:00.000Z''"
  by code_simp

lemma toISOString_example: "toISOString 1793957415250 = ''2026-11-06T09:30:15.250Z''"
  by code_simp

lemma dateParse_epoch: "dateParse ''1970-01-01T00:00:00.000Z'' = 0"
  by (simp add: dateParse_def field_def bigInt_def digitValue_def daysFromCivil_def milliseconds_def)

lemma dateParse_example: "dateParse ''2026-11-06T09:30:15.250Z'' = 1793957415250"
  by (simp add: dateParse_def field_def bigInt_def digitValue_def daysFromCivil_def milliseconds_def)

end
