(* ===== verification/Finals.thy ===== *)
theory Finals
  imports Verifier Base64 Dates
begin

text \<open>
  Protocol version 2 (\<^verbatim>\<open>packages/protocol/src/finals.ts\<close>) and the receiver's check of a whole
  contact (\<^verbatim>\<open>packages/verifier/src/finals.ts\<close>): authorization, delegation credential, session
  permit, consumption receipt, fresh status proof, session binding, observed transport and
  ledger state are verified against each other before a call is shown as verified.
\<close>

section \<open>Schemas\<close>

definition finalsId :: schema where
  "finalsId = zString (lengthBetween 3 200)"

definition digest :: schema where
  "digest = zString isHex64"

definition base64urlChars :: string where
  "base64urlChars = upperChars @ lowerChars @ digitChars @ ''_-''"

definition isPublicX :: "string \<Rightarrow> bool" where
  "isPublicX x \<longleftrightarrow> length x = 43 \<and> allIn base64urlChars x"

definition publicKeySchema :: schema where
  "publicKeySchema = zObject
    [(''kty'', zLiteral (JStr ''OKP'')), (''crv'', zLiteral (JStr ''Ed25519'')),
     (''x'', zString isPublicX)] []"

definition positiveInt :: schema where
  "positiveInt = zInt (\<lambda>n. 0 < n)"

definition nonnegativeInt :: schema where
  "nonnegativeInt = zInt (\<lambda>n. 0 \<le> n)"

definition anyInt :: schema where
  "anyInt = zInt (\<lambda>n. True)"

definition digitsString :: schema where
  "digitsString = zString isDigits"

definition policySchema :: schema where
  "policySchema = zObject
    [(''id'', finalsId), (''version'', positiveInt),
     (''purpose'', zLiteral (JStr ''FRAUD_CONFIRMATION'')),
     (''allowedQuestions'', zArray 1 20 (zString (lengthBetween 1 300))),
     (''forbiddenRequests'', \<lambda>v. (case v of JArr xs \<Rightarrow>
        1 \<le> length xs \<and> list_all (zEnum [''OTP'', ''TRANSFER'', ''REMOTE_CONTROL'', ''SECRECY'']) xs
      | _ \<Rightarrow> False)),
     (''followUpPath'', zLiteral (JStr ''/official''))] []"

text \<open>The two allowed questions of the mock bank's policy.\<close>

definition identityQuestion :: string where
  "identityQuestion = utf8Text [235, 179, 184, 236, 157, 184, 236, 157, 180, 32, 237, 149, 180, 235,
     139, 185, 32, 234, 177, 176, 235, 158, 152, 235, 165, 188, 32, 236, 139, 156, 235, 143, 132, 237,
     150, 136, 235, 138, 148, 236, 167, 128, 32, 236, 151, 172, 235, 182, 128]"

definition merchantQuestion :: string where
  "merchantQuestion = utf8Text [234, 177, 176, 235, 158, 152, 32, 236, 139, 156, 234, 176, 129, 234,
     179, 188, 32, 234, 176, 128, 235, 167, 185, 236, 160, 144, 32, 237, 153, 149, 236, 157, 184]"

definition bankPolicy :: json where
  "bankPolicy = JObj
    [(''id'', JStr ''mock-bank-fds''), (''version'', JNum 1), (''purpose'', JStr ''FRAUD_CONFIRMATION''),
     (''allowedQuestions'', JArr [JStr identityQuestion, JStr merchantQuestion]),
     (''forbiddenRequests'', JArr [JStr ''OTP'', JStr ''TRANSFER'', JStr ''REMOTE_CONTROL'', JStr ''SECRECY'']),
     (''followUpPath'', JStr ''/official'')]"

definition clock :: "(string \<times> schema) list" where
  "clock = [(''issuedAt'', nonnegativeInt), (''expiresAt'', nonnegativeInt)]"

definition finalsBase :: "(string \<times> schema) list" where
  "finalsBase =
    [(''protocol'', zLiteral (JStr ''callsign'')), (''version'', zLiteral (JNum 2)),
     (''networkId'', finalsId), (''registryAddress'', address)]"

definition permitSchema :: schema where
  "permitSchema = zObject (finalsBase @ clock @
    [(''type'', zLiteral (JStr ''SenderSessionPermit'')), (''institutionId'', finalsId),
     (''intentId'', finalsId), (''attemptId'', finalsId), (''agentId'', finalsId),
     (''serviceDid'', finalsId), (''serviceKeyVersion'', positiveInt),
     (''browserPublicKey'', publicKeySchema), (''sessionId'', finalsId), (''policyHash'', digest),
     (''vcDigest'', digest)]) []"

definition authorizationV2Schema :: schema where
  "authorizationV2Schema = zObject (finalsBase @ clock @
    [(''type'', zLiteral (JStr ''ContactAuthorization'')), (''authorizationId'', finalsId),
     (''institutionId'', finalsId), (''issuerDid'', finalsId), (''approvalKeyVersion'', positiveInt),
     (''epoch'', digitsString), (''intentId'', finalsId), (''attemptId'', finalsId),
     (''recipientId'', finalsId), (''purpose'', zLiteral (JStr ''FRAUD_CONFIRMATION'')),
     (''policyHash'', digest), (''vcDigest'', digest), (''permitHash'', digest),
     (''sessionId'', finalsId), (''browserKeyHash'', digest)]) []"

definition bindingV2Schema :: schema where
  "bindingV2Schema = zObject (finalsBase @ clock @
    [(''type'', zLiteral (JStr ''SessionBinding'')), (''authorizationHash'', digest),
     (''sessionId'', finalsId), (''recipientId'', finalsId), (''recipientNonce'', finalsId),
     (''recipientKeyHash'', digest), (''gatewayFingerprint'', fingerprint),
     (''receiverFingerprint'', fingerprint), (''offerSdpHash'', digest), (''answerSdpHash'', digest),
     (''transportProfile'', zEnum [''webrtc-bundle-v2'', ''pbx-edge-v2''])]) []"

definition possessionSchema :: schema where
  "possessionSchema = zObject (finalsBase @ clock @
    [(''type'', zLiteral (JStr ''PossessionProof'')), (''role'', zEnum [''sender'', ''recipient'']),
     (''authorizationId'', finalsId), (''bindingHash'', digest), (''sessionId'', finalsId)]) []"

definition receiptV2Schema :: schema where
  "receiptV2Schema = zObject (finalsBase @
    [(''type'', zLiteral (JStr ''ConsumptionReceipt'')), (''authorizationId'', finalsId),
     (''authorizationHash'', digest), (''bindingHash'', digest), (''sessionId'', finalsId),
     (''recipientId'', finalsId), (''approvalKeyVersion'', positiveInt), (''consumedAt'', anyInt),
     (''expiresAt'', anyInt)]) []"

definition startsWith :: "string \<Rightarrow> string \<Rightarrow> bool" where
  "startsWith pre s \<longleftrightarrow> take (length pre) s = pre"

definition credentialStatusSchema :: schema where
  "credentialStatusSchema = zObject
    [(''id'', finalsId), (''type'', zLiteral (JStr ''CallSignRegistryStatus'')),
     (''registryAddress'', address), (''networkId'', finalsId), (''epoch'', digitsString),
     (''approvalKeyVersion'', positiveInt)] []"

definition delegationVcSchema :: schema where
  "delegationVcSchema = zObject
    [(''@context'', zTuple [zLiteral (JStr ''https://www.w3.org/ns/credentials/v2''),
        zObject [(''@vocab'', zLiteral (JStr ''urn:callsign:v2:''))] []]),
     (''id'', zString (startsWith ''urn:uuid:'')),
     (''type'', zTuple [zLiteral (JStr ''VerifiableCredential''), zLiteral (JStr ''DelegationCredential'')]),
     (''issuer'', finalsId), (''validFrom'', isoDatetime), (''validUntil'', isoDatetime),
     (''credentialSubject'', zObject
        [(''id'', finalsId), (''institutionId'', finalsId), (''controller'', finalsId),
         (''serviceKeyVersion'', positiveInt), (''publicKey'', publicKeySchema),
         (''purpose'', zLiteral (JStr ''FRAUD_CONFIRMATION'')), (''policyHash'', digest)] []),
     (''credentialStatus'', credentialStatusSchema)] []"

definition channelChallengeSchema :: schema where
  "channelChallengeSchema = zObject
    [(''type'', zLiteral (JStr ''ChannelChallenge'')), (''version'', zLiteral (JNum 2)),
     (''role'', zEnum [''sender'', ''recipient'']), (''bindingHash'', digest),
     (''receiverNonce'', zString (lengthBetween 16 128)),
     (''gatewayNonce'', zString (lengthBetween 16 128))] []"

definition authorizationStatusSchema :: schema where
  "authorizationStatusSchema = zObject (finalsBase @ clock @
    [(''type'', zLiteral (JStr ''AuthorizationStatus'')), (''authorizationId'', finalsId),
     (''bindingHash'', digest), (''nonce'', finalsId),
     (''status'', zEnum [''consumed'', ''cancelled'', ''ended'']),
     (''approvalKeyVersion'', positiveInt)]) []"

section \<open>Credentials\<close>

definition vcHeader :: "string \<Rightarrow> json" where
  "vcHeader kid = JObj
    [(''alg'', JStr ''EdDSA''), (''typ'', JStr ''vc+jwt''), (''cty'', JStr ''vc''), (''kid'', JStr kid)]"

definition signVc :: "lib \<Rightarrow> schema \<Rightarrow> json \<Rightarrow> keyHandle \<Rightarrow> string \<Rightarrow> string result" where
  "signVc L schema vc privateKey kid =
     bindE (parseWith schema vc) (\<lambda>v. Inr (compactSign L (vcHeader kid) (canonicalBytes L v) privateKey))"

text \<open>\<open>jws.length > 32768\<close> counts characters; a compact serialisation is ASCII.\<close>

definition verifyVc :: "lib \<Rightarrow> schema \<Rightarrow> string \<Rightarrow> keyHandle \<Rightarrow> string \<Rightarrow> json result" where
  "verifyVc L schema jws key kid =
     (if jsLength jws > 32768 then Inl (Error ''MESSAGE_TOO_LARGE'')
      else bindE (ofOption LibraryError (compactVerify L jws key)) (\<lambda>r.
        if \<not> isStr (fst r) ''typ'' ''vc+jwt'' \<or> \<not> isStr (fst r) ''cty'' ''vc'' \<or> \<not> isStr (fst r) ''kid'' kid
        then Inl (Error ''VC_HEADER_MISMATCH'')
        else bindE (parseJsonNoDuplicateKeys L (snd r)) (parseWith schema)))"

definition signDelegationVc :: "lib \<Rightarrow> json \<Rightarrow> keyHandle \<Rightarrow> string \<Rightarrow> string result" where
  "signDelegationVc L = signVc L delegationVcSchema"

definition verifyDelegationVc :: "lib \<Rightarrow> string \<Rightarrow> keyHandle \<Rightarrow> string \<Rightarrow> json result" where
  "verifyDelegationVc L = verifyVc L delegationVcSchema"

definition vcDigest :: "lib \<Rightarrow> json \<Rightarrow> string result" where
  "vcDigest L vc = bindE (parseWith delegationVcSchema vc) (\<lambda>v. Inr (hashCanonical L v))"

definition policyHash :: "lib \<Rightarrow> json \<Rightarrow> string result" where
  "policyHash L policy = bindE (parseWith policySchema policy) (\<lambda>v. Inr (hashCanonical L v))"

definition assertPublicKey :: "json \<Rightarrow> unit result" where
  "assertPublicKey key = bindE (parseWith publicKeySchema key) (\<lambda>_. Inr ())"

section \<open>The ledger state of a delegation\<close>

definition hexDigit :: "nat \<Rightarrow> char" where
  "hexDigit n = lowerHexChars ! (n mod 16)"

definition hexByte :: "nat \<Rightarrow> string" where
  "hexByte n = [hexDigit (n div 16), hexDigit n]"

definition rawKey :: "json \<Rightarrow> string result" where
  "rawKey jwk =
     bindE (parseWith publicKeySchema jwk) (\<lambda>k.
       bindE (ofOption LibraryError (atob
           (replaceChar (CHR ''_'') (CHR ''/'') (replaceChar (CHR ''-'') (CHR ''+'') (jstr k ''x'')) @ ''=''))) (\<lambda>bytes.
         Inr (''0x'' @ concat (map hexByte bytes))))"

definition assertLedgerBinding ::
    "json \<Rightarrow> string \<Rightarrow> json \<Rightarrow> json \<Rightarrow> int option \<Rightarrow> int \<Rightarrow> unit result" where
  "assertLedgerBinding state epoch approvalPublicKey servicePublicKey purposeMask now =
     (let i = jobj state ''institutionState''; d = jobj state ''delegationState'';
          mask = (case purposeMask of Some m \<Rightarrow> m | None \<Rightarrow> 4) in
      if \<not> jbool i ''exists'' \<or> \<not> isStr i ''status'' ''Active'' then Inl (Error ''INSTITUTION_NOT_ACTIVE'')
      else if \<not> isStr i ''epoch'' epoch \<or> \<not> isStr d ''epoch'' epoch then Inl (Error ''EPOCH_MISMATCH'')
      else bindE (rawKey approvalPublicKey) (\<lambda>approval.
        if toLowerCase (jstr i ''approvalPublicKey'') \<noteq> approval then Inl (Error ''LEDGER_KEY_MISMATCH'')
        else bindE (rawKey servicePublicKey) (\<lambda>service.
          if toLowerCase (jstr d ''gatewayPublicKey'') \<noteq> service then Inl (Error ''LEDGER_KEY_MISMATCH'')
          else if \<not> jbool d ''exists'' \<or> jbool d ''revoked'' then Inl (Error ''DELEGATION_REVOKED'')
          else if now < jnum d ''validFrom'' \<or> now \<ge> jnum d ''validUntil'' \<or>
                  (bigInt (jstr d ''purposeMask'') AND mask) \<noteq> mask
          then Inl (Error ''DELEGATION_SCOPE_INVALID'')
          else Inr ())))"

section \<open>The receiver's check\<close>

record FinalsTrust =
  issuerDid :: string
  issuerKid :: string
  issuerPublicKey :: json
  serviceDid :: string
  serviceKid :: string
  servicePublicKey :: json
  approvalKeyVersion :: int
  serviceKeyVersion :: int
  chain :: TrustBundle

record ObservedTransport =
  profile :: string
  remoteFingerprint :: string
  dataChannelBindingHash :: string
  connected :: bool

record FinalsInput =
  statusJws :: string
  statusNonce :: string
  authorizationJws :: string
  vcJws :: string
  permitJws :: string
  receiptJws :: string
  fiBinding :: json
  trust :: FinalsTrust
  policy :: json
  state :: StateBundle
  recipientId :: string
  sessionId :: string
  localSdp :: string
  remoteSdp :: string
  recipientPublicKey :: json
  fiNow :: int
  monotonicMs :: int
  observedTransport :: ObservedTransport

record FinalsVerified =
  fvAuthorization :: json
  fvBindingHash :: string
  fvDeadline :: int
  officialPath :: string

definition statusProofInvalid :: "lib \<Rightarrow> FinalsInput \<Rightarrow> json \<Rightarrow> json \<Rightarrow> json \<Rightarrow> bool" where
  "statusProofInvalid L input statusProof a b \<longleftrightarrow>
     \<not> isStr statusProof ''nonce'' (statusNonce input) \<or> \<not> isStr statusProof ''status'' ''consumed'' \<or>
     \<not> sameMember statusProof a ''authorizationId'' \<or>
     \<not> isStr statusProof ''bindingHash'' (hashCanonical L b) \<or>
     \<not> sameMembers statusProof a [''approvalKeyVersion'', ''networkId'', ''registryAddress''] \<or>
     jnum statusProof ''expiresAt'' - jnum statusProof ''issuedAt'' > 5"

text \<open>The policy is hashed, and thereby validated, only when the identifiers before it agree.\<close>

definition checkAuthorizationContext :: "lib \<Rightarrow> FinalsInput \<Rightarrow> json \<Rightarrow> json \<Rightarrow> json \<Rightarrow> unit result" where
  "checkAuthorizationContext L input a permit vc =
     (let t = trust input in
      if \<not> isStr a ''networkId'' (networkId (chain t)) \<or>
         \<not> isStr a ''registryAddress'' (registryAddress (chain t)) \<or>
         \<not> isStr a ''issuerDid'' (issuerDid t) \<or> \<not> isNum a ''approvalKeyVersion'' (approvalKeyVersion t) \<or>
         \<not> isStr a ''recipientId'' (recipientId input) \<or> \<not> isStr a ''sessionId'' (sessionId input)
      then Inl (Error ''AUTHORIZATION_CONTEXT_INVALID'')
      else bindE (policyHash L (policy input)) (\<lambda>policyDigest.
        if \<not> isStr a ''policyHash'' policyDigest \<or> \<not> sameMember a (policy input) ''purpose''
        then Inl (Error ''AUTHORIZATION_CONTEXT_INVALID'')
        else bindE (vcDigest L vc) (\<lambda>credentialDigest.
          if \<not> isStr a ''vcDigest'' credentialDigest \<or> \<not> isStr a ''permitHash'' (hashCanonical L permit) \<or>
             \<not> isStr a ''browserKeyHash'' (hashCanonical L (jobj permit ''browserPublicKey''))
          then Inl (Error ''AUTHORIZATION_CONTEXT_INVALID'')
          else Inr ())))"

definition vcContextInvalid :: "lib \<Rightarrow> FinalsInput \<Rightarrow> json \<Rightarrow> json \<Rightarrow> bool" where
  "vcContextInvalid L input a vc \<longleftrightarrow>
     (let t = trust input; s = jobj vc ''credentialSubject''; status = jobj vc ''credentialStatus'' in
      \<not> isStr vc ''issuer'' (issuerDid t) \<or> \<not> isStr s ''id'' (serviceDid t) \<or>
      \<not> isStr s ''controller'' (serviceDid t) \<or> \<not> sameMember s a ''institutionId'' \<or>
      \<not> isNum s ''serviceKeyVersion'' (serviceKeyVersion t) \<or>
      hashCanonical L (jobj s ''publicKey'') \<noteq> hashCanonical L (servicePublicKey t) \<or>
      \<not> sameMembers s a [''policyHash'', ''purpose''] \<or> \<not> sameMember status vc ''id'' \<or>
      \<not> sameMembers status a [''epoch'', ''approvalKeyVersion'', ''networkId'', ''registryAddress''] \<or>
      dateParse (jstr vc ''validFrom'') > fiNow input * 1000 \<or>
      dateParse (jstr vc ''validUntil'') \<le> fiNow input * 1000)"

definition permitContextInvalid :: "FinalsInput \<Rightarrow> json \<Rightarrow> json \<Rightarrow> bool" where
  "permitContextInvalid input a permit \<longleftrightarrow>
     \<not> sameMembers permit a [''institutionId'', ''intentId'', ''attemptId'', ''sessionId''] \<or>
     \<not> isStr permit ''serviceDid'' (serviceDid (trust input)) \<or>
     \<not> isNum permit ''serviceKeyVersion'' (serviceKeyVersion (trust input)) \<or>
     \<not> sameMembers permit a [''policyHash'', ''vcDigest'', ''networkId'', ''registryAddress''] \<or>
     jnum permit ''expiresAt'' - jnum permit ''issuedAt'' > 60"

definition bindingContextInvalid :: "lib \<Rightarrow> FinalsInput \<Rightarrow> json \<Rightarrow> json \<Rightarrow> json \<Rightarrow> bool" where
  "bindingContextInvalid L input a b receipt \<longleftrightarrow>
     \<not> isStr b ''authorizationHash'' (hashCanonical L a) \<or>
     \<not> sameMembers b a [''sessionId'', ''recipientId''] \<or>
     \<not> isStr b ''recipientKeyHash'' (hashCanonical L (recipientPublicKey input)) \<or>
     \<not> sameMembers b a [''networkId'', ''registryAddress''] \<or>
     \<not> sameMember receipt a ''authorizationId'' \<or>
     \<not> isStr receipt ''authorizationHash'' (hashCanonical L a) \<or>
     \<not> isStr receipt ''bindingHash'' (hashCanonical L b) \<or>
     \<not> sameMembers receipt a
        [''sessionId'', ''recipientId'', ''approvalKeyVersion'', ''networkId'', ''registryAddress'']"

definition checkSdpBinding :: "lib \<Rightarrow> FinalsInput \<Rightarrow> json \<Rightarrow> unit result" where
  "checkSdpBinding L input b =
     (if \<not> isStr b ''transportProfile'' ''webrtc-bundle-v2'' \<or>
         \<not> isStr b ''answerSdpHash'' (hashSdp L (localSdp input)) \<or>
         \<not> isStr b ''offerSdpHash'' (hashSdp L (remoteSdp input))
      then Inl (Error ''SDP_BINDING_MISMATCH'')
      else bindE (extractSingleSdpFingerprint (localSdp input)) (\<lambda>local.
        if \<not> isStr b ''receiverFingerprint'' local then Inl (Error ''SDP_BINDING_MISMATCH'')
        else bindE (extractSingleSdpFingerprint (remoteSdp input)) (\<lambda>remote.
          if \<not> isStr b ''gatewayFingerprint'' remote then Inl (Error ''SDP_BINDING_MISMATCH'')
          else Inr ())))"

definition transportUnverifiable :: "FinalsInput \<Rightarrow> json \<Rightarrow> string \<Rightarrow> bool" where
  "transportUnverifiable input b bindingHash \<longleftrightarrow>
     (let t = observedTransport input in
      \<not> connected t \<or> profile t \<noteq> ''chromium-dtls-certificate-v1'' \<or>
      \<not> isStr b ''gatewayFingerprint'' (remoteFingerprint t) \<or>
      dataChannelBindingHash t \<noteq> bindingHash)"

record FinalsMessages =
  fmAuthorization :: json
  fmReceipt :: json
  fmVc :: json
  fmPermit :: json
  fmBinding :: json
  fmStatus :: json

definition readFinalsMessages :: "lib \<Rightarrow> FinalsInput \<Rightarrow> FinalsMessages result" where
  "readFinalsMessages L input =
     (let t = trust input in
      if witnessThreshold (chain t) \<noteq> 3 \<or> length (witnessPublicKeys (chain t)) \<noteq> 4
      then Inl (Error ''FINALS_REQUIRES_THREE_OF_FOUR'')
      else bindE (ofOption LibraryError (importJwk L (issuerPublicKey t))) (\<lambda>issuer.
        bindE (verifyPayload L (authorizationJws input) issuer ''ContactAuthorization'' (issuerKid t)
                 authorizationV2Schema) (\<lambda>a.
        bindE (verifyPayload L (receiptJws input) issuer ''ConsumptionReceipt'' (issuerKid t)
                 receiptV2Schema) (\<lambda>receipt.
        bindE (verifyDelegationVc L (vcJws input) issuer (issuerKid t)) (\<lambda>vc.
        bindE (ofOption LibraryError (importJwk L (servicePublicKey t))) (\<lambda>service.
        bindE (verifyPayload L (permitJws input) service ''SenderSessionPermit'' (serviceKid t)
                 permitSchema) (\<lambda>permit.
        bindE (parseWith bindingV2Schema (fiBinding input)) (\<lambda>b.
        bindE (verifyPayload L (statusJws input) issuer ''AuthorizationStatus'' (issuerKid t)
                 authorizationStatusSchema) (\<lambda>statusProof.
          Inr \<lparr> fmAuthorization = a, fmReceipt = receipt, fmVc = vc, fmPermit = permit,
                fmBinding = b, fmStatus = statusProof \<rparr>)))))))))"

definition checkFinalsMessages :: "lib \<Rightarrow> FinalsInput \<Rightarrow> FinalsMessages \<Rightarrow> unit result" where
  "checkFinalsMessages L input m =
     (let a = fmAuthorization m; receipt = fmReceipt m; vc = fmVc m; permit = fmPermit m;
          b = fmBinding m; statusProof = fmStatus m; now = fiNow input in
      bindE (assertTemporalValidity statusProof now) (\<lambda>_.
      if statusProofInvalid L input statusProof a b then Inl (Error ''AUTHORIZATION_STATUS_INVALID'')
      else bindE (assertTemporalValidity a now) (\<lambda>_. bindE (assertTemporalValidity permit now) (\<lambda>_.
      bindE (assertTemporalValidity b now) (\<lambda>_.
      if now < jnum receipt ''consumedAt'' \<or> now \<ge> jnum receipt ''expiresAt'' \<or>
         jnum receipt ''expiresAt'' \<le> jnum receipt ''consumedAt''
      then Inl (Error ''RECEIPT_EXPIRED'')
      else bindE (checkAuthorizationContext L input a permit vc) (\<lambda>_.
      if vcContextInvalid L input a vc then Inl (Error ''VC_CONTEXT_INVALID'')
      else if permitContextInvalid input a permit then Inl (Error ''PERMIT_CONTEXT_INVALID'')
      else if bindingContextInvalid L input a b receipt then Inl (Error ''BINDING_CONTEXT_INVALID'')
      else bindE (checkSdpBinding L input b) (\<lambda>_.
      if transportUnverifiable input b (hashCanonical L b) then Inl (Error ''TRANSPORT_UNVERIFIABLE'')
      else Inr ())))))))"

text \<open>
  The guard is a mutable argument: it keeps an accepted state even when the ledger binding is
  then refused, so it is part of the result in both cases.
\<close>

definition verifyFinalsPackage ::
    "lib \<Rightarrow> FinalsInput \<Rightarrow> MonotonicStateGuard \<Rightarrow> FinalsVerified result \<times> MonotonicStateGuard" where
  "verifyFinalsPackage L input g =
     (let t = trust input in
      case bindE (readFinalsMessages L input) (\<lambda>m. bindE (checkFinalsMessages L input m) (\<lambda>_. Inr m)) of
        Inl e \<Rightarrow> (Inl e, g)
      | Inr m \<Rightarrow>
          let a = fmAuthorization m in
          case verifyStateBundle L (state input) (chain t)
            \<lparr> maxStateAgeSeconds = None, maxFutureSkewSeconds = None, nowWallSeconds = fiNow input,
              nowMonotonicMs = monotonicMs input, expectedInstitutionId = jstr a ''institutionId'',
              expectedDelegationId = jstr a ''vcDigest'' \<rparr> of
            Inl e \<Rightarrow> (Inl e, g)
          | Inr raw \<Rightarrow>
              let verified = limitDeadline g raw in
              case guardAccept g verified (monotonicMs input) of
                Inl e \<Rightarrow> (Inl e, g)
              | Inr g' \<Rightarrow>
                  (bindE (assertLedgerBinding (vsSnapshot verified) (jstr a ''epoch'') (issuerPublicKey t)
                            (servicePublicKey t) None (fiNow input)) (\<lambda>_.
                     Inr \<lparr> fvAuthorization = a, fvBindingHash = hashCanonical L (fmBinding m),
                           fvDeadline = deadlineMonotonicMs verified,
                           officialPath = jstr (policy input) ''followUpPath'' \<rparr>), g'))"

section \<open>What a verified package means\<close>

lemma verifyVc_schema: "verifyVc L schema jws key kid = Inr v \<Longrightarrow> schema v"
  by (auto simp: verifyVc_def result_simps)

lemma readFinalsMessages_Inr:
  assumes "readFinalsMessages L input = Inr m"
  shows "\<exists>issuer service. importJwk L (issuerPublicKey (trust input)) = Some issuer \<and>
     importJwk L (servicePublicKey (trust input)) = Some service \<and>
     verifyPayload L (authorizationJws input) issuer ''ContactAuthorization''
       (issuerKid (trust input)) authorizationV2Schema = Inr (fmAuthorization m) \<and>
     verifyPayload L (receiptJws input) issuer ''ConsumptionReceipt''
       (issuerKid (trust input)) receiptV2Schema = Inr (fmReceipt m) \<and>
     verifyDelegationVc L (vcJws input) issuer (issuerKid (trust input)) = Inr (fmVc m) \<and>
     verifyPayload L (permitJws input) service ''SenderSessionPermit''
       (serviceKid (trust input)) permitSchema = Inr (fmPermit m) \<and>
     verifyPayload L (statusJws input) issuer ''AuthorizationStatus''
       (issuerKid (trust input)) authorizationStatusSchema = Inr (fmStatus m)"
    and "fmBinding m = fiBinding input" "bindingV2Schema (fmBinding m)"
    and "witnessThreshold (chain (trust input)) = 3"
    and "length (witnessPublicKeys (chain (trust input))) = 4"
  using assms by (auto simp: readFinalsMessages_def Let_def result_simps)

lemma checkAuthorizationContext_Inr:
  assumes "checkAuthorizationContext L input a permit vc = Inr ()"
  shows "isStr a ''recipientId'' (recipientId input)" "isStr a ''sessionId'' (sessionId input)"
    "isStr a ''permitHash'' (hashCanonical L permit)" "isStr a ''vcDigest'' (hashCanonical L vc)"
    "isStr a ''policyHash'' (hashCanonical L (policy input))"
    "isStr a ''browserKeyHash'' (hashCanonical L (jobj permit ''browserPublicKey''))"
    "isStr a ''networkId'' (networkId (chain (trust input)))"
  using assms
  by (auto simp: checkAuthorizationContext_def Let_def result_simps policyHash_def vcDigest_def)

lemma checkSdpBinding_Inr:
  assumes "checkSdpBinding L input b = Inr ()"
  shows "isStr b ''answerSdpHash'' (hashSdp L (localSdp input))"
    "isStr b ''offerSdpHash'' (hashSdp L (remoteSdp input))"
    "extractSingleSdpFingerprint (remoteSdp input) = Inr (jstr b ''gatewayFingerprint'')"
    "extractSingleSdpFingerprint (localSdp input) = Inr (jstr b ''receiverFingerprint'')"
  using assms by (auto simp: checkSdpBinding_def result_simps dest: isStr_jstr)

lemma checkFinalsMessages_Inr:
  assumes "checkFinalsMessages L input m = Inr ()"
  shows "assertTemporalValidity (fmStatus m) (fiNow input) = Inr ()"
    "assertTemporalValidity (fmAuthorization m) (fiNow input) = Inr ()"
    "assertTemporalValidity (fmPermit m) (fiNow input) = Inr ()"
    "assertTemporalValidity (fmBinding m) (fiNow input) = Inr ()"
    "\<not> statusProofInvalid L input (fmStatus m) (fmAuthorization m) (fmBinding m)"
    "jnum (fmReceipt m) ''consumedAt'' \<le> fiNow input" "fiNow input < jnum (fmReceipt m) ''expiresAt''"
    "checkAuthorizationContext L input (fmAuthorization m) (fmPermit m) (fmVc m) = Inr ()"
    "\<not> vcContextInvalid L input (fmAuthorization m) (fmVc m)"
    "\<not> permitContextInvalid input (fmAuthorization m) (fmPermit m)"
    "\<not> bindingContextInvalid L input (fmAuthorization m) (fmBinding m) (fmReceipt m)"
    "checkSdpBinding L input (fmBinding m) = Inr ()"
    "\<not> transportUnverifiable input (fmBinding m) (hashCanonical L (fmBinding m))"
  using assms unfolding checkFinalsMessages_def Let_def result_simps by auto

lemma assertLedgerBinding_Inr:
  assumes "assertLedgerBinding s epoch approval service pm now = Inr ()"
  shows "jbool (jobj s ''institutionState'') ''exists''"
    "isStr (jobj s ''institutionState'') ''status'' ''Active''"
    "isStr (jobj s ''institutionState'') ''epoch'' epoch"
    "isStr (jobj s ''delegationState'') ''epoch'' epoch"
    "jbool (jobj s ''delegationState'') ''exists''" "\<not> jbool (jobj s ''delegationState'') ''revoked''"
    "jnum (jobj s ''delegationState'') ''validFrom'' \<le> now"
    "now < jnum (jobj s ''delegationState'') ''validUntil''"
    "rawKey approval = Inr (toLowerCase (jstr (jobj s ''institutionState'') ''approvalPublicKey''))"
    "rawKey service = Inr (toLowerCase (jstr (jobj s ''delegationState'') ''gatewayPublicKey''))"
  using assms unfolding assertLedgerBinding_def Let_def result_simps by auto

definition finalsContext :: "FinalsInput \<Rightarrow> json \<Rightarrow> VerificationContext" where
  "finalsContext input a =
     \<lparr> maxStateAgeSeconds = None, maxFutureSkewSeconds = None, nowWallSeconds = fiNow input,
       nowMonotonicMs = monotonicMs input, expectedInstitutionId = jstr a ''institutionId'',
       expectedDelegationId = jstr a ''vcDigest'' \<rparr>"

lemma verifyFinalsPackage_Inr:
  assumes "verifyFinalsPackage L input g = (Inr r, g')"
  shows "\<exists>m raw. readFinalsMessages L input = Inr m \<and> checkFinalsMessages L input m = Inr () \<and>
    verifyStateBundle L (state input) (chain (trust input)) (finalsContext input (fmAuthorization m)) = Inr raw \<and>
    guardAccept g (limitDeadline g raw) (monotonicMs input) = Inr g' \<and>
    assertLedgerBinding (vsSnapshot (limitDeadline g raw)) (jstr (fmAuthorization m) ''epoch'')
      (issuerPublicKey (trust input)) (servicePublicKey (trust input)) None (fiNow input) = Inr () \<and>
    r = \<lparr> fvAuthorization = fmAuthorization m, fvBindingHash = hashCanonical L (fmBinding m),
          fvDeadline = deadlineMonotonicMs (limitDeadline g raw),
          officialPath = jstr (policy input) ''followUpPath'' \<rparr>"
  using assms unfolding verifyFinalsPackage_def Let_def finalsContext_def
  by (simp split: sum.splits add: result_simps)

lemma limitDeadline_snapshot [simp]: "vsSnapshot (limitDeadline g v) = vsSnapshot v"
  by (simp add: limitDeadline_def split: option.splits)

lemma limitDeadline_le: "deadlineMonotonicMs (limitDeadline g v) \<le> deadlineMonotonicMs v"
  by (simp add: limitDeadline_def split: option.splits)

end
