(* ===== verification/Finals_Scenario.thy ===== *)
theory Finals_Scenario
  imports Finals Verifier_Properties Protocol_Properties
begin

text \<open>
  A complete contact under protocol version 2, as the receiver sees it: the six messages, the
  observed transport and a state bundle signed by three of four witnesses. The theorems about
  \<open>verifyFinalsPackage\<close> are applied to it. The digests of the concrete library depend on the length
  of a canonical text only, which is why several of them coincide.
\<close>

definition vrKey :: string where "vrKey = replicate 43 (CHR ''A'')"
definition vrServiceKey :: string where "vrServiceKey = replicate 42 (CHR ''A'') @ ''E''"
definition vrAddress :: string where "vrAddress = ''0x'' @ replicate 40 (CHR ''1'')"
definition vrDigest :: "char \<Rightarrow> string" where "vrDigest c = replicate 64 c"
definition vrFrom :: string where "vrFrom = ''1970-01-01T01:00:00Z''"
definition vrUntil :: string where "vrUntil = ''1970-01-01T02:00:00Z''"
definition vrInstitution :: string where "vrInstitution = replicate 20 (CHR ''i'')"
definition vrSdp :: string where "vrSdp = ''a=fingerprint:sha-256 '' @ demoFingerprint"

lemmas vr_texts = vrKey_def vrServiceKey_def vrAddress_def vrDigest_def vrFrom_def vrUntil_def vrInstitution_def

definition vrBase :: "(string \<times> json) list" where
  "vrBase = [(''protocol'', JStr ''callsign''), (''version'', JNum 2), (''networkId'', JStr ''777''),
     (''registryAddress'', JStr vrAddress)]"

definition vrClock :: "(string \<times> json) list" where
  "vrClock = [(''issuedAt'', JNum 5000), (''expiresAt'', JNum 5030)]"

definition vrAuthorization :: json where
  "vrAuthorization = JObj (vrBase @ vrClock @
    [(''type'', JStr ''ContactAuthorization''), (''authorizationId'', JStr ''auth-1''),
     (''institutionId'', JStr vrInstitution), (''issuerDid'', JStr ''did:i''), (''approvalKeyVersion'', JNum 1),
     (''epoch'', JStr ''1''), (''intentId'', JStr ''int-1''), (''attemptId'', JStr ''att-1''),
     (''recipientId'', JStr ''recipient''), (''purpose'', JStr ''FRAUD_CONFIRMATION''),
     (''policyHash'', JStr (vrDigest (CHR ''1''))), (''vcDigest'', JStr (vrDigest (CHR ''1''))),
     (''permitHash'', JStr (vrDigest (CHR ''4''))), (''sessionId'', JStr ''session''),
     (''browserKeyHash'', JStr (vrDigest (CHR ''c'')))])"

definition vrPermit :: json where
  "vrPermit = JObj (vrBase @ vrClock @
    [(''type'', JStr ''SenderSessionPermit''), (''institutionId'', JStr vrInstitution),
     (''intentId'', JStr ''int-1''), (''attemptId'', JStr ''att-1''), (''agentId'', JStr ''agent''),
     (''serviceDid'', JStr ''did:s''), (''serviceKeyVersion'', JNum 1), (''browserPublicKey'', demoJwk vrKey),
     (''sessionId'', JStr ''session''), (''policyHash'', JStr (vrDigest (CHR ''1''))),
     (''vcDigest'', JStr (vrDigest (CHR ''1'')))])"

definition vrBinding :: json where
  "vrBinding = JObj (vrBase @ vrClock @
    [(''type'', JStr ''SessionBinding''), (''authorizationHash'', JStr (vrDigest (CHR ''5''))),
     (''sessionId'', JStr ''session''), (''recipientId'', JStr ''recipient''), (''recipientNonce'', JStr ''nonce''),
     (''recipientKeyHash'', JStr (vrDigest (CHR ''c''))), (''gatewayFingerprint'', JStr demoFingerprint),
     (''receiverFingerprint'', JStr demoFingerprint), (''offerSdpHash'', JStr (vrDigest (CHR ''5''))),
     (''answerSdpHash'', JStr (vrDigest (CHR ''5''))), (''transportProfile'', JStr ''webrtc-bundle-v2'')])"

definition vrReceipt :: json where
  "vrReceipt = JObj (vrBase @
    [(''type'', JStr ''ConsumptionReceipt''), (''authorizationId'', JStr ''auth-1''),
     (''authorizationHash'', JStr (vrDigest (CHR ''5''))), (''bindingHash'', JStr (vrDigest (CHR ''f''))),
     (''sessionId'', JStr ''session''), (''recipientId'', JStr ''recipient''), (''approvalKeyVersion'', JNum 1),
     (''consumedAt'', JNum 5001), (''expiresAt'', JNum 5030)])"

definition vrStatus :: json where
  "vrStatus = JObj (vrBase @ [(''issuedAt'', JNum 5003), (''expiresAt'', JNum 5008)] @
    [(''type'', JStr ''AuthorizationStatus''), (''authorizationId'', JStr ''auth-1''),
     (''bindingHash'', JStr (vrDigest (CHR ''f''))), (''nonce'', JStr ''fresh''), (''status'', JStr ''consumed''),
     (''approvalKeyVersion'', JNum 1)])"

definition vrVc :: json where
  "vrVc = JObj
    [(''@context'', JArr [JStr ''https://www.w3.org/ns/credentials/v2'', JObj [(''@vocab'', JStr ''urn:callsign:v2:'')]]),
     (''id'', JStr ''urn:uuid:1''), (''type'', JArr [JStr ''VerifiableCredential'', JStr ''DelegationCredential'']),
     (''issuer'', JStr ''did:i''), (''validFrom'', JStr vrFrom), (''validUntil'', JStr vrUntil),
     (''credentialSubject'', JObj [(''id'', JStr ''did:s''), (''institutionId'', JStr vrInstitution),
       (''controller'', JStr ''did:s''), (''serviceKeyVersion'', JNum 1), (''publicKey'', demoJwk vrServiceKey),
       (''purpose'', JStr ''FRAUD_CONFIRMATION''), (''policyHash'', JStr (vrDigest (CHR ''1'')))]),
     (''credentialStatus'', JObj [(''id'', JStr ''urn:uuid:1''), (''type'', JStr ''CallSignRegistryStatus''),
       (''registryAddress'', JStr vrAddress), (''networkId'', JStr ''777''), (''epoch'', JStr ''1''),
       (''approvalKeyVersion'', JNum 1)])]"

definition vrPolicy :: json where
  "vrPolicy = JObj
    [(''id'', JStr ''policy''), (''version'', JNum 1), (''purpose'', JStr ''FRAUD_CONFIRMATION''),
     (''allowedQuestions'', JArr [JStr ''q'']), (''forbiddenRequests'', JArr [JStr ''OTP'']),
     (''followUpPath'', JStr ''/official'')]"

definition vrSnapshot :: json where
  "vrSnapshot = JObj
    [(''protocol'', JStr ''callsign''), (''version'', JNum 1), (''type'', JStr ''SignedStateSnapshot''),
     (''networkId'', JStr ''777''), (''genesisHash'', JStr (demoHash32 (CHR ''9''))),
     (''registryAddress'', JStr vrAddress), (''policyVersion'', JStr ''1''), (''blockNumber'', JStr ''12''),
     (''blockHash'', JStr (demoHash32 (CHR ''c''))), (''blockTimestamp'', JNum 5000),
     (''institutionId'', JStr vrInstitution),
     (''institutionState'', JObj [(''exists'', JBool True), (''status'', JStr ''Active''), (''epoch'', JStr ''1''),
        (''approvalPublicKey'', JStr (''0x'' @ replicate 64 (CHR ''0''))), (''policyVersion'', JStr ''1'')]),
     (''delegationId'', JStr (vrDigest (CHR ''1''))),
     (''delegationState'', JObj [(''exists'', JBool True), (''epoch'', JStr ''1''),
        (''gatewayPublicKey'', JStr (''0x'' @ replicate 62 (CHR ''0'') @ ''01'')), (''purposeMask'', JStr ''4''),
        (''validFrom'', JNum 4000), (''validUntil'', JNum 9000), (''revoked'', JBool False)]),
     (''directoryHash'', JStr (demoHash32 (CHR ''e''))), (''directoryVersion'', JStr ''1'')]"

text \<open>The compact serialisations are names; verifying one under a key looks it up.\<close>

definition vrHeader :: "string \<Rightarrow> string \<Rightarrow> json" where
  "vrHeader ty kid = JObj [(''alg'', JStr ''EdDSA''), (''typ'', JStr (messageTyp ty)), (''kid'', JStr kid)]"

definition vrMessages :: "((string \<times> string) \<times> json \<times> string) list" where
  "vrMessages =
    [((''jws-a'', vrKey), vrHeader ''ContactAuthorization'' ''ikid'', ''a''),
     ((''jws-r'', vrKey), vrHeader ''ConsumptionReceipt'' ''ikid'', ''r''),
     ((''jws-s'', vrKey), vrHeader ''AuthorizationStatus'' ''ikid'', ''s''),
     ((''jws-v'', vrKey), JObj [(''alg'', JStr ''EdDSA''), (''typ'', JStr ''vc+jwt''), (''cty'', JStr ''vc''),
        (''kid'', JStr ''ikid'')], ''v''),
     ((''jws-p'', vrServiceKey), vrHeader ''SenderSessionPermit'' ''skid'', ''p''),
     ((''jws-1'', ''w1''), vrHeader ''SignedStateSnapshot'' ''w1'', demoCanonical vrSnapshot),
     ((''jws-2'', ''w2''), vrHeader ''SignedStateSnapshot'' ''w2'', demoCanonical vrSnapshot),
     ((''jws-3'', ''w3''), vrHeader ''SignedStateSnapshot'' ''w3'', demoCanonical vrSnapshot)]"

definition vrLib :: lib where
  "vrLib = \<lparr> canonicalize = demoCanonical, sha256hex = demoSha, sha256b64 = demoSha,
     validateJson = (\<lambda>t. case map_of [(''a'', vrAuthorization), (''r'', vrReceipt), (''s'', vrStatus), (''v'', vrVc),
       (''p'', vrPermit)] t of Some v \<Rightarrow> Inr v | None \<Rightarrow> Inl ''unexpected''),
     importJwk = (\<lambda>j. Some (jstr j ''x'')), compactVerify = (\<lambda>j k. map_of vrMessages (j, k)),
     compactSign = demoSign, keccak256 = demoSha \<rparr>"

definition vrChain :: TrustBundle where
  "vrChain = \<lparr> networkId = ''777'', genesisHash = demoHash32 (CHR ''9''), registryAddress = vrAddress,
     policyVersion = ''1'', registryProfile = None, witnessThreshold = 3,
     witnessPublicKeys = map demoWitness [''w1'', ''w2'', ''w3'', ''w4''],
     enrollmentPublicKey = demoJwk ''e'', supportedProtocolVersions = [1] \<rparr>"

definition vrTrust :: FinalsTrust where
  "vrTrust = \<lparr> issuerDid = ''did:i'', issuerKid = ''ikid'', issuerPublicKey = demoJwk vrKey, serviceDid = ''did:s'',
     serviceKid = ''skid'', servicePublicKey = demoJwk vrServiceKey, approvalKeyVersion = 1, serviceKeyVersion = 1,
     chain = vrChain \<rparr>"

definition vrBundle :: StateBundle where
  "vrBundle = \<lparr> snapshot = vrSnapshot, signatures =
     [\<lparr> sigWitnessId = ''w1'', sigJws = ''jws-1'' \<rparr>, \<lparr> sigWitnessId = ''w2'', sigJws = ''jws-2'' \<rparr>,
      \<lparr> sigWitnessId = ''w3'', sigJws = ''jws-3'' \<rparr>] \<rparr>"

definition vrInput :: FinalsInput where
  "vrInput = \<lparr> statusJws = ''jws-s'', statusNonce = ''fresh'', authorizationJws = ''jws-a'', vcJws = ''jws-v'',
     permitJws = ''jws-p'', receiptJws = ''jws-r'', fiBinding = vrBinding, trust = vrTrust, policy = vrPolicy,
     state = vrBundle, recipientId = ''recipient'', sessionId = ''session'', localSdp = vrSdp, remoteSdp = vrSdp,
     recipientPublicKey = demoJwk vrKey, fiNow = 5004, monotonicMs = 700,
     observedTransport = \<lparr> profile = ''chromium-dtls-certificate-v1'', remoteFingerprint = demoFingerprint,
       dataChannelBindingHash = vrDigest (CHR ''f''), connected = True \<rparr> \<rparr>"

section \<open>Schemas\<close>

lemmas vr_schema = schema_eval vr_texts vrBase_def vrClock_def finalsBase_def clock_def finalsId_def digest_def
  address_def positiveInt_def nonnegativeInt_def anyInt_def digitsString_def fingerprint_def

lemma vr_publicKeys: "publicKeySchema (demoJwk vrKey)" "publicKeySchema (demoJwk vrServiceKey)"
  unfolding publicKeySchema_def demoJwk_def
  by (rule zObject_in_order; simp add: schema_eval isPublicX_def base64urlChars_def vr_texts)+

lemma demoFingerprint_ok: "isFingerprint demoFingerprint"
  by code_simp

lemma vrAuthorization_schema: "authorizationV2Schema vrAuthorization"
  unfolding authorizationV2Schema_def vrAuthorization_def
  by (rule zObject_in_order) (simp_all add: vr_schema)

lemma vrPermit_schema: "permitSchema vrPermit"
  unfolding permitSchema_def vrPermit_def
  by (rule zObject_in_order) (simp_all add: vr_schema vr_publicKeys [unfolded vr_texts])

lemma vrBinding_schema: "bindingV2Schema vrBinding"
  unfolding bindingV2Schema_def vrBinding_def
  by (rule zObject_in_order) (simp_all add: vr_schema demoFingerprint_ok)

lemma vrReceipt_schema: "receiptV2Schema vrReceipt"
  unfolding receiptV2Schema_def vrReceipt_def
  by (rule zObject_in_order) (simp_all add: vr_schema)

lemma vrStatus_schema: "authorizationStatusSchema vrStatus"
  unfolding authorizationStatusSchema_def vrStatus_def
  by (rule zObject_in_order) (simp_all add: vr_schema)

lemma vrPolicy_schema: "policySchema vrPolicy"
  unfolding policySchema_def vrPolicy_def
  by (rule zObject_in_order) (simp_all add: vr_schema)

lemma vr_dates: "isIsoDatetime vrFrom" "isIsoDatetime vrUntil" "dateParse vrFrom = 3600000" "dateParse vrUntil = 7200000"
  by code_simp+

lemma vrVc_schema: "delegationVcSchema vrVc"
proof -
  have subject: "zObject
        [(''id'', finalsId), (''institutionId'', finalsId), (''controller'', finalsId),
         (''serviceKeyVersion'', positiveInt), (''publicKey'', publicKeySchema),
         (''purpose'', zLiteral (JStr ''FRAUD_CONFIRMATION'')), (''policyHash'', digest)] []
      (JObj [(''id'', JStr ''did:s''), (''institutionId'', JStr vrInstitution),
       (''controller'', JStr ''did:s''), (''serviceKeyVersion'', JNum 1), (''publicKey'', demoJwk vrServiceKey),
       (''purpose'', JStr ''FRAUD_CONFIRMATION''), (''policyHash'', JStr (vrDigest (CHR ''1'')))])"
    by (rule zObject_in_order) (simp_all add: vr_schema vr_publicKeys [unfolded vr_texts])
  have status: "credentialStatusSchema (JObj [(''id'', JStr ''urn:uuid:1''), (''type'', JStr ''CallSignRegistryStatus''),
       (''registryAddress'', JStr vrAddress), (''networkId'', JStr ''777''), (''epoch'', JStr ''1''),
       (''approvalKeyVersion'', JNum 1)])"
    unfolding credentialStatusSchema_def by (rule zObject_in_order) (simp_all add: vr_schema)
  have ctx: "zObject [(''@vocab'', zLiteral (JStr ''urn:callsign:v2:''))] [] (JObj [(''@vocab'', JStr ''urn:callsign:v2:'')])"
    by (rule zObject_in_order) (simp_all add: zLiteral_def)
  have issuer: "finalsId (JStr ''did:i'')" by (simp add: vr_schema)
  show ?thesis
    unfolding delegationVcSchema_def vrVc_def
    by (rule zObject_in_order)
       (simp_all add: subject status ctx vr_dates isoDatetime_def zString_def zTuple_def zLiteral_def startsWith_def
         issuer)
qed

lemma vrSnapshot_schema: "stateSnapshotSchema vrSnapshot"
proof -
  have inst: "institutionStateSchema (JObj [(''exists'', JBool True), (''status'', JStr ''Active''), (''epoch'', JStr ''1''),
        (''approvalPublicKey'', JStr (''0x'' @ replicate 64 (CHR ''0''))), (''policyVersion'', JStr ''1'')])"
    unfolding institutionStateSchema_def
    by (rule zObject_in_order) (simp_all add: schema_eval decimalInteger_def)
  have dele: "delegationStateSchema (JObj [(''exists'', JBool True), (''epoch'', JStr ''1''),
        (''gatewayPublicKey'', JStr (''0x'' @ replicate 62 (CHR ''0'') @ ''01'')), (''purposeMask'', JStr ''4''),
        (''validFrom'', JNum 4000), (''validUntil'', JNum 9000), (''revoked'', JBool False)])"
    unfolding delegationStateSchema_def
    by (rule zObject_in_order) (simp_all add: schema_eval decimalInteger_def)
  show ?thesis
    using inst dele
    by (simp add: stateSnapshotSchema_def vrSnapshot_def zObject_def schema_eval jget_def
        decimalInteger_def address_def hash32_def stateId_def demoHash32_def vr_texts)
qed

section \<open>Evaluation\<close>

lemma vr_jwk: "jstr (demoJwk x) ''x'' = x"
  by (simp add: demoJwk_def jstr_def jget_def)

lemma vr_keys_differ: "vrKey \<noteq> vrServiceKey"
  by (simp add: vr_texts numeral_eq_Suc)

lemma vr_verify:
  "verifyPayload vrLib ''jws-a'' vrKey ''ContactAuthorization'' ''ikid'' authorizationV2Schema = Inr vrAuthorization"
  "verifyPayload vrLib ''jws-r'' vrKey ''ConsumptionReceipt'' ''ikid'' receiptV2Schema = Inr vrReceipt"
  "verifyPayload vrLib ''jws-s'' vrKey ''AuthorizationStatus'' ''ikid'' authorizationStatusSchema = Inr vrStatus"
  "verifyPayload vrLib ''jws-p'' vrServiceKey ''SenderSessionPermit'' ''skid'' permitSchema = Inr vrPermit"
  "verifyDelegationVc vrLib ''jws-v'' vrKey ''ikid'' = Inr vrVc"
proof -
  have types: "isStr vrAuthorization ''type'' ''ContactAuthorization''" "isStr vrReceipt ''type'' ''ConsumptionReceipt''"
    "isStr vrStatus ''type'' ''AuthorizationStatus''" "isStr vrPermit ''type'' ''SenderSessionPermit''"
    by (simp_all add: isStr_def jget_def vrAuthorization_def vrReceipt_def vrStatus_def vrPermit_def vrBase_def vrClock_def)
  have parse: "parseJsonNoDuplicateKeys vrLib ''a'' = Inr vrAuthorization" "parseJsonNoDuplicateKeys vrLib ''r'' = Inr vrReceipt"
    "parseJsonNoDuplicateKeys vrLib ''s'' = Inr vrStatus" "parseJsonNoDuplicateKeys vrLib ''p'' = Inr vrPermit"
    "parseJsonNoDuplicateKeys vrLib ''v'' = Inr vrVc"
    by (simp_all add: parseJsonNoDuplicateKeys_def vrLib_def MAX_SIGNED_MESSAGE_BYTES_def)
  have look: "compactVerify vrLib ''jws-a'' vrKey = Some (vrHeader ''ContactAuthorization'' ''ikid'', ''a'')"
    "compactVerify vrLib ''jws-r'' vrKey = Some (vrHeader ''ConsumptionReceipt'' ''ikid'', ''r'')"
    "compactVerify vrLib ''jws-s'' vrKey = Some (vrHeader ''AuthorizationStatus'' ''ikid'', ''s'')"
    "compactVerify vrLib ''jws-p'' vrServiceKey = Some (vrHeader ''SenderSessionPermit'' ''skid'', ''p'')"
    "compactVerify vrLib ''jws-v'' vrKey = Some (JObj [(''alg'', JStr ''EdDSA''), (''typ'', JStr ''vc+jwt''),
       (''cty'', JStr ''vc''), (''kid'', JStr ''ikid'')], ''v'')"
    by (simp_all add: vrLib_def vrMessages_def)
  note header = vrHeader_def isStr_def jget_def
  show "verifyPayload vrLib ''jws-a'' vrKey ''ContactAuthorization'' ''ikid'' authorizationV2Schema = Inr vrAuthorization"
    "verifyPayload vrLib ''jws-r'' vrKey ''ConsumptionReceipt'' ''ikid'' receiptV2Schema = Inr vrReceipt"
    "verifyPayload vrLib ''jws-s'' vrKey ''AuthorizationStatus'' ''ikid'' authorizationStatusSchema = Inr vrStatus"
    "verifyPayload vrLib ''jws-p'' vrServiceKey ''SenderSessionPermit'' ''skid'' permitSchema = Inr vrPermit"
    using types vrAuthorization_schema vrReceipt_schema vrStatus_schema vrPermit_schema
    unfolding verifyPayload_eq_Inr look by (simp_all add: parse MAX_SIGNED_MESSAGE_BYTES_def) (simp_all add: header)
  show "verifyDelegationVc vrLib ''jws-v'' vrKey ''ikid'' = Inr vrVc"
    using vrVc_schema
    by (simp add: verifyDelegationVc_def verifyVc_def look parse parseWith_def) (simp add: isStr_def jget_def)
qed

definition vrMessagesRead :: FinalsMessages where
  "vrMessagesRead = \<lparr> fmAuthorization = vrAuthorization, fmReceipt = vrReceipt, fmVc = vrVc, fmPermit = vrPermit,
     fmBinding = vrBinding, fmStatus = vrStatus \<rparr>"

lemma vr_read: "readFinalsMessages vrLib vrInput = Inr vrMessagesRead"
proof -
  have "importJwk vrLib j = Some (jstr j ''x'')" for j by (simp add: vrLib_def)
  then show ?thesis
    using vr_verify vrBinding_schema
    by (simp add: readFinalsMessages_def vrInput_def vrTrust_def vrMessagesRead_def)
       (simp add: vrChain_def vr_jwk parseWith_def)
qed

lemma vr_hash:
  "hashCanonical vrLib vrAuthorization = vrDigest (CHR ''5'')" "hashCanonical vrLib vrPermit = vrDigest (CHR ''4'')"
  "hashCanonical vrLib vrBinding = vrDigest (CHR ''f'')" "hashCanonical vrLib vrVc = vrDigest (CHR ''1'')"
  "hashCanonical vrLib vrPolicy = vrDigest (CHR ''1'')" "hashCanonical vrLib (demoJwk vrKey) = vrDigest (CHR ''c'')"
  "hashCanonical vrLib (demoJwk vrServiceKey) = vrDigest (CHR ''c'')"
  "hashSdp vrLib vrSdp = vrDigest (CHR ''5'')"
proof -
  have h: "hashCanonical vrLib v = demoSha (demoCanonical v)" for v
    by (simp add: hashCanonical_def canonicalBytes_def vrLib_def)
  show "hashCanonical vrLib vrAuthorization = vrDigest (CHR ''5'')" "hashCanonical vrLib vrPermit = vrDigest (CHR ''4'')"
    "hashCanonical vrLib vrBinding = vrDigest (CHR ''f'')" "hashCanonical vrLib vrVc = vrDigest (CHR ''1'')"
    "hashCanonical vrLib vrPolicy = vrDigest (CHR ''1'')" "hashCanonical vrLib (demoJwk vrKey) = vrDigest (CHR ''c'')"
    "hashCanonical vrLib (demoJwk vrServiceKey) = vrDigest (CHR ''c'')"
    unfolding h
    by (simp_all add: demoCanonical_def demoSha_def vrDigest_def vrAuthorization_def vrPermit_def vrBinding_def vrVc_def
        vrPolicy_def demoJwk_def vrBase_def vrClock_def jstr_def jget_def lowerHexChars_def vrKey_def vrServiceKey_def)
  have "length (crlf vrSdp) = 117" by code_simp
  then show "hashSdp vrLib vrSdp = vrDigest (CHR ''5'')"
    by (simp add: hashSdp_def vrLib_def demoSha_def vrDigest_def lowerHexChars_def)
qed

lemma vr_sdp: "extractSingleSdpFingerprint vrSdp = Inr demoFingerprint"
  by code_simp

lemma vr_clocks:
  "assertTemporalValidity vrStatus 5004 = Inr ()" "assertTemporalValidity vrAuthorization 5004 = Inr ()"
  "assertTemporalValidity vrPermit 5004 = Inr ()" "assertTemporalValidity vrBinding 5004 = Inr ()"
  by (simp_all add: assertTemporalValidity_def vrStatus_def vrAuthorization_def vrPermit_def vrBinding_def vrBase_def
      vrClock_def jnum_def jget_def isSafeInteger_def maxSafeInteger_def)

lemma vr_members:
  "isStr vrAuthorization ''policyHash'' (vrDigest (CHR ''1''))" "sameMember vrAuthorization vrPolicy ''purpose''"
  by (simp_all add: isStr_def sameMember_def jget_def vrAuthorization_def vrPolicy_def vrBase_def vrClock_def)

lemma vr_contexts:
  "\<not> statusProofInvalid vrLib vrInput vrStatus vrAuthorization vrBinding"
  "checkAuthorizationContext vrLib vrInput vrAuthorization vrPermit vrVc = Inr ()"
  "\<not> vcContextInvalid vrLib vrInput vrAuthorization vrVc"
  "\<not> permitContextInvalid vrInput vrAuthorization vrPermit"
  "\<not> bindingContextInvalid vrLib vrInput vrAuthorization vrBinding vrReceipt"
  "checkSdpBinding vrLib vrInput vrBinding = Inr ()"
  "\<not> transportUnverifiable vrInput vrBinding (vrDigest (CHR ''f''))"
proof -
  note defs = vrInput_def vrTrust_def vrChain_def vrAuthorization_def vrStatus_def vrBinding_def vrPermit_def vrReceipt_def
    vrBase_def vrClock_def isStr_def isNum_def sameMember_def jget_def jnum_def jstr_def jobj_def
  show "\<not> statusProofInvalid vrLib vrInput vrStatus vrAuthorization vrBinding"
    by (simp add: statusProofInvalid_def vr_hash) (simp add: defs)
  have "jobj vrPermit ''browserPublicKey'' = demoJwk vrKey" "policy vrInput = vrPolicy"
    by (simp_all add: vrPermit_def vrBase_def vrClock_def jobj_def jget_def vrInput_def)
  then show "checkAuthorizationContext vrLib vrInput vrAuthorization vrPermit vrVc = Inr ()"
    by (simp add: checkAuthorizationContext_def policyHash_def vcDigest_def parseWith_def vrPolicy_schema vrVc_schema
        vr_hash vr_members Let_def) (simp add: defs)
  have "jobj (jobj vrVc ''credentialSubject'') ''publicKey'' = demoJwk vrServiceKey"
    "jstr vrVc ''validFrom'' = vrFrom" "jstr vrVc ''validUntil'' = vrUntil"
    "servicePublicKey (trust vrInput) = demoJwk vrServiceKey"
    by (simp_all add: vrVc_def jobj_def jget_def jstr_def vrInput_def vrTrust_def)
  then show "\<not> vcContextInvalid vrLib vrInput vrAuthorization vrVc"
    by (simp add: vcContextInvalid_def Let_def vr_hash vr_dates) (simp add: defs vrVc_def)
  show "\<not> permitContextInvalid vrInput vrAuthorization vrPermit"
    by (simp add: permitContextInvalid_def defs)
  have "recipientPublicKey vrInput = demoJwk vrKey" by (simp add: vrInput_def)
  then show "\<not> bindingContextInvalid vrLib vrInput vrAuthorization vrBinding vrReceipt"
    by (simp add: bindingContextInvalid_def vr_hash) (simp add: defs)
  have "localSdp vrInput = vrSdp" "remoteSdp vrInput = vrSdp" by (simp_all add: vrInput_def)
  then show "checkSdpBinding vrLib vrInput vrBinding = Inr ()"
    by (simp add: checkSdpBinding_def vr_hash vr_sdp) (simp add: defs)
  show "\<not> transportUnverifiable vrInput vrBinding (vrDigest (CHR ''f''))"
    by (simp add: transportUnverifiable_def Let_def defs)
qed

lemma vr_checked: "checkFinalsMessages vrLib vrInput vrMessagesRead = Inr ()"
proof -
  have "fiNow vrInput = 5004" by (simp add: vrInput_def)
  moreover have "jnum vrReceipt ''consumedAt'' = 5001" "jnum vrReceipt ''expiresAt'' = 5030"
    by (simp_all add: vrReceipt_def vrBase_def jnum_def jget_def)
  ultimately show ?thesis
    using vr_contexts vr_clocks by (simp add: checkFinalsMessages_def vrMessagesRead_def Let_def vr_hash)
qed

definition vrState :: VerifiedState where
  "vrState = \<lparr> vsSnapshot = vrSnapshot, signerIds = [''w1'', ''w2'', ''w3''],
     snapshotHash = hashCanonical vrLib vrSnapshot, deadlineMonotonicMs = 8700, observedAgeSeconds = 4 \<rparr>"

lemma vr_bundle: "verifyStateBundle vrLib vrBundle vrChain (finalsContext vrInput vrAuthorization) = Inr vrState"
proof -
  have sig: "verifyWitnessSignature vrLib vrChain (demoCanonical vrSnapshot) s = Inr ()" if "s \<in> set (signatures vrBundle)" for s
  proof -
    from that obtain j w where s: "s = \<lparr> sigWitnessId = w, sigJws = j \<rparr>" and
      "(j, w) \<in> {(''jws-1'', ''w1''), (''jws-2'', ''w2''), (''jws-3'', ''w3'')}"
      by (auto simp: vrBundle_def)
    then have w: "trustedWitness vrChain w = Some (demoWitness w)"
      "compactVerify vrLib j w = Some (vrHeader ''SignedStateSnapshot'' w, demoCanonical vrSnapshot)"
      by (auto simp: trustedWitness_def vrChain_def demoWitness_def vrLib_def vrMessages_def)
    have "importJwk vrLib k = Some (jstr k ''x'')" for k by (simp add: vrLib_def)
    with w show ?thesis
      by (simp add: verifyWitnessSignature_def s demoWitness_def vr_jwk equalBytes_eq)
         (simp add: vrHeader_def isStr_def jget_def messageTyp_def)
  qed
  have "verifySignatures vrLib vrChain (demoCanonical vrSnapshot) [] (signatures vrBundle) = Inr [''w1'', ''w2'', ''w3'']"
    using sig by (simp add: vrBundle_def)
  moreover have "canonicalBytes vrLib vrSnapshot = demoCanonical vrSnapshot"
    by (simp add: canonicalBytes_def vrLib_def)
  moreover have "validWitnessTrust vrChain"
    by (simp add: validWitnessTrust_def vrChain_def demoWitness_def demoJwk_def jget_def)
  moreover have "jnum vrSnapshot ''version'' = 1" "jnum vrSnapshot ''blockTimestamp'' = 5000"
    "isStr vrSnapshot ''networkId'' ''777''" "isStr vrSnapshot ''policyVersion'' ''1''"
    "isStr vrSnapshot ''genesisHash'' (demoHash32 (CHR ''9''))" "jstr vrSnapshot ''registryAddress'' = vrAddress"
    "isStr vrSnapshot ''institutionId'' vrInstitution" "isStr vrSnapshot ''delegationId'' (vrDigest (CHR ''1''))"
    by (simp_all add: vrSnapshot_def member_defs)
  moreover have "finalsContext vrInput vrAuthorization = \<lparr> maxStateAgeSeconds = None, maxFutureSkewSeconds = None,
      nowWallSeconds = 5004, nowMonotonicMs = 700, expectedInstitutionId = vrInstitution,
      expectedDelegationId = vrDigest (CHR ''1'') \<rparr>"
    by (simp add: finalsContext_def vrInput_def vrAuthorization_def vrBase_def vrClock_def jstr_def jget_def)
  ultimately show ?thesis
    using vrSnapshot_schema
    by (simp add: verifyStateBundle_def parseWith_def maxAge_def maxFuture_def vrState_def vrBundle_def)
       (simp add: vrChain_def)
qed

lemma vr_bytes: "atob (replicate 43 (CHR ''A'') @ ''='') = Some (replicate 32 0)"
    "atob ((replicate 42 (CHR ''A'') @ ''E'') @ ''='') = Some (replicate 31 0 @ [1])"
  by code_simp+

lemma vr_hex: "concat (map hexByte (replicate 32 0)) = replicate 64 (CHR ''0'')"
    "concat (map hexByte (replicate 31 0 @ [1])) = replicate 62 (CHR ''0'') @ ''01''"
  by code_simp+

lemma vr_plain: "replaceChar a b (replicate 43 (CHR ''A'')) = replicate 43 (CHR ''A'')"
   "replaceChar a b (replicate 42 (CHR ''A'') @ ''E'') = replicate 42 (CHR ''A'') @ ''E''"
  if "a \<in> {CHR ''-'', CHR ''_''}" for a b
  using that by (auto simp: replaceChar_def)

lemma rawKey_of_text:
  assumes "publicKeySchema (demoJwk x)" "replaceChar (CHR ''_'') (CHR ''/'') (replaceChar (CHR ''-'') (CHR ''+'') x) = x"
    "atob (x @ ''='') = Some bytes"
  shows "rawKey (demoJwk x) = Inr (''0x'' @ concat (map hexByte bytes))"
  using assms by (simp add: rawKey_def parseWith_def vr_jwk)

lemma vr_raw: "rawKey (demoJwk vrKey) = Inr (''0x'' @ replicate 64 (CHR ''0''))"
  "rawKey (demoJwk vrServiceKey) = Inr (''0x'' @ replicate 62 (CHR ''0'') @ ''01'')"
  using rawKey_of_text [OF vr_publicKeys(1), unfolded vr_texts, OF _ vr_bytes(1), unfolded vr_hex]
    rawKey_of_text [OF vr_publicKeys(2), unfolded vr_texts, OF _ vr_bytes(2), unfolded vr_hex]
  unfolding vr_texts by (simp_all only: vr_plain insert_iff simp_thms)

lemma vr_ledger: "assertLedgerBinding vrSnapshot ''1'' (demoJwk vrKey) (demoJwk vrServiceKey) None 5004 = Inr ()"
proof - 
  have "toLowerCase (''0x'' @ replicate 64 (CHR ''0'')) = ''0x'' @ replicate 64 (CHR ''0'')" "toLowerCase (''0x'' @ replicate 62 (CHR ''0'') @ ''01'') = ''0x'' @ replicate 62 (CHR ''0'') @ ''01''" by (simp_all add: toLowerCase_def toLower_def)
  then show ?thesis by (simp add: assertLedgerBinding_def vr_raw Let_def vrSnapshot_def jobj_def jget_def jbool_def isStr_def jstr_def jnum_def bigInt_def digitValue_def)
qed
end
