(* ===== verification/Finals_Properties.thy ===== *)
theory Finals_Properties
  imports Finals_Scenario
begin

text \<open>
  What a receiver knows once \<open>verifyFinalsPackage\<close> has returned: the institution authorized this
  call and consumed the authorization once, the media path is the one the binding names, and the
  ledger state attested by the witnesses still supports both keys.
\<close>

definition vrVerified :: FinalsVerified where
  "vrVerified = \<lparr> fvAuthorization = vrAuthorization, fvBindingHash = hashCanonical vrLib vrBinding,
     fvDeadline = 8700, officialPath = jstr (policy vrInput) ''followUpPath'' \<rparr>"

lemma vr_snapshot_members: "jstr vrSnapshot ''blockNumber'' = ''12''" "\<not> revokedIn vrState"
  "isStr vrAuthorization ''epoch'' ''1''"
  by (simp_all add: vrSnapshot_def vrState_def revokedIn_def vrAuthorization_def vrBase_def vrClock_def
    jstr_def jget_def jobj_def jbool_def isStr_def)

lemma vr_package: "\<exists>g. verifyFinalsPackage vrLib vrInput newGuard = (Inr vrVerified, g)"
proof -
  have input: "state vrInput = vrBundle" "trust vrInput = vrTrust" "monotonicMs vrInput = 700" "fiNow vrInput = 5004"
    by (simp_all add: vrInput_def)
  have trusted: "chain vrTrust = vrChain" "issuerPublicKey vrTrust = demoJwk vrKey"
    "servicePublicKey vrTrust = demoJwk vrServiceKey"
    by (simp_all add: vrTrust_def)
  have parts: "vsSnapshot vrState = vrSnapshot" "deadlineMonotonicMs vrState = 8700"
    "fmAuthorization vrMessagesRead = vrAuthorization" "fmBinding vrMessagesRead = vrBinding"
    by (simp_all add: vrState_def vrMessagesRead_def)
  have limited: "limitDeadline newGuard vrState = vrState"
    by (simp add: limitDeadline_def newGuard_def)
  have "blockOf vrState = 12"
    by (simp add: blockOf_def parts vr_snapshot_members bigInt_def digitValue_def)
  then obtain g where accepted: "guardAccept newGuard vrState 700 = Inr g"
    using vr_snapshot_members by (simp add: guardAccept_def newGuard_def parts Let_def)
  have "jstr vrAuthorization ''epoch'' = ''1''"
    using vr_snapshot_members by (simp add: isStr_jstr)
  with vr_bundle [unfolded finalsContext_def input] vr_ledger accepted limited show ?thesis
    by (simp add: verifyFinalsPackage_def vr_read vr_checked input trusted parts Let_def vrVerified_def)
qed



text \<open>
  C6: the media path of a verified call is the one the binding was made for. The local and the
  remote session description hash to the values of the binding; the only fingerprint of the remote
  description is the fingerprint of the certificate the transport really presented; the data
  channel carried the hash of this binding; and the recipient key of the binding is the
  receiver's own.
\<close>

theorem verified_call_is_bound_to_its_transport:
  assumes "verifyFinalsPackage L input g = (Inr r, g')"
  shows "fvBindingHash r = hashCanonical L (fiBinding input) \<and>
    isStr (fiBinding input) ''authorizationHash'' (hashCanonical L (fvAuthorization r)) \<and>
    isStr (fiBinding input) ''recipientKeyHash'' (hashCanonical L (recipientPublicKey input)) \<and>
    isStr (fiBinding input) ''answerSdpHash'' (hashSdp L (localSdp input)) \<and>
    isStr (fiBinding input) ''offerSdpHash'' (hashSdp L (remoteSdp input)) \<and>
    connected (observedTransport input) \<and>
    extractSingleSdpFingerprint (remoteSdp input) = Inr (remoteFingerprint (observedTransport input)) \<and>
    dataChannelBindingHash (observedTransport input) = fvBindingHash r"
proof -
  from verifyFinalsPackage_Inr [OF assms] obtain m where
    m: "readFinalsMessages L input = Inr m" "checkFinalsMessages L input m = Inr ()"
      "fvAuthorization r = fmAuthorization m" "fvBindingHash r = hashCanonical L (fmBinding m)"
    by auto
  note ok = checkFinalsMessages_Inr [OF m(2)]
  have "isStr (fmBinding m) ''gatewayFingerprint'' (remoteFingerprint (observedTransport input))"
    "connected (observedTransport input)"
    "dataChannelBindingHash (observedTransport input) = hashCanonical L (fmBinding m)"
    using ok(13) by (simp_all add: transportUnverifiable_def Let_def)
  with checkSdpBinding_Inr [OF ok(12)] readFinalsMessages_Inr(2) [OF m(1)] ok(11) m(3,4) show ?thesis
    by (auto simp: bindingContextInvalid_def dest: isStr_jstr)
qed

theorem verified_call_is_bound_to_its_transport_witness:
  "connected (observedTransport vrInput) \<and>
   extractSingleSdpFingerprint (remoteSdp vrInput) = Inr (remoteFingerprint (observedTransport vrInput))"
proof -
  from vr_package obtain g where "verifyFinalsPackage vrLib vrInput newGuard = (Inr vrVerified, g)" ..
  from verified_call_is_bound_to_its_transport [OF this] show ?thesis by blast
qed



end
