(* ===== verification/Registry.thy ===== *)
theory Registry
  imports Contracts "HOL-Library.Word"
begin

text \<open>
  The registry contracts on the ledger: \<^verbatim>\<open>contracts/src/InstitutionRegistry.sol\<close> and its
  extension \<^verbatim>\<open>contracts/src/ServiceRegistry.sol\<close>. A transaction is a function from the storage
  to a new storage, or a revert. Integers keep their width: an epoch is a \<open>64 word\<close> that wraps
  under \<^verbatim>\<open>unchecked\<close> and reverts under checked arithmetic. \<^verbatim>\<open>bytes32\<close> and \<^verbatim>\<open>address\<close> values
  are their hexadecimal text. Signature recovery and the EIP-712 digest (OpenZeppelin) are the
  parameter \<open>evm\<close>.
\<close>

unbundle bit_operations_syntax

type_synonym bytes32 = string
type_synonym addr = string
type_synonym uint64 = "64 word"

section \<open>Storage\<close>

datatype Status = Active | Suspended

record Institution =
  iStatus :: Status
  iEpoch :: uint64
  iAdministrator :: addr
  iApprovalPublicKey :: bytes32
  iEmergencyStopper :: addr
  iDirectoryHash :: bytes32
  iDirectoryVersion :: uint64
  iPolicyVersion :: uint64
  iExists :: bool

record Delegation =
  dInstitutionId :: bytes32
  dEpoch :: uint64
  dGatewayPublicKey :: bytes32
  dPurposeMask :: "256 word"
  dValidFrom :: uint64
  dValidUntil :: uint64
  dRevoked :: bool
  dExists :: bool

record RegisterRequest =
  rqInstitutionId :: bytes32
  rqAdministrator :: addr
  rqApprovalPublicKey :: bytes32
  rqEmergencyStopper :: addr
  rqDirectoryHash :: bytes32
  rqDirectoryVersion :: uint64
  rqPolicyVersion :: uint64
  rqNonce :: bytes32
  rqDeadline :: uint64

record RecoveryRequest =
  rrInstitutionId :: bytes32
  rrExpectedEpoch :: uint64
  rrNewAdministrator :: addr
  rrNewApprovalPublicKey :: bytes32
  rrNewEmergencyStopper :: addr
  rrNonce :: bytes32
  rrDeadline :: uint64

record DirectoryRequest =
  drInstitutionId :: bytes32
  drExpectedEpoch :: uint64
  drNewDirectoryHash :: bytes32
  drNewDirectoryVersion :: uint64
  drNonce :: bytes32
  drDeadline :: uint64

record ConfigurationRequest =
  crInstitutionId :: bytes32
  crExpectedEpoch :: uint64
  crExpectedDirectoryHash :: bytes32
  crExpectedDirectoryVersion :: uint64
  crExpectedPolicyVersion :: uint64
  crExpectedPolicyHash :: bytes32
  crNewDirectoryHash :: bytes32
  crNewDirectoryVersion :: uint64
  crNewPolicyVersion :: uint64
  crNewPolicyHash :: bytes32
  crNonce :: bytes32
  crDeadline :: uint64

record Registry =
  institutions :: "bytes32 \<Rightarrow> Institution"
  delegations :: "bytes32 \<Rightarrow> Delegation"
  delegationIdUsed :: "bytes32 \<Rightarrow> bool"
  nonceUsed :: "bytes32 \<Rightarrow> bool"
  registrationApprovers :: "addr \<Rightarrow> bool"
  approvers :: "addr list"
  policyHashes :: "bytes32 \<Rightarrow> bytes32"
  initialPolicyHash :: bytes32

datatype revert =
    Unauthorized
  | InvalidState
  | InvalidInput
  | Expired
  | NonceAlreadyUsed
  | InsufficientQuorum
  | DuplicateSigner
  | Panic                  \<comment> \<open>checked arithmetic overflow\<close>
  | InvalidSignature       \<comment> \<open>\<^verbatim>\<open>ECDSA.recover\<close> refuses a malformed signature\<close>

definition zero32 :: bytes32 where "zero32 = ''0x'' @ replicate 64 (CHR ''0'')"
definition zeroAddress :: addr where "zeroAddress = ''0x'' @ replicate 40 (CHR ''0'')"

text \<open>The value of a mapping at a key that was never written.\<close>

definition noInstitution :: Institution where
  "noInstitution = \<lparr> iStatus = Active, iEpoch = 0, iAdministrator = zeroAddress,
     iApprovalPublicKey = zero32, iEmergencyStopper = zeroAddress, iDirectoryHash = zero32,
     iDirectoryVersion = 0, iPolicyVersion = 0, iExists = False \<rparr>"

definition noDelegation :: Delegation where
  "noDelegation = \<lparr> dInstitutionId = zero32, dEpoch = 0, dGatewayPublicKey = zero32,
     dPurposeMask = 0, dValidFrom = 0, dValidUntil = 0, dRevoked = False, dExists = False \<rparr>"

section \<open>Signatures\<close>

text \<open>What is signed: the action and its fields, as EIP-712 encodes them.\<close>

datatype typedData =
    RegisterInstitution RegisterRequest
  | RecoverInstitution RecoveryRequest
  | UpdateDirectory DirectoryRequest
  | UpdateConfiguration ConfigurationRequest

record evm =
  hashTypedDataV4 :: "typedData \<Rightarrow> bytes32"
  ecdsaRecover :: "bytes32 \<Rightarrow> string \<Rightarrow> addr option"

text \<open>The two deployments: the original registry, or the service registry that overrides it.\<close>

datatype profile = InstitutionProfile | ServiceProfile

definition hashRegistration :: "evm \<Rightarrow> RegisterRequest \<Rightarrow> bytes32" where
  "hashRegistration V request = hashTypedDataV4 V (RegisterInstitution request)"

definition hashRecovery :: "evm \<Rightarrow> RecoveryRequest \<Rightarrow> bytes32" where
  "hashRecovery V request = hashTypedDataV4 V (RecoverInstitution request)"

definition hashDirectoryUpdate :: "evm \<Rightarrow> DirectoryRequest \<Rightarrow> bytes32" where
  "hashDirectoryUpdate V request = hashTypedDataV4 V (UpdateDirectory request)"

definition hashConfiguration :: "evm \<Rightarrow> ConfigurationRequest \<Rightarrow> bytes32" where
  "hashConfiguration V request = hashTypedDataV4 V (UpdateConfiguration request)"

text \<open>
  The loop of \<^verbatim>\<open>_requireQuorum\<close>: in the original registry it returns at the threshold, in the
  service registry it looks at every signature.
\<close>

fun countSigners :: "evm \<Rightarrow> Registry \<Rightarrow> bytes32 \<Rightarrow> nat \<Rightarrow> addr list \<Rightarrow> string list \<Rightarrow> revert + unit" where
  "countSigners V R digest threshold seen [] = Inl InsufficientQuorum"
| "countSigners V R digest threshold seen (s # ss) =
     (case ecdsaRecover V digest s of
        None \<Rightarrow> Inl InvalidSignature
      | Some signer \<Rightarrow>
          if \<not> registrationApprovers R signer then Inl Unauthorized
          else if signer \<in> set seen then Inl DuplicateSigner
          else if length seen + 1 = threshold then Inr ()
          else countSigners V R digest threshold (seen @ [signer]) ss)"

fun allSigners :: "evm \<Rightarrow> Registry \<Rightarrow> bytes32 \<Rightarrow> addr list \<Rightarrow> string list \<Rightarrow> revert + unit" where
  "allSigners V R digest seen [] = Inr ()"
| "allSigners V R digest seen (s # ss) =
     (case ecdsaRecover V digest s of
        None \<Rightarrow> Inl InvalidSignature
      | Some signer \<Rightarrow>
          if \<not> registrationApprovers R signer then Inl Unauthorized
          else if signer \<in> set seen then Inl DuplicateSigner
          else allSigners V R digest (seen @ [signer]) ss)"

definition requireQuorum ::
    "evm \<Rightarrow> profile \<Rightarrow> Registry \<Rightarrow> bytes32 \<Rightarrow> string list \<Rightarrow> nat \<Rightarrow> revert + unit" where
  "requireQuorum V p R digest sigs threshold =
     (case p of
        InstitutionProfile \<Rightarrow>
          if length sigs < threshold then Inl InsufficientQuorum
          else countSigners V R digest threshold [] sigs
      | ServiceProfile \<Rightarrow>
          if length sigs < threshold \<or> length sigs > 3 then Inl InsufficientQuorum
          else allSigners V R digest [] sigs)"

definition checkDeadlineAndNonce :: "profile \<Rightarrow> Registry \<Rightarrow> nat \<Rightarrow> uint64 \<Rightarrow> bytes32 \<Rightarrow> revert + unit" where
  "checkDeadlineAndNonce p R timestamp deadline nonce =
     (if p = ServiceProfile \<and> (unat deadline \<le> timestamp \<or> unat deadline > timestamp + 600) then Inl Expired
      else if unat deadline < timestamp then Inl Expired
      else if nonce = zero32 then Inl InvalidInput
      else if nonceUsed R nonce then Inl NonceAlreadyUsed
      else Inr ())"

section \<open>Transactions\<close>

definition constructorRegistry :: "addr list \<Rightarrow> bytes32 \<Rightarrow> Registry" where
  "constructorRegistry signers policy =
     \<lparr> institutions = \<lambda>_. noInstitution, delegations = \<lambda>_. noDelegation,
       delegationIdUsed = \<lambda>_. False, nonceUsed = \<lambda>_. False,
       registrationApprovers = (\<lambda>a. a \<in> set signers), approvers = signers,
       policyHashes = \<lambda>_. zero32, initialPolicyHash = policy \<rparr>"

definition deployRegistry :: "profile \<Rightarrow> addr list \<Rightarrow> bytes32 \<Rightarrow> revert + Registry" where
  "deployRegistry p signers policy =
     (if zeroAddress \<in> set signers \<or> \<not> distinct signers then Inl InvalidInput
      else if p = ServiceProfile \<and> policy = zero32 then Inl InvalidInput
      else Inr (constructorRegistry signers policy))"

definition useNonce :: "bytes32 \<Rightarrow> Registry \<Rightarrow> Registry" where
  "useNonce n R = R\<lparr> nonceUsed := (nonceUsed R)(n := True) \<rparr>"

definition putInstitution :: "bytes32 \<Rightarrow> Institution \<Rightarrow> Registry \<Rightarrow> Registry" where
  "putInstitution k i R = R\<lparr> institutions := (institutions R)(k := i) \<rparr>"

definition putDelegation :: "bytes32 \<Rightarrow> Delegation \<Rightarrow> Registry \<Rightarrow> Registry" where
  "putDelegation k d R = R\<lparr> delegations := (delegations R)(k := d) \<rparr>"

definition registeredInstitution :: "RegisterRequest \<Rightarrow> Institution" where
  "registeredInstitution q =
     \<lparr> iStatus = Active, iEpoch = 1, iAdministrator = rqAdministrator q,
       iApprovalPublicKey = rqApprovalPublicKey q, iEmergencyStopper = rqEmergencyStopper q,
       iDirectoryHash = rqDirectoryHash q, iDirectoryVersion = rqDirectoryVersion q,
       iPolicyVersion = rqPolicyVersion q, iExists = True \<rparr>"

definition registerInstitution ::
    "evm \<Rightarrow> profile \<Rightarrow> nat \<Rightarrow> RegisterRequest \<Rightarrow> string list \<Rightarrow> Registry \<Rightarrow> revert + Registry" where
  "registerInstitution V p timestamp q sigs R =
     (if p = ServiceProfile \<and> (rqPolicyVersion q \<noteq> 1 \<or> rqDirectoryHash q = zero32 \<or> rqDirectoryVersion q = 0)
      then Inl InvalidInput
      else if iExists (institutions R (rqInstitutionId q)) then Inl InvalidState
      else if rqInstitutionId q = zero32 \<or> rqAdministrator q = zeroAddress \<or>
              rqEmergencyStopper q = zeroAddress \<or> rqApprovalPublicKey q = zero32 \<or> rqPolicyVersion q = 0
      then Inl InvalidInput
      else bindE (checkDeadlineAndNonce p R timestamp (rqDeadline q) (rqNonce q)) (\<lambda>_.
        bindE (requireQuorum V p R (hashRegistration V q) sigs 2) (\<lambda>_.
          let R' = putInstitution (rqInstitutionId q) (registeredInstitution q) (useNonce (rqNonce q) R) in
          Inr (if p = ServiceProfile
               then R'\<lparr> policyHashes := (policyHashes R')(rqInstitutionId q := initialPolicyHash R') \<rparr>
               else R'))))"

definition grantDelegation ::
    "addr \<Rightarrow> nat \<Rightarrow> bytes32 \<Rightarrow> bytes32 \<Rightarrow> uint64 \<Rightarrow> bytes32 \<Rightarrow> 256 word \<Rightarrow> uint64 \<Rightarrow> uint64 \<Rightarrow>
     Registry \<Rightarrow> revert + Registry" where
  "grantDelegation sender timestamp dk ik expectedEpoch gatewayKey purpose validFrom validUntil R =
     (let i = institutions R ik in
      if \<not> iExists i \<or> iStatus i \<noteq> Active \<or> iEpoch i \<noteq> expectedEpoch then Inl InvalidState
      else if sender \<noteq> iAdministrator i then Inl Unauthorized
      else if dk = zero32 \<or> delegationIdUsed R dk \<or> gatewayKey = zero32 \<or> purpose = 0 \<or>
              validFrom \<ge> validUntil \<or> unat validUntil \<le> timestamp
      then Inl InvalidInput
      else Inr (putDelegation dk
        \<lparr> dInstitutionId = ik, dEpoch = expectedEpoch, dGatewayPublicKey = gatewayKey,
          dPurposeMask = purpose, dValidFrom = validFrom, dValidUntil = validUntil,
          dRevoked = False, dExists = True \<rparr>
        (R\<lparr> delegationIdUsed := (delegationIdUsed R)(dk := True) \<rparr>)))"

definition revokeDelegation :: "profile \<Rightarrow> addr \<Rightarrow> bytes32 \<Rightarrow> uint64 \<Rightarrow> Registry \<Rightarrow> revert + Registry" where
  "revokeDelegation p sender dk expectedEpoch R =
     (let d = delegations R dk; i = institutions R (dInstitutionId d) in
      if p = ServiceProfile \<and> sender \<noteq> iAdministrator i then Inl Unauthorized
      else if \<not> dExists d \<or> dRevoked d \<or> iEpoch i \<noteq> expectedEpoch \<or> dEpoch d \<noteq> expectedEpoch
      then Inl InvalidState
      else if sender \<noteq> iAdministrator i \<and> sender \<noteq> iEmergencyStopper i then Inl Unauthorized
      else Inr (putDelegation dk (d\<lparr> dRevoked := True \<rparr>) R))"

definition suspendInstitution :: "addr \<Rightarrow> bytes32 \<Rightarrow> uint64 \<Rightarrow> Registry \<Rightarrow> revert + Registry" where
  "suspendInstitution sender ik expectedEpoch R =
     (let i = institutions R ik in
      if \<not> iExists i \<or> iStatus i \<noteq> Active \<or> iEpoch i \<noteq> expectedEpoch then Inl InvalidState
      else if sender \<noteq> iEmergencyStopper i then Inl Unauthorized
      else Inr (putInstitution ik (i\<lparr> iStatus := Suspended, iEpoch := iEpoch i + 1 \<rparr>) R))"

definition recoverInstitution ::
    "evm \<Rightarrow> profile \<Rightarrow> nat \<Rightarrow> RecoveryRequest \<Rightarrow> string list \<Rightarrow> Registry \<Rightarrow> revert + Registry" where
  "recoverInstitution V p timestamp q sigs R =
     (let i = institutions R (rrInstitutionId q) in
      if \<not> iExists i \<or> iStatus i \<noteq> Suspended \<or> iEpoch i \<noteq> rrExpectedEpoch q then Inl InvalidState
      else if rrNewAdministrator q = zeroAddress \<or> rrNewEmergencyStopper q = zeroAddress \<or>
              rrNewApprovalPublicKey q = zero32
      then Inl InvalidInput
      else bindE (checkDeadlineAndNonce p R timestamp (rrDeadline q) (rrNonce q)) (\<lambda>_.
        bindE (requireQuorum V p R (hashRecovery V q) sigs 2) (\<lambda>_.
          Inr (putInstitution (rrInstitutionId q)
            (i\<lparr> iAdministrator := rrNewAdministrator q, iApprovalPublicKey := rrNewApprovalPublicKey q,
               iEmergencyStopper := rrNewEmergencyStopper q, iStatus := Active, iEpoch := iEpoch i + 1 \<rparr>)
            (useNonce (rrNonce q) R)))))"

definition updateDirectory ::
    "evm \<Rightarrow> profile \<Rightarrow> nat \<Rightarrow> DirectoryRequest \<Rightarrow> string \<Rightarrow> string \<Rightarrow> Registry \<Rightarrow> revert + Registry" where
  "updateDirectory V p timestamp q administratorSignature approverSignature R =
     (let i = institutions R (drInstitutionId q); digest = hashDirectoryUpdate V q in
      if p = ServiceProfile then Inl Unauthorized
      else if \<not> iExists i \<or> iStatus i \<noteq> Active \<or> iEpoch i \<noteq> drExpectedEpoch q \<or>
              drNewDirectoryVersion q \<le> iDirectoryVersion i \<or> drNewDirectoryHash q = zero32
      then Inl InvalidState
      else bindE (checkDeadlineAndNonce p R timestamp (drDeadline q) (drNonce q)) (\<lambda>_.
        bindE (ofOption InvalidSignature (ecdsaRecover V digest administratorSignature)) (\<lambda>admin.
          if admin \<noteq> iAdministrator i then Inl Unauthorized
          else bindE (ofOption InvalidSignature (ecdsaRecover V digest approverSignature)) (\<lambda>approver.
            if \<not> registrationApprovers R approver \<or> approver = iAdministrator i then Inl Unauthorized
            else Inr (putInstitution (drInstitutionId q)
              (i\<lparr> iDirectoryHash := drNewDirectoryHash q, iDirectoryVersion := drNewDirectoryVersion q \<rparr>)
              (useNonce (drNonce q) R))))))"

text \<open>\<open>x + 1\<close> under checked arithmetic.\<close>

definition checkedSuc :: "uint64 \<Rightarrow> revert + uint64" where
  "checkedSuc w = (if w = -1 then Inl Panic else Inr (w + 1))"

definition nextVersion :: "bool \<Rightarrow> uint64 \<Rightarrow> revert + uint64" where
  "nextVersion changed w = (if changed then checkedSuc w else Inr w)"

definition updateConfiguration ::
    "evm \<Rightarrow> profile \<Rightarrow> nat \<Rightarrow> ConfigurationRequest \<Rightarrow> string list \<Rightarrow> Registry \<Rightarrow> revert + Registry" where
  "updateConfiguration V p timestamp r sigs R =
     (let k = crInstitutionId r; i = institutions R k;
          policyChanged = (crNewPolicyHash r \<noteq> crExpectedPolicyHash r);
          directoryChanged = (crNewDirectoryHash r \<noteq> crExpectedDirectoryHash r) in
      if \<not> iExists i \<or> iStatus i \<noteq> Active \<or> iEpoch i \<noteq> crExpectedEpoch r \<or>
         iDirectoryHash i \<noteq> crExpectedDirectoryHash r \<or> iDirectoryVersion i \<noteq> crExpectedDirectoryVersion r \<or>
         iPolicyVersion i \<noteq> crExpectedPolicyVersion r \<or> policyHashes R k \<noteq> crExpectedPolicyHash r
      then Inl InvalidState
      else if crNewDirectoryHash r = zero32 \<or> crNewPolicyHash r = zero32 then Inl InvalidInput
      else if \<not> policyChanged \<and> \<not> directoryChanged then Inl InvalidInput
      else bindE (nextVersion policyChanged (iPolicyVersion i)) (\<lambda>pv.
        if crNewPolicyVersion r \<noteq> pv then Inl InvalidInput
        else bindE (nextVersion directoryChanged (iDirectoryVersion i)) (\<lambda>dv.
          if crNewDirectoryVersion r \<noteq> dv then Inl InvalidInput
          else bindE (checkDeadlineAndNonce p R timestamp (crDeadline r) (crNonce r)) (\<lambda>_.
            bindE (requireQuorum V p R (hashConfiguration V r) sigs 2) (\<lambda>_.
              bindE (nextVersion policyChanged (iEpoch i)) (\<lambda>epoch.
                let R' = putInstitution k
                  (i\<lparr> iDirectoryHash := crNewDirectoryHash r, iDirectoryVersion := crNewDirectoryVersion r,
                     iPolicyVersion := crNewPolicyVersion r, iEpoch := epoch \<rparr>)
                  (useNonce (crNonce r) R) in
                Inr (R'\<lparr> policyHashes := (policyHashes R')(k := crNewPolicyHash r) \<rparr>)))))))"

definition isDelegationActive :: "Registry \<Rightarrow> bytes32 \<Rightarrow> 256 word \<Rightarrow> uint64 \<Rightarrow> bool" where
  "isDelegationActive R dk purposeBit atTime \<longleftrightarrow>
     (let d = delegations R dk; i = institutions R (dInstitutionId d) in
      dExists d \<and> \<not> dRevoked d \<and> iExists i \<and> iStatus i = Active \<and> dEpoch d = iEpoch i \<and>
      dValidFrom d \<le> atTime \<and> atTime < dValidUntil d \<and> (dPurposeMask d AND purposeBit) = purposeBit)"

end
