(* ===== verification/Registry_Properties.thy ===== *)
theory Registry_Properties
  imports Registry
begin

text \<open>
  The registry as a transaction system: every call of the contract, executed one after another,
  with a reverted call leaving the storage unchanged. The invariants hold of every storage that
  any sequence of calls by any senders at any times can produce.
\<close>

section \<open>Calls\<close>

datatype call =
    CRegister RegisterRequest "string list"
  | CGrant bytes32 bytes32 uint64 bytes32 "256 word" uint64 uint64
  | CRevoke bytes32 uint64
  | CSuspend bytes32 uint64
  | CRecover RecoveryRequest "string list"
  | CDirectory DirectoryRequest string string
  | CConfigure ConfigurationRequest "string list"

record message =
  msgSender :: addr
  msgTimestamp :: nat
  msgCall :: call

fun execute :: "evm \<Rightarrow> profile \<Rightarrow> addr \<Rightarrow> nat \<Rightarrow> call \<Rightarrow> Registry \<Rightarrow> revert + Registry" where
  "execute V p sender t (CRegister q sigs) R = registerInstitution V p t q sigs R"
| "execute V p sender t (CGrant dk ik e g m a b) R = grantDelegation sender t dk ik e g m a b R"
| "execute V p sender t (CRevoke dk e) R = revokeDelegation p sender dk e R"
| "execute V p sender t (CSuspend ik e) R = suspendInstitution sender ik e R"
| "execute V p sender t (CRecover q sigs) R = recoverInstitution V p t q sigs R"
| "execute V p sender t (CDirectory q a b) R = updateDirectory V p t q a b R"
| "execute V p sender t (CConfigure r sigs) R =
     (if p = ServiceProfile then updateConfiguration V p t r sigs R else Inl InvalidInput)"

definition transact :: "evm \<Rightarrow> profile \<Rightarrow> message \<Rightarrow> Registry \<Rightarrow> Registry" where
  "transact V p m R = (case execute V p (msgSender m) (msgTimestamp m) (msgCall m) R of
     Inl _ \<Rightarrow> R | Inr R' \<Rightarrow> R')"

definition runCalls :: "evm \<Rightarrow> profile \<Rightarrow> message list \<Rightarrow> Registry \<Rightarrow> Registry" where
  "runCalls V p ms R = fold (transact V p) ms R"

text \<open>The governance nonce a call carries.\<close>

fun callNonce :: "call \<Rightarrow> bytes32 option" where
  "callNonce (CRegister q _) = Some (rqNonce q)"
| "callNonce (CRecover q _) = Some (rrNonce q)"
| "callNonce (CDirectory q _ _) = Some (drNonce q)"
| "callNonce (CConfigure r _) = Some (crNonce r)"
| "callNonce _ = None"

lemmas storage_defs = putInstitution_def putDelegation_def useNonce_def

lemmas execute_defs = registerInstitution_def grantDelegation_def revokeDelegation_def
  suspendInstitution_def recoverInstitution_def updateDirectory_def updateConfiguration_def

section \<open>What one call may change\<close>

text \<open>A delegation that exists changes only by becoming revoked.\<close>

lemma execute_delegation:
  assumes "execute V p s t c R = Inr R'" "dExists (delegations R dk)" "delegationIdUsed R dk"
  shows "delegations R' dk = delegations R dk \<or>
         delegations R' dk = (delegations R dk)\<lparr> dRevoked := True \<rparr>"
proof (cases c)
  case (CRevoke dk' e)
  with assms show ?thesis
    by (auto simp: revokeDelegation_def Let_def storage_defs result_simps)
next
  case (CGrant dk' ik e g m a b)
  with assms show ?thesis
    by (auto simp: grantDelegation_def Let_def storage_defs result_simps)
qed (use assms in \<open>auto simp: execute_defs Let_def storage_defs result_simps split: if_splits\<close>)

lemma execute_used:
  assumes "execute V p s t c R = Inr R'"
  shows "delegationIdUsed R dk \<Longrightarrow> delegationIdUsed R' dk"
    and "nonceUsed R n \<Longrightarrow> nonceUsed R' n"
    and "iExists (institutions R k) \<Longrightarrow> iExists (institutions R' k)"
    and "registrationApprovers R' = registrationApprovers R"
  using assms
  by (cases c; auto simp: execute_defs Let_def storage_defs result_simps split: if_splits)+

lemma execute_nonce:
  assumes "execute V p s t c R = Inr R'" "callNonce c = Some n"
  shows "\<not> nonceUsed R n" "nonceUsed R' n"
  using assms
  by (cases c; auto simp: execute_defs Let_def storage_defs result_simps checkDeadlineAndNonce_def
      split: if_splits)+

text \<open>An epoch stays or moves one up, and a suspended institution becomes active only with a new one.\<close>

lemma execute_epoch:
  assumes "execute V p s t c R = Inr R'" "iExists (institutions R k)"
  shows "iEpoch (institutions R' k) = iEpoch (institutions R k) \<and>
           iStatus (institutions R' k) = iStatus (institutions R k)
       \<or> iEpoch (institutions R' k) = iEpoch (institutions R k) + 1"
  using assms
  by (cases c; auto simp: execute_defs Let_def storage_defs result_simps nextVersion_def
      checkedSuc_def split: if_splits)

section \<open>Invariants of the storage\<close>

definition registryInv :: "Registry \<Rightarrow> bool" where
  "registryInv R \<longleftrightarrow>
     (\<forall>dk. dExists (delegations R dk) \<longrightarrow>
        delegationIdUsed R dk \<and> iExists (institutions R (dInstitutionId (delegations R dk))))"

lemma execute_delegation_institution:
  assumes "execute V p s t c R = Inr R'" "dExists (delegations R' dk)" "registryInv R"
  shows "delegationIdUsed R' dk" "iExists (institutions R' (dInstitutionId (delegations R' dk)))"
  using assms
  by (cases c; auto simp: execute_defs Let_def storage_defs result_simps registryInv_def
      split: if_splits)+

lemma execute_registryInv: "execute V p s t c R = Inr R' \<Longrightarrow> registryInv R \<Longrightarrow> registryInv R'"
  using execute_delegation_institution by (auto simp: registryInv_def [of R'])

lemma transact_registryInv: "registryInv R \<Longrightarrow> registryInv (transact V p m R)"
  by (auto simp: transact_def execute_registryInv split: sum.splits)

lemma runCalls_Nil [simp]: "runCalls V p [] R = R"
  and runCalls_Cons [simp]: "runCalls V p (m # ms) R = runCalls V p ms (transact V p m R)"
  by (simp_all add: runCalls_def)

lemma runCalls_registryInv: "registryInv R \<Longrightarrow> registryInv (runCalls V p ms R)"
  by (induction ms arbitrary: R) (simp_all add: transact_registryInv)

lemma deployed_registryInv: "deployRegistry p signers policy = Inr R \<Longrightarrow> registryInv R"
  by (auto simp: deployRegistry_def constructorRegistry_def registryInv_def noDelegation_def
      split: if_splits)

section \<open>Quorums\<close>

lemma countSigners_two:
  assumes "countSigners V R digest 2 [] sigs = Inr ()"
  shows "\<exists>a b. a \<noteq> b \<and> registrationApprovers R a \<and> registrationApprovers R b \<and>
    (\<exists>s \<in> set sigs. ecdsaRecover V digest s = Some a) \<and> (\<exists>s \<in> set sigs. ecdsaRecover V digest s = Some b)"
proof (cases sigs)
  case Nil
  with assms show ?thesis by simp
next
  case (Cons s ss)
  with assms show ?thesis
    by (cases ss) (fastforce simp: result_simps split: option.splits)+
qed

lemma allSigners_two:
  assumes "allSigners V R digest [] sigs = Inr ()" "2 \<le> length sigs"
  shows "\<exists>a b. a \<noteq> b \<and> registrationApprovers R a \<and> registrationApprovers R b \<and>
    (\<exists>s \<in> set sigs. ecdsaRecover V digest s = Some a) \<and> (\<exists>s \<in> set sigs. ecdsaRecover V digest s = Some b)"
proof -
  from assms(2) obtain s s' ss where "sigs = s # s' # ss"
    by (cases sigs; cases "tl sigs") auto
  with assms(1) show ?thesis by (fastforce simp: result_simps split: option.splits)
qed

lemma requireQuorum_two:
  assumes "requireQuorum V p R digest sigs 2 = Inr ()"
  shows "\<exists>a b. a \<noteq> b \<and> registrationApprovers R a \<and> registrationApprovers R b \<and>
    (\<exists>s \<in> set sigs. ecdsaRecover V digest s = Some a) \<and> (\<exists>s \<in> set sigs. ecdsaRecover V digest s = Some b)"
  using assms countSigners_two allSigners_two
  by (cases p) (auto simp: requireQuorum_def result_simps)

section \<open>Properties\<close>

lemma transact_delegation:
  assumes "registryInv R" "dExists (delegations R dk)"
  shows "delegations (transact V p m R) dk = delegations R dk \<or>
         delegations (transact V p m R) dk = (delegations R dk)\<lparr> dRevoked := True \<rparr>"
  using assms execute_delegation
  by (fastforce simp: transact_def registryInv_def split: sum.splits)

lemma runCalls_delegation:
  assumes "registryInv R" "dExists (delegations R dk)"
  shows "delegations (runCalls V p ms R) dk = delegations R dk \<or>
         delegations (runCalls V p ms R) dk = (delegations R dk)\<lparr> dRevoked := True \<rparr>"
  using assms
proof (induction ms arbitrary: R)
  case (Cons m ms)
  from transact_delegation [OF Cons.prems] have step:
    "delegations (transact V p m R) dk = delegations R dk \<or>
     delegations (transact V p m R) dk = (delegations R dk)\<lparr> dRevoked := True \<rparr>" .
  then have "dExists (delegations (transact V p m R) dk)" using Cons.prems(2) by auto
  from Cons.IH [OF transact_registryInv [OF Cons.prems(1)] this] step show ?case by auto
qed simp

lemma runCalls_append: "runCalls V p (ms @ ms') R = runCalls V p ms' (runCalls V p ms R)"
  by (simp add: runCalls_def)

text \<open>
  In every history of a registry, from its deployment on and whatever calls are made by
  whomever, a delegation that has been revoked keeps all its fields and is never active again, for
  any purpose and at any time.
\<close>

theorem revocation_is_permanent:
  assumes "deployRegistry p signers policy = Inr R0"
    and "dExists (delegations (runCalls V p ms R0) dk)" "dRevoked (delegations (runCalls V p ms R0) dk)"
  shows "delegations (runCalls V p (ms @ ms') R0) dk = delegations (runCalls V p ms R0) dk \<and>
    \<not> isDelegationActive (runCalls V p (ms @ ms') R0) dk purpose t"
proof -
  have "registryInv (runCalls V p ms R0)"
    using deployed_registryInv [OF assms(1)] by (rule runCalls_registryInv)
  from runCalls_delegation [OF this assms(2), of V p ms'] assms(3)
  have "delegations (runCalls V p (ms @ ms') R0) dk = delegations (runCalls V p ms R0) dk"
    by (auto simp: runCalls_append)
  with assms(3) show ?thesis by (simp add: isDelegationActive_def Let_def)
qed

text \<open>A concrete history: one institution registered, one delegation granted and revoked.\<close>

definition demoEvm :: evm where
  "demoEvm = \<lparr> hashTypedDataV4 = (\<lambda>_. ''digest''), ecdsaRecover = (\<lambda>_ s. Some s) \<rparr>"

definition demoApprovers :: "addr list" where
  "demoApprovers = [''a1'', ''a2'', ''a3'']"

definition demoRegister :: message where
  "demoRegister = \<lparr> msgSender = ''x'', msgTimestamp = 100, msgCall = CRegister
     \<lparr> rqInstitutionId = ''i'', rqAdministrator = ''admin'', rqApprovalPublicKey = ''key'',
       rqEmergencyStopper = ''stop'', rqDirectoryHash = ''dir'', rqDirectoryVersion = 1,
       rqPolicyVersion = 1, rqNonce = ''n1'', rqDeadline = 200 \<rparr> [''a1'', ''a2''] \<rparr>"

definition demoGrant :: message where
  "demoGrant = \<lparr> msgSender = ''admin'', msgTimestamp = 110,
     msgCall = CGrant ''d'' ''i'' 1 ''gw'' 4 100 900 \<rparr>"

definition demoRevoke :: message where
  "demoRevoke = \<lparr> msgSender = ''admin'', msgTimestamp = 120, msgCall = CRevoke ''d'' 1 \<rparr>"

definition demoDeployed :: Registry where
  "demoDeployed = constructorRegistry demoApprovers ''policy''"

definition demoGranted :: Registry where
  "demoGranted = runCalls demoEvm ServiceProfile [demoRegister, demoGrant] demoDeployed"

lemma demo_deploy: "deployRegistry ServiceProfile demoApprovers ''policy'' = Inr demoDeployed"
  by (simp add: deployRegistry_def demoDeployed_def demoApprovers_def zeroAddress_def zero32_def)

lemmas demo_chain_defs = demoEvm_def demoApprovers_def demoRegister_def demoGrant_def demoRevoke_def
  demoDeployed_def demoGranted_def

lemma demoGranted_members:
  "delegations demoGranted ''d'' = \<lparr> dInstitutionId = ''i'', dEpoch = 1, dGatewayPublicKey = ''gw'',
     dPurposeMask = 4, dValidFrom = 100, dValidUntil = 900, dRevoked = False, dExists = True \<rparr>"
  "institutions demoGranted ''i'' = \<lparr> iStatus = Active, iEpoch = 1, iAdministrator = ''admin'',
     iApprovalPublicKey = ''key'', iEmergencyStopper = ''stop'', iDirectoryHash = ''dir'',
     iDirectoryVersion = 1, iPolicyVersion = 1, iExists = True \<rparr>"
  "registrationApprovers demoGranted = (\<lambda>a. a \<in> {''a1'', ''a2'', ''a3''})"
  "nonceUsed demoGranted ''n2'' = False"
  by (simp_all add: demo_chain_defs transact_def execute_defs storage_defs Let_def constructorRegistry_def
      noInstitution_def noDelegation_def zero32_def zeroAddress_def checkDeadlineAndNonce_def
      requireQuorum_def registeredInstitution_def)

theorem revocation_is_permanent_witness:
  "dRevoked (delegations (runCalls demoEvm ServiceProfile [demoRegister, demoGrant, demoRevoke] demoDeployed) ''d'') \<and>
   \<not> isDelegationActive (runCalls demoEvm ServiceProfile
       ([demoRegister, demoGrant, demoRevoke] @ [demoGrant]) demoDeployed) ''d'' 4 150"
proof -
  have "runCalls demoEvm ServiceProfile [demoRegister, demoGrant, demoRevoke] demoDeployed =
      transact demoEvm ServiceProfile demoRevoke demoGranted"
    by (simp add: demoGranted_def)
  moreover have "delegations (transact demoEvm ServiceProfile demoRevoke demoGranted) ''d'' =
      (delegations demoGranted ''d'')\<lparr> dRevoked := True \<rparr>"
    using demoGranted_members
    by (simp add: transact_def demoRevoke_def revokeDelegation_def Let_def putDelegation_def)
  ultimately have r: "delegations (runCalls demoEvm ServiceProfile [demoRegister, demoGrant, demoRevoke] demoDeployed) ''d'' =
      (delegations demoGranted ''d'')\<lparr> dRevoked := True \<rparr>" by simp
  have e: "dExists (delegations (runCalls demoEvm ServiceProfile [demoRegister, demoGrant, demoRevoke] demoDeployed) ''d'')"
    and v: "dRevoked (delegations (runCalls demoEvm ServiceProfile [demoRegister, demoGrant, demoRevoke] demoDeployed) ''d'')"
    using r demoGranted_members(1) by simp_all
  show ?thesis using revocation_is_permanent [OF demo_deploy e v, of "[demoGrant]" 4 150] v by blast
qed

lemma transact_epoch:
  assumes "iExists (institutions R k)"
  shows "iExists (institutions (transact V p m R) k)"
    and "iEpoch (institutions (transact V p m R) k) = iEpoch (institutions R k) \<or>
         iEpoch (institutions (transact V p m R) k) = iEpoch (institutions R k) + 1"
  using assms execute_epoch execute_used(3)
  by (fastforce simp: transact_def split: sum.splits)+

lemma unat_epoch_suc:
  fixes e :: uint64
  assumes "unat e + 1 < 2 ^ 64"
  shows "unat (e + 1) = unat e + 1"
  using assms by (simp add: unat_plus_if')

lemma runCalls_epoch_grows:
  assumes "iExists (institutions R k)" "unat (iEpoch (institutions R k)) + length ms < 2 ^ 64"
  shows "iExists (institutions (runCalls V p ms R) k) \<and>
    unat (iEpoch (institutions R k)) \<le> unat (iEpoch (institutions (runCalls V p ms R) k))"
  using assms
proof (induction ms arbitrary: R)
  case (Cons m ms)
  let ?R = "transact V p m R"
  have step: "unat (iEpoch (institutions ?R k)) = unat (iEpoch (institutions R k)) \<or>
    unat (iEpoch (institutions ?R k)) = unat (iEpoch (institutions R k)) + 1"
    using transact_epoch(2) [OF Cons.prems(1), of V p m] unat_epoch_suc Cons.prems(2) by force
  moreover have "iExists (institutions ?R k)" using transact_epoch(1) [OF Cons.prems(1)] .
  moreover have "unat (iEpoch (institutions ?R k)) + length ms < 2 ^ 64"
    using step Cons.prems(2) by auto
  ultimately show ?case using Cons.IH [of ?R] by force
qed simp

text \<open>
  C12: suspension is final for the delegations it cuts off: a delegation that was active when its
  institution was suspended is never active again, also not after the institution has been
  recovered, for as long as the 64-bit epoch counter has not been driven around by that many calls.
\<close>

theorem suspension_ends_delegations:
  assumes "registryInv R" "isDelegationActive R dk purpose0 t0"
    and "suspendInstitution sender (dInstitutionId (delegations R dk)) e R = Inr R1"
    and "unat (iEpoch (institutions R (dInstitutionId (delegations R dk)))) + length ms + 1 < 2 ^ 64"
  shows "\<not> isDelegationActive (runCalls V p ms R1) dk purpose t"
proof
  assume act: "isDelegationActive (runCalls V p ms R1) dk purpose t"
  let ?k = "dInstitutionId (delegations R dk)"
  from assms(2) have d: "dExists (delegations R dk)" "iExists (institutions R ?k)"
    "dEpoch (delegations R dk) = iEpoch (institutions R ?k)"
    by (simp_all add: isDelegationActive_def Let_def)
  have exec: "execute V p sender 0 (CSuspend ?k e) R = Inr R1" using assms(3) by simp
  have R1: "delegations R1 dk = delegations R dk" "iExists (institutions R1 ?k)"
    "iEpoch (institutions R1 ?k) = iEpoch (institutions R ?k) + 1"
    using assms(3) d by (auto simp: suspendInstitution_def Let_def storage_defs result_simps)
  have inv: "registryInv R1" using execute_registryInv [OF exec assms(1)] .
  have "dEpoch (delegations (runCalls V p ms R1) dk) = dEpoch (delegations R dk)"
    "dInstitutionId (delegations (runCalls V p ms R1) dk) = ?k"
    using runCalls_delegation [OF inv, of dk V p ms] R1(1) d(1) by auto
  with act have "iEpoch (institutions (runCalls V p ms R1) ?k) = iEpoch (institutions R ?k)"
    using d(3) by (simp add: isDelegationActive_def Let_def)
  moreover have up: "unat (iEpoch (institutions R1 ?k)) = unat (iEpoch (institutions R ?k)) + 1"
    using R1(3) assms(4) by (simp add: unat_epoch_suc)
  have "unat (iEpoch (institutions R1 ?k)) + length ms < 2 ^ 64" using up assms(4) by simp
  from runCalls_epoch_grows [OF R1(2) this, of V p] have
    "unat (iEpoch (institutions R1 ?k)) \<le> unat (iEpoch (institutions (runCalls V p ms R1) ?k))" by simp
  ultimately show False using up by simp
qed

lemma demoGranted_inv: "registryInv demoGranted"
  unfolding demoGranted_def using deployed_registryInv [OF demo_deploy] by (rule runCalls_registryInv)

lemma demoGranted_active: "isDelegationActive demoGranted ''d'' 4 150"
  by (simp add: isDelegationActive_def demoGranted_members)

definition demoSuspended :: Registry where
  "demoSuspended = putInstitution ''i'' ((institutions demoGranted ''i'')\<lparr> iStatus := Suspended, iEpoch := 2 \<rparr>) demoGranted"

lemma demo_suspend: "suspendInstitution ''stop'' ''i'' 1 demoGranted = Inr demoSuspended"
  by (simp add: suspendInstitution_def demoGranted_members demoSuspended_def Let_def)

definition demoRecovery :: RecoveryRequest where
  "demoRecovery = \<lparr> rrInstitutionId = ''i'', rrExpectedEpoch = 2, rrNewAdministrator = ''admin2'',
     rrNewApprovalPublicKey = ''key2'', rrNewEmergencyStopper = ''stop2'', rrNonce = ''n2'', rrDeadline = 500 \<rparr>"

theorem suspension_ends_delegations_witness:
  "isDelegationActive demoGranted ''d'' 4 150 \<and>
   suspendInstitution ''stop'' ''i'' 1 demoGranted = Inr demoSuspended \<and>
   \<not> isDelegationActive (runCalls demoEvm ServiceProfile
       [\<lparr> msgSender = ''y'', msgTimestamp = 130, msgCall = CRecover demoRecovery [''a2'', ''a3''] \<rparr>]
       demoSuspended) ''d'' 4 160"
proof -
  have s: "suspendInstitution ''stop'' (dInstitutionId (delegations demoGranted ''d'')) 1 demoGranted = Inr demoSuspended"
    using demo_suspend by (simp add: demoGranted_members)
  let ?ms = "[\<lparr> msgSender = ''y'', msgTimestamp = 130, msgCall = CRecover demoRecovery [''a2'', ''a3''] \<rparr>]"
  have "unat (iEpoch (institutions demoGranted (dInstitutionId (delegations demoGranted ''d'')))) +
      length ?ms + 1 < 2 ^ 64"
    by (simp add: demoGranted_members)
  from suspension_ends_delegations [OF demoGranted_inv demoGranted_active s this] s show ?thesis
    using demoGranted_active by (simp add: demoGranted_members)
qed

text \<open>
  C13: an institution is recovered only while suspended, at the epoch the request names, before the
  deadline, with a fresh nonce, and only when two different registration approvers have signed
  exactly this request; it then has the new keys, is active under the next epoch, and no other
  institution and no delegation has changed.
\<close>

theorem recovery_needs_two_approvers:
  assumes "recoverInstitution V p timestamp q sigs R = Inr R'"
  shows "(\<exists>a b. a \<noteq> b \<and> registrationApprovers R a \<and> registrationApprovers R b \<and>
      (\<exists>s. s \<in> set sigs \<and> ecdsaRecover V (hashRecovery V q) s = Some a) \<and>
      (\<exists>s. s \<in> set sigs \<and> ecdsaRecover V (hashRecovery V q) s = Some b)) \<and>
    iStatus (institutions R (rrInstitutionId q)) = Suspended \<and>
    iEpoch (institutions R (rrInstitutionId q)) = rrExpectedEpoch q \<and>
    timestamp \<le> unat (rrDeadline q) \<and> \<not> nonceUsed R (rrNonce q) \<and> nonceUsed R' (rrNonce q) \<and>
    iStatus (institutions R' (rrInstitutionId q)) = Active \<and>
    iEpoch (institutions R' (rrInstitutionId q)) = rrExpectedEpoch q + 1 \<and>
    iAdministrator (institutions R' (rrInstitutionId q)) = rrNewAdministrator q \<and>
    iApprovalPublicKey (institutions R' (rrInstitutionId q)) = rrNewApprovalPublicKey q \<and>
    delegations R' = delegations R \<and>
    (\<forall>k. k = rrInstitutionId q \<or> institutions R' k = institutions R k)"
proof -
  from assms have quorum: "requireQuorum V p R (hashRecovery V q) sigs 2 = Inr ()"
    by (auto simp: recoverInstitution_def Let_def result_simps)
  from assms have rest: "iStatus (institutions R (rrInstitutionId q)) = Suspended"
    "iEpoch (institutions R (rrInstitutionId q)) = rrExpectedEpoch q"
    "timestamp \<le> unat (rrDeadline q)" "\<not> nonceUsed R (rrNonce q)"
    by (auto simp: recoverInstitution_def Let_def result_simps checkDeadlineAndNonce_def)
  from assms have R': "R' = putInstitution (rrInstitutionId q)
      ((institutions R (rrInstitutionId q))\<lparr> iAdministrator := rrNewAdministrator q,
        iApprovalPublicKey := rrNewApprovalPublicKey q, iEmergencyStopper := rrNewEmergencyStopper q,
        iStatus := Active, iEpoch := rrExpectedEpoch q + 1 \<rparr>) (useNonce (rrNonce q) R)"
    by (auto simp: recoverInstitution_def Let_def result_simps)
  show ?thesis
    using requireQuorum_two [OF quorum] rest by (auto simp: R' storage_defs)
qed

theorem recovery_needs_two_approvers_witness:
  "\<exists>R'. recoverInstitution demoEvm ServiceProfile 130 demoRecovery [''a2'', ''a3''] demoSuspended = Inr R' \<and>
        iEpoch (institutions R' ''i'') = 3 \<and> iAdministrator (institutions R' ''i'') = ''admin2''"
proof -
  obtain R' where R': "recoverInstitution demoEvm ServiceProfile 130 demoRecovery [''a2'', ''a3''] demoSuspended = Inr R'"
    using demoGranted_members
    by (simp add: recoverInstitution_def demoSuspended_def demoRecovery_def demoEvm_def putInstitution_def
        checkDeadlineAndNonce_def requireQuorum_def Let_def zero32_def zeroAddress_def)
  from recovery_needs_two_approvers [OF R'] have "iEpoch (institutions R' ''i'') = 3"
    "iAdministrator (institutions R' ''i'') = ''admin2''" by (simp_all add: demoRecovery_def)
  with R' show ?thesis by blast
qed

text \<open>The nonces of the governance calls of a history that took effect, in order.\<close>

fun acceptedNonces :: "evm \<Rightarrow> profile \<Rightarrow> message list \<Rightarrow> Registry \<Rightarrow> bytes32 list" where
  "acceptedNonces V p [] R = []"
| "acceptedNonces V p (m # ms) R =
     (case execute V p (msgSender m) (msgTimestamp m) (msgCall m) R of
        Inl _ \<Rightarrow> acceptedNonces V p ms R
      | Inr R' \<Rightarrow> (case callNonce (msgCall m) of None \<Rightarrow> [] | Some n \<Rightarrow> [n]) @ acceptedNonces V p ms R')"

lemma acceptedNonces_unused: "n \<in> set (acceptedNonces V p ms R) \<Longrightarrow> \<not> nonceUsed R n"
proof (induction ms arbitrary: R)
  case (Cons m ms)
  then show ?case
    using execute_nonce execute_used(2)
    by (fastforce split: sum.splits option.splits)
qed simp

text \<open>
  A governance nonce takes effect at most once in the whole history of a registry, whatever
  mixture of registrations, recoveries, directory and configuration updates it is used in: a signed
  request cannot be replayed.
\<close>

theorem governance_nonce_is_single_use:
  "distinct (acceptedNonces V p ms R) \<and> list_all (\<lambda>n. \<not> nonceUsed R n) (acceptedNonces V p ms R)"
proof -
  have "distinct (acceptedNonces V p ms R)"
  proof (induction ms arbitrary: R)
    case (Cons m ms)
    then show ?case
      using execute_nonce acceptedNonces_unused
      by (fastforce split: sum.splits option.splits)
  qed simp
  then show ?thesis using acceptedNonces_unused by (auto simp: list_all_iff)
qed

end
