(* ===== verification/Effects.thy ===== *)
theory Effects
  imports Prelude
begin

text \<open>
  Stateful code and the containers it works on.

  \<^item> \<open>('s, 'a) eff\<close>: a computation over a state that ends with a value or an exception. The
    state is returned in both cases: what was written before a \<^verbatim>\<open>throw\<close> stays written, unless
    the code runs inside a database transaction (\<open>atomically\<close>).
  \<^item> \<open>'a dict\<close>: a JavaScript object used as a dictionary, an association list in insertion
    order; assigning to an existing key keeps its place.
  \<^item> rows of a table: a list, with the queries the code uses.
\<close>

section \<open>Computations\<close>

type_synonym ('s, 'a) eff = "'s \<Rightarrow> 'a result \<times> 's"

definition bindS :: "('s, 'a) eff \<Rightarrow> ('a \<Rightarrow> ('s, 'b) eff) \<Rightarrow> ('s, 'b) eff" where
  "bindS m f s = (case m s of (Inl e, s') \<Rightarrow> (Inl e, s') | (Inr v, s') \<Rightarrow> f v s')"

definition returnS :: "'a \<Rightarrow> ('s, 'a) eff" where
  "returnS v s = (Inr v, s)"

definition throwS :: "js_error \<Rightarrow> ('s, 'a) eff" where
  "throwS e s = (Inl e, s)"

definition liftE :: "'a result \<Rightarrow> ('s, 'a) eff" where
  "liftE r s = (r, s)"

text \<open>A step that reads the state and may throw, and one that also writes unless it throws.\<close>

definition readS :: "('s \<Rightarrow> 'a result) \<Rightarrow> ('s, 'a) eff" where
  "readS f s = (f s, s)"

definition updateS :: "('s \<Rightarrow> ('a \<times> 's) result) \<Rightarrow> ('s, 'a) eff" where
  "updateS f s = (case f s of Inl e \<Rightarrow> (Inl e, s) | Inr (v, s') \<Rightarrow> (Inr v, s'))"

definition modifyS :: "('s \<Rightarrow> 's) \<Rightarrow> ('s, unit) eff" where
  "modifyS f s = (Inr (), f s)"

definition guardS :: "bool \<Rightarrow> js_error \<Rightarrow> ('s, unit) eff" where
  "guardS refused e s = (if refused then (Inl e, s) else (Inr (), s))"

text \<open>A database transaction: an exception rolls the state back.\<close>

definition atomically :: "('s, 'a) eff \<Rightarrow> ('s, 'a) eff" where
  "atomically m s = (case m s of (Inl e, s') \<Rightarrow> (Inl e, s) | (Inr v, s') \<Rightarrow> (Inr v, s'))"

text \<open>\<^verbatim>\<open>.catch(error => { throw f(error); })\<close>\<close>

definition rethrowS :: "(js_error \<Rightarrow> js_error) \<Rightarrow> ('s, 'a) eff \<Rightarrow> ('s, 'a) eff" where
  "rethrowS h m s = (case m s of (Inl e, s') \<Rightarrow> (Inl (h e), s') | (Inr v, s') \<Rightarrow> (Inr v, s'))"

text \<open>\<^verbatim>\<open>try { ... } catch (error) { ... }\<close>\<close>

definition catchS :: "('s, 'a) eff \<Rightarrow> (js_error \<Rightarrow> ('s, 'a) eff) \<Rightarrow> ('s, 'a) eff" where
  "catchS m h s = (case m s of (Inl e, s') \<Rightarrow> h e s' | (Inr v, s') \<Rightarrow> (Inr v, s'))"

text \<open>\<^verbatim>\<open>try { ... } finally { ... }\<close> with a clean-up that does not throw.\<close>

definition finallyS :: "('s, 'a) eff \<Rightarrow> ('s, unit) eff \<Rightarrow> ('s, 'a) eff" where
  "finallyS m c s = (case m s of (r, s') \<Rightarrow> (r, snd (c s')))"

named_theorems eff_defs

lemmas eff_basic_defs [eff_defs] = returnS_def throwS_def liftE_def readS_def updateS_def modifyS_def
  guardS_def

lemma bindS_Inr [result_simps]:
  "(bindS m f s = (Inr v, s')) \<longleftrightarrow> (\<exists>u t. m s = (Inr u, t) \<and> f u t = (Inr v, s'))"
  by (auto simp: bindS_def split: prod.splits sum.splits)

lemma bindS_Inl [result_simps]:
  "(bindS m f s = (Inl e, s')) \<longleftrightarrow>
     m s = (Inl e, s') \<or> (\<exists>u t. m s = (Inr u, t) \<and> f u t = (Inl e, s'))"
  by (auto simp: bindS_def split: prod.splits sum.splits)

lemma returnS_eq [result_simps]: "(returnS v s = (r, s')) \<longleftrightarrow> r = Inr v \<and> s' = s"
  by (auto simp: returnS_def)

lemma throwS_eq [result_simps]: "(throwS e s = (r, s')) \<longleftrightarrow> r = Inl e \<and> s' = s"
  by (auto simp: throwS_def)

lemma liftE_eq [result_simps]: "(liftE m s = (r, s')) \<longleftrightarrow> m = r \<and> s' = s"
  by (auto simp: liftE_def)

lemma readS_eq [result_simps]: "(readS f s = (r, s')) \<longleftrightarrow> f s = r \<and> s' = s"
  by (auto simp: readS_def)

lemma updateS_Inr [result_simps]: "(updateS f s = (Inr v, s')) \<longleftrightarrow> f s = Inr (v, s')"
  by (auto simp: updateS_def split: sum.splits)

lemma updateS_Inl [result_simps]: "(updateS f s = (Inl e, s')) \<longleftrightarrow> f s = Inl e \<and> s' = s"
  by (auto simp: updateS_def split: sum.splits)

lemma modifyS_eq [result_simps]: "(modifyS f s = (r, s')) \<longleftrightarrow> r = Inr () \<and> s' = f s"
  by (auto simp: modifyS_def)

lemma guardS_Inr [result_simps]: "(guardS c e s = (Inr u, s')) \<longleftrightarrow> \<not> c \<and> s' = s"
  by (auto simp: guardS_def)

lemma guardS_Inl [result_simps]: "(guardS c e s = (Inl e', s')) \<longleftrightarrow> c \<and> e' = e \<and> s' = s"
  by (auto simp: guardS_def)

lemma atomically_Inr [result_simps]: "(atomically m s = (Inr v, s')) \<longleftrightarrow> m s = (Inr v, s')"
  by (auto simp: atomically_def split: prod.splits sum.splits)

lemma atomically_Inl [result_simps]:
  "(atomically m s = (Inl e, s')) \<longleftrightarrow> s' = s \<and> (\<exists>t. m s = (Inl e, t))"
  by (auto simp: atomically_def split: prod.splits sum.splits)

lemma rethrowS_Inr [result_simps]: "(rethrowS h m s = (Inr v, s')) \<longleftrightarrow> m s = (Inr v, s')"
  by (auto simp: rethrowS_def split: prod.splits sum.splits)

lemma rethrowS_Inl [result_simps]:
  "(rethrowS h m s = (Inl e, s')) \<longleftrightarrow> (\<exists>e'. e = h e' \<and> m s = (Inl e', s'))"
  by (auto simp: rethrowS_def split: prod.splits sum.splits)

text \<open>
  \<open>preserves I m\<close>: the computation keeps the invariant, whether it ends with a value or an
  exception. The rules decompose a handler into its steps.
\<close>

definition preserves :: "('s \<Rightarrow> bool) \<Rightarrow> ('s, 'a) eff \<Rightarrow> bool" where
  "preserves I m \<longleftrightarrow> (\<forall>s. I s \<longrightarrow> I (snd (m s)))"

named_theorems preserves_intros

lemma preserves_bindS [preserves_intros]:
  "preserves I m \<Longrightarrow> (\<And>v. preserves I (f v)) \<Longrightarrow> preserves I (bindS m f)"
  by (simp add: preserves_def bindS_def split: prod.splits sum.splits) (metis snd_conv)

lemma preserves_pure [preserves_intros]:
  "preserves I (returnS v)" "preserves I (throwS e)" "preserves I (liftE r)" "preserves I (readS f)"
  "preserves I (guardS c e)"
  by (simp_all add: preserves_def eff_defs)

lemma preserves_modifyS: "(\<And>s. I s \<Longrightarrow> I (f s)) \<Longrightarrow> preserves I (modifyS f)"
  by (simp add: preserves_def modifyS_def)

lemma preserves_updateS:
  "(\<And>s v s'. I s \<Longrightarrow> f s = Inr (v, s') \<Longrightarrow> I s') \<Longrightarrow> preserves I (updateS f)"
  by (auto simp: preserves_def updateS_def split: sum.splits)

lemma preserves_atomically [preserves_intros]: "preserves I m \<Longrightarrow> preserves I (atomically m)"
  by (simp add: preserves_def atomically_def split: prod.splits sum.splits) (metis snd_conv)

lemma preserves_rethrowS [preserves_intros]: "preserves I m \<Longrightarrow> preserves I (rethrowS h m)"
  by (simp add: preserves_def rethrowS_def split: prod.splits sum.splits) (metis snd_conv)

lemma preserves_if [preserves_intros]:
  "preserves I m \<Longrightarrow> preserves I m' \<Longrightarrow> preserves I (if c then m else m')"
  by simp

lemma preserves_case_prod [preserves_intros]:
  "(\<And>a b. p = (a, b) \<Longrightarrow> preserves I (f a b)) \<Longrightarrow> preserves I (case p of (a, b) \<Rightarrow> f a b)"
  by (cases p) simp

lemma preserves_Let [preserves_intros]: "preserves I (f v) \<Longrightarrow> preserves I (let x = v in f x)"
  by simp

lemma preserves_updateS_unchanged:
  "(\<And>s v s'. f s = Inr (v, s') \<Longrightarrow> I s' = I s) \<Longrightarrow> preserves I (updateS f)"
  by (auto simp: preserves_def updateS_def split: sum.splits)

lemma preservesD: "preserves I m \<Longrightarrow> I s \<Longrightarrow> m s = (r, s') \<Longrightarrow> I s'"
  by (metis preserves_def snd_conv)

section \<open>Dictionaries\<close>

type_synonym 'a dict = "(string \<times> 'a) list"

abbreviation dget :: "'a dict \<Rightarrow> string \<Rightarrow> 'a option" where
  "dget \<equiv> map_of"

fun dput :: "string \<Rightarrow> 'a \<Rightarrow> 'a dict \<Rightarrow> 'a dict" where
  "dput k v [] = [(k, v)]"
| "dput k v ((k', v') # d) = (if k' = k then (k, v) # d else (k', v') # dput k v d)"

definition ddelete :: "string \<Rightarrow> 'a dict \<Rightarrow> 'a dict" where
  "ddelete k d = filter (\<lambda>e. fst e \<noteq> k) d"

definition dvalues :: "'a dict \<Rightarrow> 'a list" where
  "dvalues d = map snd d"

definition dmap :: "('a \<Rightarrow> 'b) \<Rightarrow> 'a dict \<Rightarrow> 'b dict" where
  "dmap f d = map (\<lambda>e. (fst e, f (snd e))) d"

lemma dget_dput [simp]: "dget (dput k v d) k' = (if k' = k then Some v else dget d k')"
  by (induction d) auto

lemma dget_dmap [simp]: "dget (dmap f d) k = map_option f (dget d k)"
  by (induction d) (auto simp: dmap_def)

lemma dget_ddelete [simp]: "dget (ddelete k d) k' = (if k' = k then None else dget d k')"
  by (induction d) (auto simp: ddelete_def)

lemma fst_dput: "fst ` set (dput k v d) = insert k (fst ` set d)"
proof (induction d)
  case (Cons e d)
  then show ?case by (cases e) (auto simp: image_iff)
qed simp

lemma distinct_dput: "distinct (map fst d) \<Longrightarrow> distinct (map fst (dput k v d))"
proof (induction d)
  case (Cons e d)
  then show ?case by (cases e) (simp add: fst_dput, blast)
qed simp

lemma map_fst_dmap [simp]: "map fst (dmap f d) = map fst d"
  by (simp add: dmap_def comp_def)

lemma in_dvalues_dget: "dget d k = Some v \<Longrightarrow> v \<in> set (dvalues d)"
  by (force simp: dvalues_def dest: map_of_SomeD)

lemma dvalues_dput: "v' \<in> set (dvalues (dput k v d)) \<Longrightarrow> v' = v \<or> v' \<in> set (dvalues d)"
proof (induction d)
  case (Cons e d)
  then show ?case by (cases e) (auto simp: dvalues_def image_iff split: if_splits)
qed (simp add: dvalues_def)

lemma dvalues_dmap: "dvalues (dmap f d) = map f (dvalues d)"
  by (simp add: dvalues_def dmap_def comp_def)

section \<open>Tables\<close>

text \<open>\<^verbatim>\<open>select ... where ... limit 1\<close>, \<^verbatim>\<open>update ... set ... where\<close>.\<close>

definition selectOne :: "('r \<Rightarrow> bool) \<Rightarrow> 'r list \<Rightarrow> 'r option" where
  "selectOne p rows = find p rows"

definition updateWhere :: "('r \<Rightarrow> bool) \<Rightarrow> ('r \<Rightarrow> 'r) \<Rightarrow> 'r list \<Rightarrow> 'r list" where
  "updateWhere p f rows = map (\<lambda>r. if p r then f r else r) rows"

lemma selectOne_Some: "selectOne p rows = Some r \<Longrightarrow> r \<in> set rows \<and> p r"
  by (auto simp: selectOne_def find_Some_iff in_set_conv_nth)

lemma selectOne_None: "selectOne p rows = None \<longleftrightarrow> (\<forall>r \<in> set rows. \<not> p r)"
  by (auto simp: selectOne_def find_None_iff)

lemma updateWhere_in:
  "r \<in> set (updateWhere p f rows) \<longleftrightarrow> (\<exists>q \<in> set rows. r = (if p q then f q else q))"
  by (auto simp: updateWhere_def)

lemma list_ex_updateWhere:
  "(\<And>r. q (f r) = q r) \<Longrightarrow> list_ex q (updateWhere p f rows) = list_ex q rows"
  by (induction rows) (auto simp: updateWhere_def)

end
