(* ===== verification/Database.thy ===== *)
theory Database
  imports Protocol Effects Contracts
begin

text \<open>
  The tables of the demonstration API (\<^verbatim>\<open>services/api/src/schema.ts\<close>), the session layer over
  them (\<^verbatim>\<open>auth.ts\<close>), the atomic consumption of an authorization (\<^verbatim>\<open>consumption.ts\<close>) and the seed
  data (\<^verbatim>\<open>seed.ts\<close>). A table is the list of its rows; an insert is refused, as PostgreSQL
  refuses it (\<open>LibraryError\<close>), when a primary key, a unique column or a foreign key of the schema
  would be violated. A timestamp is a number of milliseconds.
\<close>

section \<open>Tables\<close>

record userRow =
  uId :: string
  uDisplayName :: string
  uRole :: string
  uDemoCode :: string

record sessionRow =
  sId :: string
  sTokenHash :: string
  sCsrfToken :: string
  sUserId :: string
  sExpiresAt :: int
  sPurpose :: string
  sOidcIssuer :: "string option"
  sOidcClientId :: "string option"
  sOidcAudience :: "string option"
  sMembershipGeneration :: int
  sAuthenticatedAt :: "int option"

record oidcLoginUse =
  olTokenHash :: string
  olExpiresAt :: int

record taskRow =
  tId :: string
  tOwnerId :: string
  tInstitutionId :: string
  tOpaqueId :: string
  tTitle :: string
  tStatus :: string
  tDetail :: string

record gatewayRow =
  gId :: string
  gUserId :: string
  gKid :: string
  gPublicJwk :: json
  gDelegationId :: string
  gActive :: bool

record enrollmentRow =
  eId :: string
  eUserId :: string
  eKid :: string
  ePublicJwk :: json
  eProofJws :: string
  eExpiresAt :: int

record authorizationRow =
  aId :: string
  aInstitutionId :: string
  aDelegationId :: string
  aGatewayRegistrationId :: string
  aRecipientId :: string
  aTaskId :: string
  aPayload :: json
  aSignedJws :: string
  aAuthorizationHash :: string
  aCancelledAt :: "int option"
  aExpiresAt :: int

record consumptionRow =
  cAuthorizationId :: string
  cAuthorizationHash :: string
  cBindingHash :: string
  cRecipientId :: string
  cSessionId :: string
  cConsumedAt :: int
  cExpiresAt :: int

record proposalRow =
  pId :: string
  pAction :: string
  pInstitutionId :: string
  pPayload :: json
  pStatus :: string

record signatureRow =
  psProposalId :: string
  psSignerUserId :: string
  psSignature :: string

record runRow =
  rId :: string
  rScenario :: string
  rMode :: string
  rStatus :: string
  rSummary :: json

record eventRow =
  evId :: string
  evRunId :: string
  evCode :: string
  evOutcome :: string
  evLatencyMs :: string
  evEvidence :: json

record database =
  users :: "userRow list"
  sessions :: "sessionRow list"
  oidcLoginUses :: "oidcLoginUse list"
  tasks :: "taskRow list"
  gatewayRegistrations :: "gatewayRow list"
  recipientEnrollments :: "enrollmentRow list"
  authorizations :: "authorizationRow list"
  authorizationConsumptions :: "consumptionRow list"
  governanceProposals :: "proposalRow list"
  proposalSignatures :: "signatureRow list"
  demoRuns :: "runRow list"
  verifierEvents :: "eventRow list"

definition emptyDatabase :: database where
  "emptyDatabase = \<lparr> users = [], sessions = [], oidcLoginUses = [], tasks = [],
     gatewayRegistrations = [], recipientEnrollments = [], authorizations = [],
     authorizationConsumptions = [], governanceProposals = [], proposalSignatures = [],
     demoRuns = [], verifierEvents = [] \<rparr>"

section \<open>Inserts\<close>

definition hasUser :: "database \<Rightarrow> string \<Rightarrow> bool" where
  "hasUser D u \<longleftrightarrow> list_ex (\<lambda>r. uId r = u) (users D)"

definition insertSession :: "sessionRow \<Rightarrow> database \<Rightarrow> database result" where
  "insertSession r D =
     (if list_ex (\<lambda>q. sId q = sId r \<or> sTokenHash q = sTokenHash r) (sessions D) \<or> \<not> hasUser D (sUserId r)
      then Inl LibraryError else Inr (D\<lparr> sessions := sessions D @ [r] \<rparr>))"

definition insertEnrollment :: "enrollmentRow \<Rightarrow> database \<Rightarrow> database result" where
  "insertEnrollment r D =
     (if list_ex (\<lambda>q. eId q = eId r \<or> eKid q = eKid r) (recipientEnrollments D) \<or> \<not> hasUser D (eUserId r)
      then Inl LibraryError else Inr (D\<lparr> recipientEnrollments := recipientEnrollments D @ [r] \<rparr>))"

definition insertGateway :: "gatewayRow \<Rightarrow> database \<Rightarrow> database result" where
  "insertGateway r D =
     (if list_ex (\<lambda>q. gId q = gId r \<or> gKid q = gKid r) (gatewayRegistrations D) \<or> \<not> hasUser D (gUserId r)
      then Inl LibraryError else Inr (D\<lparr> gatewayRegistrations := gatewayRegistrations D @ [r] \<rparr>))"

definition insertAuthorization :: "authorizationRow \<Rightarrow> database \<Rightarrow> database result" where
  "insertAuthorization r D =
     (if list_ex (\<lambda>q. aId q = aId r) (authorizations D) \<or> \<not> hasUser D (aRecipientId r) \<or>
         \<not> list_ex (\<lambda>g. gId g = aGatewayRegistrationId r) (gatewayRegistrations D) \<or>
         \<not> list_ex (\<lambda>t. tId t = aTaskId r) (tasks D)
      then Inl LibraryError else Inr (D\<lparr> authorizations := authorizations D @ [r] \<rparr>))"

definition insertProposal :: "proposalRow \<Rightarrow> database \<Rightarrow> database result" where
  "insertProposal r D =
     (if list_ex (\<lambda>q. pId q = pId r) (governanceProposals D)
      then Inl LibraryError else Inr (D\<lparr> governanceProposals := governanceProposals D @ [r] \<rparr>))"

text \<open>\<^verbatim>\<open>onConflictDoNothing().returning()\<close>: the second component says whether a row was inserted.\<close>

definition insertSignature :: "signatureRow \<Rightarrow> database \<Rightarrow> (bool \<times> database) result" where
  "insertSignature r D =
     (if list_ex (\<lambda>q. psProposalId q = psProposalId r \<and> psSignerUserId q = psSignerUserId r) (proposalSignatures D)
      then Inr (False, D)
      else if \<not> list_ex (\<lambda>p. pId p = psProposalId r) (governanceProposals D) \<or> \<not> hasUser D (psSignerUserId r)
      then Inl LibraryError
      else Inr (True, D\<lparr> proposalSignatures := proposalSignatures D @ [r] \<rparr>))"

definition insertConsumption :: "consumptionRow \<Rightarrow> database \<Rightarrow> (bool \<times> database) result" where
  "insertConsumption r D =
     (if list_ex (\<lambda>q. cAuthorizationId q = cAuthorizationId r) (authorizationConsumptions D)
      then Inr (False, D)
      else if \<not> list_ex (\<lambda>a. aId a = cAuthorizationId r) (authorizations D) then Inl LibraryError
      else Inr (True, D\<lparr> authorizationConsumptions := authorizationConsumptions D @ [r] \<rparr>))"

section \<open>Sessions\<close>

record AuthSession =
  asSessionId :: string
  asUserId :: string
  asDisplayName :: string
  asRole :: string
  asCsrfToken :: string
  asPurpose :: string
  asExpiresAt :: int
  asAuthenticatedAt :: "int option"
  asMembershipGeneration :: int

record SessionPolicy =
  spPurpose :: string
  spIssuer :: string
  spClientId :: string
  spAudience :: string

record request =
  cookies :: "string dict"
  headerOrigin :: "string option"
  headerCsrf :: "string option"
  headerDemoFail :: "string option"
  reqParams :: json
  reqQuery :: json
  reqBody :: json

definition sessionCookie :: "string \<Rightarrow> string" where
  "sessionCookie purpose = (if purpose = ''official'' then ''official_session'' else ''ip_session'')"

definition tokenHash :: "lib \<Rightarrow> string \<Rightarrow> string" where
  "tokenHash L token = sha256hex L token"

definition sessionPurpose :: "SessionPolicy option \<Rightarrow> string" where
  "sessionPurpose policy = (case policy of Some p \<Rightarrow> spPurpose p | None \<Rightarrow> ''legacy'')"

text \<open>The inner join of the session of a token with its user, at wall-clock time \<open>ms\<close>.\<close>

definition sessionRowFor :: "lib \<Rightarrow> database \<Rightarrow> string \<Rightarrow> int \<Rightarrow> (sessionRow \<times> userRow) option" where
  "sessionRowFor L D token ms =
     (case selectOne (\<lambda>s. sTokenHash s = tokenHash L token \<and> ms < sExpiresAt s \<and> hasUser D (sUserId s)) (sessions D) of
        None \<Rightarrow> None
      | Some s \<Rightarrow> map_option (\<lambda>u. (s, u)) (selectOne (\<lambda>u. uId u = sUserId s) (users D)))"

definition policyViolated :: "SessionPolicy option \<Rightarrow> sessionRow \<Rightarrow> bool" where
  "policyViolated policy s \<longleftrightarrow>
     sPurpose s \<noteq> sessionPurpose policy \<or>
     (case policy of None \<Rightarrow> False | Some p \<Rightarrow>
        sOidcIssuer s \<noteq> Some (spIssuer p) \<or> sOidcClientId s \<noteq> Some (spClientId p) \<or>
        sOidcAudience s \<noteq> Some (spAudience p) \<or> sAuthenticatedAt s = None)"

definition sessionForRequest ::
    "lib \<Rightarrow> SessionPolicy option \<Rightarrow> int \<Rightarrow> request \<Rightarrow> database \<Rightarrow> AuthSession result" where
  "sessionForRequest L policy ms req D =
     (let purpose = sessionPurpose policy; token = dget (cookies req) (sessionCookie purpose) in
      if token = None \<or> token = Some [] then Inl (HttpError 401 ''AUTH_REQUIRED'')
      else case sessionRowFor L D (the token) ms of
        None \<Rightarrow> Inl (HttpError 401 ''SESSION_EXPIRED'')
      | Some (s, u) \<Rightarrow>
          if policyViolated policy s
          then Inl (HttpError 403 (if purpose = ''official'' then ''OFFICIAL_SCOPE_REQUIRED'' else ''SESSION_SCOPE_INVALID''))
          else Inr \<lparr> asSessionId = sId s, asUserId = uId u, asDisplayName = uDisplayName u, asRole = uRole u,
                     asCsrfToken = sCsrfToken s, asPurpose = sPurpose s, asExpiresAt = sExpiresAt s,
                     asAuthenticatedAt = sAuthenticatedAt s, asMembershipGeneration = sMembershipGeneration s \<rparr>)"

definition requireRole :: "AuthSession \<Rightarrow> string list \<Rightarrow> unit result" where
  "requireRole session roles =
     (if asRole session \<notin> set roles then Inl (HttpError 403 ''ROLE_FORBIDDEN'') else Inr ())"

text \<open>\<^verbatim>\<open>timingSafeEqual\<close> on buffers of one length is equality.\<close>

definition assertCsrf :: "request \<Rightarrow> AuthSession \<Rightarrow> string \<Rightarrow> unit result" where
  "assertCsrf req session allowedOrigin =
     (if headerOrigin req \<noteq> Some allowedOrigin then Inl (HttpError 403 ''ORIGIN_FORBIDDEN'')
      else case headerCsrf req of
        None \<Rightarrow> Inl (HttpError 403 ''CSRF_REQUIRED'')
      | Some supplied \<Rightarrow>
          if length (asCsrfToken session) \<noteq> length supplied \<or> asCsrfToken session \<noteq> supplied
          then Inl (HttpError 403 ''CSRF_INVALID'') else Inr ())"

definition assertRecentAuthentication :: "AuthSession \<Rightarrow> int \<Rightarrow> unit result" where
  "assertRecentAuthentication session now =
     (case asAuthenticatedAt session of
        None \<Rightarrow> Inl (HttpError 403 ''RECENT_AUTHENTICATION_REQUIRED'')
      | Some t \<Rightarrow>
          if now - t > 300000 \<or> t > now + 1000
          then Inl (HttpError 403 ''RECENT_AUTHENTICATION_REQUIRED'') else Inr ())"

section \<open>Consumption\<close>

record ConsumptionRecord =
  crRow :: consumptionRow
  crReplay :: bool

definition consumeAuthorizationAtomic :: "consumptionRow \<Rightarrow> (database, ConsumptionRecord) eff" where
  "consumeAuthorizationAtomic input = atomically (bindS
     (readS (\<lambda>D. case selectOne (\<lambda>a. aId a = cAuthorizationId input) (authorizations D) of
        None \<Rightarrow> Inl (HttpConflict ''AUTHORIZATION_INVALID'')
      | Some locked \<Rightarrow>
          if aCancelledAt locked \<noteq> None \<or> aExpiresAt locked \<le> cConsumedAt input
          then Inl (HttpConflict ''AUTHORIZATION_INVALID'') else Inr ())) (\<lambda>_.
     bindS (updateS (insertConsumption input)) (\<lambda>inserted.
     bindS (readS (\<lambda>D. if inserted then Inr input
        else ofOption (Error ''CONSUMPTION_READ_AFTER_WRITE_FAILED'')
          (selectOne (\<lambda>c. cAuthorizationId c = cAuthorizationId input) (authorizationConsumptions D)))) (\<lambda>record.
     if cBindingHash record \<noteq> cBindingHash input \<or> cAuthorizationHash record \<noteq> cAuthorizationHash input \<or>
        cRecipientId record \<noteq> cRecipientId input \<or> cSessionId record \<noteq> cSessionId input
     then throwS (HttpConflict ''AUTHORIZATION_ALREADY_CONSUMED'')
     else returnS \<lparr> crRow = record, crReplay = \<not> inserted \<rparr>))))"

section \<open>Seed data\<close>

definition demoUsers :: "userRow list" where
  "demoUsers =
    [\<lparr> uId = ''recipient_alice_01HZZZZZZZZZZZZZZZZZZZZZZZ'', uDisplayName = utf8Text [65,
        108, 105, 99, 101, 32, 40, 237, 133, 140, 236, 138, 164, 237, 138, 184, 32, 236, 157, 180,
        236, 154, 169, 236, 158, 144, 41], uRole = ''recipient'',
        uDemoCode = ''alice-demo'' \<rparr>,
     \<lparr> uId = ''recipient_bob_01HZZZZZZZZZZZZZZZZZZZZZZZZ'', uDisplayName = utf8Text [66,
        111, 98, 32, 40, 237, 133, 140, 236, 138, 164, 237, 138, 184, 32, 236, 157, 180, 236, 154,
        169, 236, 158, 144, 41], uRole = ''recipient'', uDemoCode = ''bob-demo'' \<rparr>,
     \<lparr> uId = ''institution_a_01HZZZZZZZZZZZZZZZZZZZZZZZ'', uDisplayName = utf8Text [235,
        170, 168, 236, 157, 152, 32, 65, 236, 139, 156, 236, 178, 173, 32, 235, 139, 180, 235, 139,
        185, 236, 158, 144], uRole = ''institution'', uDemoCode = ''institution-demo'' \<rparr>,
     \<lparr> uId = ''gateway_c_01HZZZZZZZZZZZZZZZZZZZZZZZZZ'', uDisplayName = utf8Text [236, 156,
        132, 237, 131, 129, 236, 132, 188, 237, 132, 176, 32, 67, 32, 236, 131, 129, 235, 139, 180,
        236, 155, 144], uRole = ''gateway'', uDemoCode = ''gateway-demo'' \<rparr>,
     \<lparr> uId = ''approver_1_01HZZZZZZZZZZZZZZZZZZZZZZZZ'', uDisplayName = utf8Text [234, 179,
        181, 235, 143, 153, 32, 236, 138, 185, 236, 157, 184, 236, 158, 144, 32, 49],
        uRole = ''approver'', uDemoCode = ''approver-1-demo'' \<rparr>,
     \<lparr> uId = ''approver_2_01HZZZZZZZZZZZZZZZZZZZZZZZZ'', uDisplayName = utf8Text [234, 179,
        181, 235, 143, 153, 32, 236, 138, 185, 236, 157, 184, 236, 158, 144, 32, 50],
        uRole = ''approver'', uDemoCode = ''approver-2-demo'' \<rparr>,
     \<lparr> uId = ''approver_3_01HZZZZZZZZZZZZZZZZZZZZZZZZ'', uDisplayName = utf8Text [234, 179,
        181, 235, 143, 153, 32, 236, 138, 185, 236, 157, 184, 236, 158, 144, 32, 51],
        uRole = ''approver'', uDemoCode = ''approver-3-demo'' \<rparr>,
     \<lparr> uId = ''demo_operator_01HZZZZZZZZZZZZZZZZZZZZZZ'', uDisplayName = utf8Text [235, 161,
        156, 236, 187, 172, 32, 235, 141, 176, 235, 170, 168, 32, 236, 154, 180, 236, 152, 129,
        236, 158, 144], uRole = ''demo_operator'', uDemoCode = ''operator-demo'' \<rparr>]"

definition demoTasks :: "taskRow list" where
  "demoTasks =
    [\<lparr> tId = ''task_alice_document_01HZZZZZZZZZZZZZZZZZZ'', tOwnerId = ''recipient_alice_01HZZZZZZZZZZZZZZZZZZZZZZZ'',
       tInstitutionId = ''inst_mock_a_city_01HZZZZZZZZZZZZZZZZ'', tOpaqueId = ''opaque_01HZZZZZZZZZZZZZZZZZZZZZZZZ'',
       tTitle = utf8Text [236, 132, 156, 235, 165, 152, 32, 235, 179, 180, 236, 153, 132, 32, 237,
        153, 149, 236, 157, 184],
       tStatus = utf8Text [235, 179, 180, 236, 153, 132, 32, 236, 154, 148, 236, 178, 173],
       tDetail = utf8Text [237, 149, 169, 236, 132, 177, 32, 235, 141, 176, 236, 157, 180, 237,
        132, 176, 58, 32, 236, 160, 156, 236, 182, 156, 32, 236, 132, 156, 235, 165, 152, 236, 157,
        152, 32, 235, 176, 156, 234, 184, 137, 236, 157, 188, 236, 158, 144, 235, 165, 188, 32,
        237, 153, 149, 236, 157, 184, 237, 149, 180, 32, 236, 163, 188, 236, 132, 184, 236, 154,
        148, 46] \<rparr>,
     \<lparr> tId = ''task_bob_reply_01HZZZZZZZZZZZZZZZZZZZZZ'', tOwnerId = ''recipient_bob_01HZZZZZZZZZZZZZZZZZZZZZZZZ'',
       tInstitutionId = ''inst_mock_a_city_01HZZZZZZZZZZZZZZZZ'', tOpaqueId = ''opaque_01HYYYYYYYYYYYYYYYYYYYYYYYYY'',
       tTitle = utf8Text [235, 175, 188, 236, 155, 144, 32, 237, 154, 140, 236, 139, 160, 32, 237,
        153, 149, 236, 157, 184],
       tStatus = utf8Text [237, 154, 140, 236, 139, 160, 32, 235, 143, 132, 236, 176, 169],
       tDetail = utf8Text [237, 149, 169, 236, 132, 177, 32, 235, 141, 176, 236, 157, 180, 237,
        132, 176, 58, 32, 236, 160, 145, 236, 136, 152, 237, 149, 156, 32, 235, 175, 188, 236, 155,
        144, 236, 157, 152, 32, 235, 170, 168, 236, 157, 152, 32, 237, 154, 140, 236, 139, 160,
        236, 158, 133, 235, 139, 136, 235, 139, 164, 46] \<rparr>]"

text \<open>\<^verbatim>\<open>onConflictDoNothing\<close> row by row.\<close>

definition seedUser :: "userRow \<Rightarrow> userRow list \<Rightarrow> userRow list" where
  "seedUser r rows = (if list_ex (\<lambda>q. uId q = uId r \<or> uDemoCode q = uDemoCode r) rows then rows else rows @ [r])"

definition seedTask :: "taskRow \<Rightarrow> taskRow list \<Rightarrow> taskRow list" where
  "seedTask r rows = (if list_ex (\<lambda>q. tId q = tId r \<or> tOpaqueId q = tOpaqueId r) rows then rows else rows @ [r])"

definition seedDatabase :: "int \<Rightarrow> database \<Rightarrow> database" where
  "seedDatabase ms D = D\<lparr> users := fold seedUser demoUsers (users D),
     tasks := fold seedTask demoTasks (tasks D),
     sessions := filter (\<lambda>s. ms < sExpiresAt s) (sessions D) \<rparr>"

end
