(* ===== verification/Ledger.thy ===== *)
theory Ledger
  imports Registry_Properties Base64
begin

text \<open>
  The API's view of the registry (\<^verbatim>\<open>services/api/src/ledger.ts\<close>): ensuring and revoking a
  delegation, and the governance operations suspend, createRecovery, signRecovery and
  submitRecovery. Each operation reads the contract, decides, and possibly sends one transaction;
  the storage of the contract is passed in and returned.

  The files the module reads, the accounts behind the private keys, the block the transaction is
  included in and the availability of the node are the record \<open>ledgerEnv\<close>. A contract that
  reverts, and a node that does not answer, make the \<^verbatim>\<open>viem\<close> call throw (\<open>LibraryError\<close>).
\<close>

record LedgerDeployment =
  ldNetworkId :: string
  ldGenesisHash :: string
  ldRegistryAddress :: string
  ldInstitutionId :: string

record LedgerRoles =
  approver1 :: string
  approver2 :: string
  approver3 :: string
  administratorKey :: string
  emergencyStopperKey :: string
  recoveryAdministratorKey :: string
  recoveryEmergencyStopperKey :: string

record InstitutionLedgerState =
  lsInstitutionId :: string
  lsStatus :: string
  lsEpoch :: string
  lsAdministrator :: string
  lsEmergencyStopper :: string

record ledgerEnv =
  deploymentFile :: "LedgerDeployment option"
  rolesFile :: "LedgerRoles option"
  rpcUp :: bool
  contractProfile :: profile
  blockTime :: nat
  chainEvm :: evm
  accountAddress :: "string \<Rightarrow> string"       \<comment> \<open>\<^verbatim>\<open>privateKeyToAccount(key).address\<close>\<close>
  checksumAddress :: "string \<Rightarrow> string"      \<comment> \<open>the spelling in which viem returns an address\<close>
  accountSign :: "string \<Rightarrow> typedData \<Rightarrow> string"
  transactionHash :: string

definition ledgerClients :: "ledgerEnv \<Rightarrow> (LedgerDeployment \<times> LedgerRoles) result" where
  "ledgerClients E =
     bindE (ofOption LibraryError (deploymentFile E)) (\<lambda>deployment.
       bindE (ofOption LibraryError (rolesFile E)) (\<lambda>roles. Inr (deployment, roles)))"

definition institutionKeyFor :: "lib \<Rightarrow> LedgerDeployment \<Rightarrow> string \<Rightarrow> string result" where
  "institutionKeyFor L deployment institutionId =
     (let institutionKey = keccak256 L institutionId in
      if toLowerCase institutionKey \<noteq> toLowerCase (ldInstitutionId deployment)
      then Inl (Error ''LEDGER_INSTITUTION_MISMATCH'') else Inr institutionKey)"

fun matchingRoleKey :: "ledgerEnv \<Rightarrow> string \<Rightarrow> string list \<Rightarrow> string result" where
  "matchingRoleKey E expectedAddress [] = Inl (Error ''LEDGER_ROLE_KEY_NOT_AVAILABLE'')"
| "matchingRoleKey E expectedAddress (key # keys) =
     (if toLowerCase (accountAddress E key) = toLowerCase expectedAddress then Inr key
      else matchingRoleKey E expectedAddress keys)"

definition readContract :: "ledgerEnv \<Rightarrow> 'a \<Rightarrow> 'a result" where
  "readContract E v = (if rpcUp E then Inr v else Inl LibraryError)"

definition writeContract :: "ledgerEnv \<Rightarrow> string \<Rightarrow> call \<Rightarrow> Registry \<Rightarrow> Registry result" where
  "writeContract E key c R =
     (if \<not> rpcUp E then Inl LibraryError
      else case execute (chainEvm E) (contractProfile E) (toLowerCase (accountAddress E key)) (blockTime E) c R of
        Inl _ \<Rightarrow> Inl LibraryError | Inr R' \<Rightarrow> Inr R')"

text \<open>\<^verbatim>\<open>BigInt(n)\<close> as a \<^verbatim>\<open>uint64\<close> argument: the encoder refuses what does not fit.\<close>

definition uint64Arg :: "int \<Rightarrow> uint64 result" where
  "uint64Arg n = (if 0 \<le> n \<and> n < 2 ^ 64 then Inr (word_of_int n) else Inl LibraryError)"

text \<open>
  \<^verbatim>\<open>Buffer.from(s, "base64url").toString("hex")\<close>: characters outside the alphabet are skipped.
\<close>

definition bufferFromBase64url :: "string \<Rightarrow> nat list" where
  "bufferFromBase64url s = sextets (map the (filter (\<lambda>v. v \<noteq> None) (map (\<lambda>c. b64value (stdChar c)) s)))"

definition hexText :: "nat list \<Rightarrow> string" where
  "hexText bytes = concat (map (\<lambda>n. [lowerHexChars ! (n div 16 mod 16), lowerHexChars ! (n mod 16)]) bytes)"

definition epochText :: "uint64 \<Rightarrow> string" where
  "epochText e = decimalString (unat e)"

definition ensureLedgerDelegation ::
    "lib \<Rightarrow> ledgerEnv \<Rightarrow> string \<Rightarrow> string \<Rightarrow> string \<Rightarrow> 256 word \<Rightarrow> int \<Rightarrow> Registry \<Rightarrow> (string \<times> Registry) result" where
  "ensureLedgerDelegation L E delegationId institutionId gatewayX purposeMask now R =
     bindE (ledgerClients E) (\<lambda>(deployment, roles).
     bindE (institutionKeyFor L deployment institutionId) (\<lambda>institutionKey.
     let delegationKey = keccak256 L delegationId;
         gatewayKey = ''0x'' @ hexText (bufferFromBase64url gatewayX) in
     bindE (readContract E (institutions R institutionKey)) (\<lambda>institution.
     if \<not> iExists institution \<or> iStatus institution \<noteq> Active
     then Inl (Error ''LEDGER_INSTITUTION_NOT_ACTIVE'')
     else bindE (matchingRoleKey E (checksumAddress E (iAdministrator institution))
                   [administratorKey roles, recoveryAdministratorKey roles]) (\<lambda>account.
     bindE (readContract E (delegationIdUsed R delegationKey)) (\<lambda>used.
     if used then
       bindE (readContract E (delegations R delegationKey)) (\<lambda>current.
         if \<not> dExists current \<or> dRevoked current \<or>
            toLowerCase (dGatewayPublicKey current) \<noteq> toLowerCase gatewayKey \<or>
            dEpoch current \<noteq> iEpoch institution
         then Inl (Error ''LEDGER_DELEGATION_CONFLICT'')
         else Inr (epochText (iEpoch institution), R))
     else
       bindE (uint64Arg (now - 5)) (\<lambda>validFrom.
       bindE (uint64Arg (now + 3600)) (\<lambda>validUntil.
       bindE (writeContract E account (CGrant delegationKey institutionKey (iEpoch institution)
                gatewayKey purposeMask validFrom validUntil) R) (\<lambda>R'.
         Inr (epochText (iEpoch institution), R')))))))))"

definition revokeLedgerDelegation :: "lib \<Rightarrow> ledgerEnv \<Rightarrow> string \<Rightarrow> Registry \<Rightarrow> (string \<times> Registry) result" where
  "revokeLedgerDelegation L E delegationId R =
     bindE (ledgerClients E) (\<lambda>(deployment, roles).
     let key = keccak256 L delegationId in
     bindE (readContract E (delegations R key)) (\<lambda>delegation.
     bindE (readContract E (institutions R (dInstitutionId delegation))) (\<lambda>institution.
     bindE (matchingRoleKey E (checksumAddress E (iAdministrator institution))
              [administratorKey roles, recoveryAdministratorKey roles]) (\<lambda>account.
     bindE (writeContract E account (CRevoke key (dEpoch delegation)) R) (\<lambda>R'.
       Inr (transactionHash E, R'))))))"

definition readInstitutionState :: "lib \<Rightarrow> ledgerEnv \<Rightarrow> string \<Rightarrow> Registry \<Rightarrow> InstitutionLedgerState result" where
  "readInstitutionState L E institutionId R =
     bindE (ledgerClients E) (\<lambda>(deployment, roles).
     bindE (institutionKeyFor L deployment institutionId) (\<lambda>key.
     bindE (readContract E (institutions R key)) (\<lambda>institution.
     if \<not> iExists institution then Inl (Error ''LEDGER_INSTITUTION_NOT_FOUND'')
     else Inr \<lparr> lsInstitutionId = institutionId,
                lsStatus = (if iStatus institution = Active then ''Active'' else ''Suspended''),
                lsEpoch = epochText (iEpoch institution),
                lsAdministrator = checksumAddress E (iAdministrator institution),
                lsEmergencyStopper = checksumAddress E (iEmergencyStopper institution) \<rparr>)))"

text \<open>
  The payload of a proposal is stored as JSON; the contract request made from it has the bytes the
  hexadecimal strings denote, and the two integers.
\<close>

definition recoveryTypedData :: "json \<Rightarrow> RecoveryRequest result" where
  "recoveryTypedData request =
     bindE (uint64Arg (bigInt (jstr request ''expectedEpoch''))) (\<lambda>epoch.
     bindE (uint64Arg (bigInt (jstr request ''deadline''))) (\<lambda>deadline.
       Inr \<lparr> rrInstitutionId = toLowerCase (jstr request ''institutionId''), rrExpectedEpoch = epoch,
             rrNewAdministrator = toLowerCase (jstr request ''newAdministrator''),
             rrNewApprovalPublicKey = toLowerCase (jstr request ''newApprovalPublicKey''),
             rrNewEmergencyStopper = toLowerCase (jstr request ''newEmergencyStopper''),
             rrNonce = toLowerCase (jstr request ''nonce''), rrDeadline = deadline \<rparr>))"

text \<open>
  A transaction stays on the ledger also when a check after it throws, so \<open>suspendLedger\<close> and
  \<open>submitRecovery\<close> return the storage in both cases.
\<close>

definition suspendLedger ::
    "lib \<Rightarrow> ledgerEnv \<Rightarrow> string \<Rightarrow> Registry \<Rightarrow> (string \<times> InstitutionLedgerState) result \<times> Registry" where
  "suspendLedger L E institutionId R =
     (case bindE (ledgerClients E) (\<lambda>(deployment, roles).
        bindE (institutionKeyFor L deployment institutionId) (\<lambda>key.
        bindE (readContract E (institutions R key)) (\<lambda>institution.
        if \<not> iExists institution \<or> iStatus institution \<noteq> Active
        then Inl (Error ''LEDGER_INSTITUTION_NOT_ACTIVE'')
        else bindE (matchingRoleKey E (checksumAddress E (iEmergencyStopper institution))
                      [emergencyStopperKey roles, recoveryEmergencyStopperKey roles]) (\<lambda>stopperKey.
          writeContract E stopperKey (CSuspend key (iEpoch institution)) R)))) of
        Inl e \<Rightarrow> (Inl e, R)
      | Inr R' \<Rightarrow>
          (bindE (readInstitutionState L E institutionId R') (\<lambda>state. Inr (transactionHash E, state)), R'))"

definition createRecovery :: "lib \<Rightarrow> ledgerEnv \<Rightarrow> string \<Rightarrow> string \<Rightarrow> int \<Rightarrow> Registry \<Rightarrow> json result" where
  "createRecovery L E uuid institutionId now R =
     bindE (ledgerClients E) (\<lambda>(deployment, roles).
     bindE (institutionKeyFor L deployment institutionId) (\<lambda>key.
     bindE (readContract E (institutions R key)) (\<lambda>institution.
     if \<not> iExists institution \<or> iStatus institution \<noteq> Suspended
     then Inl (Error ''LEDGER_INSTITUTION_NOT_SUSPENDED'')
     else
       let originalAdministrator = accountAddress E (administratorKey roles);
           useRecoveryPair = (toLowerCase (checksumAddress E (iAdministrator institution)) =
             toLowerCase originalAdministrator) in
       Inr (JObj [(''institutionId'', JStr key),
         (''expectedEpoch'', JStr (epochText (iEpoch institution))),
         (''newAdministrator'', JStr (accountAddress E
            (if useRecoveryPair then recoveryAdministratorKey roles else administratorKey roles))),
         (''newApprovalPublicKey'', JStr (iApprovalPublicKey institution)),
         (''newEmergencyStopper'', JStr (accountAddress E
            (if useRecoveryPair then recoveryEmergencyStopperKey roles else emergencyStopperKey roles))),
         (''nonce'', JStr (keccak256 L (''recover:'' @ institutionId @ '':'' @
            epochText (iEpoch institution) @ '':'' @ uuid))),
         (''deadline'', JStr (decimalString (nat (now + 600))))]))))"

text \<open>\<^verbatim>\<open>haystack.includes(needle)\<close>\<close>

fun includesText :: "string \<Rightarrow> string \<Rightarrow> bool" where
  "includesText needle [] = (needle = [])"
| "includesText needle (c # s) = (take (length needle) (c # s) = needle \<or> includesText needle s)"

definition approverKeyFor :: "LedgerRoles \<Rightarrow> string \<Rightarrow> string option" where
  "approverKeyFor roles signerUserId =
     (if includesText ''approver_1_'' signerUserId then Some (approver1 roles)
      else if includesText ''approver_2_'' signerUserId then Some (approver2 roles)
      else if includesText ''approver_3_'' signerUserId then Some (approver3 roles)
      else None)"

definition signRecovery :: "ledgerEnv \<Rightarrow> json \<Rightarrow> string \<Rightarrow> string result" where
  "signRecovery E request signerUserId =
     bindE (ledgerClients E) (\<lambda>(deployment, roles).
     case approverKeyFor roles signerUserId of
       None \<Rightarrow> Inl (Error ''LEDGER_APPROVER_KEY_NOT_AVAILABLE'')
     | Some key \<Rightarrow> bindE (recoveryTypedData request) (\<lambda>q.
         Inr (accountSign E key (RecoverInstitution q))))"

definition DEMO_INSTITUTION_ID :: string where
  "DEMO_INSTITUTION_ID = ''inst_mock_a_city_01HZZZZZZZZZZZZZZZZ''"

definition submitRecovery ::
    "lib \<Rightarrow> ledgerEnv \<Rightarrow> json \<Rightarrow> string list \<Rightarrow> Registry \<Rightarrow>
     (string \<times> InstitutionLedgerState) result \<times> Registry" where
  "submitRecovery L E request sigs R =
     (if length (remdups (map toLowerCase sigs)) < 2
      then (Inl (Error ''LEDGER_DUPLICATE_RECOVERY_SIGNATURE''), R)
      else case bindE (ledgerClients E) (\<lambda>(deployment, roles).
             bindE (recoveryTypedData request) (\<lambda>q.
             bindE (writeContract E (administratorKey roles) (CRecover q sigs) R) (\<lambda>R'.
               Inr (deployment, R')))) of
        Inl e \<Rightarrow> (Inl e, R)
      | Inr (deployment, R') \<Rightarrow>
          (if toLowerCase (jstr request ''institutionId'') \<noteq> toLowerCase (ldInstitutionId deployment)
           then Inl (Error ''LEDGER_INSTITUTION_MISMATCH'')
           else bindE (readInstitutionState L E DEMO_INSTITUTION_ID R') (\<lambda>state.
             Inr (transactionHash E, state)), R'))"

end
