(* ===== verification/Server.thy ===== *)
theory Server
  imports Database Ledger
begin

text \<open>
  The demonstration API (\<^verbatim>\<open>services/api/src/server.ts\<close>): one computation per route over the state
  of the process, that is the database and the registry on the ledger. The clock, the fresh random
  values and the keys are arguments. Every route first finds its session, then checks the request
  forgery token and the role, then its body, in the order of the source.
\<close>

record serverEnv =
  webOrigin :: string
  demoMode :: bool
  seNetworkId :: string
  seRegistryAddress :: string
  seGenesisHash :: "string option"
  seIssuerPrivate :: keyHandle
  seIssuerJwk :: json
  seIssuerKid :: string
  seEnrollmentPrivate :: keyHandle
  seEnrollmentPublic :: keyHandle
  seEnrollmentJwk :: json
  seEnrollmentKid :: string
  chainEnv :: ledgerEnv
  packageMessage :: string       \<comment> \<open>the message of an exception raised inside a package\<close>
  packageCode :: string          \<comment> \<open>its \<^verbatim>\<open>code\<close>, \<^verbatim>\<open>INTERNAL_ERROR\<close> where it has none\<close>
  wallMs :: int                  \<comment> \<open>\<^verbatim>\<open>Date.now()\<close>\<close>
  nowSeconds :: int              \<comment> \<open>\<^verbatim>\<open>options.now()\<close>\<close>

record serverState =
  db :: database
  registry :: Registry

definition onDb :: "(database, 'a) eff \<Rightarrow> (serverState, 'a) eff" where
  "onDb m S = (case m (db S) of (r, D) \<Rightarrow> (r, S\<lparr> db := D \<rparr>))"

definition onLedger :: "(Registry, 'a) eff \<Rightarrow> (serverState, 'a) eff" where
  "onLedger m S = (case m (registry S) of (r, R) \<Rightarrow> (r, S\<lparr> registry := R \<rparr>))"

definition insertS :: "(database \<Rightarrow> database result) \<Rightarrow> (serverState, unit) eff" where
  "insertS f = onDb (updateS (\<lambda>D. bindE (f D) (\<lambda>D'. Inr ((), D'))))"

definition INSTITUTION_ID :: string where
  "INSTITUTION_ID = ''inst_mock_a_city_01HZZZZZZZZZZZZZZZZ''"

definition FALLBACK_NETWORK_ID :: string where
  "FALLBACK_NETWORK_ID = ''20260914''"

definition FALLBACK_REGISTRY_ADDRESS :: string where
  "FALLBACK_REGISTRY_ADDRESS = ''0x1111111111111111111111111111111111111111''"

definition recoveryRequestSchema :: schema where
  "recoveryRequestSchema = zObject
    [(''institutionId'', zString isAnyHash32), (''expectedEpoch'', zString isDigits),
     (''newAdministrator'', zString isAddress), (''newApprovalPublicKey'', zString isAnyHash32),
     (''newEmergencyStopper'', zString isAddress), (''nonce'', zString isAnyHash32),
     (''deadline'', zString isDigits)] []"

section \<open>Errors\<close>

definition errorMessage :: "serverEnv \<Rightarrow> js_error \<Rightarrow> string" where
  "errorMessage E e = (case e of Error m \<Rightarrow> m | HttpError _ c \<Rightarrow> c | HttpConflict m \<Rightarrow> m
     | PermanentJobError m _ \<Rightarrow> m | ZodError \<Rightarrow> packageMessage E | LibraryError \<Rightarrow> packageMessage E)"

definition ledgerHttpError :: "serverEnv \<Rightarrow> js_error \<Rightarrow> js_error" where
  "ledgerHttpError E e =
     (let code = errorMessage E e;
          conflict = includesText ''NOT_ACTIVE'' code \<or> includesText ''NOT_SUSPENDED'' code \<or>
            includesText ''CONFLICT'' code \<or> includesText ''FINALIZED'' code in
      HttpError (if conflict then 409 else 503) code)"

text \<open>The error handler: status, code and message of the reply.\<close>

record errorReply =
  erStatus :: nat
  erCode :: string
  erMessage :: string

definition genericMessage :: string where
  "genericMessage = utf8Text [236, 154, 148, 236, 178, 173, 236, 157, 132, 32, 236, 178, 152, 235, 166,
     172, 237, 149, 152, 236, 167, 128, 32, 235, 170, 187, 237, 150, 136, 236, 138, 181, 235, 139, 136,
     235, 139, 164, 46]"

definition errorHandler :: "serverEnv \<Rightarrow> js_error \<Rightarrow> errorReply" where
  "errorHandler E e =
     (let status = (case e of HttpError s _ \<Rightarrow> s | HttpConflict _ \<Rightarrow> 409 | ZodError \<Rightarrow> 400 | _ \<Rightarrow> 500);
          code = (case e of HttpError _ c \<Rightarrow> c | HttpConflict _ \<Rightarrow> ''AUTHORIZATION_ALREADY_CONSUMED''
            | ZodError \<Rightarrow> ''INVALID_INPUT'' | LibraryError \<Rightarrow> packageCode E | _ \<Rightarrow> ''INTERNAL_ERROR'') in
      \<lparr> erStatus = status, erCode = code,
        erMessage = (if status \<ge> 500 then genericMessage else errorMessage E e) \<rparr>)"

section \<open>Requests\<close>

definition protectedWrite :: "lib \<Rightarrow> serverEnv \<Rightarrow> request \<Rightarrow> (serverState, AuthSession) eff" where
  "protectedWrite L E req = bindS (readS (\<lambda>S. sessionForRequest L None (wallMs E) req (db S))) (\<lambda>session.
     bindS (liftE (assertCsrf req session (webOrigin E))) (\<lambda>_. returnS session))"

definition protectedRead :: "lib \<Rightarrow> serverEnv \<Rightarrow> request \<Rightarrow> (serverState, AuthSession) eff" where
  "protectedRead L E req = readS (\<lambda>S. sessionForRequest L None (wallMs E) req (db S))"

definition roleS :: "AuthSession \<Rightarrow> string list \<Rightarrow> (serverState, unit) eff" where
  "roleS session roles = liftE (requireRole session roles)"

text \<open>\<^verbatim>\<open>z.object({...}).passthrough()\<close>, and the schemas of the bodies.\<close>

definition zOpenObject :: "(string \<times> schema) list \<Rightarrow> string list \<Rightarrow> schema" where
  "zOpenObject req never v = (case v of
     JObj ms \<Rightarrow> list_all (\<lambda>(k, p). case map_of ms k of Some w \<Rightarrow> p w | None \<Rightarrow> False) req \<and>
       list_all (\<lambda>k. map_of ms k = None) never
   | _ \<Rightarrow> False)"

definition anyString :: schema where
  "anyString = zString (\<lambda>_. True)"

definition longId :: schema where
  "longId = zString (lengthBetween 16 128)"

definition publicJwkBody :: schema where
  "publicJwkBody = zOpenObject [(''kty'', zLiteral (JStr ''OKP'')), (''crv'', zLiteral (JStr ''Ed25519'')),
     (''x'', anyString)] [''d'']"

definition publicKeyBody :: "(string \<times> schema) list" where
  "publicKeyBody = [(''publicJwk'', publicJwkBody), (''kid'', zString (lengthBetween 8 64))]"

definition idParams :: schema where
  "idParams = zOpenObject [(''id'', anyString)] []"

definition assertKid :: "lib \<Rightarrow> json \<Rightarrow> string \<Rightarrow> unit result" where
  "assertKid L jwk kid =
     (if \<not> isStr jwk ''kty'' ''OKP'' \<or> \<not> isStr jwk ''crv'' ''Ed25519'' \<or>
         \<not> anyString (jobj jwk ''x'') \<or> jget jwk ''d'' \<noteq> None
      then Inl (HttpError 400 ''INVALID_PUBLIC_KEY'')
      else if take 22 (sha256b64 L (map char_of (bufferFromBase64url (jstr jwk ''x'')))) \<noteq> kid
      then Inl (HttpError 400 ''KID_MISMATCH'') else Inr ())"

section \<open>Sign-in\<close>

record publicUserView =
  puId :: string
  puDisplayName :: string
  puRole :: string

definition publicUser :: "userRow \<Rightarrow> publicUserView" where
  "publicUser u = \<lparr> puId = uId u, puDisplayName = uDisplayName u, puRole = uRole u \<rparr>"

record loginReply =
  lrUser :: publicUserView
  lrCsrfToken :: string
  lrCookie :: string

definition login :: "lib \<Rightarrow> serverEnv \<Rightarrow> string \<Rightarrow> string \<Rightarrow> string \<Rightarrow> request \<Rightarrow> (serverState, loginReply) eff" where
  "login L E token csrfToken sessionNonce req =
     bindS (guardS (\<not> demoMode E) (HttpError 404 ''DEMO_LOGIN_DISABLED'')) (\<lambda>_.
     bindS (guardS (headerOrigin req \<noteq> Some (webOrigin E)) (HttpError 403 ''ORIGIN_FORBIDDEN'')) (\<lambda>_.
     bindS (liftE (parseWith (zObject [(''demoCode'', zString (lengthBetween 4 64))] []) (reqBody req))) (\<lambda>body.
     bindS (readS (\<lambda>S. ofOption (HttpError 401 ''LOGIN_FAILED'')
        (selectOne (\<lambda>u. uDemoCode u = jstr body ''demoCode'') (users (db S))))) (\<lambda>user.
     bindS (insertS (insertSession \<lparr> sId = randomId ''session'' sessionNonce, sTokenHash = tokenHash L token,
        sCsrfToken = csrfToken, sUserId = uId user, sExpiresAt = (nowSeconds E + 4 * 60 * 60) * 1000,
        sPurpose = ''legacy'', sOidcIssuer = None, sOidcClientId = None, sOidcAudience = None,
        sMembershipGeneration = 0, sAuthenticatedAt = None \<rparr>)) (\<lambda>_.
     returnS \<lparr> lrUser = publicUser user, lrCsrfToken = csrfToken, lrCookie = token \<rparr>)))))"

definition logout :: "lib \<Rightarrow> serverEnv \<Rightarrow> request \<Rightarrow> (serverState, unit) eff" where
  "logout L E req =
     bindS (protectedWrite L E req) (\<lambda>session.
     onDb (modifyS (\<lambda>D. D\<lparr> sessions := filter (\<lambda>s. sId s \<noteq> asSessionId session) (sessions D) \<rparr>)))"

definition me :: "lib \<Rightarrow> serverEnv \<Rightarrow> request \<Rightarrow> (serverState, AuthSession) eff" where
  "me L E req = protectedRead L E req"

section \<open>Enrollment and registration\<close>

definition enrollmentPayload :: "serverEnv \<Rightarrow> string \<Rightarrow> string \<Rightarrow> json" where
  "enrollmentPayload E recipientId x = JObj
    [(''protocol'', JStr ''callsign''), (''version'', JNum 1), (''type'', JStr ''EnrollmentProof''),
     (''networkId'', JStr (seNetworkId E)), (''registryAddress'', JStr (seRegistryAddress E)),
     (''recipientId'', JStr recipientId), (''recipientSessionPublicKey'', JStr x),
     (''issuedAt'', JNum (nowSeconds E)), (''expiresAt'', JNum (nowSeconds E + 300))]"

definition enrollSession :: "lib \<Rightarrow> serverEnv \<Rightarrow> string \<Rightarrow> request \<Rightarrow> (serverState, enrollmentRow) eff" where
  "enrollSession L E nonce req =
     bindS (protectedWrite L E req) (\<lambda>session.
     bindS (roleS session [''recipient'']) (\<lambda>_.
     bindS (liftE (parseWith (zObject publicKeyBody []) (reqBody req))) (\<lambda>body.
     bindS (liftE (assertKid L (jobj body ''publicJwk'') (jstr body ''kid''))) (\<lambda>_.
     let payload = enrollmentPayload E (asUserId session) (jstr (jobj body ''publicJwk'') ''x'');
         row = \<lparr> eId = randomId ''enrollment'' nonce, eUserId = asUserId session, eKid = jstr body ''kid'',
                 ePublicJwk = jobj body ''publicJwk'',
                 eProofJws = signPayload L payload (seEnrollmentPrivate E) (seEnrollmentKid E),
                 eExpiresAt = jnum payload ''expiresAt'' * 1000 \<rparr> in
     bindS (insertS (insertEnrollment row)) (\<lambda>_. returnS row)))))"

text \<open>The update and the insert are two statements, not one transaction.\<close>

definition registerGateway :: "lib \<Rightarrow> serverEnv \<Rightarrow> string \<Rightarrow> request \<Rightarrow> (serverState, gatewayRow) eff" where
  "registerGateway L E nonce req =
     bindS (protectedWrite L E req) (\<lambda>session.
     bindS (roleS session [''gateway'']) (\<lambda>_.
     bindS (liftE (parseWith (zObject (publicKeyBody @ [(''delegationId'', longId)]) []) (reqBody req))) (\<lambda>body.
     bindS (liftE (assertKid L (jobj body ''publicJwk'') (jstr body ''kid''))) (\<lambda>_.
     let row = \<lparr> gId = randomId ''gateway'' nonce, gUserId = asUserId session, gKid = jstr body ''kid'',
                 gPublicJwk = jobj body ''publicJwk'', gDelegationId = jstr body ''delegationId'',
                 gActive = True \<rparr> in
     bindS (onDb (modifyS (\<lambda>D. D\<lparr> gatewayRegistrations :=
        updateWhere (\<lambda>g. gUserId g = asUserId session) (\<lambda>g. g\<lparr> gActive := False \<rparr>) (gatewayRegistrations D) \<rparr>))) (\<lambda>_.
     bindS (insertS (insertGateway row)) (\<lambda>_. returnS row))))))"

definition listRegistrations :: "lib \<Rightarrow> serverEnv \<Rightarrow> request \<Rightarrow> (serverState, gatewayRow list) eff" where
  "listRegistrations L E req =
     bindS (protectedRead L E req) (\<lambda>session.
     bindS (roleS session [''gateway'', ''institution'']) (\<lambda>_.
     readS (\<lambda>S. Inr (if asRole session = ''gateway''
       then filter (\<lambda>g. gUserId g = asUserId session) (gatewayRegistrations (db S))
       else filter gActive (gatewayRegistrations (db S))))))"

definition directoryName :: string where
  "directoryName = utf8Text [235, 170, 168, 236, 157, 152, 32, 65, 236, 139, 156, 236, 178, 173]"

definition directoryWarning :: string where
  "directoryWarning = utf8Text [235, 170, 168, 236, 157, 152, 32, 235, 148, 148, 235, 160, 137, 237, 132,
       176, 235, 166, 172, 236, 157, 180, 235, 169, 176, 32, 236, 139, 164, 236, 160,
       156, 32, 234, 184, 176, 234, 180, 128, 32, 236, 151, 176, 235, 157, 189, 236,
       178, 152, 234, 176, 128, 32, 236, 149, 132, 235, 139, 153, 235, 139, 136, 235,
       139, 164, 46]"

definition directoryEntry :: "lib \<Rightarrow> serverEnv \<Rightarrow> request \<Rightarrow> (serverState, json) eff" where
  "directoryEntry L E req =
     bindS (liftE (parseWith (zObject [(''institutionId'', longId)] []) (reqParams req))) (\<lambda>params.
     bindS (guardS (jstr params ''institutionId'' \<noteq> INSTITUTION_ID) (HttpError 404 ''DIRECTORY_NOT_FOUND'')) (\<lambda>_.
     let canonicalValue = ''/official:mock-a-city:v1'' in
     returnS (JObj [(''institutionId'', JStr (jstr params ''institutionId'')), (''displayName'', JStr directoryName),
       (''origin'', JStr (webOrigin E)),
       (''path'', JStr ''/official''), (''version'', JStr ''1''), (''canonicalValue'', JStr canonicalValue),
       (''directoryHash'', JStr (keccak256 L canonicalValue)), (''warning'', JStr directoryWarning)])))"

section \<open>Tasks\<close>

record taskProjection =
  tpId :: string
  tpInstitutionId :: string
  tpTitle :: string
  tpStatus :: string
  tpDetail :: string

definition projectTask :: "taskRow \<Rightarrow> taskProjection" where
  "projectTask t = \<lparr> tpId = tId t, tpInstitutionId = tInstitutionId t, tpTitle = tTitle t,
     tpStatus = tStatus t, tpDetail = tDetail t \<rparr>"

definition listTasks :: "lib \<Rightarrow> serverEnv \<Rightarrow> request \<Rightarrow> (serverState, taskProjection list) eff" where
  "listTasks L E req =
     bindS (protectedRead L E req) (\<lambda>session.
     bindS (roleS session [''recipient'']) (\<lambda>_.
     readS (\<lambda>S. Inr (map projectTask (filter (\<lambda>t. tOwnerId t = asUserId session) (tasks (db S)))))))"

definition institutionTasks :: "lib \<Rightarrow> serverEnv \<Rightarrow> request \<Rightarrow> (serverState, taskProjection list) eff" where
  "institutionTasks L E req =
     bindS (protectedRead L E req) (\<lambda>session.
     bindS (roleS session [''institution'']) (\<lambda>_.
     readS (\<lambda>S. Inr (map projectTask (filter (\<lambda>t. tInstitutionId t = INSTITUTION_ID) (tasks (db S)))))))"

definition readTask :: "lib \<Rightarrow> serverEnv \<Rightarrow> request \<Rightarrow> (serverState, taskRow) eff" where
  "readTask L E req =
     bindS (protectedRead L E req) (\<lambda>session.
     bindS (roleS session [''recipient'']) (\<lambda>_.
     bindS (liftE (parseWith idParams (reqParams req))) (\<lambda>params.
     readS (\<lambda>S. ofOption (HttpError 404 ''TASK_NOT_FOUND'')
       (selectOne (\<lambda>t. tId t = jstr params ''id'' \<and> tOwnerId t = asUserId session) (tasks (db S)))))))"

section \<open>Authorizations\<close>

definition authorizationPayload :: "serverEnv \<Rightarrow> string \<Rightarrow> string \<Rightarrow> string \<Rightarrow> taskRow \<Rightarrow> gatewayRow \<Rightarrow> json" where
  "authorizationPayload E authorizationId epoch purposeCode task gateway = JObj
    [(''protocol'', JStr ''callsign''), (''version'', JNum 1), (''type'', JStr ''ContactAuthorization''),
     (''networkId'', JStr (seNetworkId E)), (''registryAddress'', JStr (seRegistryAddress E)),
     (''authorizationId'', JStr authorizationId), (''institutionId'', JStr (tInstitutionId task)),
     (''epoch'', JStr epoch), (''delegationId'', JStr (gDelegationId gateway)),
     (''recipientId'', JStr (tOwnerId task)), (''purposeCode'', JStr purposeCode),
     (''officialTaskOpaqueId'', JStr (tOpaqueId task)), (''issuedAt'', JNum (nowSeconds E)),
     (''notBefore'', JNum (nowSeconds E)), (''expiresAt'', JNum (nowSeconds E + 600))]"

definition authorizationBody :: schema where
  "authorizationBody = zObject [(''taskId'', anyString), (''gatewayRegistrationId'', anyString),
     (''purposeCode'', zEnum [''CIVIL_REPLY'', ''DOCUMENT_SUPPLEMENT''])] []"

definition authorizationInputs :: "json \<Rightarrow> database \<Rightarrow> (taskRow \<times> gatewayRow) result" where
  "authorizationInputs body D =
     (case (selectOne (\<lambda>t. tId t = jstr body ''taskId'') (tasks D),
            selectOne (\<lambda>g. gId g = jstr body ''gatewayRegistrationId'' \<and> gActive g) (gatewayRegistrations D)) of
        (Some task, Some gateway) \<Rightarrow> Inr (task, gateway)
      | _ \<Rightarrow> Inl (HttpError 404 ''AUTHORIZATION_INPUT_NOT_FOUND''))"

definition issueAuthorization :: "lib \<Rightarrow> serverEnv \<Rightarrow> string \<Rightarrow> request \<Rightarrow> (serverState, authorizationRow) eff" where
  "issueAuthorization L E nonce req =
     bindS (protectedWrite L E req) (\<lambda>session.
     bindS (roleS session [''institution'']) (\<lambda>_.
     bindS (liftE (parseWith authorizationBody (reqBody req))) (\<lambda>body.
     bindS (readS (\<lambda>S. authorizationInputs body (db S))) (\<lambda>(task, gateway).
     bindS (rethrowS (\<lambda>e. HttpError 503 (''LEDGER_DELEGATION_FAILED:'' @ errorMessage E e))
       (onLedger (updateS (ensureLedgerDelegation L (chainEnv E) (gDelegationId gateway) (tInstitutionId task)
          (jstr (gPublicJwk gateway) ''x'') (if isStr body ''purposeCode'' ''CIVIL_REPLY'' then 1 else 2)
          (nowSeconds E))))) (\<lambda>epoch.
     let authorizationId = randomId ''auth'' nonce;
         payload = authorizationPayload E authorizationId epoch (jstr body ''purposeCode'') task gateway;
         row = \<lparr> aId = authorizationId, aInstitutionId = tInstitutionId task, aDelegationId = gDelegationId gateway,
                 aGatewayRegistrationId = gId gateway, aRecipientId = tOwnerId task, aTaskId = tId task,
                 aPayload = payload, aSignedJws = signPayload L payload (seIssuerPrivate E) (seIssuerKid E),
                 aAuthorizationHash = hashCanonical L payload, aCancelledAt = None,
                 aExpiresAt = (nowSeconds E + 600) * 1000 \<rparr> in
     bindS (insertS (insertAuthorization row)) (\<lambda>_. returnS row))))))"

definition listAuthorizations :: "lib \<Rightarrow> serverEnv \<Rightarrow> request \<Rightarrow> (serverState, authorizationRow list) eff" where
  "listAuthorizations L E req =
     bindS (protectedRead L E req) (\<lambda>session.
     bindS (roleS session [''gateway'', ''institution'', ''recipient'']) (\<lambda>_.
     readS (\<lambda>S. let rows = rev (authorizations (db S)) in
       Inr (if asRole session = ''institution'' then rows
            else if asRole session = ''recipient'' then filter (\<lambda>a. aRecipientId a = asUserId session) rows
            else filter (\<lambda>a. list_ex (\<lambda>g. gId g = aGatewayRegistrationId a \<and> gUserId g = asUserId session)
                   (gatewayRegistrations (db S))) rows))))"

definition cancelAuthorization :: "lib \<Rightarrow> serverEnv \<Rightarrow> request \<Rightarrow> (serverState, string) eff" where
  "cancelAuthorization L E req =
     bindS (protectedWrite L E req) (\<lambda>session.
     bindS (roleS session [''institution'']) (\<lambda>_.
     bindS (liftE (parseWith idParams (reqParams req))) (\<lambda>params.
     let hit = (\<lambda>a. aId a = jstr params ''id'' \<and> aCancelledAt a = None) in
     bindS (readS (\<lambda>S. Inr (list_ex hit (authorizations (db S))))) (\<lambda>changed.
     bindS (onDb (modifyS (\<lambda>D. D\<lparr> authorizations :=
        updateWhere hit (\<lambda>a. a\<lparr> aCancelledAt := Some (nowSeconds E * 1000) \<rparr>) (authorizations D) \<rparr>))) (\<lambda>_.
     bindS (guardS (\<not> changed) (HttpError 404 ''AUTHORIZATION_NOT_FOUND_OR_CANCELLED'')) (\<lambda>_.
     returnS (jstr params ''id'')))))))"

definition revokeAuthorizationDelegation :: "lib \<Rightarrow> serverEnv \<Rightarrow> request \<Rightarrow> (serverState, string) eff" where
  "revokeAuthorizationDelegation L E req =
     bindS (protectedWrite L E req) (\<lambda>session.
     bindS (roleS session [''institution'']) (\<lambda>_.
     bindS (liftE (parseWith idParams (reqParams req))) (\<lambda>params.
     bindS (readS (\<lambda>S. ofOption (HttpError 404 ''AUTHORIZATION_NOT_FOUND'')
        (selectOne (\<lambda>a. aId a = jstr params ''id'') (authorizations (db S))))) (\<lambda>authorization.
     rethrowS (\<lambda>e. HttpError 409 (''LEDGER_REVOCATION_FAILED:'' @ errorMessage E e))
       (onLedger (updateS (revokeLedgerDelegation L (chainEnv E) (aDelegationId authorization))))))))"

section \<open>Consumption\<close>

definition jwsText :: schema where
  "jwsText = zString (\<lambda>s. jsLength s \<le> 32 * 1024)"

definition consumeBody :: schema where
  "consumeBody = zObject [(''binding'', sessionBindingSchema), (''recipientEnrollmentId'', anyString),
     (''recipientChallengeJws'', jwsText), (''gatewayConsumeRequestJws'', jwsText)] []"

record possession =
  poAuthorization :: authorizationRow
  poEnrollment :: json
  poChallenge :: json
  poRequest :: json
  poProofJws :: string

definition possessionContext :: "serverEnv \<Rightarrow> AuthSession \<Rightarrow> string \<Rightarrow> json \<Rightarrow> database \<Rightarrow>
    (authorizationRow \<times> gatewayRow \<times> enrollmentRow) result" where
  "possessionContext E session authId body D =
     (case selectOne (\<lambda>a. aId a = authId \<and> aCancelledAt a = None \<and> nowSeconds E * 1000 < aExpiresAt a)
             (authorizations D) of
        None \<Rightarrow> Inl (HttpError 409 ''AUTHORIZATION_INVALID'')
      | Some auth \<Rightarrow>
          (case (selectOne (\<lambda>g. gId g = aGatewayRegistrationId auth \<and> gUserId g = asUserId session \<and> gActive g)
                   (gatewayRegistrations D),
                 selectOne (\<lambda>e. eId e = jstr body ''recipientEnrollmentId'' \<and> eUserId e = aRecipientId auth \<and>
                   nowSeconds E * 1000 < eExpiresAt e) (recipientEnrollments D)) of
             (Some gateway, Some enrollment) \<Rightarrow> Inr (auth, gateway, enrollment)
           | _ \<Rightarrow> Inl (HttpError 403 ''POSSESSION_CONTEXT_INVALID'')))"

definition verifyPossession :: "lib \<Rightarrow> serverEnv \<Rightarrow> json \<Rightarrow> authorizationRow \<Rightarrow> gatewayRow \<Rightarrow> enrollmentRow \<Rightarrow>
    possession result" where
  "verifyPossession L E body auth gateway enrollment =
     bindE (verifyPayload L (eProofJws enrollment) (seEnrollmentPublic E) ''EnrollmentProof''
              (seEnrollmentKid E) enrollmentProofSchema) (\<lambda>enrolled.
     bindE (ofOption LibraryError (importJwk L (ePublicJwk enrollment))) (\<lambda>recipientKey.
     bindE (verifyPayload L (jstr body ''recipientChallengeJws'') recipientKey ''RecipientChallenge''
              (eKid enrollment) recipientChallengeSchema) (\<lambda>challenge.
     bindE (ofOption LibraryError (importJwk L (gPublicJwk gateway))) (\<lambda>gatewayKey.
     bindE (verifyPayload L (jstr body ''gatewayConsumeRequestJws'') gatewayKey ''GatewayConsumeRequest''
              (gKid gateway) gatewayConsumeRequestSchema) (\<lambda>consumeRequest.
     bindE (assertTemporalValidity challenge (nowSeconds E)) (\<lambda>_.
     bindE (assertTemporalValidity consumeRequest (nowSeconds E)) (\<lambda>_.
     Inr \<lparr> poAuthorization = auth, poEnrollment = enrolled, poChallenge = challenge,
           poRequest = consumeRequest, poProofJws = eProofJws enrollment \<rparr>)))))))"

definition consumptionMismatch :: "lib \<Rightarrow> json \<Rightarrow> possession \<Rightarrow> bool" where
  "consumptionMismatch L binding po \<longleftrightarrow>
     (let auth = poAuthorization po; challenge = poChallenge po; r = poRequest po;
          bindingHash = hashCanonical L binding; challengeHash = hashCanonical L challenge in
      \<not> isStr (poEnrollment po) ''recipientId'' (aRecipientId auth) \<or>
      \<not> isStr challenge ''recipientId'' (aRecipientId auth) \<or>
      \<not> isStr challenge ''enrollmentProof'' (poProofJws po) \<or>
      \<not> sameMember challenge (poEnrollment po) ''recipientSessionPublicKey'' \<or>
      \<not> isStr binding ''recipientId'' (aRecipientId auth) \<or>
      \<not> sameMember binding challenge ''sessionId'' \<or> \<not> sameMember binding challenge ''recipientNonce'' \<or>
      \<not> isStr binding ''authorizationHash'' (aAuthorizationHash auth) \<or>
      \<not> isStr binding ''delegationId'' (aDelegationId auth) \<or>
      \<not> isStr r ''authorizationId'' (aId auth) \<or> \<not> isStr r ''authorizationHash'' (aAuthorizationHash auth) \<or>
      \<not> isStr r ''bindingHash'' bindingHash \<or> \<not> isStr r ''recipientChallengeHash'' challengeHash \<or>
      \<not> sameMember r challenge ''sessionId'')"

definition legacyReceipt :: "serverEnv \<Rightarrow> consumptionRow \<Rightarrow> json" where
  "legacyReceipt E c = JObj
    [(''protocol'', JStr ''callsign''), (''version'', JNum 1), (''type'', JStr ''ConsumptionReceipt''),
     (''networkId'', JStr (seNetworkId E)), (''registryAddress'', JStr (seRegistryAddress E)),
     (''authorizationId'', JStr (cAuthorizationId c)), (''authorizationHash'', JStr (cAuthorizationHash c)),
     (''bindingHash'', JStr (cBindingHash c)), (''recipientId'', JStr (cRecipientId c)),
     (''sessionId'', JStr (cSessionId c)), (''consumedAt'', JNum (cConsumedAt c div 1000)),
     (''expiresAt'', JNum (cExpiresAt c div 1000))]"

datatype consumeReply =
    SigningFailureAfterCommit
  | ConsumedReply json string bool     \<comment> \<open>receipt, its signature, replay\<close>

definition consumptionInput :: "lib \<Rightarrow> serverEnv \<Rightarrow> json \<Rightarrow> possession \<Rightarrow> consumptionRow" where
  "consumptionInput L E binding po =
     \<lparr> cAuthorizationId = aId (poAuthorization po), cAuthorizationHash = aAuthorizationHash (poAuthorization po),
       cBindingHash = hashCanonical L binding, cRecipientId = aRecipientId (poAuthorization po),
       cSessionId = jstr (poChallenge po) ''sessionId'', cConsumedAt = nowSeconds E * 1000,
       cExpiresAt = (nowSeconds E + 60) * 1000 \<rparr>"

definition consumeAuthorization :: "lib \<Rightarrow> serverEnv \<Rightarrow> request \<Rightarrow> (serverState, consumeReply) eff" where
  "consumeAuthorization L E req =
     bindS (protectedWrite L E req) (\<lambda>session.
     bindS (roleS session [''gateway'']) (\<lambda>_.
     bindS (liftE (parseWith idParams (reqParams req))) (\<lambda>params.
     bindS (liftE (parseWith consumeBody (reqBody req))) (\<lambda>body.
     bindS (readS (\<lambda>S. possessionContext E session (jstr params ''id'') body (db S))) (\<lambda>(auth, gateway, enrollment).
     bindS (liftE (verifyPossession L E body auth gateway enrollment)) (\<lambda>po.
     bindS (guardS (consumptionMismatch L (jobj body ''binding'') po)
              (HttpError 409 ''CONSUMPTION_CONTEXT_MISMATCH'')) (\<lambda>_.
     bindS (onDb (consumeAuthorizationAtomic (consumptionInput L E (jobj body ''binding'') po))) (\<lambda>record.
     if demoMode E \<and> headerDemoFail req = Some ''true'' \<and> \<not> crReplay record
     then returnS SigningFailureAfterCommit
     else
       bindS (liftE (parseWith consumptionReceiptSchema (legacyReceipt E (crRow record)))) (\<lambda>receipt.
       returnS (ConsumedReply receipt (signPayload L receipt (seIssuerPrivate E) (seIssuerKid E))
         (crReplay record)))))))))))"

end
