(* ===== verification/Server_Governance.thy ===== *)
theory Server_Governance
  imports Server
begin

text \<open>
  The remaining routes of \<^verbatim>\<open>services/api/src/server.ts\<close>: governance of an institution, exported
  runs, the signaling sockets, the trust bundle and the readiness of the ledger.
\<close>

section \<open>Governance\<close>

definition listProposals :: "lib \<Rightarrow> serverEnv \<Rightarrow> request \<Rightarrow> (serverState, proposalRow list) eff" where
  "listProposals L E req =
     bindS (protectedRead L E req) (\<lambda>session.
     bindS (roleS session [''approver'', ''demo_operator'']) (\<lambda>_.
     readS (\<lambda>S. Inr (rev (governanceProposals (db S))))))"

definition institutionParams :: schema where
  "institutionParams = zObject [(''institutionId'', longId)] []"

definition governanceState :: "lib \<Rightarrow> serverEnv \<Rightarrow> request \<Rightarrow> (serverState, InstitutionLedgerState) eff" where
  "governanceState L E req =
     bindS (protectedRead L E req) (\<lambda>session.
     bindS (roleS session [''approver'', ''demo_operator'']) (\<lambda>_.
     bindS (liftE (parseWith institutionParams (reqParams req))) (\<lambda>params.
     rethrowS (ledgerHttpError E)
       (onLedger (readS (readInstitutionState L (chainEnv E) (jstr params ''institutionId'')))))))"

definition suspendRoute ::
    "lib \<Rightarrow> serverEnv \<Rightarrow> request \<Rightarrow> (serverState, string \<times> InstitutionLedgerState) eff" where
  "suspendRoute L E req =
     bindS (protectedWrite L E req) (\<lambda>session.
     bindS (roleS session [''demo_operator'']) (\<lambda>_.
     bindS (guardS (\<not> demoMode E) (HttpError 404 ''DEMO_CONTROL_DISABLED'')) (\<lambda>_.
     bindS (liftE (parseWith institutionParams (reqParams req))) (\<lambda>params.
     rethrowS (ledgerHttpError E)
       (onLedger (suspendLedger L (chainEnv E) (jstr params ''institutionId'')))))))"

definition proposalBody :: schema where
  "proposalBody = zObject [(''action'', zLiteral (JStr ''RECOVER'')), (''institutionId'', longId)] []"

definition createProposal :: "lib \<Rightarrow> serverEnv \<Rightarrow> string \<Rightarrow> string \<Rightarrow> request \<Rightarrow> (serverState, proposalRow) eff" where
  "createProposal L E uuid nonce req =
     bindS (protectedWrite L E req) (\<lambda>session.
     bindS (roleS session [''demo_operator'']) (\<lambda>_.
     bindS (guardS (\<not> demoMode E) (HttpError 404 ''DEMO_CONTROL_DISABLED'')) (\<lambda>_.
     bindS (liftE (parseWith proposalBody (reqBody req))) (\<lambda>body.
     bindS (rethrowS (ledgerHttpError E)
       (onLedger (readS (createRecovery L (chainEnv E) uuid (jstr body ''institutionId'') (nowSeconds E))))) (\<lambda>payload.
     let row = \<lparr> pId = randomId ''proposal'' nonce, pAction = jstr body ''action'',
                 pInstitutionId = jstr body ''institutionId'', pPayload = payload, pStatus = ''collecting'' \<rparr> in
     bindS (insertS (insertProposal row)) (\<lambda>_. returnS row))))))"

record signReply =
  srSignerUserId :: string
  srSignerCount :: nat
  srStatus :: string

definition executionJson :: "string \<times> InstitutionLedgerState \<Rightarrow> json" where
  "executionJson x = JObj [(''transactionHash'', JStr (fst x)), (''state'', JObj
     [(''institutionId'', JStr (lsInstitutionId (snd x))), (''status'', JStr (lsStatus (snd x))),
      (''epoch'', JStr (lsEpoch (snd x))), (''administrator'', JStr (lsAdministrator (snd x))),
      (''emergencyStopper'', JStr (lsEmergencyStopper (snd x)))])]"

definition signaturesOf :: "string \<Rightarrow> database \<Rightarrow> signatureRow list" where
  "signaturesOf proposalId D = filter (\<lambda>s. psProposalId s = proposalId) (proposalSignatures D)"

definition signProposal :: "lib \<Rightarrow> serverEnv \<Rightarrow> request \<Rightarrow> (serverState, signReply) eff" where
  "signProposal L E req =
     bindS (protectedWrite L E req) (\<lambda>session.
     bindS (roleS session [''approver'']) (\<lambda>_.
     bindS (liftE (parseWith idParams (reqParams req))) (\<lambda>params.
     bindS (readS (\<lambda>S. ofOption (HttpError 404 ''PROPOSAL_NOT_FOUND'')
        (selectOne (\<lambda>p. pId p = jstr params ''id'') (governanceProposals (db S))))) (\<lambda>proposal.
     bindS (guardS (pStatus proposal \<noteq> ''collecting'') (HttpError 409 ''PROPOSAL_ALREADY_FINALIZED'')) (\<lambda>_.
     bindS (liftE (parseWith recoveryRequestSchema (pPayload proposal))) (\<lambda>payload.
     bindS (rethrowS (ledgerHttpError E)
        (liftE (signRecovery (chainEnv E) payload (asUserId session)))) (\<lambda>signature.
     bindS (onDb (updateS (insertSignature \<lparr> psProposalId = jstr params ''id'',
        psSignerUserId = asUserId session, psSignature = signature \<rparr>))) (\<lambda>inserted.
     bindS (guardS (\<not> inserted) (HttpError 409 ''SIGNER_ALREADY_COUNTED'')) (\<lambda>_.
     bindS (readS (\<lambda>S. Inr (signaturesOf (jstr params ''id'') (db S)))) (\<lambda>allRows.
     if length allRows < 2
     then returnS \<lparr> srSignerUserId = asUserId session, srSignerCount = length allRows, srStatus = ''collecting'' \<rparr>
     else
       bindS (rethrowS (ledgerHttpError E)
         (onLedger (submitRecovery L (chainEnv E) payload (map psSignature allRows)))) (\<lambda>executed.
       bindS (onDb (modifyS (\<lambda>D. D\<lparr> governanceProposals := updateWhere (\<lambda>p. pId p = jstr params ''id'')
          (\<lambda>p. p\<lparr> pStatus := ''executed'', pPayload := jset payload ''execution'' (executionJson executed) \<rparr>)
          (governanceProposals D) \<rparr>))) (\<lambda>_.
       returnS \<lparr> srSignerUserId = asUserId session, srSignerCount = length allRows, srStatus = ''executed'' \<rparr>))))))))))))"

section \<open>Runs\<close>

definition runResponse :: "lib \<Rightarrow> serverEnv \<Rightarrow> request \<Rightarrow> (serverState, runRow \<times> eventRow list) eff" where
  "runResponse L E req =
     bindS (protectedRead L E req) (\<lambda>session.
     bindS (roleS session [''demo_operator'', ''approver'', ''institution'', ''gateway'', ''recipient'']) (\<lambda>_.
     bindS (liftE (parseWith idParams (reqParams req))) (\<lambda>params.
     bindS (readS (\<lambda>S. ofOption (HttpError 404 ''RUN_NOT_FOUND'')
        (selectOne (\<lambda>r. rId r = jstr params ''id'') (demoRuns (db S))))) (\<lambda>run.
     readS (\<lambda>S. Inr (run, filter (\<lambda>e. evRunId e = jstr params ''id'') (verifierEvents (db S))))))))"

section \<open>Signaling\<close>

text \<open>The map from a user to the open sockets of that user; a socket is a number.\<close>

type_synonym sockets = "nat list dict"

definition signalingMessage :: schema where
  "signalingMessage = zObject
    [(''type'', zEnum [''invite'', ''challenge'', ''offer'', ''answer'', ''ice'', ''proof'', ''hangup'']),
     (''toUserId'', zString (\<lambda>s. 16 \<le> jsLength s)), (''sessionId'', zString (\<lambda>s. 16 \<le> jsLength s))]
    [(''payload'', \<lambda>_. True)]"

definition socketsOf :: "sockets \<Rightarrow> string \<Rightarrow> nat list" where
  "socketsOf m u = (case dget m u of Some xs \<Rightarrow> xs | None \<Rightarrow> [])"

definition connectSignaling :: "lib \<Rightarrow> serverEnv \<Rightarrow> request \<Rightarrow> nat \<Rightarrow> database \<Rightarrow> sockets \<Rightarrow>
    (AuthSession \<times> sockets) option" where
  "connectSignaling L E req socket D m =
     (if headerOrigin req \<noteq> Some (webOrigin E) then None
      else case bindE (sessionForRequest L None (wallMs E) req D) (\<lambda>session.
             bindE (requireRole session [''recipient'', ''gateway'']) (\<lambda>_. Inr session)) of
        Inl _ \<Rightarrow> None
      | Inr session \<Rightarrow> Some (session, dput (asUserId session) (List.insert socket (socketsOf m (asUserId session))) m))"

datatype delivery =
    Relay nat json
  | Rejected nat

definition onSignalingMessage :: "lib \<Rightarrow> AuthSession \<Rightarrow> nat \<Rightarrow> string \<Rightarrow> database \<Rightarrow> sockets \<Rightarrow> delivery list" where
  "onSignalingMessage L session socket text D m =
     (case validateJson L text of
        Inl _ \<Rightarrow> [Rejected socket]
      | Inr message \<Rightarrow>
          if \<not> signalingMessage message then [Rejected socket]
          else case selectOne (\<lambda>u. uId u = jstr message ''toUserId'') (users D) of
            None \<Rightarrow> [Rejected socket]
          | Some target \<Rightarrow>
              if (asRole session = ''gateway'' \<and> uRole target = ''recipient'') \<or>
                 (asRole session = ''recipient'' \<and> uRole target = ''gateway'')
              then map (\<lambda>peer. Relay peer (jset message ''fromUserId'' (JStr (asUserId session))))
                     (socketsOf m (uId target))
              else [Rejected socket])"

definition onSignalingClose :: "AuthSession \<Rightarrow> nat \<Rightarrow> sockets \<Rightarrow> sockets" where
  "onSignalingClose session socket m =
     (let own = filter (\<lambda>s. s \<noteq> socket) (socketsOf m (asUserId session)) in
      if own = [] then ddelete (asUserId session) m else dput (asUserId session) own m)"

section \<open>Trust bundle and readiness\<close>

definition witnessProfileWarning :: string where
  "witnessProfileWarning = utf8Text [80, 48, 32, 51, 45, 111, 102, 45, 52, 32, 115, 116, 97, 116, 101, 32, 119,
       105, 116, 110, 101, 115, 115, 32, 237, 148, 132, 235, 161, 156, 237, 140, 140,
       236, 157, 188, 236, 157, 180, 235, 169, 176, 32, 235, 132, 164, 236, 157, 180,
       237, 139, 176, 235, 184, 140, 32, 81, 66, 70, 84, 32, 108, 105, 103, 104, 116,
       32, 99, 108, 105, 101, 110, 116, 234, 176, 128, 32, 236, 149, 132, 235, 139,
       153, 235, 139, 136, 235, 139, 164, 46]"

definition noLedgerWarning :: string where
  "noLedgerWarning = utf8Text [236, 155, 144, 236, 158, 165, 32, 235, 176, 176, 237, 143, 172, 234, 176,
       128, 32, 236, 151, 134, 236, 150, 180, 32, 119, 105, 116, 110, 101, 115, 115,
       32, 234, 178, 128, 236, 166, 157, 236, 157, 132, 32, 236, 130, 172, 236, 154,
       169, 237, 149, 160, 32, 236, 136, 152, 32, 236, 151, 134, 236, 138, 181, 235,
       139, 136, 235, 139, 164, 46]"

definition trustBundleRoute :: "serverEnv \<Rightarrow> json list \<Rightarrow> json" where
  "trustBundleRoute E witnessKeys = JObj
    ([(''networkId'', JStr (seNetworkId E))] @
     (case seGenesisHash E of Some g \<Rightarrow> [(''genesisHash'', JStr g)] | None \<Rightarrow> []) @
     [(''registryAddress'', JStr (seRegistryAddress E)), (''policyVersion'', JStr ''1''),
      (''witnessThreshold'', JNum 3),
      (''witnessPublicKeys'', JArr (if seGenesisHash E = None then [] else witnessKeys)),
      (''issuerPublicKey'', seIssuerJwk E), (''issuerKid'', JStr (seIssuerKid E)),
      (''enrollmentPublicKey'', seEnrollmentJwk E), (''enrollmentKid'', JStr (seEnrollmentKid E)),
      (''supportedProtocolVersions'', JArr [JNum 1]),
      (''warning'', JStr (if seGenesisHash E = None then noLedgerWarning else witnessProfileWarning))])"

text \<open>
  What the four nodes and the witnesses answer: the height of a node, the block hash and the
  registry code a node reports at a height, and the health of a witness; \<open>None\<close> is a request that
  failed.
\<close>

record ledgerProbe =
  nodeHeights :: "nat option list"
  nodeBlock :: "nat \<Rightarrow> nat \<Rightarrow> (string \<times> string) option"
  witnessHealth :: "json option list"

record readiness =
  rdStatus :: string
  rdNodeCount :: nat
  rdWitnessCount :: nat
  rdSameBlockHash :: bool
  rdRegistryCodePresent :: bool
  rdCommonBlock :: "nat option"
  rdCommonHash :: "string option"

definition answered :: "'a option list \<Rightarrow> 'a list" where
  "answered xs = map the (filter (\<lambda>x. x \<noteq> None) xs)"

text \<open>The nodes that answered are numbered in order; \<open>nodeBlock i h\<close> asks the \<open>i\<close>-th of them.\<close>

definition ledgerReadiness :: "LedgerDeployment option \<Rightarrow> ledgerProbe \<Rightarrow> readiness" where
  "ledgerReadiness ledger probe =
     (if ledger = None
      then \<lparr> rdStatus = ''unavailable'', rdNodeCount = 0, rdWitnessCount = 0, rdSameBlockHash = False,
             rdRegistryCodePresent = False, rdCommonBlock = None, rdCommonHash = None \<rparr>
      else
        let heights = answered (nodeHeights probe); nodes = length heights;
            common = (if nodes = 4 then Some (Min (set heights)) else None);
            values = (case common of None \<Rightarrow> []
              | Some h \<Rightarrow> answered (map (\<lambda>i. nodeBlock probe i h) [0..<nodes]));
            sameBlockHash = (length values = 4 \<and> length (remdups (map fst values)) = 1);
            registryCodePresent = (length values = 4 \<and> list_all (\<lambda>v. snd v \<noteq> ''0x'') values);
            witnesses = length (answered (witnessHealth probe)) in
        \<lparr> rdStatus = (if nodes = 4 \<and> sameBlockHash \<and> registryCodePresent \<and> witnesses \<ge> 3
                      then ''ready'' else ''degraded''),
          rdNodeCount = nodes, rdWitnessCount = witnesses, rdSameBlockHash = sameBlockHash,
          rdRegistryCodePresent = registryCodePresent, rdCommonBlock = common,
          rdCommonHash = (if sameBlockHash then Some (fst (hd values)) else None) \<rparr>)"

end
