(* ===== verification/Server_Scenario.thy ===== *)
theory Server_Scenario
  imports Server_Governance Scenario
begin

text \<open>
  A concrete state of the demonstration API, on which the theorems about it are applied: a
  recipient with an enrolled key, a gateway with a registered key, an institution, two approvers,
  one authorization, and the signed messages of one consumption.
\<close>

section \<open>Messages\<close>

definition scAddress :: string where "scAddress = ''0x'' @ replicate 40 (CHR ''1'')"
definition scRecipient :: string where "scRecipient = replicate 20 (CHR ''r'')"
definition scAuthId :: string where "scAuthId = replicate 20 (CHR ''a'')"
definition scDelegation :: string where "scDelegation = replicate 20 (CHR ''d'')"
definition scSession :: string where "scSession = replicate 20 (CHR ''s'')"
definition scNonce :: string where "scNonce = replicate 20 (CHR ''n'')"
definition scKeyText :: string where "scKeyText = replicate 40 (CHR ''k'')"
definition scAuthHash :: string where "scAuthHash = replicate 64 (CHR ''a'')"
definition scFingerprint :: string where "scFingerprint = joinPairs (replicate 64 (CHR ''A''))"

lemmas sc_texts = scAddress_def scRecipient_def scAuthId_def scDelegation_def scSession_def scNonce_def
  scKeyText_def scAuthHash_def

definition scBase :: "(string \<times> json) list" where
  "scBase = [(''protocol'', JStr ''callsign''), (''version'', JNum 1), (''networkId'', JStr ''7''),
     (''registryAddress'', JStr scAddress)]"

definition scEnrollment :: json where
  "scEnrollment = JObj (scBase @ [(''type'', JStr ''EnrollmentProof''), (''recipientId'', JStr scRecipient),
     (''recipientSessionPublicKey'', JStr scKeyText), (''issuedAt'', JNum 900), (''expiresAt'', JNum 1200)])"

definition scProof :: string where
  "scProof = ''ek|callsign/EnrollmentProof+jws|ekid|EnrollmentProof.''"

definition scChallenge :: json where
  "scChallenge = JObj (scBase @ [(''type'', JStr ''RecipientChallenge''), (''recipientId'', JStr scRecipient),
     (''recipientSessionPublicKey'', JStr scKeyText), (''enrollmentProof'', JStr scProof),
     (''sessionId'', JStr scSession), (''recipientNonce'', JStr scNonce), (''issuedAt'', JNum 990),
     (''expiresAt'', JNum 1050)])"

definition scBinding :: json where
  "scBinding = JObj (scBase @ [(''type'', JStr ''SessionBinding''), (''authorizationHash'', JStr scAuthHash),
     (''sessionId'', JStr scSession), (''institutionId'', JStr INSTITUTION_ID), (''epoch'', JStr ''1''),
     (''delegationId'', JStr scDelegation), (''recipientId'', JStr scRecipient),
     (''recipientNonce'', JStr scNonce), (''recipientSessionKeyHash'', JStr scAuthHash),
     (''gatewayFingerprint'', JStr scFingerprint), (''receiverFingerprint'', JStr scFingerprint),
     (''fingerprintAlgorithm'', JStr ''sha-256''), (''transportProfile'', JStr ''webrtc-bundle-v1''),
     (''offerSdpHash'', JStr scAuthHash), (''answerSdpHash'', JStr scAuthHash), (''issuedAt'', JNum 990),
     (''expiresAt'', JNum 1050)])"

definition scRequest :: json where
  "scRequest = JObj (scBase @ [(''type'', JStr ''GatewayConsumeRequest''), (''role'', JStr ''gateway''),
     (''authorizationId'', JStr scAuthId), (''authorizationHash'', JStr scAuthHash),
     (''bindingHash'', JStr (replicate 64 (CHR ''f''))),
     (''recipientChallengeHash'', JStr (replicate 64 (CHR ''3''))), (''sessionId'', JStr scSession),
     (''issuedAt'', JNum 995), (''expiresAt'', JNum 1040)])"

definition scLib :: lib where
  "scLib = (demoLib [scEnrollment, scChallenge, scRequest])\<lparr> keccak256 := (\<lambda>_. ''0x'' @ replicate 64 (CHR ''b'')) \<rparr>"

lemmas sc_schema = schema_eval sc_texts scBase_def protocolBase_def decimalInteger_def address_def
  identifierSchema_def safeUnixSeconds_def sha256Hex_def fingerprint_def

lemma scEnrollment_schema: "enrollmentProofSchema scEnrollment"
  unfolding enrollmentProofSchema_def scEnrollment_def
  by (rule zObject_in_order) (simp_all add: sc_schema)

lemma scChallenge_schema: "recipientChallengeSchema scChallenge"
  unfolding recipientChallengeSchema_def scChallenge_def
  by (rule zObject_in_order) (simp_all add: sc_schema scProof_def MAX_SIGNED_MESSAGE_BYTES_def)

lemma scRequest_schema: "gatewayConsumeRequestSchema scRequest"
  unfolding gatewayConsumeRequestSchema_def scRequest_def
  by (rule zObject_in_order) (simp_all add: sc_schema)

lemma scFingerprint_ok: "isFingerprint scFingerprint"
  by code_simp

lemma scBinding_schema: "sessionBindingSchema scBinding"
  unfolding sessionBindingSchema_def scBinding_def
  by (rule zObject_in_order) (simp_all add: sc_schema scFingerprint_ok INSTITUTION_ID_def)

section \<open>State\<close>

definition scUser :: "string \<Rightarrow> string \<Rightarrow> userRow" where
  "scUser i role = \<lparr> uId = i, uDisplayName = i, uRole = role, uDemoCode = i \<rparr>"

definition scSessionRow :: "string \<Rightarrow> string \<Rightarrow> sessionRow" where
  "scSessionRow token user = \<lparr> sId = token, sTokenHash = demoSha token, sCsrfToken = ''c'', sUserId = user,
     sExpiresAt = 2000000, sPurpose = ''legacy'', sOidcIssuer = None, sOidcClientId = None,
     sOidcAudience = None, sMembershipGeneration = 0, sAuthenticatedAt = None \<rparr>"

definition scGatewayRow :: gatewayRow where
  "scGatewayRow = \<lparr> gId = ''gw1'', gUserId = ''gateway-user'', gKid = replicate 22 (CHR ''0''),
     gPublicJwk = demoJwk ''gk'', gDelegationId = scDelegation, gActive = True \<rparr>"

definition scEnrollmentRow :: enrollmentRow where
  "scEnrollmentRow = \<lparr> eId = ''e1'', eUserId = scRecipient, eKid = ''rkid'', ePublicJwk = demoJwk ''rk'',
     eProofJws = scProof, eExpiresAt = 1200000 \<rparr>"

definition scAuthorization :: authorizationRow where
  "scAuthorization = \<lparr> aId = scAuthId, aInstitutionId = INSTITUTION_ID, aDelegationId = scDelegation,
     aGatewayRegistrationId = ''gw1'', aRecipientId = scRecipient, aTaskId = ''task'', aPayload = JNull,
     aSignedJws = [], aAuthorizationHash = scAuthHash, aCancelledAt = None, aExpiresAt = 1500000 \<rparr>"

definition scPayload :: json where
  "scPayload = JObj [(''institutionId'', JStr (''0x'' @ replicate 64 (CHR ''b''))), (''expectedEpoch'', JStr ''2''),
     (''newAdministrator'', JStr (''0x'' @ replicate 40 (CHR ''5''))),
     (''newApprovalPublicKey'', JStr (''0x'' @ replicate 64 (CHR ''6''))),
     (''newEmergencyStopper'', JStr (''0x'' @ replicate 40 (CHR ''7''))),
     (''nonce'', JStr (''0x'' @ replicate 64 (CHR ''8''))), (''deadline'', JStr ''1600'')]"

definition scProposal :: proposalRow where
  "scProposal = \<lparr> pId = ''p1'', pAction = ''RECOVER'', pInstitutionId = INSTITUTION_ID, pPayload = scPayload,
     pStatus = ''collecting'' \<rparr>"

definition scDatabase :: database where
  "scDatabase = emptyDatabase\<lparr>
     users := [scUser ''gateway-user'' ''gateway'', scUser ''institution-user'' ''institution'',
       scUser ''approver_1_a'' ''approver'', scUser ''approver_2_b'' ''approver'', scUser scRecipient ''recipient''],
     sessions := [scSessionRow ''t'' ''gateway-user'', scSessionRow ''tt'' ''institution-user'',
       scSessionRow ''ttt'' ''approver_1_a''],
     gatewayRegistrations := [scGatewayRow], recipientEnrollments := [scEnrollmentRow],
     authorizations := [scAuthorization], governanceProposals := [scProposal],
     proposalSignatures := [\<lparr> psProposalId = ''p1'', psSignerUserId = ''approver_2_b'', psSignature = ''k2'' \<rparr>] \<rparr>"

definition scRegistry :: Registry where
  "scRegistry = putInstitution (''0x'' @ replicate 64 (CHR ''b''))
     \<lparr> iStatus = Suspended, iEpoch = 2, iAdministrator = ''admin'', iApprovalPublicKey = ''key'',
       iEmergencyStopper = ''stop'', iDirectoryHash = ''dir'', iDirectoryVersion = 1, iPolicyVersion = 1,
       iExists = True \<rparr> (constructorRegistry [''k1'', ''k2'', ''k3''] ''policy'')"

definition scState :: serverState where
  "scState = \<lparr> db = scDatabase, registry = scRegistry \<rparr>"

definition scChain :: ledgerEnv where
  "scChain = \<lparr> deploymentFile = Some \<lparr> ldNetworkId = ''7'', ldGenesisHash = [], ldRegistryAddress = scAddress,
       ldInstitutionId = ''0x'' @ replicate 64 (CHR ''b'') \<rparr>,
     rolesFile = Some \<lparr> approver1 = ''k1'', approver2 = ''k2'', approver3 = ''k3'', administratorKey = ''ka'',
       emergencyStopperKey = ''ks'', recoveryAdministratorKey = ''kra'', recoveryEmergencyStopperKey = ''krs'' \<rparr>,
     rpcUp = True, contractProfile = InstitutionProfile, blockTime = 1001,
     chainEvm = \<lparr> hashTypedDataV4 = (\<lambda>_. ''digest''), ecdsaRecover = (\<lambda>_ s. Some s) \<rparr>,
     accountAddress = id, checksumAddress = id, accountSign = (\<lambda>k _. k), transactionHash = ''tx'' \<rparr>"

definition scEnv :: serverEnv where
  "scEnv = \<lparr> webOrigin = ''https://site'', demoMode = False, seNetworkId = ''7'', seRegistryAddress = scAddress,
     seGenesisHash = None, seIssuerPrivate = ''ik'', seIssuerJwk = JNull, seIssuerKid = ''ikid'',
     seEnrollmentPrivate = ''ek'', seEnrollmentPublic = ''ek'', seEnrollmentJwk = JNull, seEnrollmentKid = ''ekid'',
     chainEnv = scChain, packageMessage = [], packageCode = ''INTERNAL_ERROR'', wallMs = 1000000, nowSeconds = 1000 \<rparr>"

definition scReq :: "string \<Rightarrow> json \<Rightarrow> json \<Rightarrow> request" where
  "scReq token params body = \<lparr> cookies = [(''ip_session'', token)], headerOrigin = Some ''https://site'',
     headerCsrf = Some ''c'', headerDemoFail = None, reqParams = params, reqQuery = JNull, reqBody = body \<rparr>"

definition scAuthSession :: "string \<Rightarrow> string \<Rightarrow> string \<Rightarrow> AuthSession" where
  "scAuthSession token user role = \<lparr> asSessionId = token, asUserId = user, asDisplayName = user, asRole = role,
     asCsrfToken = ''c'', asPurpose = ''legacy'', asExpiresAt = 2000000, asAuthenticatedAt = None,
     asMembershipGeneration = 0 \<rparr>"

definition scConsumeBody :: json where
  "scConsumeBody = JObj [(''binding'', scBinding), (''recipientEnrollmentId'', JStr ''e1''),
     (''recipientChallengeJws'', JStr (signPayload scLib scChallenge ''rk'' ''rkid'')),
     (''gatewayConsumeRequestJws'', JStr (signPayload scLib scRequest ''gk'' (replicate 22 (CHR ''0''))))]"

definition scConsume :: request where
  "scConsume = scReq ''t'' (JObj [(''id'', JStr scAuthId)]) scConsumeBody"

section \<open>Evaluation\<close>

lemma sc_sessions:
  assumes "users D = users scDatabase" "sessions D = sessions scDatabase"
  shows "sessionForRequest scLib None 1000000 (scReq ''t'' p b) D =
      Inr (scAuthSession ''t'' ''gateway-user'' ''gateway'')"
    "sessionForRequest scLib None 1000000 (scReq ''tt'' p b) D =
      Inr (scAuthSession ''tt'' ''institution-user'' ''institution'')"
    "sessionForRequest scLib None 1000000 (scReq ''ttt'' p b) D =
      Inr (scAuthSession ''ttt'' ''approver_1_a'' ''approver'')"
  using assms
  by (simp_all add: sessionForRequest_def sessionPurpose_def scReq_def sessionCookie_def sessionRowFor_def
      tokenHash_def scLib_def demoLib_def demoSha_def lowerHexChars_def selectOne_def scDatabase_def
      scSessionRow_def scUser_def hasUser_def policyViolated_def scAuthSession_def emptyDatabase_def)

lemma sc_csrf: "assertCsrf (scReq t p b) (scAuthSession t u r) ''https://site'' = Inr ()"
  by (simp add: assertCsrf_def scReq_def scAuthSession_def)

lemma scProof_jws: "scProof = signPayload (demoLib table) scEnrollment ''ek'' ''ekid''"
  by (simp add: scProof_def signPayload_def demoLib_def demoSign_def protectedHeader_def messageTyp_def
      canonicalBytes_def demoCanonical_def scEnrollment_def scBase_def jstr_def jget_def bar_def)

lemma sc_canonical:
  "demoCanonical scEnrollment = ''EnrollmentProof.''" "demoCanonical scChallenge = ''RecipientChallenge.''"
  "demoCanonical scRequest = ''GatewayConsumeRequest.''" "demoCanonical scBinding = ''SessionBinding.''"
  by (simp_all add: demoCanonical_def scEnrollment_def scChallenge_def scRequest_def scBinding_def scBase_def
      jstr_def jget_def)

lemma sc_types:
  "isStr scEnrollment ''type'' ''EnrollmentProof''" "isStr scChallenge ''type'' ''RecipientChallenge''"
  "isStr scRequest ''type'' ''GatewayConsumeRequest''"
  by (simp_all add: scEnrollment_def scChallenge_def scRequest_def scBase_def isStr_def jget_def)

lemma sc_verified:
  "verifyPayload (demoLib [scEnrollment, scChallenge, scRequest]) scProof ''ek'' ''EnrollmentProof'' ''ekid''
     enrollmentProofSchema = Inr scEnrollment"
  "verifyPayload (demoLib [scEnrollment, scChallenge, scRequest])
     (signPayload (demoLib [scEnrollment, scChallenge, scRequest]) scChallenge ''rk'' ''rkid'') ''rk''
     ''RecipientChallenge'' ''rkid'' recipientChallengeSchema = Inr scChallenge"
  "verifyPayload (demoLib [scEnrollment, scChallenge, scRequest])
     (signPayload (demoLib [scEnrollment, scChallenge, scRequest]) scRequest ''gk'' (replicate 22 (CHR ''0''))) ''gk''
     ''GatewayConsumeRequest'' (replicate 22 (CHR ''0'')) gatewayConsumeRequestSchema = Inr scRequest"
  unfolding scProof_jws [of "[scEnrollment, scChallenge, scRequest]"]
  by (rule demo_verifyPayload;
      simp add: bar_def sc_canonical sc_types scEnrollment_schema scChallenge_schema scRequest_schema)+

lemma keccak_irrelevant:
  "parseJsonNoDuplicateKeys (L\<lparr> keccak256 := k \<rparr>) = parseJsonNoDuplicateKeys L"
  "verifyPayload (L\<lparr> keccak256 := k \<rparr>) = verifyPayload L"
  "signPayload (L\<lparr> keccak256 := k \<rparr>) = signPayload L"
proof -
  show p: "parseJsonNoDuplicateKeys (L\<lparr> keccak256 := k \<rparr>) = parseJsonNoDuplicateKeys L"
    by (simp add: fun_eq_iff parseJsonNoDuplicateKeys_def)
  show "verifyPayload (L\<lparr> keccak256 := k \<rparr>) = verifyPayload L"
    unfolding verifyPayload_def fun_eq_iff p by simp
  show "signPayload (L\<lparr> keccak256 := k \<rparr>) = signPayload L"
    by (simp add: fun_eq_iff signPayload_def canonicalBytes_def)
qed

lemma header_members:
  "jstr (protectedHeader ty kid) ''typ'' = messageTyp ty" "jstr (protectedHeader ty kid) ''kid'' = kid"
  by (simp_all add: protectedHeader_def jstr_def jget_def)

lemma scLib_same:
  "verifyPayload scLib = verifyPayload (demoLib [scEnrollment, scChallenge, scRequest])"
  "signPayload scLib = signPayload (demoLib [scEnrollment, scChallenge, scRequest])"
  "importJwk scLib j = Some (jstr j ''x'')" "canonicalize scLib = demoCanonical" "sha256hex scLib = demoSha"
  by (simp_all add: scLib_def keccak_irrelevant) (simp_all add: demoLib_def)

lemma sc_hashes:
  "hashCanonical scLib scBinding = replicate 64 (CHR ''f'')"
  "hashCanonical scLib scChallenge = replicate 64 (CHR ''3'')"
  by (simp_all add: hashCanonical_def canonicalBytes_def scLib_same sc_canonical demoSha_def lowerHexChars_def)

lemma sc_possessionContext:
  assumes "authorizations D = authorizations scDatabase"
    "gatewayRegistrations D = gatewayRegistrations scDatabase"
    "recipientEnrollments D = recipientEnrollments scDatabase"
  shows "possessionContext scEnv (scAuthSession ''t'' ''gateway-user'' ''gateway'') scAuthId scConsumeBody D =
    Inr (scAuthorization, scGatewayRow, scEnrollmentRow)"
  using assms
  by (simp add: possessionContext_def scDatabase_def selectOne_def scAuthorization_def scEnv_def scGatewayRow_def
      scAuthSession_def scEnrollmentRow_def scConsumeBody_def jstr_def jget_def emptyDatabase_def)

definition scPossession :: possession where
  "scPossession = \<lparr> poAuthorization = scAuthorization, poEnrollment = scEnrollment, poChallenge = scChallenge,
     poRequest = scRequest, poProofJws = scProof \<rparr>"

lemma sc_verifyPossession:
  "verifyPossession scLib scEnv scConsumeBody scAuthorization scGatewayRow scEnrollmentRow = Inr scPossession"
proof -
  have "jstr scConsumeBody ''recipientChallengeJws'' = signPayload scLib scChallenge ''rk'' ''rkid''"
    "jstr scConsumeBody ''gatewayConsumeRequestJws'' = signPayload scLib scRequest ''gk'' (replicate 22 (CHR ''0''))"
    by (simp_all add: scConsumeBody_def jstr_def jget_def)
  moreover have "assertTemporalValidity scChallenge 1000 = Inr ()" "assertTemporalValidity scRequest 1000 = Inr ()"
    by (simp_all add: assertTemporalValidity_def scChallenge_def scRequest_def scBase_def jnum_def jget_def
        isSafeInteger_def maxSafeInteger_def)
  moreover have "jstr (demoJwk x) ''x'' = x" for x by (simp add: demoJwk_def jstr_def jget_def)
  ultimately show ?thesis
    using sc_verified
    by (simp add: verifyPossession_def scLib_same scEnv_def scEnrollmentRow_def scGatewayRow_def scPossession_def)
qed

lemma sc_match: "\<not> consumptionMismatch scLib scBinding scPossession"
  by (simp add: consumptionMismatch_def Let_def scPossession_def sc_hashes)
     (simp add: scAuthorization_def scEnrollment_def scChallenge_def scRequest_def scBinding_def scBase_def
       isStr_def sameMember_def jget_def)

lemma scConsumeBody_schema: "consumeBody scConsumeBody"
proof -
  have "jsLength (signPayload scLib scChallenge ''rk'' ''rkid'') \<le> 32 * 1024"
    "jsLength (signPayload scLib scRequest ''gk'' (replicate 22 (CHR ''0''))) \<le> 32 * 1024"
    by (simp_all add: scLib_same signPayload_def) (simp_all add: demoLib_def demoSign_def header_members
        messageTyp_def canonicalBytes_def sc_canonical sc_types [THEN isStr_jstr] bar_def)
  then show ?thesis
    unfolding consumeBody_def scConsumeBody_def
    by (intro zObject_in_order) (simp_all add: scBinding_schema anyString_def zString_def jwsText_def)
qed

definition scRow :: consumptionRow where
  "scRow = \<lparr> cAuthorizationId = scAuthId, cAuthorizationHash = scAuthHash, cBindingHash = replicate 64 (CHR ''f''),
     cRecipientId = scRecipient, cSessionId = scSession, cConsumedAt = 1000000, cExpiresAt = 1060000 \<rparr>"

lemma sc_input: "consumptionInput scLib scEnv scBinding scPossession = scRow"
  by (simp add: consumptionInput_def scPossession_def sc_hashes scRow_def scEnv_def scAuthorization_def)
     (simp add: scChallenge_def scBase_def jstr_def jget_def)

lemma scReceipt_schema: "consumptionReceiptSchema (legacyReceipt scEnv scRow)"
  unfolding consumptionReceiptSchema_def legacyReceipt_def scRow_def scEnv_def
  by (simp add: zObject_def sc_schema)

definition scConsumed :: serverState where
  "scConsumed = scState\<lparr> db := scDatabase\<lparr> authorizationConsumptions := [scRow] \<rparr> \<rparr>"

definition scReply :: "bool \<Rightarrow> consumeReply" where
  "scReply replay = ConsumedReply (legacyReceipt scEnv scRow)
     (signPayload scLib (legacyReceipt scEnv scRow) ''ik'' ''ikid'') replay"

lemma sc_atomic:
  "consumeAuthorizationAtomic scRow scDatabase =
     (Inr \<lparr> crRow = scRow, crReplay = False \<rparr>, scDatabase\<lparr> authorizationConsumptions := [scRow] \<rparr>)"
  "consumeAuthorizationAtomic scRow (scDatabase\<lparr> authorizationConsumptions := [scRow] \<rparr>) =
     (Inr \<lparr> crRow = scRow, crReplay = True \<rparr>, scDatabase\<lparr> authorizationConsumptions := [scRow] \<rparr>)"
  by (simp_all add: consumeAuthorizationAtomic_def atomically_def bindS_def readS_def updateS_def returnS_def
      insertConsumption_def selectOne_def scDatabase_def scAuthorization_def scRow_def emptyDatabase_def)

lemma sc_write: "users (db S) = users scDatabase \<Longrightarrow> sessions (db S) = sessions scDatabase \<Longrightarrow>
  protectedWrite scLib scEnv (scReq ''t'' p b) S = (Inr (scAuthSession ''t'' ''gateway-user'' ''gateway''), S)"
  by (simp add: protectedWrite_def bindS_def readS_def liftE_def returnS_def sc_sessions sc_csrf
      scEnv_def)

lemma sc_consume_step:
  assumes "consumeAuthorizationAtomic scRow D = (Inr \<lparr> crRow = scRow, crReplay = replay \<rparr>, D')"
    and "users D = users scDatabase" "sessions D = sessions scDatabase"
    and "authorizations D = authorizations scDatabase"
    and "gatewayRegistrations D = gatewayRegistrations scDatabase"
    and "recipientEnrollments D = recipientEnrollments scDatabase"
  shows "consumeAuthorization scLib scEnv scConsume \<lparr> db = D, registry = R \<rparr> =
    (Inr (scReply replay), \<lparr> db = D', registry = R \<rparr>)"
proof -
  have wr: "protectedWrite scLib scEnv scConsume \<lparr> db = D, registry = R \<rparr> =
      (Inr (scAuthSession ''t'' ''gateway-user'' ''gateway''), \<lparr> db = D, registry = R \<rparr>)"
    unfolding scConsume_def using assms(2,3) by (simp add: sc_write)
  have members: "reqBody scConsume = scConsumeBody" "reqParams scConsume = JObj [(''id'', JStr scAuthId)]"
    "headerDemoFail scConsume = None"
    by (simp_all add: scConsume_def scReq_def)
  have binding: "jobj scConsumeBody ''binding'' = scBinding" by (simp add: scConsumeBody_def jobj_def jget_def)
  have params: "idParams (JObj [(''id'', JStr scAuthId)])" "jstr (JObj [(''id'', JStr scAuthId)]) ''id'' = scAuthId"
    by (simp_all add: idParams_def zOpenObject_def anyString_def zString_def jstr_def jget_def)
  have role: "roleS (scAuthSession t u ''gateway'') [''gateway''] S = (Inr (), S)" for t u S
    by (simp add: roleS_def requireRole_def liftE_def scAuthSession_def)
  note ctx = sc_possessionContext [OF assms(4,5,6)]
  show ?thesis
    unfolding consumeAuthorization_def
    by (simp add: bindS_def wr role members params binding ctx assms(1) liftE_def readS_def guardS_def
        returnS_def onDb_def parseWith_def scConsumeBody_schema sc_verifyPossession sc_match sc_input
        scReceipt_schema scReply_def)
       (simp add: scEnv_def)
qed

lemma sc_consume: "consumeAuthorization scLib scEnv scConsume scState = (Inr (scReply False), scConsumed)"
  using sc_consume_step [OF sc_atomic(1)] by (simp add: scState_def scConsumed_def)

lemma sc_consume_again: "consumeAuthorization scLib scEnv scConsume scConsumed = (Inr (scReply True), scConsumed)"
  using sc_consume_step [OF sc_atomic(2)] by (simp add: scState_def scConsumed_def)

end
