(* ===== verification/Server_Properties.thy ===== *)
theory Server_Properties
  imports Server_Scenario
begin

text \<open>
  What the routes of the demonstration API guarantee together: the routes as the steps of a
  transition system, the invariants every step keeps, and the guarantees of single routes.
\<close>

section \<open>The transition system\<close>

datatype routeCall =
    Login string string string request
  | Logout request
  | EnrollSession string request
  | RegisterGateway string request
  | IssueAuthorization string request
  | CancelAuthorization request
  | RevokeAuthorizationDelegation request
  | ConsumeAuthorization request
  | SuspendRoute request
  | CreateProposal string string request
  | SignProposal request
  | ReadRoute

fun serve :: "lib \<Rightarrow> serverEnv \<Rightarrow> routeCall \<Rightarrow> serverState \<Rightarrow> serverState" where
  "serve L E (Login token csrf nonce req) S = snd (login L E token csrf nonce req S)"
| "serve L E (Logout req) S = snd (logout L E req S)"
| "serve L E (EnrollSession nonce req) S = snd (enrollSession L E nonce req S)"
| "serve L E (RegisterGateway nonce req) S = snd (registerGateway L E nonce req S)"
| "serve L E (IssueAuthorization nonce req) S = snd (issueAuthorization L E nonce req S)"
| "serve L E (CancelAuthorization req) S = snd (cancelAuthorization L E req S)"
| "serve L E (RevokeAuthorizationDelegation req) S = snd (revokeAuthorizationDelegation L E req S)"
| "serve L E (ConsumeAuthorization req) S = snd (consumeAuthorization L E req S)"
| "serve L E (SuspendRoute req) S = snd (suspendRoute L E req S)"
| "serve L E (CreateProposal uuid nonce req) S = snd (createProposal L E uuid nonce req S)"
| "serve L E (SignProposal req) S = snd (signProposal L E req S)"
| "serve L E ReadRoute S = S"

inductive serverRun :: "lib \<Rightarrow> serverState \<Rightarrow> serverState \<Rightarrow> bool" for L S0 where
  start: "serverRun L S0 S0"
| step: "serverRun L S0 S \<Longrightarrow> serverRun L S0 (serve L E c S)"

lemmas route_defs = login_def logout_def enrollSession_def registerGateway_def issueAuthorization_def
  cancelAuthorization_def revokeAuthorizationDelegation_def consumeAuthorization_def suspendRoute_def
  createProposal_def signProposal_def

section \<open>Invariants of the database\<close>

lemma preserves_onDb: "preserves J m \<Longrightarrow> preserves (\<lambda>S. J (db S)) (onDb m)"
  by (simp add: preserves_def onDb_def split: prod.splits) (metis snd_conv)

lemma preserves_onLedger [preserves_intros]: "preserves (\<lambda>S. J (db S)) (onLedger m)"
  by (simp add: preserves_def onLedger_def split: prod.splits)

lemma preserves_insertS:
  "(\<And>D D'. J D \<Longrightarrow> f D = Inr D' \<Longrightarrow> J D') \<Longrightarrow> preserves (\<lambda>S. J (db S)) (insertS f)"
  unfolding insertS_def by (intro preserves_onDb preserves_updateS) (auto simp: result_simps)

lemma preserves_request [preserves_intros]:
  "preserves I (protectedWrite L E req)" "preserves I (protectedRead L E req)" "preserves I (roleS s rs)"
  unfolding protectedWrite_def protectedRead_def roleS_def by (intro preserves_intros)+

text \<open>The tables that hold evidence only grow, and the keys of the rows are unique.\<close>

lemma insertConsumption_Inr:
  "insertConsumption r D = Inr (b, D') \<Longrightarrow>
     D' = (if b then D\<lparr> authorizationConsumptions := authorizationConsumptions D @ [r] \<rparr> else D) \<and>
     (b \<longleftrightarrow> \<not> list_ex (\<lambda>q. cAuthorizationId q = cAuthorizationId r) (authorizationConsumptions D)) \<and>
     (b \<longrightarrow> list_ex (\<lambda>a. aId a = cAuthorizationId r) (authorizations D))"
  by (auto simp: insertConsumption_def split: if_splits)

lemmas insert_defs = insertSession_def insertEnrollment_def insertGateway_def insertAuthorization_def
  insertProposal_def insertSignature_def insertConsumption_def

definition keepsConsumptions :: "consumptionRow list \<Rightarrow> database \<Rightarrow> bool" where
  "keepsConsumptions rows D \<longleftrightarrow> (\<exists>more. authorizationConsumptions D = rows @ more) \<and>
     distinct (map cAuthorizationId (authorizationConsumptions D))"

lemma keepsConsumptions_other:
  "authorizationConsumptions D' = authorizationConsumptions D \<Longrightarrow>
     keepsConsumptions rows D' = keepsConsumptions rows D"
  by (simp add: keepsConsumptions_def)

lemma insertConsumption_keeps:
  assumes "keepsConsumptions rows D" "insertConsumption r D = Inr (b, D')"
  shows "keepsConsumptions rows D'"
  using assms insertConsumption_Inr [OF assms(2)]
  by (auto simp: keepsConsumptions_def list_ex_iff split: if_splits)

section \<open>Invariants of runs\<close>

text \<open>
  The interface between the tables and the routes: a property of the database that every insert and
  every update the routes use keeps. Then every route keeps it, whether it succeeds or throws, and
  so does every run.
\<close>

locale server_invariant =
  fixes J :: "database \<Rightarrow> bool"
  assumes session: "J D \<Longrightarrow> insertSession r1 D = Inr D' \<Longrightarrow> J D'"
    and unsession: "J D \<Longrightarrow> J (D\<lparr> sessions := ss \<rparr>)"
    and enrollment: "J D \<Longrightarrow> insertEnrollment r2 D = Inr D' \<Longrightarrow> J D'"
    and gateway: "J D \<Longrightarrow> insertGateway r3 D = Inr D' \<Longrightarrow> J D'"
    and deactivate: "J D \<Longrightarrow> J (D\<lparr> gatewayRegistrations := gs \<rparr>)"
    and authorization: "J D \<Longrightarrow> insertAuthorization r4 D = Inr D' \<Longrightarrow> J D'"
    and cancellation: "J D \<Longrightarrow> J (D\<lparr> authorizations :=
      updateWhere (\<lambda>a. aId a = i \<and> aCancelledAt a = None) (\<lambda>a. a\<lparr> aCancelledAt := Some t \<rparr>) (authorizations D) \<rparr>)"
    and consumption: "J D \<Longrightarrow> insertConsumption r5 D = Inr (b, D') \<Longrightarrow> J D'"
    and proposal: "J D \<Longrightarrow> insertProposal r6 D = Inr D' \<Longrightarrow> J D'"
    and signature: "J D \<Longrightarrow> insertSignature r7 D = Inr (b, D') \<Longrightarrow> J D'"
    and finalisation: "J D \<Longrightarrow> J (D\<lparr> governanceProposals := ps \<rparr>)"
begin

lemma consume_atomic: "preserves J (consumeAuthorizationAtomic input)"
  unfolding consumeAuthorizationAtomic_def
  by (intro preserves_intros preserves_updateS) (rule consumption)

lemma routes:
  "preserves (\<lambda>S. J (db S)) (login L E token csrf nonce req)"
  "preserves (\<lambda>S. J (db S)) (logout L E req)"
  "preserves (\<lambda>S. J (db S)) (enrollSession L E nonce req)"
  "preserves (\<lambda>S. J (db S)) (registerGateway L E nonce req)"
  "preserves (\<lambda>S. J (db S)) (issueAuthorization L E nonce req)"
  "preserves (\<lambda>S. J (db S)) (cancelAuthorization L E req)"
  "preserves (\<lambda>S. J (db S)) (revokeAuthorizationDelegation L E req)"
  "preserves (\<lambda>S. J (db S)) (consumeAuthorization L E req)"
  "preserves (\<lambda>S. J (db S)) (suspendRoute L E req)"
  "preserves (\<lambda>S. J (db S)) (createProposal L E uuid nonce req)"
  "preserves (\<lambda>S. J (db S)) (signProposal L E req)"
  unfolding route_defs
  by (intro preserves_intros preserves_insertS preserves_onDb preserves_modifyS preserves_updateS
      consume_atomic;
      blast intro: session unsession enrollment gateway deactivate authorization cancellation
        consumption proposal signature finalisation)+

lemma serve_keeps: "J (db S) \<Longrightarrow> J (db (serve L E c S))"
  using routes by (cases c) (auto simp: preserves_def)

lemma run_keeps: "serverRun L S0 S \<Longrightarrow> J (db S0) \<Longrightarrow> J (db S)"
  by (induction rule: serverRun.induct) (simp_all add: serve_keeps)

end

interpretation consumptions: server_invariant "keepsConsumptions rows" for rows
  by unfold_locales
     (auto simp: keepsConsumptions_def insert_defs list_ex_iff split: if_splits)

text \<open>An authorization that is cancelled: it exists, and no row of its id is uncancelled.\<close>

definition cancelledIn :: "string \<Rightarrow> database \<Rightarrow> bool" where
  "cancelledIn i D \<longleftrightarrow> list_ex (\<lambda>a. aId a = i) (authorizations D) \<and>
     list_all (\<lambda>a. aId a = i \<longrightarrow> aCancelledAt a \<noteq> None) (authorizations D)"

interpretation cancelled: server_invariant "cancelledIn i" for i
proof
  fix D r D'
  assume "cancelledIn i D" "insertAuthorization r D = Inr D'"
  then show "cancelledIn i D'"
    by (fastforce simp: cancelledIn_def insertAuthorization_def list_all_iff list_ex_iff split: if_splits)
next
  fix D j t
  assume "cancelledIn i D"
  then show "cancelledIn i (D\<lparr> authorizations := updateWhere (\<lambda>a. aId a = j \<and> aCancelledAt a = None)
      (\<lambda>a. a\<lparr> aCancelledAt := Some t \<rparr>) (authorizations D) \<rparr>)"
    by (auto simp: cancelledIn_def list_ex_updateWhere list_all_iff updateWhere_in)
qed (auto simp: cancelledIn_def insert_defs split: if_splits)



section \<open>Write-once consumption\<close>

definition claimConsumption :: "database \<Rightarrow> consumptionRow \<Rightarrow> (ConsumptionRecord \<times> database) result" where
  "claimConsumption D c = (case consumeAuthorizationAtomic c D of
     (Inl e, _) \<Rightarrow> Inl e | (Inr r, D') \<Rightarrow> Inr (r, D'))"

definition boundTo :: "consumptionRow \<Rightarrow> string \<times> string \<times> string \<times> string" where
  "boundTo c = (cBindingHash c, cAuthorizationHash c, cRecipientId c, cSessionId c)"

definition consumptionSlot :: "database \<Rightarrow> string \<Rightarrow> (string \<times> string \<times> string \<times> string) option" where
  "consumptionSlot D i =
     map_option boundTo (selectOne (\<lambda>c. cAuthorizationId c = i) (authorizationConsumptions D))"

lemma find_append: "find p (xs @ ys) = (case find p xs of None \<Rightarrow> find p ys | Some x \<Rightarrow> Some x)"
  by (induction xs) auto

lemma consumeAtomic_Inr:
  assumes "consumeAuthorizationAtomic c D = (Inr r, D')"
  shows "\<exists>inserted. insertConsumption c D = Inr (inserted, D') \<and> crReplay r = (\<not> inserted) \<and>
      selectOne (\<lambda>q. cAuthorizationId q = cAuthorizationId c) (authorizationConsumptions D') = Some (crRow r)"
    and "boundTo (crRow r) = boundTo c"
    and "\<exists>a. selectOne (\<lambda>a. aId a = cAuthorizationId c) (authorizations D) = Some a \<and>
      aCancelledAt a = None \<and> cConsumedAt c < aExpiresAt a"
proof -
  from assms obtain inserted where ins: "insertConsumption c D = Inr (inserted, D')"
    and row: "(if inserted then Inr c else ofOption (Error ''CONSUMPTION_READ_AFTER_WRITE_FAILED'')
      (selectOne (\<lambda>q. cAuthorizationId q = cAuthorizationId c) (authorizationConsumptions D'))) = Inr (crRow r)"
    and replay: "crReplay r = (\<not> inserted)" and same: "boundTo (crRow r) = boundTo c"
    unfolding consumeAuthorizationAtomic_def
    by (auto simp: result_simps boundTo_def split: if_splits)
  show "boundTo (crRow r) = boundTo c" by (rule same)
  show "\<exists>a. selectOne (\<lambda>a. aId a = cAuthorizationId c) (authorizations D) = Some a \<and>
      aCancelledAt a = None \<and> cConsumedAt c < aExpiresAt a"
    using assms unfolding consumeAuthorizationAtomic_def
    by (auto simp: result_simps split: option.splits if_splits)
  have "selectOne (\<lambda>q. cAuthorizationId q = cAuthorizationId c) (authorizationConsumptions D') = Some (crRow r)"
  proof (cases inserted)
    case True
    with ins have none: "\<not> list_ex (\<lambda>q. cAuthorizationId q = cAuthorizationId c) (authorizationConsumptions D)"
      and D': "authorizationConsumptions D' = authorizationConsumptions D @ [c]"
      using insertConsumption_Inr [OF ins] by auto
    from none have "find (\<lambda>q. cAuthorizationId q = cAuthorizationId c) (authorizationConsumptions D) = None"
      by (simp add: find_None_iff list_ex_iff)
    with True row D' show ?thesis by (simp add: selectOne_def find_append)
  next
    case False
    with row show ?thesis by (simp add: result_simps)
  qed
  with ins replay show "\<exists>inserted. insertConsumption c D = Inr (inserted, D') \<and> crReplay r = (\<not> inserted) \<and>
      selectOne (\<lambda>q. cAuthorizationId q = cAuthorizationId c) (authorizationConsumptions D') = Some (crRow r)"
    by blast
qed

lemma claimConsumption_Inr: "claimConsumption D c = Inr (r, D') \<longleftrightarrow> consumeAuthorizationAtomic c D = (Inr r, D')"
  by (auto simp: claimConsumption_def split: prod.splits sum.splits)

interpretation consumption: once_store claimConsumption consumptionSlot cAuthorizationId boundTo
proof
  fix D c r D' assume claim: "claimConsumption D c = Inr (r, D')"
  note facts = consumeAtomic_Inr [OF claim [unfolded claimConsumption_Inr]]
  then show "consumptionSlot D' (cAuthorizationId c) = Some (boundTo c)"
    by (auto simp: consumptionSlot_def)
  from facts(1) obtain b where b: "insertConsumption c D = Inr (b, D')" by blast
  note D' = insertConsumption_Inr [OF b]
  show "consumptionSlot D' k = Some v" if "consumptionSlot D k = Some v" for k v
    using that D' by (auto simp: consumptionSlot_def selectOne_def find_append split: if_splits)
  show "consumptionSlot D' k = consumptionSlot D k" if "k \<noteq> cAuthorizationId c" for k
    using that D' by (auto simp: consumptionSlot_def selectOne_def find_append split: if_splits option.splits)
qed

section \<open>Single routes\<close>

lemma protectedWrite_Inr:
  "protectedWrite L E req S = (Inr session, S') \<longleftrightarrow>
     S' = S \<and> sessionForRequest L None (wallMs E) req (db S) = Inr session \<and>
     assertCsrf req session (webOrigin E) = Inr ()"
  by (auto simp: protectedWrite_def result_simps)

lemma protectedWrite_frame: "snd (protectedWrite L E req S) = S"
  by (auto simp: protectedWrite_def bindS_def readS_def liftE_def returnS_def split: sum.splits)

lemma roleS_Inr: "roleS session roles S = (Inr u, S') \<longleftrightarrow> S' = S \<and> asRole session \<in> set roles"
  by (auto simp: roleS_def requireRole_def liftE_def split: if_splits)

lemma roleS_frame: "snd (roleS session roles S) = S"
  by (simp add: roleS_def liftE_def)

text \<open>The request carries a live session, its request forgery token, the origin of the site and a role.\<close>

definition authorizedWrite :: "lib \<Rightarrow> serverEnv \<Rightarrow> request \<Rightarrow> string list \<Rightarrow> database \<Rightarrow> bool" where
  "authorizedWrite L E req roles D \<longleftrightarrow>
     (\<exists>session. sessionForRequest L None (wallMs E) req D = Inr session \<and>
        headerOrigin req = Some (webOrigin E) \<and> headerCsrf req = Some (asCsrfToken session) \<and>
        (roles = [] \<or> asRole session \<in> set roles))"

lemma assertCsrf_Inr:
  "assertCsrf req session origin = Inr () \<longleftrightarrow>
     headerOrigin req = Some origin \<and> headerCsrf req = Some (asCsrfToken session)"
  by (auto simp: assertCsrf_def split: if_splits option.splits)

text \<open>A route that starts with the session and the role changes nothing unless both are in order.\<close>

lemma write_guarded:
  assumes "snd (bindS (protectedWrite L E req) (\<lambda>session. bindS (roleS session roles) (\<lambda>_. f session)) S) \<noteq> S"
  shows "authorizedWrite L E req roles (db S)"
proof -
  obtain r S1 where w: "protectedWrite L E req S = (r, S1)" by fastforce
  with protectedWrite_frame [of L E req S] have S1: "S1 = S" by simp
  show ?thesis
  proof (cases r)
    case (Inl e)
    with assms w S1 show ?thesis by (simp add: bindS_def)
  next
    case (Inr session)
    with w S1 have "sessionForRequest L None (wallMs E) req (db S) = Inr session"
      "assertCsrf req session (webOrigin E) = Inr ()"
      by (auto simp: protectedWrite_Inr)
    moreover have "asRole session \<in> set roles"
    proof (rule ccontr)
      assume "asRole session \<notin> set roles"
      then have "roleS session roles S = (Inl (HttpError 403 ''ROLE_FORBIDDEN''), S)"
        by (simp add: roleS_def requireRole_def liftE_def)
      with assms w S1 Inr show False by (simp add: bindS_def)
    qed
    ultimately show ?thesis by (auto simp: authorizedWrite_def assertCsrf_Inr)
  qed
qed

text \<open>The roles that may use a route, and its request; the sign-in route is open.\<close>

fun routeRoles :: "routeCall \<Rightarrow> string list" where
  "routeRoles (EnrollSession _ _) = [''recipient'']"
| "routeRoles (RegisterGateway _ _) = [''gateway'']"
| "routeRoles (IssueAuthorization _ _) = [''institution'']"
| "routeRoles (CancelAuthorization _) = [''institution'']"
| "routeRoles (RevokeAuthorizationDelegation _) = [''institution'']"
| "routeRoles (ConsumeAuthorization _) = [''gateway'']"
| "routeRoles (SuspendRoute _) = [''demo_operator'']"
| "routeRoles (CreateProposal _ _ _) = [''demo_operator'']"
| "routeRoles (SignProposal _) = [''approver'']"
| "routeRoles _ = []"

fun routeRequest :: "routeCall \<Rightarrow> request option" where
  "routeRequest (Login _ _ _ r) = None"
| "routeRequest (Logout r) = Some r"
| "routeRequest (EnrollSession _ r) = Some r"
| "routeRequest (RegisterGateway _ r) = Some r"
| "routeRequest (IssueAuthorization _ r) = Some r"
| "routeRequest (CancelAuthorization r) = Some r"
| "routeRequest (RevokeAuthorizationDelegation r) = Some r"
| "routeRequest (ConsumeAuthorization r) = Some r"
| "routeRequest (SuspendRoute r) = Some r"
| "routeRequest (CreateProposal _ _ r) = Some r"
| "routeRequest (SignProposal r) = Some r"
| "routeRequest ReadRoute = None"

lemma logout_guarded:
  assumes "snd (logout L E req S) \<noteq> S"
  shows "authorizedWrite L E req [] (db S)"
proof -
  obtain r S1 where w: "protectedWrite L E req S = (r, S1)" by fastforce
  with protectedWrite_frame [of L E req S] have S1: "S1 = S" by simp
  show ?thesis
    using assms w S1
    by (cases r) (auto simp: logout_def bindS_def authorizedWrite_def protectedWrite_Inr assertCsrf_Inr
        dest: protectedWrite_Inr [THEN iffD1])
qed

lemma routes_guarded:
  "snd (enrollSession L E nonce req S) \<noteq> S \<Longrightarrow> authorizedWrite L E req [''recipient''] (db S)"
  "snd (registerGateway L E nonce req S) \<noteq> S \<Longrightarrow> authorizedWrite L E req [''gateway''] (db S)"
  "snd (issueAuthorization L E nonce req S) \<noteq> S \<Longrightarrow> authorizedWrite L E req [''institution''] (db S)"
  "snd (cancelAuthorization L E req S) \<noteq> S \<Longrightarrow> authorizedWrite L E req [''institution''] (db S)"
  "snd (revokeAuthorizationDelegation L E req S) \<noteq> S \<Longrightarrow> authorizedWrite L E req [''institution''] (db S)"
  "snd (consumeAuthorization L E req S) \<noteq> S \<Longrightarrow> authorizedWrite L E req [''gateway''] (db S)"
  "snd (suspendRoute L E req S) \<noteq> S \<Longrightarrow> authorizedWrite L E req [''demo_operator''] (db S)"
  "snd (createProposal L E uuid nonce req S) \<noteq> S \<Longrightarrow> authorizedWrite L E req [''demo_operator''] (db S)"
  "snd (signProposal L E req S) \<noteq> S \<Longrightarrow> authorizedWrite L E req [''approver''] (db S)"
  unfolding route_defs by (erule write_guarded)+

text \<open>
  C10: apart from sign-in, a route changes the database or the ledger only for a request from the
  site's own origin that carries an unexpired session, the request forgery token of that session,
  and a user whose role the route admits.
\<close>

theorem writes_are_authorized:
  assumes "serve L E c S \<noteq> S" "routeRequest c = Some req"
  shows "authorizedWrite L E req (routeRoles c) (db S)"
  using assms routes_guarded logout_guarded by (cases c) auto

section \<open>Consumption\<close>

lemma onDb_Inr: "onDb m S = (r, S') \<longleftrightarrow> (\<exists>D. m (db S) = (r, D) \<and> S' = S\<lparr> db := D \<rparr>)"
  by (auto simp: onDb_def split: prod.splits)

lemma consumeAuthorization_Inr:
  assumes "consumeAuthorization L E req S = (Inr reply, S')"
  shows "\<exists>session auth gateway enrollment po record.
    sessionForRequest L None (wallMs E) req (db S) = Inr session \<and> asRole session = ''gateway'' \<and>
    consumeBody (reqBody req) \<and>
    possessionContext E session (jstr (reqParams req) ''id'') (reqBody req) (db S) = Inr (auth, gateway, enrollment) \<and>
    verifyPossession L E (reqBody req) auth gateway enrollment = Inr po \<and>
    \<not> consumptionMismatch L (jobj (reqBody req) ''binding'') po \<and>
    consumeAuthorizationAtomic (consumptionInput L E (jobj (reqBody req) ''binding'') po) (db S) = (Inr record, db S') \<and>
    registry S' = registry S \<and>
    (reply = SigningFailureAfterCommit \<or>
     consumptionReceiptSchema (legacyReceipt E (crRow record)) \<and>
     reply = ConsumedReply (legacyReceipt E (crRow record))
       (signPayload L (legacyReceipt E (crRow record)) (seIssuerPrivate E) (seIssuerKid E)) (crReplay record))"
  using assms unfolding consumeAuthorization_def
  by (clarsimp simp: result_simps protectedWrite_Inr roleS_Inr onDb_Inr split: if_splits) fastforce

lemma possessionContext_Inr:
  assumes "possessionContext E session i body D = Inr (auth, gateway, enrollment)"
  shows "auth \<in> set (authorizations D)" "aId auth = i" "aCancelledAt auth = None"
    "nowSeconds E * 1000 < aExpiresAt auth" "gUserId gateway = asUserId session" "gActive gateway"
    "gId gateway = aGatewayRegistrationId auth" "eUserId enrollment = aRecipientId auth"
    "nowSeconds E * 1000 < eExpiresAt enrollment"
    "gateway \<in> set (gatewayRegistrations D)" "enrollment \<in> set (recipientEnrollments D)"
  using assms by (auto simp: possessionContext_def split: option.splits prod.splits dest!: selectOne_Some)


lemma legacyReceipt_members:
  "jstr (legacyReceipt E c) ''authorizationId'' = cAuthorizationId c"
  "jget (legacyReceipt E c) ''authorizationHash'' = Some (JStr (cAuthorizationHash c))"
  "jget (legacyReceipt E c) ''bindingHash'' = Some (JStr (cBindingHash c))"
  "jget (legacyReceipt E c) ''recipientId'' = Some (JStr (cRecipientId c))"
  "jget (legacyReceipt E c) ''sessionId'' = Some (JStr (cSessionId c))"
  "jget (legacyReceipt E c) ''consumedAt'' = Some (JNum (cConsumedAt c div 1000))"
  "jget (legacyReceipt E c) ''expiresAt'' = Some (JNum (cExpiresAt c div 1000))"
  by (simp_all add: legacyReceipt_def jget_def jstr_def)

text \<open>The row behind a receipt is in the table afterwards, and it stays there.\<close>

lemma consumed_row:
  assumes "consumeAuthorization L E req S = (Inr (ConsumedReply receipt jws replay), S')"
  obtains c where "receipt = legacyReceipt E c" "c \<in> set (authorizationConsumptions (db S'))"
    "replay \<longleftrightarrow> c \<in> set (authorizationConsumptions (db S)) \<or>
       list_ex (\<lambda>q. cAuthorizationId q = cAuthorizationId c) (authorizationConsumptions (db S))"
proof -
  from consumeAuthorization_Inr [OF assms] obtain inp rcd where
    atomic: "consumeAuthorizationAtomic inp (db S) = (Inr rcd, db S')"
    and reply: "receipt = legacyReceipt E (crRow rcd)" "replay = crReplay rcd" by auto
  from consumeAtomic_Inr(1) [OF atomic] obtain b where ins: "insertConsumption inp (db S) = Inr (b, db S')"
    and b: "crReplay rcd = (\<not> b)"
    and sel: "selectOne (\<lambda>q. cAuthorizationId q = cAuthorizationId inp) (authorizationConsumptions (db S'))
      = Some (crRow rcd)" by blast
  from selectOne_Some [OF sel] have mem: "crRow rcd \<in> set (authorizationConsumptions (db S'))"
    and key: "cAuthorizationId (crRow rcd) = cAuthorizationId inp" by auto
  have "crReplay rcd \<longleftrightarrow> crRow rcd \<in> set (authorizationConsumptions (db S)) \<or>
      list_ex (\<lambda>q. cAuthorizationId q = cAuthorizationId (crRow rcd)) (authorizationConsumptions (db S))"
    using insertConsumption_Inr [OF ins] b key by (auto simp: list_ex_iff)
  with reply mem that show ?thesis by blast
qed

text \<open>
  C8: an authorization is consumed once. Whatever requests are served after a first receipt was
  given, any later receipt for the same authorization is a replay that names the same binding,
  recipient, session and authorization hash and the same times.
\<close>

theorem authorization_consumed_once:
  assumes "distinct (map cAuthorizationId (authorizationConsumptions (db S0)))"
    and "consumeAuthorization L E1 r1 S0 = (Inr (ConsumedReply receipt1 jws1 replay1), S1)"
    and "serverRun L S1 S2"
    and "consumeAuthorization L E2 r2 S2 = (Inr (ConsumedReply receipt2 jws2 replay2), S3)"
    and "jstr receipt1 ''authorizationId'' = jstr receipt2 ''authorizationId''"
  shows "replay2 \<and> sameMembers receipt2 receipt1 [''authorizationHash'', ''bindingHash'', ''recipientId'',
    ''sessionId'', ''consumedAt'', ''expiresAt'']"
proof -
  from consumed_row [OF assms(2)] obtain c1 where c1: "receipt1 = legacyReceipt E1 c1"
    "c1 \<in> set (authorizationConsumptions (db S1))" by blast
  from consumed_row [OF assms(4)] obtain c2 where c2: "receipt2 = legacyReceipt E2 c2"
    "c2 \<in> set (authorizationConsumptions (db S3))"
    "replay2 \<longleftrightarrow> c2 \<in> set (authorizationConsumptions (db S2)) \<or>
       list_ex (\<lambda>q. cAuthorizationId q = cAuthorizationId c2) (authorizationConsumptions (db S2))" by blast
  have "keepsConsumptions [] (db S0)" using assms(1) by (simp add: keepsConsumptions_def)
  from preservesD [OF consumptions.routes(8) this assms(2)]
  have "keepsConsumptions (authorizationConsumptions (db S1)) (db S1)"
    by (simp add: keepsConsumptions_def)
  from consumptions.run_keeps [OF assms(3) this]
  have keep2: "keepsConsumptions (authorizationConsumptions (db S1)) (db S2)" .
  from preservesD [OF consumptions.routes(8) this assms(4)]
  have keep3: "keepsConsumptions (authorizationConsumptions (db S1)) (db S3)" .
  from c1(2) keep2 have in2: "c1 \<in> set (authorizationConsumptions (db S2))"
    by (auto simp: keepsConsumptions_def)
  from c1(2) keep3 have in3: "c1 \<in> set (authorizationConsumptions (db S3))"
    by (auto simp: keepsConsumptions_def)
  from assms(5) c1(1) c2(1) have key: "cAuthorizationId c1 = cAuthorizationId c2"
    by (simp add: legacyReceipt_members)
  with in3 c2(2) keep3 have "c1 = c2"
    by (auto simp: keepsConsumptions_def distinct_map inj_on_def)
  moreover from this c2(3) in2 have replay2 by blast
  ultimately show ?thesis using c1(1) c2(1) by (simp add: sameMember_def legacyReceipt_members)
qed

lemma consumeAuthorization_refused:
  assumes "\<And>session. \<exists>e. possessionContext E session (jstr (reqParams req) ''id'') (reqBody req) (db S) = Inl e"
  shows "\<exists>e. consumeAuthorization L E req S = (Inl e, S)"
proof -
  obtain r where w: "protectedWrite L E req S = (r, S)"
    using protectedWrite_frame [of L E req S] by (metis prod.collapse)
  show ?thesis
  proof (cases r)
    case (Inl e)
    with w show ?thesis by (simp add: consumeAuthorization_def bindS_def)
  next
    case (Inr session)
    from assms [of session] obtain e where
      "possessionContext E session (jstr (reqParams req) ''id'') (reqBody req) (db S) = Inl e" ..
    with Inr w show ?thesis
      by (auto simp: consumeAuthorization_def bindS_def roleS_def requireRole_def liftE_def readS_def
          parseWith_def split: sum.splits)
  qed
qed

lemma cancel_all:
  "list_all (\<lambda>a. aId a = i \<longrightarrow> (\<exists>y. aCancelledAt a = Some y))
     (updateWhere (\<lambda>a. aId a = i \<and> aCancelledAt a = None) (\<lambda>a. a\<lparr> aCancelledAt := Some t \<rparr>) rows)"
  by (induction rows) (auto simp: updateWhere_def)

lemma cancelAuthorization_Inr:
  assumes "cancelAuthorization L E req S = (Inr i, S')"
  shows "cancelledIn i (db S')"
proof -
  from assms obtain session where "list_ex (\<lambda>a. aId a = i \<and> aCancelledAt a = None) (authorizations (db S))"
    and "S' = S\<lparr> db := (db S)\<lparr> authorizations := updateWhere (\<lambda>a. aId a = i \<and> aCancelledAt a = None)
      (\<lambda>a. a\<lparr> aCancelledAt := Some (nowSeconds E * 1000) \<rparr>) (authorizations (db S)) \<rparr> \<rparr>"
    unfolding cancelAuthorization_def Let_def
    by (auto simp: result_simps protectedWrite_Inr roleS_Inr onDb_Inr)
  then show ?thesis
    by (simp add: cancelledIn_def list_ex_updateWhere cancel_all) (auto simp: list_ex_iff)
qed

text \<open>
  A cancellation is final: once the institution has cancelled an authorization, no request, by
  whomever and however many requests later, consumes it, and the attempt changes nothing.
\<close>

theorem cancelled_authorization_never_consumed:
  assumes "cancelAuthorization L E1 r1 S0 = (Inr i, S1)"
    and "serverRun L S1 S2" "jstr (reqParams r2) ''id'' = i"
  shows "\<exists>e. consumeAuthorization L E2 r2 S2 = (Inl e, S2)"
proof -
  from cancelAuthorization_Inr [OF assms(1)] have "cancelledIn i (db S1)" .
  from cancelled.run_keeps [OF assms(2) this] have canc: "cancelledIn i (db S2)" .
  show ?thesis
  proof (rule consumeAuthorization_refused)
    fix session
    show "\<exists>e. possessionContext E2 session (jstr (reqParams r2) ''id'') (reqBody r2) (db S2) = Inl e"
    proof (cases "possessionContext E2 session (jstr (reqParams r2) ''id'') (reqBody r2) (db S2)")
      case (Inr v)
      then obtain auth gateway enrollment where
        "possessionContext E2 session (jstr (reqParams r2) ''id'') (reqBody r2) (db S2) = Inr (auth, gateway, enrollment)"
        by (cases v) auto
      from possessionContext_Inr(1-3) [OF this] assms(3) canc have False
        by (auto simp: cancelledIn_def list_all_iff)
      then show ?thesis ..
    qed simp
  qed
qed


section \<open>Governance\<close>






section \<open>A registration that fails\<close>

lemma deactivate_all:
  "list_all (\<lambda>g. gUserId g = u \<longrightarrow> \<not> gActive g)
     (updateWhere (\<lambda>g. gUserId g = u) (\<lambda>g. g\<lparr> gActive := False \<rparr>) rows)"
  by (induction rows) (auto simp: updateWhere_def)

text \<open>
  Registering a gateway key deactivates the user's earlier registrations before the new one is
  inserted, outside a transaction: when the insert is refused (the key identifier is already
  registered), the request fails and leaves the user without any active registration.
\<close>

theorem failed_registration_deactivates:
  assumes "sessionForRequest L None (wallMs E) req (db S) = Inr session" "asRole session = ''gateway''"
    and "assertCsrf req session (webOrigin E) = Inr ()"
    and "zObject (publicKeyBody @ [(''delegationId'', longId)]) [] (reqBody req)"
    and "assertKid L (jobj (reqBody req) ''publicJwk'') (jstr (reqBody req) ''kid'') = Inr ()"
    and "list_ex (\<lambda>g. gKid g = jstr (reqBody req) ''kid'') (gatewayRegistrations (db S))"
  shows "fst (registerGateway L E nonce req S) = Inl LibraryError \<and>
    list_all (\<lambda>g. gUserId g = asUserId session \<longrightarrow> \<not> gActive g)
      (gatewayRegistrations (db (snd (registerGateway L E nonce req S))))"
proof -
  let ?D = "(db S)\<lparr> gatewayRegistrations := updateWhere (\<lambda>g. gUserId g = asUserId session)
    (\<lambda>g. g\<lparr> gActive := False \<rparr>) (gatewayRegistrations (db S)) \<rparr>"
  have "protectedWrite L E req S = (Inr session, S)" using assms(1,3) by (simp add: protectedWrite_Inr)
  moreover have "list_ex (\<lambda>g. gKid g = jstr (reqBody req) ''kid'') (gatewayRegistrations ?D)"
    using assms(6) by (simp add: list_ex_updateWhere)
  then have "insertGateway row ?D = Inl LibraryError" if "gKid row = jstr (reqBody req) ''kid''" for row
    using that by (auto simp: insertGateway_def list_ex_iff)
  ultimately have "registerGateway L E nonce req S = (Inl LibraryError, S\<lparr> db := ?D \<rparr>)"
    using assms(2,4,5)
    by (simp add: registerGateway_def bindS_def roleS_def requireRole_def liftE_def parseWith_def onDb_def
        modifyS_def insertS_def updateS_def Let_def)
  then show ?thesis by (simp add: deactivate_all)
qed

section \<open>The theorems on the concrete scenario\<close>

definition scLogout :: request where
  "scLogout = scReq ''t'' JNull JNull"

theorem writes_are_authorized_witness:
  "serve scLib scEnv (Logout scLogout) scState \<noteq> scState \<and>
   authorizedWrite scLib scEnv scLogout [] scDatabase"
proof -
  have "serve scLib scEnv (Logout scLogout) scState \<noteq> scState"
  proof
    assume "serve scLib scEnv (Logout scLogout) scState = scState"
    then have "length (sessions (db (serve scLib scEnv (Logout scLogout) scState))) = length (sessions scDatabase)"
      by (simp add: scState_def)
    moreover have "protectedWrite scLib scEnv scLogout scState = (Inr (scAuthSession ''t'' ''gateway-user'' ''gateway''), scState)"
      unfolding scLogout_def by (rule sc_write) (simp_all add: scState_def)
    ultimately show False
      by (simp add: logout_def bindS_def onDb_def modifyS_def scState_def)
         (simp add: scDatabase_def scSessionRow_def scAuthSession_def)
  qed
  from writes_are_authorized [OF this] this show ?thesis by (simp add: scState_def)
qed

theorem authorization_consumed_once_witness:
  "consumeAuthorization scLib scEnv scConsume scState = (Inr (scReply False), scConsumed) \<and>
   consumeAuthorization scLib scEnv scConsume scConsumed = (Inr (scReply True), scConsumed) \<and>
   sameMembers (legacyReceipt scEnv scRow) (legacyReceipt scEnv scRow) [''authorizationHash'', ''bindingHash'',
     ''recipientId'', ''sessionId'', ''consumedAt'', ''expiresAt'']"
proof -
  have "distinct (map cAuthorizationId (authorizationConsumptions (db scState)))"
    by (simp add: scState_def scDatabase_def emptyDatabase_def)
  from authorization_consumed_once [OF this sc_consume [unfolded scReply_def] serverRun.start
      sc_consume_again [unfolded scReply_def] refl]
  show ?thesis using sc_consume sc_consume_again by blast
qed

definition scCancel :: request where
  "scCancel = scReq ''tt'' (JObj [(''id'', JStr scAuthId)]) JNull"

definition scCancelled :: serverState where
  "scCancelled = snd (cancelAuthorization scLib scEnv scCancel scState)"

lemma sc_cancel: "cancelAuthorization scLib scEnv scCancel scState = (Inr scAuthId, scCancelled)"
proof -
  have "protectedWrite scLib scEnv scCancel scState =
      (Inr (scAuthSession ''tt'' ''institution-user'' ''institution''), scState)"
    unfolding scCancel_def
    by (simp add: protectedWrite_def bindS_def readS_def liftE_def returnS_def sc_sessions sc_csrf scEnv_def scState_def)
  moreover have "idParams (reqParams scCancel)" "jstr (reqParams scCancel) ''id'' = scAuthId"
    by (simp_all add: scCancel_def scReq_def idParams_def zOpenObject_def anyString_def zString_def jstr_def jget_def)
  moreover have "list_ex (\<lambda>a. aId a = scAuthId \<and> aCancelledAt a = None) (authorizations (db scState))"
    by (simp add: scState_def scDatabase_def scAuthorization_def)
  ultimately have "fst (cancelAuthorization scLib scEnv scCancel scState) = Inr scAuthId"
    by (simp add: cancelAuthorization_def bindS_def roleS_def requireRole_def liftE_def readS_def parseWith_def
        onDb_def modifyS_def guardS_def returnS_def Let_def scAuthSession_def)
  then show ?thesis by (metis prod.collapse scCancelled_def)
qed

theorem cancelled_authorization_never_consumed_witness:
  "cancelAuthorization scLib scEnv scCancel scState = (Inr scAuthId, scCancelled) \<and>
   (\<exists>e. consumeAuthorization scLib scEnv scConsume scCancelled = (Inl e, scCancelled))"
proof -
  have "jstr (reqParams scConsume) ''id'' = scAuthId"
    by (simp add: scConsume_def scReq_def jstr_def jget_def)
  from cancelled_authorization_never_consumed [OF sc_cancel serverRun.start this, of scEnv] sc_cancel
  show ?thesis by blast
qed











definition scRegister :: request where
  "scRegister = scReq ''t'' JNull (JObj [(''publicJwk'', demoJwk ''abcdefghijklmnopqrstuv''),
     (''kid'', JStr (replicate 22 (CHR ''0''))), (''delegationId'', JStr scDelegation)])"

theorem failed_registration_deactivates_witness:
  "gActive scGatewayRow \<and> fst (registerGateway scLib scEnv ''n'' scRegister scState) = Inl LibraryError \<and>
   \<not> list_ex (\<lambda>g. gUserId g = ''gateway-user'' \<and> gActive g)
     (gatewayRegistrations (db (snd (registerGateway scLib scEnv ''n'' scRegister scState))))"
proof -
  have kidtext: "jstr (reqBody scRegister) ''kid'' = replicate 22 (CHR ''0'')"
    by (simp add: scRegister_def scReq_def jstr_def jget_def)
  have s: "sessionForRequest scLib None (wallMs scEnv) scRegister (db scState) =
      Inr (scAuthSession ''t'' ''gateway-user'' ''gateway'')"
    unfolding scRegister_def by (simp add: sc_sessions scState_def scEnv_def)
  have c: "assertCsrf scRegister (scAuthSession ''t'' ''gateway-user'' ''gateway'') (webOrigin scEnv) = Inr ()"
    unfolding scRegister_def by (simp add: scEnv_def sc_csrf)
  have b: "zObject (publicKeyBody @ [(''delegationId'', longId)]) [] (reqBody scRegister)"
    by (simp add: scRegister_def scReq_def publicKeyBody_def zObject_def publicJwkBody_def zOpenObject_def demoJwk_def
        schema_eval anyString_def longId_def scDelegation_def)
  have k: "assertKid scLib (jobj (reqBody scRegister) ''publicJwk'') (jstr (reqBody scRegister) ''kid'') = Inr ()"
    unfolding kidtext
    by (simp add: assertKid_def scRegister_def scReq_def jobj_def jget_def demoJwk_def isStr_def anyString_def
        zString_def jstr_def scLib_def demoLib_def demoSha_def lowerHexChars_def bufferFromBase64url_def
        b64value_def b64alphabet_def stdChar_def)
  have l: "list_ex (\<lambda>g. gKid g = jstr (reqBody scRegister) ''kid'') (gatewayRegistrations (db scState))"
    unfolding kidtext by (simp add: scState_def scDatabase_def scGatewayRow_def)
  from failed_registration_deactivates [OF s _ c b k l, of "''n''"]
  have fail: "fst (registerGateway scLib scEnv ''n'' scRegister scState) = Inl LibraryError"
    and off: "list_all (\<lambda>g. gUserId g = ''gateway-user'' \<longrightarrow> \<not> gActive g)
      (gatewayRegistrations (db (snd (registerGateway scLib scEnv ''n'' scRegister scState))))"
    by (simp_all add: scAuthSession_def)
  with off show ?thesis by (auto simp: list_all_iff list_ex_iff scGatewayRow_def)
qed

end
