(* ===== verification/Institution.thy ===== *)
theory Institution
  imports Effects Finals
begin

text \<open>
  The aggregate of one institution, \<^verbatim>\<open>InstitutionRecord\<close> of \<^verbatim>\<open>services/api/src/finals-model.ts\<close>,
  with the call state of the service profile (\<^verbatim>\<open>service-state.ts\<close>) and of configuration proposals
  (\<^verbatim>\<open>configuration.ts\<close>) it contains, and the functions of \<^verbatim>\<open>finals-model.ts\<close> that every operation
  starts from: membership, the active intent, the visible workspace, the live attempt, the import of
  a fraud detection case, permissions and initial accounts.

  Signed messages are kept as JSON. A member that is absent and one that is empty are not told apart
  where the code reads it with \<^verbatim>\<open>?? {}\<close> or \<^verbatim>\<open>?? []\<close>.
\<close>

section \<open>The data of \<^verbatim>\<open>finals-model.ts\<close>\<close>

record Actor =
  acUser :: string
  acRole :: string
  acInstitution :: string
  acService :: "string option"
  acGeneration :: "int option"

datatype IntentStatus = IntentOpen | IntentCancelled | IntentCompleted

record ContactIntent =
  ciId :: string
  ciInstitution :: string
  ciRecipient :: string
  ciAgent :: string
  ciService :: string
  ciPurpose :: string
  ciPolicyHash :: string
  ciExpiresAt :: int
  ciStatus :: IntentStatus
  ciSource :: string

datatype CallStatus = CallCreated | CallAuthorized | CallConsumed | CallCancelled | CallEnded

record CallAttempt =
  caId :: string
  caIntent :: string
  caSession :: string
  caAgent :: string
  caStatus :: CallStatus
  caExpiresAt :: int

record RegisteredService =
  svDid :: string
  svKid :: string
  svKey :: json
  svVersion :: int
  svActive :: bool

record Member =
  mbRole :: string
  mbService :: "string option"
  mbPermissions :: "string list option"
  mbActive :: "bool option"
  mbGeneration :: "int option"

record DelegationItem =
  diVc :: json
  diJws :: string
  diRevoked :: bool

record AuthorizationItem =
  aiPayload :: json
  aiJws :: string
  aiCancelled :: bool

record Signed =
  sgPayload :: json
  sgJws :: string

record RecipientKey =
  rkUser :: string
  rkKey :: json
  rkExpiresAt :: int

record AuditEntry =
  adId :: string
  adEvent :: string
  adActor :: string
  adAt :: int
  adObject :: string

record PendingEvent =
  peId :: string
  peKind :: string
  peObject :: string
  peAt :: int
  pePayload :: json

record PendingUsage =
  puKey :: string
  puUnits :: int
  puLimit :: int
  puExpiresAt :: int

record Directory =
  dirHash :: string
  dirVersion :: int
  dirEntries :: json

record LedgerObservation =
  loEvent :: string
  loBlock :: string
  loBlockHash :: string
  loTransactionHash :: string
  loAppliedAt :: int

record RecoveryLedger =
  rlTransactionHash :: string
  rlBlock :: string
  rlConfirmedAt :: int

record RecoveryActivation =
  raEpoch :: string
  raKeyVersion :: int
  raVerifiedAt :: int

record RecoveryState =
  rcHash :: string
  rcRequest :: json
  rcSignatures :: "string dict"
  rcSubmitted :: bool
  rcLedger :: "RecoveryLedger option"
  rcActivation :: "RecoveryActivation option"

section \<open>Configuration proposals and the service profile\<close>

datatype ProposalStatus = AwaitingApproval | Submitted | Confirmed | ProposalFailed

record ConfigurationProposal =
  cpId :: string
  cpRequest :: json
  cpContents :: json
  cpPrevious :: "json option"
  cpSignatures :: "string dict"
  cpStatus :: ProposalStatus
  cpActivatedAt :: "int option"
  cpTransactionHash :: "string option"
  cpBlock :: "string option"
  cpFailure :: "string option"

datatype AttemptStatus =
    SCreated | SAuthorized | SConsumed | SAccepted | SEnded | SDeclined | SNoAnswer | SFailed | SCancelled

definition terminal :: "AttemptStatus \<Rightarrow> bool" where
  "terminal status \<longleftrightarrow> status \<in> {SEnded, SDeclined, SNoAnswer, SFailed, SCancelled}"

datatype AuthorityStatus = Current | Unavailable | Revoked

record ServiceKey =
  skUser :: string
  skKey :: json
  skNonce :: string

record Renewal =
  rnNonce :: string
  rnSequence :: int
  rnPriorLeaseHash :: string
  rnIssuedAt :: int
  rnExpiresAt :: int
  rnProofs :: "string dict"

record Consent =
  cnGranted :: bool
  cnGeneration :: int
  cnAt :: int
  cnStream :: "string option"

record Cleanup =
  clStatus :: string
  clObservedAt :: int
  clSource :: string
  clAttempts :: int

record PbxReport =
  prCallId :: string
  prSdp :: string
  prRemoteSdp :: string
  prFingerprint :: string
  prProof :: string

datatype PbxState = PbxReserved | PbxPrepared | PbxBridged | PbxEnded

record PbxSession =
  pxBridge :: string
  pxSenderChannel :: string
  pxRecipientChannel :: string
  pxSenderEndpoint :: string
  pxRecipientEndpoint :: string
  pxState :: PbxState
  pxEvidence :: "string option"
  pxCredentials :: "string dict"
  pxReports :: "PbxReport dict"

record ServiceAttempt =
  saId :: string
  saIntent :: string
  saAgent :: string
  saSession :: string
  saGeneration :: string
  saProfile :: string
  saStatus :: AttemptStatus
  saFirstConnectBy :: int
  saCallEndBy :: int
  saRevision :: int
  saAuthorityStatus :: "AuthorityStatus option"
  saAuthorityUntil :: "int option"
  saAuthorization :: "string option"
  saBinding :: "json option"
  saLease :: "Signed option"
  saRecipientKey :: "ServiceKey option"
  saPossessions :: "string dict"
  saMediaReady :: "string dict"
  saRenewal :: "Renewal option"
  saOwnerSessions :: "string dict"
  saEndedAt :: "int option"
  saReason :: "string option"
  saConsent :: "Consent option"
  saUnverifiedChoice :: "string option"
  saCleanup :: "Cleanup option"
  saPbx :: "PbxSession option"

datatype CredentialState = CredentialPending | CredentialRegistered | RevokeRequested | CredentialRevoked

record ServiceDelegation =
  sdVc :: json
  sdJws :: string
  sdState :: CredentialState

record ServiceChallenge =
  scPayloadOf :: json
  scUsed :: bool

record ServiceAuthorization =
  sauPayload :: json
  sauJws :: string
  sauProofJws :: string
  sauCancelled :: bool

record Checkpoint =
  ckHeight :: string
  ckHash :: string
  ckPayloadHash :: string
  ckFirstSeenAt :: int
  ckBlockTimestamp :: int

record QuotaEntry =
  quLimit :: int
  quUsed :: int
  quReserved :: int
  quExpiresAt :: int

record Confirmation =
  cfId :: string
  cfAnswer :: string
  cfAt :: int
  cfUser :: string

text \<open>
  What an idempotent operation of the service profile returns; the reply is kept under the request
  identifier, so that the same request is answered with the same reply.
\<close>

datatype ServiceReply =
    ReplyIntent ContactIntent
  | ReplyCredential string ServiceDelegation
  | ReplyAttempt ServiceAttempt
  | ReplyPayload json
  | ReplyAuthorization ServiceAuthorization
  | ReplySigned Signed
  | ReplyRevoked
  | ReplyLease AuthorityStatus Signed
  | ReplyRenewal Renewal
  | ReplyReady bool
  | ReplyConsent Consent
  | ReplyJson json

record RequestEntry =
  rqHash :: string
  rqAt :: int
  rqReply :: ServiceReply

record ServiceState =
  ssReady :: bool
  ssCredentials :: "ServiceDelegation dict"
  ssAttempts :: "ServiceAttempt dict"
  ssChallenges :: "ServiceChallenge dict"
  ssAuthorizations :: "ServiceAuthorization dict"
  ssConsumptions :: "Signed dict"
  ssRequests :: "RequestEntry dict"
  ssCheckpoints :: "Checkpoint dict"
  ssQuotas :: "QuotaEntry dict"
  ssConfirmations :: "Confirmation dict"

definition newServiceState :: ServiceState where
  "newServiceState = \<lparr> ssReady = True, ssCredentials = [], ssAttempts = [], ssChallenges = [],
     ssAuthorizations = [], ssConsumptions = [], ssRequests = [], ssCheckpoints = [], ssQuotas = [],
     ssConfirmations = [] \<rparr>"

section \<open>The institution record\<close>

datatype RecordStatus = InstitutionActive | InstitutionSuspended

datatype RegistrationState = RegistrationPending | RegistrationFailed | RegistrationConfirmed

record InstitutionRecord =
  irCheckpointVersion :: "int option"
  irUri :: "string option"
  irObservedEpoch :: "string option"
  irLedgerObservation :: "LedgerObservation option"
  irRegistrationOperation :: "string option"
  irRegistrationState :: "RegistrationState option"
  irDirectory :: "Directory option"
  irProposals :: "ConfigurationProposal dict"
  irRecovery :: "RecoveryState option"
  irService :: "ServiceState option"
  irPendingEvents :: "PendingEvent list"
  irPendingUsage :: "PendingUsage list"
  irId :: string
  irDid :: string
  irEpoch :: string
  irKeyVersion :: int
  irKid :: string
  irPublicKey :: json
  irStatus :: RecordStatus
  irPolicy :: json
  irServices :: "RegisteredService dict"
  irMembers :: "Member dict"
  irIntents :: "ContactIntent dict"
  irAttempts :: "CallAttempt dict"
  irCredentials :: "DelegationItem dict"
  irAuthorizations :: "AuthorizationItem dict"
  irConsumptions :: "Signed dict"
  irRecipientKeys :: "RecipientKey dict"
  irAudit :: "AuditEntry list"

section \<open>The authority metadata that is anchored\<close>

definition optionalMember :: "string \<Rightarrow> json option \<Rightarrow> (string \<times> json) list" where
  "optionalMember k v = (case v of None \<Rightarrow> [] | Some w \<Rightarrow> [(k, w)])"

definition memberJson :: "Member \<Rightarrow> json" where
  "memberJson m = JObj ((''role'', JStr (mbRole m)) # optionalMember ''serviceDid'' (map_option JStr (mbService m)) @
     optionalMember ''permissions'' (map_option (\<lambda>ps. JArr (map JStr ps)) (mbPermissions m)) @
     optionalMember ''active'' (map_option JBool (mbActive m)) @
     optionalMember ''sessionGeneration'' (map_option JNum (mbGeneration m)))"

definition serviceJson :: "RegisteredService \<Rightarrow> json" where
  "serviceJson s = JObj [(''did'', JStr (svDid s)), (''kid'', JStr (svKid s)), (''publicKey'', svKey s),
     (''keyVersion'', JNum (svVersion s)), (''active'', JBool (svActive s))]"

definition authorityStateHash :: "lib \<Rightarrow> InstitutionRecord \<Rightarrow> string" where
  "authorityStateHash L r = hashCanonical L (JObj
     [(''epoch'', JStr (irEpoch r)), (''approvalKeyVersion'', JNum (irKeyVersion r)),
      (''approvalKid'', JStr (irKid r)), (''approvalPublicKey'', irPublicKey r),
      (''members'', JObj (dmap memberJson (irMembers r))),
      (''services'', JObj (dmap serviceJson (irServices r))), (''policy'', irPolicy r)])"

section \<open>Membership and the active intent\<close>

definition memberRole :: "InstitutionRecord \<Rightarrow> string \<Rightarrow> string option" where
  "memberRole r user = map_option mbRole (dget (irMembers r) user)"

definition memberInactive :: "InstitutionRecord \<Rightarrow> string \<Rightarrow> bool" where
  "memberInactive r user = (case dget (irMembers r) user of Some m \<Rightarrow> mbActive m = Some False | None \<Rightarrow> False)"

definition memberService :: "InstitutionRecord \<Rightarrow> string \<Rightarrow> string option" where
  "memberService r user = (case dget (irMembers r) user of Some m \<Rightarrow> mbService m | None \<Rightarrow> None)"

definition sessionGeneration :: "InstitutionRecord \<Rightarrow> string \<Rightarrow> int" where
  "sessionGeneration r user = (case dget (irMembers r) user of
     Some m \<Rightarrow> (case mbGeneration m of Some g \<Rightarrow> g | None \<Rightarrow> 0) | None \<Rightarrow> 0)"

definition memberPermits :: "InstitutionRecord \<Rightarrow> string \<Rightarrow> string \<Rightarrow> bool" where
  "memberPermits r user permission = (case dget (irMembers r) user of
     Some m \<Rightarrow> (case mbPermissions m of Some ps \<Rightarrow> permission \<in> set ps | None \<Rightarrow> False) | None \<Rightarrow> False)"

definition membership :: "InstitutionRecord \<Rightarrow> Actor \<Rightarrow> string list \<Rightarrow> unit result" where
  "membership r actor roles =
     (if irId r \<noteq> acInstitution actor \<or> acRole actor \<notin> set roles \<or>
         memberRole r (acUser actor) \<noteq> Some (acRole actor) \<or> memberInactive r (acUser actor) \<or>
         (acGeneration actor \<noteq> None \<and> acGeneration actor \<noteq> Some (sessionGeneration r (acUser actor)))
      then Inl (HttpError 403 ''OBJECT_FORBIDDEN'') else Inr ())"

definition intentHidden :: "InstitutionRecord \<Rightarrow> Actor \<Rightarrow> ContactIntent \<Rightarrow> bool" where
  "intentHidden r actor intent \<longleftrightarrow>
     ciInstitution intent \<noteq> irId r \<or>
     (acRole actor = ''gateway'' \<and>
        (ciAgent intent \<noteq> acUser actor \<or> memberService r (acUser actor) \<noteq> Some (ciService intent))) \<or>
     (acRole actor = ''recipient'' \<and> ciRecipient intent \<noteq> acUser actor)"

definition activeIntent :: "lib \<Rightarrow> InstitutionRecord \<Rightarrow> string \<Rightarrow> Actor \<Rightarrow> int \<Rightarrow> ContactIntent result" where
  "activeIntent L r intentId actor now =
     bindE (membership r actor [''gateway'', ''institution'', ''recipient'']) (\<lambda>_.
       case dget (irIntents r) intentId of
         None \<Rightarrow> Inl (HttpError 404 ''INTENT_NOT_FOUND'')
       | Some intent \<Rightarrow>
           if intentHidden r actor intent then Inl (HttpError 404 ''INTENT_NOT_FOUND'')
           else if irStatus r \<noteq> InstitutionActive \<or> ciStatus intent \<noteq> IntentOpen \<or> now \<ge> ciExpiresAt intent
           then Inl (HttpError 409 ''INTENT_NOT_ACTIVE'')
           else bindE (policyHash L (irPolicy r)) (\<lambda>h.
             if ciPolicyHash intent \<noteq> h then Inl (HttpError 409 ''INTENT_NOT_ACTIVE'') else Inr intent))"

section \<open>The workspace of an actor\<close>

record Workspace =
  wsActor :: Actor
  wsPolicy :: json
  wsIntents :: "ContactIntent list"
  wsAuthorizations :: "AuthorizationItem list"
  wsCredentials :: "(string \<times> DelegationItem) list"
  wsServices :: "string list"
  wsAttempts :: "CallAttempt list"

definition intentVisible :: "InstitutionRecord \<Rightarrow> Actor \<Rightarrow> ContactIntent \<Rightarrow> bool" where
  "intentVisible r actor intent \<longleftrightarrow>
     ciInstitution intent = irId r \<and>
     (acRole actor = ''institution'' \<or>
      (if acRole actor = ''gateway''
       then ciAgent intent = acUser actor \<and> memberService r (acUser actor) = Some (ciService intent)
       else acRole actor = ''recipient'' \<and> ciRecipient intent = acUser actor))"

definition workspaceFor :: "InstitutionRecord \<Rightarrow> Actor \<Rightarrow> Workspace result" where
  "workspaceFor r actor =
     bindE (membership r actor [''institution'', ''gateway'', ''recipient'', ''approver'']) (\<lambda>_.
       let intents = filter (intentVisible r actor) (dvalues (irIntents r));
           intentIds = map ciId intents;
           attempts = filter (\<lambda>a. caIntent a \<in> set intentIds \<and>
                        map_option ciAgent (dget (irIntents r) (caIntent a)) = Some (caAgent a)) (dvalues (irAttempts r));
           attemptIds = map caId attempts;
           auths = filter (\<lambda>i. let p = aiPayload i in
                     isStr p ''institutionId'' (irId r) \<and> jstr p ''intentId'' \<in> set intentIds \<and>
                     jstr p ''attemptId'' \<in> set attemptIds \<and>
                     map_option ciRecipient (dget (irIntents r) (jstr p ''intentId'')) = Some (jstr p ''recipientId''))
                   (dvalues (irAuthorizations r));
           credentialIds = map (\<lambda>i. jstr (aiPayload i) ''vcDigest'') auths;
           assignedServices = map ciService intents;
           credentials = filter (\<lambda>(vcDigest, item).
                     acRole actor = ''institution'' \<or>
                     (if acRole actor = ''gateway''
                      then jstr (jobj (diVc item) ''credentialSubject'') ''id'' \<in> set assignedServices
                      else acRole actor = ''recipient'' \<and> vcDigest \<in> set credentialIds)) (irCredentials r)
       in Inr \<lparr> wsActor = actor, wsPolicy = irPolicy r, wsIntents = intents, wsAuthorizations = auths,
                wsCredentials = credentials,
                wsServices = (if acRole actor = ''institution'' then map fst (irServices r) else []),
                wsAttempts = attempts \<rparr>)"

section \<open>The live attempt\<close>

definition authorizationDead :: "InstitutionRecord \<Rightarrow> ContactIntent \<Rightarrow> AuthorizationItem \<Rightarrow> int \<Rightarrow> bool" where
  "authorizationDead r intent auth now \<longleftrightarrow>
     (let p = aiPayload auth in
      aiCancelled auth \<or> \<not> isStr p ''institutionId'' (irId r) \<or> \<not> isStr p ''recipientId'' (ciRecipient intent) \<or>
      \<not> isStr p ''policyHash'' (ciPolicyHash intent) \<or> \<not> isStr p ''epoch'' (irEpoch r) \<or>
      \<not> isNum p ''approvalKeyVersion'' (irKeyVersion r) \<or> jnum p ''expiresAt'' \<le> now)"

definition credentialDead :: "InstitutionRecord \<Rightarrow> ContactIntent \<Rightarrow> RegisteredService \<Rightarrow> json \<Rightarrow> int \<Rightarrow> bool" where
  "credentialDead r intent service vc now \<longleftrightarrow>
     (let s = jobj vc ''credentialSubject''; status = jobj vc ''credentialStatus'' in
      now * 1000 < dateParse (jstr vc ''validFrom'') \<or> now * 1000 \<ge> dateParse (jstr vc ''validUntil'') \<or>
      \<not> isStr s ''id'' (ciService intent) \<or> \<not> isNum s ''serviceKeyVersion'' (svVersion service) \<or>
      \<not> isStr s ''policyHash'' (ciPolicyHash intent) \<or> \<not> isStr status ''epoch'' (irEpoch r) \<or>
      \<not> isNum status ''approvalKeyVersion'' (irKeyVersion r))"

text \<open>
  \<^verbatim>\<open>Number.isFinite\<close> holds for both dates: a stored credential has passed the schema, whose dates
  are instants that \<^verbatim>\<open>Date.parse\<close> reads.
\<close>

definition liveAttemptFor ::
    "lib \<Rightarrow> InstitutionRecord \<Rightarrow> Actor \<Rightarrow> string \<Rightarrow> int \<Rightarrow> bool \<Rightarrow> (CallAttempt \<times> ContactIntent) result" where
  "liveAttemptFor L r actor attemptId now consumedOnly =
     bindE (membership r actor [''gateway'', ''recipient'']) (\<lambda>_.
     bindE (ofOption (HttpError 403 ''CALL_CONTEXT_INVALID'') (dget (irAttempts r) attemptId)) (\<lambda>attempt.
     if caExpiresAt attempt \<le> now \<or> caStatus attempt \<in> {CallCancelled, CallEnded} \<or>
        (consumedOnly \<and> caStatus attempt \<noteq> CallConsumed)
     then Inl (HttpError 403 ''CALL_CONTEXT_INVALID'')
     else bindE (activeIntent L r (caIntent attempt) actor now) (\<lambda>intent.
       bindE (ofOption (HttpError 403 ''CALL_CONTEXT_INVALID'') (dget (irServices r) (ciService intent))) (\<lambda>service.
       if \<not> svActive service \<or> caAgent attempt \<noteq> ciAgent intent
       then Inl (HttpError 403 ''CALL_CONTEXT_INVALID'')
       else if caStatus attempt = CallCreated then Inr (attempt, intent)
       else
         bindE (ofOption (HttpError 403 ''CALL_AUTHORIZATION_INVALID'')
                  (find (\<lambda>i. isStr (aiPayload i) ''attemptId'' (caId attempt)) (dvalues (irAuthorizations r)))) (\<lambda>auth.
         if authorizationDead r intent auth now then Inl (HttpError 403 ''CALL_AUTHORIZATION_INVALID'')
         else bindE (ofOption (HttpError 403 ''CALL_AUTHORIZATION_INVALID'')
                  (dget (irCredentials r) (jstr (aiPayload auth) ''vcDigest''))) (\<lambda>credential.
         if diRevoked credential \<or> credentialDead r intent service (diVc credential) now
         then Inl (HttpError 403 ''CALL_AUTHORIZATION_INVALID'')
         else Inr (attempt, intent)))))))"

section \<open>The import of a case and the initial accounts\<close>

definition mockFdsSchema :: schema where
  "mockFdsSchema = zObject
    [(''id'', zString (lengthBetween 3 100)), (''recipientId'', zString (lengthBetween 3 200)),
     (''agentId'', zString (lengthBetween 3 200)), (''serviceDid'', zString (lengthBetween 3 200)),
     (''expiresAt'', positiveInt)] []"

definition serviceActive :: "InstitutionRecord \<Rightarrow> string \<Rightarrow> bool" where
  "serviceActive r did = (case dget (irServices r) did of Some s \<Rightarrow> svActive s | None \<Rightarrow> False)"

definition assignmentInvalid :: "InstitutionRecord \<Rightarrow> json \<Rightarrow> int \<Rightarrow> bool" where
  "assignmentInvalid r body now \<longleftrightarrow>
     irStatus r \<noteq> InstitutionActive \<or> dget (irIntents r) (jstr body ''id'') \<noteq> None \<or>
     jnum body ''expiresAt'' \<le> now \<or> jnum body ''expiresAt'' > now + 86400 \<or>
     memberRole r (jstr body ''recipientId'') \<noteq> Some ''recipient'' \<or> memberInactive r (jstr body ''recipientId'') \<or>
     memberRole r (jstr body ''agentId'') \<noteq> Some ''gateway'' \<or> memberInactive r (jstr body ''agentId'') \<or>
     memberService r (jstr body ''agentId'') \<noteq> Some (jstr body ''serviceDid'') \<or>
     \<not> serviceActive r (jstr body ''serviceDid'')"

definition importMockFds :: "lib \<Rightarrow> Actor \<Rightarrow> json \<Rightarrow> int \<Rightarrow> (InstitutionRecord, ContactIntent) eff" where
  "importMockFds L actor input now = updateS (\<lambda>r.
     bindE (membership r actor [''institution'']) (\<lambda>_.
     bindE (parseWith mockFdsSchema input) (\<lambda>body.
     if assignmentInvalid r body now then Inl (HttpError 409 ''FDS_ASSIGNMENT_INVALID'')
     else bindE (policyHash L (irPolicy r)) (\<lambda>h.
       let intent = \<lparr> ciId = jstr body ''id'', ciInstitution = irId r, ciRecipient = jstr body ''recipientId'',
             ciAgent = jstr body ''agentId'', ciService = jstr body ''serviceDid'',
             ciPurpose = jstr bankPolicy ''purpose'', ciPolicyHash = h, ciExpiresAt = jnum body ''expiresAt'',
             ciStatus = IntentOpen, ciSource = ''mock-crm-fds'' \<rparr>
       in Inr (intent, r\<lparr> irIntents := dput (ciId intent) intent (irIntents r) \<rparr>)))))"

definition requirePermission :: "InstitutionRecord \<Rightarrow> Actor \<Rightarrow> string \<Rightarrow> unit result" where
  "requirePermission r actor permission =
     bindE (membership r actor [''institution'', ''approver'']) (\<lambda>_.
       if \<not> memberPermits r (acUser actor) permission then Inl (HttpError 403 ''PERMISSION_REQUIRED'') else Inr ())"

definition zArrayOf :: "schema \<Rightarrow> schema" where
  "zArrayOf p v = (case v of JArr xs \<Rightarrow> list_all p xs | _ \<Rightarrow> False)"

definition permissionNames :: "string list" where
  "permissionNames = [''contact.manage'', ''delegation.manage'', ''institution.suspend'', ''institution.recover'',
     ''key.activate'', ''governance.approve'']"

definition provisioningAccountsSchema :: schema where
  "provisioningAccountsSchema = zArray 3 100 (zObject
    [(''id'', zString (lengthBetween 3 200)), (''displayName'', zString (lengthBetween 1 100)),
     (''role'', zEnum [''institution'', ''gateway'', ''recipient'', ''approver''])]
    [(''permissions'', zArrayOf (zEnum permissionNames))])"

text \<open>The permissions of a parsed account; \<^verbatim>\<open>.default([])\<close> supplies the absent list.\<close>

definition accountPermissions :: "json \<Rightarrow> string list" where
  "accountPermissions a = map (\<lambda>p. case p of JStr s \<Rightarrow> s | _ \<Rightarrow> []) (jarr a ''permissions'')"

definition accountInvalid :: "string \<Rightarrow> json \<Rightarrow> bool" where
  "accountInvalid issuer a \<longleftrightarrow>
     \<not> startsWith (issuer @ ''|'') (jstr a ''id'') \<or> jsLength (jstr a ''id'') \<le> jsLength issuer + 1 \<or>
     (jstr a ''role'' \<in> {''gateway'', ''recipient''} \<and> accountPermissions a \<noteq> []) \<or>
     (jstr a ''role'' \<noteq> ''approver'' \<and> ''governance.approve'' \<in> set (accountPermissions a))"

definition assertInitialAccounts :: "json \<Rightarrow> string \<Rightarrow> json list result" where
  "assertInitialAccounts input issuer =
     bindE (parseWith provisioningAccountsSchema input) (\<lambda>v.
       let accounts = (case v of JArr xs \<Rightarrow> xs | _ \<Rightarrow> []) in
       if issuer = [] \<or> CHR ''|'' \<in> set issuer \<or> \<not> distinct (map (\<lambda>a. jstr a ''id'') accounts) \<or>
          list_ex (accountInvalid issuer) accounts
       then Inl (HttpError 400 ''BOOTSTRAP_IDENTITY_OR_ROLE_INVALID'')
       else if \<not> list_all (\<lambda>role. list_ex (\<lambda>a. jstr a ''role'' = role) accounts) [''gateway'', ''recipient''] \<or>
          \<not> list_ex (\<lambda>a. jstr a ''role'' = ''institution'' \<and>
              set (butlast permissionNames) \<subseteq> set (accountPermissions a)) accounts \<or>
          \<not> list_ex (\<lambda>a. jstr a ''role'' = ''approver'' \<and> ''governance.approve'' \<in> set (accountPermissions a)) accounts
       then Inl (HttpError 400 ''BOOTSTRAP_MANAGER_AND_APPROVER_REQUIRED'')
       else Inr accounts)"

section \<open>What the checks guarantee\<close>

lemma membership_Inr [result_simps]:
  "membership r actor roles = Inr u \<longleftrightarrow>
     irId r = acInstitution actor \<and> acRole actor \<in> set roles \<and>
     memberRole r (acUser actor) = Some (acRole actor) \<and> \<not> memberInactive r (acUser actor) \<and>
     (acGeneration actor \<noteq> None \<longrightarrow> acGeneration actor = Some (sessionGeneration r (acUser actor)))"
  by (auto simp: membership_def)

lemma activeIntent_Inr [result_simps]:
  "activeIntent L r i actor now = Inr intent \<longleftrightarrow>
     membership r actor [''gateway'', ''institution'', ''recipient''] = Inr () \<and>
     dget (irIntents r) i = Some intent \<and> \<not> intentHidden r actor intent \<and>
     irStatus r = InstitutionActive \<and> ciStatus intent = IntentOpen \<and> now < ciExpiresAt intent \<and>
     policyHash L (irPolicy r) = Inr (ciPolicyHash intent)"
  unfolding activeIntent_def by (auto simp: bindE_eq_Inr split: option.splits)

end
