(* ===== verification/Authority.thy ===== *)
theory Authority
  imports Institution
begin

text \<open>
  The issuing authority of an institution, class \<^verbatim>\<open>FinalsAuthority\<close> of
  \<^verbatim>\<open>services/api/src/finals-authority.ts\<close>. Every operation is the function the code passes to
  \<^verbatim>\<open>store.transact\<close>: a computation over the institution record, whose writes are kept only when it
  returns. The clock of an operation, the identifiers from \<^verbatim>\<open>randomUUID\<close> (\<open>u 0\<close>, \<open>u 1\<close>, in the order the
  operation draws them), the key store, the resolver of identity documents and the ledger check
  are arguments.
\<close>

section \<open>The environment\<close>

record AuthorityKey =
  akPrivate :: keyHandle
  akKid :: string
  akPublic :: "json option"

record authorityEnv =
  aeNetwork :: string
  aeRegistry :: string
  aeSigningKey :: "int \<Rightarrow> AuthorityKey result"
  aeAssertRotation :: "(InstitutionRecord \<Rightarrow> json \<Rightarrow> string \<Rightarrow> unit result) option"
  aeResolveDid :: "string \<Rightarrow> json result"
  aeAssertCurrent :: "InstitutionRecord \<Rightarrow> string \<Rightarrow> unit result"
  aeNow :: int

definition authorityBase :: "authorityEnv \<Rightarrow> (string \<times> json) list" where
  "authorityBase E = [(''protocol'', JStr ''callsign''), (''version'', JNum 2),
     (''networkId'', JStr (aeNetwork E)), (''registryAddress'', JStr (aeRegistry E))]"

definition authorityEvent ::
    "authorityEnv \<Rightarrow> string \<Rightarrow> Actor \<Rightarrow> string \<Rightarrow> string \<Rightarrow> (InstitutionRecord, unit) eff" where
  "authorityEvent E uuid actor event objectId = modifyS (\<lambda>r. r\<lparr> irAudit := irAudit r @
     [\<lparr> adId = uuid, adEvent = event, adActor = acUser actor, adAt = aeNow E, adObject = objectId \<rparr>] \<rparr>)"

definition authorityKey :: "lib \<Rightarrow> authorityEnv \<Rightarrow> InstitutionRecord \<Rightarrow> AuthorityKey result" where
  "authorityKey L E r =
     bindE (aeSigningKey E (irKeyVersion r)) (\<lambda>key.
       if akKid key \<noteq> irKid r \<or>
          (case akPublic key of None \<Rightarrow> False | Some k \<Rightarrow> hashCanonical L k \<noteq> hashCanonical L (irPublicKey r))
       then Inl (HttpError 503 ''ISSUER_KEY_VERSION_UNAVAILABLE'') else Inr key)"

definition didMismatch :: "lib \<Rightarrow> json \<Rightarrow> string \<Rightarrow> string \<Rightarrow> json \<Rightarrow> string \<Rightarrow> bool" where
  "didMismatch L doc did kid jwk relation \<longleftrightarrow>
     (case find (\<lambda>key. isStr key ''id'' kid) (jarr doc ''verificationMethod'') of
        None \<Rightarrow> True
      | Some key \<Rightarrow> \<not> isStr doc ''id'' did \<or> \<not> isStr key ''controller'' did \<or> JStr kid \<notin> set (jarr doc relation) \<or>
          hashCanonical L (jobj key ''publicKeyJwk'') \<noteq> hashCanonical L jwk)"

definition assertDidKey :: "lib \<Rightarrow> authorityEnv \<Rightarrow> string \<Rightarrow> string \<Rightarrow> json \<Rightarrow> string \<Rightarrow> unit result" where
  "assertDidKey L E did kid jwk relation =
     bindE (aeResolveDid E did) (\<lambda>doc.
       if didMismatch L doc did kid jwk relation then Inl (HttpError 409 ''REGISTERED_DID_KEY_MISMATCH'') else Inr ())"

definition assertDid :: "lib \<Rightarrow> authorityEnv \<Rightarrow> InstitutionRecord \<Rightarrow> string \<Rightarrow> RegisteredService result" where
  "assertDid L E r svc =
     bindE (ofOption (HttpError 409 ''SERVICE_UNREGISTERED'') (dget (irServices r) svc)) (\<lambda>service.
     bindE (assertDidKey L E (irDid r) (irKid r) (irPublicKey r) ''assertionMethod'') (\<lambda>_.
     bindE (assertDidKey L E (svDid service) (svKid service) (svKey service) ''authentication'') (\<lambda>_.
       Inr service)))"

definition delegationSubjectInvalid ::
    "lib \<Rightarrow> InstitutionRecord \<Rightarrow> RegisteredService \<Rightarrow> string \<Rightarrow> json \<Rightarrow> bool" where
  "delegationSubjectInvalid L r service svc vc \<longleftrightarrow>
     (let subject = jobj vc ''credentialSubject'' in
      \<not> isStr vc ''issuer'' (irDid r) \<or> \<not> isStr subject ''institutionId'' (irId r) \<or>
      \<not> isStr subject ''id'' svc \<or> \<not> isStr subject ''controller'' svc \<or> \<not> svActive service \<or>
      \<not> isNum subject ''serviceKeyVersion'' (svVersion service) \<or>
      hashCanonical L (jobj subject ''publicKey'') \<noteq> hashCanonical L (svKey service))"

definition delegationStatusInvalid :: "authorityEnv \<Rightarrow> InstitutionRecord \<Rightarrow> json \<Rightarrow> bool" where
  "delegationStatusInvalid E r vc \<longleftrightarrow>
     (let status = jobj vc ''credentialStatus'' in
      \<not> sameMember status vc ''id'' \<or> \<not> isStr status ''epoch'' (irEpoch r) \<or>
      \<not> isNum status ''approvalKeyVersion'' (irKeyVersion r) \<or> \<not> isStr status ''networkId'' (aeNetwork E) \<or>
      \<not> isStr status ''registryAddress'' (aeRegistry E) \<or>
      dateParse (jstr vc ''validFrom'') > aeNow E * 1000 \<or> dateParse (jstr vc ''validUntil'') \<le> aeNow E * 1000)"

text \<open>The credential a call rests on: its text is verified again under the current key.\<close>

definition authorityCredential ::
    "lib \<Rightarrow> authorityEnv \<Rightarrow> InstitutionRecord \<Rightarrow> string \<Rightarrow> string \<Rightarrow> (json \<times> RegisteredService) result" where
  "authorityCredential L E r vcHash svc =
     bindE (ofOption (HttpError 409 ''VC_REVOKED_OR_UNKNOWN'') (dget (irCredentials r) vcHash)) (\<lambda>item.
     if diRevoked item then Inl (HttpError 409 ''VC_REVOKED_OR_UNKNOWN'')
     else bindE (assertDid L E r svc) (\<lambda>service.
       bindE (ofOption LibraryError (importJwk L (irPublicKey r))) (\<lambda>key.
       bindE (verifyDelegationVc L (diJws item) key (irKid r)) (\<lambda>vc.
       bindE (vcDigest L vc) (\<lambda>d.
       if d \<noteq> vcHash \<or> delegationSubjectInvalid L r service svc vc
       then Inl (HttpError 409 ''VC_CONTEXT_INVALID'')
       else bindE (policyHash L (irPolicy r)) (\<lambda>h.
         let subject = jobj vc ''credentialSubject'' in
         if \<not> isStr subject ''policyHash'' h \<or> \<not> sameMember subject (irPolicy r) ''purpose'' \<or>
            delegationStatusInvalid E r vc
         then Inl (HttpError 409 ''VC_CONTEXT_INVALID'')
         else bindE (aeAssertCurrent E r vcHash) (\<lambda>_. Inr (vc, service))))))))"

section \<open>Intents, attempts and credentials\<close>

definition createIntent ::
    "lib \<Rightarrow> authorityEnv \<Rightarrow> (nat \<Rightarrow> string) \<Rightarrow> Actor \<Rightarrow> json \<Rightarrow> (InstitutionRecord, ContactIntent) eff" where
  "createIntent L E u actor input =
     bindS (importMockFds L actor input (aeNow E)) (\<lambda>intent.
     bindS (authorityEvent E (u 0) actor ''intent.created'' (ciId intent)) (\<lambda>_. returnS intent))"

definition createAttempt ::
    "lib \<Rightarrow> authorityEnv \<Rightarrow> (nat \<Rightarrow> string) \<Rightarrow> Actor \<Rightarrow> string \<Rightarrow> (InstitutionRecord, CallAttempt) eff" where
  "createAttempt L E u actor intentId =
     bindS (readS (\<lambda>r. membership r actor [''gateway''])) (\<lambda>_.
     bindS (readS (\<lambda>r. activeIntent L r intentId actor (aeNow E))) (\<lambda>intent.
     let attempt = \<lparr> caId = u 0, caIntent = intentId, caSession = u 1, caAgent = acUser actor,
           caStatus = CallCreated, caExpiresAt = min (ciExpiresAt intent) (aeNow E + 300) \<rparr> in
     bindS (modifyS (\<lambda>r. r\<lparr> irAttempts := dput (u 0) attempt (irAttempts r) \<rparr>)) (\<lambda>_.
     bindS (authorityEvent E (u 2) actor ''attempt.created'' (u 0)) (\<lambda>_. returnS attempt))))"

definition delegationVc ::
    "authorityEnv \<Rightarrow> InstitutionRecord \<Rightarrow> RegisteredService \<Rightarrow> string \<Rightarrow> string \<Rightarrow> json \<Rightarrow> string \<Rightarrow> json" where
  "delegationVc E r service svc credentialId publicKey h = JObj
     [(''@context'', JArr [JStr ''https://www.w3.org/ns/credentials/v2'', JObj [(''@vocab'', JStr ''urn:callsign:v2:'')]]),
      (''id'', JStr credentialId), (''type'', JArr [JStr ''VerifiableCredential'', JStr ''DelegationCredential'']),
      (''issuer'', JStr (irDid r)), (''validFrom'', JStr (toISOString (aeNow E * 1000))),
      (''validUntil'', JStr (toISOString ((aeNow E + 3600) * 1000))),
      (''credentialSubject'', JObj [(''id'', JStr svc), (''institutionId'', JStr (irId r)),
         (''controller'', JStr svc), (''serviceKeyVersion'', JNum (svVersion service)),
         (''publicKey'', publicKey), (''purpose'', jobj (irPolicy r) ''purpose''), (''policyHash'', JStr h)]),
      (''credentialStatus'', JObj [(''id'', JStr credentialId), (''type'', JStr ''CallSignRegistryStatus''),
         (''networkId'', JStr (aeNetwork E)), (''registryAddress'', JStr (aeRegistry E)),
         (''epoch'', JStr (irEpoch r)), (''approvalKeyVersion'', JNum (irKeyVersion r))])]"

definition issueCredential ::
    "lib \<Rightarrow> authorityEnv \<Rightarrow> (nat \<Rightarrow> string) \<Rightarrow> Actor \<Rightarrow> string \<Rightarrow> (InstitutionRecord, string \<times> DelegationItem) eff" where
  "issueCredential L E u actor svc =
     bindS (readS (\<lambda>r. membership r actor [''institution''])) (\<lambda>_.
     bindS (readS (\<lambda>r. if irStatus r \<noteq> InstitutionActive \<or> \<not> serviceActive r svc
                       then Inl (HttpError 409 ''SERVICE_INACTIVE'') else Inr ())) (\<lambda>_.
     bindS (readS (\<lambda>r. assertDid L E r svc)) (\<lambda>service.
     let credentialId = ''urn:uuid:'' @ u 0 in
     bindS (readS (\<lambda>r. bindE (parseWith publicKeySchema (svKey service)) (\<lambda>publicKey.
       bindE (policyHash L (irPolicy r)) (\<lambda>h.
       bindE (parseWith delegationVcSchema (delegationVc E r service svc credentialId publicKey h)) (\<lambda>vc.
       bindE (authorityKey L E r) (\<lambda>key.
       bindE (signDelegationVc L vc (akPrivate key) (akKid key)) (\<lambda>jws.
       bindE (vcDigest L vc) (\<lambda>d. Inr (d, \<lparr> diVc = vc, diJws = jws, diRevoked = False \<rparr>))))))))) (\<lambda>issued.
     bindS (modifyS (\<lambda>r. r\<lparr> irCredentials := dput (fst issued) (snd issued) (irCredentials r) \<rparr>)) (\<lambda>_.
     bindS (authorityEvent E (u 1) actor ''vc.issued.pending-ledger'' credentialId) (\<lambda>_. returnS issued))))))"

section \<open>The permit of the sender\<close>

definition permitPayload ::
    "authorityEnv \<Rightarrow> InstitutionRecord \<Rightarrow> Actor \<Rightarrow> ContactIntent \<Rightarrow> CallAttempt \<Rightarrow> RegisteredService \<Rightarrow> json \<Rightarrow>
     string \<Rightarrow> json" where
  "permitPayload E r actor intent attempt service browserKey vcHash = JObj (authorityBase E @
     [(''type'', JStr ''SenderSessionPermit''), (''institutionId'', JStr (irId r)), (''intentId'', JStr (ciId intent)),
      (''attemptId'', JStr (caId attempt)), (''agentId'', JStr (acUser actor)), (''serviceDid'', JStr (svDid service)),
      (''serviceKeyVersion'', JNum (svVersion service)), (''browserPublicKey'', browserKey),
      (''sessionId'', JStr (caSession attempt)), (''policyHash'', JStr (ciPolicyHash intent)),
      (''vcDigest'', JStr vcHash), (''issuedAt'', JNum (aeNow E)),
      (''expiresAt'', JNum (min (aeNow E + 60) (caExpiresAt attempt)))])"

definition permitContext ::
    "lib \<Rightarrow> authorityEnv \<Rightarrow> Actor \<Rightarrow> string \<Rightarrow> string \<Rightarrow> json \<Rightarrow> string \<Rightarrow> (InstitutionRecord, json) eff" where
  "permitContext L E actor attemptId vcHash browserPublicKey svc = readS (\<lambda>r.
     bindE (membership r actor [''gateway'']) (\<lambda>_.
     bindE (ofOption (HttpError 409 ''ATTEMPT_INVALID'') (dget (irAttempts r) attemptId)) (\<lambda>attempt.
     if caAgent attempt \<noteq> acUser actor \<or> caStatus attempt \<noteq> CallCreated \<or> caExpiresAt attempt \<le> aeNow E
     then Inl (HttpError 409 ''ATTEMPT_INVALID'')
     else bindE (activeIntent L r (caIntent attempt) actor (aeNow E)) (\<lambda>intent.
       if ciService intent \<noteq> svc then Inl (HttpError 403 ''SERVICE_MISMATCH'')
       else bindE (authorityCredential L E r vcHash (ciService intent)) (\<lambda>(vc, service).
         bindE (parseWith publicKeySchema browserPublicKey) (\<lambda>key.
           parseWith permitSchema (permitPayload E r actor intent attempt service key vcHash)))))))"

section \<open>Authorization\<close>

definition permitMismatch ::
    "authorityEnv \<Rightarrow> InstitutionRecord \<Rightarrow> Actor \<Rightarrow> ContactIntent \<Rightarrow> CallAttempt \<Rightarrow> RegisteredService \<Rightarrow> string \<Rightarrow>
     json \<Rightarrow> bool" where
  "permitMismatch E r actor intent attempt service vcHash permit \<longleftrightarrow>
     \<not> isStr permit ''networkId'' (aeNetwork E) \<or> \<not> isStr permit ''registryAddress'' (aeRegistry E) \<or>
     \<not> isStr permit ''institutionId'' (irId r) \<or> \<not> isStr permit ''agentId'' (acUser actor) \<or>
     \<not> isStr permit ''intentId'' (ciId intent) \<or> \<not> isStr permit ''sessionId'' (caSession attempt) \<or>
     \<not> isStr permit ''serviceDid'' (ciService intent) \<or> \<not> isNum permit ''serviceKeyVersion'' (svVersion service) \<or>
     \<not> isStr permit ''vcDigest'' vcHash \<or> \<not> isStr permit ''policyHash'' (ciPolicyHash intent) \<or>
     jnum permit ''expiresAt'' - jnum permit ''issuedAt'' > 60"

definition authorizationV2 ::
    "lib \<Rightarrow> authorityEnv \<Rightarrow> InstitutionRecord \<Rightarrow> string \<Rightarrow> ContactIntent \<Rightarrow> CallAttempt \<Rightarrow> string \<Rightarrow> json \<Rightarrow> json" where
  "authorizationV2 L E r authorizationId intent attempt vcHash permit = JObj (authorityBase E @
     [(''type'', JStr ''ContactAuthorization''), (''authorizationId'', JStr authorizationId),
      (''institutionId'', JStr (irId r)), (''issuerDid'', JStr (irDid r)),
      (''approvalKeyVersion'', JNum (irKeyVersion r)), (''epoch'', JStr (irEpoch r)),
      (''intentId'', JStr (ciId intent)), (''attemptId'', JStr (caId attempt)),
      (''recipientId'', JStr (ciRecipient intent)), (''purpose'', JStr (ciPurpose intent)),
      (''policyHash'', JStr (ciPolicyHash intent)), (''vcDigest'', JStr vcHash),
      (''permitHash'', JStr (hashCanonical L permit)), (''sessionId'', JStr (caSession attempt)),
      (''browserKeyHash'', JStr (hashCanonical L (jobj permit ''browserPublicKey''))),
      (''issuedAt'', JNum (aeNow E)), (''expiresAt'', JNum (min (caExpiresAt attempt) (jnum permit ''expiresAt'')))])"

definition setAttemptStatus :: "string \<Rightarrow> CallStatus \<Rightarrow> InstitutionRecord \<Rightarrow> InstitutionRecord" where
  "setAttemptStatus i status r = (case dget (irAttempts r) i of
     None \<Rightarrow> r | Some a \<Rightarrow> r\<lparr> irAttempts := dput i (a\<lparr> caStatus := status \<rparr>) (irAttempts r) \<rparr>)"

definition authorizeRequest ::
    "lib \<Rightarrow> authorityEnv \<Rightarrow> Actor \<Rightarrow> string \<Rightarrow> string \<Rightarrow> string \<Rightarrow> InstitutionRecord \<Rightarrow> (string \<times> Signed) result" where
  "authorizeRequest L E actor permitText vcHash authorizationId r =
     bindE (membership r actor [''gateway'']) (\<lambda>_.
     bindE (ofOption (HttpError 404 ''VC_NOT_FOUND'') (dget (irCredentials r) vcHash)) (\<lambda>item.
     bindE (authorityCredential L E r vcHash (jstr (jobj (diVc item) ''credentialSubject'') ''id'')) (\<lambda>(vc, service).
     bindE (ofOption LibraryError (importJwk L (svKey service))) (\<lambda>serviceKey.
     bindE (verifyPayload L permitText serviceKey ''SenderSessionPermit'' (svKid service) permitSchema) (\<lambda>permit.
     bindE (assertTemporalValidity permit (aeNow E)) (\<lambda>_.
     bindE (ofOption (HttpError 409 ''ATTEMPT_INVALID'') (dget (irAttempts r) (jstr permit ''attemptId''))) (\<lambda>attempt.
     if caStatus attempt \<noteq> CallCreated \<or> caExpiresAt attempt \<le> aeNow E \<or> caAgent attempt \<noteq> acUser actor
     then Inl (HttpError 409 ''ATTEMPT_INVALID'')
     else bindE (activeIntent L r (caIntent attempt) actor (aeNow E)) (\<lambda>intent.
       if permitMismatch E r actor intent attempt service vcHash permit
       then Inl (HttpError 409 ''PERMIT_CONTEXT_INVALID'')
       else bindE (parseWith authorizationV2Schema
                     (authorizationV2 L E r authorizationId intent attempt vcHash permit)) (\<lambda>payload.
         bindE (authorityKey L E r) (\<lambda>key.
           Inr (jstr permit ''attemptId'',
             \<lparr> sgPayload = payload, sgJws = signPayload L payload (akPrivate key) (akKid key) \<rparr>)))))))))))"

definition authorize ::
    "lib \<Rightarrow> authorityEnv \<Rightarrow> (nat \<Rightarrow> string) \<Rightarrow> Actor \<Rightarrow> string \<Rightarrow> string \<Rightarrow> (InstitutionRecord, Signed) eff" where
  "authorize L E u actor permitText vcHash =
     bindS (readS (authorizeRequest L E actor permitText vcHash (u 0))) (\<lambda>(attemptId, signed).
     bindS (modifyS (\<lambda>r. r\<lparr> irAuthorizations := dput (u 0)
       \<lparr> aiPayload = sgPayload signed, aiJws = sgJws signed, aiCancelled = False \<rparr> (irAuthorizations r) \<rparr>)) (\<lambda>_.
     bindS (modifyS (setAttemptStatus attemptId CallAuthorized)) (\<lambda>_.
     bindS (authorityEvent E (u 1) actor ''authorization.issued'' (u 0)) (\<lambda>_. returnS signed))))"

section \<open>Enrolment of the recipient's key\<close>

definition enroll ::
    "lib \<Rightarrow> authorityEnv \<Rightarrow> Actor \<Rightarrow> string \<Rightarrow> json \<Rightarrow> (InstitutionRecord, string) eff" where
  "enroll L E actor session publicKey = updateS (\<lambda>r.
     bindE (membership r actor [''recipient'']) (\<lambda>_.
     bindE (ofOption (HttpError 404 ''SESSION_NOT_FOUND'')
              (find (\<lambda>a. caSession a = session) (dvalues (irAttempts r)))) (\<lambda>attempt.
     if caExpiresAt attempt \<le> aeNow E \<or> caStatus attempt \<in> {CallCancelled, CallEnded}
     then Inl (HttpError 404 ''SESSION_NOT_FOUND'')
     else bindE (activeIntent L r (caIntent attempt) actor (aeNow E)) (\<lambda>intent.
       if ciRecipient intent \<noteq> acUser actor then Inl (HttpError 404 ''SESSION_NOT_FOUND'')
       else bindE (parseWith publicKeySchema publicKey) (\<lambda>key.
         if (case dget (irRecipientKeys r) session of None \<Rightarrow> False
             | Some prior \<Rightarrow> hashCanonical L (rkKey prior) \<noteq> hashCanonical L key)
         then Inl (HttpError 409 ''RECIPIENT_KEY_ALREADY_BOUND'')
         else Inr (hashCanonical L key, r\<lparr> irRecipientKeys := dput session
           \<lparr> rkUser = acUser actor, rkKey = key, rkExpiresAt = caExpiresAt attempt \<rparr> (irRecipientKeys r) \<rparr>))))))"

section \<open>Consumption\<close>

record ConsumeInput =
  niAuthorizationId :: string
  niBinding :: json
  niSenderProof :: string
  niRecipientProof :: string
  niPermitJws :: string

definition bindingMismatch ::
    "lib \<Rightarrow> Actor \<Rightarrow> json \<Rightarrow> json \<Rightarrow> RecipientKey \<Rightarrow> json \<Rightarrow> bool" where
  "bindingMismatch L actor a permit enrolled binding \<longleftrightarrow>
     \<not> isStr a ''permitHash'' (hashCanonical L permit) \<or>
     \<not> isStr a ''browserKeyHash'' (hashCanonical L (jobj permit ''browserPublicKey'')) \<or>
     \<not> isStr binding ''authorizationHash'' (hashCanonical L a) \<or> \<not> sameMember binding a ''sessionId'' \<or>
     \<not> isStr binding ''recipientId'' (acUser actor) \<or>
     \<not> isStr binding ''recipientKeyHash'' (hashCanonical L (rkKey enrolled)) \<or>
     \<not> sameMembers binding a [''networkId'', ''registryAddress''] \<or>
     \<not> isStr binding ''transportProfile'' ''webrtc-bundle-v2''"

definition assertPossession ::
    "lib \<Rightarrow> authorityEnv \<Rightarrow> json \<Rightarrow> string \<Rightarrow> string \<Rightarrow> string \<Rightarrow> json \<Rightarrow> unit result" where
  "assertPossession L E a bindingHash role jws jwk =
     bindE (ofOption LibraryError (importJwk L jwk)) (\<lambda>key.
     bindE (verifyPayload L jws key ''PossessionProof'' (hashCanonical L jwk) possessionSchema) (\<lambda>proof.
     bindE (assertTemporalValidity proof (aeNow E)) (\<lambda>_.
       if jnum proof ''expiresAt'' - jnum proof ''issuedAt'' > 60 \<or> \<not> isStr proof ''role'' role \<or>
          \<not> sameMember proof a ''authorizationId'' \<or> \<not> isStr proof ''bindingHash'' bindingHash \<or>
          \<not> sameMembers proof a [''sessionId'', ''networkId'', ''registryAddress'']
       then Inl (HttpError 409 ''POSSESSION_CONTEXT_INVALID'') else Inr ())))"

record ConsumeChecked =
  ncAuthorization :: json
  ncAttempt :: CallAttempt
  ncPermit :: json
  ncBinding :: json

text \<open>Everything \<^verbatim>\<open>consume\<close> checks before it looks for an earlier consumption.\<close>

definition consumeChecks ::
    "lib \<Rightarrow> authorityEnv \<Rightarrow> Actor \<Rightarrow> ConsumeInput \<Rightarrow> InstitutionRecord \<Rightarrow> ConsumeChecked result" where
  "consumeChecks L E actor input r =
     bindE (membership r actor [''recipient'']) (\<lambda>_.
     bindE (parseWith bindingV2Schema (niBinding input)) (\<lambda>binding.
     bindE (ofOption (HttpError 404 ''AUTHORIZATION_NOT_FOUND'')
              (dget (irAuthorizations r) (niAuthorizationId input))) (\<lambda>auth.
     let a = aiPayload auth in
     bindE (activeIntent L r (jstr a ''intentId'') actor (aeNow E)) (\<lambda>intent.
     bindE (ofOption (HttpError 409 ''AUTHORIZATION_INVALID'') (dget (irAttempts r) (jstr a ''attemptId''))) (\<lambda>attempt.
     if aiCancelled auth \<or> caStatus attempt \<notin> {CallAuthorized, CallConsumed} \<or>
        \<not> isNum a ''approvalKeyVersion'' (irKeyVersion r) \<or> \<not> isStr a ''epoch'' (irEpoch r)
     then Inl (HttpError 409 ''AUTHORIZATION_INVALID'')
     else bindE (authorityCredential L E r (jstr a ''vcDigest'') (ciService intent)) (\<lambda>(vc, service).
       bindE (ofOption LibraryError (importJwk L (svKey service))) (\<lambda>serviceKey.
       bindE (verifyPayload L (niPermitJws input) serviceKey ''SenderSessionPermit'' (svKid service) permitSchema) (\<lambda>permit.
       bindE (ofOption (HttpError 409 ''RECIPIENT_KEY_UNAVAILABLE'') (dget (irRecipientKeys r) (jstr a ''sessionId''))) (\<lambda>enrolled.
       if rkUser enrolled \<noteq> acUser actor \<or> rkExpiresAt enrolled \<le> aeNow E
       then Inl (HttpError 409 ''RECIPIENT_KEY_UNAVAILABLE'')
       else if bindingMismatch L actor a permit enrolled binding
       then Inl (HttpError 409 ''BINDING_CONTEXT_INVALID'')
       else bindE (assertPossession L E a (hashCanonical L binding) ''sender'' (niSenderProof input)
                     (jobj permit ''browserPublicKey'')) (\<lambda>_.
         bindE (assertPossession L E a (hashCanonical L binding) ''recipient'' (niRecipientProof input)
                     (rkKey enrolled)) (\<lambda>_.
           Inr \<lparr> ncAuthorization = a, ncAttempt = attempt, ncPermit = permit, ncBinding = binding \<rparr>)))))))))))"

definition receiptV2 ::
    "lib \<Rightarrow> authorityEnv \<Rightarrow> InstitutionRecord \<Rightarrow> ConsumeChecked \<Rightarrow> json" where
  "receiptV2 L E r c = (let a = ncAuthorization c in JObj (authorityBase E @
     [(''type'', JStr ''ConsumptionReceipt''), (''authorizationId'', jobj a ''authorizationId''),
      (''authorizationHash'', JStr (hashCanonical L a)), (''bindingHash'', JStr (hashCanonical L (ncBinding c))),
      (''sessionId'', jobj a ''sessionId''), (''recipientId'', jobj a ''recipientId''),
      (''approvalKeyVersion'', JNum (irKeyVersion r)), (''consumedAt'', JNum (aeNow E)),
      (''expiresAt'', JNum (min (caExpiresAt (ncAttempt c)) (aeNow E + 60)))]))"

definition firstReceipt ::
    "lib \<Rightarrow> authorityEnv \<Rightarrow> InstitutionRecord \<Rightarrow> ConsumeChecked \<Rightarrow> Signed result" where
  "firstReceipt L E r c =
     bindE (assertTemporalValidity (ncAuthorization c) (aeNow E)) (\<lambda>_.
     bindE (assertTemporalValidity (ncBinding c) (aeNow E)) (\<lambda>_.
     bindE (assertTemporalValidity (ncPermit c) (aeNow E)) (\<lambda>_.
     bindE (parseWith receiptV2Schema (receiptV2 L E r c)) (\<lambda>payload.
     bindE (authorityKey L E r) (\<lambda>key.
       Inr \<lparr> sgPayload = payload, sgJws = signPayload L payload (akPrivate key) (akKid key) \<rparr>)))))"

definition recordConsumption :: "string \<Rightarrow> string \<Rightarrow> Signed \<Rightarrow> InstitutionRecord \<Rightarrow> InstitutionRecord" where
  "recordConsumption authorizationId attemptId receipt r =
     setAttemptStatus attemptId CallConsumed
       (r\<lparr> irConsumptions := dput authorizationId receipt (irConsumptions r) \<rparr>)"

definition consume ::
    "lib \<Rightarrow> authorityEnv \<Rightarrow> (nat \<Rightarrow> string) \<Rightarrow> Actor \<Rightarrow> ConsumeInput \<Rightarrow> (InstitutionRecord, Signed \<times> bool) eff" where
  "consume L E u actor input =
     bindS (readS (consumeChecks L E actor input)) (\<lambda>c.
     let i = jstr (ncAuthorization c) ''authorizationId'' in
     bindS (readS (\<lambda>r. Inr (dget (irConsumptions r) i))) (\<lambda>prior.
     case prior of
       Some receipt \<Rightarrow>
         if \<not> isStr (sgPayload receipt) ''bindingHash'' (hashCanonical L (ncBinding c))
         then throwS (HttpError 409 ''AUTHORIZATION_ALREADY_CONSUMED'')
         else returnS (receipt, True)
     | None \<Rightarrow>
         bindS (readS (\<lambda>r. firstReceipt L E r c)) (\<lambda>receipt.
         bindS (modifyS (recordConsumption i (jstr (ncAuthorization c) ''attemptId'') receipt)) (\<lambda>_.
         bindS (authorityEvent E (u 0) actor ''authorization.consumed'' i) (\<lambda>_. returnS (receipt, False))))))"

section \<open>Cancelling, ending, rotating and revoking\<close>

definition cancelCalls :: "(CallAttempt \<Rightarrow> bool) \<Rightarrow> InstitutionRecord \<Rightarrow> InstitutionRecord" where
  "cancelCalls which r = r\<lparr> irAttempts :=
     dmap (\<lambda>a. if which a \<and> caStatus a \<noteq> CallEnded then a\<lparr> caStatus := CallCancelled \<rparr> else a) (irAttempts r) \<rparr>"

definition cancelAuthorizations :: "(json \<Rightarrow> bool) \<Rightarrow> InstitutionRecord \<Rightarrow> InstitutionRecord" where
  "cancelAuthorizations which r = r\<lparr> irAuthorizations :=
     dmap (\<lambda>i. if which (aiPayload i) then i\<lparr> aiCancelled := True \<rparr> else i) (irAuthorizations r) \<rparr>"

definition cancelIntent ::
    "authorityEnv \<Rightarrow> (nat \<Rightarrow> string) \<Rightarrow> Actor \<Rightarrow> string \<Rightarrow> (InstitutionRecord, unit) eff" where
  "cancelIntent E u actor intentId =
     bindS (readS (\<lambda>r. membership r actor [''institution''])) (\<lambda>_.
     bindS (readS (\<lambda>r. ofOption (HttpError 404 ''INTENT_NOT_FOUND'') (dget (irIntents r) intentId))) (\<lambda>intent.
     bindS (modifyS (\<lambda>r. r\<lparr> irIntents := dput intentId (intent\<lparr> ciStatus := IntentCancelled \<rparr>) (irIntents r) \<rparr>)) (\<lambda>_.
     bindS (modifyS (cancelCalls (\<lambda>a. caIntent a = intentId))) (\<lambda>_.
     bindS (modifyS (cancelAuthorizations (\<lambda>p. isStr p ''intentId'' intentId))) (\<lambda>_.
       authorityEvent E (u 0) actor ''intent.cancelled'' intentId)))))"

definition endAttempt ::
    "lib \<Rightarrow> authorityEnv \<Rightarrow> (nat \<Rightarrow> string) \<Rightarrow> Actor \<Rightarrow> string \<Rightarrow> (InstitutionRecord, unit) eff" where
  "endAttempt L E u actor attemptId =
     bindS (readS (\<lambda>r. ofOption (HttpError 404 ''ATTEMPT_NOT_FOUND'') (dget (irAttempts r) attemptId))) (\<lambda>attempt.
     bindS (readS (\<lambda>r. activeIntent L r (caIntent attempt) actor (aeNow E))) (\<lambda>_.
     bindS (modifyS (setAttemptStatus attemptId CallEnded)) (\<lambda>_.
       authorityEvent E (u 0) actor ''attempt.ended'' attemptId)))"

definition rotatedRecord :: "int \<Rightarrow> string \<Rightarrow> string \<Rightarrow> json \<Rightarrow> InstitutionRecord \<Rightarrow> InstitutionRecord" where
  "rotatedRecord version kid epoch publicKey r =
     cancelCalls (\<lambda>_. True) (cancelAuthorizations (\<lambda>_. True)
       (r\<lparr> irKeyVersion := version, irKid := kid, irPublicKey := publicKey, irEpoch := epoch,
          irStatus := InstitutionActive,
          irCredentials := dmap (\<lambda>c. c\<lparr> diRevoked := True \<rparr>) (irCredentials r) \<rparr>))"

text \<open>\<^verbatim>\<open>BigInt(epoch)\<close> throws on a text that is not an integer.\<close>

definition rotationKey ::
    "authorityEnv \<Rightarrow> Actor \<Rightarrow> int \<Rightarrow> string \<Rightarrow> InstitutionRecord \<Rightarrow> (string \<times> json) result" where
  "rotationKey E actor version epoch r =
     bindE (membership r actor [''institution'']) (\<lambda>_.
     if version \<noteq> irKeyVersion r + 1 then Inl (HttpError 409 ''KEY_ROTATION_INVALID'')
     else if \<not> isDigits epoch then Inl LibraryError
     else if bigInt epoch \<le> bigInt (irEpoch r) then Inl (HttpError 409 ''KEY_ROTATION_INVALID'')
     else bindE (ofOption (HttpError 409 ''KEY_ROTATION_INVALID'') (aeAssertRotation E)) (\<lambda>assertRotation.
       bindE (aeSigningKey E version) (\<lambda>key.
       bindE (ofOption (HttpError 409 ''NEW_APPROVAL_KEY_REQUIRED'') (akPublic key)) (\<lambda>publicKey.
       if sameMember publicKey (irPublicKey r) ''x'' then Inl (HttpError 409 ''NEW_APPROVAL_KEY_REQUIRED'')
       else bindE (assertRotation r publicKey epoch) (\<lambda>_. Inr (akKid key, publicKey))))))"

definition activateKey ::
    "authorityEnv \<Rightarrow> (nat \<Rightarrow> string) \<Rightarrow> Actor \<Rightarrow> int \<Rightarrow> string \<Rightarrow> (InstitutionRecord, string) eff" where
  "activateKey E u actor version epoch =
     bindS (readS (rotationKey E actor version epoch)) (\<lambda>(kid, publicKey).
     bindS (modifyS (rotatedRecord version kid epoch publicKey)) (\<lambda>_.
     bindS (authorityEvent E (u 0) actor ''approval-key.rotated'' kid) (\<lambda>_. returnS kid)))"

text \<open>Attempts of an authorization under the revoked credential, as the loop of \<^verbatim>\<open>revoke\<close> finds them.\<close>

definition attemptsUnder :: "InstitutionRecord \<Rightarrow> string \<Rightarrow> string list" where
  "attemptsUnder r vcHash =
     map (\<lambda>i. jstr (aiPayload i) ''attemptId'')
       (filter (\<lambda>i. isStr (aiPayload i) ''vcDigest'' vcHash) (dvalues (irAuthorizations r)))"

definition cancelAttempts :: "string list \<Rightarrow> InstitutionRecord \<Rightarrow> InstitutionRecord" where
  "cancelAttempts ids r = r\<lparr> irAttempts :=
     map (\<lambda>(k, a). (k, if k \<in> set ids \<and> caStatus a \<noteq> CallEnded then a\<lparr> caStatus := CallCancelled \<rparr> else a))
       (irAttempts r) \<rparr>"

definition revokeCredential ::
    "authorityEnv \<Rightarrow> (nat \<Rightarrow> string) \<Rightarrow> Actor \<Rightarrow> string \<Rightarrow> (InstitutionRecord, unit) eff" where
  "revokeCredential E u actor vcHash =
     bindS (readS (\<lambda>r. membership r actor [''institution''])) (\<lambda>_.
     bindS (readS (\<lambda>r. ofOption (HttpError 404 ''VC_NOT_FOUND'') (dget (irCredentials r) vcHash))) (\<lambda>item.
     bindS (modifyS (\<lambda>r. r\<lparr> irCredentials := dput vcHash (item\<lparr> diRevoked := True \<rparr>) (irCredentials r) \<rparr>)) (\<lambda>_.
     bindS (readS (\<lambda>r. Inr (attemptsUnder r vcHash))) (\<lambda>ids.
     bindS (modifyS (cancelAttempts ids)) (\<lambda>_.
     bindS (modifyS (cancelAuthorizations (\<lambda>p. isStr p ''vcDigest'' vcHash))) (\<lambda>_.
       authorityEvent E (u 0) actor ''vc.revoked'' vcHash))))))"

end
