(* ===== verification/Authority_Runs.thy ===== *)
theory Authority_Runs
  imports Authority Contracts
begin

text \<open>
  Runs of the authority: sequences of its operations, each a transaction on the institution record.
  The locale \<open>authority_invariant\<close> names the writes the operations make; a property that survives
  these writes survives every operation and every run.
\<close>

datatype authorityCall =
    CreateIntent Actor json
  | CreateAttempt Actor string
  | IssueCredential Actor string
  | Authorize Actor string string
  | Enroll Actor string json
  | Consume Actor ConsumeInput
  | CancelIntent Actor string
  | EndAttempt Actor string
  | ActivateKey Actor int string
  | RevokeCredential Actor string

definition discard :: "('s, 'a) eff \<Rightarrow> ('s, unit) eff" where
  "discard m = bindS m (\<lambda>_. returnS ())"

lemma snd_discard [simp]: "snd (discard m s) = snd (m s)"
  by (simp add: discard_def bindS_def returnS_def split: prod.splits sum.splits)

fun authorityStep :: "lib \<Rightarrow> authorityEnv \<Rightarrow> (nat \<Rightarrow> string) \<Rightarrow> authorityCall \<Rightarrow> (InstitutionRecord, unit) eff" where
  "authorityStep L E u (CreateIntent a input) = discard (createIntent L E u a input)"
| "authorityStep L E u (CreateAttempt a i) = discard (createAttempt L E u a i)"
| "authorityStep L E u (IssueCredential a d) = discard (issueCredential L E u a d)"
| "authorityStep L E u (Authorize a p d) = discard (authorize L E u a p d)"
| "authorityStep L E u (Enroll a s k) = discard (enroll L E a s k)"
| "authorityStep L E u (Consume a input) = discard (consume L E u a input)"
| "authorityStep L E u (CancelIntent a i) = cancelIntent E u a i"
| "authorityStep L E u (EndAttempt a i) = endAttempt L E u a i"
| "authorityStep L E u (ActivateKey a v e) = discard (activateKey E u a v e)"
| "authorityStep L E u (RevokeCredential a d) = revokeCredential E u a d"

text \<open>\<^verbatim>\<open>randomUUID\<close> returns identifiers that are not yet in use.\<close>

fun freshIds :: "(nat \<Rightarrow> string) \<Rightarrow> authorityCall \<Rightarrow> InstitutionRecord \<Rightarrow> bool" where
  "freshIds u (CreateAttempt a i) r \<longleftrightarrow> dget (irAttempts r) (u 0) = None"
| "freshIds u (Authorize a p d) r \<longleftrightarrow> dget (irAuthorizations r) (u 0) = None \<and> dget (irConsumptions r) (u 0) = None"
| "freshIds u _ r \<longleftrightarrow> True"

text \<open>The store archives the audit entries of a committed operation.\<close>

inductive authorityRun :: "lib \<Rightarrow> InstitutionRecord \<Rightarrow> InstitutionRecord \<Rightarrow> bool" for L r0 where
  start: "authorityRun L r0 r0"
| step: "authorityRun L r0 r \<Longrightarrow> freshIds u c r \<Longrightarrow> authorityRun L r0 (snd (atomically (authorityStep L E u c) r))"
| archive: "authorityRun L r0 r \<Longrightarrow> authorityRun L r0 (r\<lparr> irAudit := [] \<rparr>)"

section \<open>Invariants of runs\<close>

lemmas authority_defs = createIntent_def importMockFds_def createAttempt_def issueCredential_def authorize_def
  enroll_def cancelIntent_def endAttempt_def activateKey_def revokeCredential_def authorityEvent_def

locale authority_invariant =
  fixes I :: "InstitutionRecord \<Rightarrow> bool"
  assumes audit: "I r \<Longrightarrow> I (r\<lparr> irAudit := es \<rparr>)"
    and intents: "I r \<Longrightarrow> I (r\<lparr> irIntents := is \<rparr>)"
    and keys: "I r \<Longrightarrow> I (r\<lparr> irRecipientKeys := ks \<rparr>)"
    and credentials: "I r \<Longrightarrow> I (r\<lparr> irCredentials := cs \<rparr>)"
    and attempt: "I r \<Longrightarrow> dget (irAttempts r) k = None \<Longrightarrow> I (r\<lparr> irAttempts := dput k a (irAttempts r) \<rparr>)"
    and ending: "I r \<Longrightarrow> I (setAttemptStatus k CallEnded r)"
    and cancelling: "I r \<Longrightarrow> I (cancelCalls P r)"
    and cancelling_some: "I r \<Longrightarrow> I (cancelAttempts ids r)"
    and withdrawing: "I r \<Longrightarrow> I (cancelAuthorizations Q r)"
    and rotating: "I r \<Longrightarrow> I (r\<lparr> irKeyVersion := v, irKid := kid, irPublicKey := pk, irEpoch := e,
      irStatus := InstitutionActive, irCredentials := cs \<rparr>)"
    and authorizing: "I r \<Longrightarrow> dget (irAuthorizations r) k = None \<Longrightarrow> dget (irConsumptions r) k = None \<Longrightarrow>
      isStr p ''authorizationId'' k \<Longrightarrow> (\<exists>a. dget (irAttempts r) t = Some a \<and> caStatus a = CallCreated) \<Longrightarrow>
      I (setAttemptStatus t CallAuthorized (r\<lparr> irAuthorizations :=
        dput k \<lparr> aiPayload = p, aiJws = jws, aiCancelled = False \<rparr> (irAuthorizations r) \<rparr>))"
    and consuming: "I r \<Longrightarrow> consumeChecks L E actor input r = Inr c \<Longrightarrow>
      dget (irConsumptions r) (jstr (ncAuthorization c) ''authorizationId'') = None \<Longrightarrow>
      firstReceipt L E r c = Inr receipt \<Longrightarrow>
      I (recordConsumption (jstr (ncAuthorization c) ''authorizationId'') (jstr (ncAuthorization c) ''attemptId'') receipt r)"
begin

lemma event: "preserves I (authorityEvent E uuid actor name obj)"
  unfolding authorityEvent_def by (intro preserves_modifyS) (rule audit)

lemma rotated: "I r \<Longrightarrow> I (rotatedRecord v kid e pk r)"
  unfolding rotatedRecord_def by (intro cancelling withdrawing rotating)

lemma simple_operations:
  "preserves I (createIntent L E u actor json)" "preserves I (issueCredential L E u actor did)"
  "preserves I (enroll L E actor s json)" "preserves I (cancelIntent E u actor i)"
  "preserves I (endAttempt L E u actor i)" "preserves I (activateKey E u actor v e)"
  "preserves I (revokeCredential E u actor d)"
  unfolding authority_defs
  by (intro preserves_intros preserves_modifyS preserves_updateS event;
      auto simp: result_simps Let_def split: if_splits
        intro: audit intents keys credentials ending cancelling cancelling_some withdrawing rotated)+

lemma create_attempt: "I r \<Longrightarrow> dget (irAttempts r) (u 0) = None \<Longrightarrow> I (snd (createAttempt L E u actor i r))"
  unfolding createAttempt_def authorityEvent_def bindS_def readS_def modifyS_def returnS_def Let_def
  by (auto intro!: audit attempt split: prod.splits sum.splits)

lemma authorizeRequest_Inr:
  assumes "authorizeRequest L E actor txt d i r = Inr (t, sg)"
  shows "isStr (sgPayload sg) ''authorizationId'' i" "\<exists>a. dget (irAttempts r) t = Some a \<and> caStatus a = CallCreated"
proof -
  from assms obtain intent at permit where "sgPayload sg = authorizationV2 L E r i intent at d permit"
    "t = jstr permit ''attemptId''" "dget (irAttempts r) t = Some at" "caStatus at = CallCreated"
    unfolding authorizeRequest_def by (auto simp: result_simps split: prod.splits if_splits)
  then show "isStr (sgPayload sg) ''authorizationId'' i" "\<exists>a. dget (irAttempts r) t = Some a \<and> caStatus a = CallCreated"
    by (auto simp: authorizationV2_def authorityBase_def isStr_def jget_def)
qed

lemma authorizes:
  assumes "I r" "dget (irAuthorizations r) (u 0) = None" "dget (irConsumptions r) (u 0) = None"
  shows "I (snd (authorize L E u actor txt d r))"
proof (cases "authorizeRequest L E actor txt d (u 0) r")
  case (Inl e)
  with assms show ?thesis by (simp add: authorize_def bindS_def readS_def)
next
  case (Inr ts)
  then obtain t sg where ts: "authorizeRequest L E actor txt d (u 0) r = Inr (t, sg)" by (cases ts) auto
  from authorizing [OF assms authorizeRequest_Inr [OF ts]] ts show ?thesis
    by (auto simp: authorize_def bindS_def readS_def modifyS_def returnS_def authorityEvent_def intro!: audit)
qed

lemma consumes: "I r \<Longrightarrow> I (snd (consume L E u actor input r))"
proof (cases "consumeChecks L E actor input r")
  case (Inr c)
  assume r: "I r"
  let ?i = "jstr (ncAuthorization c) ''authorizationId''"
  show ?thesis
  proof (cases "dget (irConsumptions r) ?i")
    case None
    show ?thesis
    proof (cases "firstReceipt L E r c")
      case (Inr receipt)
      with \<open>consumeChecks L E actor input r = Inr c\<close> None consuming [OF r _ None Inr] show ?thesis
        by (auto simp: consume_def bindS_def readS_def modifyS_def returnS_def authorityEvent_def Let_def intro!: audit)
    qed (use r Inr None in \<open>simp add: consume_def bindS_def readS_def Let_def\<close>)
  qed (use r Inr in \<open>simp add: consume_def bindS_def readS_def returnS_def throwS_def Let_def\<close>)
qed (simp add: consume_def bindS_def readS_def)

lemma step_keeps: "I r \<Longrightarrow> freshIds u c r \<Longrightarrow> I (snd (authorityStep L E u c r))"
  using simple_operations create_attempt authorizes consumes
  by (cases c) (auto simp: preserves_def)

lemma run_keeps: "authorityRun L r0 r \<Longrightarrow> I r0 \<Longrightarrow> I r"
proof (induction rule: authorityRun.induct)
  case (step r u c E)
  then show ?case using step_keeps [of r u c L E]
    by (auto simp: atomically_def split: prod.splits sum.splits)
qed (auto intro: audit)

end

end
