(* ===== verification/Authority_Scenario.thy ===== *)
theory Authority_Scenario
  imports Authority_Runs Finals_Scenario
begin

text \<open>
  An institution in the middle of one contact: the credential, the attempt and the authorization of
  the version 2 contact of the receiver's scenario are on record, the recipient has enrolled a key, and
  both proofs of possession have been signed. The first consumption succeeds.
\<close>

definition arProof :: "string \<Rightarrow> json" where
  "arProof role = JObj (vrBase @ vrClock @
    [(''type'', JStr ''PossessionProof''), (''role'', JStr role), (''authorizationId'', JStr ''auth-1''),
     (''bindingHash'', JStr (vrDigest (CHR ''f''))), (''sessionId'', JStr ''session'')])"

definition arMessages :: "((string \<times> string) \<times> json \<times> string) list" where
  "arMessages =
    [((''jws-x'', vrKey), vrHeader ''PossessionProof'' (vrDigest (CHR ''c'')), ''x''),
     ((''jws-y'', vrKey), vrHeader ''PossessionProof'' (vrDigest (CHR ''c'')), ''y'')]"

definition arLib :: lib where
  "arLib = vrLib\<lparr> validateJson := (\<lambda>t. case map_of [(''x'', arProof ''sender''), (''y'', arProof ''recipient'')] t of
       Some v \<Rightarrow> Inr v | None \<Rightarrow> validateJson vrLib t),
     compactVerify := (\<lambda>j k. case map_of arMessages (j, k) of Some m \<Rightarrow> Some m | None \<Rightarrow> compactVerify vrLib j k) \<rparr>"

definition arDid :: "string \<Rightarrow> string \<Rightarrow> string \<Rightarrow> json" where
  "arDid did kid key = JObj [(''id'', JStr did), (''verificationMethod'', JArr [JObj
     [(''id'', JStr kid), (''controller'', JStr did), (''publicKeyJwk'', demoJwk key)]]),
     (''assertionMethod'', JArr [JStr kid]), (''authentication'', JArr [JStr kid])]"

definition arEnv :: authorityEnv where
  "arEnv = \<lparr> aeNetwork = ''777'', aeRegistry = vrAddress,
     aeSigningKey = (\<lambda>_. Inr \<lparr> akPrivate = vrKey, akKid = ''ikid'', akPublic = None \<rparr>),
     aeAssertRotation = Some (\<lambda>_ _ _. Inr ()),
     aeResolveDid = (\<lambda>did. if did = ''did:i'' then Inr (arDid did ''ikid'' vrKey) else Inr (arDid did ''skid'' vrServiceKey)),
     aeAssertCurrent = (\<lambda>_ _. Inr ()), aeNow = 5004 \<rparr>"

definition arMember :: "string \<Rightarrow> string option \<Rightarrow> Member" where
  "arMember role service = \<lparr> mbRole = role, mbService = service, mbPermissions = None, mbActive = None,
     mbGeneration = None \<rparr>"

definition arActor :: "string \<Rightarrow> string \<Rightarrow> Actor" where
  "arActor user role = \<lparr> acUser = user, acRole = role, acInstitution = vrInstitution, acService = None,
     acGeneration = None \<rparr>"

definition arIntent :: ContactIntent where
  "arIntent = \<lparr> ciId = ''int-1'', ciInstitution = vrInstitution, ciRecipient = ''recipient'', ciAgent = ''agent'',
     ciService = ''did:s'', ciPurpose = ''FRAUD_CONFIRMATION'', ciPolicyHash = vrDigest (CHR ''1''),
     ciExpiresAt = 6000, ciStatus = IntentOpen, ciSource = ''mock-crm-fds'' \<rparr>"

definition arAttempt :: CallAttempt where
  "arAttempt = \<lparr> caId = ''att-1'', caIntent = ''int-1'', caSession = ''session'', caAgent = ''agent'',
     caStatus = CallAuthorized, caExpiresAt = 5300 \<rparr>"

definition arService :: RegisteredService where
  "arService = \<lparr> svDid = ''did:s'', svKid = ''skid'', svKey = demoJwk vrServiceKey, svVersion = 1, svActive = True \<rparr>"

definition arRecord :: InstitutionRecord where
  "arRecord = \<lparr> irCheckpointVersion = None, irUri = None, irObservedEpoch = None, irLedgerObservation = None,
     irRegistrationOperation = None, irRegistrationState = None, irDirectory = None, irProposals = [],
     irRecovery = None, irService = None, irPendingEvents = [], irPendingUsage = [],
     irId = vrInstitution, irDid = ''did:i'', irEpoch = ''1'', irKeyVersion = 1, irKid = ''ikid'',
     irPublicKey = demoJwk vrKey, irStatus = InstitutionActive, irPolicy = vrPolicy,
     irServices = [(''did:s'', arService)],
     irMembers = [(''recipient'', arMember ''recipient'' None), (''agent'', arMember ''gateway'' (Some ''did:s'')),
       (''manager'', arMember ''institution'' None)],
     irIntents = [(''int-1'', arIntent)], irAttempts = [(''att-1'', arAttempt)],
     irCredentials = [(vrDigest (CHR ''1''), \<lparr> diVc = vrVc, diJws = ''jws-v'', diRevoked = False \<rparr>)],
     irAuthorizations = [(''auth-1'', \<lparr> aiPayload = vrAuthorization, aiJws = ''jws-a'', aiCancelled = False \<rparr>)],
     irConsumptions = [],
     irRecipientKeys = [(''session'', \<lparr> rkUser = ''recipient'', rkKey = demoJwk vrKey, rkExpiresAt = 5300 \<rparr>)],
     irAudit = [] \<rparr>"

definition arInput :: ConsumeInput where
  "arInput = \<lparr> niAuthorizationId = ''auth-1'', niBinding = vrBinding, niSenderProof = ''jws-x'',
     niRecipientProof = ''jws-y'', niPermitJws = ''jws-p'' \<rparr>"

definition arChecked :: ConsumeChecked where
  "arChecked = \<lparr> ncAuthorization = vrAuthorization, ncAttempt = arAttempt, ncPermit = vrPermit, ncBinding = vrBinding \<rparr>"

section \<open>Evaluation\<close>

lemma ar_lib: "hashCanonical arLib = hashCanonical vrLib" "canonicalBytes arLib = canonicalBytes vrLib"
  by (simp_all add: arLib_def fun_eq_iff hashCanonical_def canonicalBytes_def)

lemma ar_import: "importJwk arLib (demoJwk x) = Some x"
  by (simp add: arLib_def vrLib_def demoJwk_def jstr_def jget_def)

lemma ar_compact: "compactVerify arLib ''jws-p'' k = compactVerify vrLib ''jws-p'' k"
  "compactVerify arLib ''jws-v'' k = compactVerify vrLib ''jws-v'' k"
  by (simp_all add: arLib_def arMessages_def)

lemma ar_parse: "parseJsonNoDuplicateKeys arLib ''p'' = Inr vrPermit" "parseJsonNoDuplicateKeys arLib ''v'' = Inr vrVc"
  "parseJsonNoDuplicateKeys arLib ''x'' = Inr (arProof ''sender'')"
  "parseJsonNoDuplicateKeys arLib ''y'' = Inr (arProof ''recipient'')"
  by (simp_all add: parseJsonNoDuplicateKeys_def arLib_def vrLib_def MAX_SIGNED_MESSAGE_BYTES_def)

lemma arProof_schema: "role \<in> {''sender'', ''recipient''} \<Longrightarrow> possessionSchema (arProof role)"
  unfolding possessionSchema_def arProof_def
  by (rule zObject_in_order) (auto simp: vr_schema)

lemma ar_verify:
  "verifyPayload arLib ''jws-p'' vrServiceKey ''SenderSessionPermit'' ''skid'' permitSchema = Inr vrPermit"
  "verifyDelegationVc arLib ''jws-v'' vrKey ''ikid'' = Inr vrVc"
  "verifyPayload arLib ''jws-x'' vrKey ''PossessionProof'' (vrDigest (CHR ''c'')) possessionSchema = Inr (arProof ''sender'')"
  "verifyPayload arLib ''jws-y'' vrKey ''PossessionProof'' (vrDigest (CHR ''c'')) possessionSchema = Inr (arProof ''recipient'')"
proof -
  have p: "compactVerify vrLib ''jws-p'' vrServiceKey = Some (vrHeader ''SenderSessionPermit'' ''skid'', ''p'')"
    and v: "compactVerify vrLib ''jws-v'' vrKey = Some (JObj [(''alg'', JStr ''EdDSA''), (''typ'', JStr ''vc+jwt''),
       (''cty'', JStr ''vc''), (''kid'', JStr ''ikid'')], ''v'')"
    by (simp_all add: vrLib_def vrMessages_def)
  show "verifyPayload arLib ''jws-p'' vrServiceKey ''SenderSessionPermit'' ''skid'' permitSchema = Inr vrPermit"
    using vr_verify(4) vrPermit_schema unfolding verifyPayload_eq_Inr ar_compact by (simp add: p ar_parse)
  show "verifyDelegationVc arLib ''jws-v'' vrKey ''ikid'' = Inr vrVc"
    using vrVc_schema
    by (simp add: verifyDelegationVc_def verifyVc_def ar_compact v ar_parse parseWith_def) (simp add: isStr_def jget_def)
  have xy: "compactVerify arLib ''jws-x'' vrKey = Some (vrHeader ''PossessionProof'' (vrDigest (CHR ''c'')), ''x'')"
    "compactVerify arLib ''jws-y'' vrKey = Some (vrHeader ''PossessionProof'' (vrDigest (CHR ''c'')), ''y'')"
    by (simp_all add: arLib_def arMessages_def)
  have "isStr (arProof role) ''type'' ''PossessionProof''" for role
    by (simp add: arProof_def vrBase_def vrClock_def isStr_def jget_def)
  then show "verifyPayload arLib ''jws-x'' vrKey ''PossessionProof'' (vrDigest (CHR ''c'')) possessionSchema = Inr (arProof ''sender'')"
    "verifyPayload arLib ''jws-y'' vrKey ''PossessionProof'' (vrDigest (CHR ''c'')) possessionSchema = Inr (arProof ''recipient'')"
    using arProof_schema unfolding verifyPayload_eq_Inr xy
    by (simp_all add: ar_parse MAX_SIGNED_MESSAGE_BYTES_def) (simp_all add: vrHeader_def isStr_def jget_def)
qed

lemma ar_did: "assertDid arLib arEnv arRecord ''did:s'' = Inr arService"
proof -
  have "\<not> didMismatch arLib (arDid d k x) d k (demoJwk x) rel" if "rel \<in> {''assertionMethod'', ''authentication''}" for d k x rel
    using that by (auto simp: didMismatch_def arDid_def isStr_def jarr_def jget_def jobj_def)
  moreover have "dget (irServices arRecord) ''did:s'' = Some arService" "irDid arRecord = ''did:i''"
    "irKid arRecord = ''ikid''" "irPublicKey arRecord = demoJwk vrKey" by (simp_all add: arRecord_def)
  moreover have "svDid arService = ''did:s''" "svKid arService = ''skid''" "svKey arService = demoJwk vrServiceKey"
    by (simp_all add: arService_def)
  moreover have "aeResolveDid arEnv ''did:i'' = Inr (arDid ''did:i'' ''ikid'' vrKey)"
    "aeResolveDid arEnv ''did:s'' = Inr (arDid ''did:s'' ''skid'' vrServiceKey)" by (simp_all add: arEnv_def)
  ultimately show ?thesis by (simp add: assertDid_def assertDidKey_def)
qed

lemma ar_credential: "authorityCredential arLib arEnv arRecord (vrDigest (CHR ''1'')) ''did:s'' = Inr (vrVc, arService)"
proof -
  have r: "dget (irCredentials arRecord) (vrDigest (CHR ''1'')) = Some \<lparr> diVc = vrVc, diJws = ''jws-v'', diRevoked = False \<rparr>"
    "irKid arRecord = ''ikid''" "irPublicKey arRecord = demoJwk vrKey" "irPolicy arRecord = vrPolicy"
    by (simp_all add: arRecord_def)
  have subject: "\<not> delegationSubjectInvalid arLib arRecord arService ''did:s'' vrVc"
    by (simp add: delegationSubjectInvalid_def ar_lib arService_def arRecord_def vrVc_def member_defs)
  have status: "\<not> delegationStatusInvalid arEnv arRecord vrVc"
    using vr_dates by (simp add: delegationStatusInvalid_def arEnv_def arRecord_def vrVc_def member_defs)
  have purpose: "isStr (jobj vrVc ''credentialSubject'') ''policyHash'' (vrDigest (CHR ''1''))"
    "sameMember (jobj vrVc ''credentialSubject'') vrPolicy ''purpose''"
    by (simp_all add: vrVc_def vrPolicy_def member_defs)
  have "aeAssertCurrent arEnv x y = Inr ()" for x y by (simp add: arEnv_def)
  with r subject status purpose show ?thesis
    using vrVc_schema vrPolicy_schema
    by (simp add: authorityCredential_def ar_did ar_import ar_verify vcDigest_def policyHash_def parseWith_def ar_lib
        vr_hash Let_def)
qed

lemma ar_intent: "activeIntent arLib arRecord ''int-1'' (arActor ''recipient'' ''recipient'') 5004 = Inr arIntent"
proof -
  have "policyHash arLib (irPolicy arRecord) = Inr (ciPolicyHash arIntent)"
    using vrPolicy_schema by (simp add: policyHash_def parseWith_def ar_lib vr_hash arRecord_def arIntent_def)
  then show ?thesis
    by (simp add: result_simps)
       (simp add: arRecord_def arActor_def arIntent_def intentHidden_def memberRole_def memberInactive_def arMember_def)
qed

lemma ar_possession:
  "assertPossession arLib arEnv vrAuthorization (vrDigest (CHR ''f'')) ''sender'' ''jws-x'' (demoJwk vrKey) = Inr ()"
  "assertPossession arLib arEnv vrAuthorization (vrDigest (CHR ''f'')) ''recipient'' ''jws-y'' (demoJwk vrKey) = Inr ()"
proof -
  have now: "aeNow arEnv = 5004" by (simp add: arEnv_def)
  have t: "assertTemporalValidity (arProof q) 5004 = Inr ()" for q
    by (simp add: assertTemporalValidity_iff arProof_def vrBase_def vrClock_def jnum_def jget_def isSafeInteger_def maxSafeInteger_def)
  have m: "jnum (arProof q) ''expiresAt'' - jnum (arProof q) ''issuedAt'' = 30" "isStr (arProof q) ''role'' q"
    "sameMember (arProof q) vrAuthorization ''authorizationId''" "isStr (arProof q) ''bindingHash'' (vrDigest (CHR ''f''))"
    "sameMembers (arProof q) vrAuthorization [''sessionId'', ''networkId'', ''registryAddress'']" for q
    by (simp_all add: arProof_def vrAuthorization_def vrBase_def vrClock_def member_defs)
  show "assertPossession arLib arEnv vrAuthorization (vrDigest (CHR ''f'')) ''sender'' ''jws-x'' (demoJwk vrKey) = Inr ()"
    "assertPossession arLib arEnv vrAuthorization (vrDigest (CHR ''f'')) ''recipient'' ''jws-y'' (demoJwk vrKey) = Inr ()"
    unfolding assertPossession_def ar_lib vr_hash ar_import using now t m
    by (simp_all add: ar_verify del: sameMembers_Cons)
qed

lemma ar_checks: "consumeChecks arLib arEnv (arActor ''recipient'' ''recipient'') arInput arRecord = Inr arChecked"
proof -
  let ?k = "\<lparr> rkUser = ''recipient'', rkKey = demoJwk vrKey, rkExpiresAt = 5300 \<rparr>"
  have m: "membership arRecord (arActor ''recipient'' ''recipient'') [''recipient''] = Inr ()"
    by (simp add: result_simps)
       (simp add: arRecord_def arActor_def memberRole_def memberInactive_def arMember_def)
  have r: "dget (irAuthorizations arRecord) ''auth-1'' =
      Some \<lparr> aiPayload = vrAuthorization, aiJws = ''jws-a'', aiCancelled = False \<rparr>"
    "dget (irAttempts arRecord) ''att-1'' = Some arAttempt" "caStatus arAttempt = CallAuthorized"
    "dget (irRecipientKeys arRecord) ''session'' = Some ?k" "ciService arIntent = ''did:s''"
    "svKey arService = demoJwk vrServiceKey" "svKid arService = ''skid''"
    by (simp_all add: arRecord_def arAttempt_def arIntent_def arService_def)
  have a: "jstr vrAuthorization ''intentId'' = ''int-1''" "jstr vrAuthorization ''attemptId'' = ''att-1''"
    "jstr vrAuthorization ''vcDigest'' = vrDigest (CHR ''1'')" "jstr vrAuthorization ''sessionId'' = ''session''"
    "isNum vrAuthorization ''approvalKeyVersion'' (irKeyVersion arRecord)" "isStr vrAuthorization ''epoch'' (irEpoch arRecord)"
    by (simp_all add: vrAuthorization_def vrBase_def vrClock_def arRecord_def member_defs)
  have browser: "jobj vrPermit ''browserPublicKey'' = demoJwk vrKey"
    by (simp add: vrPermit_def vrBase_def vrClock_def member_defs)
  then have b: "\<not> bindingMismatch arLib (arActor ''recipient'' ''recipient'') vrAuthorization vrPermit ?k vrBinding"
    by (simp add: bindingMismatch_def ar_lib vr_hash)
      (simp_all add: vrAuthorization_def vrBinding_def vrPermit_def vrBase_def vrClock_def arActor_def member_defs)
  have i: "niAuthorizationId arInput = ''auth-1''" "niBinding arInput = vrBinding" "niPermitJws arInput = ''jws-p''"
    "niSenderProof arInput = ''jws-x''" "niRecipientProof arInput = ''jws-y''" "aeNow arEnv = 5004"
    "acUser (arActor ''recipient'' ''recipient'') = ''recipient''"
    by (simp_all add: arInput_def arEnv_def arActor_def)
  show ?thesis
    using m r a b i browser vrBinding_schema ar_possession
    by (simp add: consumeChecks_def parseWith_def ar_intent ar_credential ar_import ar_verify ar_lib vr_hash
        arChecked_def Let_def)
qed

end
