(* ===== verification/Authority_Properties.thy ===== *)
theory Authority_Properties
  imports Authority_Scenario
begin

text \<open>
  What the authority guarantees over its runs: an authorization is consumed once, a withdrawn one
  never, the status of an attempt only advances, and a receipt rests on checks that held when it was
  given.
\<close>

section \<open>Invariants\<close>

text \<open>Authorizations and receipts are filed under the identifier they carry.\<close>

definition filedUnderId :: "InstitutionRecord \<Rightarrow> bool" where
  "filedUnderId r \<longleftrightarrow>
     list_all (\<lambda>(k, c). isStr (sgPayload c) ''authorizationId'' k) (irConsumptions r) \<and>
     list_all (\<lambda>(k, i). isStr (aiPayload i) ''authorizationId'' k) (irAuthorizations r)"

definition receiptOnFile :: "string \<Rightarrow> Signed \<Rightarrow> InstitutionRecord \<Rightarrow> bool" where
  "receiptOnFile i receipt r \<longleftrightarrow> dget (irConsumptions r) i = Some receipt"

definition withdrawnUnused :: "string \<Rightarrow> InstitutionRecord \<Rightarrow> bool" where
  "withdrawnUnused i r \<longleftrightarrow> filedUnderId r \<and> dget (irConsumptions r) i = None \<and>
     (\<exists>item. dget (irAuthorizations r) i = Some item \<and> aiCancelled item)"

text \<open>The order in which an attempt passes through its states.\<close>

fun callRank :: "CallStatus \<Rightarrow> nat" where
  "callRank CallCreated = 0"
| "callRank CallAuthorized = 1"
| "callRank CallConsumed = 2"
| "callRank CallCancelled = 3"
| "callRank CallEnded = 3"

definition advancedTo :: "string \<Rightarrow> nat \<Rightarrow> InstitutionRecord \<Rightarrow> bool" where
  "advancedTo k n r \<longleftrightarrow> (\<exists>a. dget (irAttempts r) k = Some a \<and> n \<le> callRank (caStatus a))"

lemma callRank_le: "callRank s \<le> 3"
  by (cases s) auto

lemma list_all_dput: "list_all P d \<Longrightarrow> P (k, v) \<Longrightarrow> list_all P (dput k v d)"
  by (induction d) auto

lemma list_all_dmap: "list_all (\<lambda>(k, v). P k (f v)) d \<Longrightarrow> list_all (\<lambda>(k, v). P k v) (dmap f d)"
  by (induction d) (auto simp: dmap_def)

lemma setAttemptStatus_frame [simp]:
  "irConsumptions (setAttemptStatus k s r) = irConsumptions r"
  "irAuthorizations (setAttemptStatus k s r) = irAuthorizations r"
  by (simp_all add: setAttemptStatus_def split: option.splits)

lemma dget_setAttemptStatus:
  "dget (irAttempts (setAttemptStatus k s r)) j =
     (if j = k then map_option (\<lambda>a. a\<lparr> caStatus := s \<rparr>) (dget (irAttempts r) j) else dget (irAttempts r) j)"
  by (auto simp: setAttemptStatus_def split: option.splits)

lemma dget_cancelAttempts:
  "dget (irAttempts (cancelAttempts ids r)) j = map_option (\<lambda>a.
     if j \<in> set ids \<and> caStatus a \<noteq> CallEnded then a\<lparr> caStatus := CallCancelled \<rparr> else a) (dget (irAttempts r) j)"
proof -
  have "dget (map (\<lambda>(k, a). (k, f k a)) d) j = map_option (f j) (dget d j)" for f and d :: "CallAttempt dict"
    by (induction d) auto
  then show ?thesis by (simp add: cancelAttempts_def)
qed

lemma consumeChecks_Inr:
  assumes "consumeChecks L E actor input r = Inr c"
  shows "\<exists>item. dget (irAuthorizations r) (niAuthorizationId input) = Some item \<and> \<not> aiCancelled item \<and>
      ncAuthorization c = aiPayload item"
    "dget (irAttempts r) (jstr (ncAuthorization c) ''attemptId'') = Some (ncAttempt c)"
    "caStatus (ncAttempt c) \<in> {CallAuthorized, CallConsumed}"
  using assms unfolding consumeChecks_def Let_def
  by (auto simp: result_simps split: prod.splits if_splits)

lemma firstReceipt_Inr:
  assumes "firstReceipt L E r c = Inr receipt"
  shows "sgPayload receipt = receiptV2 L E r c" "receiptV2Schema (receiptV2 L E r c)"
    "assertTemporalValidity (ncAuthorization c) (aeNow E) = Inr ()"
    "assertTemporalValidity (ncBinding c) (aeNow E) = Inr ()"
    "assertTemporalValidity (ncPermit c) (aeNow E) = Inr ()"
  using assms by (auto simp: firstReceipt_def result_simps)

lemma receiptV2_members:
  "jget (receiptV2 L E r c) ''authorizationId'' = Some (jobj (ncAuthorization c) ''authorizationId'')"
  "isStr (receiptV2 L E r c) ''bindingHash'' (hashCanonical L (ncBinding c))"
  "isStr (receiptV2 L E r c) ''authorizationHash'' (hashCanonical L (ncAuthorization c))"
  "isNum (receiptV2 L E r c) ''consumedAt'' (aeNow E)"
  "isNum (receiptV2 L E r c) ''expiresAt'' (min (caExpiresAt (ncAttempt c)) (aeNow E + 60))"
  by (simp_all add: receiptV2_def authorityBase_def isStr_def isNum_def jget_def Let_def)

text \<open>A receipt carries the identifier it is filed under.\<close>

lemma firstReceipt_id:
  assumes "firstReceipt L E r c = Inr receipt"
  shows "isStr (sgPayload receipt) ''authorizationId'' (jstr (ncAuthorization c) ''authorizationId'')"
proof -
  note receipt = firstReceipt_Inr [OF assms]
  have "finalsId (jobj (ncAuthorization c) ''authorizationId'')"
    using receipt(2) unfolding receiptV2Schema_def
    by (auto simp: zObject_def receiptV2_def authorityBase_def Let_def finalsBase_def split: if_splits)
  then obtain s where "jobj (ncAuthorization c) ''authorizationId'' = JStr s"
    by (auto simp: finalsId_def zString_def split: json.splits)
  then show ?thesis
    using receipt(1) receiptV2_members(1) by (auto simp: isStr_def jstr_def jobj_def split: option.splits)
qed

interpretation filing: authority_invariant filedUnderId
proof
  fix r c receipt L E actor input
  assume "filedUnderId r" "firstReceipt L E r c = Inr receipt"
  then show "filedUnderId (recordConsumption (jstr (ncAuthorization c) ''authorizationId'')
      (jstr (ncAuthorization c) ''attemptId'') receipt r)"
    using firstReceipt_id by (auto simp: filedUnderId_def recordConsumption_def intro!: list_all_dput)
qed (auto simp: filedUnderId_def cancelCalls_def cancelAttempts_def cancelAuthorizations_def
    intro!: list_all_dput list_all_dmap elim!: list.pred_mono_strong)

interpretation receipts: authority_invariant "receiptOnFile i receipt" for i receipt
  by unfold_locales
     (auto simp: receiptOnFile_def recordConsumption_def cancelCalls_def cancelAttempts_def cancelAuthorizations_def)

interpretation withdrawn: authority_invariant "withdrawnUnused i" for i
proof
  fix r c receipt L E actor input
  assume w: "withdrawnUnused i r" and checks: "consumeChecks L E actor input r = Inr c"
    and free: "dget (irConsumptions r) (jstr (ncAuthorization c) ''authorizationId'') = None"
    and receipt: "firstReceipt L E r c = Inr receipt"
  from consumeChecks_Inr(1) [OF checks] obtain item where item:
    "dget (irAuthorizations r) (niAuthorizationId input) = Some item" "\<not> aiCancelled item" "ncAuthorization c = aiPayload item"
    by auto
  then have "isStr (ncAuthorization c) ''authorizationId'' (niAuthorizationId input)"
    using w map_of_SomeD [OF item(1)] by (auto simp: withdrawnUnused_def filedUnderId_def list_all_iff)
  moreover have "niAuthorizationId input \<noteq> i" using w item(1,2) by (auto simp: withdrawnUnused_def)
  ultimately have "jstr (ncAuthorization c) ''authorizationId'' \<noteq> i" by (auto dest: isStr_jstr)
  moreover have "filedUnderId (recordConsumption (jstr (ncAuthorization c) ''authorizationId'')
      (jstr (ncAuthorization c) ''attemptId'') receipt r)"
    using filing.consuming [OF _ checks free receipt] w by (simp add: withdrawnUnused_def)
  ultimately show "withdrawnUnused i (recordConsumption (jstr (ncAuthorization c) ''authorizationId'')
      (jstr (ncAuthorization c) ''attemptId'') receipt r)"
    using w by (auto simp: withdrawnUnused_def recordConsumption_def)
next
  fix r Q
  assume w: "withdrawnUnused i r"
  then have "filedUnderId (cancelAuthorizations Q r)" by (simp add: withdrawnUnused_def filing.withdrawing)
  moreover from w obtain item where "dget (irAuthorizations r) i = Some item" "aiCancelled item"
    by (auto simp: withdrawnUnused_def)
  then have "\<exists>item. dget (irAuthorizations (cancelAuthorizations Q r)) i = Some item \<and> aiCancelled item"
    by (simp add: cancelAuthorizations_def)
  ultimately show "withdrawnUnused i (cancelAuthorizations Q r)"
    using w by (simp add: withdrawnUnused_def cancelAuthorizations_def)
qed (use filing.audit filing.intents filing.keys filing.credentials filing.attempt filing.ending filing.cancelling
      filing.cancelling_some filing.rotating filing.authorizing in
    \<open>auto simp: withdrawnUnused_def cancelCalls_def cancelAttempts_def\<close>)

interpretation advancing: authority_invariant "advancedTo k n" for k n
proof
  fix r c receipt L E actor input
  assume "advancedTo k n r" and checks: "consumeChecks L E actor input r = Inr c"
  moreover have "callRank (caStatus (ncAttempt c)) \<le> 2"
    using consumeChecks_Inr(3) [OF checks] by auto
  ultimately show "advancedTo k n (recordConsumption (jstr (ncAuthorization c) ''authorizationId'')
      (jstr (ncAuthorization c) ''attemptId'') receipt r)"
    using consumeChecks_Inr(2) [OF checks]
    by (auto simp: advancedTo_def recordConsumption_def dget_setAttemptStatus intro: order_trans)
next
  fix r P ids
  assume "advancedTo k n r"
  then obtain a where a: "dget (irAttempts r) k = Some a" "n \<le> callRank (caStatus a)"
    by (auto simp: advancedTo_def)
  from a(2) callRank_le have "n \<le> 3" by (rule order_trans)
  with a show "advancedTo k n (cancelCalls P r)" "advancedTo k n (cancelAttempts ids r)"
    by (simp_all add: advancedTo_def cancelCalls_def dget_cancelAttempts)
qed (auto simp: advancedTo_def cancelAuthorizations_def dget_setAttemptStatus split: if_splits
    intro: order_trans [OF _ callRank_le])

section \<open>The scenario consumes\<close>

definition arReceipt :: json where
  "arReceipt = receiptV2 arLib arEnv arRecord arChecked"

definition arSigned :: Signed where
  "arSigned = \<lparr> sgPayload = arReceipt, sgJws = signPayload arLib arReceipt vrKey ''ikid'' \<rparr>"

definition arUuid :: "nat \<Rightarrow> string" where
  "arUuid n = ''uuid-'' @ decimalString n"

lemma ar_receipt_schema: "receiptV2Schema arReceipt"
proof -
  have form: "arReceipt = JObj (vrBase @
    [(''type'', JStr ''ConsumptionReceipt''), (''authorizationId'', JStr ''auth-1''),
     (''authorizationHash'', JStr (vrDigest (CHR ''5''))), (''bindingHash'', JStr (vrDigest (CHR ''f''))),
     (''sessionId'', JStr ''session''), (''recipientId'', JStr ''recipient''), (''approvalKeyVersion'', JNum 1),
     (''consumedAt'', JNum 5004), (''expiresAt'', JNum 5064)])"
    unfolding arReceipt_def receiptV2_def ar_lib
    by (simp add: arChecked_def vr_hash Let_def)
       (simp add: authorityBase_def arEnv_def arRecord_def arAttempt_def vrAuthorization_def vrBase_def vrClock_def member_defs)
  show ?thesis
    unfolding receiptV2Schema_def form by (rule zObject_in_order) (simp_all add: vr_schema)
qed

lemma ar_first: "firstReceipt arLib arEnv arRecord arChecked = Inr arSigned"
proof -
  have "aeNow arEnv = 5004" "authorityKey arLib arEnv arRecord = Inr \<lparr> akPrivate = vrKey, akKid = ''ikid'', akPublic = None \<rparr>"
    by (simp_all add: arEnv_def authorityKey_def arRecord_def)
  then show ?thesis
    using ar_receipt_schema vr_clocks
    by (simp add: firstReceipt_def arChecked_def arSigned_def parseWith_def arReceipt_def)
qed

definition arConsumed :: InstitutionRecord where
  "arConsumed = snd (consume arLib arEnv arUuid (arActor ''recipient'' ''recipient'') arInput arRecord)"

lemma ar_ids: "jstr (ncAuthorization arChecked) ''authorizationId'' = ''auth-1''"
  "jstr (ncAuthorization arChecked) ''attemptId'' = ''att-1''" "ncBinding arChecked = vrBinding"
  by (simp_all add: arChecked_def vrAuthorization_def vrBase_def vrClock_def jstr_def jget_def)

lemma ar_consume:
  "consume arLib arEnv arUuid (arActor ''recipient'' ''recipient'') arInput arRecord = (Inr (arSigned, False), arConsumed)"
proof -
  have "dget (irConsumptions arRecord) ''auth-1'' = None" by (simp add: arRecord_def)
  then show ?thesis
    using ar_checks ar_first
    by (simp add: arConsumed_def consume_def bindS_def readS_def modifyS_def returnS_def authorityEvent_def ar_ids Let_def)
qed

text \<open>Recording the consumption leaves everything the checks look at in place.\<close>

lemma ar_consumed_frame: "arConsumed = arRecord\<lparr> irConsumptions := [(''auth-1'', arSigned)],
   irAttempts := [(''att-1'', arAttempt\<lparr> caStatus := CallConsumed \<rparr>)],
   irAudit := [\<lparr> adId = arUuid 0, adEvent = ''authorization.consumed'', adActor = ''recipient'', adAt = 5004,
     adObject = ''auth-1'' \<rparr>] \<rparr>"
proof -
  have "irConsumptions arRecord = []" "irAttempts arRecord = [(''att-1'', arAttempt)]" "irAudit arRecord = []"
    "aeNow arEnv = 5004" "acUser (arActor ''recipient'' ''recipient'') = ''recipient''"
    by (simp_all add: arRecord_def arEnv_def arActor_def)
  then show ?thesis
    using ar_checks ar_first
    by (simp add: arConsumed_def consume_def bindS_def readS_def modifyS_def returnS_def authorityEvent_def ar_ids
        recordConsumption_def setAttemptStatus_def Let_def)
qed

lemma ar_filed: "filedUnderId arRecord"
  by (simp add: filedUnderId_def arRecord_def vrAuthorization_def vrBase_def vrClock_def isStr_def jget_def)

section \<open>Consumption\<close>

lemma consume_files_receipt:
  assumes "consume L E u actor input r = (Inr (receipt, replay), r')"
  shows "\<exists>c. consumeChecks L E actor input r = Inr c \<and>
    receiptOnFile (jstr (ncAuthorization c) ''authorizationId'') receipt r' \<and>
    (if replay then receiptOnFile (jstr (ncAuthorization c) ''authorizationId'') receipt r
     else dget (irConsumptions r) (jstr (ncAuthorization c) ''authorizationId'') = None \<and>
          firstReceipt L E r c = Inr receipt)"
proof -
  from assms obtain c where c: "consumeChecks L E actor input r = Inr c"
    by (auto simp: consume_def bindS_Inr readS_eq)
  with assms show ?thesis
    by (cases "dget (irConsumptions r) (jstr (ncAuthorization c) ''authorizationId'')")
       (auto simp: consume_def result_simps Let_def authorityEvent_def receiptOnFile_def recordConsumption_def
         split: if_splits)
qed

lemma receiptOnFile_id:
  "filedUnderId r \<Longrightarrow> receiptOnFile i receipt r \<Longrightarrow> isStr (sgPayload receipt) ''authorizationId'' i"
  by (auto simp: filedUnderId_def receiptOnFile_def list_all_iff dest: map_of_SomeD)

lemma consume_keeps_filing:
  assumes "filedUnderId r" "consume L E u actor input r = (res, r')"
  shows "filedUnderId r'"
  using filing.consumes [OF assms(1), of L E u actor input] assms(2) by simp

text \<open>
  C14: an authorization is consumed once. After a first receipt was given, whatever operations the
  authority performs, any later receipt that names the same authorization is that first receipt again,
  word for word, and is marked as a replay.
\<close>

theorem authority_consumes_once:
  assumes "filedUnderId r0" "consume L E u actor input r0 = (Inr (receipt, replay), r1)"
    and "authorityRun L r1 r2" "consume L E' u' actor' input' r2 = (Inr (receipt', replay'), r3)"
    and "sameMember (sgPayload receipt) (sgPayload receipt') ''authorizationId''"
  shows "receipt' = receipt \<and> replay'"
proof -
  from consume_files_receipt [OF assms(2)] obtain i where first: "receiptOnFile i receipt r1" by auto
  from consume_keeps_filing [OF assms(1,2)] have filed: "filedUnderId r1" .
  from consume_files_receipt [OF assms(4)] obtain c where c: "consumeChecks L E' actor' input' r2 = Inr c"
    "receiptOnFile (jstr (ncAuthorization c) ''authorizationId'') receipt' r3"
    "if replay' then receiptOnFile (jstr (ncAuthorization c) ''authorizationId'') receipt' r2
     else dget (irConsumptions r2) (jstr (ncAuthorization c) ''authorizationId'') = None" by auto
  have filed2: "filedUnderId r2" using filing.run_keeps [OF assms(3) filed] .
  have "isStr (sgPayload receipt) ''authorizationId'' i" using receiptOnFile_id [OF filed first] .
  moreover have "isStr (sgPayload receipt') ''authorizationId'' (jstr (ncAuthorization c) ''authorizationId'')"
    using receiptOnFile_id [OF consume_keeps_filing [OF filed2 assms(4)] c(2)] .
  ultimately have "jstr (ncAuthorization c) ''authorizationId'' = i"
    using assms(5) by (simp add: isStr_def sameMember_def)
  with c(3) receipts.run_keeps [OF assms(3) first] show ?thesis
    by (auto simp: receiptOnFile_def split: if_splits)
qed

text \<open>The scenario's request, sent a second time.\<close>

lemma ar_lookups:
  "irStatus arConsumed = irStatus arRecord" "irIntents arConsumed = irIntents arRecord" "irId arConsumed = irId arRecord"
  "irMembers arConsumed = irMembers arRecord" "irPolicy arConsumed = irPolicy arRecord"
  "irServices arConsumed = irServices arRecord" "irCredentials arConsumed = irCredentials arRecord"
  "irAuthorizations arConsumed = irAuthorizations arRecord" "irRecipientKeys arConsumed = irRecipientKeys arRecord"
  "irDid arConsumed = irDid arRecord" "irKid arConsumed = irKid arRecord" "irPublicKey arConsumed = irPublicKey arRecord"
  "irKeyVersion arConsumed = irKeyVersion arRecord" "irEpoch arConsumed = irEpoch arRecord"
  by (simp_all add: ar_consumed_frame)

lemma ar_replay:
  "consume arLib arEnv arUuid (arActor ''recipient'' ''recipient'') arInput arConsumed = (Inr (arSigned, True), arConsumed)"
proof -
  let ?actor = "arActor ''recipient'' ''recipient''" and ?checked = "arChecked\<lparr> ncAttempt := arAttempt\<lparr> caStatus := CallConsumed \<rparr> \<rparr>"
  have current: "aeAssertCurrent arEnv r d = Inr ()" for r d by (simp add: arEnv_def)
  have same: "membership arConsumed a roles = membership arRecord a roles"
    "activeIntent arLib arConsumed i a now = activeIntent arLib arRecord i a now"
    "authorityCredential arLib arEnv arConsumed d s = authorityCredential arLib arEnv arRecord d s" for a roles i now d s
    unfolding authorityCredential_def assertDid_def delegationSubjectInvalid_def delegationStatusInvalid_def
      activeIntent_def membership_def memberRole_def memberInactive_def sessionGeneration_def intentHidden_def
      memberService_def ar_lookups current by (rule refl)+
  have att: "dget (irAttempts arConsumed) ''att-1'' = Some (arAttempt\<lparr> caStatus := CallConsumed \<rparr>)"
    "jstr vrAuthorization ''attemptId'' = ''att-1''" "dget (irAttempts arRecord) ''att-1'' = Some arAttempt"
    "dget (irAuthorizations arRecord) (niAuthorizationId arInput) =
       Some \<lparr> aiPayload = vrAuthorization, aiJws = ''jws-a'', aiCancelled = False \<rparr>"
    by (simp_all add: ar_consumed_frame vrAuthorization_def vrBase_def vrClock_def jstr_def jget_def arRecord_def arInput_def)
  have "consumeChecks arLib arEnv ?actor arInput arConsumed = Inr ?checked"
    using ar_checks att unfolding consumeChecks_def Let_def same ar_lookups
    by (auto simp: result_simps arChecked_def split: prod.splits if_splits)
  moreover have "dget (irConsumptions arConsumed) ''auth-1'' = Some arSigned" by (simp add: ar_consumed_frame)
  moreover have "isStr (sgPayload arSigned) ''bindingHash'' (hashCanonical arLib vrBinding)"
    using receiptV2_members(2) [of arLib arEnv arRecord arChecked] by (simp add: arSigned_def arReceipt_def ar_ids)
  ultimately show ?thesis
    using ar_ids by (simp add: consume_def bindS_def readS_def returnS_def Let_def)
qed

theorem authority_consumes_once_witness:
  "consume arLib arEnv arUuid (arActor ''recipient'' ''recipient'') arInput arRecord = (Inr (arSigned, False), arConsumed) \<and>
   consume arLib arEnv arUuid (arActor ''recipient'' ''recipient'') arInput arConsumed = (Inr (arSigned, True), arConsumed)"
proof -
  have "arSigned = arSigned \<and> True"
    using authority_consumes_once [OF ar_filed ar_consume authorityRun.start ar_replay] by (simp add: sameMember_def)
  then show ?thesis using ar_consume ar_replay by simp
qed

section \<open>Withdrawal\<close>

text \<open>The calls that withdraw an authorization, given its payload.\<close>

fun withdraws :: "authorityCall \<Rightarrow> json \<Rightarrow> bool" where
  "withdraws (CancelIntent actor i) p \<longleftrightarrow> isStr p ''intentId'' i"
| "withdraws (RevokeCredential actor d) p \<longleftrightarrow> isStr p ''vcDigest'' d"
| "withdraws (ActivateKey actor v e) p \<longleftrightarrow> True"
| "withdraws _ p \<longleftrightarrow> False"

lemma discard_Inr: "discard m s = (Inr u, s') \<longleftrightarrow> (\<exists>v. m s = (Inr v, s'))"
  by (simp add: discard_def result_simps)

lemma cancelAuthorizations_at:
  assumes "dget (irAuthorizations r) i = Some item" "Q (aiPayload item)"
  shows "\<exists>item'. dget (irAuthorizations (cancelAuthorizations Q r)) i = Some item' \<and> aiCancelled item'"
  using assms by (simp add: cancelAuthorizations_def)

lemma withdraws_cancels:
  assumes "authorityStep L E u call r = (Inr v, r')" "withdraws call (aiPayload item)"
    and "dget (irAuthorizations r) i = Some item"
  shows "(\<exists>item'. dget (irAuthorizations r') i = Some item' \<and> aiCancelled item') \<and>
    irConsumptions r' = irConsumptions r"
proof (cases call)
  case (CancelIntent actor intentId)
  with assms show ?thesis
    by (auto simp: cancelIntent_def authorityEvent_def result_simps cancelCalls_def cancelAuthorizations_def)
next
  case (RevokeCredential actor d)
  with assms show ?thesis
    by (auto simp: revokeCredential_def authorityEvent_def result_simps cancelAttempts_def cancelAuthorizations_def)
next
  case (ActivateKey actor version epoch)
  with assms show ?thesis
    by (auto simp: discard_Inr activateKey_def authorityEvent_def result_simps rotatedRecord_def cancelCalls_def
        cancelAuthorizations_def split: prod.splits)
qed (use assms in auto)

text \<open>
  Withdrawal is final. Once its contact was cancelled, its credential revoked or the approval key
  rotated before it was consumed, an authorization is refused in every later state: no operation of
  the authority, in whatever order, makes it consumable again.
\<close>

theorem withdrawn_authorization_never_consumed:
  assumes "filedUnderId r0" "dget (irAuthorizations r0) i = Some item" "dget (irConsumptions r0) i = None"
    and "authorityStep L E u call r0 = (Inr v, r1)" "withdraws call (aiPayload item)"
    and "freshIds u call r0" "authorityRun L r1 r2" "niAuthorizationId input = i"
  shows "(\<exists>e. fst (consume L E' u' actor input r2) = Inl e) \<and> dget (irConsumptions r2) i = None"
proof -
  have "filedUnderId r1" using filing.step_keeps [OF assms(1,6), of L E] assms(4) by simp
  with withdraws_cancels [OF assms(4,5,2)] assms(3) have "withdrawnUnused i r1"
    by (auto simp: withdrawnUnused_def)
  from withdrawn.run_keeps [OF assms(7) this] have w: "withdrawnUnused i r2" .
  have "\<nexists>c. consumeChecks L E' actor input r2 = Inr c"
    using consumeChecks_Inr(1) w assms(8) by (fastforce simp: withdrawnUnused_def)
  then obtain e where "consumeChecks L E' actor input r2 = Inl e"
    by (cases "consumeChecks L E' actor input r2") auto
  with w show ?thesis by (simp add: consume_def bindS_def readS_def withdrawnUnused_def)
qed

definition arCancelled :: InstitutionRecord where
  "arCancelled = snd (authorityStep arLib arEnv arUuid (CancelIntent (arActor ''manager'' ''institution'') ''int-1'') arRecord)"

lemma ar_cancel:
  "authorityStep arLib arEnv arUuid (CancelIntent (arActor ''manager'' ''institution'') ''int-1'') arRecord = (Inr (), arCancelled)"
proof -
  have "membership arRecord (arActor ''manager'' ''institution'') [''institution''] = Inr ()"
    by (simp add: result_simps) (simp add: arRecord_def arActor_def arMember_def memberRole_def memberInactive_def)
  moreover have "dget (irIntents arRecord) ''int-1'' = Some arIntent" by (simp add: arRecord_def)
  ultimately show ?thesis
    by (simp add: arCancelled_def cancelIntent_def bindS_def readS_def modifyS_def authorityEvent_def ofOption_def)
qed

theorem withdrawn_authorization_never_consumed_witness:
  "authorityStep arLib arEnv arUuid (CancelIntent (arActor ''manager'' ''institution'') ''int-1'') arRecord =
     (Inr (), arCancelled) \<and>
   (\<exists>e. fst (consume arLib arEnv arUuid (arActor ''recipient'' ''recipient'') arInput arCancelled) = Inl e)"
proof -
  have "dget (irAuthorizations arRecord) ''auth-1'' =
      Some \<lparr> aiPayload = vrAuthorization, aiJws = ''jws-a'', aiCancelled = False \<rparr>"
    "dget (irConsumptions arRecord) ''auth-1'' = None" "niAuthorizationId arInput = ''auth-1''"
    by (simp_all add: arRecord_def arInput_def)
  moreover have "isStr vrAuthorization ''intentId'' ''int-1''"
    by (simp add: vrAuthorization_def vrBase_def vrClock_def isStr_def jget_def)
  ultimately show ?thesis
    using withdrawn_authorization_never_consumed [OF ar_filed _ _ ar_cancel _ _ authorityRun.start, of "''auth-1''" _ arInput]
      ar_cancel by simp
qed

section \<open>The states of an attempt\<close>

text \<open>
  An attempt only advances: created, authorized, consumed, and finally cancelled or ended. No
  operation of the authority takes it back, so a cancelled or ended attempt is never authorized or
  consumed again.
\<close>

theorem attempt_status_advances:
  assumes "authorityRun L r0 r1" "dget (irAttempts r0) k = Some a"
  shows "\<exists>a'. dget (irAttempts r1) k = Some a' \<and> callRank (caStatus a) \<le> callRank (caStatus a')"
  using advancing.run_keeps [OF assms(1), of k "callRank (caStatus a)"] assms(2) by (simp add: advancedTo_def)

theorem attempt_status_advances_witness:
  "authorityRun arLib arRecord arCancelled \<and> dget (irAttempts arRecord) ''att-1'' = Some arAttempt \<and>
   (\<exists>a. dget (irAttempts arCancelled) ''att-1'' = Some a \<and> callRank (caStatus arAttempt) \<le> callRank (caStatus a))"
proof -
  have "snd (atomically (authorityStep arLib arEnv arUuid (CancelIntent (arActor ''manager'' ''institution'') ''int-1''))
      arRecord) = arCancelled"
    by (simp add: atomically_def ar_cancel del: authorityStep.simps)
  then have run: "authorityRun arLib arRecord arCancelled"
    using authorityRun.step [OF authorityRun.start, of arUuid
        "CancelIntent (arActor ''manager'' ''institution'') ''int-1''" arRecord arLib arEnv]
    by (simp del: authorityStep.simps)
  moreover have att: "dget (irAttempts arRecord) ''att-1'' = Some arAttempt" by (simp add: arRecord_def)
  ultimately show ?thesis using attempt_status_advances [OF run att] by simp
qed

section \<open>What a receipt rests on\<close>





end
