(* ===== verification/Service_Protocol.thy ===== *)
theory Service_Protocol
  imports Finals Base64
begin

text \<open>
  The messages of the service profile (protocol version 3), \<^verbatim>\<open>packages/protocol/src/service.ts\<close>, with the
  schemas of joint configuration and recovery it shares a wire format with
  (\<^verbatim>\<open>configuration.ts\<close>, \<^verbatim>\<open>recovery.ts\<close>), and the receiver's checks of a service call and of an invitation
  (\<^verbatim>\<open>packages/verifier/src/service.ts\<close>).
\<close>

section \<open>Identities\<close>

definition isUriChar :: "char \<Rightarrow> bool" where
  "isUriChar c \<longleftrightarrow> \<not> isSpace c \<and> c \<notin> set ''@?#''"

definition isNameChar :: "char \<Rightarrow> bool" where
  "isNameChar c \<longleftrightarrow> c \<in> set (digitChars @ lowerChars @ upperChars) \<or> c \<in> set '':._-''"

definition hasPrefix :: "string \<Rightarrow> (char \<Rightarrow> bool) \<Rightarrow> string \<Rightarrow> bool" where
  "hasPrefix pre p s \<longleftrightarrow> startsWith pre s \<and> drop (length pre) s \<noteq> [] \<and> list_all p (drop (length pre) s)"

definition isRegisteredUri :: "string \<Rightarrow> bool" where
  "isRegisteredUri s \<longleftrightarrow>
     hasPrefix ''https://'' isUriChar s \<or> hasPrefix ''urn:'' isNameChar s \<or> hasPrefix ''did:'' isNameChar s"

definition registeredUriSchema :: schema where
  "registeredUriSchema = zString (\<lambda>s. lengthBetween 5 300 s \<and> isRegisteredUri s)"

section \<open>Messages\<close>

definition serviceBase :: "(string \<times> schema) list" where
  "serviceBase =
    [(''protocol'', zLiteral (JStr ''callsign'')), (''version'', zLiteral (JNum 3)),
     (''networkId'', finalsId), (''registryAddress'', address)]"

definition callProfileSchema :: schema where
  "callProfileSchema = zEnum [''direct-webrtc-v3'', ''asterisk-webrtc-v3'']"

definition outcomeSchema :: schema where
  "outcomeSchema = zEnum [''ended'', ''declined'', ''no-answer'', ''failed'', ''cancelled'']"

definition serviceVcSchema :: schema where
  "serviceVcSchema = zObject
    [(''@context'', zTuple [zLiteral (JStr ''https://www.w3.org/ns/credentials/v2''),
        zObject [(''@vocab'', zLiteral (JStr ''urn:callsign:delegation:v1:''))] []]),
     (''id'', zString (startsWith ''urn:uuid:'')),
     (''type'', zTuple [zLiteral (JStr ''VerifiableCredential''), zLiteral (JStr ''CallCenterDelegation'')]),
     (''issuer'', registeredUriSchema), (''validFrom'', isoDatetime), (''validUntil'', isoDatetime),
     (''credentialSubject'', zObject
        [(''id'', registeredUriSchema), (''institutionId'', finalsId), (''publicKey'', publicKeySchema),
         (''keyVersion'', positiveInt), (''scope'', policySchema)] []),
     (''credentialStatus'', zObject
        [(''id'', finalsId), (''type'', zLiteral (JStr ''CallSignRegistryStatus'')), (''networkId'', finalsId),
         (''registryAddress'', address), (''epoch'', digitsString), (''approvalKeyVersion'', positiveInt)] [])] []"

definition signServiceCredential :: "lib \<Rightarrow> json \<Rightarrow> keyHandle \<Rightarrow> string \<Rightarrow> string result" where
  "signServiceCredential L = signVc L serviceVcSchema"

definition verifyServiceCredential :: "lib \<Rightarrow> string \<Rightarrow> keyHandle \<Rightarrow> string \<Rightarrow> json result" where
  "verifyServiceCredential L = verifyVc L serviceVcSchema"

definition serviceCredentialDigest :: "lib \<Rightarrow> json \<Rightarrow> string result" where
  "serviceCredentialDigest L vc = bindE (parseWith serviceVcSchema vc) (\<lambda>v. Inr (hashCanonical L v))"

definition serviceProofSchema :: schema where
  "serviceProofSchema = zObject (serviceBase @ clock @
    [(''type'', zLiteral (JStr ''CallCenterProof'')), (''challengeId'', finalsId), (''nonce'', finalsId),
     (''institutionId'', finalsId), (''intentId'', finalsId), (''attemptId'', finalsId), (''sessionId'', finalsId),
     (''agentId'', finalsId), (''serviceUri'', registeredUriSchema), (''serviceKeyVersion'', positiveInt),
     (''browserPublicKey'', publicKeySchema), (''vcDigest'', digest), (''policyHash'', digest),
     (''callProfile'', callProfileSchema)]) []"

definition startAuthorizationSchema :: schema where
  "startAuthorizationSchema = zObject (serviceBase @
    [(''type'', zLiteral (JStr ''ContactStartAuthorization'')), (''authorizationId'', finalsId),
     (''institutionId'', finalsId), (''institutionUri'', registeredUriSchema), (''intentId'', finalsId),
     (''attemptId'', finalsId), (''sessionId'', finalsId), (''agentId'', finalsId), (''recipientId'', finalsId),
     (''serviceUri'', registeredUriSchema), (''serviceKeyVersion'', positiveInt),
     (''approvalKeyVersion'', positiveInt), (''epoch'', digitsString), (''nonce'', finalsId),
     (''browserKeyHash'', digest), (''serviceProofHash'', digest), (''vcDigest'', digest), (''policyHash'', digest),
     (''purpose'', zLiteral (JStr ''FRAUD_CONFIRMATION'')), (''callProfile'', callProfileSchema),
     (''issuedAt'', anyInt), (''firstConsumeBy'', anyInt), (''callEndBy'', anyInt)]) []"

definition serviceBindingSchema :: schema where
  "serviceBindingSchema = zObject (serviceBase @ clock @
    [(''type'', zLiteral (JStr ''ServiceSessionBinding'')), (''authorizationHash'', digest),
     (''sessionId'', finalsId), (''connectionGeneration'', finalsId), (''recipientId'', finalsId),
     (''recipientNonce'', zString (lengthBetween 16 128)), (''recipientKeyHash'', digest),
     (''senderSdpHash'', digest), (''recipientSdpHash'', digest),
     (''senderFingerprint'', zString (lengthBetween 64 100)),
     (''recipientFingerprint'', zString (lengthBetween 64 100)), (''callProfile'', callProfileSchema)]) []"

definition servicePossessionSchema :: schema where
  "servicePossessionSchema = zObject (serviceBase @ clock @
    [(''type'', zLiteral (JStr ''ServicePossession'')), (''role'', zEnum [''sender'', ''recipient'']),
     (''authorizationId'', finalsId), (''sessionId'', finalsId), (''bindingHash'', digest), (''nonce'', finalsId)]) []"

definition serviceReceiptSchema :: schema where
  "serviceReceiptSchema = zObject (serviceBase @
    [(''type'', zLiteral (JStr ''ServiceConsumptionReceipt'')), (''institutionId'', finalsId),
     (''authorizationId'', finalsId), (''authorizationHash'', digest), (''bindingHash'', digest),
     (''sessionId'', finalsId), (''recipientId'', finalsId), (''consumedAt'', anyInt), (''recoverUntil'', anyInt)]) []"

definition serviceLeaseSchema :: schema where
  "serviceLeaseSchema = zObject (serviceBase @ clock @
    [(''type'', zLiteral (JStr ''CallLease'')), (''institutionId'', finalsId), (''authorizationId'', finalsId),
     (''bindingHash'', digest), (''sessionId'', finalsId), (''connectionGeneration'', finalsId),
     (''epoch'', zString (\<lambda>_. True)), (''approvalKeyVersion'', positiveInt), (''policyHash'', digest),
     (''vcDigest'', digest), (''sequence'', positiveInt), (''nonce'', finalsId),
     (''authority'', zEnum [''current'', ''unavailable'']), (''callEndBy'', anyInt)]) []"

definition renewalProofSchema :: schema where
  "renewalProofSchema = zObject (serviceBase @ clock @
    [(''type'', zLiteral (JStr ''LeaseRenewalProof'')), (''role'', zEnum [''sender'', ''recipient'']),
     (''authorizationId'', finalsId), (''sessionId'', finalsId), (''bindingHash'', digest),
     (''priorLeaseHash'', digest), (''sequence'', positiveInt), (''nonce'', finalsId)]) []"

definition longFingerprint :: schema where
  "longFingerprint = zString (lengthBetween 64 100)"

definition pbxEvidenceSchema :: schema where
  "pbxEvidenceSchema = zObject (serviceBase @ clock @
    [(''type'', zLiteral (JStr ''AsteriskSessionEvidence'')),
     (''pbxFingerprintSource'', zLiteral (JStr ''configured-certificate'')), (''institutionId'', finalsId),
     (''authorizationId'', finalsId), (''attemptId'', finalsId), (''sessionId'', finalsId), (''bindingHash'', digest),
     (''connectionGeneration'', finalsId), (''bridgeId'', finalsId), (''senderChannelId'', finalsId),
     (''recipientChannelId'', finalsId), (''senderCallId'', finalsId), (''recipientCallId'', finalsId),
     (''senderEndpoint'', finalsId), (''recipientEndpoint'', finalsId), (''senderSdpHash'', digest),
     (''recipientSdpHash'', digest), (''senderFingerprint'', longFingerprint),
     (''recipientFingerprint'', longFingerprint), (''recipientNonce'', finalsId),
     (''senderPbxFingerprint'', longFingerprint), (''recipientPbxFingerprint'', longFingerprint),
     (''evidenceSequence'', positiveInt), (''state'', zEnum [''prepared'', ''bridged'', ''ended''])]) []"

definition pbxReportSchema :: schema where
  "pbxReportSchema = zObject (serviceBase @ clock @
    [(''type'', zLiteral (JStr ''PbxBrowserReport'')), (''role'', zEnum [''sender'', ''recipient'']),
     (''attemptId'', finalsId), (''sessionId'', finalsId), (''connectionGeneration'', finalsId), (''callId'', finalsId),
     (''localSdp'', zString (lengthBetween 1 16384)), (''remoteSdp'', zString (lengthBetween 1 16384)),
     (''recipientNonce'', finalsId)]) []"

section \<open>The runtime policy\<close>

record RuntimePolicy =
  startSeconds :: int
  leaseSeconds :: int
  maxCallSeconds :: int
  observedStateAgeSeconds :: int
  eachClockSkewSeconds :: int
  pollingMs :: int

definition servicePolicy :: RuntimePolicy where
  "servicePolicy = \<lparr> startSeconds = 120, leaseSeconds = 30, maxCallSeconds = 14400, observedStateAgeSeconds = 8,
     eachClockSkewSeconds = 1, pollingMs = 1000 \<rparr>"

text \<open>A policy that is present has every member, so the defaults of the schema play no part.\<close>

definition runtimePolicyValid :: "RuntimePolicy \<Rightarrow> bool" where
  "runtimePolicyValid p \<longleftrightarrow>
     startSeconds p = 120 \<and> 10 \<le> leaseSeconds p \<and> leaseSeconds p \<le> 120 \<and>
     120 \<le> maxCallSeconds p \<and> maxCallSeconds p \<le> 28800 \<and>
     observedStateAgeSeconds p = 8 \<and> eachClockSkewSeconds p = 1 \<and> pollingMs p = 1000"

definition runtimePolicy :: "RuntimePolicy option \<Rightarrow> RuntimePolicy result" where
  "runtimePolicy p = (let q = (case p of Some x \<Rightarrow> x | None \<Rightarrow> servicePolicy) in
     if runtimePolicyValid q then Inr q else Inl ZodError)"

section \<open>Joint configuration and recovery\<close>

definition isUint64 :: "string \<Rightarrow> bool" where
  "isUint64 s \<longleftrightarrow> (s = ''0'' \<or> (isDigits s \<and> hd s \<noteq> CHR ''0'')) \<and> bigInt s < 2 ^ 64"

definition uint64Schema :: schema where
  "uint64Schema = zString isUint64"

definition bytes32Schema :: schema where
  "bytes32Schema = zString isAnyHash32"

definition directorySchema :: schema where
  "directorySchema = zArray 1 1 (zObject
    [(''path'', zLiteral (JStr ''/official'')), (''title'', zString (lengthBetween 1 100))] [])"

definition officialTitle :: string where
  "officialTitle = utf8Text [234, 179, 181, 236, 139, 157, 32, 234, 177, 176, 235, 158, 152, 32, 237, 153, 149, 236, 157, 184]"

definition initialDirectory :: json where
  "initialDirectory = JArr [JObj [(''path'', JStr ''/official''), (''title'', JStr officialTitle)]]"

definition configurationFields :: "(string \<times> schema) list" where
  "configurationFields =
    [(''institutionId'', bytes32Schema), (''expectedEpoch'', uint64Schema), (''expectedDirectoryHash'', bytes32Schema),
     (''expectedDirectoryVersion'', uint64Schema), (''expectedPolicyVersion'', uint64Schema),
     (''expectedPolicyHash'', bytes32Schema), (''newDirectoryHash'', bytes32Schema),
     (''newDirectoryVersion'', uint64Schema), (''newPolicyVersion'', uint64Schema), (''newPolicyHash'', bytes32Schema),
     (''nonce'', bytes32Schema), (''deadline'', uint64Schema)]"

definition configurationSchema :: schema where
  "configurationSchema = zObject configurationFields []"

definition configurationContentsSchema :: schema where
  "configurationContentsSchema = zObject [(''directory'', directorySchema), (''policy'', policySchema)] []"

definition hexText64 :: "string \<Rightarrow> bool" where
  "hexText64 s \<longleftrightarrow> length s = 64 \<and> allIn lowerHexChars s"

definition isEvmSignature :: "string \<Rightarrow> bool" where
  "isEvmSignature s \<longleftrightarrow> take 2 s = ''0x'' \<and> length s = 132 \<and> allIn anyHexChars (take 128 (drop 2 s)) \<and>
     drop 130 s \<in> {''1b'', ''1B'', ''1c'', ''1C''}"

definition hexValue :: "char \<Rightarrow> int" where
  "hexValue c = (case find (\<lambda>p. snd p = toLower c) (enumerate 0 lowerHexChars) of
     Some (n, _) \<Rightarrow> int n | None \<Rightarrow> 0)"

definition bigHex :: "string \<Rightarrow> int" where
  "bigHex s = foldl (\<lambda>v c. v * 16 + hexValue c) 0 s"

definition halfOrder :: int where
  "halfOrder = bigHex ''7FFFFFFFFFFFFFFFFFFFFFFFFFFFFFFF5D576E7357A4501DDFE92F46681B20A0''"

text \<open>Canonical signatures only: the second component is positive and at most half the group order.\<close>

definition assertEvmSignature :: "string \<Rightarrow> unit result" where
  "assertEvmSignature s =
     (let low = bigHex (take 64 (drop 66 s)) in
      if \<not> isEvmSignature s \<or> low > halfOrder \<or> low = 0 then Inl (Error ''EVM_SIGNATURE_NON_CANONICAL'') else Inr ())"

definition recoveryV2Schema :: schema where
  "recoveryV2Schema = zObject
    [(''institutionId'', bytes32Schema), (''expectedEpoch'', digitsString), (''newAdministrator'', address),
     (''newApprovalPublicKey'', bytes32Schema), (''newEmergencyStopper'', address), (''nonce'', bytes32Schema),
     (''deadline'', digitsString)] []"

definition configurationReviewSchema :: schema where
  "configurationReviewSchema = zObject
    [(''format'', zLiteral (JStr ''callsign-configuration-review'')), (''version'', zLiteral (JNum 1)),
     (''operation'', zString hexText64), (''chainId'', positiveInt), (''registryAddress'', address),
     (''institutionId'', bytes32Schema), (''digest'', bytes32Schema), (''request'', configurationSchema),
     (''contents'', configurationContentsSchema)]
    [(''previous'', configurationContentsSchema)]"

definition configurationSignatureFileSchema :: schema where
  "configurationSignatureFileSchema = zObject
    [(''format'', zLiteral (JStr ''callsign-configuration-signature'')), (''version'', zLiteral (JNum 1)),
     (''operation'', zString hexText64), (''digest'', bytes32Schema), (''signer'', address),
     (''signature'', zString isEvmSignature)] []"

definition isLongSignature :: "string \<Rightarrow> bool" where
  "isLongSignature s \<longleftrightarrow> take 2 s = ''0x'' \<and> length s = 132 \<and> allIn anyHexChars (drop 2 s)"

definition recoverySignatureFileSchema :: schema where
  "recoverySignatureFileSchema = zObject
    [(''signer'', address), (''digest'', bytes32Schema), (''signature'', zString isLongSignature)] []"

end
