(* ===== verification/Governance.thy ===== *)
theory Governance
  imports Institution Service_Protocol
begin

text \<open>
  Joint decisions of the registration approvers: \<^verbatim>\<open>services/api/src/governance-v2.ts\<close> (recovery,
  registration and service keys, and the registry transactions) and \<^verbatim>\<open>configuration.ts\<close> (directory and
  policy). A decision is an EIP-712 message; \<open>recoverAddress\<close> stands for viem's
  \<^verbatim>\<open>recoverTypedDataAddress\<close>, which returns the address whose key made a signature.
\<close>

section \<open>Typed messages\<close>

datatype typedValue = Bytes32 string | Address string | Uint64 int

record typedMessage =
  tmChain :: int
  tmRegistry :: string
  tmPrimary :: string
  tmFields :: "(string \<times> typedValue) list"

type_synonym recoverAddress = "typedMessage \<Rightarrow> string \<Rightarrow> string option"

definition bytesField :: "json \<Rightarrow> string \<Rightarrow> string \<times> typedValue" where
  "bytesField r k = (k, Bytes32 (jstr r k))"

definition addressField :: "json \<Rightarrow> string \<Rightarrow> string \<times> typedValue" where
  "addressField r k = (k, Address (jstr r k))"

definition uintField :: "json \<Rightarrow> string \<Rightarrow> string \<times> typedValue" where
  "uintField r k = (k, Uint64 (bigInt (jstr r k)))"

definition recoveryMessage :: "int \<Rightarrow> string \<Rightarrow> json \<Rightarrow> typedMessage" where
  "recoveryMessage chainId registry r = \<lparr> tmChain = chainId, tmRegistry = registry, tmPrimary = ''RecoverInstitution'',
     tmFields = [(''actionType'', Bytes32 ''0x084ae6688bcae52c9acfb237edd4d94a8a88479295fbce4f55395edc7b78a38c''),
       bytesField r ''institutionId'', uintField r ''expectedEpoch'', addressField r ''newAdministrator'',
       bytesField r ''newApprovalPublicKey'', addressField r ''newEmergencyStopper'', bytesField r ''nonce'',
       uintField r ''deadline''] \<rparr>"

text \<open>\<open>actionType\<close> of a registration is the hash of a text.\<close>

definition registrationTypedData :: "lib \<Rightarrow> int \<Rightarrow> string \<Rightarrow> json \<Rightarrow> typedMessage" where
  "registrationTypedData L chainId registry r = \<lparr> tmChain = chainId, tmRegistry = registry,
     tmPrimary = ''RegisterInstitution'',
     tmFields = [(''actionType'', Bytes32 (keccak256 L ''REGISTER_INSTITUTION'')), bytesField r ''institutionId'',
       addressField r ''administrator'', bytesField r ''approvalPublicKey'', addressField r ''emergencyStopper'',
       bytesField r ''directoryHash'', uintField r ''directoryVersion'', uintField r ''policyVersion'',
       bytesField r ''nonce'', uintField r ''deadline''] \<rparr>"

definition serviceKeyTypedData :: "int \<Rightarrow> string \<Rightarrow> json \<Rightarrow> typedMessage" where
  "serviceKeyTypedData chainId registry r = \<lparr> tmChain = chainId, tmRegistry = registry,
     tmPrimary = ''ActivateServiceKeys'',
     tmFields = [bytesField r ''institutionId'', uintField r ''expectedEpoch'', uintField r ''newEpoch'',
       bytesField r ''issuerKeyDigest'', bytesField r ''keysHash'', bytesField r ''nonce'', uintField r ''deadline''] \<rparr>"

definition uint64Fields :: "string list" where
  "uint64Fields = [''expectedEpoch'', ''expectedDirectoryVersion'', ''expectedPolicyVersion'', ''newDirectoryVersion'',
     ''newPolicyVersion'', ''deadline'']"

definition configurationTypedData :: "int \<Rightarrow> string \<Rightarrow> json \<Rightarrow> typedMessage result" where
  "configurationTypedData chainId registry request =
     bindE (parseWith configurationSchema request) (\<lambda>r.
       Inr \<lparr> tmChain = chainId, tmRegistry = registry, tmPrimary = ''UpdateConfiguration'',
             tmFields = (''actionType'', Bytes32 ''0x4842eefc0f276083cdf0215276db8130bd4656411f6afd9120e298ea07f41975'') #
               map (\<lambda>(k, _). if k \<in> set uint64Fields then uintField r k else bytesField r k) configurationFields \<rparr>)"

section \<open>A quorum of approvers\<close>

text \<open>
  The loop all four checks share: every signature is canonical and recovers to a trusted address that
  has not signed before. \<open>malformed\<close> and \<open>refused\<close> are the errors of the check at hand.
\<close>

fun collectSigners ::
    "(js_error \<Rightarrow> js_error) \<Rightarrow> js_error \<Rightarrow> (string \<Rightarrow> string result) \<Rightarrow> string list \<Rightarrow> string list \<Rightarrow>
     string list \<Rightarrow> string list result" where
  "collectSigners malformed refused signerOf trusted seen [] = Inr seen"
| "collectSigners malformed refused signerOf trusted seen (sg # sgs) =
     (case bindE (assertEvmSignature sg) (\<lambda>_. signerOf sg) of
        Inl e \<Rightarrow> Inl (malformed e)
      | Inr signer \<Rightarrow>
          if toLowerCase signer \<notin> set trusted \<or> toLowerCase signer \<in> set seen then Inl refused
          else collectSigners malformed refused signerOf trusted (seen @ [toLowerCase signer]) sgs)"

definition recoveredBy :: "recoverAddress \<Rightarrow> typedMessage \<Rightarrow> string \<Rightarrow> string result" where
  "recoveredBy recover msg sg = ofOption LibraryError (recover msg sg)"

definition deadlineOutside :: "json \<Rightarrow> int \<Rightarrow> bool" where
  "deadlineOutside r now \<longleftrightarrow> bigInt (jstr r ''deadline'') \<le> now \<or> bigInt (jstr r ''deadline'') > now + 600"

definition trustInvalid :: "string list \<Rightarrow> bool" where
  "trustInvalid approvers \<longleftrightarrow> length approvers \<noteq> 3 \<or> length (remdups (map toLowerCase approvers)) \<noteq> 3"

definition verifyRecoveryApprovers ::
    "recoverAddress \<Rightarrow> int \<Rightarrow> string \<Rightarrow> json \<Rightarrow> string list \<Rightarrow> string list \<Rightarrow> int \<Rightarrow> string list result" where
  "verifyRecoveryApprovers recover chainId registry request sgs approvers now =
     bindE (parseWith recoveryV2Schema request) (\<lambda>r.
     if deadlineOutside r now then Inl (Error ''RECOVERY_EXPIRED_OR_TOO_LONG'')
     else if trustInvalid approvers then Inl (Error ''RECOVERY_TRUST_INVALID'')
     else if length sgs < 2 \<or> length sgs > 3 then Inl (Error ''RECOVERY_THRESHOLD_NOT_MET'')
     else collectSigners (\<lambda>e. e) (Error ''RECOVERY_SIGNER_INVALID_OR_DUPLICATE'')
            (recoveredBy recover (recoveryMessage chainId registry r)) (map toLowerCase approvers) [] sgs)"

definition registrationSchema :: schema where
  "registrationSchema = zObject
    [(''institutionId'', bytes32Schema), (''administrator'', address), (''approvalPublicKey'', bytes32Schema),
     (''emergencyStopper'', address), (''directoryHash'', bytes32Schema), (''directoryVersion'', digitsString),
     (''policyVersion'', digitsString), (''nonce'', bytes32Schema), (''deadline'', digitsString)] []"

definition verifyRegistrationApprovers ::
    "lib \<Rightarrow> recoverAddress \<Rightarrow> int \<Rightarrow> string \<Rightarrow> json \<Rightarrow> string list \<Rightarrow> string list \<Rightarrow> int \<Rightarrow> string list result" where
  "verifyRegistrationApprovers L recover chainId registry request sgs approvers now =
     bindE (parseWith registrationSchema request) (\<lambda>r.
     if deadlineOutside r now then Inl (Error ''REGISTRATION_EXPIRED_OR_TOO_LONG'')
     else if trustInvalid approvers \<or> length sgs < 2 \<or> length sgs > 3
     then Inl (Error ''REGISTRATION_TRUST_OR_THRESHOLD_INVALID'')
     else collectSigners (\<lambda>e. e) (Error ''REGISTRATION_SIGNER_INVALID_OR_DUPLICATE'')
            (recoveredBy recover (registrationTypedData L chainId registry r)) (map toLowerCase approvers) [] sgs)"

definition serviceKeyApprovalSchema :: schema where
  "serviceKeyApprovalSchema = zObject
    [(''institutionId'', bytes32Schema), (''expectedEpoch'', digitsString), (''newEpoch'', digitsString),
     (''issuerKeyDigest'', bytes32Schema), (''keysHash'', bytes32Schema), (''nonce'', bytes32Schema),
     (''deadline'', digitsString)] []"

definition verifyServiceKeyApprovers ::
    "recoverAddress \<Rightarrow> int \<Rightarrow> string \<Rightarrow> json \<Rightarrow> string list \<Rightarrow> string list \<Rightarrow> int \<Rightarrow> string list result" where
  "verifyServiceKeyApprovers recover chainId registry request sgs approvers now =
     bindE (parseWith serviceKeyApprovalSchema request) (\<lambda>r.
     if deadlineOutside r now then Inl (Error ''SERVICE_KEY_APPROVAL_EXPIRED'')
     else if trustInvalid approvers \<or> length sgs < 2 \<or> length sgs > 3 then Inl (Error ''SERVICE_KEY_QUORUM_REQUIRED'')
     else collectSigners (\<lambda>e. e) (Error ''SERVICE_KEY_SIGNER_INVALID'')
            (recoveredBy recover (serviceKeyTypedData chainId registry r)) (map toLowerCase approvers) [] sgs)"

definition configurationTrustInvalid :: "string list \<Rightarrow> bool" where
  "configurationTrustInvalid trusted \<longleftrightarrow>
     length trusted \<noteq> 3 \<or> length (remdups trusted) \<noteq> 3 \<or>
     list_ex (\<lambda>v. \<not> (take 2 v = ''0x'' \<and> length v = 42 \<and> allIn lowerHexChars (drop 2 v)) \<or>
                  v = ''0x'' @ replicate 40 (CHR ''0'')) trusted"

definition configurationSigners ::
    "recoverAddress \<Rightarrow> int \<Rightarrow> string \<Rightarrow> json \<Rightarrow> string list \<Rightarrow> string list \<Rightarrow> int \<Rightarrow> bool \<Rightarrow> string list result" where
  "configurationSigners recover chainId registry request sgs approvers now collect =
     bindE (parseWith configurationSchema request) (\<lambda>r.
     let trusted = map toLowerCase approvers in
     if configurationTrustInvalid trusted then Inl (HttpError 409 ''CONFIGURATION_TRUST_INVALID'')
     else if deadlineOutside r now \<or> jstr r ''nonce'' = ''0x'' @ replicate 64 (CHR ''0'')
     then Inl (HttpError 409 ''CONFIGURATION_DEADLINE_OR_NONCE_INVALID'')
     else if length sgs < (if collect then 1 else 2) \<or> length sgs > 3
     then Inl (HttpError 409 ''CONFIGURATION_QUORUM_REQUIRED'')
     else collectSigners (\<lambda>_. HttpError 403 ''CONFIGURATION_SIGNATURE_INVALID'')
            (HttpError 409 ''CONFIGURATION_SIGNER_INVALID_OR_DUPLICATE'')
            (\<lambda>sg. bindE (configurationTypedData chainId registry r) (\<lambda>msg. recoveredBy recover msg sg)) trusted [] sgs)"

section \<open>A configuration against the record\<close>

definition configurationStale :: "lib \<Rightarrow> InstitutionRecord \<Rightarrow> Directory \<Rightarrow> json \<Rightarrow> bool" where
  "configurationStale L r d q \<longleftrightarrow>
     irStatus r \<noteq> InstitutionActive \<or>
     toLowerCase (jstr q ''institutionId'') \<noteq> toLowerCase (keccak256 L (irId r)) \<or>
     \<not> isStr q ''expectedEpoch'' (irEpoch r) \<or> \<not> isStr q ''expectedDirectoryHash'' (dirHash d) \<or>
     \<not> isStr q ''expectedDirectoryVersion'' (decimalString (nat (dirVersion d))) \<or>
     \<not> isStr q ''expectedPolicyVersion'' (decimalString (nat (jnum (irPolicy r) ''version'')))"

definition versionText :: "int \<Rightarrow> bool \<Rightarrow> string" where
  "versionText v changed = decimalString (nat (if changed then v + 1 else v))"

definition configurationMismatch ::
    "InstitutionRecord \<Rightarrow> Directory \<Rightarrow> json \<Rightarrow> json \<Rightarrow> string \<Rightarrow> string \<Rightarrow> bool" where
  "configurationMismatch r d q c dh ph \<longleftrightarrow>
     (let changedPolicy = ph \<noteq> jstr q ''expectedPolicyHash''; changedDirectory = dh \<noteq> jstr q ''expectedDirectoryHash'' in
      \<not> isStr q ''newDirectoryHash'' dh \<or> \<not> isStr q ''newPolicyHash'' ph \<or>
      \<not> isStr q ''newDirectoryVersion'' (versionText (dirVersion d) changedDirectory) \<or>
      \<not> isStr q ''newPolicyVersion'' (versionText (jnum (irPolicy r) ''version'') changedPolicy) \<or>
      \<not> isStr q ''newPolicyVersion'' (decimalString (nat (jnum (jobj c ''policy'') ''version''))) \<or>
      (\<not> changedDirectory \<and> \<not> changedPolicy) \<or> \<not> sameMember (jobj c ''policy'') (irPolicy r) ''id'')"

text \<open>The result tells whether the change invalidates what was issued under the old policy.\<close>

definition assertConfiguration :: "lib \<Rightarrow> InstitutionRecord \<Rightarrow> json \<Rightarrow> json \<Rightarrow> bool result" where
  "assertConfiguration L r request contents =
     bindE (parseWith configurationSchema request) (\<lambda>q.
     bindE (parseWith configurationContentsSchema contents) (\<lambda>c.
     case irDirectory r of
       None \<Rightarrow> Inl (HttpError 409 ''CONFIGURATION_STALE_CONTEXT'')
     | Some d \<Rightarrow>
         if configurationStale L r d q then Inl (HttpError 409 ''CONFIGURATION_STALE_CONTEXT'')
         else bindE (policyHash L (irPolicy r)) (\<lambda>h.
         if \<not> isStr q ''expectedPolicyHash'' (''0x'' @ h) then Inl (HttpError 409 ''CONFIGURATION_STALE_CONTEXT'')
         else bindE (policyHash L (jobj c ''policy'')) (\<lambda>ph0.
           let dh = ''0x'' @ hashCanonical L (jobj c ''directory''); ph = ''0x'' @ ph0 in
           if configurationMismatch r d q c dh ph then Inl (HttpError 409 ''CONFIGURATION_CONTENT_MISMATCH'')
           else if \<not> list_ex (\<lambda>e. jget e ''path'' = jget (jobj c ''policy'') ''followUpPath'') (jarr c ''directory'')
           then Inl (HttpError 409 ''OFFICIAL_PATH_NOT_REGISTERED'')
           else Inr (ph \<noteq> jstr q ''expectedPolicyHash'')))))"

record configurationEvent =
  ceNonce :: string
  ceEpoch :: string
  ceDirectoryHash :: string
  ceDirectoryVersion :: string
  cePolicyVersion :: string
  cePolicyHash :: string
  ceInvalidated :: bool

definition eventMatches :: "configurationEvent \<Rightarrow> ConfigurationProposal \<Rightarrow> bool" where
  "eventMatches e p \<longleftrightarrow>
     (let q = cpRequest p in cpStatus p = Submitted \<and> isStr q ''nonce'' (ceNonce e) \<and>
      isStr q ''newDirectoryHash'' (ceDirectoryHash e) \<and> isStr q ''newDirectoryVersion'' (ceDirectoryVersion e) \<and>
      isStr q ''newPolicyVersion'' (cePolicyVersion e) \<and> isStr q ''newPolicyHash'' (cePolicyHash e))"

definition configurationForEvent ::
    "lib \<Rightarrow> InstitutionRecord \<Rightarrow> configurationEvent \<Rightarrow> ConfigurationProposal result" where
  "configurationForEvent L r e =
     bindE (ofOption (HttpError 409 ''CONFIGURATION_EVENT_RECONCILIATION_REQUIRED'')
              (find (eventMatches e) (dvalues (irProposals r)))) (\<lambda>p.
     bindE (assertConfiguration L r (cpRequest p) (cpContents p)) (\<lambda>invalidates.
       if invalidates \<noteq> ceInvalidated e \<or>
          bigInt (ceEpoch e) \<noteq> bigInt (irEpoch r) + (if ceInvalidated e then 1 else 0)
       then Inl (HttpError 409 ''CONFIGURATION_EVENT_CONTEXT_MISMATCH'') else Inr p))"

section \<open>Registry transactions\<close>

datatype registryCall =
    RecoverCall json "string list"
  | GrantCall string string int string int int int
  | RevokeCall string int
  | SuspendCall string int

record operationsConfig =
  ocNetwork :: int
  ocRegistry :: string
  ocRpcUrls :: "string list"
  ocApprovers :: "string list"
  ocInstitution :: string

record transactionResult =
  trHash :: string
  trBlock :: string

text \<open>
  \<open>send\<close> stands for the wallet and the node: the transaction hash, whether the receipt reports success,
  and the block.
\<close>

type_synonym sendTransaction = "registryCall \<Rightarrow> (string \<times> bool \<times> string) result"

definition submit :: "operationsConfig \<Rightarrow> sendTransaction \<Rightarrow> registryCall \<Rightarrow> transactionResult result" where
  "submit cfg send c =
     (if ocRpcUrls cfg = [] then Inl (Error ''RPC_NOT_CONFIGURED'')
      else bindE (send c) (\<lambda>(hash, success, block).
        if \<not> success then Inl (Error ''REGISTRY_TRANSACTION_REVERTED'')
        else Inr \<lparr> trHash = hash, trBlock = block \<rparr>))"

definition operationsRecover ::
    "lib \<Rightarrow> recoverAddress \<Rightarrow> operationsConfig \<Rightarrow> sendTransaction \<Rightarrow> json \<Rightarrow> string list \<Rightarrow> int \<Rightarrow> transactionResult result" where
  "operationsRecover L recover cfg send request sgs now =
     (if toLowerCase (jstr request ''institutionId'') \<noteq> toLowerCase (keccak256 L (ocInstitution cfg))
      then Inl (Error ''RECOVERY_INSTITUTION_MISMATCH'')
      else bindE (verifyRecoveryApprovers recover (ocNetwork cfg) (ocRegistry cfg) request sgs (ocApprovers cfg) now) (\<lambda>_.
        submit cfg send (RecoverCall request sgs)))"

definition grantCredential ::
    "lib \<Rightarrow> operationsConfig \<Rightarrow> sendTransaction \<Rightarrow> string \<Rightarrow> string \<Rightarrow> string \<Rightarrow> int \<Rightarrow> int \<Rightarrow> transactionResult result" where
  "grantCredential L cfg send vcHash epoch serviceKeyText from until =
     (if \<not> hexText64 vcHash \<or> \<not> (take 2 serviceKeyText = ''0x'' \<and> hexText64 (drop 2 serviceKeyText))
      then Inl (Error ''DELEGATION_INPUT_INVALID'')
      else submit cfg send (GrantCall (keccak256 L vcHash) (keccak256 L (ocInstitution cfg)) (bigInt epoch)
             serviceKeyText 4 from until))"

definition operationsRevoke ::
    "lib \<Rightarrow> operationsConfig \<Rightarrow> sendTransaction \<Rightarrow> string \<Rightarrow> string \<Rightarrow> transactionResult result" where
  "operationsRevoke L cfg send vcHash epoch =
     (if \<not> hexText64 vcHash then Inl (Error ''VC_DIGEST_INVALID'')
      else submit cfg send (RevokeCall (keccak256 L vcHash) (bigInt epoch)))"

definition operationsSuspend ::
    "lib \<Rightarrow> operationsConfig \<Rightarrow> sendTransaction \<Rightarrow> string \<Rightarrow> transactionResult result" where
  "operationsSuspend L cfg send epoch = submit cfg send (SuspendCall (keccak256 L (ocInstitution cfg)) (bigInt epoch))"

end
