(* ===== verification/Service_Verifier.thy ===== *)
theory Service_Verifier
  imports Service_Protocol
begin

text \<open>
  The receiver's and the sender's check of a call of the service profile,
  \<^verbatim>\<open>packages/verifier/src/service.ts\<close>: \<open>verifyServicePackage\<close>, run when a call connects and again for
  every lease, and \<open>verifyServiceInvitation\<close>, run before a binding is signed.
\<close>

section \<open>Input\<close>

record PbxTrust =
  ptKid :: string
  ptKey :: json
  ptFingerprint :: "string option"

record ServiceTrust =
  stInstitutionUri :: string
  stIssuerKid :: string
  stIssuerKey :: json
  stApprovalVersion :: int
  stServiceUri :: string
  stServiceKid :: string
  stServiceKey :: json
  stServiceVersion :: int
  stPolicy :: "RuntimePolicy option"
  stPbx :: "PbxTrust option"
  stChain :: TrustBundle

record ServiceObserved =
  soConnected :: bool
  soLocalSdp :: string
  soRemoteSdp :: string
  soRemoteFingerprint :: string
  soSipCallId :: "string option"
  soChannelHash :: "string option"

record ServiceInput =
  siAuthorizationJws :: string
  siVcJws :: string
  siProofJws :: string
  siReceiptJws :: string
  siLeaseJws :: string
  siLeaseNonce :: string
  siBinding :: json
  siTrust :: ServiceTrust
  siPolicy :: json
  siState :: "StateBundle option"
  siSender :: bool
  siStage :: string
  siAllowUnverified :: bool
  siPreviousBindingHash :: "string option"
  siRecipientId :: string
  siSessionId :: string
  siRecipientKey :: json
  siRecipientNonce :: string
  siGeneration :: string
  siNow :: int
  siMonotonic :: int
  siMinimumSequence :: int
  siObserved :: ServiceObserved
  siPbxEvidence :: "string option"

record ServiceMessages =
  smAuthorization :: json
  smVc :: json
  smProof :: json
  smReceipt :: json
  smLease :: json
  smBinding :: json

record ServiceVerified =
  svfAuthorization :: json
  svfLease :: json
  svfBindingHash :: string
  svfAuthority :: string
  svfDeadline :: int
  svfOfficialPath :: string

section \<open>Reading the messages\<close>

definition importKey :: "lib \<Rightarrow> json \<Rightarrow> keyHandle result" where
  "importKey L jwk = ofOption LibraryError (importJwk L jwk)"

definition readServiceMessages :: "lib \<Rightarrow> ServiceInput \<Rightarrow> ServiceMessages result" where
  "readServiceMessages L input =
     (let t = siTrust input in
      bindE (importKey L (stIssuerKey t)) (\<lambda>issuer.
      if registryProfile (stChain t) \<noteq> Some ''CALLSIGN_SERVICE_JOINT_CONFIGURATION_1''
      then Inl (Error ''SERVICE_REGISTRY_PROFILE_REQUIRED'')
      else if witnessThreshold (stChain t) \<noteq> 3 \<or> length (witnessPublicKeys (stChain t)) \<noteq> 4
      then Inl (Error ''SERVICE_QUORUM_REQUIRED'')
      else bindE (verifyPayload L (siAuthorizationJws input) issuer ''ContactStartAuthorization'' (stIssuerKid t)
                    startAuthorizationSchema) (\<lambda>a.
        bindE (verifyServiceCredential L (siVcJws input) issuer (stIssuerKid t)) (\<lambda>vc.
        bindE (importKey L (stServiceKey t)) (\<lambda>service.
        bindE (verifyPayload L (siProofJws input) service ''CallCenterProof'' (stServiceKid t) serviceProofSchema) (\<lambda>proof.
        bindE (verifyPayload L (siReceiptJws input) issuer ''ServiceConsumptionReceipt'' (stIssuerKid t)
                 serviceReceiptSchema) (\<lambda>receipt.
        bindE (verifyPayload L (siLeaseJws input) issuer ''CallLease'' (stIssuerKid t) serviceLeaseSchema) (\<lambda>lease.
        bindE (parseWith serviceBindingSchema (siBinding input)) (\<lambda>b.
          Inr \<lparr> smAuthorization = a, smVc = vc, smProof = proof, smReceipt = receipt, smLease = lease,
                smBinding = b \<rparr>)))))))))"

definition sameDomain :: "ServiceTrust \<Rightarrow> json \<Rightarrow> bool" where
  "sameDomain t v \<longleftrightarrow> isStr v ''networkId'' (networkId (stChain t)) \<and>
     toLowerCase (jstr v ''registryAddress'') = toLowerCase (registryAddress (stChain t))"

section \<open>The comparisons\<close>

definition serviceContextDiffers :: "ServiceInput \<Rightarrow> json \<Rightarrow> bool" where
  "serviceContextDiffers input a \<longleftrightarrow> (let t = siTrust input in
     \<not> isStr a ''institutionUri'' (stInstitutionUri t) \<or> \<not> isNum a ''approvalKeyVersion'' (stApprovalVersion t) \<or>
     \<not> isNum a ''serviceKeyVersion'' (stServiceVersion t) \<or> \<not> isStr a ''serviceUri'' (stServiceUri t) \<or>
     \<not> isStr a ''recipientId'' (siRecipientId input) \<or> \<not> isStr a ''sessionId'' (siSessionId input))"

definition checkServiceAuthorization ::
    "lib \<Rightarrow> ServiceInput \<Rightarrow> RuntimePolicy \<Rightarrow> ServiceMessages \<Rightarrow> unit result" where
  "checkServiceAuthorization L input p m =
     (let a = smAuthorization m in
      if serviceContextDiffers input a then Inl (Error ''SERVICE_AUTHORIZATION_MISMATCH'')
      else bindE (policyHash L (siPolicy input)) (\<lambda>h.
        if \<not> isStr a ''policyHash'' h \<or> \<not> sameMember a (siPolicy input) ''purpose'' \<or>
           jnum a ''callEndBy'' - jnum a ''issuedAt'' > maxCallSeconds p
        then Inl (Error ''SERVICE_AUTHORIZATION_MISMATCH'')
        else bindE (serviceCredentialDigest L (smVc m)) (\<lambda>d.
          if \<not> isStr a ''vcDigest'' d \<or> \<not> isStr a ''serviceProofHash'' (hashCanonical L (smProof m)) \<or>
             \<not> isStr a ''browserKeyHash'' (hashCanonical L (jobj (smProof m) ''browserPublicKey''))
          then Inl (Error ''SERVICE_AUTHORIZATION_MISMATCH'') else Inr ())))"

definition credentialDates :: "json \<Rightarrow> int \<Rightarrow> bool" where
  "credentialDates vc now \<longleftrightarrow>
     dateParse (jstr vc ''validFrom'') \<le> now * 1000 \<and> now * 1000 < dateParse (jstr vc ''validUntil'')"

definition checkServiceCredential :: "lib \<Rightarrow> ServiceInput \<Rightarrow> ServiceMessages \<Rightarrow> unit result" where
  "checkServiceCredential L input m =
     (let t = siTrust input; a = smAuthorization m; vc = smVc m; subject = jobj vc ''credentialSubject'';
          status = jobj vc ''credentialStatus'' in
      if \<not> isStr vc ''issuer'' (stInstitutionUri t) \<or> \<not> isStr subject ''id'' (stServiceUri t) \<or>
         \<not> sameMember subject a ''institutionId'' \<or> \<not> isNum subject ''keyVersion'' (stServiceVersion t) \<or>
         hashCanonical L (jobj subject ''publicKey'') \<noteq> hashCanonical L (stServiceKey t)
      then Inl (Error ''SERVICE_CREDENTIAL_MISMATCH'')
      else bindE (policyHash L (jobj subject ''scope'')) (\<lambda>h.
        if \<not> isStr a ''policyHash'' h \<or> \<not> sameMember status vc ''id'' \<or>
           \<not> sameMembers status a [''epoch'', ''approvalKeyVersion''] \<or> \<not> credentialDates vc (siNow input)
        then Inl (Error ''SERVICE_CREDENTIAL_MISMATCH'') else Inr ()))"

definition serviceProofMismatch :: "ServiceMessages \<Rightarrow> bool" where
  "serviceProofMismatch m \<longleftrightarrow>
     \<not> sameMembers (smProof m) (smAuthorization m) [''institutionId'', ''intentId'', ''attemptId'', ''sessionId'', ''agentId'',
        ''serviceUri'', ''serviceKeyVersion'', ''vcDigest'', ''policyHash'', ''callProfile'', ''nonce''] \<or>
     jnum (smProof m) ''expiresAt'' - jnum (smProof m) ''issuedAt'' > startSeconds servicePolicy"

definition serviceBindingMismatch :: "lib \<Rightarrow> ServiceInput \<Rightarrow> ServiceMessages \<Rightarrow> bool" where
  "serviceBindingMismatch L input m \<longleftrightarrow>
     (let a = smAuthorization m; b = smBinding m in
      \<not> isStr b ''authorizationHash'' (hashCanonical L a) \<or> \<not> sameMembers b a [''sessionId'', ''recipientId''] \<or>
      \<not> isStr b ''recipientNonce'' (siRecipientNonce input) \<or>
      \<not> isStr b ''recipientKeyHash'' (hashCanonical L (siRecipientKey input)) \<or>
      \<not> isStr b ''connectionGeneration'' (siGeneration input) \<or> \<not> sameMember b a ''callProfile'')"

definition serviceReceiptMismatch :: "lib \<Rightarrow> ServiceInput \<Rightarrow> ServiceMessages \<Rightarrow> bool" where
  "serviceReceiptMismatch L input m \<longleftrightarrow>
     (let a = smAuthorization m; b = smBinding m; q = smProof m; c = jnum (smReceipt m) ''consumedAt'' in
      \<not> sameMembers (smReceipt m) a [''institutionId'', ''authorizationId'', ''sessionId'', ''recipientId''] \<or>
      \<not> isStr (smReceipt m) ''authorizationHash'' (hashCanonical L a) \<or>
      \<not> isStr (smReceipt m) ''bindingHash'' (hashCanonical L b) \<or>
      c < jnum a ''issuedAt'' \<or> c \<ge> jnum a ''firstConsumeBy'' \<or> c < jnum q ''issuedAt'' \<or> c \<ge> jnum q ''expiresAt'' \<or>
      c < jnum b ''issuedAt'' \<or> c \<ge> jnum b ''expiresAt'' \<or> jnum b ''expiresAt'' > jnum a ''firstConsumeBy'' \<or>
      jnum (smReceipt m) ''recoverUntil'' \<noteq> jnum a ''callEndBy'' \<or> siNow input < c)"

definition serviceLeaseMismatch :: "lib \<Rightarrow> ServiceInput \<Rightarrow> RuntimePolicy \<Rightarrow> ServiceMessages \<Rightarrow> bool" where
  "serviceLeaseMismatch L input p m \<longleftrightarrow>
     (let a = smAuthorization m; l = smLease m in
      \<not> sameMembers l a [''institutionId'', ''authorizationId'', ''sessionId'', ''epoch'', ''approvalKeyVersion'', ''vcDigest'',
         ''policyHash'', ''callEndBy''] \<or>
      \<not> isStr l ''bindingHash'' (hashCanonical L (smBinding m)) \<or>
      \<not> isStr l ''connectionGeneration'' (siGeneration input) \<or> \<not> isStr l ''nonce'' (siLeaseNonce input) \<or>
      jnum l ''sequence'' < siMinimumSequence input \<or>
      jnum l ''expiresAt'' - jnum l ''issuedAt'' > leaseSeconds p \<or> siNow input \<ge> jnum a ''callEndBy'')"

definition sideMember :: "bool \<Rightarrow> string \<Rightarrow> string" where
  "sideMember sender suffix = (if sender then ''sender'' @ suffix else ''recipient'' @ suffix)"

definition checkServiceTransport :: "lib \<Rightarrow> ServiceInput \<Rightarrow> json \<Rightarrow> unit result" where
  "checkServiceTransport L input b =
     (let o' = siObserved input; own = siSender input in
      if \<not> soConnected o' \<or> \<not> isStr b (sideMember own ''SdpHash'') (hashSdp L (soLocalSdp o'))
      then Inl (Error ''SERVICE_TRANSPORT_UNVERIFIABLE'')
      else bindE (extractSingleSdpFingerprint (soLocalSdp o')) (\<lambda>local.
        if \<not> isStr b (sideMember own ''Fingerprint'') local then Inl (Error ''SERVICE_TRANSPORT_UNVERIFIABLE'')
        else bindE (extractSingleSdpFingerprint (soRemoteSdp o')) (\<lambda>remote.
          if soRemoteFingerprint o' \<noteq> remote then Inl (Error ''SERVICE_TRANSPORT_UNVERIFIABLE'') else Inr ())))"

definition directMismatch :: "lib \<Rightarrow> ServiceInput \<Rightarrow> json \<Rightarrow> bool" where
  "directMismatch L input b \<longleftrightarrow>
     (let o' = siObserved input; other = \<not> siSender input in
      \<not> isStr b (sideMember other ''SdpHash'') (hashSdp L (soRemoteSdp o')) \<or>
      \<not> isStr b (sideMember other ''Fingerprint'') (soRemoteFingerprint o') \<or>
      soChannelHash o' \<noteq> Some (hashCanonical L b))"

definition evidenceMismatch :: "lib \<Rightarrow> ServiceInput \<Rightarrow> PbxTrust \<Rightarrow> string \<Rightarrow> ServiceMessages \<Rightarrow> json \<Rightarrow> bool" where
  "evidenceMismatch L input pbx callId m e \<longleftrightarrow>
     (let a = smAuthorization m; b = smBinding m; own = siSender input in
      \<not> sameDomain (siTrust input) e \<or> \<not> isStr e ''state'' (siStage input) \<or>
      \<not> sameMembers e a [''institutionId'', ''authorizationId'', ''attemptId'', ''sessionId''] \<or>
      \<not> isStr e ''bindingHash'' (hashCanonical L b) \<or> \<not> isStr e ''connectionGeneration'' (siGeneration input) \<or>
      \<not> sameMembers e b [''recipientNonce'', ''senderSdpHash'', ''recipientSdpHash'', ''senderFingerprint'',
         ''recipientFingerprint''] \<or>
      \<not> isStr e (sideMember own ''CallId'') callId \<or>
      \<not> isStr e (sideMember own ''PbxFingerprint'') (soRemoteFingerprint (siObserved input)) \<or>
      (case ptFingerprint pbx of None \<Rightarrow> False
       | Some f \<Rightarrow> \<not> isStr e ''senderPbxFingerprint'' f \<or> \<not> isStr e ''recipientPbxFingerprint'' f) \<or>
      jnum e ''expiresAt'' - jnum e ''issuedAt'' > 10)"

definition checkPbxEvidence :: "lib \<Rightarrow> ServiceInput \<Rightarrow> ServiceMessages \<Rightarrow> unit result" where
  "checkPbxEvidence L input m =
     (case (siPbxEvidence input, stPbx (siTrust input), soSipCallId (siObserved input)) of
        (Some jws, Some pbx, Some callId) \<Rightarrow>
          if jws = [] \<or> callId = [] then Inl (Error ''PBX_EVIDENCE_REQUIRED'')
          else bindE (importKey L (ptKey pbx)) (\<lambda>key.
            bindE (verifyPayload L jws key ''AsteriskSessionEvidence'' (ptKid pbx) pbxEvidenceSchema) (\<lambda>e.
            bindE (assertTemporalValidity e (siNow input)) (\<lambda>_.
              if evidenceMismatch L input pbx callId m e then Inl (Error ''PBX_EVIDENCE_MISMATCH'') else Inr ())))
      | _ \<Rightarrow> Inl (Error ''PBX_EVIDENCE_REQUIRED''))"

text \<open>Everything that precedes the look at the ledger.\<close>

definition checkServiceMessages :: "lib \<Rightarrow> ServiceInput \<Rightarrow> RuntimePolicy \<Rightarrow> ServiceMessages \<Rightarrow> unit result" where
  "checkServiceMessages L input p m =
     (let t = siTrust input in
      if \<not> list_all (sameDomain t) [smAuthorization m, smBinding m, smProof m, smReceipt m, smLease m,
           jobj (smVc m) ''credentialStatus'']
      then Inl (Error ''SERVICE_DOMAIN_MISMATCH'')
      else bindE (checkServiceAuthorization L input p m) (\<lambda>_.
        bindE (checkServiceCredential L input m) (\<lambda>_.
        if serviceProofMismatch m then Inl (Error ''SERVICE_PROOF_MISMATCH'')
        else if serviceBindingMismatch L input m then Inl (Error ''SERVICE_BINDING_MISMATCH'')
        else if serviceReceiptMismatch L input m then Inl (Error ''SERVICE_RECEIPT_MISMATCH'')
        else bindE (assertTemporalValidity (smLease m) (siNow input)) (\<lambda>_.
        if serviceLeaseMismatch L input p m then Inl (Error ''SERVICE_LEASE_MISMATCH'')
        else bindE (checkServiceTransport L input (smBinding m)) (\<lambda>_.
        if isStr (smAuthorization m) ''callProfile'' ''direct-webrtc-v3''
        then (if directMismatch L input (smBinding m) then Inl (Error ''DIRECT_TRANSPORT_MISMATCH'') else Inr ())
        else checkPbxEvidence L input m)))))"

section \<open>The package\<close>

definition serviceContext :: "ServiceInput \<Rightarrow> json \<Rightarrow> VerificationContext" where
  "serviceContext input a =
     \<lparr> maxStateAgeSeconds = Some (Service_Protocol.observedStateAgeSeconds servicePolicy),
       maxFutureSkewSeconds = Some (eachClockSkewSeconds servicePolicy), nowWallSeconds = siNow input,
       nowMonotonicMs = siMonotonic input, expectedInstitutionId = jstr a ''institutionId'',
       expectedDelegationId = jstr a ''vcDigest'' \<rparr>"

definition serviceResult ::
    "lib \<Rightarrow> ServiceInput \<Rightarrow> ServiceMessages \<Rightarrow> string \<Rightarrow> int \<Rightarrow> ServiceVerified" where
  "serviceResult L input m authority deadline =
     \<lparr> svfAuthorization = smAuthorization m, svfLease = smLease m, svfBindingHash = hashCanonical L (smBinding m),
       svfAuthority = authority, svfDeadline = deadline, svfOfficialPath = jstr (siPolicy input) ''followUpPath'' \<rparr>"

definition checkPolicyState :: "lib \<Rightarrow> ServiceInput \<Rightarrow> json \<Rightarrow> unit result" where
  "checkPolicyState L input s =
     bindE (policyHash L (siPolicy input)) (\<lambda>h.
       if \<not> isStr s ''policyHash'' (''0x'' @ h) \<or>
          \<not> isStr s ''policyVersion'' (decimalString (nat (jnum (siPolicy input) ''version'')))
       then Inl (Error ''SERVICE_POLICY_STATE_MISMATCH'') else Inr ())"

definition verifyServicePackage ::
    "lib \<Rightarrow> ServiceInput \<Rightarrow> MonotonicStateGuard \<Rightarrow> ServiceVerified result \<times> MonotonicStateGuard" where
  "verifyServicePackage L input g =
     (let t = siTrust input in
      case bindE (runtimePolicy (stPolicy t)) (\<lambda>p. bindE (readServiceMessages L input) (\<lambda>m.
             bindE (checkServiceMessages L input p m) (\<lambda>_. Inr m))) of
        Inl e \<Rightarrow> (Inl e, g)
      | Inr m \<Rightarrow>
          let a = smAuthorization m; hash = hashCanonical L (smBinding m) in
          if isStr (smLease m) ''authority'' ''unavailable''
          then (if \<not> siAllowUnverified input \<or> siPreviousBindingHash input \<noteq> Some hash
                then (Inl (Error ''EXPLICIT_UNVERIFIED_CONTINUATION_REQUIRED''), g)
                else (Inr (serviceResult L input m ''unavailable''
                        (siMonotonic input + max 0 (jnum (smLease m) ''expiresAt'' - siNow input) * 1000)), g))
          else case siState input of
            None \<Rightarrow> (Inl (Error ''CURRENT_STATE_REQUIRED''), g)
          | Some bundle \<Rightarrow>
              (case verifyStateBundle L bundle (stChain t) (serviceContext input a) of
                 Inl e \<Rightarrow> (Inl e, g)
               | Inr raw \<Rightarrow>
                   let verified = limitDeadline g raw in
                   case guardAccept g verified (siMonotonic input) of
                     Inl e \<Rightarrow> (Inl e, g)
                   | Inr g' \<Rightarrow>
                       (bindE (checkPolicyState L input (vsSnapshot verified)) (\<lambda>_.
                        bindE (assertLedgerBinding (vsSnapshot verified) (jstr a ''epoch'') (stIssuerKey t)
                                 (stServiceKey t) None (siNow input)) (\<lambda>_.
                          Inr (serviceResult L input m ''current'' (deadlineMonotonicMs verified)))), g')))"

section \<open>The invitation\<close>

record InvitationInput =
  iiAuthorizationJws :: string
  iiVcJws :: string
  iiProofJws :: string
  iiTrust :: ServiceTrust
  iiPolicy :: json
  iiRecipientId :: string
  iiSessionId :: string
  iiAttemptId :: string
  iiNow :: int

definition invitationContextInvalid ::
    "lib \<Rightarrow> InvitationInput \<Rightarrow> json \<Rightarrow> json \<Rightarrow> json \<Rightarrow> string \<Rightarrow> string \<Rightarrow> string \<Rightarrow> bool" where
  "invitationContextInvalid L input a vc q h d scopeHash \<longleftrightarrow>
     (let t = iiTrust input; subject = jobj vc ''credentialSubject''; status = jobj vc ''credentialStatus'' in
      \<not> sameDomain t a \<or> \<not> isStr a ''institutionUri'' (stInstitutionUri t) \<or> \<not> isStr a ''serviceUri'' (stServiceUri t) \<or>
      \<not> isStr a ''recipientId'' (iiRecipientId input) \<or> \<not> isStr a ''sessionId'' (iiSessionId input) \<or>
      \<not> isStr a ''attemptId'' (iiAttemptId input) \<or> \<not> isStr a ''policyHash'' h \<or>
      \<not> sameMember a (iiPolicy input) ''purpose'' \<or> \<not> isNum a ''approvalKeyVersion'' (stApprovalVersion t) \<or>
      \<not> isNum a ''serviceKeyVersion'' (stServiceVersion t) \<or> \<not> isStr a ''vcDigest'' d \<or>
      \<not> isStr a ''serviceProofHash'' (hashCanonical L q) \<or>
      \<not> isStr a ''browserKeyHash'' (hashCanonical L (jobj q ''browserPublicKey'')) \<or>
      \<not> isStr vc ''issuer'' (stInstitutionUri t) \<or> \<not> isStr subject ''id'' (stServiceUri t) \<or>
      hashCanonical L (jobj subject ''publicKey'') \<noteq> hashCanonical L (stServiceKey t) \<or>
      \<not> sameMember subject a ''institutionId'' \<or> jget subject ''keyVersion'' \<noteq> jget a ''serviceKeyVersion'' \<or>
      \<not> isStr a ''policyHash'' scopeHash \<or> \<not> sameMembers status a [''epoch'', ''approvalKeyVersion''] \<or>
      \<not> credentialDates vc (iiNow input))"

definition invitationProofInvalid :: "InvitationInput \<Rightarrow> json \<Rightarrow> json \<Rightarrow> json \<Rightarrow> bool" where
  "invitationProofInvalid input a vc q \<longleftrightarrow>
     (let status = jobj vc ''credentialStatus''; registry = toLowerCase (jstr a ''registryAddress'') in
      \<not> sameMember q a ''networkId'' \<or> toLowerCase (jstr q ''registryAddress'') \<noteq> registry \<or>
      \<not> sameMembers q a [''institutionId'', ''intentId'', ''attemptId'', ''sessionId'', ''agentId'', ''nonce'', ''serviceUri'',
         ''serviceKeyVersion'', ''vcDigest'', ''policyHash'', ''callProfile''] \<or>
      \<not> sameMember status a ''networkId'' \<or> toLowerCase (jstr status ''registryAddress'') \<noteq> registry \<or>
      \<not> sameMember status vc ''id'' \<or> iiNow input < jnum a ''issuedAt'')"

definition verifyServiceInvitation :: "lib \<Rightarrow> InvitationInput \<Rightarrow> (json \<times> json \<times> json) result" where
  "verifyServiceInvitation L input =
     (let t = iiTrust input in
      bindE (importKey L (stIssuerKey t)) (\<lambda>key.
      bindE (verifyPayload L (iiAuthorizationJws input) key ''ContactStartAuthorization'' (stIssuerKid t)
               startAuthorizationSchema) (\<lambda>a.
      bindE (verifyServiceCredential L (iiVcJws input) key (stIssuerKid t)) (\<lambda>vc.
      bindE (importKey L (stServiceKey t)) (\<lambda>serviceKey.
      bindE (verifyPayload L (iiProofJws input) serviceKey ''CallCenterProof'' (stServiceKid t) serviceProofSchema) (\<lambda>q.
      bindE (policyHash L (iiPolicy input)) (\<lambda>h.
      bindE (serviceCredentialDigest L vc) (\<lambda>d.
      bindE (policyHash L (jobj (jobj vc ''credentialSubject'') ''scope'')) (\<lambda>scopeHash.
      if invitationContextInvalid L input a vc q h d scopeHash then Inl (Error ''INVITATION_CONTEXT_INVALID'')
      else if invitationProofInvalid input a vc q then Inl (Error ''INVITATION_CONTEXT_INVALID'')
      else if iiNow input \<ge> jnum a ''firstConsumeBy'' \<or> jnum a ''firstConsumeBy'' \<le> jnum a ''issuedAt'' \<or>
              jnum a ''firstConsumeBy'' - jnum a ''issuedAt'' > 120
      then Inl (Error ''START_WINDOW_EXPIRED'')
      else bindE (assertTemporalValidity q (iiNow input)) (\<lambda>_. Inr (a, q, vc)))))))))))"

end
