(* ===== verification/Service_Current.thy ===== *)
theory Service_Current
  imports Institution Service_Protocol
begin

text \<open>
  What the ledger says about a service credential: \<^verbatim>\<open>services/api/src/service-current.ts\<close> with the
  callback \<^verbatim>\<open>current\<close> that \<^verbatim>\<open>finals-server.ts\<close> builds from it, and the published trust that new work
  requires (\<^verbatim>\<open>published-trust.ts\<close>). The bundle the witnesses answer with is an argument; no bundle
  stands for an aggregation that failed.
\<close>

section \<open>The service state within the record\<close>

definition onService :: "(ServiceState \<Rightarrow> ServiceState) \<Rightarrow> InstitutionRecord \<Rightarrow> InstitutionRecord" where
  "onService f r = r\<lparr> irService := map_option f (irService r) \<rparr>"

definition putCheckpoint :: "string \<Rightarrow> Checkpoint \<Rightarrow> InstitutionRecord \<Rightarrow> InstitutionRecord" where
  "putCheckpoint d cp = onService (\<lambda>s. s\<lparr> ssCheckpoints := dput d cp (ssCheckpoints s) \<rparr>)"

section \<open>The state of the ledger\<close>

definition rollsBack :: "Checkpoint \<Rightarrow> string \<Rightarrow> string \<Rightarrow> string \<Rightarrow> bool" where
  "rollsBack previous height hash payloadHash \<longleftrightarrow>
     bigInt height < bigInt (ckHeight previous) \<or>
     (height = ckHeight previous \<and> (hash \<noteq> ckHash previous \<or> payloadHash \<noteq> ckPayloadHash previous))"

definition ledgerWithdrawn :: "string \<Rightarrow> InstitutionRecord \<Rightarrow> json \<Rightarrow> json \<Rightarrow> bool" where
  "ledgerWithdrawn h r vc s \<longleftrightarrow>
     (let i = jobj s ''institutionState''; d = jobj s ''delegationState'';
          epoch = jget (jobj vc ''credentialStatus'') ''epoch'' in
      \<not> isStr s ''policyHash'' (''0x'' @ h) \<or>
      \<not> isStr s ''policyVersion'' (decimalString (nat (jnum (irPolicy r) ''version''))) \<or>
      \<not> jbool i ''exists'' \<or> \<not> isStr i ''status'' ''Active'' \<or> jget i ''epoch'' \<noteq> epoch \<or> jbool d ''revoked'' \<or>
      (jbool d ''exists'' \<and> jget d ''epoch'' \<noteq> epoch))"

definition stateContext :: "InstitutionRecord \<Rightarrow> string \<Rightarrow> int \<Rightarrow> int \<Rightarrow> VerificationContext" where
  "stateContext r d now monotonic =
     \<lparr> maxStateAgeSeconds = Some (Service_Protocol.observedStateAgeSeconds servicePolicy),
       maxFutureSkewSeconds = Some (eachClockSkewSeconds servicePolicy), nowWallSeconds = now,
       nowMonotonicMs = monotonic, expectedInstitutionId = irId r, expectedDelegationId = d \<rparr>"

definition observedCheckpoint :: "Checkpoint option \<Rightarrow> json \<Rightarrow> string \<Rightarrow> int \<Rightarrow> Checkpoint" where
  "observedCheckpoint previous s payloadHash now =
     \<lparr> ckHeight = jstr s ''blockNumber'', ckHash = jstr s ''blockHash'', ckPayloadHash = payloadHash,
       ckFirstSeenAt = (case previous of
          Some p \<Rightarrow> if ckHash p = jstr s ''blockHash'' then ckFirstSeenAt p else now | None \<Rightarrow> now),
       ckBlockTimestamp = jnum s ''blockTimestamp'' \<rparr>"

text \<open>The judgement on an accepted snapshot, once its checkpoint is stored.\<close>

definition judgeState :: "lib \<Rightarrow> InstitutionRecord \<Rightarrow> json \<Rightarrow> json \<Rightarrow> int \<Rightarrow> AuthorityStatus result" where
  "judgeState L r vc s now =
     (if \<not> isStr s ''registryProfile'' ''CALLSIGN_SERVICE_JOINT_CONFIGURATION_1''
      then Inl (Error ''SERVICE_REGISTRY_PROFILE_REQUIRED'')
      else bindE (policyHash L (irPolicy r)) (\<lambda>h.
        if ledgerWithdrawn h r vc s then Inr Revoked
        else bindE (assertLedgerBinding s (irEpoch r) (irPublicKey r)
                      (jobj (jobj vc ''credentialSubject'') ''publicKey'') None now) (\<lambda>_. Inr Current)))"

definition currentServiceState ::
    "lib \<Rightarrow> string \<Rightarrow> StateBundle \<Rightarrow> TrustBundle \<Rightarrow> int \<Rightarrow> int \<Rightarrow> (InstitutionRecord, AuthorityStatus) eff" where
  "currentServiceState L d bundle tb now monotonic r =
     (case (irService r, Option.bind (irService r) (\<lambda>s. dget (ssCredentials s) d)) of
        (Some s, Some item) \<Rightarrow>
          (case verifyStateBundle L bundle (tb\<lparr> policyVersion := jstr (snapshot bundle) ''policyVersion'' \<rparr>)
                  (stateContext r d now monotonic) of
             Inl e \<Rightarrow> (Inl e, r)
           | Inr verified \<Rightarrow>
               let sn = vsSnapshot verified; previous = dget (ssCheckpoints s) d in
               if (case previous of None \<Rightarrow> False
                   | Some p \<Rightarrow> rollsBack p (jstr sn ''blockNumber'') (jstr sn ''blockHash'') (snapshotHash verified))
               then (Inl (Error ''STATE_ROLLBACK_OR_CONFLICT''), r)
               else if (case previous of None \<Rightarrow> False | Some p \<Rightarrow> now < ckFirstSeenAt p)
               then (Inl (Error ''CLOCK_ROLLBACK''), r)
               else let r' = putCheckpoint d (observedCheckpoint previous sn (snapshotHash verified) now) r in
                 (judgeState L r' (sdVc item) sn now, r'))
      | _ \<Rightarrow> (Inl (Error ''CREDENTIAL_NOT_REGISTERED''), r))"

section \<open>The published trust\<close>

record PublishedProfile =
  ppInstitutionUri :: string
  ppIssuerKid :: string
  ppApprovalKeyVersion :: int
  ppIssuerPublicKey :: json
  ppPolicy :: "json option"
  ppServiceUri :: "string option"
  ppServiceKid :: "string option"
  ppServiceKeyVersion :: "int option"
  ppServicePublicKey :: "json option"

text \<open>A trust bundle with its service profile; \<open>pdHash\<close> is the hash of the whole document.\<close>

record PublishedTrust =
  pdTrust :: TrustBundle
  pdProfile :: "PublishedProfile option"
  pdHash :: string

definition publishedServiceDiffers :: "lib \<Rightarrow> PublishedProfile \<Rightarrow> RegisteredService \<Rightarrow> bool" where
  "publishedServiceDiffers L p service \<longleftrightarrow>
     \<not> svActive service \<or> ppServiceKid p \<noteq> Some (svKid service) \<or> ppServiceKeyVersion p \<noteq> Some (svVersion service) \<or>
     (case ppServicePublicKey p of None \<Rightarrow> True | Some k \<Rightarrow> hashCanonical L k \<noteq> hashCanonical L (svKey service))"

definition publishedIssuerDiffers ::
    "lib \<Rightarrow> InstitutionRecord \<Rightarrow> PublishedTrust \<Rightarrow> PublishedProfile \<Rightarrow> string option \<Rightarrow> json option \<Rightarrow> bool" where
  "publishedIssuerDiffers L r td p expectedPin runtime \<longleftrightarrow>
     registryProfile (pdTrust td) \<noteq> Some ''CALLSIGN_SERVICE_JOINT_CONFIGURATION_1'' \<or>
     policyVersion (pdTrust td) \<noteq> decimalString (nat (jnum (irPolicy r) ''version'')) \<or>
     irUri r \<noteq> Some (ppInstitutionUri p) \<or> ppIssuerKid p \<noteq> irKid r \<or> ppApprovalKeyVersion p \<noteq> irKeyVersion r \<or>
     hashCanonical L (ppIssuerPublicKey p) \<noteq> hashCanonical L (irPublicKey r) \<or>
     (case expectedPin of None \<Rightarrow> False | Some pin \<Rightarrow> pin \<noteq> [] \<and> pdHash td \<noteq> pin) \<or>
     (case runtime of None \<Rightarrow> False | Some q \<Rightarrow>
        (case ppPolicy p of None \<Rightarrow> True | Some q' \<Rightarrow> hashCanonical L q' \<noteq> hashCanonical L q))"

definition assertPublishedTrust ::
    "lib \<Rightarrow> PublishedTrust \<Rightarrow> string option \<Rightarrow> json option \<Rightarrow> InstitutionRecord \<Rightarrow> unit result" where
  "assertPublishedTrust L td expectedPin runtime r =
     (case pdProfile td of
        None \<Rightarrow> Inl (HttpError 503 ''TRUST_PUBLICATION_REQUIRED'')
      | Some p \<Rightarrow>
          (case Option.bind (ppServiceUri p) (\<lambda>uri. if uri = [] then None else dget (irServices r) uri) of
             None \<Rightarrow> Inl (HttpError 503 ''TRUST_PUBLICATION_REQUIRED'')
           | Some service \<Rightarrow>
               if publishedServiceDiffers L p service \<or> publishedIssuerDiffers L r td p expectedPin runtime
               then Inl (HttpError 503 ''TRUST_PUBLICATION_REQUIRED'') else Inr ()))"

end
