(* ===== verification/Service_Authority.thy ===== *)
theory Service_Authority
  imports Service_Current Authority
begin

text \<open>
  The authority of the service profile, class \<^verbatim>\<open>ServiceAuthority\<close> of
  \<^verbatim>\<open>services/api/src/service-authority.ts\<close>, and the retention of its state (\<^verbatim>\<open>retention.ts\<close>). An operation
  is the function the code hands to \<^verbatim>\<open>store.transact\<close>: it ends with a reply and the new record, or with
  an exception, in which case the transaction leaves the record as it was. Identifiers from
  \<^verbatim>\<open>randomUUID\<close> are \<open>u 0\<close>, \<open>u 1\<close>, in the order the operation draws them. An attempt is kept under its own
  identifier, so that \<^verbatim>\<open>attempt.id\<close> and the key it is found under are the same text.
\<close>

section \<open>The environment\<close>

record serviceEnv =
  seNetwork :: string
  seRegistry :: string
  seSigningKey :: "int \<Rightarrow> AuthorityKey result"
  seWitnesses :: "string \<Rightarrow> string \<Rightarrow> StateBundle option"
  seTrust :: TrustBundle
  sePublished :: "InstitutionRecord \<Rightarrow> unit result"
  sePbx :: "(string \<times> json) option"
  sePolicy :: RuntimePolicy
  seNow :: int
  seMonotonic :: int

type_synonym serviceOp = "InstitutionRecord \<Rightarrow> (ServiceReply \<times> InstitutionRecord) result"

text \<open>The callback \<^verbatim>\<open>current\<close>: a failure on the way is the answer \<^verbatim>\<open>unavailable\<close>.\<close>

definition currentStatus :: "lib \<Rightarrow> serviceEnv \<Rightarrow> string \<Rightarrow> InstitutionRecord \<Rightarrow> AuthorityStatus \<times> InstitutionRecord" where
  "currentStatus L E d r = (case seWitnesses E (irId r) d of
     None \<Rightarrow> (Unavailable, r)
   | Some bundle \<Rightarrow> (case currentServiceState L d bundle (seTrust E) (seNow E) (seMonotonic E) r of
        (Inl _, r') \<Rightarrow> (Unavailable, r') | (Inr status, r') \<Rightarrow> (status, r')))"

definition serviceMessage :: "serviceEnv \<Rightarrow> (string \<times> json) list" where
  "serviceMessage E = [(''protocol'', JStr ''callsign''), (''version'', JNum 3),
     (''networkId'', JStr (seNetwork E)), (''registryAddress'', JStr (seRegistry E))]"

definition serviceState :: "InstitutionRecord \<Rightarrow> ServiceState result" where
  "serviceState r = (case irService r of
     Some s \<Rightarrow> if ssReady s then Inr s else Inl (HttpError 503 ''CONSUMPTION_HISTORY_RECOVERY_REQUIRED'')
   | None \<Rightarrow> Inl (HttpError 503 ''CONSUMPTION_HISTORY_RECOVERY_REQUIRED''))"

section \<open>Writes\<close>

definition onAttempt :: "string \<Rightarrow> (ServiceAttempt \<Rightarrow> ServiceAttempt) \<Rightarrow> InstitutionRecord \<Rightarrow> InstitutionRecord" where
  "onAttempt i f = onService (\<lambda>s. case dget (ssAttempts s) i of
     None \<Rightarrow> s | Some a \<Rightarrow> s\<lparr> ssAttempts := dput i (f a) (ssAttempts s) \<rparr>)"

definition requestCleanup :: "int \<Rightarrow> ServiceAttempt \<Rightarrow> ServiceAttempt" where
  "requestCleanup now a =
     (if saPbx a \<noteq> None \<and> (case saCleanup a of Some c \<Rightarrow> clStatus c \<noteq> ''pbx-absent'' | None \<Rightarrow> True)
      then a\<lparr> saCleanup := Some \<lparr> clStatus = ''requested'', clObservedAt = now, clSource = ''server-request'',
              clAttempts = (case saCleanup a of Some c \<Rightarrow> clAttempts c | None \<Rightarrow> 0) \<rparr> \<rparr>
      else a)"

definition serviceEvent ::
    "int \<Rightarrow> string \<Rightarrow> string \<Rightarrow> string \<Rightarrow> string \<Rightarrow> json \<Rightarrow> InstitutionRecord \<Rightarrow> InstitutionRecord" where
  "serviceEvent now uuid user kind objectId payload r =
     (let r' = (if kind = ''call.cleanup'' then onAttempt objectId (requestCleanup now) r else r) in
      r'\<lparr> irAudit := irAudit r' @ [\<lparr> adId = uuid, adEvent = kind, adActor = user, adAt = now, adObject = objectId \<rparr>],
          irPendingEvents := irPendingEvents r' @
            [\<lparr> peId = uuid, peKind = kind, peObject = objectId, peAt = now, pePayload = payload \<rparr>] \<rparr>)"

definition withdrawConsent :: "ServiceAttempt \<Rightarrow> ServiceAttempt" where
  "withdrawConsent a = a\<lparr> saConsent := map_option (\<lambda>c. c\<lparr> cnGranted := False, cnGeneration := cnGeneration c + 1 \<rparr>) (saConsent a) \<rparr>"

section \<open>Idempotent requests\<close>

definition isRequestChar :: "char \<Rightarrow> bool" where
  "isRequestChar c \<longleftrightarrow> c \<in> set (digitChars @ lowerChars @ upperChars @ '':._-'')"

definition isRequestId :: "string \<Rightarrow> bool" where
  "isRequestId s \<longleftrightarrow> 8 \<le> length s \<and> length s \<le> 200 \<and> list_all isRequestChar s"

datatype transactMode = ModeNormal | ModeCleanup | ModeSafety

definition requestMode :: "json \<Rightarrow> transactMode" where
  "requestMode input =
     (if isStr input ''action'' ''outcome'' \<or>
         (isStr input ''action'' ''consent'' \<and> jget input ''granted'' = Some (JBool False)) then ModeCleanup
      else if list_ex (isStr input ''action'') [''revoke'', ''cancel'', ''suspend'', ''official-confirm''] then ModeSafety
      else ModeNormal)"

definition everyRole :: "string list" where
  "everyRole = [''institution'', ''gateway'', ''recipient'', ''approver'']"

definition requestKey :: "Actor \<Rightarrow> string \<Rightarrow> string" where
  "requestKey actor requestId = acUser actor @ '':'' @ requestId"

definition liveRequests :: "int \<Rightarrow> RequestEntry dict \<Rightarrow> RequestEntry dict" where
  "liveRequests now = filter (\<lambda>e. \<not> rqAt (snd e) < now - 604800)"

definition rememberReply :: "string \<Rightarrow> RequestEntry \<Rightarrow> InstitutionRecord \<Rightarrow> InstitutionRecord" where
  "rememberReply key entry = onService (\<lambda>s. s\<lparr> ssRequests := dput key entry (ssRequests s) \<rparr>)"

definition idempotent :: "lib \<Rightarrow> serviceEnv \<Rightarrow> Actor \<Rightarrow> string \<Rightarrow> json \<Rightarrow> serviceOp \<Rightarrow> serviceOp" where
  "idempotent L E actor requestId input operation r =
     (if \<not> isRequestId requestId then Inl (HttpError 400 ''REQUEST_ID_REQUIRED'')
      else bindE (membership r actor everyRole) (\<lambda>_.
      bindE (serviceState r) (\<lambda>s.
      case dget (ssRequests s) (requestKey actor requestId) of
        Some previous \<Rightarrow>
          if rqHash previous \<noteq> hashCanonical L input then Inl (HttpError 409 ''IDEMPOTENCY_CONFLICT'')
          else Inr (rqReply previous, r)
      | None \<Rightarrow>
          let live = liveRequests (seNow E) (ssRequests s) in
          if length live \<ge> 10000 then Inl (HttpError 429 ''IDEMPOTENCY_CAPACITY'')
          else bindE (operation (onService (\<lambda>s. s\<lparr> ssRequests := live \<rparr>) r)) (\<lambda>(reply, r').
            Inr (reply, rememberReply (requestKey actor requestId)
              \<lparr> rqHash = hashCanonical L input, rqAt = seNow E, rqReply = reply \<rparr> r')))))"

section \<open>The parties of an attempt and its credential\<close>

definition attemptHidden :: "InstitutionRecord \<Rightarrow> Actor \<Rightarrow> ServiceAttempt \<Rightarrow> ContactIntent \<Rightarrow> bool" where
  "attemptHidden r actor attempt intent \<longleftrightarrow>
     ciInstitution intent \<noteq> irId r \<or>
     (acRole actor = ''gateway'' \<and>
        (saAgent attempt \<noteq> acUser actor \<or> memberService r (acUser actor) \<noteq> Some (ciService intent))) \<or>
     (acRole actor = ''recipient'' \<and> ciRecipient intent \<noteq> acUser actor)"

definition assignmentChanged :: "InstitutionRecord \<Rightarrow> ServiceAttempt \<Rightarrow> ContactIntent \<Rightarrow> bool" where
  "assignmentChanged r attempt intent \<longleftrightarrow>
     memberRole r (ciRecipient intent) \<noteq> Some ''recipient'' \<or> memberInactive r (ciRecipient intent) \<or>
     saAgent attempt \<noteq> ciAgent intent \<or> memberRole r (saAgent attempt) \<noteq> Some ''gateway'' \<or>
     memberInactive r (saAgent attempt) \<or> memberService r (saAgent attempt) \<noteq> Some (ciService intent)"

definition party ::
    "InstitutionRecord \<Rightarrow> Actor \<Rightarrow> string \<Rightarrow> (ServiceState \<times> ServiceAttempt \<times> ContactIntent) result" where
  "party r actor attemptId =
     bindE (membership r actor [''gateway'', ''recipient'', ''institution'']) (\<lambda>_.
     bindE (serviceState r) (\<lambda>s.
     bindE (ofOption (HttpError 404 ''ATTEMPT_NOT_FOUND'') (dget (ssAttempts s) attemptId)) (\<lambda>attempt.
     bindE (ofOption (HttpError 404 ''ATTEMPT_NOT_FOUND'') (dget (irIntents r) (saIntent attempt))) (\<lambda>intent.
     if attemptHidden r actor attempt intent then Inl (HttpError 404 ''ATTEMPT_NOT_FOUND'')
     else if assignmentChanged r attempt intent then Inl (HttpError 409 ''ASSIGNMENT_CHANGED'')
     else Inr (s, attempt, intent)))))"

definition institutionName :: "InstitutionRecord \<Rightarrow> string" where
  "institutionName r = (case irUri r of Some uri \<Rightarrow> uri | None \<Rightarrow> irDid r)"

definition serviceVcInvalid :: "lib \<Rightarrow> serviceEnv \<Rightarrow> InstitutionRecord \<Rightarrow> RegisteredService \<Rightarrow> json \<Rightarrow> bool" where
  "serviceVcInvalid L E r service vc \<longleftrightarrow>
     (let subject = jobj vc ''credentialSubject''; status = jobj vc ''credentialStatus'' in
      irStatus r \<noteq> InstitutionActive \<or> \<not> isStr vc ''issuer'' (institutionName r) \<or> \<not> svActive service \<or>
      \<not> isStr subject ''institutionId'' (irId r) \<or> \<not> isNum subject ''keyVersion'' (svVersion service) \<or>
      hashCanonical L (jobj subject ''publicKey'') \<noteq> hashCanonical L (svKey service) \<or>
      \<not> isStr status ''epoch'' (irEpoch r) \<or> \<not> isNum status ''approvalKeyVersion'' (irKeyVersion r) \<or>
      \<not> isStr status ''networkId'' (seNetwork E) \<or>
      toLowerCase (jstr status ''registryAddress'') \<noteq> toLowerCase (seRegistry E) \<or>
      dateParse (jstr vc ''validFrom'') > seNow E * 1000 \<or> dateParse (jstr vc ''validUntil'') \<le> seNow E * 1000)"

definition serviceCredential ::
    "lib \<Rightarrow> serviceEnv \<Rightarrow> InstitutionRecord \<Rightarrow> string \<Rightarrow> (ServiceDelegation \<times> json \<times> RegisteredService) result" where
  "serviceCredential L E r d =
     bindE (serviceState r) (\<lambda>s.
     bindE (ofOption (HttpError 409 ''DELEGATION_REVOKED_OR_UNKNOWN'') (dget (ssCredentials s) d)) (\<lambda>item.
     if sdState item \<in> {RevokeRequested, CredentialRevoked} then Inl (HttpError 409 ''DELEGATION_REVOKED_OR_UNKNOWN'')
     else bindE (ofOption LibraryError (importJwk L (irPublicKey r))) (\<lambda>key.
       bindE (verifyServiceCredential L (sdJws item) key (irKid r)) (\<lambda>vc.
       bindE (serviceCredentialDigest L vc) (\<lambda>d'.
       bindE (ofOption (HttpError 409 ''DELEGATION_CONTEXT_INVALID'')
                (dget (irServices r) (jstr (jobj vc ''credentialSubject'') ''id''))) (\<lambda>service.
       if d' \<noteq> d \<or> serviceVcInvalid L E r service vc then Inl (HttpError 409 ''DELEGATION_CONTEXT_INVALID'')
       else bindE (policyHash L (jobj (jobj vc ''credentialSubject'') ''scope'')) (\<lambda>scopeHash.
         bindE (policyHash L (irPolicy r)) (\<lambda>h.
         if scopeHash \<noteq> h then Inl (HttpError 409 ''DELEGATION_CONTEXT_INVALID'')
         else Inr (item, vc, service)))))))))"

text \<open>\<^verbatim>\<open>assertCurrent\<close> returns the record with the checkpoint the callback has stored.\<close>

definition assertCurrent :: "lib \<Rightarrow> serviceEnv \<Rightarrow> string \<Rightarrow> InstitutionRecord \<Rightarrow> InstitutionRecord result" where
  "assertCurrent L E d r = (case currentStatus L E d r of
     (Current, r') \<Rightarrow> Inr r'
   | (Revoked, r') \<Rightarrow> Inl (HttpError 409 ''AUTHORITY_REVOKED'')
   | (Unavailable, r') \<Rightarrow> Inl (HttpError 503 ''AUTHORITY_UNAVAILABLE''))"

section \<open>Intents, credentials and attempts\<close>

definition serviceCreateIntent :: "lib \<Rightarrow> serviceEnv \<Rightarrow> (nat \<Rightarrow> string) \<Rightarrow> Actor \<Rightarrow> string \<Rightarrow> json \<Rightarrow> serviceOp" where
  "serviceCreateIntent L E u actor requestId input =
     idempotent L E actor requestId (JObj [(''action'', JStr ''intent''), (''input'', input)]) (\<lambda>r.
       bindE (sePublished E r) (\<lambda>_.
       bindE (requirePermission r actor ''contact.manage'') (\<lambda>_.
       case importMockFds L actor input (seNow E) r of
         (Inl e, _) \<Rightarrow> Inl e
       | (Inr intent, r') \<Rightarrow>
           Inr (ReplyIntent intent, serviceEvent (seNow E) (u 0) (acUser actor) ''intent.created'' (ciId intent) (JObj []) r'))))"

definition serviceVc :: "serviceEnv \<Rightarrow> InstitutionRecord \<Rightarrow> RegisteredService \<Rightarrow> string \<Rightarrow> string \<Rightarrow> json \<Rightarrow> string \<Rightarrow> json" where
  "serviceVc E r service serviceUri credentialId publicKey issuer = JObj
     [(''@context'', JArr [JStr ''https://www.w3.org/ns/credentials/v2'',
         JObj [(''@vocab'', JStr ''urn:callsign:delegation:v1:'')]]),
      (''id'', JStr credentialId), (''type'', JArr [JStr ''VerifiableCredential'', JStr ''CallCenterDelegation'']),
      (''issuer'', JStr issuer), (''validFrom'', JStr (toISOString (seNow E * 1000))),
      (''validUntil'', JStr (toISOString ((seNow E + 86400) * 1000))),
      (''credentialSubject'', JObj [(''id'', JStr serviceUri), (''institutionId'', JStr (irId r)),
         (''publicKey'', publicKey), (''keyVersion'', JNum (svVersion service)), (''scope'', irPolicy r)]),
      (''credentialStatus'', JObj [(''id'', JStr credentialId), (''type'', JStr ''CallSignRegistryStatus''),
         (''networkId'', JStr (seNetwork E)), (''registryAddress'', JStr (seRegistry E)),
         (''epoch'', JStr (irEpoch r)), (''approvalKeyVersion'', JNum (irKeyVersion r))])]"

definition putCredential :: "string \<Rightarrow> ServiceDelegation \<Rightarrow> InstitutionRecord \<Rightarrow> InstitutionRecord" where
  "putCredential d item = onService (\<lambda>s. s\<lparr> ssCredentials := dput d item (ssCredentials s) \<rparr>)"

definition serviceIssueCredential :: "lib \<Rightarrow> serviceEnv \<Rightarrow> (nat \<Rightarrow> string) \<Rightarrow> Actor \<Rightarrow> string \<Rightarrow> string \<Rightarrow> serviceOp" where
  "serviceIssueCredential L E u actor requestId serviceUri =
     idempotent L E actor requestId (JObj [(''action'', JStr ''vc''), (''serviceUri'', JStr serviceUri)]) (\<lambda>r.
       bindE (sePublished E r) (\<lambda>_.
       bindE (requirePermission r actor ''delegation.manage'') (\<lambda>_.
       bindE (parseWith registeredUriSchema (JStr serviceUri)) (\<lambda>_.
       case dget (irServices r) serviceUri of
         None \<Rightarrow> Inl (HttpError 409 ''SERVICE_INACTIVE'')
       | Some service \<Rightarrow>
           if irStatus r \<noteq> InstitutionActive \<or> \<not> svActive service then Inl (HttpError 409 ''SERVICE_INACTIVE'')
           else bindE (parseWith registeredUriSchema (JStr (institutionName r))) (\<lambda>_.
             bindE (parseWith publicKeySchema (svKey service)) (\<lambda>publicKey.
             bindE (parseWith serviceVcSchema
                      (serviceVc E r service serviceUri (''urn:uuid:'' @ u 0) publicKey (institutionName r))) (\<lambda>vc.
             bindE (serviceCredentialDigest L vc) (\<lambda>d.
             bindE (seSigningKey E (irKeyVersion r)) (\<lambda>key.
             bindE (signServiceCredential L vc (akPrivate key) (akKid key)) (\<lambda>jws.
             bindE (serviceState r) (\<lambda>_.
             let item = \<lparr> sdVc = vc, sdJws = jws, sdState = CredentialPending \<rparr> in
             Inr (ReplyCredential d item,
               serviceEvent (seNow E) (u 1) (acUser actor) ''credential.register'' d (JObj [(''digest'', JStr d)])
                 (putCredential d item r)))))))))))))"

definition blocksAttempt :: "int \<Rightarrow> string \<Rightarrow> ServiceAttempt \<Rightarrow> bool" where
  "blocksAttempt now intentId a \<longleftrightarrow>
     \<not> terminal (saStatus a) \<and> saIntent a = intentId \<and> (saStatus a = SAccepted \<or> saFirstConnectBy a > now)"

definition lapse :: "int \<Rightarrow> string \<Rightarrow> ServiceAttempt \<Rightarrow> ServiceAttempt" where
  "lapse now intentId a =
     (if \<not> terminal (saStatus a) \<and> saIntent a = intentId
      then a\<lparr> saStatus := SNoAnswer, saEndedAt := Some now \<rparr> else a)"

definition newAttempt :: "serviceEnv \<Rightarrow> (nat \<Rightarrow> string) \<Rightarrow> Actor \<Rightarrow> ContactIntent \<Rightarrow> string \<Rightarrow> string \<Rightarrow> ServiceAttempt" where
  "newAttempt E u actor intent intentId callProfile =
     \<lparr> saId = ''v3-'' @ u 0, saIntent = intentId, saAgent = acUser actor, saSession = u 1, saGeneration = u 2,
       saProfile = callProfile, saStatus = SCreated, saFirstConnectBy = min (seNow E + 120) (ciExpiresAt intent),
       saCallEndBy = min (seNow E + maxCallSeconds (sePolicy E)) (ciExpiresAt intent), saRevision = 1,
       saAuthorityStatus = None, saAuthorityUntil = None, saAuthorization = None, saBinding = None, saLease = None,
       saRecipientKey = None, saPossessions = [], saMediaReady = [], saRenewal = None, saOwnerSessions = [],
       saEndedAt = None, saReason = None, saConsent = None, saUnverifiedChoice = None, saCleanup = None,
       saPbx = None \<rparr>"

definition lapseAttempts :: "int \<Rightarrow> string \<Rightarrow> InstitutionRecord \<Rightarrow> InstitutionRecord" where
  "lapseAttempts now intentId = onService (\<lambda>s. s\<lparr> ssAttempts := dmap (lapse now intentId) (ssAttempts s) \<rparr>)"

definition putAttempt :: "ServiceAttempt \<Rightarrow> InstitutionRecord \<Rightarrow> InstitutionRecord" where
  "putAttempt a = onService (\<lambda>s. s\<lparr> ssAttempts := dput (saId a) a (ssAttempts s) \<rparr>)"

definition serviceCreateAttempt ::
    "lib \<Rightarrow> serviceEnv \<Rightarrow> (nat \<Rightarrow> string) \<Rightarrow> Actor \<Rightarrow> string \<Rightarrow> string \<Rightarrow> string \<Rightarrow> serviceOp" where
  "serviceCreateAttempt L E u actor requestId intentId callProfile =
     idempotent L E actor requestId (JObj [(''action'', JStr ''attempt''), (''intentId'', JStr intentId),
         (''profile'', JStr callProfile)]) (\<lambda>r.
       bindE (sePublished E r) (\<lambda>_.
       bindE (membership r actor [''gateway'']) (\<lambda>_.
       bindE (activeIntent L r intentId actor (seNow E)) (\<lambda>intent.
       bindE (serviceState r) (\<lambda>s.
       if list_ex (blocksAttempt (seNow E) intentId) (dvalues (ssAttempts s))
       then Inl (HttpError 409 ''ATTEMPT_ALREADY_ACTIVE'')
       else if length (ssAttempts s) \<ge> 10000 then Inl (HttpError 429 ''ATTEMPT_CAPACITY_RETENTION_REQUIRED'')
       else let a = newAttempt E u actor intent intentId callProfile in
         Inr (ReplyAttempt a, serviceEvent (seNow E) (u 3) (acUser actor) ''attempt.created'' (saId a) (JObj [])
           (putAttempt a (lapseAttempts (seNow E) intentId r))))))))"

section \<open>The challenge and the start authorization\<close>

definition proofPayload ::
    "serviceEnv \<Rightarrow> (nat \<Rightarrow> string) \<Rightarrow> InstitutionRecord \<Rightarrow> Actor \<Rightarrow> ServiceAttempt \<Rightarrow> ContactIntent \<Rightarrow> RegisteredService \<Rightarrow>
     string \<Rightarrow> json \<Rightarrow> string \<Rightarrow> json" where
  "proofPayload E u r actor attempt intent service attemptId publicKey d = JObj (serviceMessage E @
     [(''type'', JStr ''CallCenterProof''), (''challengeId'', JStr (u 0)), (''nonce'', JStr (u 1)),
      (''institutionId'', JStr (irId r)), (''intentId'', JStr (ciId intent)), (''attemptId'', JStr attemptId),
      (''sessionId'', JStr (saSession attempt)), (''agentId'', JStr (acUser actor)),
      (''serviceUri'', JStr (ciService intent)), (''serviceKeyVersion'', JNum (svVersion service)),
      (''browserPublicKey'', publicKey), (''vcDigest'', JStr d), (''policyHash'', JStr (ciPolicyHash intent)),
      (''callProfile'', JStr (saProfile attempt)), (''issuedAt'', JNum (seNow E)),
      (''expiresAt'', JNum (saFirstConnectBy attempt))])"

definition putChallenge :: "string \<Rightarrow> ServiceChallenge \<Rightarrow> InstitutionRecord \<Rightarrow> InstitutionRecord" where
  "putChallenge i c = onService (\<lambda>s. s\<lparr> ssChallenges := dput i c (ssChallenges s) \<rparr>)"

definition serviceChallenge ::
    "lib \<Rightarrow> serviceEnv \<Rightarrow> (nat \<Rightarrow> string) \<Rightarrow> Actor \<Rightarrow> string \<Rightarrow> string \<Rightarrow> string \<Rightarrow> json \<Rightarrow> serviceOp" where
  "serviceChallenge L E u actor requestId attemptId d publicKey =
     idempotent L E actor requestId (JObj [(''action'', JStr ''challenge''), (''attemptId'', JStr attemptId),
         (''digest'', JStr d), (''publicKey'', publicKey)]) (\<lambda>r.
       bindE (sePublished E r) (\<lambda>_.
       bindE (membership r actor [''gateway'']) (\<lambda>_.
       bindE (party r actor attemptId) (\<lambda>(s, attempt, intent).
       bindE (activeIntent L r (ciId intent) actor (seNow E)) (\<lambda>_.
       if saStatus attempt \<noteq> SCreated \<or> seNow E \<ge> saFirstConnectBy attempt then Inl (HttpError 409 ''START_EXPIRED'')
       else bindE (serviceCredential L E r d) (\<lambda>(item, vc, service).
         if \<not> isStr (jobj vc ''credentialSubject'') ''id'' (ciService intent) then Inl (HttpError 403 ''SERVICE_MISMATCH'')
         else bindE (assertCurrent L E d r) (\<lambda>r1.
           bindE (parseWith publicKeySchema publicKey) (\<lambda>key.
           bindE (parseWith serviceProofSchema (proofPayload E u r actor attempt intent service attemptId key d)) (\<lambda>payload.
             Inr (ReplyPayload payload,
               putChallenge (u 0) \<lparr> scPayloadOf = payload, scUsed = False \<rparr> r1))))))))))"

definition senderContext :: "serviceEnv \<Rightarrow> Actor \<Rightarrow> string \<Rightarrow> string \<Rightarrow> InstitutionRecord \<Rightarrow> json result" where
  "senderContext E actor challengeId serviceUri r =
     bindE (membership r actor [''gateway'']) (\<lambda>_.
     bindE (serviceState r) (\<lambda>s.
     bindE (ofOption (HttpError 403 ''CHALLENGE_FORBIDDEN'') (dget (ssChallenges s) challengeId)) (\<lambda>c.
     if scUsed c \<or> \<not> isStr (scPayloadOf c) ''serviceUri'' serviceUri \<or> \<not> isStr (scPayloadOf c) ''agentId'' (acUser actor)
     then Inl (HttpError 403 ''CHALLENGE_FORBIDDEN'')
     else bindE (party r actor (jstr (scPayloadOf c) ''attemptId'')) (\<lambda>_.
       bindE (assertTemporalValidity (scPayloadOf c) (seNow E)) (\<lambda>_. Inr (scPayloadOf c))))))"

definition startAuthorization ::
    "lib \<Rightarrow> serviceEnv \<Rightarrow> string \<Rightarrow> InstitutionRecord \<Rightarrow> Actor \<Rightarrow> ServiceAttempt \<Rightarrow> ContactIntent \<Rightarrow> RegisteredService \<Rightarrow>
     json \<Rightarrow> json \<Rightarrow> json" where
  "startAuthorization L E authorizationId r actor attempt intent service vc q = JObj (serviceMessage E @
     [(''type'', JStr ''ContactStartAuthorization''), (''authorizationId'', JStr authorizationId),
      (''institutionId'', JStr (irId r)), (''institutionUri'', JStr (institutionName r)),
      (''intentId'', JStr (ciId intent)), (''attemptId'', JStr (saId attempt)),
      (''sessionId'', JStr (saSession attempt)), (''agentId'', JStr (acUser actor)),
      (''recipientId'', JStr (ciRecipient intent)), (''serviceUri'', jobj q ''serviceUri''),
      (''serviceKeyVersion'', JNum (svVersion service)), (''approvalKeyVersion'', JNum (irKeyVersion r)),
      (''epoch'', JStr (irEpoch r)), (''nonce'', jobj q ''nonce''),
      (''browserKeyHash'', JStr (hashCanonical L (jobj q ''browserPublicKey''))),
      (''serviceProofHash'', JStr (hashCanonical L q)), (''vcDigest'', jobj q ''vcDigest''),
      (''policyHash'', JStr (ciPolicyHash intent)), (''purpose'', JStr (ciPurpose intent)),
      (''callProfile'', JStr (saProfile attempt)), (''issuedAt'', JNum (seNow E)),
      (''firstConsumeBy'', JNum (min (saFirstConnectBy attempt) (jnum q ''expiresAt''))),
      (''callEndBy'', JNum (min (saCallEndBy attempt) (dateParse (jstr vc ''validUntil'') div 1000)))])"

definition recordAuthorization ::
    "string \<Rightarrow> ServiceChallenge \<Rightarrow> string \<Rightarrow> string \<Rightarrow> ServiceAuthorization \<Rightarrow> InstitutionRecord \<Rightarrow> InstitutionRecord" where
  "recordAuthorization challengeId c attemptId authorizationId auth r =
     onService (\<lambda>s. s\<lparr> ssAuthorizations := dput authorizationId auth (ssAuthorizations s) \<rparr>)
       (onAttempt attemptId (\<lambda>a. a\<lparr> saAuthorization := Some authorizationId, saStatus := SAuthorized,
            saCallEndBy := jnum (sauPayload auth) ''callEndBy'' \<rparr>)
         (putChallenge challengeId (c\<lparr> scUsed := True \<rparr>) r))"

definition serviceAuthorize ::
    "lib \<Rightarrow> serviceEnv \<Rightarrow> (nat \<Rightarrow> string) \<Rightarrow> Actor \<Rightarrow> string \<Rightarrow> string \<Rightarrow> string \<Rightarrow> serviceOp" where
  "serviceAuthorize L E u actor requestId challengeId proofJws =
     idempotent L E actor requestId (JObj [(''action'', JStr ''authorize''), (''challengeId'', JStr challengeId),
         (''proofJws'', JStr proofJws)]) (\<lambda>r.
       bindE (sePublished E r) (\<lambda>_.
       bindE (membership r actor [''gateway'']) (\<lambda>_.
       bindE (serviceState r) (\<lambda>s.
       bindE (ofOption (HttpError 409 ''CHALLENGE_USED_OR_UNKNOWN'') (dget (ssChallenges s) challengeId)) (\<lambda>c.
       if scUsed c then Inl (HttpError 409 ''CHALLENGE_USED_OR_UNKNOWN'')
       else let expected = scPayloadOf c; attemptId = jstr expected ''attemptId'' in
       bindE (party r actor attemptId) (\<lambda>(_, attempt, intent).
       bindE (activeIntent L r (ciId intent) actor (seNow E)) (\<lambda>_.
       if saStatus attempt \<noteq> SCreated \<or> \<not> isStr expected ''agentId'' (acUser actor)
       then Inl (HttpError 409 ''ATTEMPT_INVALID'')
       else bindE (serviceCredential L E r (jstr expected ''vcDigest'')) (\<lambda>(item, vc, service).
         bindE (ofOption LibraryError (importJwk L (svKey service))) (\<lambda>key.
         bindE (verifyPayload L proofJws key ''CallCenterProof'' (svKid service) serviceProofSchema) (\<lambda>q.
         if hashCanonical L q \<noteq> hashCanonical L expected then Inl (HttpError 409 ''CHALLENGE_CONTEXT_INVALID'')
         else bindE (assertTemporalValidity q (seNow E)) (\<lambda>_.
         bindE (assertCurrent L E (jstr q ''vcDigest'') r) (\<lambda>r1.
         let i = ''v3-'' @ u 0 in
         bindE (parseWith startAuthorizationSchema (startAuthorization L E i r1 actor attempt intent service vc q)) (\<lambda>payload.
         bindE (seSigningKey E (irKeyVersion r1)) (\<lambda>issuer.
         let auth = \<lparr> sauPayload = payload, sauJws = signPayload L payload (akPrivate issuer) (akKid issuer),
               sauProofJws = proofJws, sauCancelled = False \<rparr> in
         Inr (ReplyAuthorization auth,
           serviceEvent (seNow E) (u 1) (acUser actor) ''authorization.issued'' i (JObj [])
             (recordAuthorization challengeId c attemptId i auth r1))))))))))))))))"

definition keyReply :: "lib \<Rightarrow> ServiceAttempt \<Rightarrow> string \<Rightarrow> json \<Rightarrow> json" where
  "keyReply L attempt nonce key = JObj [(''sessionId'', JStr (saSession attempt)),
     (''generation'', JStr (saGeneration attempt)), (''nonce'', JStr nonce), (''keyHash'', JStr (hashCanonical L key))]"

definition serviceEnroll ::
    "lib \<Rightarrow> serviceEnv \<Rightarrow> Actor \<Rightarrow> string \<Rightarrow> string \<Rightarrow> json \<Rightarrow> string \<Rightarrow> serviceOp" where
  "serviceEnroll L E actor requestId attemptId publicKey nonce =
     idempotent L E actor requestId (JObj [(''action'', JStr ''enroll''), (''attemptId'', JStr attemptId),
         (''publicKey'', publicKey), (''nonce'', JStr nonce)]) (\<lambda>r.
       bindE (membership r actor [''recipient'']) (\<lambda>_.
       bindE (party r actor attemptId) (\<lambda>(_, attempt, intent).
       bindE (activeIntent L r (ciId intent) actor (seNow E)) (\<lambda>_.
       bindE (parseWith publicKeySchema publicKey) (\<lambda>key.
       if jsLength nonce < 16 \<or> jsLength nonce > 128 \<or> terminal (saStatus attempt) \<or> seNow E \<ge> saFirstConnectBy attempt
       then Inl (HttpError 409 ''ENROLLMENT_EXPIRED'')
       else if (case saRecipientKey attempt of None \<Rightarrow> False
                | Some k \<Rightarrow> hashCanonical L key \<noteq> hashCanonical L (skKey k) \<or> nonce \<noteq> skNonce k)
       then Inl (HttpError 409 ''RECIPIENT_ALREADY_BOUND'')
       else Inr (ReplyJson (keyReply L attempt nonce key),
         onAttempt attemptId (\<lambda>a. a\<lparr> saRecipientKey :=
           Some \<lparr> skUser = acUser actor, skKey = key, skNonce = nonce \<rparr> \<rparr>) r))))))"

section \<open>Consumption\<close>

definition servicePossession ::
    "lib \<Rightarrow> serviceEnv \<Rightarrow> string \<Rightarrow> json \<Rightarrow> string \<Rightarrow> string \<Rightarrow> string \<Rightarrow> string \<Rightarrow> string \<Rightarrow> unit result" where
  "servicePossession L E jws publicKey role authorizationId session bindingHash nonce =
     bindE (ofOption LibraryError (importJwk L publicKey)) (\<lambda>key.
     bindE (verifyPayload L jws key ''ServicePossession'' (hashCanonical L publicKey) servicePossessionSchema) (\<lambda>q.
     bindE (assertTemporalValidity q (seNow E)) (\<lambda>_.
     if jnum q ''expiresAt'' - jnum q ''issuedAt'' > 120 \<or> \<not> isStr q ''networkId'' (seNetwork E) \<or>
        \<not> isStr q ''registryAddress'' (seRegistry E) \<or> \<not> isStr q ''role'' role \<or>
        \<not> isStr q ''authorizationId'' authorizationId \<or> \<not> isStr q ''sessionId'' session \<or>
        \<not> isStr q ''bindingHash'' bindingHash \<or> \<not> isStr q ''nonce'' nonce
     then Inl (HttpError 409 ''POSSESSION_CONTEXT_INVALID'') else Inr ())))"

definition authorizationOf :: "ServiceState \<Rightarrow> ServiceAttempt \<Rightarrow> ServiceAuthorization option" where
  "authorizationOf s attempt = Option.bind (saAuthorization attempt) (dget (ssAuthorizations s))"

text \<open>The challenge a start authorization answers, found by the hash of its proof.\<close>

definition challengeOf :: "lib \<Rightarrow> ServiceState \<Rightarrow> json \<Rightarrow> json option" where
  "challengeOf L s a = map_option scPayloadOf
     (find (\<lambda>c. isStr a ''serviceProofHash'' (hashCanonical L (scPayloadOf c))) (dvalues (ssChallenges s)))"

definition startRefused :: "serviceEnv \<Rightarrow> InstitutionRecord \<Rightarrow> ServiceAttempt \<Rightarrow> ServiceAuthorization \<Rightarrow> bool" where
  "startRefused E r attempt auth \<longleftrightarrow>
     (let a = sauPayload auth in
      sauCancelled auth \<or> saStatus attempt \<noteq> SAuthorized \<or> seNow E \<ge> jnum a ''firstConsumeBy'' \<or>
      \<not> isStr a ''epoch'' (irEpoch r) \<or> \<not> isNum a ''approvalKeyVersion'' (irKeyVersion r))"

definition serviceBindingInvalid ::
    "lib \<Rightarrow> Actor \<Rightarrow> ServiceAttempt \<Rightarrow> ServiceKey \<Rightarrow> json \<Rightarrow> json \<Rightarrow> bool" where
  "serviceBindingInvalid L actor attempt enrolled a b \<longleftrightarrow>
     skUser enrolled \<noteq> acUser actor \<or> \<not> isStr b ''recipientNonce'' (skNonce enrolled) \<or>
     \<not> isStr b ''recipientKeyHash'' (hashCanonical L (skKey enrolled)) \<or>
     \<not> isStr b ''authorizationHash'' (hashCanonical L a) \<or> \<not> sameMember b a ''sessionId'' \<or>
     \<not> isStr b ''connectionGeneration'' (saGeneration attempt) \<or> \<not> isStr b ''callProfile'' (saProfile attempt) \<or>
     \<not> sameMembers b a [''networkId'', ''registryAddress''] \<or> \<not> isStr b ''recipientId'' (acUser actor) \<or>
     jnum b ''expiresAt'' > jnum a ''firstConsumeBy''"

definition pbxMismatch ::
    "InstitutionRecord \<Rightarrow> ServiceAttempt \<Rightarrow> PbxSession \<Rightarrow> ServiceKey \<Rightarrow> json \<Rightarrow> string \<Rightarrow> json \<Rightarrow> bool" where
  "pbxMismatch r attempt px enrolled a hash e \<longleftrightarrow>
     \<not> isStr e ''bindingHash'' hash \<or> \<not> sameMember e a ''authorizationId'' \<or> \<not> isStr e ''institutionId'' (irId r) \<or>
     \<not> isStr e ''attemptId'' (saId attempt) \<or> \<not> isStr e ''sessionId'' (saSession attempt) \<or>
     \<not> isStr e ''connectionGeneration'' (saGeneration attempt) \<or> \<not> isStr e ''recipientNonce'' (skNonce enrolled) \<or>
     \<not> isStr e ''state'' ''prepared'' \<or> \<not> isStr e ''bridgeId'' (pxBridge px) \<or>
     \<not> isStr e ''senderChannelId'' (pxSenderChannel px) \<or> \<not> isStr e ''recipientChannelId'' (pxRecipientChannel px) \<or>
     \<not> sameMembers e a [''networkId'', ''registryAddress'']"

definition checkPbx ::
    "lib \<Rightarrow> serviceEnv \<Rightarrow> InstitutionRecord \<Rightarrow> ServiceAttempt \<Rightarrow> ServiceKey \<Rightarrow> json \<Rightarrow> string \<Rightarrow> unit result" where
  "checkPbx L E r attempt enrolled a hash =
     (if saProfile attempt \<noteq> ''asterisk-webrtc-v3'' then Inr ()
      else case (saPbx attempt, sePbx E) of
        (Some px, Some (kid, publicKey)) \<Rightarrow>
          (case pxEvidence px of
             None \<Rightarrow> Inl (HttpError 409 ''PBX_EVIDENCE_REQUIRED'')
           | Some jws \<Rightarrow>
               if jws = [] \<or> pxState px \<noteq> PbxPrepared then Inl (HttpError 409 ''PBX_EVIDENCE_REQUIRED'')
               else bindE (ofOption LibraryError (importJwk L publicKey)) (\<lambda>key.
                 bindE (verifyPayload L jws key ''AsteriskSessionEvidence'' kid pbxEvidenceSchema) (\<lambda>e.
                 bindE (assertTemporalValidity e (seNow E)) (\<lambda>_.
                 if pbxMismatch r attempt px enrolled a hash e
                 then Inl (HttpError 409 ''PBX_EVIDENCE_CONTEXT_INVALID'') else Inr ()))))
      | _ \<Rightarrow> Inl (HttpError 409 ''PBX_EVIDENCE_REQUIRED''))"

definition serviceReceipt :: "lib \<Rightarrow> serviceEnv \<Rightarrow> InstitutionRecord \<Rightarrow> json \<Rightarrow> string \<Rightarrow> json" where
  "serviceReceipt L E r a hash = JObj (serviceMessage E @
     [(''type'', JStr ''ServiceConsumptionReceipt''), (''institutionId'', JStr (irId r)),
      (''authorizationId'', jobj a ''authorizationId''), (''authorizationHash'', JStr (hashCanonical L a)),
      (''bindingHash'', JStr hash), (''sessionId'', jobj a ''sessionId''), (''recipientId'', jobj a ''recipientId''),
      (''consumedAt'', JNum (seNow E)), (''recoverUntil'', jobj a ''callEndBy'')])"

text \<open>Everything a first consumption checks, and the record with the checkpoint of the ledger check.\<close>

definition serviceConsumeChecks ::
    "lib \<Rightarrow> serviceEnv \<Rightarrow> Actor \<Rightarrow> ServiceAttempt \<Rightarrow> ContactIntent \<Rightarrow> ServiceAuthorization \<Rightarrow> json \<Rightarrow> string \<Rightarrow> string \<Rightarrow>
     InstitutionRecord \<Rightarrow> InstitutionRecord result" where
  "serviceConsumeChecks L E actor attempt intent auth b senderProof recipientProof r =
     (let a = sauPayload auth; hash = hashCanonical L b in
      bindE (activeIntent L r (ciId intent) actor (seNow E)) (\<lambda>_.
      if startRefused E r attempt auth then Inl (HttpError 409 ''START_EXPIRED_OR_REVOKED'')
      else bindE (serviceCredential L E r (jstr a ''vcDigest'')) (\<lambda>_.
        bindE (assertCurrent L E (jstr a ''vcDigest'') r) (\<lambda>r1.
        bindE (ofOption (HttpError 409 ''BINDING_CONTEXT_INVALID'') (saRecipientKey attempt)) (\<lambda>enrolled.
        if serviceBindingInvalid L actor attempt enrolled a b then Inl (HttpError 409 ''BINDING_CONTEXT_INVALID'')
        else bindE (assertTemporalValidity b (seNow E)) (\<lambda>_.
          bindE (serviceState r1) (\<lambda>s1.
          bindE (ofOption (HttpError 409 ''SENDER_CHALLENGE_MISSING'') (challengeOf L s1 a)) (\<lambda>q.
          bindE (servicePossession L E senderProof (jobj q ''browserPublicKey'') ''sender'' (jstr a ''authorizationId'')
                   (jstr a ''sessionId'') hash (jstr b ''recipientNonce'')) (\<lambda>_.
          bindE (servicePossession L E recipientProof (skKey enrolled) ''recipient'' (jstr a ''authorizationId'')
                   (jstr a ''sessionId'') hash (jstr b ''recipientNonce'')) (\<lambda>_.
          bindE (checkPbx L E r1 attempt enrolled a hash) (\<lambda>_.
          if dget (irConsumptions r1) (jstr a ''authorizationId'') \<noteq> None \<or>
             dget (irAuthorizations r1) (jstr a ''authorizationId'') \<noteq> None
          then Inl (HttpError 409 ''CROSS_PROFILE_REUSE'') else Inr r1)))))))))))"

definition recordServiceConsumption ::
    "string \<Rightarrow> string \<Rightarrow> json \<Rightarrow> Signed \<Rightarrow> InstitutionRecord \<Rightarrow> InstitutionRecord" where
  "recordServiceConsumption attemptId authorizationId b receipt r =
     onAttempt attemptId (\<lambda>a. a\<lparr> saBinding := Some b, saStatus := SConsumed, saRevision := saRevision a + 1 \<rparr>)
       (onService (\<lambda>s. s\<lparr> ssConsumptions := dput authorizationId receipt (ssConsumptions s) \<rparr>) r)"

definition serviceConsume ::
    "lib \<Rightarrow> serviceEnv \<Rightarrow> (nat \<Rightarrow> string) \<Rightarrow> Actor \<Rightarrow> string \<Rightarrow> string \<Rightarrow> json \<Rightarrow> string \<Rightarrow> string \<Rightarrow> serviceOp" where
  "serviceConsume L E u actor requestId attemptId bindingInput senderProof recipientProof =
     idempotent L E actor requestId (JObj [(''action'', JStr ''consume''), (''attemptId'', JStr attemptId),
         (''binding'', bindingInput), (''senderProof'', JStr senderProof), (''recipientProof'', JStr recipientProof)]) (\<lambda>r.
       bindE (sePublished E r) (\<lambda>_.
       bindE (membership r actor [''recipient'']) (\<lambda>_.
       bindE (party r actor attemptId) (\<lambda>(s, attempt, intent).
       bindE (ofOption (HttpError 404 ''AUTHORIZATION_NOT_FOUND'') (authorizationOf s attempt)) (\<lambda>auth.
       bindE (parseWith serviceBindingSchema bindingInput) (\<lambda>b.
       let i = jstr (sauPayload auth) ''authorizationId''; hash = hashCanonical L b in
       case dget (ssConsumptions s) i of
         Some prior \<Rightarrow>
           if \<not> isStr (sgPayload prior) ''bindingHash'' hash then Inl (HttpError 409 ''AUTHORIZATION_ALREADY_CONSUMED'')
           else Inr (ReplySigned prior, r)
       | None \<Rightarrow>
           bindE (serviceConsumeChecks L E actor attempt intent auth b senderProof recipientProof r) (\<lambda>r1.
           bindE (parseWith serviceReceiptSchema (serviceReceipt L E r1 (sauPayload auth) hash)) (\<lambda>payload.
           bindE (seSigningKey E (irKeyVersion r1)) (\<lambda>issuer.
           let receipt = \<lparr> sgPayload = payload, sgJws = signPayload L payload (akPrivate issuer) (akKid issuer) \<rparr> in
           Inr (ReplySigned receipt,
             serviceEvent (seNow E) (u 0) (acUser actor) ''authorization.consumed'' i (JObj [(''bindingHash'', JStr hash)])
               (recordServiceConsumption attemptId i b receipt r1)))))))))))"

section \<open>Leases and their renewal\<close>

definition leaseSequence :: "ServiceAttempt \<Rightarrow> int" where
  "leaseSequence a = (case saLease a of Some l \<Rightarrow> jnum (sgPayload l) ''sequence'' | None \<Rightarrow> 0)"

definition renewalPayload :: "lib \<Rightarrow> serviceEnv \<Rightarrow> ServiceAttempt \<Rightarrow> Renewal \<Rightarrow> json \<Rightarrow> string \<Rightarrow> json" where
  "renewalPayload L E attempt rn b role = JObj (serviceMessage E @
     [(''type'', JStr ''LeaseRenewalProof''), (''role'', JStr role)] @
     optionalMember ''authorizationId'' (map_option JStr (saAuthorization attempt)) @
     [(''sessionId'', JStr (saSession attempt)), (''bindingHash'', JStr (hashCanonical L b)),
      (''nonce'', JStr (rnNonce rn)), (''sequence'', JNum (rnSequence rn)),
      (''priorLeaseHash'', JStr (rnPriorLeaseHash rn)), (''issuedAt'', JNum (rnIssuedAt rn)),
      (''expiresAt'', JNum (rnExpiresAt rn))])"

text \<open>The key of a side: the one the sender's challenge names, or the one the recipient enrolled.\<close>

definition sideKey :: "lib \<Rightarrow> ServiceState \<Rightarrow> ServiceAttempt \<Rightarrow> bool \<Rightarrow> json option" where
  "sideKey L s attempt sender =
     (if sender then map_option (\<lambda>q. jobj q ''browserPublicKey'')
        (Option.bind (authorizationOf s attempt) (\<lambda>auth. challengeOf L s (sauPayload auth)))
      else map_option skKey (saRecipientKey attempt))"

definition renewalProof ::
    "lib \<Rightarrow> serviceEnv \<Rightarrow> InstitutionRecord \<Rightarrow> ServiceAttempt \<Rightarrow> string \<Rightarrow> string \<Rightarrow> json result" where
  "renewalProof L E r attempt role jws =
     bindE (serviceState r) (\<lambda>s.
     case (sideKey L s attempt (role = ''sender''), saRenewal attempt, saBinding attempt) of
       (Some key, Some rn, Some b) \<Rightarrow>
         bindE (ofOption LibraryError (importJwk L key)) (\<lambda>k.
         bindE (verifyPayload L jws k ''LeaseRenewalProof'' (hashCanonical L key) renewalProofSchema) (\<lambda>q.
         bindE (assertTemporalValidity q (seNow E)) (\<lambda>_.
         if hashCanonical L q \<noteq> hashCanonical L (renewalPayload L E attempt rn b role)
         then Inl (HttpError 409 ''RENEWAL_CONTEXT_MISMATCH'') else Inr q)))
     | _ \<Rightarrow> Inl (HttpError 409 ''RENEWAL_CONTEXT_REQUIRED''))"

definition leaseRefused :: "serviceEnv \<Rightarrow> InstitutionRecord \<Rightarrow> ServiceAttempt \<Rightarrow> ServiceAuthorization \<Rightarrow> bool" where
  "leaseRefused E r attempt auth \<longleftrightarrow>
     saRecipientKey attempt = None \<or> saStatus attempt \<notin> {SConsumed, SAccepted} \<or> sauCancelled auth \<or>
     seNow E \<ge> saCallEndBy attempt \<or> \<not> isStr (sauPayload auth) ''epoch'' (irEpoch r) \<or>
     \<not> isNum (sauPayload auth) ''approvalKeyVersion'' (irKeyVersion r)"

definition proofsDiffer :: "serviceEnv \<Rightarrow> Renewal \<Rightarrow> int \<Rightarrow> string \<Rightarrow> string \<Rightarrow> string \<Rightarrow> bool" where
  "proofsDiffer E rn sequence nonce proofJws senderProofJws \<longleftrightarrow>
     rnSequence rn \<noteq> sequence \<or> rnNonce rn \<noteq> nonce \<or> seNow E \<ge> rnExpiresAt rn \<or> senderProofJws = [] \<or>
     dget (rnProofs rn) ''sender'' \<noteq> Some senderProofJws \<or> dget (rnProofs rn) ''recipient'' \<noteq> Some proofJws"

definition leasePayload ::
    "lib \<Rightarrow> serviceEnv \<Rightarrow> InstitutionRecord \<Rightarrow> ServiceAttempt \<Rightarrow> ContactIntent \<Rightarrow> json \<Rightarrow> json \<Rightarrow> int \<Rightarrow> string \<Rightarrow> AuthorityStatus \<Rightarrow>
     json" where
  "leasePayload L E r attempt intent a b sequence nonce status = JObj (serviceMessage E @
     [(''type'', JStr ''CallLease''), (''institutionId'', JStr (irId r)),
      (''authorizationId'', jobj a ''authorizationId''), (''bindingHash'', JStr (hashCanonical L b)),
      (''sessionId'', JStr (saSession attempt)), (''connectionGeneration'', JStr (saGeneration attempt)),
      (''epoch'', JStr (irEpoch r)), (''approvalKeyVersion'', JNum (irKeyVersion r)),
      (''policyHash'', JStr (ciPolicyHash intent)), (''vcDigest'', jobj a ''vcDigest''), (''sequence'', JNum sequence),
      (''nonce'', JStr nonce),
      (''authority'', JStr (if status = Current then ''current'' else ''unavailable'')),
      (''callEndBy'', JNum (saCallEndBy attempt)), (''issuedAt'', JNum (seNow E)),
      (''expiresAt'', JNum (min (seNow E + leaseSeconds (sePolicy E)) (saCallEndBy attempt)))])"

definition authorityUntil :: "serviceEnv \<Rightarrow> Checkpoint option \<Rightarrow> int" where
  "authorityUntil E cp = min (seNow E + 8) (case cp of Some c \<Rightarrow> ckBlockTimestamp c + 8 | None \<Rightarrow> seNow E + 8)"

definition cancelRevoked :: "serviceEnv \<Rightarrow> (nat \<Rightarrow> string) \<Rightarrow> string \<Rightarrow> string \<Rightarrow> string \<Rightarrow> InstitutionRecord \<Rightarrow> InstitutionRecord" where
  "cancelRevoked E u user attemptId authorizationId r =
     serviceEvent (seNow E) (u 1) user ''attempt.cancelled'' attemptId (JObj [])
       (serviceEvent (seNow E) (u 0) user ''call.cleanup'' attemptId (JObj [])
         (onService (\<lambda>s. case dget (ssAuthorizations s) authorizationId of None \<Rightarrow> s
             | Some auth \<Rightarrow> s\<lparr> ssAuthorizations := dput authorizationId (auth\<lparr> sauCancelled := True \<rparr>) (ssAuthorizations s) \<rparr>)
           (onAttempt attemptId (\<lambda>a. a\<lparr> saStatus := SCancelled, saEndedAt := Some (seNow E) \<rparr>) r)))"

definition acceptLease ::
    "serviceEnv \<Rightarrow> AuthorityStatus \<Rightarrow> Checkpoint option \<Rightarrow> string \<Rightarrow> Signed \<Rightarrow> ServiceAttempt \<Rightarrow> ServiceAttempt" where
  "acceptLease E status cp choice l a =
     a\<lparr> saAuthorityStatus := Some status,
        saAuthorityUntil := Some (if status = Current then authorityUntil E cp else seNow E),
        saLease := Some l, saStatus := SAccepted,
        saUnverifiedChoice := (if status = Unavailable then Some choice else None), saRevision := saRevision a + 1 \<rparr>"

definition leaseInput :: "string \<Rightarrow> int \<Rightarrow> string \<Rightarrow> string \<Rightarrow> string \<Rightarrow> string option \<Rightarrow> json" where
  "leaseInput attemptId sequence nonce proofJws choice senderProofJws =
     JObj [(''action'', JStr ''lease''), (''attemptId'', JStr attemptId), (''sequence'', JNum sequence),
       (''nonce'', JStr nonce), (''proofJws'', JStr proofJws), (''choice'', JStr choice),
       (''senderProofJws'', (case senderProofJws of Some x \<Rightarrow> JStr x | None \<Rightarrow> JNull))]"

text \<open>What \<^verbatim>\<open>lease\<close> checks before it asks the ledger.\<close>

definition leaseChecks ::
    "lib \<Rightarrow> serviceEnv \<Rightarrow> Actor \<Rightarrow> string \<Rightarrow> int \<Rightarrow> string \<Rightarrow> string \<Rightarrow> string option \<Rightarrow> InstitutionRecord \<Rightarrow>
     (ServiceAttempt \<times> ContactIntent \<times> ServiceAuthorization \<times> json) result" where
  "leaseChecks L E actor attemptId sequence nonce proofJws senderProofJws r =
     bindE (membership r actor [''recipient'']) (\<lambda>_.
     bindE (party r actor attemptId) (\<lambda>(s, attempt, intent).
     bindE (ofOption (HttpError 409 ''CALL_NO_LONGER_AUTHORIZED'') (authorizationOf s attempt)) (\<lambda>auth.
     bindE (ofOption (HttpError 409 ''CALL_NO_LONGER_AUTHORIZED'') (saBinding attempt)) (\<lambda>b.
     if leaseRefused E r attempt auth then Inl (HttpError 409 ''CALL_NO_LONGER_AUTHORIZED'')
     else bindE (activeIntent L r (ciId intent) actor (seNow E)) (\<lambda>_.
       bindE (serviceCredential L E r (jstr (sauPayload auth) ''vcDigest'')) (\<lambda>_.
       if sequence \<noteq> leaseSequence attempt + 1 then Inl (HttpError 409 ''LEASE_SEQUENCE_CONFLICT'')
       else bindE (ofOption (HttpError 409 ''BOTH_RENEWAL_PROOFS_REQUIRED'') (saRenewal attempt)) (\<lambda>rn.
         bindE (ofOption (HttpError 409 ''BOTH_RENEWAL_PROOFS_REQUIRED'') senderProofJws) (\<lambda>senderProof.
         if proofsDiffer E rn sequence nonce proofJws senderProof
         then Inl (HttpError 409 ''BOTH_RENEWAL_PROOFS_REQUIRED'')
         else bindE (renewalProof L E r attempt ''sender'' senderProof) (\<lambda>_.
           bindE (renewalProof L E r attempt ''recipient'' proofJws) (\<lambda>_.
             Inr (attempt, intent, auth, b)))))))))))"

definition leaseExpired :: "serviceEnv \<Rightarrow> ServiceAttempt \<Rightarrow> bool" where
  "leaseExpired E a \<longleftrightarrow> (case saLease a of None \<Rightarrow> True | Some l \<Rightarrow> seNow E \<ge> jnum (sgPayload l) ''expiresAt'')"

definition authorizationKey :: "ServiceAttempt \<Rightarrow> string" where
  "authorizationKey a = (case saAuthorization a of Some i \<Rightarrow> i | None \<Rightarrow> [])"

definition serviceLease ::
    "lib \<Rightarrow> serviceEnv \<Rightarrow> (nat \<Rightarrow> string) \<Rightarrow> Actor \<Rightarrow> string \<Rightarrow> string \<Rightarrow> int \<Rightarrow> string \<Rightarrow> string \<Rightarrow> string \<Rightarrow> string option \<Rightarrow>
     serviceOp" where
  "serviceLease L E u actor requestId attemptId sequence nonce proofJws choice senderProofJws =
     idempotent L E actor requestId (leaseInput attemptId sequence nonce proofJws choice senderProofJws) (\<lambda>r.
       bindE (leaseChecks L E actor attemptId sequence nonce proofJws senderProofJws r) (\<lambda>(attempt, intent, auth, b).
       let a = sauPayload auth; (status, r1) = currentStatus L E (jstr a ''vcDigest'') r in
       if status = Revoked
       then Inr (ReplyRevoked, cancelRevoked E u (acUser actor) attemptId (authorizationKey attempt) r1)
       else if saStatus attempt = SConsumed \<and> seNow E \<ge> jnum a ''firstConsumeBy''
       then Inl (HttpError 409 ''INITIAL_CONNECTION_START_EXPIRED'')
       else if status = Unavailable \<and> saStatus attempt \<noteq> SAccepted
       then Inl (HttpError 503 ''INITIAL_AUTHORITY_CHECK_REQUIRED'')
       else if saStatus attempt = SAccepted \<and> leaseExpired E attempt
       then Inl (HttpError 409 ''LEASE_EXPIRED_REVALIDATION_REQUIRED'')
       else bindE (parseWith serviceLeaseSchema (leasePayload L E r1 attempt intent a b sequence nonce status)) (\<lambda>payload.
         bindE (seSigningKey E (irKeyVersion r1)) (\<lambda>issuer.
         bindE (serviceState r1) (\<lambda>s1.
         let l = \<lparr> sgPayload = payload, sgJws = signPayload L payload (akPrivate issuer) (akKid issuer) \<rparr>;
             cp = dget (ssCheckpoints s1) (jstr a ''vcDigest'') in
         Inr (ReplyLease status l,
           serviceEvent (seNow E) (u 0) (acUser actor) ''call.lease'' attemptId
             (JObj [(''sequence'', JNum sequence), (''authority'', jobj payload ''authority''), (''choice'', JStr choice)])
             (onAttempt attemptId (acceptLease E status cp choice l) r1)))))))"

definition newRenewal :: "lib \<Rightarrow> serviceEnv \<Rightarrow> string \<Rightarrow> ServiceState \<Rightarrow> ServiceAttempt \<Rightarrow> Renewal result" where
  "newRenewal L E nonce s a =
     (let until = min (seNow E + 20) (min (saCallEndBy a)
            (case saLease a of Some l \<Rightarrow> jnum (sgPayload l) ''expiresAt'' | None \<Rightarrow> saFirstConnectBy a)) in
      if until \<le> seNow E then Inl (HttpError 409 ''LEASE_EXPIRED_REVALIDATION_REQUIRED'')
      else bindE (case saLease a of Some l \<Rightarrow> Inr (sgPayload l)
                  | None \<Rightarrow> map_sum id sgPayload (ofOption LibraryError (dget (ssConsumptions s) (authorizationKey a)))) (\<lambda>prior.
        Inr \<lparr> rnNonce = nonce, rnSequence = leaseSequence a + 1, rnPriorLeaseHash = hashCanonical L prior,
              rnIssuedAt = seNow E, rnExpiresAt = until, rnProofs = [] \<rparr>))"

definition renewalChallenge ::
    "lib \<Rightarrow> serviceEnv \<Rightarrow> (nat \<Rightarrow> string) \<Rightarrow> Actor \<Rightarrow> string \<Rightarrow> string \<Rightarrow> serviceOp" where
  "renewalChallenge L E u actor requestId attemptId =
     idempotent L E actor requestId
       (JObj [(''action'', JStr ''renewal-challenge''), (''attemptId'', JStr attemptId)]) (\<lambda>r.
       bindE (party r actor attemptId) (\<lambda>(s, attempt, intent).
       if acRole actor \<noteq> ''recipient'' \<or> saStatus attempt \<notin> {SConsumed, SAccepted} \<or> saBinding attempt = None
       then Inl (HttpError 409 ''CALL_NO_LONGER_AUTHORIZED'')
       else case (case saRenewal attempt of None \<Rightarrow> None | Some rn \<Rightarrow>
                    if rnSequence rn = leaseSequence attempt + 1 \<and> rnExpiresAt rn > seNow E then Some rn else None) of
         Some rn \<Rightarrow> Inr (ReplyRenewal rn, r)
       | None \<Rightarrow> bindE (newRenewal L E (u 0) s attempt) (\<lambda>rn.
           Inr (ReplyRenewal rn, onAttempt attemptId (\<lambda>a. a\<lparr> saRenewal := Some rn \<rparr>) r))))"

definition submitRenewal ::
    "lib \<Rightarrow> serviceEnv \<Rightarrow> Actor \<Rightarrow> string \<Rightarrow> string \<Rightarrow> string \<Rightarrow> serviceOp" where
  "submitRenewal L E actor requestId attemptId jws =
     idempotent L E actor requestId (JObj [(''action'', JStr ''renewal-proof''), (''attemptId'', JStr attemptId),
         (''jws'', JStr jws)]) (\<lambda>r.
       bindE (party r actor attemptId) (\<lambda>(s, attempt, intent).
       if acRole actor \<notin> {''gateway'', ''recipient''} \<or> terminal (saStatus attempt)
       then Inl (HttpError 403 ''CALL_ROLE_REQUIRED'')
       else let role = (if acRole actor = ''gateway'' then ''sender'' else ''recipient'') in
         bindE (renewalProof L E r attempt role jws) (\<lambda>_.
           Inr (ReplyJson (JObj [(''stored'', JBool True)]),
             onAttempt attemptId (\<lambda>a. a\<lparr> saRenewal :=
               map_option (\<lambda>rn. rn\<lparr> rnProofs := dput role jws (rnProofs rn) \<rparr>) (saRenewal a) \<rparr>) r))))"

definition mediaUnverified :: "serviceEnv \<Rightarrow> ServiceAttempt \<Rightarrow> bool" where
  "mediaUnverified E a \<longleftrightarrow>
     saStatus a \<noteq> SAccepted \<or>
     (case saLease a of None \<Rightarrow> True
      | Some l \<Rightarrow> \<not> isStr (sgPayload l) ''authority'' ''current'' \<or> jnum (sgPayload l) ''expiresAt'' \<le> seNow E)"

definition mediaReadyOp :: "lib \<Rightarrow> serviceEnv \<Rightarrow> Actor \<Rightarrow> string \<Rightarrow> string \<Rightarrow> string \<Rightarrow> serviceOp" where
  "mediaReadyOp L E actor requestId attemptId jws =
     idempotent L E actor requestId (JObj [(''action'', JStr ''media-ready''), (''attemptId'', JStr attemptId),
         (''jws'', JStr jws)]) (\<lambda>r.
       bindE (party r actor attemptId) (\<lambda>(s, attempt, intent).
       case (sideKey L s attempt (acRole actor = ''gateway''), saBinding attempt) of
         (Some key, Some b) \<Rightarrow>
           if acRole actor \<notin> {''gateway'', ''recipient''} \<or> mediaUnverified E attempt
           then Inl (HttpError 409 ''MEDIA_NOT_VERIFIED'')
           else let role = (if acRole actor = ''gateway'' then ''sender'' else ''recipient''); hash = hashCanonical L b in
             bindE (ofOption LibraryError (authorizationOf s attempt)) (\<lambda>auth.
             bindE (servicePossession L E jws key role (jstr (sauPayload auth) ''authorizationId'') (saSession attempt) hash
                      (''media-ready:'' @ hash)) (\<lambda>_.
               Inr (ReplyReady (length (dput role jws (saMediaReady attempt)) = 2),
                 onAttempt attemptId (\<lambda>a. a\<lparr> saMediaReady := dput role jws (saMediaReady a) \<rparr>) r)))
       | _ \<Rightarrow> Inl (HttpError 409 ''MEDIA_NOT_VERIFIED'')))"

section \<open>Ending calls\<close>

definition cancelStart :: "string \<Rightarrow> InstitutionRecord \<Rightarrow> InstitutionRecord" where
  "cancelStart i = onService (\<lambda>s. case dget (ssAuthorizations s) i of None \<Rightarrow> s
     | Some auth \<Rightarrow> s\<lparr> ssAuthorizations := dput i (auth\<lparr> sauCancelled := True \<rparr>) (ssAuthorizations s) \<rparr>)"

definition interrupt :: "int \<Rightarrow> ServiceAttempt \<Rightarrow> ServiceAttempt" where
  "interrupt now a = withdrawConsent (a\<lparr> saStatus := SFailed, saReason := Some ''issuer-restarted-new-attempt-required'',
     saEndedAt := Some now, saRevision := saRevision a + 1, saLease := None \<rparr>)"

definition liveAttempts :: "InstitutionRecord \<Rightarrow> (string \<times> ServiceAttempt) list" where
  "liveAttempts r = (case irService r of None \<Rightarrow> [] | Some s \<Rightarrow> filter (\<lambda>e. \<not> terminal (saStatus (snd e))) (ssAttempts s))"

definition attemptIn :: "InstitutionRecord \<Rightarrow> string \<Rightarrow> ServiceAttempt option" where
  "attemptIn r i = Option.bind (irService r) (\<lambda>s. dget (ssAttempts s) i)"

definition stopOne :: "serviceEnv \<Rightarrow> (nat \<Rightarrow> string) \<Rightarrow> string \<Rightarrow> nat \<times> InstitutionRecord \<Rightarrow> nat \<times> InstitutionRecord" where
  "stopOne E u i nr = (case nr of (n, r) \<Rightarrow>
     case attemptIn r i of None \<Rightarrow> (n, r)
     | Some a \<Rightarrow>
         if terminal (saStatus a) then (n, r)
         else (n + 1, serviceEvent (seNow E) (u n) ''runtime'' ''call.cleanup'' i (JObj [])
                (cancelStart (authorizationKey a) (onAttempt i (interrupt (seNow E)) r))))"

definition stopInterruptedCalls :: "serviceEnv \<Rightarrow> (nat \<Rightarrow> string) \<Rightarrow> InstitutionRecord \<Rightarrow> nat \<times> InstitutionRecord" where
  "stopInterruptedCalls E u r = (case irService r of None \<Rightarrow> (0, r)
     | Some s \<Rightarrow> fold (stopOne E u) (map fst (ssAttempts s)) (0, r))"

definition outcomeStatus :: "string \<Rightarrow> AttemptStatus" where
  "outcomeStatus outcome =
     (if outcome = ''ended'' then SEnded else if outcome = ''declined'' then SDeclined
      else if outcome = ''no-answer'' then SNoAnswer else if outcome = ''failed'' then SFailed else SCancelled)"

definition finishAttempt :: "int \<Rightarrow> AttemptStatus \<Rightarrow> string \<Rightarrow> ServiceAttempt \<Rightarrow> ServiceAttempt" where
  "finishAttempt now status reason a = withdrawConsent (a\<lparr> saStatus := status, saEndedAt := Some now,
     saReason := Some reason, saRevision := saRevision a + 1 \<rparr>)"

text \<open>\<^verbatim>\<open>s.slice(0, n)\<close>: the characters within the first \<open>n\<close> UTF-16 units.\<close>

fun jsSlice :: "nat \<Rightarrow> string \<Rightarrow> string" where
  "jsSlice n [] = []"
| "jsSlice n (c # cs) =
     (if continuation c then c # jsSlice n cs
      else let k = (if 240 \<le> (of_char c :: nat) then 2 else 1) in
        if k \<le> n then c # jsSlice (n - k) cs else [])"

definition serviceOutcome ::
    "lib \<Rightarrow> serviceEnv \<Rightarrow> (nat \<Rightarrow> string) \<Rightarrow> Actor \<Rightarrow> string \<Rightarrow> string \<Rightarrow> string \<Rightarrow> string \<Rightarrow> serviceOp" where
  "serviceOutcome L E u actor requestId attemptId outcome reason =
     idempotent L E actor requestId (JObj [(''action'', JStr ''outcome''), (''attemptId'', JStr attemptId),
         (''outcome'', JStr outcome), (''reason'', JStr reason)]) (\<lambda>r.
       bindE (party r actor attemptId) (\<lambda>(s, attempt, intent).
       if terminal (saStatus attempt)
       then (if saStatus attempt \<noteq> outcomeStatus outcome then Inl (HttpError 409 ''TERMINAL_STATE_CONFLICT'')
             else Inr (ReplyAttempt attempt, r))
       else if outcome = ''cancelled'' \<and> acRole actor \<noteq> ''institution'' then Inl (HttpError 403 ''INSTITUTION_REQUIRED'')
       else if outcome = ''declined'' \<and> (acRole actor \<noteq> ''recipient'' \<or> saStatus attempt = SAccepted)
       then Inl (HttpError 409 ''DECLINE_NOT_ALLOWED'')
       else if outcome = ''no-answer'' \<and> (seNow E < saFirstConnectBy attempt \<or> saStatus attempt = SAccepted)
       then Inl (HttpError 409 ''RINGING_NOT_EXPIRED'')
       else if outcome = ''ended'' \<and> saStatus attempt \<noteq> SAccepted then Inl (HttpError 409 ''CALL_NOT_ACCEPTED'')
       else let finish = finishAttempt (seNow E) (outcomeStatus outcome) (jsSlice 100 reason);
                r1 = serviceEvent (seNow E) (u 0) (acUser actor) ''call.cleanup'' attemptId (JObj [])
                       (onAttempt attemptId finish r) in
         Inr (ReplyAttempt (requestCleanup (seNow E) (finish attempt)),
           serviceEvent (seNow E) (u 1) (acUser actor) (''attempt.'' @ outcome) attemptId (JObj []) r1)))"

definition revokeOne :: "serviceEnv \<Rightarrow> (nat \<Rightarrow> string) \<Rightarrow> Actor \<Rightarrow> nat \<times> string \<times> ServiceAuthorization \<Rightarrow>
    InstitutionRecord \<Rightarrow> InstitutionRecord" where
  "revokeOne E u actor e r = (case e of (k, i, auth) \<Rightarrow>
     let r1 = cancelStart i r; t = jstr (sauPayload auth) ''attemptId'' in
     case attemptIn r1 t of
       None \<Rightarrow> r1
     | Some a \<Rightarrow>
         if terminal (saStatus a) then r1
         else serviceEvent (seNow E) (u k) (acUser actor) ''call.cleanup'' t (JObj [])
           (onAttempt t (\<lambda>a. withdrawConsent (a\<lparr> saStatus := SCancelled, saEndedAt := Some (seNow E) \<rparr>)) r1))"

definition serviceRevoke :: "lib \<Rightarrow> serviceEnv \<Rightarrow> (nat \<Rightarrow> string) \<Rightarrow> Actor \<Rightarrow> string \<Rightarrow> string \<Rightarrow> serviceOp" where
  "serviceRevoke L E u actor requestId d =
     idempotent L E actor requestId (JObj [(''action'', JStr ''revoke''), (''digest'', JStr d)]) (\<lambda>r.
       bindE (requirePermission r actor ''delegation.manage'') (\<lambda>_.
       bindE (serviceState r) (\<lambda>s.
       bindE (ofOption (HttpError 404 ''VC_NOT_FOUND'') (dget (ssCredentials s) d)) (\<lambda>item.
       let under = filter (\<lambda>e. isStr (sauPayload (snd e)) ''vcDigest'' d) (ssAuthorizations s);
           r1 = fold (revokeOne E u actor) (enumerate 0 under) (putCredential d (item\<lparr> sdState := RevokeRequested \<rparr>) r) in
       Inr (ReplyJson (JObj [(''status'', JStr ''revoke-requested''), (''ledgerStatus'', JStr ''pending'')]),
         serviceEvent (seNow E) (u (length under)) (acUser actor) ''credential.revoke'' d (JObj [(''digest'', JStr d)]) r1)))))"

section \<open>Usage and consent\<close>

text \<open>One entry of the loop of \<^verbatim>\<open>usage\<close>: the counter is opened on first use.\<close>

definition charge :: "int \<Rightarrow> int \<Rightarrow> int \<Rightarrow> string \<times> int \<Rightarrow> QuotaEntry dict \<Rightarrow> QuotaEntry dict result" where
  "charge now day amount kl qs = (case kl of (key, limit) \<Rightarrow>
     let q = (case dget qs key of Some q \<Rightarrow> q
              | None \<Rightarrow> \<lparr> quLimit = limit, quUsed = 0, quReserved = 0, quExpiresAt = (day + 2) * 86400 \<rparr>) in
     if quUsed q + amount > quLimit q then Inl (HttpError 429 ''QUOTA_EXHAUSTED'')
     else Inr (dput key (q\<lparr> quUsed := quUsed q + amount \<rparr>) qs))"

definition dayOf :: "int \<Rightarrow> int" where
  "dayOf now = now div 86400"

definition intText :: "int \<Rightarrow> string" where
  "intText n = (if n < 0 then ''-'' @ decimalString (nat (- n)) else decimalString (nat n))"

definition usageKeys :: "int \<Rightarrow> string \<Rightarrow> string \<Rightarrow> string \<Rightarrow> int \<Rightarrow> (string \<times> int) list" where
  "usageKeys day user attemptId unit limit =
     [(''call:'' @ attemptId @ '':'' @ unit, limit), (''user:'' @ user @ '':'' @ intText day @ '':'' @ unit, limit * 20),
      (''institution:'' @ intText day @ '':'' @ unit, limit * 100)]"

fun chargeAll :: "int \<Rightarrow> int \<Rightarrow> int \<Rightarrow> (string \<times> int) list \<Rightarrow> QuotaEntry dict \<Rightarrow> QuotaEntry dict result" where
  "chargeAll now day amount [] qs = Inr qs"
| "chargeAll now day amount (k # ks) qs = bindE (charge now day amount k qs) (chargeAll now day amount ks)"

definition usage ::
    "serviceEnv \<Rightarrow> Actor \<Rightarrow> string \<Rightarrow> string \<Rightarrow> int \<Rightarrow> int \<Rightarrow> InstitutionRecord \<Rightarrow> InstitutionRecord result" where
  "usage E actor attemptId unit amount limit r =
     (if \<not> isSafeInteger amount \<or> amount \<le> 0 then Inl (HttpError 400 ''INVALID_USAGE'')
      else bindE (serviceState r) (\<lambda>s.
        let day = dayOf (seNow E) in
        bindE (chargeAll (seNow E) day amount (usageKeys day (acUser actor) attemptId unit limit) (ssQuotas s)) (\<lambda>qs.
        let r1 = onService (\<lambda>s. s\<lparr> ssQuotas := qs \<rparr>) r in
        Inr (r1\<lparr> irPendingUsage := irPendingUsage r1 @ [\<lparr> puKey = ''global:'' @ intText day @ '':'' @ unit,
          puUnits = amount, puLimit = limit * 1000, puExpiresAt = (day + 2) * 86400 \<rparr>] \<rparr>))))"

definition consentGeneration :: "ServiceAttempt \<Rightarrow> int" where
  "consentGeneration a = (case saConsent a of Some c \<Rightarrow> cnGeneration c | None \<Rightarrow> 0)"

definition dropQuotas :: "int \<Rightarrow> InstitutionRecord \<Rightarrow> InstitutionRecord" where
  "dropQuotas now = onService (\<lambda>s. s\<lparr> ssQuotas := filter (\<lambda>e. quExpiresAt (snd e) > now) (ssQuotas s) \<rparr>)"

definition serviceConsent ::
    "lib \<Rightarrow> serviceEnv \<Rightarrow> (nat \<Rightarrow> string) \<Rightarrow> Actor \<Rightarrow> string \<Rightarrow> string \<Rightarrow> bool \<Rightarrow> serviceOp" where
  "serviceConsent L E u actor requestId attemptId granted =
     idempotent L E actor requestId (JObj [(''action'', JStr ''consent''), (''attemptId'', JStr attemptId),
         (''granted'', JBool granted)]) (\<lambda>r.
       bindE (membership r actor [''recipient'']) (\<lambda>_.
       bindE (party r actor attemptId) (\<lambda>(s, attempt, intent).
       if granted \<and> (saStatus attempt \<noteq> SAccepted \<or> leaseExpired E attempt)
       then Inl (HttpError 409 ''ACTIVE_CALL_REQUIRED'')
       else bindE (if granted then usage E actor attemptId ''consent-starts'' 1 3 r else Inr r) (\<lambda>r1.
         let c = \<lparr> cnGranted = granted, cnGeneration = consentGeneration attempt + 1, cnAt = seNow E, cnStream = None \<rparr> in
         Inr (ReplyConsent c,
           serviceEvent (seNow E) (u 0) (acUser actor) (if granted then ''analysis.consented'' else ''analysis.withdrawn'')
             attemptId (JObj []) (dropQuotas (seNow E) (onAttempt attemptId (\<lambda>a. a\<lparr> saConsent := Some c \<rparr>) r1)))))))"

section \<open>The sweep\<close>

text \<open>
  The sweep first asks the witnesses, without a lock, about every credential of a live call as it stands in
  the record \<open>observed\<close>; then it goes through the attempts of the record as it is by then. Each answer
  comes with the checkpoint that was stored on a copy of the observed record.
\<close>

definition sweepDigests :: "InstitutionRecord \<Rightarrow> string list" where
  "sweepDigests observed = remdups (List.map_filter (\<lambda>e.
     Option.bind (irService observed) (\<lambda>s.
       case authorizationOf s (snd e) of None \<Rightarrow> None
       | Some auth \<Rightarrow> (let d = jstr (sauPayload auth) ''vcDigest'' in if d = [] then None else Some d)))
     (liveAttempts observed))"

definition sweepObserve ::
    "lib \<Rightarrow> serviceEnv \<Rightarrow> InstitutionRecord \<Rightarrow> (string \<times> AuthorityStatus \<times> Checkpoint option) list" where
  "sweepObserve L E observed = map (\<lambda>d.
     let (status, draft) = currentStatus L E d observed in
     (d, status, Option.bind (irService draft) (\<lambda>s. dget (ssCheckpoints s) d))) (sweepDigests observed)"

definition staleAuthority ::
    "serviceEnv \<Rightarrow> InstitutionRecord \<Rightarrow> ServiceState \<Rightarrow> ServiceAttempt \<Rightarrow> bool" where
  "staleAuthority E r s a \<longleftrightarrow>
     \<not> ssReady s \<or> irStatus r \<noteq> InstitutionActive \<or>
     (case dget (irIntents r) (saIntent a) of None \<Rightarrow> True
      | Some intent \<Rightarrow>
          ciStatus intent \<noteq> IntentOpen \<or> ciExpiresAt intent \<le> seNow E \<or>
          memberRole r (saAgent a) \<noteq> Some ''gateway'' \<or> memberRole r (ciRecipient intent) \<noteq> Some ''recipient'' \<or>
          memberInactive r (saAgent a) \<or> memberInactive r (ciRecipient intent) \<or>
          memberService r (saAgent a) \<noteq> Some (ciService intent)) \<or>
     (case authorizationOf s a of None \<Rightarrow> False
      | Some auth \<Rightarrow> sauCancelled auth \<or> \<not> isStr (sauPayload auth) ''epoch'' (irEpoch r) \<or>
          \<not> isNum (sauPayload auth) ''approvalKeyVersion'' (irKeyVersion r))"

definition mergedCheckpoint :: "Checkpoint option \<Rightarrow> Checkpoint \<Rightarrow> Checkpoint" where
  "mergedCheckpoint previous cp = (case previous of None \<Rightarrow> cp
     | Some p \<Rightarrow> if ckHash p = ckHash cp then cp\<lparr> ckFirstSeenAt := min (ckFirstSeenAt p) (ckFirstSeenAt cp) \<rparr> else cp)"

text \<open>
  The authority part of one step: what ends the call, or the record with what was learnt about it.
\<close>

definition sweepAuthority ::
    "lib \<Rightarrow> serviceEnv \<Rightarrow> InstitutionRecord \<Rightarrow> (string \<times> AuthorityStatus \<times> Checkpoint option) list \<Rightarrow> string \<Rightarrow>
     ServiceAuthorization \<Rightarrow> ServiceState \<Rightarrow> InstitutionRecord \<Rightarrow> string + InstitutionRecord" where
  "sweepAuthority L E observed checked i auth s r =
     (let d = jstr (sauPayload auth) ''vcDigest'' in
      case serviceCredential L E r d of
        Inl (HttpError code _) \<Rightarrow>
          if code = 409 then Inl ''authority-invalid''
          else Inr (onAttempt i (\<lambda>a. a\<lparr> saAuthorityStatus := Some Unavailable \<rparr>) r)
      | Inl _ \<Rightarrow> Inr (onAttempt i (\<lambda>a. a\<lparr> saAuthorityStatus := Some Unavailable \<rparr>) r)
      | Inr _ \<Rightarrow>
          let result = map_of checked d; previous = dget (ssCheckpoints s) d; cp = Option.bind result snd;
              rollback = (case (cp, previous) of
                 (Some c, Some p) \<Rightarrow> rollsBack p (ckHeight c) (ckHash c) (ckPayloadHash c) | _ \<Rightarrow> False);
              unchanged = (irEpoch r = irEpoch observed \<and> irKeyVersion r = irKeyVersion observed);
              status = (if unchanged \<and> \<not> rollback
                        then (case result of Some (st, _) \<Rightarrow> st | None \<Rightarrow> Unavailable) else Unavailable) in
          if status = Revoked then Inl ''authority-revoked''
          else
            let r1 = onAttempt i (\<lambda>a. a\<lparr> saAuthorityStatus := Some status,
                       saAuthorityUntil := (if status = Current then Some (authorityUntil E cp) else saAuthorityUntil a) \<rparr>) r in
            Inr (case cp of
                   Some c \<Rightarrow> if \<not> rollback \<and> unchanged then putCheckpoint d (mergedCheckpoint previous c) r1 else r1
                 | None \<Rightarrow> r1))"

definition sweepEnd :: "serviceEnv \<Rightarrow> string \<Rightarrow> string \<Rightarrow> AttemptStatus \<Rightarrow> string \<Rightarrow> InstitutionRecord \<Rightarrow> InstitutionRecord" where
  "sweepEnd E uuid i status reason r =
     serviceEvent (seNow E) uuid ''runtime'' ''call.cleanup'' i (JObj [])
       (onAttempt i (finishAttempt (seNow E) status reason) r)"

definition sweepOne ::
    "lib \<Rightarrow> serviceEnv \<Rightarrow> (nat \<Rightarrow> string) \<Rightarrow> InstitutionRecord \<Rightarrow> (string \<times> AuthorityStatus \<times> Checkpoint option) list \<Rightarrow>
     nat \<times> string \<Rightarrow> InstitutionRecord \<Rightarrow> InstitutionRecord" where
  "sweepOne L E u observed checked e r = (case e of (k, i) \<Rightarrow>
     case Option.bind (irService r) (\<lambda>s. map_option (Pair s) (dget (ssAttempts s) i)) of
       None \<Rightarrow> r
     | Some (s, a) \<Rightarrow>
         if terminal (saStatus a) then r
         else if staleAuthority E r s a then sweepEnd E (u k) i SCancelled ''authority-invalid'' r
         else if saStatus a \<noteq> SAccepted \<and> saFirstConnectBy a \<le> seNow E
         then sweepEnd E (u k) i SNoAnswer ''ring-timeout'' r
         else if saStatus a = SAccepted \<and> (leaseExpired E a \<or> saCallEndBy a \<le> seNow E)
         then sweepEnd E (u k) i SFailed ''lease-expired'' r
         else case authorizationOf s a of
           None \<Rightarrow> r
         | Some auth \<Rightarrow> (case sweepAuthority L E observed checked i auth s r of
              Inl reason \<Rightarrow> sweepEnd E (u k) i SCancelled reason r | Inr r' \<Rightarrow> r'))"

definition sweepApply ::
    "lib \<Rightarrow> serviceEnv \<Rightarrow> (nat \<Rightarrow> string) \<Rightarrow> InstitutionRecord \<Rightarrow> (string \<times> AuthorityStatus \<times> Checkpoint option) list \<Rightarrow>
     InstitutionRecord \<Rightarrow> InstitutionRecord" where
  "sweepApply L E u observed checked r = (case irService r of None \<Rightarrow> r
     | Some s \<Rightarrow> fold (sweepOne L E u observed checked) (enumerate 0 (map fst (ssAttempts s))) r)"

definition sweep :: "lib \<Rightarrow> serviceEnv \<Rightarrow> (nat \<Rightarrow> string) \<Rightarrow> InstitutionRecord \<Rightarrow> InstitutionRecord \<Rightarrow> InstitutionRecord" where
  "sweep L E u observed r = sweepApply L E u observed (sweepObserve L E observed) r"

section \<open>Retention\<close>

definition expiredAttempt :: "int \<Rightarrow> int \<Rightarrow> ServiceAttempt \<Rightarrow> bool" where
  "expiredAttempt now retention a \<longleftrightarrow>
     terminal (saStatus a) \<and> (case saEndedAt a of Some t \<Rightarrow> t < now - retention | None \<Rightarrow> False) \<and>
     (case saPbx a of None \<Rightarrow> True | Some px \<Rightarrow> pxState px = PbxEnded)"

definition forgetAttempt :: "string \<times> ServiceAttempt \<Rightarrow> ServiceState \<Rightarrow> ServiceState" where
  "forgetAttempt e s = (case e of (i, a) \<Rightarrow>
     let s1 = (case saAuthorization a of None \<Rightarrow> s | Some k \<Rightarrow>
           s\<lparr> ssAuthorizations := ddelete k (ssAuthorizations s), ssConsumptions := ddelete k (ssConsumptions s) \<rparr>) in
     s1\<lparr> ssChallenges := filter (\<lambda>c. \<not> isStr (scPayloadOf (snd c)) ''attemptId'' i) (ssChallenges s1),
         ssAttempts := ddelete i (ssAttempts s1) \<rparr>)"

definition expireProposal :: "int \<Rightarrow> ConfigurationProposal \<Rightarrow> ConfigurationProposal" where
  "expireProposal now p =
     (if cpStatus p = AwaitingApproval \<and> bigInt (jstr (cpRequest p) ''deadline'') \<le> now
      then p\<lparr> cpStatus := ProposalFailed, cpFailure := Some ''APPROVAL_WINDOW_EXPIRED'' \<rparr> else p)"

definition forgottenIntents :: "int \<Rightarrow> int \<Rightarrow> ServiceState \<Rightarrow> InstitutionRecord \<Rightarrow> string list" where
  "forgottenIntents now retention s r = map fst (filter (\<lambda>e.
     fst e \<notin> saIntent ` set (dvalues (ssAttempts s)) \<and> ciExpiresAt (snd e) < now - retention) (irIntents r))"

definition forgottenCredential :: "int \<Rightarrow> int \<Rightarrow> ServiceState \<Rightarrow> string \<times> ServiceDelegation \<Rightarrow> bool" where
  "forgottenCredential now retention s e \<longleftrightarrow>
     fst e \<notin> (\<lambda>a. jstr (sauPayload a) ''vcDigest'') ` set (dvalues (ssAuthorizations s)) \<and>
     dateParse (jstr (sdVc (snd e)) ''validUntil'') < (now - retention) * 1000 \<and>
     sdState (snd e) \<notin> {CredentialPending, RevokeRequested}"

definition pruneServiceState :: "InstitutionRecord \<Rightarrow> int \<Rightarrow> int \<Rightarrow> (nat \<times> InstitutionRecord) result" where
  "pruneServiceState r now retention =
     (if \<not> isSafeInteger retention \<or> retention < 86400 then Inl (Error ''RETENTION_POLICY_INVALID'')
      else case irService r of
        None \<Rightarrow> Inr (0, r)
      | Some s0 \<Rightarrow>
          let old = filter (\<lambda>e. expiredAttempt now retention (snd e)) (ssAttempts s0);
              s1 = fold forgetAttempt old s0;
              gone = forgottenIntents now retention s1 r;
              forgotten = map fst (filter (forgottenCredential now retention s1) (ssCredentials s1));
              s2 = s1\<lparr> ssConfirmations := filter (\<lambda>e. fst e \<notin> set gone) (ssConfirmations s1),
                       ssQuotas := filter (\<lambda>e. \<not> quExpiresAt (snd e) < now) (ssQuotas s1),
                       ssRequests := filter (\<lambda>e. \<not> rqAt (snd e) < now - retention) (ssRequests s1),
                       ssCredentials := filter (\<lambda>e. fst e \<notin> set forgotten) (ssCredentials s1),
                       ssCheckpoints := filter (\<lambda>e. fst e \<notin> set forgotten) (ssCheckpoints s1) \<rparr> in
          Inr (length old, r\<lparr> irService := Some s2, irProposals := dmap (expireProposal now) (irProposals r),
            irIntents := filter (\<lambda>e. fst e \<notin> set gone) (irIntents r) \<rparr>))"

end
