(* ===== verification/Service_Routes.thy ===== *)
theory Service_Routes
  imports Service_Authority
begin

text \<open>
  The routes of the service profile that act on the record themselves, \<^verbatim>\<open>registerServiceRoutes\<close> of
  \<^verbatim>\<open>services/api/src/service-routes.ts\<close>: the claim of a call by a browser session, the binding of a session,
  the storage of a possession proof, the cancellation of a contact, the official confirmation, and the two
  views \<^verbatim>\<open>workspace\<close> and \<^verbatim>\<open>call-context\<close>. Each operation is what the route hands to \<^verbatim>\<open>idempotent\<close>; what the
  route checks before that is the definition named after the route. The other routes of the file parse their
  body and call an operation of \<open>Service_Authority\<close>.
\<close>

section \<open>Claiming a call for a browser session\<close>

definition sideOf :: "Actor \<Rightarrow> string option" where
  "sideOf actor = (if acRole actor = ''gateway'' then Some ''sender''
     else if acRole actor = ''recipient'' then Some ''recipient'' else None)"

definition ownedByAnother :: "ServiceAttempt \<Rightarrow> string \<Rightarrow> string \<Rightarrow> bool" where
  "ownedByAnother attempt role session \<longleftrightarrow>
     (case dget (saOwnerSessions attempt) role of None \<Rightarrow> False | Some prior \<Rightarrow> prior \<noteq> [] \<and> prior \<noteq> session)"

definition claimCall :: "lib \<Rightarrow> serviceEnv \<Rightarrow> Actor \<Rightarrow> string \<Rightarrow> string \<Rightarrow> string \<Rightarrow> serviceOp" where
  "claimCall L E actor requestId attemptId session =
     idempotent L E actor requestId (JObj [(''action'', JStr ''claim''), (''attemptId'', JStr attemptId),
         (''sessionId'', JStr session)]) (\<lambda>r.
       bindE (party r actor attemptId) (\<lambda>(s, attempt, intent).
       case sideOf actor of
         None \<Rightarrow> Inl (HttpError 409 ''CALL_NOT_CLAIMABLE'')
       | Some role \<Rightarrow>
           if terminal (saStatus attempt) \<or> seNow E \<ge> saFirstConnectBy attempt
           then Inl (HttpError 409 ''CALL_NOT_CLAIMABLE'')
           else if ownedByAnother attempt role session then Inl (HttpError 409 ''CALL_OWNED_BY_ANOTHER_SESSION'')
           else Inr (ReplyJson (JObj [(''claimed'', JBool True)]),
             onAttempt attemptId (\<lambda>a. a\<lparr> saOwnerSessions := dput role session (saOwnerSessions a) \<rparr>) r)))"

text \<open>The identifier of the session comes from the sign-in; without one the route refuses.\<close>

definition claimRoute :: "lib \<Rightarrow> serviceEnv \<Rightarrow> Actor \<Rightarrow> string \<Rightarrow> string \<Rightarrow> string option \<Rightarrow> serviceOp" where
  "claimRoute L E actor requestId attemptId session r =
     (case session of
        None \<Rightarrow> Inl (HttpError 503 ''SESSION_BINDING_UNAVAILABLE'')
      | Some i \<Rightarrow> if i = [] then Inl (HttpError 503 ''SESSION_BINDING_UNAVAILABLE'')
          else claimCall L E actor requestId attemptId i r)"

section \<open>The binding of a session and the proofs of possession\<close>

definition bindingOf ::
    "lib \<Rightarrow> serviceEnv \<Rightarrow> ServiceAttempt \<Rightarrow> json \<Rightarrow> ServiceKey \<Rightarrow> string \<Rightarrow> string \<Rightarrow> string \<Rightarrow> string \<Rightarrow> json" where
  "bindingOf L E attempt a enrolled senderSdp recipientSdp senderPrint recipientPrint = JObj (serviceMessage E @
     [(''type'', JStr ''ServiceSessionBinding''), (''authorizationHash'', JStr (hashCanonical L a)),
      (''sessionId'', JStr (saSession attempt)), (''connectionGeneration'', JStr (saGeneration attempt)),
      (''recipientId'', jobj a ''recipientId''), (''recipientNonce'', JStr (skNonce enrolled)),
      (''recipientKeyHash'', JStr (hashCanonical L (skKey enrolled))),
      (''senderSdpHash'', JStr (hashSdp L senderSdp)), (''recipientSdpHash'', JStr (hashSdp L recipientSdp)),
      (''senderFingerprint'', JStr senderPrint), (''recipientFingerprint'', JStr recipientPrint),
      (''callProfile'', JStr (saProfile attempt)), (''issuedAt'', jobj a ''issuedAt''),
      (''expiresAt'', jobj a ''firstConsumeBy'')])"

definition reportOf :: "ServiceAttempt \<Rightarrow> string \<Rightarrow> PbxReport option" where
  "reportOf attempt role = Option.bind (saPbx attempt) (\<lambda>px. dget (pxReports px) role)"

definition sessionBinding :: "lib \<Rightarrow> serviceEnv \<Rightarrow> Actor \<Rightarrow> string \<Rightarrow> string \<Rightarrow> serviceOp" where
  "sessionBinding L E actor requestId attemptId =
     idempotent L E actor requestId (JObj [(''action'', JStr ''binding''), (''attemptId'', JStr attemptId)]) (\<lambda>r.
       bindE (party r actor attemptId) (\<lambda>(s, attempt, intent).
       case (authorizationOf s attempt, saRecipientKey attempt, reportOf attempt ''sender'', reportOf attempt ''recipient'') of
         (Some auth, Some enrolled, Some x, Some y) \<Rightarrow>
           if acRole actor \<notin> {''gateway'', ''recipient''} \<or> saStatus attempt \<noteq> SAuthorized
           then Inl (HttpError 409 ''BINDING_NOT_READY'')
           else bindE (extractSingleSdpFingerprint (prSdp x)) (\<lambda>f.
             bindE (extractSingleSdpFingerprint (prSdp y)) (\<lambda>g.
             bindE (parseWith serviceBindingSchema
                     (bindingOf L E attempt (sauPayload auth) enrolled (prSdp x) (prSdp y) f g)) (\<lambda>b.
               Inr (ReplyJson b, r))))
       | _ \<Rightarrow> Inl (HttpError 409 ''BINDING_NOT_READY'')))"

definition possessionRefused :: "lib \<Rightarrow> ServiceAttempt \<Rightarrow> json \<Rightarrow> json \<Rightarrow> bool" where
  "possessionRefused L attempt a b \<longleftrightarrow>
     saStatus attempt \<noteq> SAuthorized \<or> \<not> isStr b ''authorizationHash'' (hashCanonical L a) \<or>
     \<not> isStr b ''connectionGeneration'' (saGeneration attempt) \<or>
     (case saRecipientKey attempt of None \<Rightarrow> True | Some k \<Rightarrow> \<not> isStr b ''recipientNonce'' (skNonce k))"

definition storePossession :: "lib \<Rightarrow> serviceEnv \<Rightarrow> Actor \<Rightarrow> string \<Rightarrow> string \<Rightarrow> json \<Rightarrow> string \<Rightarrow> serviceOp" where
  "storePossession L E actor requestId attemptId b jws =
     idempotent L E actor requestId (JObj [(''action'', JStr ''possession''), (''attemptId'', JStr attemptId),
         (''binding'', b), (''jws'', JStr jws)]) (\<lambda>r.
       bindE (party r actor attemptId) (\<lambda>(s, attempt, intent).
       case (sideOf actor, authorizationOf s attempt, sideKey L s attempt (acRole actor = ''gateway'')) of
         (Some role, Some auth, Some key) \<Rightarrow>
           if possessionRefused L attempt (sauPayload auth) b then Inl (HttpError 409 ''POSSESSION_NOT_ALLOWED'')
           else bindE (servicePossession L E jws key role (jstr (sauPayload auth) ''authorizationId'')
                     (saSession attempt) (hashCanonical L b) (jstr b ''recipientNonce'')) (\<lambda>_.
             Inr (ReplyJson (JObj [(''stored'', JBool True)]),
               onAttempt attemptId (\<lambda>a. a\<lparr> saPossessions := dput role jws (saPossessions a) \<rparr>) r))
       | _ \<Rightarrow> Inl (HttpError 409 ''POSSESSION_NOT_ALLOWED'')))"

definition possessionRoute :: "lib \<Rightarrow> serviceEnv \<Rightarrow> Actor \<Rightarrow> string \<Rightarrow> string \<Rightarrow> json \<Rightarrow> string \<Rightarrow> serviceOp" where
  "possessionRoute L E actor requestId attemptId bindingInput jws r =
     bindE (parseWith serviceBindingSchema bindingInput) (\<lambda>b. storePossession L E actor requestId attemptId b jws r)"

section \<open>Cancellation and official confirmation\<close>

definition cancelCall :: "int \<Rightarrow> ServiceAttempt \<Rightarrow> ServiceAttempt" where
  "cancelCall now a = withdrawConsent (a\<lparr> saStatus := SCancelled, saEndedAt := Some now \<rparr>)"

text \<open>Both operations end every live call of the contact and ask for its cleanup.\<close>

definition closeOne ::
    "serviceEnv \<Rightarrow> (nat \<Rightarrow> string) \<Rightarrow> Actor \<Rightarrow> string \<Rightarrow> string \<Rightarrow> nat \<times> InstitutionRecord \<Rightarrow> nat \<times> InstitutionRecord" where
  "closeOne E u actor intentId i nr = (case nr of (n, r) \<Rightarrow>
     case attemptIn r i of None \<Rightarrow> (n, r)
     | Some a \<Rightarrow>
         if saIntent a \<noteq> intentId \<or> terminal (saStatus a) then (n, r)
         else (n + 1, serviceEvent (seNow E) (u n) (acUser actor) ''call.cleanup'' i (JObj [])
                (onAttempt i (cancelCall (seNow E)) r)))"

definition closeCalls ::
    "serviceEnv \<Rightarrow> (nat \<Rightarrow> string) \<Rightarrow> Actor \<Rightarrow> string \<Rightarrow> InstitutionRecord \<Rightarrow> nat \<times> InstitutionRecord" where
  "closeCalls E u actor intentId r = (case irService r of None \<Rightarrow> (0, r)
     | Some s \<Rightarrow> fold (closeOne E u actor intentId) (map fst (ssAttempts s)) (0, r))"

definition closeIntent :: "string \<Rightarrow> IntentStatus \<Rightarrow> ContactIntent \<Rightarrow> InstitutionRecord \<Rightarrow> InstitutionRecord" where
  "closeIntent intentId st intent r = r\<lparr> irIntents := dput intentId (intent\<lparr> ciStatus := st \<rparr>) (irIntents r) \<rparr>"

definition cancelContact :: "lib \<Rightarrow> serviceEnv \<Rightarrow> (nat \<Rightarrow> string) \<Rightarrow> Actor \<Rightarrow> string \<Rightarrow> string \<Rightarrow> serviceOp" where
  "cancelContact L E u actor requestId intentId =
     idempotent L E actor requestId (JObj [(''action'', JStr ''cancel''), (''intentId'', JStr intentId)]) (\<lambda>r.
       bindE (requirePermission r actor ''contact.manage'') (\<lambda>_.
       bindE (ofOption (HttpError 404 ''INTENT_NOT_FOUND'') (dget (irIntents r) intentId)) (\<lambda>intent.
       case closeCalls E u actor intentId (closeIntent intentId IntentCancelled intent r) of (n, r1) \<Rightarrow>
         Inr (ReplyJson (JObj [(''cancelled'', JBool True)]),
           serviceEvent (seNow E) (u n) (acUser actor) ''intent.cancelled'' (ciId intent) (JObj []) r1))))"

definition putConfirmation :: "Confirmation \<Rightarrow> InstitutionRecord \<Rightarrow> InstitutionRecord" where
  "putConfirmation c = onService (\<lambda>s. s\<lparr> ssConfirmations := dput (cfId c) c (ssConfirmations s) \<rparr>)"

definition confirmationJson :: "Confirmation \<Rightarrow> json" where
  "confirmationJson c = JObj [(''id'', JStr (cfId c)), (''answer'', JStr (cfAnswer c)), (''at'', JNum (cfAt c)),
     (''userId'', JStr (cfUser c))]"

definition officialConfirm ::
    "lib \<Rightarrow> serviceEnv \<Rightarrow> (nat \<Rightarrow> string) \<Rightarrow> Actor \<Rightarrow> string \<Rightarrow> string \<Rightarrow> string \<Rightarrow> serviceOp" where
  "officialConfirm L E u actor requestId intentId answer =
     idempotent L E actor requestId (JObj [(''action'', JStr ''official-confirm''), (''intentId'', JStr intentId),
         (''answer'', JStr answer)]) (\<lambda>r.
       bindE (serviceState r) (\<lambda>s.
       bindE (activeIntent L r intentId actor (seNow E)) (\<lambda>intent.
       if dget (ssConfirmations s) (ciId intent) \<noteq> None then Inl (HttpError 409 ''OFFICIAL_TASK_ALREADY_COMPLETED'')
       else let confirmation = \<lparr> cfId = ciId intent, cfAnswer = answer, cfAt = seNow E, cfUser = acUser actor \<rparr> in
         case closeCalls E u actor (ciId intent)
                (closeIntent intentId IntentCompleted intent (putConfirmation confirmation r)) of (n, r1) \<Rightarrow>
           Inr (ReplyJson (JObj [(''confirmation'', confirmationJson confirmation), (''source'', JStr ''mock-crm-fds''),
                  (''externalInstitutionUpdate'', JBool False)]),
             serviceEvent (seNow E) (u n) (acUser actor) ''official.completed'' (ciId intent)
               (JObj [(''answer'', JStr answer)]) r1))))"

text \<open>The route first reads the record on its own; \<open>observed\<close> is what it reads.\<close>

definition officialRoute ::
    "lib \<Rightarrow> serviceEnv \<Rightarrow> (nat \<Rightarrow> string) \<Rightarrow> InstitutionRecord \<Rightarrow> Actor \<Rightarrow> string \<Rightarrow> string \<Rightarrow> string \<Rightarrow> serviceOp" where
  "officialRoute L E u observed actor requestId intentId answer r =
     bindE (membership observed actor [''recipient'']) (\<lambda>_.
       if answer \<notin> {''recognized'', ''not-recognized''} then Inl ZodError
       else officialConfirm L E u actor requestId intentId answer r)"

section \<open>Views\<close>

definition officialTasks :: "InstitutionRecord \<Rightarrow> Actor \<Rightarrow> ContactIntent list result" where
  "officialTasks r actor =
     bindE (membership r actor [''recipient'']) (\<lambda>_.
       Inr (filter (\<lambda>i. ciRecipient i = acUser actor) (dvalues (irIntents r))))"

record CallContext =
  ccAttempt :: ServiceAttempt
  ccAuthorization :: "ServiceAuthorization option"
  ccCredential :: "ServiceDelegation option"
  ccReceipt :: "Signed option"
  ccPolicy :: json

definition withoutCredentials :: "ServiceAttempt \<Rightarrow> ServiceAttempt" where
  "withoutCredentials a = a\<lparr> saPbx := map_option (\<lambda>px. px\<lparr> pxCredentials := [] \<rparr>) (saPbx a) \<rparr>"

definition callContext :: "InstitutionRecord \<Rightarrow> Actor \<Rightarrow> string \<Rightarrow> CallContext result" where
  "callContext r actor attemptId =
     bindE (party r actor attemptId) (\<lambda>(s, attempt, intent).
     if acRole actor \<notin> {''gateway'', ''recipient''} then Inl (HttpError 403 ''CALL_ROLE_REQUIRED'')
     else let auth = authorizationOf s attempt in
       Inr \<lparr> ccAttempt = withoutCredentials attempt, ccAuthorization = auth,
             ccCredential = Option.bind auth (\<lambda>a. dget (ssCredentials s) (jstr (sauPayload a) ''vcDigest'')),
             ccReceipt = Option.bind (saAuthorization attempt) (dget (ssConsumptions s)), ccPolicy = irPolicy r \<rparr>)"

record PublicAttempt =
  puId :: string
  puIntent :: string
  puAgent :: string
  puStatus :: AttemptStatus
  puProfile :: string
  puFirstConnectBy :: int
  puCallEndBy :: int
  puReason :: "string option"

definition publicAttempt :: "ServiceAttempt \<Rightarrow> PublicAttempt" where
  "publicAttempt a = \<lparr> puId = saId a, puIntent = saIntent a, puAgent = saAgent a, puStatus = saStatus a,
     puProfile = saProfile a, puFirstConnectBy = saFirstConnectBy a, puCallEndBy = saCallEndBy a, puReason = saReason a \<rparr>"

record ServiceWorkspace =
  swActor :: Actor
  swInstitution :: string
  swPolicy :: json
  swIntents :: "ContactIntent list"
  swAttempts :: "PublicAttempt list"
  swAuthorizations :: "(string \<times> string \<times> bool) list"
  swCredentials :: "(string \<times> CredentialState \<times> string) list"
  swPermissions :: "string list"
  swServices :: "string list"

definition workspaceIntent :: "InstitutionRecord \<Rightarrow> Actor \<Rightarrow> ContactIntent \<Rightarrow> bool" where
  "workspaceIntent r actor i \<longleftrightarrow>
     acRole actor = ''institution'' \<or>
     (if acRole actor = ''gateway''
      then ciAgent i = acUser actor \<and> memberService r (acUser actor) = Some (ciService i)
      else acRole actor = ''recipient'' \<and> ciRecipient i = acUser actor)"

definition workspaceAttempts :: "InstitutionRecord \<Rightarrow> ServiceState \<Rightarrow> ContactIntent list \<Rightarrow> ServiceAttempt list" where
  "workspaceAttempts r s intents = filter (\<lambda>t. saIntent t \<in> set (map ciId intents) \<and>
     map_option ciAgent (dget (irIntents r) (saIntent t)) = Some (saAgent t)) (dvalues (ssAttempts s))"

definition subjectId :: "ServiceDelegation \<Rightarrow> string" where
  "subjectId item = jstr (jobj (sdVc item) ''credentialSubject'') ''id''"

definition workspaceCredential ::
    "Actor \<Rightarrow> ContactIntent list \<Rightarrow> ServiceAuthorization list \<Rightarrow> string \<times> ServiceDelegation \<Rightarrow> bool" where
  "workspaceCredential actor intents auths e \<longleftrightarrow>
     acRole actor = ''institution'' \<or>
     (if acRole actor = ''gateway'' then subjectId (snd e) \<in> set (map ciService intents)
      else acRole actor = ''recipient'' \<and> list_ex (\<lambda>a. isStr (sauPayload a) ''vcDigest'' (fst e)) auths)"

definition memberPermissions :: "InstitutionRecord \<Rightarrow> string \<Rightarrow> string list" where
  "memberPermissions r user = (case Option.bind (dget (irMembers r) user) mbPermissions of Some ps \<Rightarrow> ps | None \<Rightarrow> [])"

definition serviceWorkspace :: "InstitutionRecord \<Rightarrow> Actor \<Rightarrow> ServiceWorkspace result" where
  "serviceWorkspace r actor =
     bindE (membership r actor [''institution'', ''gateway'', ''recipient'', ''approver'']) (\<lambda>_.
     bindE (serviceState r) (\<lambda>s.
       let intents = filter (workspaceIntent r actor) (dvalues (irIntents r));
           attempts = workspaceAttempts r s intents;
           auths = filter (\<lambda>item. list_ex (\<lambda>t. case saAuthorization t of None \<Rightarrow> False
               | Some i \<Rightarrow> isStr (sauPayload item) ''authorizationId'' i) attempts) (dvalues (ssAuthorizations s));
           credentials = filter (workspaceCredential actor intents auths) (ssCredentials s)
       in Inr \<lparr> swActor = actor, swInstitution = institutionName r, swPolicy = irPolicy r, swIntents = intents,
            swAttempts = map publicAttempt attempts,
            swAuthorizations = map (\<lambda>a. (jstr (sauPayload a) ''authorizationId'', jstr (sauPayload a) ''attemptId'',
              sauCancelled a)) auths,
            swCredentials = map (\<lambda>(d, item). (d, sdState item, subjectId item)) credentials,
            swPermissions = memberPermissions r (acUser actor),
            swServices = (if acRole actor = ''institution'' then map fst (irServices r) else []) \<rparr>))"

end
