(* ===== verification/Telephony.thy ===== *)
theory Telephony
  imports Complex_Main Service_Routes
begin

text \<open>
  The telephone exchange as the issuer drives it: the ARI client and the bridge of
  \<^verbatim>\<open>services/api/src/asterisk.ts\<close>. Asterisk itself is outside the repository: \<open>'w\<close> is the world it lives in
  and the record \<open>ari\<close> holds what the client takes from it, the answer to a request, the clocks, and what
  \<^verbatim>\<open>Number\<close> makes of a text. Requests that the code sends together are sent in the order of the list. An error
  that carries the status of the answer is written \<open>HttpError status message\<close>. A text is its UTF-8 bytes.
\<close>

section \<open>The client\<close>

record AriReply =
  apOk :: bool
  apStatus :: nat
  apLength :: nat
  apJson :: "json option"

record 'w ari =
  arReply :: "string \<Rightarrow> string \<Rightarrow> (string \<times> string) list \<Rightarrow> json option \<Rightarrow> ('w, AriReply) eff"
  arNumber :: "string \<Rightarrow> rat option"
  arNanos :: "'w \<Rightarrow> int"
  arUnix :: "'w \<Rightarrow> int"
  arApplication :: string

definition ariRequest ::
    "'w ari \<Rightarrow> string \<Rightarrow> string \<Rightarrow> (string \<times> string) list \<Rightarrow> json option \<Rightarrow> ('w, json) eff" where
  "ariRequest A meth path query body =
     bindS (arReply A meth path query body) (\<lambda>reply.
     if \<not> apOk reply then throwS (HttpError (apStatus reply) ''ARI_REQUEST_FAILED'')
     else if apLength reply > 131072 then throwS (Error ''ARI_RESPONSE_TOO_LARGE'')
     else if apLength reply = 0 then returnS JNull
     else liftE (ofOption LibraryError (apJson reply)))"

definition uriComponentChars :: string where
  "uriComponentChars = digitChars @ lowerChars @ upperChars @ ''-_.!~*'' @ [CHR 0x27] @ ''()''"

definition upperHexDigit :: "nat \<Rightarrow> char" where
  "upperHexDigit n = ''0123456789ABCDEF'' ! n"

definition encodeURIComponent :: "string \<Rightarrow> string" where
  "encodeURIComponent s = concat (map (\<lambda>c. if c \<in> set uriComponentChars then [c]
     else [CHR ''%'', upperHexDigit (of_char c div 16), upperHexDigit (of_char c mod 16)]) s)"

text \<open>The text member \<open>k\<close> of an answer; \<^verbatim>\<open>z.object\<close> ignores the other members.\<close>

definition ariText :: "string \<Rightarrow> json \<Rightarrow> string result" where
  "ariText k v = (case jget v k of Some (JStr s) \<Rightarrow> Inr s | _ \<Rightarrow> Inl ZodError)"

record AriChannel =
  acId :: string
  acState :: string
  acName :: string

definition ariChannel :: "'w ari \<Rightarrow> string \<Rightarrow> ('w, AriChannel) eff" where
  "ariChannel A i =
     bindS (ariRequest A ''GET'' (''channels/'' @ encodeURIComponent i) [] None) (\<lambda>v.
     liftE (bindE (ariText ''id'' v) (\<lambda>x. bindE (ariText ''state'' v) (\<lambda>y. bindE (ariText ''name'' v) (\<lambda>z.
       Inr \<lparr> acId = x, acState = y, acName = z \<rparr>)))))"

definition ariCallId :: "'w ari \<Rightarrow> string \<Rightarrow> ('w, string) eff" where
  "ariCallId A i =
     bindS (ariRequest A ''GET'' (''channels/'' @ encodeURIComponent i @ ''/variable'')
              [(''variable'', ''CHANNEL(pjsip,call-id)'')] None) (\<lambda>v.
     liftE (bindE (ariText ''value'' v) (\<lambda>x. if lengthBetween 1 200 x then Inr x else Inl ZodError)))"

definition lifetimeUnverifiable :: "'w ari \<Rightarrow> string \<Rightarrow> int \<Rightarrow> bool" where
  "lifetimeUnverifiable A text seconds \<longleftrightarrow>
     (case arNumber A text of None \<Rightarrow> True | Some x \<Rightarrow> x \<le> 0 \<or> x > of_int seconds + 1)"

definition limitLifetime :: "'w ari \<Rightarrow> string \<Rightarrow> int \<Rightarrow> ('w, unit) eff" where
  "limitLifetime A i seconds =
     (let path = ''channels/'' @ encodeURIComponent i @ ''/variable'' in
      if seconds < 1 \<or> seconds > 120 then throwS (Error ''PBX_LIFETIME_EXPIRED'')
      else bindS (ariRequest A ''POST'' path [(''variable'', ''TIMEOUT(absolute)''), (''value'', intText seconds)] None) (\<lambda>_.
           bindS (ariRequest A ''GET'' path [(''variable'', ''TIMEOUT(absolute)'')] None) (\<lambda>v.
           bindS (liftE (ariText ''value'' v)) (\<lambda>text.
           guardS (lifetimeUnverifiable A text seconds) (Error ''PBX_LIFETIME_UNVERIFIABLE'')))))"

definition isEndpoint :: "string \<Rightarrow> bool" where
  "isEndpoint s \<longleftrightarrow> startsWith ''cs-'' s \<and> length s > 3 \<and>
     list_all (\<lambda>c. c \<in> set (digitChars @ lowerChars @ upperChars @ ''-'')) (drop 3 s)"

definition startWindow :: "'w ari \<Rightarrow> ServiceAttempt \<Rightarrow> 'w \<Rightarrow> int" where
  "startWindow A attempt w = min 120 (saFirstConnectBy attempt - arUnix A w - 3)"

definition originate :: "'w ari \<Rightarrow> string \<Rightarrow> string \<Rightarrow> ServiceAttempt \<Rightarrow> ('w, unit) eff" where
  "originate A channelId endpoint attempt =
     bindS (guardS (\<not> isEndpoint endpoint) (Error ''ARI_ENDPOINT_FORBIDDEN'')) (\<lambda>_.
     bindS (readS (\<lambda>w. Inr (startWindow A attempt w))) (\<lambda>remaining.
     bindS (guardS (remaining \<le> 0) (Error ''PBX_START_WINDOW_EXPIRED'')) (\<lambda>_.
     catchS (bindS (ariRequest A ''POST'' (''channels/'' @ channelId)
         [(''endpoint'', ''PJSIP/'' @ endpoint), (''app'', arApplication A), (''timeout'', ''40'')]
         (Some (JObj [(''variables'', JObj [(''TIMEOUT(absolute)'', JStr (intText remaining)),
           (''CALLSIGN_ATTEMPT'', JStr (saId attempt)), (''CALLSIGN_SESSION'', JStr (saSession attempt)),
           (''CALLSIGN_GENERATION'', JStr (saGeneration attempt))])]))) (\<lambda>_. returnS ()))
       (\<lambda>e. case e of
          HttpError n c \<Rightarrow> if n = 409 then
              bindS (ariChannel A channelId) (\<lambda>c.
              guardS (\<not> startsWith (''PJSIP/'' @ endpoint @ ''-'') (acName c)) (Error ''ARI_CHANNEL_CONFLICT''))
            else throwS e
        | _ \<Rightarrow> throwS e))))"

definition mute :: "'w ari \<Rightarrow> string \<Rightarrow> bool \<Rightarrow> ('w, unit) eff" where
  "mute A i muted = bindS (ariRequest A (if muted then ''POST'' else ''DELETE'') (''channels/'' @ i @ ''/mute'')
     [(''direction'', ''both'')] None) (\<lambda>_. returnS ())"

text \<open>
  \<^verbatim>\<open>destroy\<close> sends the three deletions, whatever the others answer, and then reads each resource back: only
  the answer 404 shows that it is gone.
\<close>

definition absent :: "js_error \<Rightarrow> bool" where
  "absent e = (case e of HttpError n c \<Rightarrow> n = 404 | _ \<Rightarrow> False)"

definition pbxPaths :: "PbxSession \<Rightarrow> string list" where
  "pbxPaths px = [''channels/'' @ pxSenderChannel px, ''channels/'' @ pxRecipientChannel px, ''bridges/'' @ pxBridge px]"

fun deleteAll :: "'w ari \<Rightarrow> string list \<Rightarrow> 'w \<Rightarrow> bool \<times> 'w" where
  "deleteAll A [] w = (True, w)"
| "deleteAll A (path # paths) w = (case ariRequest A ''DELETE'' path [] None w of (r, w1) \<Rightarrow>
     (case deleteAll A paths w1 of (done', w2) \<Rightarrow>
        ((case r of Inl e \<Rightarrow> absent e | Inr _ \<Rightarrow> True) \<and> done', w2)))"

fun readAbsent :: "'w ari \<Rightarrow> string list \<Rightarrow> ('w, unit) eff" where
  "readAbsent A [] = returnS ()"
| "readAbsent A (path # paths) =
     bindS (catchS (bindS (ariRequest A ''GET'' path [] None) (\<lambda>_. returnS False))
              (\<lambda>e. if absent e then returnS True else throwS e)) (\<lambda>gone.
     if gone then readAbsent A paths else throwS (Error ''PBX_CLEANUP_NOT_OBSERVED''))"

definition destroyCall :: "'w ari \<Rightarrow> ServiceAttempt \<Rightarrow> ('w, unit) eff" where
  "destroyCall A attempt = (case saPbx attempt of None \<Rightarrow> returnS ()
     | Some px \<Rightarrow> (\<lambda>w. case deleteAll A (pbxPaths px) w of (done', w1) \<Rightarrow>
         if done' then readAbsent A (pbxPaths px) w1 else (Inl (Error ''PBX_CLEANUP_RETRY_REQUIRED''), w1)))"

section \<open>The bridge\<close>

record bridgeEnv =
  brNetwork :: string
  brRegistry :: string
  brFingerprint :: string
  brPrivate :: keyHandle
  brKid :: string

definition prepareCall :: "'w ari \<Rightarrow> ServiceAttempt \<Rightarrow> ('w, json) eff" where
  "prepareCall A attempt = (case saPbx attempt of None \<Rightarrow> throwS (Error ''PBX_NOT_RESERVED'')
     | Some px \<Rightarrow> bindS (originate A (pxSenderChannel px) (pxSenderEndpoint px) attempt) (\<lambda>_.
         bindS (originate A (pxRecipientChannel px) (pxRecipientEndpoint px) attempt) (\<lambda>_.
         returnS (JObj [(''status'', JStr ''ringing''), (''attemptId'', JStr (saId attempt))]))))"

text \<open>What the bridge observes of a call: both channels and their call identifiers.\<close>

record Observed =
  obSender :: AriChannel
  obRecipient :: AriChannel
  obSenderCall :: string
  obRecipientCall :: string

definition observeCall :: "'w ari \<Rightarrow> PbxSession \<Rightarrow> ('w, Observed) eff" where
  "observeCall A px =
     bindS (ariChannel A (pxSenderChannel px)) (\<lambda>sc. bindS (ariChannel A (pxRecipientChannel px)) (\<lambda>rc.
     bindS (ariCallId A (pxSenderChannel px)) (\<lambda>si. bindS (ariCallId A (pxRecipientChannel px)) (\<lambda>ri.
     returnS \<lparr> obSender = sc, obRecipient = rc, obSenderCall = si, obRecipientCall = ri \<rparr>))))"

definition channelMismatch :: "PbxSession \<Rightarrow> PbxReport \<Rightarrow> PbxReport \<Rightarrow> Observed \<Rightarrow> bool" where
  "channelMismatch px sender recipient ob \<longleftrightarrow>
     acState (obSender ob) \<noteq> ''Up'' \<or> acState (obRecipient ob) \<noteq> ''Up'' \<or>
     obSenderCall ob \<noteq> prCallId sender \<or> obRecipientCall ob \<noteq> prCallId recipient \<or>
     \<not> startsWith (''PJSIP/'' @ pxSenderEndpoint px @ ''-'') (acName (obSender ob)) \<or>
     \<not> startsWith (''PJSIP/'' @ pxRecipientEndpoint px @ ''-'') (acName (obRecipient ob))"

definition sdpChecks :: "lib \<Rightarrow> string \<Rightarrow> PbxReport \<Rightarrow> PbxReport \<Rightarrow> json \<Rightarrow> unit result" where
  "sdpChecks L pinned sender recipient b =
     (if \<not> isStr b ''senderSdpHash'' (hashSdp L (prSdp sender)) \<or> \<not> isStr b ''recipientSdpHash'' (hashSdp L (prSdp recipient))
      then Inl (Error ''PBX_SDP_CONTEXT_INVALID'')
      else bindE (extractSingleSdpFingerprint (prSdp sender)) (\<lambda>f.
        if \<not> isStr b ''senderFingerprint'' f then Inl (Error ''PBX_SDP_CONTEXT_INVALID'')
        else bindE (extractSingleSdpFingerprint (prSdp recipient)) (\<lambda>g.
          if \<not> isStr b ''recipientFingerprint'' g then Inl (Error ''PBX_SDP_CONTEXT_INVALID'')
          else bindE (extractSingleSdpFingerprint (prRemoteSdp sender)) (\<lambda>f'.
            if f' \<noteq> pinned then Inl (Error ''PBX_CERTIFICATE_CONTEXT_INVALID'')
            else bindE (extractSingleSdpFingerprint (prRemoteSdp recipient)) (\<lambda>g'.
              if g' \<noteq> pinned then Inl (Error ''PBX_CERTIFICATE_CONTEXT_INVALID'') else Inr ())))))"

text \<open>Seconds left until a deadline, less the time that has passed since the start and that of a request.\<close>

definition secondsLeft :: "'w ari \<Rightarrow> int \<Rightarrow> int \<Rightarrow> int \<Rightarrow> 'w \<Rightarrow> int" where
  "secondsLeft A started now until' w =
     ((until' - now) * 1000000000 - (arNanos A w - started)) div 1000000000 - 3"

definition limitBoth :: "'w ari \<Rightarrow> PbxSession \<Rightarrow> int \<Rightarrow> int \<Rightarrow> int \<Rightarrow> bool \<Rightarrow> ('w, unit) eff" where
  "limitBoth A px started now until' muted =
     bindS (readS (\<lambda>w. Inr (secondsLeft A started now until' w))) (\<lambda>n.
     bindS (limitLifetime A (pxSenderChannel px) n) (\<lambda>_.
     bindS (readS (\<lambda>w. Inr (secondsLeft A started now until' w))) (\<lambda>m.
     bindS (limitLifetime A (pxRecipientChannel px) m) (\<lambda>_.
     bindS (mute A (pxSenderChannel px) muted) (\<lambda>_.
     mute A (pxRecipientChannel px) muted)))))"

definition acceptanceMissing :: "ServiceAttempt \<Rightarrow> int \<Rightarrow> bool" where
  "acceptanceMissing attempt now \<longleftrightarrow>
     dget (saMediaReady attempt) ''sender'' \<in> {None, Some []} \<or> dget (saMediaReady attempt) ''recipient'' \<in> {None, Some []} \<or>
     saStatus attempt \<noteq> SAccepted \<or>
     (case saLease attempt of None \<Rightarrow> True
      | Some l \<Rightarrow> jnum (sgPayload l) ''expiresAt'' \<le> now \<or>
          (\<not> isStr (sgPayload l) ''authority'' ''current'' \<and> saUnverifiedChoice attempt \<noteq> Some ''continue''))"

definition bridgeMembers :: "json \<Rightarrow> string list result" where
  "bridgeMembers v = (case jget v ''channels'' of
     Some (JArr xs) \<Rightarrow> mapE (\<lambda>x. case x of JStr s \<Rightarrow> Inr s | _ \<Rightarrow> Inl ZodError) xs
   | _ \<Rightarrow> Inl ZodError)"

definition joinBridge :: "'w ari \<Rightarrow> PbxSession \<Rightarrow> string \<Rightarrow> ('w, unit) eff" where
  "joinBridge A px session =
     bindS (catchS (ariRequest A ''POST'' (''bridges/'' @ pxBridge px)
                [(''type'', ''mixing,proxy_media''), (''name'', session)] None)
              (\<lambda>e. case e of HttpError n c \<Rightarrow> if n = 409 then returnS JNull else throwS e | _ \<Rightarrow> throwS e)) (\<lambda>_.
     bindS (ariRequest A ''POST'' (''bridges/'' @ pxBridge px @ ''/addChannel'')
              [(''channel'', pxSenderChannel px @ '','' @ pxRecipientChannel px)] None) (\<lambda>_.
     bindS (ariRequest A ''GET'' (''bridges/'' @ pxBridge px) [] None) (\<lambda>v.
     bindS (liftE (bridgeMembers v)) (\<lambda>cs.
     guardS (length cs \<noteq> 2 \<or> pxSenderChannel px \<notin> set cs \<or> pxRecipientChannel px \<notin> set cs)
       (Error ''PBX_BRIDGE_MEMBERSHIP_INVALID'')))))"

definition bridgeCall :: "'w ari \<Rightarrow> ServiceAttempt \<Rightarrow> PbxSession \<Rightarrow> int \<Rightarrow> int \<Rightarrow> ('w, unit) eff" where
  "bridgeCall A attempt px started now =
     bindS (guardS (acceptanceMissing attempt now) (Error ''PBX_ACCEPTANCE_REQUIRED'')) (\<lambda>_.
     bindS (joinBridge A px (saSession attempt)) (\<lambda>_.
     let deadline = (case saLease attempt of None \<Rightarrow> 0 | Some l \<Rightarrow> jnum (sgPayload l) ''expiresAt'') in
     catchS (limitBoth A px started now deadline False)
       (\<lambda>e. bindS (destroyCall A attempt) (\<lambda>_. throwS e))))"

definition evidencePayload ::
    "lib \<Rightarrow> bridgeEnv \<Rightarrow> string \<Rightarrow> string \<Rightarrow> ServiceAttempt \<Rightarrow> PbxSession \<Rightarrow> json \<Rightarrow> Observed \<Rightarrow> string \<Rightarrow> int \<Rightarrow> json" where
  "evidencePayload L B institutionId authorizationId attempt px b ob st now = JObj
     [(''protocol'', JStr ''callsign''), (''version'', JNum 3), (''networkId'', JStr (brNetwork B)),
      (''registryAddress'', JStr (brRegistry B)), (''type'', JStr ''AsteriskSessionEvidence''),
      (''pbxFingerprintSource'', JStr ''configured-certificate''), (''institutionId'', JStr institutionId),
      (''authorizationId'', JStr authorizationId), (''attemptId'', JStr (saId attempt)),
      (''sessionId'', JStr (saSession attempt)), (''bindingHash'', JStr (hashCanonical L b)),
      (''connectionGeneration'', JStr (saGeneration attempt)), (''bridgeId'', JStr (pxBridge px)),
      (''senderChannelId'', JStr (pxSenderChannel px)), (''recipientChannelId'', JStr (pxRecipientChannel px)),
      (''senderCallId'', JStr (obSenderCall ob)), (''recipientCallId'', JStr (obRecipientCall ob)),
      (''senderEndpoint'', JStr (pxSenderEndpoint px)), (''recipientEndpoint'', JStr (pxRecipientEndpoint px)),
      (''senderSdpHash'', jobj b ''senderSdpHash''), (''recipientSdpHash'', jobj b ''recipientSdpHash''),
      (''senderFingerprint'', jobj b ''senderFingerprint''), (''recipientFingerprint'', jobj b ''recipientFingerprint''),
      (''recipientNonce'', jobj b ''recipientNonce''), (''senderPbxFingerprint'', JStr (brFingerprint B)),
      (''recipientPbxFingerprint'', JStr (brFingerprint B)), (''evidenceSequence'', JNum (saRevision attempt)),
      (''state'', JStr st), (''issuedAt'', JNum now), (''expiresAt'', JNum (now + 8))]"

definition callEvidence ::
    "lib \<Rightarrow> 'w ari \<Rightarrow> bridgeEnv \<Rightarrow> string \<Rightarrow> ServiceAttempt \<Rightarrow> json \<Rightarrow> string \<Rightarrow> int \<Rightarrow> ('w, Signed) eff" where
  "callEvidence L A B institutionId attempt b st now w =
     (case (saPbx attempt, saAuthorization attempt) of
        (Some px, Some authorizationId) \<Rightarrow>
          if \<not> isFingerprint (brFingerprint B) then throwS (Error ''PBX_CERTIFICATE_PIN_REQUIRED'') w
          else (case (dget (pxReports px) ''sender'', dget (pxReports px) ''recipient'') of
            (Some sender, Some recipient) \<Rightarrow>
              bindS (observeCall A px) (\<lambda>ob.
              bindS (guardS (channelMismatch px sender recipient ob) (Error ''PBX_CHANNEL_CONTEXT_INVALID'')) (\<lambda>_.
              bindS (liftE (sdpChecks L (brFingerprint B) sender recipient b)) (\<lambda>_.
              bindS (if st = ''prepared'' then limitBoth A px (arNanos A w) now (saFirstConnectBy attempt) True
                     else bridgeCall A attempt px (arNanos A w) now) (\<lambda>_.
              bindS (liftE (parseWith pbxEvidenceSchema
                       (evidencePayload L B institutionId authorizationId attempt px b ob st now))) (\<lambda>payload.
              returnS \<lparr> sgPayload = payload, sgJws = signPayload L payload (brPrivate B) (brKid B) \<rparr>))))) w
          | _ \<Rightarrow> throwS (Error ''PBX_REPORTS_REQUIRED'') w)
      | _ \<Rightarrow> throwS (Error ''PBX_NOT_RESERVED'') w)"

end
