(* ===== verification/Pbx.thy ===== *)
theory Pbx
  imports Telephony
begin

text \<open>
  The routes of the telephone exchange, \<^verbatim>\<open>services/api/src/pbx-routes.ts\<close>, and the runtime that watches the
  calls, \<^verbatim>\<open>services/api/src/pbx-runtime.ts\<close>. What a route writes to the record is a function of its own; the
  record \<open>pbxHost\<close> gives the routes that also talk to Asterisk the store, the clock and the tables as steps
  over the world \<open>'w\<close>. The sealing of a credential (AES-256-GCM over random bytes) is a parameter.
\<close>

section \<open>Endpoints\<close>

record endpointEnv =
  enSeal :: "string \<Rightarrow> string"
  enOpen :: "string \<Rightarrow> (string \<times> string \<times> string) option"
  enMedia :: string

definition newPbx :: "string \<Rightarrow> PbxSession" where
  "newPbx prefix = \<lparr> pxBridge = prefix @ ''-bridge'', pxSenderChannel = prefix @ ''-sender'',
     pxRecipientChannel = prefix @ ''-recipient'', pxSenderEndpoint = prefix @ ''-s'',
     pxRecipientEndpoint = prefix @ ''-r'', pxState = PbxReserved, pxEvidence = None, pxCredentials = [], pxReports = [] \<rparr>"

definition reservedPbx :: "(nat \<Rightarrow> string) \<Rightarrow> ServiceAttempt \<Rightarrow> PbxSession" where
  "reservedPbx u attempt = (case saPbx attempt of Some px \<Rightarrow> px | None \<Rightarrow> newPbx (''cs-'' @ u 0))"

definition endpointName :: "PbxSession \<Rightarrow> string \<Rightarrow> string" where
  "endpointName px role = (if role = ''sender'' then pxSenderEndpoint px else pxRecipientEndpoint px)"

definition sealedCredential :: "endpointEnv \<Rightarrow> PbxSession \<Rightarrow> string \<Rightarrow> string" where
  "sealedCredential X px role = (case dget (pxCredentials px) role of Some c \<Rightarrow> c | None \<Rightarrow> enSeal X (endpointName px role))"

definition preparationForbidden :: "serviceEnv \<Rightarrow> ServiceAttempt \<Rightarrow> bool" where
  "preparationForbidden E attempt \<longleftrightarrow>
     saProfile attempt \<noteq> ''asterisk-webrtc-v3'' \<or> saAuthorization attempt \<in> {None, Some []} \<or>
     terminal (saStatus attempt) \<or> seNow E \<ge> saFirstConnectBy attempt"

definition reserveEndpoint ::
    "lib \<Rightarrow> serviceEnv \<Rightarrow> (nat \<Rightarrow> string) \<Rightarrow> endpointEnv \<Rightarrow> Actor \<Rightarrow> string \<Rightarrow> string \<Rightarrow> serviceOp" where
  "reserveEndpoint L E u X actor requestId attemptId =
     idempotent L E actor requestId (JObj [(''action'', JStr ''pbx-endpoint''), (''attemptId'', JStr attemptId)]) (\<lambda>r.
       bindE (party r actor attemptId) (\<lambda>(s, attempt, intent).
       bindE (activeIntent L r (ciId intent) actor (seNow E)) (\<lambda>_.
       case sideOf actor of
         None \<Rightarrow> Inl (HttpError 409 ''PBX_PREPARATION_FORBIDDEN'')
       | Some role \<Rightarrow>
           if preparationForbidden E attempt then Inl (HttpError 409 ''PBX_PREPARATION_FORBIDDEN'')
           else let px = reservedPbx u attempt; sealed = sealedCredential X px role in
             Inr (ReplyJson (JObj [(''encrypted'', JStr sealed), (''expiresAt'', JNum (saCallEndBy attempt))]),
               onAttempt attemptId (\<lambda>a. a\<lparr> saPbx :=
                 Some (px\<lparr> pxCredentials := dput role sealed (pxCredentials px) \<rparr>) \<rparr>) r))))"

text \<open>The endpoint is still that of the attempt when the tables of Asterisk are filled.\<close>

definition sideOfMember :: "Member \<Rightarrow> string option" where
  "sideOfMember m = (if mbRole m = ''gateway'' then Some ''sender'' else if mbRole m = ''recipient'' then Some ''recipient'' else None)"

definition pbxEndpointForbidden :: "InstitutionRecord \<Rightarrow> ServiceState \<Rightarrow> Member \<Rightarrow> ServiceAttempt \<Rightarrow> int \<Rightarrow> bool" where
  "pbxEndpointForbidden r s m t now \<longleftrightarrow>
     mbActive m = Some False \<or> irStatus r \<noteq> InstitutionActive \<or> \<not> ssReady s \<or> saStatus t \<noteq> SAuthorized \<or>
     saFirstConnectBy t \<le> now \<or> saCallEndBy t \<le> now"

definition endpointChanged ::
    "InstitutionRecord \<Rightarrow> ServiceState \<Rightarrow> Member \<Rightarrow> string \<Rightarrow> string \<Rightarrow> ServiceAttempt \<Rightarrow> ContactIntent \<Rightarrow> string \<Rightarrow> bool" where
  "endpointChanged r s m role user t intent sealed \<longleftrightarrow>
     (role = ''sender'' \<and> (saAgent t \<noteq> user \<or> ciAgent intent \<noteq> user \<or> mbService m \<noteq> Some (ciService intent))) \<or>
     (role = ''recipient'' \<and> ciRecipient intent \<noteq> user) \<or>
     Option.bind (saPbx t) (\<lambda>px. dget (pxCredentials px) role) \<noteq> Some sealed \<or>
     (case authorizationOf s t of None \<Rightarrow> True
      | Some auth \<Rightarrow> sauCancelled auth \<or> \<not> isStr (sauPayload auth) ''epoch'' (irEpoch r) \<or>
          \<not> isNum (sauPayload auth) ''approvalKeyVersion'' (irKeyVersion r))"

definition assertPbxEndpointCurrent ::
    "lib \<Rightarrow> InstitutionRecord \<Rightarrow> string \<Rightarrow> string \<Rightarrow> string \<Rightarrow> int \<Rightarrow> ServiceAttempt result" where
  "assertPbxEndpointCurrent L r attemptId user sealed now =
     (case (irService r, attemptIn r attemptId, dget (irMembers r) user) of
        (Some s, Some t, Some m) \<Rightarrow>
          (case sideOfMember m of
             None \<Rightarrow> Inl (HttpError 409 ''PBX_PREPARATION_FORBIDDEN'')
           | Some role \<Rightarrow>
               if pbxEndpointForbidden r s m t now then Inl (HttpError 409 ''PBX_PREPARATION_FORBIDDEN'')
               else bindE (activeIntent L r (saIntent t) \<lparr> acUser = user, acRole = mbRole m, acInstitution = irId r,
                        acService = None, acGeneration = None \<rparr> now) (\<lambda>intent.
                 if endpointChanged r s m role user t intent sealed then Inl (HttpError 409 ''PBX_ENDPOINT_CONTEXT_CHANGED'')
                 else Inr t))
      | _ \<Rightarrow> Inl (HttpError 409 ''PBX_PREPARATION_FORBIDDEN''))"

record PbxLease =
  plId :: string
  plInstitution :: string
  plAttempt :: string
  plUser :: string
  plExpiresAt :: int

text \<open>The tables Asterisk reads; of a row, what differs between endpoints.\<close>

record PbxTables =
  ptLeases :: "PbxLease list"
  ptAuths :: "(string \<times> string \<times> string) list"
  ptAors :: "string list"
  ptEndpoints :: "(string \<times> string) list"
  ptContacts :: "(string \<times> string) list"

definition insertNew :: "('a \<Rightarrow> string) \<Rightarrow> 'a \<Rightarrow> 'a list \<Rightarrow> 'a list" where
  "insertNew key row rows = (if key row \<in> set (map key rows) then rows else rows @ [row])"

definition passwordDigest :: "lib \<Rightarrow> string \<times> string \<times> string \<Rightarrow> string" where
  "passwordDigest L c = (case c of (user, password, realm) \<Rightarrow>
     ''SHA-256:'' @ sha256hex L (user @ '':'' @ realm @ '':'' @ password))"

definition addEndpoint :: "lib \<Rightarrow> endpointEnv \<Rightarrow> string \<times> string \<times> string \<Rightarrow> PbxLease \<Rightarrow> PbxTables \<Rightarrow> PbxTables" where
  "addEndpoint L X c row T = (case c of (user, password, realm) \<Rightarrow> T\<lparr>
     ptLeases := insertNew plId row (ptLeases T),
     ptAuths := insertNew fst (user, realm, passwordDigest L c) (ptAuths T),
     ptAors := insertNew id user (ptAors T),
     ptEndpoints := insertNew fst (user, enMedia X) (ptEndpoints T) \<rparr>)"

definition ensureEndpoint ::
    "lib \<Rightarrow> endpointEnv \<Rightarrow> bool \<Rightarrow> int \<Rightarrow> InstitutionRecord option \<Rightarrow> string \<Rightarrow> string \<Rightarrow> string \<Rightarrow> string \<Rightarrow> int \<Rightarrow> PbxTables \<Rightarrow>
     PbxTables result" where
  "ensureEndpoint L X ready now record' sealed institutionId attemptId user expiresAt T =
     bindE (ofOption LibraryError (enOpen X sealed)) (\<lambda>c.
     bindE (ofOption (HttpError 404 ''INSTITUTION_NOT_FOUND'') record') (\<lambda>r.
     if \<not> ready then Inl (HttpError 503 ''CONSUMPTION_HISTORY_RECOVERY_REQUIRED'')
     else bindE (assertPbxEndpointCurrent L r attemptId user sealed now) (\<lambda>attempt.
       if expiresAt \<noteq> saCallEndBy attempt then Inl (HttpError 409 ''PBX_ENDPOINT_EXPIRY_CHANGED'')
       else if list_ex (\<lambda>l. plId l = fst c \<and> (plInstitution l \<noteq> institutionId \<or> plAttempt l \<noteq> attemptId \<or> plUser l \<noteq> user))
         (ptLeases T)
       then Inl (Error ''PBX_ENDPOINT_CONFLICT'')
       else Inr (addEndpoint L X c \<lparr> plId = fst c, plInstitution = institutionId, plAttempt = attemptId, plUser = user,
         plExpiresAt = expiresAt \<rparr> T))))"

definition removeEndpoints :: "string \<Rightarrow> PbxTables \<Rightarrow> PbxTables" where
  "removeEndpoints attemptId T =
     (let gone = map plId (filter (\<lambda>l. plAttempt l = attemptId) (ptLeases T)) in
      \<lparr> ptLeases = filter (\<lambda>l. plId l \<notin> set gone) (ptLeases T),
        ptAuths = filter (\<lambda>x. fst x \<notin> set gone) (ptAuths T), ptAors = filter (\<lambda>x. x \<notin> set gone) (ptAors T),
        ptEndpoints = filter (\<lambda>x. fst x \<notin> set gone) (ptEndpoints T),
        ptContacts = filter (\<lambda>x. snd x \<notin> set gone) (ptContacts T) \<rparr>)"

section \<open>Reports\<close>

definition reportMismatch :: "serviceEnv \<Rightarrow> ServiceAttempt \<Rightarrow> ServiceKey \<Rightarrow> string \<Rightarrow> json \<Rightarrow> bool" where
  "reportMismatch E attempt enrolled role q \<longleftrightarrow>
     \<not> isStr q ''role'' role \<or> \<not> isStr q ''attemptId'' (saId attempt) \<or> \<not> isStr q ''sessionId'' (saSession attempt) \<or>
     \<not> isStr q ''connectionGeneration'' (saGeneration attempt) \<or> \<not> isStr q ''recipientNonce'' (skNonce enrolled) \<or>
     \<not> isStr q ''networkId'' (seNetwork E) \<or> \<not> isStr q ''registryAddress'' (seRegistry E)"

definition browserKey :: "string \<Rightarrow> json \<Rightarrow> ServiceKey \<Rightarrow> json result" where
  "browserKey role challenge enrolled = (if role = ''sender''
     then bindE (parseWith serviceProofSchema challenge) (\<lambda>q. Inr (jobj q ''browserPublicKey'')) else Inr (skKey enrolled))"

definition putReport :: "string \<Rightarrow> PbxReport \<Rightarrow> ServiceAttempt \<Rightarrow> ServiceAttempt" where
  "putReport role report a = a\<lparr> saPbx := map_option (\<lambda>px. px\<lparr> pxReports := dput role report (pxReports px) \<rparr>) (saPbx a) \<rparr>"

definition browserReport :: "string \<Rightarrow> json \<Rightarrow> PbxReport result" where
  "browserReport jws q = bindE (extractSingleSdpFingerprint (jstr q ''localSdp'')) (\<lambda>f.
     Inr \<lparr> prCallId = jstr q ''callId'', prSdp = jstr q ''localSdp'', prRemoteSdp = jstr q ''remoteSdp'',
       prFingerprint = f, prProof = jws \<rparr>)"

definition reportCall :: "lib \<Rightarrow> serviceEnv \<Rightarrow> Actor \<Rightarrow> string \<Rightarrow> string \<Rightarrow> string \<Rightarrow> serviceOp" where
  "reportCall L E actor requestId attemptId jws =
     idempotent L E actor requestId (JObj [(''action'', JStr ''pbx-report''), (''attemptId'', JStr attemptId),
         (''jws'', JStr jws)]) (\<lambda>r.
       bindE (party r actor attemptId) (\<lambda>(s, attempt, intent).
       case (sideOf actor, saPbx attempt) of
         (Some role, Some px) \<Rightarrow>
           if saStatus attempt \<noteq> SAuthorized \<or> seNow E \<ge> saFirstConnectBy attempt
           then Inl (HttpError 409 ''PBX_REPORT_FORBIDDEN'')
           else (case (authorizationOf s attempt, saRecipientKey attempt) of
             (Some auth, Some enrolled) \<Rightarrow>
               bindE (ofOption (HttpError 409 ''PBX_CHALLENGE_MISSING'') (challengeOf L s (sauPayload auth))) (\<lambda>challenge.
               bindE (browserKey role challenge enrolled) (\<lambda>key.
               bindE (ofOption LibraryError (importJwk L key)) (\<lambda>k.
               bindE (verifyPayload L jws k ''PbxBrowserReport'' (hashCanonical L key) pbxReportSchema) (\<lambda>q.
               bindE (assertTemporalValidity q (seNow E)) (\<lambda>_.
               if reportMismatch E attempt enrolled role q then Inl (HttpError 409 ''PBX_REPORT_CONTEXT_INVALID'')
               else if (case dget (pxReports px) role of None \<Rightarrow> False | Some prior \<Rightarrow> prProof prior \<noteq> jws)
               then Inl (HttpError 409 ''PBX_RENEGOTIATION_REQUIRES_NEW_ATTEMPT'')
               else bindE (browserReport jws q) (\<lambda>report.
                 Inr (ReplyJson (JObj [(''reported'', JBool True)]), onAttempt attemptId (putReport role report) r)))))))
           | _ \<Rightarrow> Inl (HttpError 409 ''PBX_ENROLLMENT_REQUIRED''))
       | _ \<Rightarrow> Inl (HttpError 409 ''PBX_REPORT_FORBIDDEN'')))"

end
