(* ===== verification/Service_Runs.thy ===== *)
theory Service_Runs
  imports Pbx Contracts
begin

text \<open>
  Runs of the service authority and their invariants. \<open>ends P m\<close> says that the transaction \<open>m\<close>, when
  it commits, commits a record with \<open>P\<close> (and \<open>answers P m\<close> the same of the reply and the record); its rules follow the shape of an operation. The locale
  \<open>service_invariant\<close> names the writes the operations make to the service state; a property that survives
  these writes survives every operation of the service and every sweep. \<open>Issuer_Runs\<close> adds the management
  and the ledger, and the runs.
\<close>

section \<open>What a transaction commits\<close>

definition answers :: "(ServiceReply \<Rightarrow> InstitutionRecord \<Rightarrow> bool) \<Rightarrow> (ServiceReply \<times> InstitutionRecord) result \<Rightarrow> bool" where
  "answers P m \<longleftrightarrow> (\<forall>reply r. m = Inr (reply, r) \<longrightarrow> P reply r)"

abbreviation ends :: "(InstitutionRecord \<Rightarrow> bool) \<Rightarrow> (ServiceReply \<times> InstitutionRecord) result \<Rightarrow> bool" where
  "ends P \<equiv> answers (\<lambda>_. P)"

named_theorems ends_intros

lemma answers_simple [ends_intros]: "answers P (Inl e)" "P reply r \<Longrightarrow> answers P (Inr (reply, r))"
  by (simp_all add: answers_def)

lemma answers_bindE [ends_intros]: "(\<And>v. m = Inr v \<Longrightarrow> answers P (f v)) \<Longrightarrow> answers P (bindE m f)"
  by (cases m) (simp_all add: answers_def bindE_def)

lemma answers_if [ends_intros]:
  "(c \<Longrightarrow> answers P m) \<Longrightarrow> (\<not> c \<Longrightarrow> answers P m') \<Longrightarrow> answers P (if c then m else m')"
  by simp

lemma answers_case_prod [ends_intros]:
  "(\<And>a b. x = (a, b) \<Longrightarrow> answers P (f a b)) \<Longrightarrow> answers P (case x of (a, b) \<Rightarrow> f a b)"
  by (cases x) simp

lemma answers_case_option [ends_intros]:
  "(x = None \<Longrightarrow> answers P m) \<Longrightarrow> (\<And>v. x = Some v \<Longrightarrow> answers P (f v)) \<Longrightarrow>
   answers P (case x of None \<Rightarrow> m | Some v \<Rightarrow> f v)"
  by (cases x) simp_all

lemma answers_case_sum [ends_intros]:
  "(\<And>e. x = Inl e \<Longrightarrow> answers P (f e)) \<Longrightarrow> (\<And>v. x = Inr v \<Longrightarrow> answers P (g v)) \<Longrightarrow>
   answers P (case x of Inl e \<Rightarrow> f e | Inr v \<Rightarrow> g v)"
  by (cases x) simp_all

lemma answers_Let [ends_intros]: "answers P (f v) \<Longrightarrow> answers P (let x = v in f x)"
  by simp

lemma answersD: "answers P m \<Longrightarrow> m = Inr (reply, r) \<Longrightarrow> P reply r"
  by (simp add: answers_def)

section \<open>The life of an attempt\<close>

fun attemptRank :: "AttemptStatus \<Rightarrow> nat" where
  "attemptRank SCreated = 0"
| "attemptRank SAuthorized = 1"
| "attemptRank SConsumed = 2"
| "attemptRank SAccepted = 3"
| "attemptRank _ = 4"

lemma terminal_attemptRank: "terminal st \<longleftrightarrow> attemptRank st = 4"
  by (cases st) (simp_all add: terminal_def)

text \<open>A side that a browser session has claimed stays claimed by that session.\<close>

definition ownersKept :: "ServiceAttempt \<Rightarrow> ServiceAttempt \<Rightarrow> bool" where
  "ownersKept a a' \<longleftrightarrow> (\<forall>role x. dget (saOwnerSessions a) role = Some x \<and> x \<noteq> [] \<longrightarrow>
     dget (saOwnerSessions a') role = Some x)"

lemma ownersKept_same [simp]: "saOwnerSessions a' = saOwnerSessions a \<Longrightarrow> ownersKept a a'"
  by (simp add: ownersKept_def)

definition advances :: "ServiceAttempt \<Rightarrow> ServiceAttempt \<Rightarrow> bool" where
  "advances a a' \<longleftrightarrow> attemptRank (saStatus a) \<le> attemptRank (saStatus a') \<and>
     (terminal (saStatus a) \<longrightarrow> saStatus a' = saStatus a) \<and> ownersKept a a'"

lemma advances_same [simp]:
  "saStatus a' = saStatus a \<Longrightarrow> saOwnerSessions a' = saOwnerSessions a \<Longrightarrow> advances a a'"
  by (simp add: advances_def)

lemma advances_from: "\<not> terminal (saStatus a) \<Longrightarrow> terminal (saStatus a') \<Longrightarrow>
    saOwnerSessions a' = saOwnerSessions a \<Longrightarrow> advances a a'"
  by (cases "saStatus a"; cases "saStatus a'") (simp_all add: advances_def terminal_def)

lemma advances_requestCleanup [simp]: "advances a (requestCleanup now a)"
  by (simp add: requestCleanup_def)

lemma advances_trans: "advances a b \<Longrightarrow> advances b c \<Longrightarrow> advances a c"
  by (auto simp: advances_def ownersKept_def)

lemma advances_lapse [simp]: "advances a (lapse now j a)"
  by (auto simp: lapse_def terminal_def intro: advances_from)

lemma rel_advances [simp]: "rel_option advances x (map_option f x) \<longleftrightarrow> (\<forall>a. x = Some a \<longrightarrow> advances a (f a))"
  by (cases x) simp_all

section \<open>Calls\<close>

datatype serviceCall =
    SCreateIntent Actor string json
  | SIssueCredential Actor string string
  | SCreateAttempt Actor string string string
  | SChallenge Actor string string string json
  | SAuthorize Actor string string string
  | SEnroll Actor string string json string
  | SConsume Actor string string json string string
  | SLease Actor string string int string string string "string option"
  | SRenewalChallenge Actor string string
  | SSubmitRenewal Actor string string string
  | SMediaReady Actor string string string
  | SOutcome Actor string string string string
  | SRevoke Actor string string
  | SConsent Actor string string bool
  | SClaim Actor string string string
  | SBinding Actor string string
  | SPossession Actor string string json string
  | SCancel Actor string string
  | SConfirm Actor string string string
  | SReserve endpointEnv Actor string string
  | SReport Actor string string string

fun serviceStep :: "lib \<Rightarrow> serviceEnv \<Rightarrow> (nat \<Rightarrow> string) \<Rightarrow> serviceCall \<Rightarrow> serviceOp" where
  "serviceStep L E u (SCreateIntent a q input) = serviceCreateIntent L E u a q input"
| "serviceStep L E u (SIssueCredential a q uri) = serviceIssueCredential L E u a q uri"
| "serviceStep L E u (SCreateAttempt a q i p) = serviceCreateAttempt L E u a q i p"
| "serviceStep L E u (SChallenge a q i d k) = serviceChallenge L E u a q i d k"
| "serviceStep L E u (SAuthorize a q c p) = serviceAuthorize L E u a q c p"
| "serviceStep L E u (SEnroll a q i k n) = serviceEnroll L E a q i k n"
| "serviceStep L E u (SConsume a q i b x y) = serviceConsume L E u a q i b x y"
| "serviceStep L E u (SLease a q i n x p c y) = serviceLease L E u a q i n x p c y"
| "serviceStep L E u (SRenewalChallenge a q i) = renewalChallenge L E u a q i"
| "serviceStep L E u (SSubmitRenewal a q i x) = submitRenewal L E a q i x"
| "serviceStep L E u (SMediaReady a q i x) = mediaReadyOp L E a q i x"
| "serviceStep L E u (SOutcome a q i o' x) = serviceOutcome L E u a q i o' x"
| "serviceStep L E u (SRevoke a q d) = serviceRevoke L E u a q d"
| "serviceStep L E u (SConsent a q i g) = serviceConsent L E u a q i g"
| "serviceStep L E u (SClaim a q i x) = claimCall L E a q i x"
| "serviceStep L E u (SBinding a q i) = sessionBinding L E a q i"
| "serviceStep L E u (SPossession a q i b x) = storePossession L E a q i b x"
| "serviceStep L E u (SCancel a q i) = cancelContact L E u a q i"
| "serviceStep L E u (SConfirm a q i x) = officialConfirm L E u a q i x"
| "serviceStep L E u (SReserve X a q i) = reserveEndpoint L E u X a q i"
| "serviceStep L E u (SReport a q i x) = reportCall L E a q i x"

text \<open>\<^verbatim>\<open>randomUUID\<close> returns identifiers that are not yet in use.\<close>

definition unusedId :: "string \<Rightarrow> InstitutionRecord \<Rightarrow> bool" where
  "unusedId i r \<longleftrightarrow> (case irService r of None \<Rightarrow> True
     | Some s \<Rightarrow> dget (ssAttempts s) i = None \<and> dget (ssAuthorizations s) i = None \<and> dget (ssConsumptions s) i = None)"

text \<open>A transaction that throws leaves the record as it was.\<close>

definition commit :: "serviceOp \<Rightarrow> InstitutionRecord \<Rightarrow> InstitutionRecord" where
  "commit op r = (case op r of Inl _ \<Rightarrow> r | Inr (_, r') \<Rightarrow> r')"

section \<open>Views of the record\<close>

definition serviceHas :: "(ServiceState \<Rightarrow> bool) \<Rightarrow> InstitutionRecord \<Rightarrow> bool" where
  "serviceHas I r \<longleftrightarrow> (case irService r of None \<Rightarrow> False | Some s \<Rightarrow> I s)"

definition requestsOf :: "InstitutionRecord \<Rightarrow> RequestEntry dict option" where
  "requestsOf r = map_option ssRequests (irService r)"

lemma irService_onService [simp]: "irService (onService f r) = map_option f (irService r)"
  by (simp add: onService_def)

lemma irService_serviceEvent:
  "irService (serviceEvent now uuid user kind i p r) =
     irService (if kind = ''call.cleanup'' then onAttempt i (requestCleanup now) r else r)"
  by (simp add: serviceEvent_def Let_def)

lemma attemptIn_onAttempt [simp]:
  "attemptIn (onAttempt i f r) j = (if j = i then map_option f (attemptIn r i) else attemptIn r j)"
  by (cases "irService r") (auto simp: attemptIn_def onAttempt_def split: option.splits)

lemma attemptIn_serviceEvent:
  "attemptIn (serviceEvent now uuid user kind i p r) j =
     (if kind = ''call.cleanup'' \<and> j = i then map_option (requestCleanup now) (attemptIn r i) else attemptIn r j)"
  by (simp add: attemptIn_def irService_serviceEvent del: attemptIn_onAttempt)
    (simp add: attemptIn_def [symmetric])

lemma requestsOf_onService: "(\<And>s. ssRequests (f s) = ssRequests s) \<Longrightarrow> requestsOf (onService f r) = requestsOf r"
  by (cases "irService r") (simp_all add: requestsOf_def)

lemma requestsOf_writes [simp]:
  "requestsOf (putCheckpoint d cp r) = requestsOf r" "requestsOf (putCredential d item r) = requestsOf r"
  "requestsOf (putChallenge i c r) = requestsOf r" "requestsOf (onAttempt i f r) = requestsOf r"
  "requestsOf (putAttempt a r) = requestsOf r" "requestsOf (lapseAttempts now j r) = requestsOf r"
  "requestsOf (cancelStart i r) = requestsOf r" "requestsOf (dropQuotas now r) = requestsOf r"
  "requestsOf (serviceEvent now uuid user kind i p r) = requestsOf r"
proof -
  show a: "requestsOf (onAttempt i f r) = requestsOf r" for i f r
    unfolding onAttempt_def by (rule requestsOf_onService) (simp split: option.split)
  show "requestsOf (serviceEvent now uuid user kind i p r) = requestsOf r"
    by (simp add: requestsOf_def irService_serviceEvent) (simp add: a requestsOf_def [symmetric])
qed (simp_all add: putCheckpoint_def putCredential_def putChallenge_def putAttempt_def lapseAttempts_def
      cancelStart_def dropQuotas_def requestsOf_onService split: option.split)

lemma requestsOf_other [simp]:
  "requestsOf (r\<lparr> irIntents := x \<rparr>) = requestsOf r" "requestsOf (r\<lparr> irPendingUsage := y \<rparr>) = requestsOf r"
  by (simp_all add: requestsOf_def)

lemma currentStatus_cases:
  assumes "currentStatus L E d r = (st, r')"
  shows "r' = r \<or> (\<exists>cp. r' = putCheckpoint d cp r)"
  using assms unfolding currentStatus_def currentServiceState_def
  by (auto simp: Let_def split: option.splits sum.splits if_splits prod.splits)

lemma assertCurrent_cases: "assertCurrent L E d r = Inr r' \<Longrightarrow> r' = r \<or> (\<exists>cp. r' = putCheckpoint d cp r)"
  unfolding assertCurrent_def
  by (auto dest: currentStatus_cases split: prod.splits AuthorityStatus.splits)

lemma attemptIn_putCheckpoint [simp]: "attemptIn (putCheckpoint d cp r) i = attemptIn r i"
  by (cases "irService r") (simp_all add: attemptIn_def putCheckpoint_def)

lemma attemptIn_putChallenge [simp]: "attemptIn (putChallenge k c r) i = attemptIn r i"
  by (cases "irService r") (simp_all add: attemptIn_def putChallenge_def)

lemma terminal_outcomeStatus [simp]: "terminal (outcomeStatus x)"
  by (simp add: terminal_def outcomeStatus_def)

lemma unusedId_putCheckpoint [simp]: "unusedId j (putCheckpoint d cp r) = unusedId j r"
  by (cases "irService r") (simp_all add: unusedId_def putCheckpoint_def)

lemma irConsumptions_putCheckpoint [simp]: "irConsumptions (putCheckpoint d cp r) = irConsumptions r"
  by (simp add: putCheckpoint_def onService_def)

lemma serviceState_Inr [result_simps]: "serviceState r = Inr s \<longleftrightarrow> irService r = Some s \<and> ssReady s"
  by (auto simp: serviceState_def split: option.splits)

lemma party_Inr:
  assumes "party r actor i = Inr (s, a, intent)"
  shows "irService r = Some s" "dget (ssAttempts s) i = Some a" "attemptIn r i = Some a"
    "dget (irIntents r) (saIntent a) = Some intent" "\<not> attemptHidden r actor a intent" "\<not> assignmentChanged r a intent"
  using assms unfolding party_def
  by (auto simp: bindE_eq_Inr ofOption_eq_Inr serviceState_Inr attemptIn_def split: if_splits)

lemma assertCurrent_frame:
  assumes "assertCurrent L E d r = Inr r'"
  shows "requestsOf r' = requestsOf r" "attemptIn r' i = attemptIn r i" "unusedId j r' = unusedId j r"
    "irConsumptions r' = irConsumptions r"
  using assertCurrent_cases [OF assms] by auto

lemma currentStatus_frame:
  assumes "currentStatus L E d r = (st, r')"
  shows "requestsOf r' = requestsOf r" "attemptIn r' i = attemptIn r i"
  using currentStatus_cases [OF assms] by auto

lemma unusedId_writes [simp]:
  "unusedId j (putChallenge i c r) = unusedId j r" "unusedId j (lapseAttempts now k r) = unusedId j r"
  by (cases "irService r"; simp add: unusedId_def putChallenge_def lapseAttempts_def)+

lemma unusedId_onAttempt [simp]: "attemptIn r i = Some a \<Longrightarrow> unusedId j (onAttempt i f r) = unusedId j r"
  by (cases "irService r") (auto simp: unusedId_def onAttempt_def attemptIn_def split: option.splits)

lemma unusedId_onAttempt_I: "unusedId j r \<Longrightarrow> unusedId j (onAttempt i f r)"
  by (cases "irService r") (auto simp: unusedId_def onAttempt_def split: option.splits)

lemma serviceConsumeChecks_frame:
  assumes "serviceConsumeChecks L E actor a intent auth b x y r = Inr r'"
  shows "r' = r \<or> (\<exists>d cp. r' = putCheckpoint d cp r)" "\<not> startRefused E r a auth"
  using assms unfolding serviceConsumeChecks_def
  by (auto simp: bindE_eq_Inr Let_def dest: assertCurrent_cases split: if_splits)

text \<open>The receipt names the authorization it is kept under.\<close>

lemma serviceReceipt_filed:
  assumes "parseWith serviceReceiptSchema (serviceReceipt L E r a hash) = Inr payload"
  shows "isStr payload ''authorizationId'' (jstr a ''authorizationId'')"
proof -
  from assms have p: "payload = serviceReceipt L E r a hash" and "serviceReceiptSchema (serviceReceipt L E r a hash)"
    by (auto simp: parseWith_eq_Inr)
  then have "finalsId (jobj a ''authorizationId'')"
    by (auto simp: serviceReceiptSchema_def zObject_def serviceReceipt_def serviceMessage_def jget_def)
  then obtain s where "jobj a ''authorizationId'' = JStr s"
    by (auto simp: finalsId_def zString_def split: json.splits)
  then show ?thesis
    by (auto simp: p serviceReceipt_def serviceMessage_def isStr_def jget_def jstr_def jobj_def split: option.splits)
qed

lemma leaseChecks_Inr:
  assumes "leaseChecks L E actor i n x p y r = Inr (a, intent, auth, b)"
  shows "attemptIn r i = Some a" "\<not> leaseRefused E r a auth" "n = leaseSequence a + 1" "saBinding a = Some b"
  using assms unfolding leaseChecks_def
  by (auto simp: bindE_eq_Inr ofOption_eq_Inr dest: party_Inr(3) split: if_splits)

lemma lease_advances:
  assumes "leaseChecks L E actor i n x p y r = Inr (a, intent, auth, b)" "attemptIn r i = Some a0"
    and "saStatus a' = SAccepted \<or> saStatus a' = SCancelled" "saOwnerSessions a' = saOwnerSessions a0"
  shows "advances a0 a'"
  using assms leaseChecks_Inr(1,2) [OF assms(1)] by (auto simp: leaseRefused_def advances_def terminal_def)

lemma requestsOf_routes [simp]:
  "requestsOf (closeIntent j st intent r) = requestsOf r" "requestsOf (putConfirmation c r) = requestsOf r"
  by (simp add: closeIntent_def) (simp add: putConfirmation_def requestsOf_onService)

lemma requestsOf_closeOne [simp]: "requestsOf (snd (closeOne E u actor j i nr)) = requestsOf (snd nr)"
  by (simp add: closeOne_def split: prod.split option.split)

lemma requestsOf_closeCalls: "closeCalls E u actor j r = (n, r') \<Longrightarrow> requestsOf r' = requestsOf r"
proof -
  have "requestsOf (snd (fold (closeOne E u actor j) xs nr)) = requestsOf (snd nr)" for xs nr
    by (induction xs arbitrary: nr) simp_all
  from this [of _ "(0, r)"] show "closeCalls E u actor j r = (n, r') \<Longrightarrow> requestsOf r' = requestsOf r"
    by (auto simp: closeCalls_def dest!: arg_cong [where f = snd] split: option.splits)
qed

lemma claim_advances:
  assumes "party r actor i = Inr (s, attempt, intent)" "attemptIn r i = Some a" "\<not> ownedByAnother attempt role x"
  shows "advances a (a\<lparr> saOwnerSessions := dput role x (saOwnerSessions a) \<rparr>)"
  using assms(2,3) party_Inr(3) [OF assms(1)] by (auto simp: advances_def ownersKept_def ownedByAnother_def)

text \<open>
  The body of an idempotent operation keeps \<open>I\<close>, under fresh identifiers, and leaves the remembered
  requests alone.
\<close>

definition keepsState :: "(ServiceState \<Rightarrow> bool) \<Rightarrow> string \<Rightarrow> serviceOp \<Rightarrow> bool" where
  "keepsState I i op \<longleftrightarrow> (\<forall>r. serviceHas I r \<longrightarrow> unusedId i r \<longrightarrow>
     ends (\<lambda>r'. serviceHas I r' \<and> requestsOf r' = requestsOf r) (op r))"

section \<open>Invariants of the service state\<close>

locale service_invariant =
  fixes I :: "ServiceState \<Rightarrow> bool" and T :: int
  assumes checkpoints: "I s \<Longrightarrow> I (s\<lparr> ssCheckpoints := cs \<rparr>)"
    and credentials: "I s \<Longrightarrow> I (s\<lparr> ssCredentials := ds \<rparr>)"
    and challenges: "I s \<Longrightarrow> I (s\<lparr> ssChallenges := hs \<rparr>)"
    and forgetting: "I s \<Longrightarrow> now \<le> T \<Longrightarrow> I (s\<lparr> ssRequests := liveRequests now (ssRequests s) \<rparr>)"
    and remembering: "I s \<Longrightarrow> dget (ssRequests s) k = None \<Longrightarrow> I (s\<lparr> ssRequests := dput k e (ssRequests s) \<rparr>)"
    and charging: "I s \<Longrightarrow> 0 < n \<Longrightarrow> chargeAll now day n ks (ssQuotas s) = Inr qs \<Longrightarrow> I (s\<lparr> ssQuotas := qs \<rparr>)"
    and dropping: "I s \<Longrightarrow> I (s\<lparr> ssQuotas := filter p (ssQuotas s) \<rparr>)"
    and attempting: "I s \<Longrightarrow> dget (ssAttempts s) i = None \<Longrightarrow> I (s\<lparr> ssAttempts := dput i a (ssAttempts s) \<rparr>)"
    and advancing: "I s \<Longrightarrow> dget (ssAttempts s) i = Some a \<Longrightarrow> advances a a' \<Longrightarrow>
      I (s\<lparr> ssAttempts := dput i a' (ssAttempts s) \<rparr>)"
    and moving: "I s \<Longrightarrow> (\<And>i. rel_option advances (dget (ssAttempts s) i) (dget attempts i)) \<Longrightarrow>
      I (s\<lparr> ssAttempts := attempts \<rparr>)"
    and authorizing: "I s \<Longrightarrow> dget (ssAuthorizations s) i = None \<Longrightarrow>
      I (s\<lparr> ssAuthorizations := dput i auth (ssAuthorizations s) \<rparr>)"
    and cancelling: "I s \<Longrightarrow> dget (ssAuthorizations s) i = Some auth \<Longrightarrow>
      I (s\<lparr> ssAuthorizations := dput i (auth\<lparr> sauCancelled := True \<rparr>) (ssAuthorizations s) \<rparr>)"
    and withdrawing: "I s \<Longrightarrow>
      (\<And>i. dget auths i = map_option (\<lambda>auth. if P i then auth\<lparr> sauCancelled := True \<rparr> else auth) (dget (ssAuthorizations s) i)) \<Longrightarrow>
      I (s\<lparr> ssAuthorizations := auths \<rparr>)"
    and consuming: "I s \<Longrightarrow> dget (ssConsumptions s) i = None \<Longrightarrow> isStr (sgPayload receipt) ''authorizationId'' i \<Longrightarrow>
      I (s\<lparr> ssConsumptions := dput i receipt (ssConsumptions s) \<rparr>)"
    and confirming: "I s \<Longrightarrow> I (s\<lparr> ssConfirmations := fs \<rparr>)"
begin

lemma has_onService: "serviceHas I r \<Longrightarrow> (\<And>s. irService r = Some s \<Longrightarrow> I s \<Longrightarrow> I (f s)) \<Longrightarrow> serviceHas I (onService f r)"
  by (cases "irService r") (simp_all add: serviceHas_def)

lemma has_onAttempt:
  "serviceHas I r \<Longrightarrow> (\<And>a. attemptIn r i = Some a \<Longrightarrow> advances a (f a)) \<Longrightarrow> serviceHas I (onAttempt i f r)"
  unfolding onAttempt_def
  by (rule has_onService) (auto simp: attemptIn_def intro: advancing split: option.splits)

lemma has_event: "serviceHas I r \<Longrightarrow> serviceHas I (serviceEvent now uuid user kind i p r)"
  using has_onAttempt [of r i "requestCleanup now"]
  by (cases "kind = ''call.cleanup''") (simp_all add: serviceHas_def irService_serviceEvent)

lemma has_writes:
  "serviceHas I r \<Longrightarrow> serviceHas I (putCheckpoint d cp r)" "serviceHas I r \<Longrightarrow> serviceHas I (putCredential d item r)"
  "serviceHas I r \<Longrightarrow> serviceHas I (putChallenge k c r)" "serviceHas I r \<Longrightarrow> serviceHas I (lapseAttempts now j r)"
  "serviceHas I r \<Longrightarrow> serviceHas I (cancelStart i r)" "serviceHas I r \<Longrightarrow> serviceHas I (dropQuotas now r)"
  unfolding putCheckpoint_def putCredential_def putChallenge_def lapseAttempts_def cancelStart_def dropQuotas_def
  by (rule has_onService; auto intro: checkpoints credentials challenges moving cancelling dropping
        split: option.splits)+

lemma has_other: "serviceHas I r \<Longrightarrow> serviceHas I (r\<lparr> irIntents := x \<rparr>)"
  "serviceHas I r \<Longrightarrow> serviceHas I (r\<lparr> irPendingUsage := y \<rparr>)"
  by (simp_all add: serviceHas_def)

lemma has_currentStatus: "serviceHas I r \<Longrightarrow> currentStatus L E d r = (st, r') \<Longrightarrow> serviceHas I r'"
  using currentStatus_cases [of L E d r st r'] has_writes(1) by blast

lemma has_assertCurrent: "serviceHas I r \<Longrightarrow> assertCurrent L E d r = Inr r' \<Longrightarrow> serviceHas I r'"
  using assertCurrent_cases [of L E d r r'] has_writes(1) by blast

lemma keeps_idempotent:
  assumes op: "keepsState I i op" and T: "seNow E \<le> T" and r: "serviceHas I r" "unusedId i r"
  shows "ends (serviceHas I) (idempotent L E actor q input op r)"
  unfolding idempotent_def
proof (intro ends_intros)
  fix s
  let ?r = "onService (\<lambda>s. s\<lparr> ssRequests := liveRequests (seNow E) (ssRequests s) \<rparr>) r"
  assume s: "serviceState r = Inr s" and none: "dget (ssRequests s) (requestKey actor q) = None"
  from r s have "serviceHas I ?r" "unusedId i ?r"
    by (auto simp: serviceHas_def unusedId_def result_simps intro: forgetting [OF _ T])
  with op have op': "ends (\<lambda>r'. serviceHas I r' \<and> requestsOf r' = requestsOf ?r) (op ?r)"
    by (simp add: keepsState_def)
  fix v reply r' assume "op (onService (ssRequests_update (\<lambda>_. liveRequests (seNow E) (ssRequests s))) r) = Inr v"
    and v: "v = (reply, r')"
  moreover have "onService (ssRequests_update (\<lambda>_. liveRequests (seNow E) (ssRequests s))) r = ?r"
    using s by (simp add: onService_def result_simps)
  ultimately have r': "serviceHas I r'" "requestsOf r' = requestsOf ?r" using op' by (auto simp: answers_def)
  have "dget (liveRequests (seNow E) (ssRequests s)) (requestKey actor q) = None"
    using none by (force simp: liveRequests_def map_of_eq_None_iff)
  with r' s have "dget (ssRequests s') (requestKey actor q) = None" if "irService r' = Some s'" for s'
    using that by (auto simp: requestsOf_def result_simps)
  then show "serviceHas I (rememberReply (requestKey actor q)
      \<lparr> rqHash = hashCanonical L input, rqAt = seNow E, rqReply = reply \<rparr> r')"
    unfolding rememberReply_def by (intro has_onService r') (rule remembering)
qed (use r in simp_all)

lemmas has_intros = has_event has_writes has_other has_onAttempt

lemma importMockFds_frame: "importMockFds L actor input now r = (Inr intent, r') \<Longrightarrow> \<exists>x. r' = r\<lparr> irIntents := x \<rparr>"
  by (auto simp: importMockFds_def result_simps Let_def split: if_splits)

lemma request_keeps:
  assumes T: "seNow E \<le> T" and r: "serviceHas I r" "unusedId (''v3-'' @ u 0) r"
  shows keeps_createIntent: "ends (serviceHas I) (serviceCreateIntent L E u actor q input r)"
    and keeps_issueCredential: "ends (serviceHas I) (serviceIssueCredential L E u actor q uri r)"
    and keeps_enroll: "ends (serviceHas I) (serviceEnroll L E actor q i k n r)"
    and keeps_renewalChallenge: "ends (serviceHas I) (renewalChallenge L E u actor q i r)"
    and keeps_submitRenewal: "ends (serviceHas I) (submitRenewal L E actor q i x r)"
    and keeps_mediaReady: "ends (serviceHas I) (mediaReadyOp L E actor q i x r)"
    and keeps_challenge: "ends (serviceHas I) (serviceChallenge L E u actor q i d k r)"
  unfolding serviceCreateIntent_def serviceIssueCredential_def serviceEnroll_def renewalChallenge_def
    submitRenewal_def mediaReadyOp_def serviceChallenge_def
  by (rule keeps_idempotent [OF _ T r], unfold keepsState_def,
      intro allI impI ends_intros conjI has_intros, simp_all;
      auto dest: importMockFds_frame simp: has_other assertCurrent_frame has_assertCurrent)+

lemma has_putAttempt: "serviceHas I r \<Longrightarrow> unusedId (saId a) r \<Longrightarrow> serviceHas I (putAttempt a r)"
  unfolding putAttempt_def by (rule has_onService) (auto simp: unusedId_def intro: attempting)

lemma has_authorized:
  "serviceHas I r \<Longrightarrow> unusedId i r \<Longrightarrow>
   serviceHas I (onService (\<lambda>s. s\<lparr> ssAuthorizations := dput i auth (ssAuthorizations s) \<rparr>) r)"
  by (rule has_onService) (auto simp: unusedId_def intro: authorizing)

lemma has_consumed:
  "serviceHas I r \<Longrightarrow> isStr (sgPayload receipt) ''authorizationId'' i \<Longrightarrow> (\<And>s. irService r = Some s \<Longrightarrow> dget (ssConsumptions s) i = None) \<Longrightarrow>
   serviceHas I (onService (\<lambda>s. s\<lparr> ssConsumptions := dput i receipt (ssConsumptions s) \<rparr>) r)"
  by (rule has_onService) (auto intro: consuming)

lemma keeps_createAttempt:
  assumes T: "seNow E \<le> T" and r: "serviceHas I r" "unusedId (''v3-'' @ u 0) r"
  shows "ends (serviceHas I) (serviceCreateAttempt L E u actor q i p r)"
  unfolding serviceCreateAttempt_def
  by (rule keeps_idempotent [OF _ T r], unfold keepsState_def,
      intro allI impI ends_intros conjI has_intros has_putAttempt, simp_all add: newAttempt_def)

lemma has_recordAuthorization:
  assumes r: "serviceHas I r" "unusedId k r" and a: "attemptIn r i = Some a" "saStatus a = SCreated"
    and current: "assertCurrent L E d r = Inr r'"
  shows "serviceHas I (recordAuthorization j c i k auth r')" "requestsOf (recordAuthorization j c i k auth r') = requestsOf r"
  using has_assertCurrent [OF r(1) current] r a assertCurrent_frame [OF current]
  unfolding recordAuthorization_def
  by (auto simp: requestsOf_onService advances_def terminal_def
        intro!: has_authorized has_onAttempt has_writes)

lemma keeps_authorize:
  assumes T: "seNow E \<le> T" and r: "serviceHas I r" "unusedId (''v3-'' @ u 0) r"
  shows "ends (serviceHas I) (serviceAuthorize L E u actor q c p r)"
  unfolding serviceAuthorize_def
  by (rule keeps_idempotent [OF _ T r], unfold keepsState_def,
      intro allI impI ends_intros conjI has_event, simp_all;
      auto intro: has_recordAuthorization dest: party_Inr(3))

lemma has_recordConsumption:
  assumes r: "serviceHas I r" and p: "party r actor i = Inr (s, a, intent)" and none: "dget (ssConsumptions s) k = None"
    and ok: "serviceConsumeChecks L E actor a intent auth b x y r = Inr r'"
    and filed: "isStr (sgPayload receipt) ''authorizationId'' k"
  shows "serviceHas I (recordServiceConsumption i k b receipt r')"
    "requestsOf (recordServiceConsumption i k b receipt r') = requestsOf r"
proof -
  let ?f = "\<lambda>s. s\<lparr> ssConsumptions := dput k receipt (ssConsumptions s) \<rparr>"
  from serviceConsumeChecks_frame [OF ok] have r': "serviceHas I r'" "attemptIn r' i = attemptIn r i"
    "requestsOf r' = requestsOf r" and st: "saStatus a = SAuthorized"
    using r has_writes(1) by (auto simp: startRefused_def Let_def)
  have none': "dget (ssConsumptions s') k = None" if "irService r' = Some s'" for s'
    using that none party_Inr(1) [OF p] serviceConsumeChecks_frame(1) [OF ok] by (auto simp: putCheckpoint_def)
  have "attemptIn (onService ?f r') i = Some a"
    using r'(2) party_Inr(3) [OF p] by (cases "irService r'") (simp_all add: attemptIn_def)
  then show "serviceHas I (recordServiceConsumption i k b receipt r')"
    unfolding recordServiceConsumption_def
    by (intro has_onAttempt has_consumed filed r' none') (auto simp: advances_def terminal_def st)
  show "requestsOf (recordServiceConsumption i k b receipt r') = requestsOf r"
    by (simp add: recordServiceConsumption_def requestsOf_onService r')
qed

lemma keeps_consume:
  assumes T: "seNow E \<le> T" and r: "serviceHas I r" "unusedId (''v3-'' @ u 0) r"
  shows "ends (serviceHas I) (serviceConsume L E u actor q i b x y r)"
  unfolding serviceConsume_def
  by (rule keeps_idempotent [OF _ T r], unfold keepsState_def,
      intro allI impI ends_intros conjI has_event, simp_all add: has_recordConsumption serviceReceipt_filed)

lemma keeps_lease:
  assumes T: "seNow E \<le> T" and r: "serviceHas I r" "unusedId (''v3-'' @ u 0) r"
  shows "ends (serviceHas I) (serviceLease L E u actor q i n z p c y r)"
  unfolding serviceLease_def cancelRevoked_def cancelStart_def [symmetric]
  by (rule keeps_idempotent [OF _ T r], unfold keepsState_def Let_def,
      intro allI impI ends_intros conjI has_intros, simp_all;
      auto dest: has_currentStatus simp: acceptLease_def currentStatus_frame intro: lease_advances)

lemma keeps_outcome:
  assumes T: "seNow E \<le> T" and r: "serviceHas I r" "unusedId (''v3-'' @ u 0) r"
  shows "ends (serviceHas I) (serviceOutcome L E u actor q i o' x r)"
  unfolding serviceOutcome_def
  by (rule keeps_idempotent [OF _ T r], unfold keepsState_def,
      intro allI impI ends_intros conjI has_intros, simp_all;
      auto dest: party_Inr(3) simp: finishAttempt_def withdrawConsent_def intro!: advances_from)

lemma has_usage:
  "serviceHas I r \<Longrightarrow> usage E actor i unit n m r = Inr r' \<Longrightarrow> serviceHas I r' \<and> requestsOf r' = requestsOf r"
  unfolding usage_def
  by (auto simp: result_simps Let_def requestsOf_onService intro!: has_other has_onService charging split: if_splits)

lemma keeps_consent:
  assumes T: "seNow E \<le> T" and r: "serviceHas I r" "unusedId (''v3-'' @ u 0) r"
  shows "ends (serviceHas I) (serviceConsent L E u actor q i g r)"
  unfolding serviceConsent_def
  by (rule keeps_idempotent [OF _ T r], unfold keepsState_def,
      intro allI impI ends_intros conjI has_intros, simp_all;
      auto dest: has_usage split: if_splits)

lemma has_fold:
  "(\<And>x s. x \<in> set xs \<Longrightarrow> J s \<Longrightarrow> J (f x s)) \<Longrightarrow> J s \<Longrightarrow> J (fold f xs s)"
  by (induction xs arbitrary: s) auto

lemma attemptIn_cancelStart [simp]: "attemptIn (cancelStart i r) j = attemptIn r j"
  by (cases "irService r") (auto simp: attemptIn_def cancelStart_def split: option.splits)

lemma has_revokeOne:
  "serviceHas I r \<and> requestsOf r = qs \<Longrightarrow>
   serviceHas I (revokeOne E u actor e r) \<and> requestsOf (revokeOne E u actor e r) = qs"
  unfolding revokeOne_def Let_def
  by (auto simp: withdrawConsent_def terminal_def intro!: has_event has_onAttempt has_writes advances_from
      split: prod.splits option.splits)

lemma keeps_revoke:
  assumes T: "seNow E \<le> T" and r: "serviceHas I r" "unusedId (''v3-'' @ u 0) r"
  shows "ends (serviceHas I) (serviceRevoke L E u actor q d r)"
proof -
  have "serviceHas I (fold (revokeOne E u actor) xs (putCredential d item r')) \<and>
      requestsOf (fold (revokeOne E u actor) xs (putCredential d item r')) = requestsOf r'"
    if "serviceHas I r'" for xs item r'
    by (rule has_fold, rule has_revokeOne) (use that in \<open>auto intro: has_writes\<close>)
  note * = this [THEN conjunct1] this [THEN conjunct2]
  show ?thesis
    unfolding serviceRevoke_def
    by (rule keeps_idempotent [OF _ T r], unfold keepsState_def,
        intro allI impI ends_intros conjI has_event, simp_all add: *)
qed

lemma has_sweepEnd:
  "serviceHas I r \<Longrightarrow> attemptIn r i = Some a \<Longrightarrow> \<not> terminal (saStatus a) \<Longrightarrow> terminal st \<Longrightarrow>
   serviceHas I (sweepEnd E uuid i st reason r)"
  unfolding sweepEnd_def
  by (intro has_event has_onAttempt) (auto simp: finishAttempt_def withdrawConsent_def intro: advances_from)

lemma has_sweepAuthority:
  "serviceHas I r \<Longrightarrow> sweepAuthority L E observed checked i auth s r = Inr r' \<Longrightarrow> serviceHas I r'"
  unfolding sweepAuthority_def Let_def
  by (auto intro!: has_onAttempt has_writes split: sum.splits js_error.splits if_splits option.splits)

lemma has_sweepOne: "serviceHas I r \<Longrightarrow> serviceHas I (sweepOne L E u observed checked e r)"
  unfolding sweepOne_def
  by (auto simp: attemptIn_def terminal_def bind_eq_Some_conv intro: has_sweepEnd has_sweepAuthority
      split: prod.splits option.splits sum.splits)

lemma has_sweep: "serviceHas I r \<Longrightarrow> serviceHas I (sweep L E u observed r)"
  unfolding sweep_def sweepApply_def by (auto intro: has_fold has_sweepOne split: option.splits)

lemma has_stopOne: "serviceHas I (snd nr) \<Longrightarrow> serviceHas I (snd (stopOne E u i nr))"
  unfolding stopOne_def
  by (auto simp: interrupt_def withdrawConsent_def terminal_def
      intro!: has_event has_writes has_onAttempt advances_from split: prod.splits option.splits)

lemma has_stop: "serviceHas I r \<Longrightarrow> serviceHas I (snd (stopInterruptedCalls E u r))"
  unfolding stopInterruptedCalls_def
  by (auto intro!: has_fold [where J = "\<lambda>nr. serviceHas I (snd nr)"] has_stopOne split: option.splits)

lemma route_keeps:
  assumes T: "seNow E \<le> T" and r: "serviceHas I r" "unusedId (''v3-'' @ u 0) r"
  shows keeps_claim: "ends (serviceHas I) (claimCall L E actor q i x r)"
    and keeps_binding: "ends (serviceHas I) (sessionBinding L E actor q i r)"
    and keeps_possession: "ends (serviceHas I) (storePossession L E actor q i b y r)"
    and keeps_reserve: "ends (serviceHas I) (reserveEndpoint L E u X actor q i r)"
    and keeps_report: "ends (serviceHas I) (reportCall L E actor q i y r)"
  unfolding claimCall_def sessionBinding_def storePossession_def reserveEndpoint_def reportCall_def Let_def
  by (rule keeps_idempotent [OF _ T r], unfold keepsState_def,
      intro allI impI ends_intros conjI has_intros, simp_all;
      auto simp: putReport_def intro: claim_advances)+

lemma has_closeOne: "serviceHas I (snd nr) \<Longrightarrow> serviceHas I (snd (closeOne E u actor j i nr))"
  unfolding closeOne_def
  by (auto simp: cancelCall_def withdrawConsent_def terminal_def
      intro!: has_event has_onAttempt advances_from split: prod.splits option.splits)

lemma has_closeCalls:
  assumes "closeCalls E u actor j r = (n, r')" "serviceHas I r"
  shows "serviceHas I r'"
proof -
  have "serviceHas I (snd (fold (closeOne E u actor j) xs (0, r)))" for xs
    by (rule has_fold [where J = "\<lambda>nr. serviceHas I (snd nr)"], rule has_closeOne) (use assms(2) in simp_all)
  with assms show ?thesis
    by (auto simp: closeCalls_def dest!: arg_cong [where f = snd] split: option.splits)
qed

lemma has_closeIntent: "serviceHas I r \<Longrightarrow> serviceHas I (closeIntent j st intent r)"
  by (simp add: closeIntent_def serviceHas_def)

lemma has_putConfirmation: "serviceHas I r \<Longrightarrow> serviceHas I (putConfirmation c r)"
  unfolding putConfirmation_def by (rule has_onService) (auto intro: confirming)

lemma cancel_keeps:
  assumes T: "seNow E \<le> T" and r: "serviceHas I r" "unusedId (''v3-'' @ u 0) r"
  shows keeps_cancel: "ends (serviceHas I) (cancelContact L E u actor q j r)"
    and keeps_confirm: "ends (serviceHas I) (officialConfirm L E u actor q j x r)"
  unfolding cancelContact_def officialConfirm_def
  by (rule keeps_idempotent [OF _ T r], unfold keepsState_def,
      intro allI impI ends_intros conjI has_event, simp_all;
      auto dest: requestsOf_closeCalls intro: has_closeCalls has_closeIntent has_putConfirmation)+

lemmas keeps_operations = route_keeps cancel_keeps request_keeps keeps_createAttempt keeps_authorize keeps_consume keeps_lease keeps_outcome
  keeps_consent keeps_revoke

lemma step_keeps:
  "seNow E \<le> T \<Longrightarrow> serviceHas I r \<Longrightarrow> unusedId (''v3-'' @ u 0) r \<Longrightarrow> ends (serviceHas I) (serviceStep L E u c r)"
  by (cases c) (simp_all only: serviceStep.simps keeps_operations)

lemma commit_keeps:
  "seNow E \<le> T \<Longrightarrow> serviceHas I r \<Longrightarrow> unusedId (''v3-'' @ u 0) r \<Longrightarrow> serviceHas I (commit (serviceStep L E u c) r)"
  using step_keeps [of E r u L c] by (auto simp: commit_def answers_def split: sum.splits prod.splits)

end

end
