(* ===== verification/Management.thy ===== *)
theory Management
  imports Service_Authority Governance Ledger "HOL-Library.List_Lexorder"
begin

text \<open>
  The management of an institution, \<^verbatim>\<open>services/api/src/service-management.ts\<close>: proposing, approving,
  submitting and activating a configuration, changing a member, reassigning a contact, registering,
  suspending and recovering the institution, and activating a new approval key. A handler parses the
  body of its request and runs an idempotent operation on the record. \<open>bigInt\<close> is the value of a
  decimal text; the record \<open>managementEnv\<close> holds the approvers, viem's signature recovery and
  typed-data hash, the random nonce of a proposal and the two confirmations that read the ledger.
\<close>

record managementEnv =
  meApprovers :: "string list"
  meRecover :: recoverAddress
  meTypedHash :: "typedMessage \<Rightarrow> string"
  meNonce :: string
  meConfirmConfiguration :: "(InstitutionRecord \<Rightarrow> ConfigurationProposal \<Rightarrow> unit result) option"
  meConfirmKey :: "InstitutionRecord \<Rightarrow> json \<Rightarrow> unit result"

section \<open>Ending the authority of a generation\<close>

definition endCall :: "CallAttempt \<Rightarrow> CallAttempt" where
  "endCall a = (if caStatus a \<in> {CallEnded, CallCancelled} then a else a\<lparr> caStatus := CallCancelled \<rparr>)"

definition invalidateAttempt :: "int \<Rightarrow> ServiceAttempt \<Rightarrow> ServiceAttempt" where
  "invalidateAttempt now a = (if terminal (saStatus a) then a
     else finishAttempt now SCancelled ''institution-authority-changed'' a)"

definition invalidateService :: "int \<Rightarrow> ServiceState \<Rightarrow> ServiceState" where
  "invalidateService now s = s\<lparr>
     ssAuthorizations := dmap (\<lambda>a. a\<lparr> sauCancelled := True \<rparr>) (ssAuthorizations s),
     ssCredentials := dmap (\<lambda>c. c\<lparr> sdState := CredentialRevoked \<rparr>) (ssCredentials s),
     ssAttempts := dmap (invalidateAttempt now) (ssAttempts s) \<rparr>"

definition invalidateInstitution :: "int \<Rightarrow> InstitutionRecord \<Rightarrow> InstitutionRecord" where
  "invalidateInstitution now r = (onService (invalidateService now) r)\<lparr>
     irAuthorizations := dmap (\<lambda>a. a\<lparr> aiCancelled := True \<rparr>) (irAuthorizations r),
     irAttempts := dmap endCall (irAttempts r),
     irCredentials := dmap (\<lambda>c. c\<lparr> diRevoked := True \<rparr>) (irCredentials r) \<rparr>"

section \<open>Requests\<close>

definition managementRequest :: "string \<Rightarrow> json \<Rightarrow> json" where
  "managementRequest action body = (case body of
     JObj ms \<Rightarrow> JObj ((''action'', JStr action) # ms) | _ \<Rightarrow> JObj [(''action'', JStr action)])"

definition managementId :: "string \<Rightarrow> string result" where
  "managementId requestId = bindE (parseWith (zString (lengthBetween 8 200)) (JStr requestId)) (\<lambda>_. Inr requestId)"

text \<open>A handler: the body, the request identifier, then the operation under the permission it needs.\<close>

definition managed ::
    "lib \<Rightarrow> serviceEnv \<Rightarrow> Actor \<Rightarrow> string \<Rightarrow> json \<Rightarrow> string \<Rightarrow> serviceOp \<Rightarrow> serviceOp" where
  "managed L E actor requestId input permission operation r =
     bindE (managementId requestId) (\<lambda>i.
     idempotent L E actor i input (\<lambda>r.
       bindE (requirePermission r actor permission) (\<lambda>_. operation r)) r)"

definition hexSignature :: "string \<Rightarrow> bool" where
  "hexSignature s \<longleftrightarrow> length s = 132 \<and> take 2 s = ''0x'' \<and> allIn anyHexChars (drop 2 s)"

definition operationSchema :: "string \<Rightarrow> bool" where
  "operationSchema s \<longleftrightarrow> isHex64 s"

definition institutionKey :: "lib \<Rightarrow> InstitutionRecord \<Rightarrow> string" where
  "institutionKey L r = keccak256 L (irId r)"

definition approvalKeyHex :: "json \<Rightarrow> string" where
  "approvalKeyHex jwk = ''0x'' @ concat (map hexByte (bufferFromBase64url (jstr jwk ''x'')))"

definition numberText :: "int \<Rightarrow> string" where
  "numberText n = decimalString (nat n)"

section \<open>Configurations\<close>

definition openProposals :: "InstitutionRecord \<Rightarrow> ConfigurationProposal list" where
  "openProposals r = filter (\<lambda>p. cpStatus p \<in> {AwaitingApproval, Submitted}) (dvalues (irProposals r))"

definition configurationRequest ::
    "lib \<Rightarrow> serviceEnv \<Rightarrow> managementEnv \<Rightarrow> InstitutionRecord \<Rightarrow> Directory \<Rightarrow> json \<Rightarrow> string \<Rightarrow> string \<Rightarrow> json" where
  "configurationRequest L E M r d contents oldPolicy newPolicy =
     (let directoryHash = ''0x'' @ hashCanonical L (jobj contents ''directory'') in
      JObj [(''institutionId'', JStr (institutionKey L r)), (''expectedEpoch'', JStr (irEpoch r)),
        (''expectedDirectoryHash'', JStr (dirHash d)), (''expectedDirectoryVersion'', JStr (numberText (dirVersion d))),
        (''expectedPolicyVersion'', JStr (numberText (jnum (irPolicy r) ''version''))),
        (''expectedPolicyHash'', JStr (''0x'' @ oldPolicy)), (''newDirectoryHash'', JStr directoryHash),
        (''newDirectoryVersion'', JStr (numberText (dirVersion d + (if directoryHash \<noteq> dirHash d then 1 else 0)))),
        (''newPolicyVersion'', JStr (numberText (jnum (jobj contents ''policy'') ''version''))),
        (''newPolicyHash'', JStr (''0x'' @ newPolicy)), (''nonce'', JStr (''0x'' @ meNonce M)),
        (''deadline'', JStr (numberText (seNow E + 600)))])"

definition proposalDigest :: "serviceEnv \<Rightarrow> managementEnv \<Rightarrow> json \<Rightarrow> string result" where
  "proposalDigest E M request = bindE (configurationTypedData (bigInt (seNetwork E)) (seRegistry E) request)
     (\<lambda>m. Inr (meTypedHash M m))"

definition putProposal :: "ConfigurationProposal \<Rightarrow> InstitutionRecord \<Rightarrow> InstitutionRecord" where
  "putProposal p r = r\<lparr> irProposals := dput (cpId p) p (irProposals r) \<rparr>"

definition proposeConfiguration ::
    "lib \<Rightarrow> serviceEnv \<Rightarrow> managementEnv \<Rightarrow> (nat \<Rightarrow> string) \<Rightarrow> Actor \<Rightarrow> string \<Rightarrow> json \<Rightarrow> serviceOp" where
  "proposeConfiguration L E M u actor requestId body r =
     bindE (parseWith configurationContentsSchema body) (\<lambda>contents.
     managed L E actor requestId (JObj [(''action'', JStr ''configuration-propose''), (''contents'', contents)])
         ''institution.recover'' (\<lambda>r.
       case irDirectory r of
         None \<Rightarrow> Inl (HttpError 409 ''CONFIRMED_SERVICE_REGISTRY_REQUIRED'')
       | Some d \<Rightarrow>
           if irRegistrationState r \<noteq> Some RegistrationConfirmed
           then Inl (HttpError 409 ''CONFIRMED_SERVICE_REGISTRY_REQUIRED'')
           else if length (irProposals r) \<ge> 256 then Inl (HttpError 429 ''CONFIGURATION_HISTORY_CAPACITY'')
           else if length (openProposals r) \<ge> 16 then Inl (HttpError 409 ''CONFIGURATION_PENDING_LIMIT'')
           else bindE (policyHash L (jobj contents ''policy'')) (\<lambda>new.
             bindE (policyHash L (irPolicy r)) (\<lambda>old.
             let request = configurationRequest L E M r d contents old new; operation = hashCanonical L request in
             bindE (assertConfiguration L r request contents) (\<lambda>_.
             bindE (proposalDigest E M request) (\<lambda>h.
             let p = \<lparr> cpId = operation, cpRequest = request, cpContents = contents,
                   cpPrevious = Some (JObj [(''directory'', dirEntries d), (''policy'', irPolicy r)]), cpSignatures = [],
                   cpStatus = AwaitingApproval, cpActivatedAt = None, cpTransactionHash = None, cpBlock = None,
                   cpFailure = None \<rparr> in
             Inr (ReplyJson (JObj [(''operation'', JStr operation), (''request'', request), (''digest'', JStr h),
                 (''status'', JStr ''awaiting-approval'')]),
               serviceEvent (seNow E) (u 0) (acUser actor) ''configuration.proposed'' operation (JObj [])
                 (putProposal p r))))))) r)"

definition awaitingProposal :: "InstitutionRecord \<Rightarrow> string \<Rightarrow> ConfigurationProposal result" where
  "awaitingProposal r operation = (case dget (irProposals r) operation of
     None \<Rightarrow> Inl (HttpError 409 ''CONFIGURATION_NOT_AWAITING_APPROVAL'')
   | Some p \<Rightarrow> if cpStatus p \<noteq> AwaitingApproval then Inl (HttpError 409 ''CONFIGURATION_NOT_AWAITING_APPROVAL'') else Inr p)"

definition approveConfiguration ::
    "lib \<Rightarrow> serviceEnv \<Rightarrow> managementEnv \<Rightarrow> (nat \<Rightarrow> string) \<Rightarrow> Actor \<Rightarrow> string \<Rightarrow> json \<Rightarrow> serviceOp" where
  "approveConfiguration L E M u actor requestId body r =
     bindE (parseWith (zObject [(''operation'', zString operationSchema), (''signature'', zString hexSignature)] []) body) (\<lambda>b.
     managed L E actor requestId (managementRequest ''configuration-approve'' b) ''governance.approve'' (\<lambda>r.
       bindE (awaitingProposal r (jstr b ''operation'')) (\<lambda>p.
       bindE (assertConfiguration L r (cpRequest p) (cpContents p)) (\<lambda>_.
       bindE (configurationSigners (meRecover M) (bigInt (seNetwork E)) (seRegistry E) (cpRequest p)
                [jstr b ''signature''] (meApprovers M) (seNow E) True) (\<lambda>signers.
       let signer = hd signers in
       if dget (cpSignatures p) signer \<noteq> None then Inl (HttpError 409 ''DUPLICATE_CONFIGURATION_SIGNER'')
       else
         let p' = p\<lparr> cpSignatures := dput signer (jstr b ''signature'') (cpSignatures p) \<rparr> in
         Inr (ReplyJson (JObj [(''operation'', JStr (cpId p)), (''approvals'', JNum (int (length (cpSignatures p')))),
             (''status'', JStr ''awaiting-approval'')]),
           serviceEvent (seNow E) (u 0) (acUser actor) ''configuration.approved'' (cpId p) (JObj []) (putProposal p' r)))))) r)"

definition submitConfiguration ::
    "lib \<Rightarrow> serviceEnv \<Rightarrow> managementEnv \<Rightarrow> (nat \<Rightarrow> string) \<Rightarrow> Actor \<Rightarrow> string \<Rightarrow> json \<Rightarrow> serviceOp" where
  "submitConfiguration L E M u actor requestId body r =
     bindE (parseWith (zObject [(''operation'', zString operationSchema)] []) body) (\<lambda>b.
     managed L E actor requestId (managementRequest ''configuration-submit'' b) ''institution.recover'' (\<lambda>r.
       bindE (awaitingProposal r (jstr b ''operation'')) (\<lambda>p.
       bindE (assertConfiguration L r (cpRequest p) (cpContents p)) (\<lambda>_.
       bindE (configurationSigners (meRecover M) (bigInt (seNetwork E)) (seRegistry E) (cpRequest p)
                (dvalues (cpSignatures p)) (meApprovers M) (seNow E) False) (\<lambda>_.
       Inr (ReplyJson (JObj [(''operation'', JStr (cpId p)), (''status'', JStr ''submitted''),
           (''activePolicyUnchanged'', JBool True)]),
         serviceEvent (seNow E) (u 0) (acUser actor) ''institution.configure'' (cpId p)
           (JObj [(''request'', cpRequest p), (''signatures'', JArr (map JStr (dvalues (cpSignatures p))))])
           (putProposal (p\<lparr> cpStatus := Submitted \<rparr>) r)))))) r)"

text \<open>A confirmed configuration takes effect once; it ends the old authority when the policy changes.\<close>

definition policyInvalidates :: "json \<Rightarrow> bool" where
  "policyInvalidates q \<longleftrightarrow> jget q ''newPolicyHash'' \<noteq> jget q ''expectedPolicyHash''"

definition configurationEpoch :: "json \<Rightarrow> string" where
  "configurationEpoch q = numberText (bigInt (jstr q ''expectedEpoch'') + (if policyInvalidates q then 1 else 0))"

definition applyConfiguration :: "int \<Rightarrow> ConfigurationProposal \<Rightarrow> InstitutionRecord \<Rightarrow> InstitutionRecord" where
  "applyConfiguration now p r =
     (let q = cpRequest p; r1 = (if policyInvalidates q then invalidateInstitution now r else r) in
      putProposal (p\<lparr> cpActivatedAt := Some now \<rparr>) (r1\<lparr> irPolicy := jobj (cpContents p) ''policy'',
        irDirectory := Some \<lparr> dirHash = jstr q ''newDirectoryHash'', dirVersion = bigInt (jstr q ''newDirectoryVersion''),
          dirEntries = jobj (cpContents p) ''directory'' \<rparr>,
        irEpoch := configurationEpoch q, irStatus := InstitutionActive \<rparr>))"

definition confirmedProposal :: "InstitutionRecord \<Rightarrow> string \<Rightarrow> ConfigurationProposal result" where
  "confirmedProposal r operation = (case dget (irProposals r) operation of
     None \<Rightarrow> Inl (HttpError 409 ''CONFIRMED_CONFIGURATION_REQUIRED'')
   | Some p \<Rightarrow> if cpStatus p \<noteq> Confirmed \<or> cpTransactionHash p = None \<or> cpBlock p = None
       then Inl (HttpError 409 ''CONFIRMED_CONFIGURATION_REQUIRED'') else Inr p)"

definition activateConfiguration ::
    "lib \<Rightarrow> serviceEnv \<Rightarrow> managementEnv \<Rightarrow> (nat \<Rightarrow> string) \<Rightarrow> Actor \<Rightarrow> string \<Rightarrow> json \<Rightarrow> serviceOp" where
  "activateConfiguration L E M u actor requestId body r =
     bindE (parseWith (zObject [(''operation'', zString operationSchema)] []) body) (\<lambda>b.
     managed L E actor requestId (managementRequest ''configuration-activate'' b) ''institution.recover'' (\<lambda>r.
       bindE (confirmedProposal r (jstr b ''operation'')) (\<lambda>p.
       let q = cpRequest p; epoch = configurationEpoch q in
       if cpActivatedAt p \<noteq> None then
         bindE (policyHash L (irPolicy r)) (\<lambda>h.
         bindE (policyHash L (jobj (cpContents p) ''policy'')) (\<lambda>h'.
         if irEpoch r \<noteq> epoch \<or> h \<noteq> h' \<or>
           map_option dirHash (irDirectory r) \<noteq> Some (jstr q ''newDirectoryHash'')
         then Inl (HttpError 409 ''CONFIGURATION_NO_LONGER_CURRENT'')
         else Inr (ReplyJson (JObj [(''active'', JBool True)]), r)))
       else if \<not> isStr q ''expectedEpoch'' (irEpoch r) \<or> (policyInvalidates q \<and> irObservedEpoch r \<noteq> Some epoch)
       then Inl (HttpError 409 ''CONFIGURATION_GENERATION_MISMATCH'')
       else (case meConfirmConfiguration M of
           None \<Rightarrow> Inl (HttpError 503 ''CONFIGURATION_VERIFICATION_NOT_CONFIGURED'')
         | Some confirm \<Rightarrow> bindE (confirm r p) (\<lambda>_.
             Inr (ReplyJson (JObj [(''active'', JBool True),
                 (''newDelegationAndTrustPublicationRequired'', JBool (policyInvalidates q))]),
               serviceEvent (seNow E) (u 0) (acUser actor) ''configuration.activated'' (cpId p) (JObj [])
                 (applyConfiguration (seNow E) p r)))))) r)"

section \<open>Members and assignments\<close>

text \<open>Ends the live attempts that \<open>affected\<close> names, with their start authorization and media.\<close>

definition endMembership :: "int \<Rightarrow> string \<Rightarrow> ServiceAttempt \<Rightarrow> ServiceAttempt" where
  "endMembership now reason a =
     withdrawConsent (a\<lparr> saStatus := SCancelled, saReason := Some reason, saEndedAt := Some now \<rparr>)"

definition endAffected ::
    "serviceEnv \<Rightarrow> (nat \<Rightarrow> string) \<Rightarrow> Actor \<Rightarrow> string \<Rightarrow> (ServiceAttempt \<Rightarrow> bool) \<Rightarrow> string \<Rightarrow>
     nat \<times> InstitutionRecord \<Rightarrow> nat \<times> InstitutionRecord" where
  "endAffected E u actor reason affected i nr = (case nr of (n, r) \<Rightarrow>
     case attemptIn r i of None \<Rightarrow> (n, r)
     | Some a \<Rightarrow>
         if terminal (saStatus a) \<or> \<not> affected a then (n, r)
         else (n + 1, serviceEvent (seNow E) (u n) (acUser actor) ''call.cleanup'' i (JObj [])
                (cancelStart (authorizationKey a) (onAttempt i (endMembership (seNow E) reason) r))))"

definition endAffectedAttempts ::
    "serviceEnv \<Rightarrow> (nat \<Rightarrow> string) \<Rightarrow> Actor \<Rightarrow> string \<Rightarrow> (ServiceAttempt \<Rightarrow> bool) \<Rightarrow> InstitutionRecord \<Rightarrow> nat \<times> InstitutionRecord" where
  "endAffectedAttempts E u actor reason affected r = (case irService r of None \<Rightarrow> (0, r)
     | Some s \<Rightarrow> fold (endAffected E u actor reason affected) (map fst (ssAttempts s)) (0, r))"

definition memberBody :: schema where
  "memberBody = zObject
     [(''userId'', zString (lengthBetween 3 200)), (''active'', zBool),
      (''permissions'', zArray 0 6 (zEnum [''contact.manage'', ''delegation.manage'', ''institution.suspend'',
         ''institution.recover'', ''key.activate'', ''governance.approve'']))]
     [(''serviceUri'', zString (lengthBetween 0 300))]"

definition textsOf :: "json list \<Rightarrow> string list" where
  "textsOf vs = map (\<lambda>v. case v of JStr s \<Rightarrow> s | _ \<Rightarrow> []) vs"

definition serviceInactive :: "InstitutionRecord \<Rightarrow> string \<Rightarrow> bool" where
  "serviceInactive r uri \<longleftrightarrow> (case dget (irServices r) uri of Some s \<Rightarrow> \<not> svActive s | None \<Rightarrow> True)"

definition scopeInvalid :: "InstitutionRecord \<Rightarrow> Member \<Rightarrow> string \<Rightarrow> string list \<Rightarrow> bool" where
  "scopeInvalid r m uri permissions \<longleftrightarrow>
     (mbRole m = ''gateway'' \<and> (uri = [] \<or> serviceInactive r uri)) \<or> (mbRole m \<noteq> ''gateway'' \<and> uri \<noteq> []) \<or>
     (mbRole m \<in> {''gateway'', ''recipient''} \<and> permissions \<noteq> [])"

definition updatedMember :: "json \<Rightarrow> Member \<Rightarrow> Member" where
  "updatedMember b m = m\<lparr>
     mbGeneration := Some ((case mbGeneration m of Some g \<Rightarrow> g | None \<Rightarrow> 0) + 1), mbActive := Some (jbool b ''active''),
     mbPermissions := Some (rev (remdups (rev (textsOf (jarr b ''permissions''))))),
     mbService := (if jstr b ''serviceUri'' \<noteq> [] then Some (jstr b ''serviceUri'') else mbService m) \<rparr>"

definition ofMember :: "InstitutionRecord \<Rightarrow> string \<Rightarrow> ServiceAttempt \<Rightarrow> bool" where
  "ofMember r user a \<longleftrightarrow> saAgent a = user \<or>
     (case dget (irIntents r) (saIntent a) of Some i \<Rightarrow> ciRecipient i = user | None \<Rightarrow> False)"

definition memberOperation ::
    "serviceEnv \<Rightarrow> (nat \<Rightarrow> string) \<Rightarrow> Actor \<Rightarrow> json \<Rightarrow> serviceOp" where
  "memberOperation E u actor b r =
     (let user = jstr b ''userId''; permissions = textsOf (jarr b ''permissions'') in
       case dget (irMembers r) user of
         None \<Rightarrow> Inl (HttpError 409 ''OTHER_PROVISIONED_MEMBER_REQUIRED'')
       | Some m \<Rightarrow>
           if user = acUser actor \<or> mbRole m = ''approver'' \<or> memberPermits r user ''governance.approve''
           then Inl (HttpError 409 ''OTHER_PROVISIONED_MEMBER_REQUIRED'')
           else if scopeInvalid r m (jstr b ''serviceUri'') permissions
           then Inl (HttpError 400 ''MEMBERSHIP_SCOPE_INVALID'')
           else if ''governance.approve'' \<in> set permissions \<or>
             list_ex (\<lambda>p. \<not> memberPermits r (acUser actor) p) permissions
           then Inl (HttpError 403 ''MEMBER_PERMISSION_ESCALATION'')
           else
             let (n, r1) = endAffectedAttempts E u actor ''membership-changed'' (ofMember r user)
                   (r\<lparr> irMembers := dput user (updatedMember b m) (irMembers r) \<rparr>) in
             Inr (ReplyJson (JObj [(''updated'', JBool True), (''requiresNewAttempt'', JBool True)]),
               serviceEvent (seNow E) (u n) (acUser actor) ''member.updated'' user (JObj []) r1))"

definition updateMember ::
    "lib \<Rightarrow> serviceEnv \<Rightarrow> (nat \<Rightarrow> string) \<Rightarrow> Actor \<Rightarrow> string \<Rightarrow> json \<Rightarrow> serviceOp" where
  "updateMember L E u actor requestId body r =
     bindE (parseWith memberBody body) (\<lambda>b.
     managed L E actor requestId (managementRequest ''member'' b) ''institution.recover'' (memberOperation E u actor b) r)"

definition reassignmentInvalid :: "lib \<Rightarrow> serviceEnv \<Rightarrow> InstitutionRecord \<Rightarrow> ContactIntent \<Rightarrow> string \<Rightarrow> bool result" where
  "reassignmentInvalid L E r intent agent =
     (if ciStatus intent \<noteq> IntentOpen \<or> ciExpiresAt intent \<le> seNow E then Inr True
      else bindE (policyHash L (irPolicy r)) (\<lambda>h. Inr
        (ciPolicyHash intent \<noteq> h \<or> memberRole r agent \<noteq> Some ''gateway'' \<or> memberInactive r agent \<or>
         memberService r agent \<noteq> Some (ciService intent))))"

definition reassignIntent ::
    "lib \<Rightarrow> serviceEnv \<Rightarrow> (nat \<Rightarrow> string) \<Rightarrow> Actor \<Rightarrow> string \<Rightarrow> json \<Rightarrow> serviceOp" where
  "reassignIntent L E u actor requestId body r =
     bindE (parseWith (zObject [(''intentId'', zString (lengthBetween 3 200)), (''agentId'', zString (lengthBetween 3 200))] [])
         body) (\<lambda>b.
     managed L E actor requestId (managementRequest ''reassign'' b) ''contact.manage'' (\<lambda>r.
       case dget (irIntents r) (jstr b ''intentId'') of
         None \<Rightarrow> Inl (HttpError 409 ''ASSIGNMENT_INVALID'')
       | Some intent \<Rightarrow> bindE (reassignmentInvalid L E r intent (jstr b ''agentId'')) (\<lambda>invalid.
           if invalid then Inl (HttpError 409 ''ASSIGNMENT_INVALID'')
           else
             let (n, r1) = endAffectedAttempts E u actor ''assignment-changed'' (\<lambda>a. saIntent a = ciId intent) r in
             Inr (ReplyJson (JObj [(''updated'', JBool True), (''recipientUnchanged'', JBool True)]),
               serviceEvent (seNow E) (u n) (acUser actor) ''intent.reassigned'' (ciId intent) (JObj [])
                 (r1\<lparr> irIntents := dput (jstr b ''intentId'') (intent\<lparr> ciAgent := jstr b ''agentId'' \<rparr>) (irIntents r1) \<rparr>)))) r)"

section \<open>Registration, suspension and recovery\<close>

definition signedRequest :: "schema \<Rightarrow> schema" where
  "signedRequest request = zObject [(''request'', request), (''signatures'', zArray 2 3 (zString hexSignature))] []"

definition registrationMismatch :: "lib \<Rightarrow> InstitutionRecord \<Rightarrow> json \<Rightarrow> bool" where
  "registrationMismatch L r q \<longleftrightarrow>
     irEpoch r \<noteq> ''1'' \<or> irStatus r \<noteq> InstitutionActive \<or>
     toLowerCase (jstr q ''institutionId'') \<noteq> toLowerCase (institutionKey L r) \<or>
     toLowerCase (jstr q ''approvalPublicKey'') \<noteq> approvalKeyHex (irPublicKey r) \<or>
     jstr q ''policyVersion'' \<noteq> numberText (jnum (irPolicy r) ''version'')"

definition registerInstitutionRequest ::
    "lib \<Rightarrow> serviceEnv \<Rightarrow> managementEnv \<Rightarrow> (nat \<Rightarrow> string) \<Rightarrow> Actor \<Rightarrow> string \<Rightarrow> json \<Rightarrow> serviceOp" where
  "registerInstitutionRequest L E M u actor requestId body r =
     bindE (parseWith (signedRequest registrationSchema) body) (\<lambda>b.
     managed L E actor requestId (managementRequest ''register'' b) ''institution.recover'' (\<lambda>r.
       let q = jobj b ''request''; operation = hashCanonical L q in
       if registrationMismatch L r q then Inl (HttpError 409 ''REGISTRATION_CONTEXT_MISMATCH'')
       else bindE (verifyRegistrationApprovers L (meRecover M) (bigInt (seNetwork E)) (seRegistry E) q
              (textsOf (jarr b ''signatures'')) (meApprovers M) (seNow E)) (\<lambda>_.
         if irRegistrationOperation r \<noteq> None \<and> irRegistrationState r \<noteq> Some RegistrationFailed
         then Inl (HttpError 409 ''REGISTRATION_ALREADY_REQUESTED'')
         else if jstr q ''directoryHash'' \<noteq> ''0x'' @ hashCanonical L initialDirectory
         then Inl (HttpError 409 ''INITIAL_DIRECTORY_HASH_MISMATCH'')
         else Inr (ReplyJson (JObj [(''ledger'', JStr ''pending''), (''operation'', JStr operation)]),
           serviceEvent (seNow E) (u 0) (acUser actor) ''institution.register'' operation b
             (r\<lparr> irDirectory := Some \<lparr> dirHash = jstr q ''directoryHash'', dirVersion = bigInt (jstr q ''directoryVersion''),
                   dirEntries = initialDirectory \<rparr>,
                 irRegistrationOperation := Some operation, irRegistrationState := Some RegistrationPending \<rparr>)))) r)"

definition cleanupEvents :: "serviceEnv \<Rightarrow> (nat \<Rightarrow> string) \<Rightarrow> Actor \<Rightarrow> InstitutionRecord \<Rightarrow> InstitutionRecord" where
  "cleanupEvents E u actor r = (case irService r of None \<Rightarrow> r
     | Some s \<Rightarrow> fold (\<lambda>(k, i). serviceEvent (seNow E) (u k) (acUser actor) ''call.cleanup'' i (JObj []))
         (enumerate 1 (map fst (filter (\<lambda>e. saPbx (snd e) \<noteq> None) (ssAttempts s)))) r)"

definition suspendInstitutionRequest ::
    "lib \<Rightarrow> serviceEnv \<Rightarrow> (nat \<Rightarrow> string) \<Rightarrow> Actor \<Rightarrow> string \<Rightarrow> json \<Rightarrow> serviceOp" where
  "suspendInstitutionRequest L E u actor requestId body r =
     bindE (parseWith (zObject [] []) body) (\<lambda>_.
     managed L E actor requestId (JObj [(''action'', JStr ''suspend'')]) ''institution.suspend'' (\<lambda>r.
       let reply = ReplyJson (JObj [(''status'', JStr ''suspended''), (''ledger'', JStr ''pending'')]) in
       if irStatus r = InstitutionSuspended then Inr (reply, r)
       else Inr (reply, cleanupEvents E u actor
         (serviceEvent (seNow E) (u 0) (acUser actor) ''institution.suspend'' (irId r) (JObj [])
           (invalidateInstitution (seNow E) (r\<lparr> irStatus := InstitutionSuspended \<rparr>))))) r)"

definition observedEpoch :: "InstitutionRecord \<Rightarrow> string" where
  "observedEpoch r = (case irObservedEpoch r of Some e \<Rightarrow> e | None \<Rightarrow> irEpoch r)"

definition recoverInstitutionRequest ::
    "lib \<Rightarrow> serviceEnv \<Rightarrow> managementEnv \<Rightarrow> (nat \<Rightarrow> string) \<Rightarrow> Actor \<Rightarrow> string \<Rightarrow> json \<Rightarrow> serviceOp" where
  "recoverInstitutionRequest L E M u actor requestId body r =
     bindE (parseWith (signedRequest recoveryV2Schema) body) (\<lambda>b.
     managed L E actor requestId (managementRequest ''recover'' b) ''institution.recover'' (\<lambda>r.
       let q = jobj b ''request''; sgs = textsOf (jarr b ''signatures''); operation = hashCanonical L q in
       if irStatus r \<noteq> InstitutionSuspended \<or> jstr q ''expectedEpoch'' \<noteq> observedEpoch r \<or>
         toLowerCase (jstr q ''institutionId'') \<noteq> toLowerCase (institutionKey L r)
       then Inl (HttpError 409 ''RECOVERY_CONTEXT_MISMATCH'')
       else bindE (verifyRecoveryApprovers (meRecover M) (bigInt (seNetwork E)) (seRegistry E) q sgs (meApprovers M)
              (seNow E)) (\<lambda>signers.
         if map_option rcHash (irRecovery r) = Some operation then Inl (HttpError 409 ''RECOVERY_ALREADY_REQUESTED'')
         else Inr (ReplyJson (JObj [(''ledger'', JStr ''pending''), (''operation'', JStr operation)]),
           serviceEvent (seNow E) (u 0) (acUser actor) ''institution.recover'' operation b
             (r\<lparr> irRecovery := Some \<lparr> rcHash = operation, rcRequest = q, rcSignatures = zip signers sgs, rcSubmitted = True,
                   rcLedger = None, rcActivation = None \<rparr> \<rparr>)))) r)"

section \<open>A new approval key\<close>

text \<open>
  The keys of the services may change with the approval key when the approvers signed the change: the
  keys are hashed in the order of their URIs, which are ASCII, so that the order of UTF-16 units is the
  order of their codes. \<^verbatim>\<open>.default([])\<close> supplies an absent list of keys.
\<close>

definition keyBody :: schema where
  "keyBody = zObject
     [(''kid'', zString (lengthBetween 1 200)), (''publicKey'', publicKeySchema), (''epoch'', digitsString),
      (''version'', positiveInt)]
     [(''serviceKeys'', zArray 0 32 (zObject [(''uri'', registeredUriSchema), (''kid'', zString (lengthBetween 1 200)),
         (''publicKey'', publicKeySchema), (''version'', positiveInt)] [])),
      (''serviceKeyApproval'', signedRequest serviceKeyApprovalSchema)]"

definition defaultedKeys :: "json \<Rightarrow> json" where
  "defaultedKeys b = (case b of
     JObj ms \<Rightarrow> if jget b ''serviceKeys'' = None then JObj (ms @ [(''serviceKeys'', JArr [])]) else b | _ \<Rightarrow> b)"

definition keyStale :: "lib \<Rightarrow> InstitutionRecord \<Rightarrow> json \<Rightarrow> bool" where
  "keyStale L r b \<longleftrightarrow> bigInt (jstr b ''epoch'') \<le> bigInt (irEpoch r) \<or> jnum b ''version'' \<le> irKeyVersion r \<or>
     hashCanonical L (jobj b ''publicKey'') = hashCanonical L (irPublicKey r)"

definition serviceKeyStale :: "lib \<Rightarrow> InstitutionRecord \<Rightarrow> json \<Rightarrow> bool" where
  "serviceKeyStale L r k \<longleftrightarrow> (case dget (irServices r) (jstr k ''uri'') of None \<Rightarrow> True
     | Some prior \<Rightarrow> jnum k ''version'' \<le> svVersion prior \<or>
         hashCanonical L (jobj k ''publicKey'') = hashCanonical L (svKey prior))"

definition byUri :: "json list \<Rightarrow> json list" where
  "byUri ks = sort_key (\<lambda>k. map (of_char :: char \<Rightarrow> nat) (jstr k ''uri'')) ks"

definition keyApprovalMismatch :: "lib \<Rightarrow> InstitutionRecord \<Rightarrow> json \<Rightarrow> json \<Rightarrow> bool" where
  "keyApprovalMismatch L r b q \<longleftrightarrow>
     list_ex (\<lambda>(k, v). \<not> isStr q k v)
       [(''institutionId'', institutionKey L r), (''expectedEpoch'', irEpoch r), (''newEpoch'', jstr b ''epoch''),
        (''issuerKeyDigest'', ''0x'' @ hashCanonical L (jobj b ''publicKey'')),
        (''keysHash'', ''0x'' @ hashCanonical L (JArr (byUri (jarr b ''serviceKeys''))))]"

definition approveServiceKeys :: "lib \<Rightarrow> serviceEnv \<Rightarrow> managementEnv \<Rightarrow> InstitutionRecord \<Rightarrow> json \<Rightarrow> unit result" where
  "approveServiceKeys L E M r b =
     (if jarr b ''serviceKeys'' = [] then Inr ()
      else case jget b ''serviceKeyApproval'' of
        None \<Rightarrow> Inl (HttpError 403 ''SERVICE_KEY_JOINT_APPROVAL_REQUIRED'')
      | Some approval \<Rightarrow>
          if keyApprovalMismatch L r b (jobj approval ''request'')
          then Inl (HttpError 409 ''SERVICE_KEY_APPROVAL_CONTEXT_MISMATCH'')
          else bindE (verifyServiceKeyApprovers (meRecover M) (bigInt (seNetwork E)) (seRegistry E)
                 (jobj approval ''request'') (textsOf (jarr approval ''signatures'')) (meApprovers M) (seNow E)) (\<lambda>_. Inr ()))"

text \<open>The recovery that asked for this key is marked as carried out.\<close>

definition recoversTo :: "lib \<Rightarrow> InstitutionRecord \<Rightarrow> json \<Rightarrow> RecoveryState \<Rightarrow> bool" where
  "recoversTo L r b rc \<longleftrightarrow> rcSubmitted rc \<and> recoveryV2Schema (rcRequest rc) \<and>
     toLowerCase (jstr (rcRequest rc) ''institutionId'') = toLowerCase (institutionKey L r) \<and>
     rcHash rc = hashCanonical L (rcRequest rc) \<and>
     numberText (bigInt (jstr (rcRequest rc) ''expectedEpoch'') + 1) = jstr b ''epoch'' \<and>
     toLowerCase (jstr (rcRequest rc) ''newApprovalPublicKey'') = approvalKeyHex (jobj b ''publicKey'')"

definition markRecovery :: "lib \<Rightarrow> int \<Rightarrow> json \<Rightarrow> InstitutionRecord \<Rightarrow> InstitutionRecord" where
  "markRecovery L now b r = (case irRecovery r of None \<Rightarrow> r
     | Some rc \<Rightarrow> if recoversTo L r b rc then r\<lparr> irRecovery := Some (rc\<lparr> rcActivation :=
           Some \<lparr> raEpoch = jstr b ''epoch'', raKeyVersion = jnum b ''version'', raVerifiedAt = now \<rparr> \<rparr>) \<rparr> else r)"

definition replaceServiceKey :: "json \<Rightarrow> InstitutionRecord \<Rightarrow> InstitutionRecord" where
  "replaceServiceKey k r = (case dget (irServices r) (jstr k ''uri'') of None \<Rightarrow> r
     | Some s \<Rightarrow> r\<lparr> irServices := dput (jstr k ''uri'')
         (s\<lparr> svKid := jstr k ''kid'', svKey := jobj k ''publicKey'', svVersion := jnum k ''version'' \<rparr>) (irServices r) \<rparr>)"

definition installKey :: "lib \<Rightarrow> int \<Rightarrow> json \<Rightarrow> InstitutionRecord \<Rightarrow> InstitutionRecord" where
  "installKey L now b r =
     (fold replaceServiceKey (jarr b ''serviceKeys'') (invalidateInstitution now (markRecovery L now b r)))
       \<lparr> irEpoch := jstr b ''epoch'', irKeyVersion := jnum b ''version'', irKid := jstr b ''kid'',
         irPublicKey := jobj b ''publicKey'', irStatus := InstitutionActive \<rparr>"

definition activateKeyOperation ::
    "lib \<Rightarrow> serviceEnv \<Rightarrow> managementEnv \<Rightarrow> (nat \<Rightarrow> string) \<Rightarrow> Actor \<Rightarrow> json \<Rightarrow> serviceOp" where
  "activateKeyOperation L E M u actor b r =
     (if keyStale L r b then Inl (HttpError 409 ''KEY_AND_GENERATION_MUST_ADVANCE'')
      else if \<not> distinct (map (\<lambda>k. jstr k ''uri'') (jarr b ''serviceKeys''))
      then Inl (HttpError 400 ''DUPLICATE_SERVICE_URI'')
      else if list_ex (serviceKeyStale L r) (jarr b ''serviceKeys'') then Inl (HttpError 409 ''SERVICE_KEY_MUST_ADVANCE'')
      else bindE (approveServiceKeys L E M r b) (\<lambda>_. bindE (meConfirmKey M r b) (\<lambda>_.
        Inr (ReplyJson (JObj [(''status'', JStr ''active''), (''epoch'', jobj b ''epoch''),
            (''approvalKeyVersion'', jobj b ''version''), (''newDelegationRequired'', JBool True)]),
          serviceEvent (seNow E) (u 0) (acUser actor) ''key.activated'' (irId r)
            (JObj [(''epoch'', jobj b ''epoch''), (''version'', jobj b ''version'')]) (installKey L (seNow E) b r)))))"

definition activateKeyRequest ::
    "lib \<Rightarrow> serviceEnv \<Rightarrow> managementEnv \<Rightarrow> (nat \<Rightarrow> string) \<Rightarrow> Actor \<Rightarrow> string \<Rightarrow> json \<Rightarrow> serviceOp" where
  "activateKeyRequest L E M u actor requestId body r =
     bindE (parseWith keyBody body) (\<lambda>parsed.
     let b = defaultedKeys parsed in
     managed L E actor requestId (managementRequest ''activate-key'' b) ''key.activate''
       (activateKeyOperation L E M u actor b) r)"

end
