(* ===== verification/Anchor.thy ===== *)
theory Anchor
  imports Effects Json
begin

text \<open>
  The independent consumption anchor, \<^verbatim>\<open>services/api/src/consumption-anchor.ts\<close>: a second service
  in its own failure domain that holds, per deployment and institution, the position of the
  consumption journal. The HTTP client and the service are modelled separately; \<open>anchorFetch\<close> puts
  a network between them that may lose the request, lose the reply or damage it.

  The locale \<open>consumption_anchor\<close> is the interface \<^verbatim>\<open>ConsumptionAnchor\<close> with what the issuer's store
  relies on, in particular that a failed \<^verbatim>\<open>advance\<close> has either changed nothing or moved the anchor
  exactly where it was asked to.
\<close>

section \<open>The position of a journal\<close>

record Anchor =
  anDeployment :: string
  anInstitution :: string
  anSequence :: string
  anHash :: string
  anEpoch :: string

definition anchorId :: schema where
  "anchorId = zString (lengthBetween 1 200)"

definition anchorSchema :: schema where
  "anchorSchema = zObject
    [(''deployment'', anchorId), (''institutionId'', anchorId), (''sequence'', zString isDigits),
     (''hash'', zString isHex64), (''epoch'', zString isDigits)] []"

definition anchorJson :: "Anchor \<Rightarrow> json" where
  "anchorJson a = JObj [(''deployment'', JStr (anDeployment a)), (''institutionId'', JStr (anInstitution a)),
     (''sequence'', JStr (anSequence a)), (''hash'', JStr (anHash a)), (''epoch'', JStr (anEpoch a))]"

definition anchorOf :: "json \<Rightarrow> Anchor" where
  "anchorOf v = \<lparr> anDeployment = jstr v ''deployment'', anInstitution = jstr v ''institutionId'',
     anSequence = jstr v ''sequence'', anHash = jstr v ''hash'', anEpoch = jstr v ''epoch'' \<rparr>"

definition parseAnchor :: "json \<Rightarrow> Anchor result" where
  "parseAnchor v = bindE (parseWith anchorSchema v) (\<lambda>w. Inr (anchorOf w))"

text \<open>The schema of the anchor's database rows; \<open>asAnchor\<close> is the well-formedness of a value.\<close>

definition asAnchor :: "Anchor \<Rightarrow> bool" where
  "asAnchor a \<longleftrightarrow> anchorSchema (anchorJson a)"

definition assertAnchorMatches :: "Anchor \<Rightarrow> Anchor \<Rightarrow> unit result" where
  "assertAnchorMatches localAnchor remote =
     (if anDeployment remote \<noteq> anDeployment localAnchor \<or> anInstitution remote \<noteq> anInstitution localAnchor \<or>
         anSequence remote \<noteq> anSequence localAnchor \<or> anHash remote \<noteq> anHash localAnchor \<or>
         anEpoch remote \<noteq> anEpoch localAnchor
      then Inl (Error ''CONSUMPTION_HISTORY_RECOVERY_REQUIRED'') else Inr ())"

definition anchorListenHost :: "string \<Rightarrow> bool \<Rightarrow> string result" where
  "anchorListenHost host tls =
     (if host \<notin> {''127.0.0.1'', ''0.0.0.0''} \<or> (host = ''0.0.0.0'' \<and> \<not> tls)
      then Inl (Error ''REMOTE_ANCHOR_REQUIRES_TLS'') else Inr host)"

section \<open>The service\<close>

text \<open>
  \<open>asRows\<close> is the table \<^verbatim>\<open>callsign_anchors\<close>, by deployment and institution. The handlers run after the
  \<^verbatim>\<open>preHandler\<close> hook that compares the bearer token.
\<close>

record AnchorServer =
  asToken :: string
  asRows :: "((string \<times> string) \<times> json) list"

datatype AnchorRequest =
    AnchorGet string json           \<comment> \<open>\<^verbatim>\<open>GET /anchor\<close>: the authorization header and the query\<close>
  | AnchorPost string json          \<comment> \<open>\<^verbatim>\<open>POST /anchor\<close>: the authorization header and the body\<close>

definition anchorAuthorized :: "string \<Rightarrow> (AnchorServer, unit) eff" where
  "anchorAuthorized header = readS (\<lambda>s.
     if header \<noteq> ''Bearer '' @ asToken s then Inl (HttpError 401 ''ANCHOR_AUTH_REQUIRED'') else Inr ())"

definition anchorQuery :: schema where
  "anchorQuery = zObject [(''deployment'', anchorId), (''institutionId'', anchorId)] []"

definition anchorRow :: "string \<Rightarrow> string \<Rightarrow> (AnchorServer, Anchor) eff" where
  "anchorRow deployment institution = readS (\<lambda>s.
     bindE (ofOption (HttpError 409 ''ANCHOR_NOT_PROVISIONED'') (map_of (asRows s) (deployment, institution)))
       parseAnchor)"

definition anchorGet :: "json \<Rightarrow> (AnchorServer, Anchor) eff" where
  "anchorGet query =
     bindS (liftE (parseWith anchorQuery query)) (\<lambda>q. anchorRow (jstr q ''deployment'') (jstr q ''institutionId''))"

definition anchorTransition :: schema where
  "anchorTransition = zObject [(''previous'', anchorSchema), (''next'', anchorSchema)] []"

definition transitionInvalid :: "Anchor \<Rightarrow> Anchor \<Rightarrow> bool" where
  "transitionInvalid previous upcoming \<longleftrightarrow>
     anDeployment previous \<noteq> anDeployment upcoming \<or> anInstitution previous \<noteq> anInstitution upcoming \<or>
     bigInt (anSequence upcoming) \<noteq> bigInt (anSequence previous) + 1 \<or>
     bigInt (anEpoch upcoming) < bigInt (anEpoch previous)"

fun replaceRow :: "'k \<Rightarrow> 'v \<Rightarrow> ('k \<times> 'v) list \<Rightarrow> ('k \<times> 'v) list" where
  "replaceRow k v [] = []"
| "replaceRow k v ((k', v') # rows) = (if k' = k then (k, v) # rows else (k', v') # replaceRow k v rows)"

definition anchorPost :: "json \<Rightarrow> (AnchorServer, Anchor) eff" where
  "anchorPost body =
     bindS (liftE (parseWith anchorTransition body)) (\<lambda>b.
       let previous = anchorOf (jobj b ''previous''); upcoming = anchorOf (jobj b ''next'') in
       bindS (guardS (transitionInvalid previous upcoming) (HttpError 409 ''ANCHOR_TRANSITION_INVALID'')) (\<lambda>_.
       atomically (bindS (anchorRow (anDeployment previous) (anInstitution previous)) (\<lambda>current.
         if anSequence current = anSequence upcoming \<and> anHash current = anHash upcoming \<and>
            anEpoch current = anEpoch upcoming
         then returnS current
         else bindS (rethrowS (\<lambda>_. HttpError 409 ''INDEPENDENT_ANCHOR_CONFLICT'')
                      (liftE (assertAnchorMatches previous current))) (\<lambda>_.
           bindS (modifyS (\<lambda>s. s\<lparr> asRows := replaceRow (anDeployment upcoming, anInstitution upcoming)
                                    (anchorJson upcoming) (asRows s) \<rparr>)) (\<lambda>_. returnS upcoming))))))"

definition anchorService :: "AnchorRequest \<Rightarrow> (AnchorServer, Anchor) eff" where
  "anchorService request = (case request of
     AnchorGet header query \<Rightarrow> bindS (anchorAuthorized header) (\<lambda>_. anchorGet query)
   | AnchorPost header body \<Rightarrow> bindS (anchorAuthorized header) (\<lambda>_. anchorPost body))"

section \<open>The client\<close>

text \<open>
  What \<^verbatim>\<open>fetch\<close> and \<^verbatim>\<open>response.text()\<close> produce: no response (\<open>True\<close>: a timeout or an abort), a
  status with a body that cannot be read, or a status with a body of some length and what
  \<^verbatim>\<open>JSON.parse\<close> makes of it.
\<close>

datatype Fetched =
    NoResponse bool
  | BodyUnreadable nat
  | Body nat nat "json option"

definition fetchedJson :: "Fetched \<Rightarrow> json result" where
  "fetchedJson r = (case r of
     NoResponse late \<Rightarrow> Inl (Error (if late then ''INDEPENDENT_ANCHOR_TIMEOUT'' else ''INDEPENDENT_ANCHOR_UNAVAILABLE''))
   | BodyUnreadable status \<Rightarrow>
       if \<not> (200 \<le> status \<and> status \<le> 299)
       then Inl (Error (if status = 409 then ''INDEPENDENT_ANCHOR_CONFLICT'' else if status = 401 then ''ANCHOR_AUTH_REQUIRED''
                        else ''INDEPENDENT_ANCHOR_UNAVAILABLE''))
       else Inl (Error ''INDEPENDENT_ANCHOR_TIMEOUT'')
   | Body status len parsed \<Rightarrow>
       if \<not> (200 \<le> status \<and> status \<le> 299)
       then Inl (Error (if status = 409 then ''INDEPENDENT_ANCHOR_CONFLICT'' else if status = 401 then ''ANCHOR_AUTH_REQUIRED''
                        else ''INDEPENDENT_ANCHOR_UNAVAILABLE''))
       else if len > 8192 then Inl (Error ''INDEPENDENT_ANCHOR_RESPONSE_INVALID'')
       else ofOption (Error ''INDEPENDENT_ANCHOR_RESPONSE_INVALID'') parsed)"

text \<open>The parts of \<^verbatim>\<open>new URL(options.url)\<close> the configuration is checked on.\<close>

record AnchorUrl =
  auProtocol :: string
  auUsername :: string
  auPassword :: string
  auSearch :: string
  auHash :: string
  auPathname :: string

definition anchorConfigInvalid :: "AnchorUrl \<Rightarrow> string \<Rightarrow> bool" where
  "anchorConfigInvalid origin token \<longleftrightarrow>
     auProtocol origin \<noteq> ''https:'' \<or> auUsername origin \<noteq> [] \<or> auPassword origin \<noteq> [] \<or> auSearch origin \<noteq> [] \<or>
     auHash origin \<noteq> [] \<or> auPathname origin \<noteq> ''/'' \<or> jsLength token < 32"

record 'w anchorOptions =
  aoDeployment :: string
  aoRead :: "string \<Rightarrow> ('w, Anchor) eff"
  aoAdvance :: "Anchor \<Rightarrow> Anchor \<Rightarrow> ('w, unit) eff"

definition anchorRequest ::
    "(AnchorRequest \<Rightarrow> 'w \<Rightarrow> Fetched \<times> 'w) \<Rightarrow> AnchorRequest \<Rightarrow> ('w, json) eff" where
  "anchorRequest fetcher request w = (case fetcher request w of (r, w') \<Rightarrow> (fetchedJson r, w'))"

definition anchorRead ::
    "(AnchorRequest \<Rightarrow> 'w \<Rightarrow> Fetched \<times> 'w) \<Rightarrow> string \<Rightarrow> string \<Rightarrow> string \<Rightarrow> ('w, Anchor) eff" where
  "anchorRead fetcher token deployment institution =
     bindS (anchorRequest fetcher (AnchorGet (''Bearer '' @ token)
              (JObj [(''deployment'', JStr deployment), (''institutionId'', JStr institution)]))) (\<lambda>v.
       if \<not> anchorSchema v then throwS (Error ''INDEPENDENT_ANCHOR_RESPONSE_INVALID'')
       else let a = anchorOf v in
         if anDeployment a \<noteq> deployment \<or> anInstitution a \<noteq> institution
         then throwS (Error ''ANCHOR_DOMAIN_MISMATCH'') else returnS a)"

definition anchorAdvance ::
    "(AnchorRequest \<Rightarrow> 'w \<Rightarrow> Fetched \<times> 'w) \<Rightarrow> string \<Rightarrow> string \<Rightarrow> Anchor \<Rightarrow> Anchor \<Rightarrow> ('w, unit) eff" where
  "anchorAdvance fetcher token deployment previous upcoming w =
     (if anDeployment previous \<noteq> deployment \<or> anDeployment upcoming \<noteq> deployment \<or>
         anInstitution previous \<noteq> anInstitution upcoming
      then (Inl (Error ''ANCHOR_DOMAIN_MISMATCH''), w)
      else case bindS (anchorRequest fetcher (AnchorPost (''Bearer '' @ token)
                  (JObj [(''previous'', anchorJson previous), (''next'', anchorJson upcoming)])))
                (\<lambda>v. liftE (bindE (parseAnchor v) (assertAnchorMatches upcoming))) w of
        (Inr _, w') \<Rightarrow> (Inr (), w')
      | (Inl e, w') \<Rightarrow>
          if e \<in> {Error ''ANCHOR_AUTH_REQUIRED'', Error ''INDEPENDENT_ANCHOR_CONFLICT''} then (Inl e, w')
          else case bindS (anchorRead fetcher token deployment (anInstitution upcoming))
                     (\<lambda>a. liftE (assertAnchorMatches upcoming a)) w' of
            (Inr _, w'') \<Rightarrow> (Inr (), w'')
          | (Inl _, w'') \<Rightarrow> (Inl (Error ''INDEPENDENT_ANCHOR_OUTCOME_UNKNOWN''), w''))"

definition httpConsumptionAnchor ::
    "(AnchorRequest \<Rightarrow> 'w \<Rightarrow> Fetched \<times> 'w) \<Rightarrow> AnchorUrl \<Rightarrow> string \<Rightarrow> string \<Rightarrow> 'w anchorOptions result" where
  "httpConsumptionAnchor fetcher origin token deployment =
     (if anchorConfigInvalid origin token then Inl (Error ''ANCHOR_CONFIG_INVALID'')
      else Inr \<lparr> aoDeployment = deployment, aoRead = anchorRead fetcher token deployment,
                 aoAdvance = anchorAdvance fetcher token deployment \<rparr>)"

section \<open>The network between them\<close>

text \<open>
  Each request takes the next fault of the schedule; when the schedule is exhausted every request
  is delivered. \<open>DamagedReply\<close>: the reply arrives but is not the JSON the service sent.
\<close>

datatype Fault = Delivered | LostRequest bool | LostReply bool | DamagedReply

record AnchorWorld =
  awServer :: AnchorServer
  awFaults :: "Fault list"

definition replyStatus :: "js_error \<Rightarrow> nat" where
  "replyStatus e = (case e of HttpError s _ \<Rightarrow> s | _ \<Rightarrow> 500)"

definition serviceReply :: "Anchor result \<Rightarrow> Fetched" where
  "serviceReply r = (case r of
     Inr a \<Rightarrow> Body 200 (135 + jsLength (anDeployment a) + jsLength (anInstitution a) + jsLength (anSequence a) +
                        jsLength (anEpoch a)) (Some (anchorJson a))
   | Inl e \<Rightarrow> Body (replyStatus e) 100 None)"

definition anchorFetch :: "AnchorRequest \<Rightarrow> AnchorWorld \<Rightarrow> Fetched \<times> AnchorWorld" where
  "anchorFetch request w =
     (let fault = (case awFaults w of [] \<Rightarrow> Delivered | f # _ \<Rightarrow> f);
          w' = w\<lparr> awFaults := tl (awFaults w) \<rparr>;
          (r, server) = anchorService request (awServer w);
          answered = w'\<lparr> awServer := server \<rparr> in
      case fault of
        Delivered \<Rightarrow> (serviceReply r, answered)
      | LostRequest late \<Rightarrow> (NoResponse late, w')
      | LostReply late \<Rightarrow> (NoResponse late, answered)
      | DamagedReply \<Rightarrow> (Body 200 0 None, answered))"

section \<open>The interface\<close>

text \<open>
  \<open>locate w i\<close> is the position the anchor holds for an institution. A read returns it and changes
  nothing; an advance that returns has moved it to the new position; whatever an advance reports, the
  anchor either is where it was or has moved from the stated position to the new one.
\<close>

locale consumption_anchor =
  fixes readAt :: "string \<Rightarrow> ('w, Anchor) eff"
    and advance :: "Anchor \<Rightarrow> Anchor \<Rightarrow> ('w, unit) eff"
    and locate :: "'w \<Rightarrow> string \<Rightarrow> Anchor option"
  assumes read_keeps: "locate (snd (readAt i w)) = locate w"
    and read_returns: "readAt i w = (Inr a, w') \<Longrightarrow> locate w i = Some a"
    and advance_returns: "advance p n w = (Inr (), w') \<Longrightarrow> locate w' (anInstitution n) = Some n"
    and advance_moves:
      "advance p n w = (x, w') \<Longrightarrow> locate w' = locate w \<or>
         (locate w (anInstitution n) = Some p \<and> bigInt (anSequence n) = bigInt (anSequence p) + 1 \<and>
          locate w' = (locate w)(anInstitution n := Some n))"
begin

lemma read_unmoved: "readAt i w = (x, w') \<Longrightarrow> locate w' = locate w"
  by (metis read_keeps snd_conv)

lemma advance_other: "advance p n w = (x, w') \<Longrightarrow> i \<noteq> anInstitution n \<Longrightarrow> locate w' i = locate w i"
  by (drule advance_moves) auto

lemma advance_forward:
  assumes "advance p n w = (x, w')" "locate w i = Some a"
  shows "\<exists>b. locate w' i = Some b \<and> bigInt (anSequence a) \<le> bigInt (anSequence b)"
  using advance_moves [OF assms(1)] assms(2) by (cases "i = anInstitution n") auto

end

section \<open>The HTTP client and the service implement it\<close>

lemma anchorOf_anchorJson [simp]: "anchorOf (anchorJson a) = a"
  by (simp add: anchorOf_def anchorJson_def member_defs)

lemma parseAnchor_anchorJson: "parseAnchor (anchorJson a) = Inr b \<longleftrightarrow> asAnchor a \<and> b = a"
  by (auto simp: parseAnchor_def asAnchor_def parseWith_def)

lemma assertAnchorMatches_Inr [result_simps]: "assertAnchorMatches a b = Inr u \<longleftrightarrow> a = b"
  by (cases a; cases b) (auto simp: assertAnchorMatches_def)

lemma map_of_replaceRow:
  "map_of (replaceRow k v rows) k' = (if k' = k \<and> map_of rows k \<noteq> None then Some v else map_of rows k')"
  by (induction k v rows rule: replaceRow.induct) auto

definition storedAnchor :: "string \<Rightarrow> AnchorServer \<Rightarrow> string \<Rightarrow> Anchor option" where
  "storedAnchor deployment s i = (case map_of (asRows s) (deployment, i) of
     None \<Rightarrow> None | Some v \<Rightarrow> if anchorSchema v then Some (anchorOf v) else None)"

abbreviation anchoredAt :: "string \<Rightarrow> AnchorWorld \<Rightarrow> string \<Rightarrow> Anchor option" where
  "anchoredAt deployment w \<equiv> storedAnchor deployment (awServer w)"

lemma anchorRow_eq: "anchorRow d i s = (r, s') \<Longrightarrow> s' = s \<and> (\<forall>a. r = Inr a \<longleftrightarrow> storedAnchor d s i = Some a)"
  by (auto simp: anchorRow_def readS_def storedAnchor_def parseAnchor_def parseWith_def split: option.splits if_splits)

lemma anchorGet_eq:
  "anchorService (AnchorGet h q) s = (r, s') \<Longrightarrow>
     s' = s \<and> (r = Inr a \<longrightarrow> storedAnchor (jstr q ''deployment'') s (jstr q ''institutionId'') = Some a)"
  by (auto simp: anchorService_def anchorAuthorized_def anchorGet_def bindS_def readS_def liftE_def parseWith_def
        split: prod.splits sum.splits if_splits dest!: anchorRow_eq)

lemma storedAnchor_replace:
  "storedAnchor d s i = Some a \<Longrightarrow> asAnchor n \<Longrightarrow>
     storedAnchor d (s\<lparr> asRows := replaceRow (d, i) (anchorJson n) (asRows s) \<rparr>) = (storedAnchor d s)(i := Some n)"
  by (rule ext) (auto simp: storedAnchor_def map_of_replaceRow asAnchor_def split: option.splits)

lemma anchorTransition_parts:
  assumes "anchorTransition (JObj [(''previous'', anchorJson p), (''next'', anchorJson n)])"
  shows "asAnchor p" "asAnchor n"
  using assms by (simp_all add: anchorTransition_def zObject_def asAnchor_def)

lemma anchorPost_eq:
  assumes "anDeployment p = d" "anDeployment n = d" "anInstitution p = anInstitution n"
    and "fst (anchorRow d (anInstitution n) s) = x"
  shows "anchorService (AnchorPost h (JObj [(''previous'', anchorJson p), (''next'', anchorJson n)])) s =
    (if h \<noteq> ''Bearer '' @ asToken s then (Inl (HttpError 401 ''ANCHOR_AUTH_REQUIRED''), s)
     else if \<not> anchorTransition (JObj [(''previous'', anchorJson p), (''next'', anchorJson n)]) then (Inl ZodError, s)
     else if transitionInvalid p n then (Inl (HttpError 409 ''ANCHOR_TRANSITION_INVALID''), s)
     else case x of Inl e \<Rightarrow> (Inl e, s)
      | Inr c \<Rightarrow>
          if anSequence c = anSequence n \<and> anHash c = anHash n \<and> anEpoch c = anEpoch n then (Inr c, s)
          else if c = p then (Inr n, s\<lparr> asRows := replaceRow (d, anInstitution n) (anchorJson n) (asRows s) \<rparr>)
          else (Inl (HttpError 409 ''INDEPENDENT_ANCHOR_CONFLICT''), s))"
proof -
  let ?b = "JObj [(''previous'', anchorJson p), (''next'', anchorJson n)]"
  have members: "jobj ?b ''previous'' = anchorJson p" "jobj ?b ''next'' = anchorJson n"
    by (simp_all add: member_defs)
  have row: "anchorRow d (anInstitution n) s = (x, s)"
    using assms(4) by (simp add: anchorRow_def readS_def)
  have matches: "assertAnchorMatches p c = (if c = p then Inr () else Inl (Error ''CONSUMPTION_HISTORY_RECOVERY_REQUIRED''))" for c
    by (cases p; cases c) (auto simp: assertAnchorMatches_def)
  show ?thesis
    by (cases x) (simp_all add: anchorService_def anchorAuthorized_def anchorPost_def members bindS_def readS_def liftE_def
          parseWith_def guardS_def atomically_def returnS_def modifyS_def rethrowS_def Let_def matches row assms(1-3)
          del: split_paired_All)
qed

lemma anchorPost_moves:
  assumes "anchorService (AnchorPost h (JObj [(''previous'', anchorJson p), (''next'', anchorJson n)])) s = (r, s')"
    and "anDeployment p = d" "anDeployment n = d" "anInstitution p = anInstitution n"
  shows "storedAnchor d s' = storedAnchor d s \<or>
      (storedAnchor d s (anInstitution n) = Some p \<and> bigInt (anSequence n) = bigInt (anSequence p) + 1 \<and>
       storedAnchor d s' = (storedAnchor d s)(anInstitution n := Some n))" (is ?moves)
    and "r = Inr a \<Longrightarrow> storedAnchor d s' (anInstitution n) = Some a" (is "_ \<Longrightarrow> ?kept")
proof -
  obtain x s1 where row: "anchorRow d (anInstitution n) s = (x, s1)" by fastforce
  from anchorRow_eq [OF row] have x: "\<And>a. x = Inr a \<longleftrightarrow> storedAnchor d s (anInstitution n) = Some a" by auto
  have "(s' = s \<and> (\<forall>a. r = Inr a \<longrightarrow> x = Inr a)) \<or>
      (x = Inr p \<and> asAnchor n \<and> \<not> transitionInvalid p n \<and> r = Inr n \<and>
       s' = s\<lparr> asRows := replaceRow (d, anInstitution n) (anchorJson n) (asRows s) \<rparr>)"
    using assms(1) anchorTransition_parts(2) [of p n]
    unfolding anchorPost_eq [OF assms(2-4), of s x, unfolded row, simplified]
    by (auto split: sum.splits if_splits)
  then have cases: "(s' = s \<and> (\<forall>a. r = Inr a \<longrightarrow> storedAnchor d s (anInstitution n) = Some a)) \<or>
      (x = Inr p \<and> asAnchor n \<and> \<not> transitionInvalid p n \<and> r = Inr n \<and>
       s' = s\<lparr> asRows := replaceRow (d, anInstitution n) (anchorJson n) (asRows s) \<rparr>)"
    unfolding x .
  then show ?moves
  proof (elim disjE conjE)
    assume "x = Inr p" "asAnchor n" "\<not> transitionInvalid p n"
      "s' = s\<lparr> asRows := replaceRow (d, anInstitution n) (anchorJson n) (asRows s) \<rparr>"
    then show ?moves using storedAnchor_replace [of d s "anInstitution n" p n] x
      by (simp add: transitionInvalid_def)
  qed simp
  show ?kept if "r = Inr a"
    using cases that storedAnchor_replace [of d s "anInstitution n" p n] x by auto
qed

lemma anchorFetch_get:
  assumes "anchorFetch (AnchorGet h q) w = (x, w')"
  shows "awServer w' = awServer w"
    and "fetchedJson x = Inr v \<Longrightarrow>
      \<exists>a. v = anchorJson a \<and> storedAnchor (jstr q ''deployment'') (awServer w) (jstr q ''institutionId'') = Some a"
proof -
  obtain r s' where service: "anchorService (AnchorGet h q) (awServer w) = (r, s')" by fastforce
  note get = anchorGet_eq [OF service]
  show "awServer w' = awServer w"
    using assms get service by (auto simp: anchorFetch_def Let_def split: Fault.splits list.splits)
  show "\<exists>a. v = anchorJson a \<and> storedAnchor (jstr q ''deployment'') (awServer w) (jstr q ''institutionId'') = Some a"
    if "fetchedJson x = Inr v"
    using assms that get service
    by (auto simp: anchorFetch_def serviceReply_def fetchedJson_def Let_def split: Fault.splits list.splits sum.splits if_splits)
qed

lemma anchorFetch_post:
  assumes "anchorFetch (AnchorPost h (JObj [(''previous'', anchorJson p), (''next'', anchorJson n)])) w = (x, w')"
    and "anDeployment p = d" "anDeployment n = d" "anInstitution p = anInstitution n"
  shows "anchoredAt d w' = anchoredAt d w \<or>
      (anchoredAt d w (anInstitution n) = Some p \<and> bigInt (anSequence n) = bigInt (anSequence p) + 1 \<and>
       anchoredAt d w' = (anchoredAt d w)(anInstitution n := Some n))" (is ?moves)
    and "fetchedJson x = Inr v \<Longrightarrow> \<exists>a. v = anchorJson a \<and> anchoredAt d w' (anInstitution n) = Some a" (is "_ \<Longrightarrow> ?kept")
proof -
  obtain r s' where service:
    "anchorService (AnchorPost h (JObj [(''previous'', anchorJson p), (''next'', anchorJson n)])) (awServer w) = (r, s')"
    by fastforce
  note post = anchorPost_moves [OF service assms(2-4)]
  show ?moves
    using assms(1) post(1) service by (auto simp: anchorFetch_def Let_def split: Fault.splits list.splits)
  show ?kept if "fetchedJson x = Inr v"
    using assms(1) that post(2) service
    by (auto simp: anchorFetch_def serviceReply_def fetchedJson_def Let_def split: Fault.splits list.splits sum.splits if_splits)
qed

lemma anchorRead_unmoved: "anchorRead anchorFetch token d i w = (x, w') \<Longrightarrow> awServer w' = awServer w"
  by (auto simp: anchorRead_def bindS_def anchorRequest_def throwS_def returnS_def Let_def
      split: prod.splits sum.splits if_splits dest: anchorFetch_get(1))

lemma anchorRead_returns: "anchorRead anchorFetch token d i w = (Inr a, w') \<Longrightarrow> anchoredAt d w i = Some a"
  by (auto simp: anchorRead_def bindS_def anchorRequest_def throwS_def returnS_def Let_def member_defs
      split: prod.splits sum.splits if_splits dest!: anchorFetch_get(2))

lemma anchorConfirm:
  assumes "bindS (anchorRead anchorFetch token d i) (\<lambda>a. liftE (assertAnchorMatches n a)) v = (z, w)"
  shows "awServer w = awServer v" and "z = Inr u \<Longrightarrow> anchoredAt d v i = Some n"
  using assms
  by (auto simp: bindS_def liftE_def assertAnchorMatches_Inr split: prod.splits sum.splits
      dest: anchorRead_unmoved anchorRead_returns)

lemma anchorAdvance_post:
  assumes "anchorAdvance anchorFetch token d p n w = (x, w')"
    and "anDeployment p = d" "anDeployment n = d" "anInstitution p = anInstitution n"
    and "anchorFetch (AnchorPost (''Bearer '' @ token) (JObj [(''previous'', anchorJson p), (''next'', anchorJson n)])) w = (y, v)"
  shows "awServer w' = awServer v"
    and "x = Inr () \<Longrightarrow> (\<exists>b. fetchedJson y = Inr b \<and> parseAnchor b = Inr n) \<or> anchoredAt d v (anInstitution n) = Some n"
proof -
  let ?first = "bindE (fetchedJson y) (\<lambda>b. bindE (parseAnchor b) (assertAnchorMatches n))"
  have first: "bindS (anchorRequest anchorFetch (AnchorPost (''Bearer '' @ token)
                  (JObj [(''previous'', anchorJson p), (''next'', anchorJson n)])))
                (\<lambda>v. liftE (bindE (parseAnchor v) (assertAnchorMatches n))) w = (?first, v)"
    using assms(5) by (cases "fetchedJson y") (simp_all add: bindS_def anchorRequest_def liftE_def)
  obtain z u where second: "bindS (anchorRead anchorFetch token d (anInstitution n))
                     (\<lambda>a. liftE (assertAnchorMatches n a)) v = (z, u)" by fastforce
  note confirm = anchorConfirm [OF second]
  have "(w' = v \<and> (x = Inr () \<longrightarrow> ?first = Inr ())) \<or> (w' = u \<and> (x = Inr () \<longrightarrow> z = Inr ()))"
    using assms(1) unfolding anchorAdvance_def first
    by (auto simp: assms(2-4) second split: sum.splits if_splits)
  then show "awServer w' = awServer v"
    and "x = Inr () \<Longrightarrow> (\<exists>b. fetchedJson y = Inr b \<and> parseAnchor b = Inr n) \<or> anchoredAt d v (anInstitution n) = Some n"
    using confirm by (auto simp: bindE_eq_Inr assertAnchorMatches_Inr)
qed

lemma anchorAdvance_domain:
  "anDeployment p \<noteq> d \<or> anDeployment n \<noteq> d \<or> anInstitution p \<noteq> anInstitution n \<Longrightarrow>
     anchorAdvance anchorFetch token d p n w = (Inl (Error ''ANCHOR_DOMAIN_MISMATCH''), w)"
  by (simp add: anchorAdvance_def)

lemma anchorAdvance_ok:
  assumes "anchorAdvance anchorFetch token d p n w = (x, w')"
  shows "anchoredAt d w' = anchoredAt d w \<or>
      (anchoredAt d w (anInstitution n) = Some p \<and> bigInt (anSequence n) = bigInt (anSequence p) + 1 \<and>
       anchoredAt d w' = (anchoredAt d w)(anInstitution n := Some n))" (is ?moves)
    and "x = Inr () \<Longrightarrow> anchoredAt d w' (anInstitution n) = Some n" (is "_ \<Longrightarrow> ?arrived")
proof -
  show ?moves
  proof (cases "anDeployment p = d \<and> anDeployment n = d \<and> anInstitution p = anInstitution n")
    case True
    obtain y v where post: "anchorFetch (AnchorPost (''Bearer '' @ token)
        (JObj [(''previous'', anchorJson p), (''next'', anchorJson n)])) w = (y, v)" by fastforce
    from True show ?thesis
      using anchorFetch_post(1) [OF post] anchorAdvance_post(1) [OF assms _ _ _ post] by simp
  next
    case False
    with anchorAdvance_domain [of p d n token w] assms show ?thesis by auto
  qed
  show ?arrived if "x = Inr ()"
  proof -
    from assms that have domain: "anDeployment p = d" "anDeployment n = d" "anInstitution p = anInstitution n"
      using anchorAdvance_domain [of p d n token w] by fastforce+
    obtain y v where post: "anchorFetch (AnchorPost (''Bearer '' @ token)
        (JObj [(''previous'', anchorJson p), (''next'', anchorJson n)])) w = (y, v)" by fastforce
    note kept = anchorFetch_post(2) [OF post domain]
    from anchorAdvance_post [OF assms domain post] that show ?arrived
      by (auto simp: parseAnchor_anchorJson dest!: kept)
  qed
qed

interpretation http: consumption_anchor "anchorRead anchorFetch token d" "anchorAdvance anchorFetch token d" "anchoredAt d"
  for token d
proof
  show "anchoredAt d (snd (anchorRead anchorFetch token d i w)) = anchoredAt d w" for i w
    using anchorRead_unmoved [of token d i w] by (metis surjective_pairing)
qed (simp_all add: anchorRead_returns anchorAdvance_ok)

end
