(* ===== verification/Journal.thy ===== *)
theory Journal
  imports Effects Protocol Finals
begin

text \<open>
  The consumption journal of an institution: the hash chain of \<^verbatim>\<open>services/api/src/service-worker.ts\<close>
  (\<^verbatim>\<open>journalEntry\<close>, \<^verbatim>\<open>advanceJournalCursor\<close>) and the paged scan that \<^verbatim>\<open>verifyRecovery\<close> of
  \<^verbatim>\<open>finals-store.ts\<close> runs over the table. The lemmas relate the scan to one pass over the whole
  journal, and an accepted journal to the list of its entries.
\<close>

section \<open>Rows and the cursor\<close>

record JournalRow =
  jrInstitution :: string
  jrSequence :: string
  jrAuthorization :: string
  jrBinding :: string
  jrEntry :: string
  jrPrevious :: string

record JournalCursor =
  jcSequence :: string
  jcHash :: string
  jcEpoch :: string
  jcAuthority :: "string option"

definition journalEntry :: "lib \<Rightarrow> string \<Rightarrow> string \<Rightarrow> string \<Rightarrow> string \<Rightarrow> string" where
  "journalEntry L institution authorization binding previous = hashCanonical L (JObj
     [(''institutionId'', JStr institution), (''authorizationId'', JStr authorization),
      (''bindingHash'', JStr binding), (''previousHash'', JStr previous)])"

definition zeroHash :: string where
  "zeroHash = replicate 64 (CHR ''0'')"

definition firstCursor :: JournalCursor where
  "firstCursor = \<lparr> jcSequence = ''0'', jcHash = zeroHash, jcEpoch = ''1'', jcAuthority = None \<rparr>"

text \<open>\<^verbatim>\<open>s.split(':')\<close>\<close>

fun splitColon :: "string \<Rightarrow> string list" where
  "splitColon [] = [[]]"
| "splitColon (c # s) = (if c = CHR '':'' then [] # splitColon s
     else (case splitColon s of [] \<Rightarrow> [[c]] | w # ws \<Rightarrow> (c # w) # ws))"

definition recoveryRequired :: js_error where
  "recoveryRequired = Error ''CONSUMPTION_HISTORY_RECOVERY_REQUIRED''"

definition generationEpoch :: "JournalCursor \<Rightarrow> JournalRow \<Rightarrow> string result" where
  "generationEpoch prior row =
     (if startsWith ''key-generation:'' (jrAuthorization row)
      then let epoch = drop 15 (jrAuthorization row) in
        if \<not> isDigits epoch \<or> bigInt epoch \<le> bigInt (jcEpoch prior) then Inl recoveryRequired else Inr epoch
      else Inr (jcEpoch prior))"

definition authorityEpoch :: "JournalCursor \<Rightarrow> JournalRow \<Rightarrow> string \<Rightarrow> (string \<times> string option) result" where
  "authorityEpoch prior row epoch =
     (if startsWith ''authority-state:'' (jrAuthorization row)
      then (case splitColon (jrAuthorization row) of
              [_, e, _] \<Rightarrow> if \<not> isDigits e \<or> bigInt e < bigInt (jcEpoch prior) then Inl recoveryRequired
                           else Inr (e, Some (jrBinding row))
            | _ \<Rightarrow> Inl recoveryRequired)
      else Inr (epoch, jcAuthority prior))"

definition advanceJournalCursor :: "lib \<Rightarrow> string \<Rightarrow> JournalCursor \<Rightarrow> JournalRow \<Rightarrow> JournalCursor result" where
  "advanceJournalCursor L institution prior row =
     (if \<not> isDigits (jrSequence row) \<or> bigInt (jrSequence row) \<noteq> bigInt (jcSequence prior) + 1 \<or>
         jrPrevious row \<noteq> jcHash prior \<or>
         journalEntry L institution (jrAuthorization row) (jrBinding row) (jcHash prior) \<noteq> jrEntry row
      then Inl recoveryRequired
      else bindE (generationEpoch prior row) (\<lambda>epoch.
           bindE (authorityEpoch prior row epoch) (\<lambda>(epoch', authority).
           Inr \<lparr> jcSequence = jrSequence row, jcHash = jrEntry row, jcEpoch = epoch',
                 jcAuthority = (if authority = Some [] then None else authority) \<rparr>)))"

section \<open>The table\<close>

text \<open>The journal of an institution in the order of the sequence, and its head.\<close>

definition journalOf :: "string \<Rightarrow> JournalRow list \<Rightarrow> JournalRow list" where
  "journalOf institution rows = sort_key (\<lambda>r. bigInt (jrSequence r)) (filter (\<lambda>r. jrInstitution r = institution) rows)"

definition journalHead :: "string \<Rightarrow> JournalRow list \<Rightarrow> string \<times> string" where
  "journalHead institution rows =
     (let j = journalOf institution rows in
      if j = [] then (''0'', zeroHash) else (jrSequence (last j), jrEntry (last j)))"

definition nextSequence :: "string \<Rightarrow> string" where
  "nextSequence s = decimalString (nat (bigInt s + 1))"

text \<open>\<^verbatim>\<open>PRIMARY KEY(institution_id,sequence)\<close> and \<^verbatim>\<open>UNIQUE(institution_id,authorization_id)\<close>: a
  duplicate makes the insertion fail.\<close>

definition insertJournal :: "JournalRow \<Rightarrow> JournalRow list \<Rightarrow> JournalRow list result" where
  "insertJournal row rows =
     (if list_ex (\<lambda>r. jrInstitution r = jrInstitution row \<and>
          (bigInt (jrSequence r) = bigInt (jrSequence row) \<or> jrAuthorization r = jrAuthorization row)) rows
      then Inl LibraryError else Inr (rows @ [row]))"

section \<open>The scan\<close>

fun scanRows :: "lib \<Rightarrow> string \<Rightarrow> JournalCursor \<Rightarrow> JournalRow list \<Rightarrow> JournalCursor result" where
  "scanRows L institution cursor [] = Inr cursor"
| "scanRows L institution cursor (row # rows) =
     bindE (advanceJournalCursor L institution cursor row) (\<lambda>cursor'. scanRows L institution cursor' rows)"

definition journalPage :: "nat \<Rightarrow> string \<Rightarrow> JournalRow list \<Rightarrow> JournalCursor \<Rightarrow> JournalRow list" where
  "journalPage limit institution rows cursor =
     take limit (filter (\<lambda>r. bigInt (jrSequence r) > bigInt (jcSequence cursor)) (journalOf institution rows))"

lemma advance_sequence:
  "advanceJournalCursor L i c row = Inr c' \<Longrightarrow>
     bigInt (jcSequence c') = bigInt (jcSequence c) + 1 \<and> jcSequence c' = jrSequence row \<and> jcHash c' = jrEntry row"
  by (auto simp: advanceJournalCursor_def result_simps split: if_splits prod.splits)

lemma scanRows_sequence:
  "scanRows L i c rows = Inr c' \<Longrightarrow> bigInt (jcSequence c') = bigInt (jcSequence c) + int (length rows)"
  by (induction rows arbitrary: c) (auto simp: result_simps dest: advance_sequence)

text \<open>
  The loop of \<^verbatim>\<open>verifyRecovery\<close> reads pages until one is not full. It ends because every row of an
  accepted page moves the cursor, which leaves fewer rows beyond it.
\<close>

definition rowsBeyond :: "string \<Rightarrow> JournalRow list \<Rightarrow> JournalCursor \<Rightarrow> nat" where
  "rowsBeyond institution rows cursor =
     length (filter (\<lambda>r. bigInt (jrSequence r) > bigInt (jcSequence cursor)) (journalOf institution rows))"

lemma rowsBeyond_less:
  assumes scan: "scanRows L i c (journalPage limit i rows c) = Inr c'"
    and full: "limit \<le> length (journalPage limit i rows c)" and "0 < limit"
  shows "rowsBeyond i rows c' < rowsBeyond i rows c"
proof -
  from full \<open>0 < limit\<close> have "journalPage limit i rows c \<noteq> []" by auto
  then obtain row where row: "row \<in> set (journalPage limit i rows c)" by (meson hd_in_set)
  have reach: "bigInt (jrSequence r) \<le> bigInt (jcSequence d')"
    if "scanRows L i d ps = Inr d'" "r \<in> set ps" for d d' ps r
    using that
  proof (induction ps arbitrary: d)
    case (Cons p ps)
    then obtain d1 where d1: "advanceJournalCursor L i d p = Inr d1" "scanRows L i d1 ps = Inr d'"
      by (auto simp: bindE_eq_Inr)
    from Cons.prems(2) have "r = p \<or> r \<in> set ps" by simp
    then show ?case
      using Cons.IH [OF d1(2)] advance_sequence [OF d1(1)] scanRows_sequence [OF d1(2)] by auto
  qed simp
  from row have beyond: "row \<in> set (journalOf i rows)" "bigInt (jrSequence row) > bigInt (jcSequence c)"
    by (auto simp: journalPage_def dest!: in_set_takeD)
  have "set (filter (\<lambda>r. bigInt (jrSequence r) > bigInt (jcSequence c')) (journalOf i rows)) \<subseteq>
        set (filter (\<lambda>r. bigInt (jrSequence r) > bigInt (jcSequence c)) (journalOf i rows))"
    using scanRows_sequence [OF scan] by auto
  have shorter: "length (filter P xs) < length (filter Q xs)"
    if "\<And>x. P x \<Longrightarrow> Q x" "y \<in> set xs" "Q y" "\<not> P y" for P Q :: "JournalRow \<Rightarrow> bool" and xs y
    using that(2-4)
  proof (induction xs)
    case (Cons x xs)
    have le: "length (filter P xs) \<le> length (filter Q xs)"
      by (induction xs) (auto dest: that(1))
    with Cons show ?case by (auto simp: less_Suc_eq_le dest: that(1))
  qed simp
  show ?thesis
    unfolding rowsBeyond_def using reach [OF scan row] beyond scanRows_sequence [OF scan]
    by (intro shorter [of _ _ row]) auto
qed

function verifyPages :: "lib \<Rightarrow> string \<Rightarrow> JournalRow list \<Rightarrow> nat \<Rightarrow> JournalCursor \<Rightarrow> JournalCursor result" where
  "verifyPages L institution rows limit cursor =
     (let page = journalPage (Suc limit) institution rows cursor in
      case scanRows L institution cursor page of
        Inl e \<Rightarrow> Inl e
      | Inr cursor' \<Rightarrow> if length page < Suc limit then Inr cursor'
                      else verifyPages L institution rows limit cursor')"
  by pat_completeness auto

termination
  by (relation "measure (\<lambda>(L, i, rows, limit, c). rowsBeyond i rows c)") (auto simp: not_less intro: rowsBeyond_less)

declare verifyPages.simps [simp del]

definition verifyJournal :: "lib \<Rightarrow> string \<Rightarrow> JournalRow list \<Rightarrow> JournalCursor result" where
  "verifyJournal L institution rows = verifyPages L institution rows 499 firstCursor"

section \<open>Pages and one pass\<close>

text \<open>The primary key of the table, for one institution.\<close>

definition journalKeyed :: "string \<Rightarrow> JournalRow list \<Rightarrow> bool" where
  "journalKeyed institution rows \<longleftrightarrow> distinct (map (\<lambda>r. bigInt (jrSequence r)) (journalOf institution rows))"

lemma sorted_journalOf: "sorted (map (\<lambda>r. bigInt (jrSequence r)) (journalOf i rows))"
  by (simp add: journalOf_def)

lemma scanRows_append:
  "scanRows L i c (xs @ ys) = bindE (scanRows L i c xs) (\<lambda>c'. scanRows L i c' ys)"
  by (induction xs arbitrary: c) (simp_all add: bindE_assoc)

lemma scanRows_last:
  assumes "scanRows L i c xs = Inr c'" "xs \<noteq> []"
  shows "jcSequence c' = jrSequence (last xs) \<and> jcHash c' = jrEntry (last xs)"
proof -
  obtain ys y where xs: "xs = ys @ [y]" using assms(2) by (cases xs rule: rev_cases) auto
  with assms(1) obtain d where "advanceJournalCursor L i d y = Inr c'"
    by (auto simp: scanRows_append bindE_eq_Inr)
  from advance_sequence [OF this] xs show ?thesis by simp
qed

text \<open>In a list that ascends strictly, what is beyond the last element of a prefix is the rest.\<close>

lemma beyond_prefix:
  fixes f :: "'r \<Rightarrow> int"
  assumes "sorted (map f xs)" "distinct (map f xs)" "0 < n" "xs \<noteq> []"
  shows "filter (\<lambda>r. f r > f (last (take n xs))) xs = drop n xs"
  using assms
proof (induction xs arbitrary: n)
  case (Cons x xs)
  then obtain m where n: "n = Suc m" by (cases n) auto
  have above: "\<forall>y \<in> set xs. f x < f y"
    using Cons.prems(1,2) by (auto simp: less_le)
  show ?case
  proof (cases "m = 0 \<or> xs = []")
    case True
    with above n show ?thesis by auto
  next
    case False
    then have "last (take m xs) \<in> set xs" by (metis in_set_takeD last_in_set neq0_conv take_eq_Nil)
    with above have "f x < f (last (take m xs))" by blast
    with False Cons.IH [of m] Cons.prems n show ?thesis by auto
  qed
qed simp

lemma beyond_page:
  assumes keyed: "journalKeyed i rows" and page: "page = journalPage n i rows c" "page \<noteq> []"
    and at: "bigInt (jcSequence c') = bigInt (jrSequence (last page))"
  shows "filter (\<lambda>r. bigInt (jrSequence r) > bigInt (jcSequence c')) (journalOf i rows) =
     drop n (filter (\<lambda>r. bigInt (jrSequence r) > bigInt (jcSequence c)) (journalOf i rows))"
proof -
  let ?f = "\<lambda>r. bigInt (jrSequence r)" and ?j = "journalOf i rows"
  let ?xs = "filter (\<lambda>r. ?f r > bigInt (jcSequence c)) ?j"
  from page have n: "0 < n" and xs: "?xs \<noteq> []" and last: "last page = last (take n ?xs)"
    by (auto simp: journalPage_def)
  have "last page \<in> set ?xs" using page last in_set_takeD [of "last page" n ?xs] last_in_set [of page]
    by (simp add: journalPage_def)
  then have beyond: "bigInt (jcSequence c) < ?f (last page)" by simp
  have "filter (\<lambda>r. ?f r > bigInt (jcSequence c')) ?j = filter (\<lambda>r. ?f r > ?f (last (take n ?xs))) ?xs"
    using at beyond last by (auto intro!: filter_cong)
  also have "\<dots> = drop n ?xs"
  proof (rule beyond_prefix [OF _ _ n xs])
    show "sorted (map ?f ?xs)" by (rule sorted_filter [OF sorted_journalOf])
    show "distinct (map ?f ?xs)" using keyed by (simp add: journalKeyed_def distinct_map_filter)
  qed
  finally show ?thesis .
qed

lemma verifyPages_scan:
  assumes "journalKeyed i rows"
  shows "verifyPages L i rows n c =
    scanRows L i c (filter (\<lambda>r. bigInt (jrSequence r) > bigInt (jcSequence c)) (journalOf i rows))"
  using assms
proof (induction L i rows n c rule: verifyPages.induct)
  case (1 L i rows n c)
  let ?page = "journalPage (Suc n) i rows c"
  let ?xs = "filter (\<lambda>r. bigInt (jrSequence r) > bigInt (jcSequence c)) (journalOf i rows)"
  have split: "scanRows L i c ?xs = bindE (scanRows L i c ?page) (\<lambda>c'. scanRows L i c' (drop (Suc n) ?xs))"
    by (metis append_take_drop_id journalPage_def scanRows_append)
  show ?case
  proof (cases "scanRows L i c ?page")
    case (Inl e)
    then show ?thesis using split by (simp add: verifyPages.simps [of L i rows n c])
  next
    case (Inr c')
    show ?thesis
    proof (cases "length ?page < Suc n")
      case True
      then have "drop (Suc n) ?xs = []" by (auto simp: journalPage_def)
      with True Inr split show ?thesis by (simp add: verifyPages.simps [of L i rows n c])
    next
      case False
      then have "?page \<noteq> []" by auto
      from beyond_page [OF \<open>journalKeyed i rows\<close> refl this, of c'] scanRows_last [OF Inr this]
      have "drop (Suc n) ?xs = filter (\<lambda>r. bigInt (jrSequence r) > bigInt (jcSequence c')) (journalOf i rows)"
        by metis
      with False Inr split "1.IH" [OF refl Inr] \<open>journalKeyed i rows\<close> show ?thesis
        by (simp add: verifyPages.simps [of L i rows n c])
    qed
  qed
qed

section \<open>What an accepted journal determines\<close>

definition entryJson :: "string \<Rightarrow> JournalRow \<Rightarrow> json" where
  "entryJson institution row = JObj
     [(''institutionId'', JStr institution), (''authorizationId'', JStr (jrAuthorization row)),
      (''bindingHash'', JStr (jrBinding row)), (''previousHash'', JStr (jrPrevious row))]"

abbreviation entriesOf :: "JournalRow list \<Rightarrow> (string \<times> string) list" where
  "entriesOf rows \<equiv> map (\<lambda>r. (jrAuthorization r, jrBinding r)) rows"

lemma advance_entry:
  "advanceJournalCursor L i c row = Inr c' \<Longrightarrow>
     jrPrevious row = jcHash c \<and> jcHash c' = hashCanonical L (entryJson i row)"
  by (auto simp: advanceJournalCursor_def journalEntry_def entryJson_def result_simps split: if_splits prod.splits)

lemma scan_determines:
  assumes "scanRows L i c xs = Inr c1" "scanRows L i c ys = Inr c2"
    and "bigInt (jcSequence c1) = bigInt (jcSequence c2)" "jcHash c1 = jcHash c2"
    and "\<forall>x \<in> set xs. \<forall>y \<in> set ys. noCollision (hashCanonical L) (entryJson i x) (entryJson i y)"
  shows "entriesOf xs = entriesOf ys"
proof -
  have "length xs = length ys"
    using scanRows_sequence [OF assms(1)] scanRows_sequence [OF assms(2)] assms(3) by simp
  then show ?thesis using assms
  proof (induction xs ys arbitrary: c1 c2 rule: rev_induct2)
    case (4 x xs y ys)
    from "4.prems" obtain d1 d2 where d: "scanRows L i c xs = Inr d1" "advanceJournalCursor L i d1 x = Inr c1"
        "scanRows L i c ys = Inr d2" "advanceJournalCursor L i d2 y = Inr c2"
      by (auto simp: scanRows_append bindE_eq_Inr)
    note e = advance_entry [OF d(2)] advance_entry [OF d(4)]
    with "4.prems" have "entryJson i x = entryJson i y" by (auto simp: noCollision_def)
    then have same: "jrAuthorization x = jrAuthorization y" "jrBinding x = jrBinding y" "jrPrevious x = jrPrevious y"
      by (simp_all add: entryJson_def)
    with e have "jcHash d1 = jcHash d2" by simp
    moreover have "bigInt (jcSequence d1) = bigInt (jcSequence d2)"
      using advance_sequence [OF d(2)] advance_sequence [OF d(4)] "4.prems"(4) by linarith
    ultimately have "entriesOf xs = entriesOf ys"
      using "4.IH" [OF _ d(1) d(3)] "4.prems" by simp
    with same show ?case by simp
  qed simp_all
qed

end
