(* ===== verification/Store.thy ===== *)
theory Store
  imports Anchor Journal Service_Authority
begin

text \<open>
  The issuer's store, \<^verbatim>\<open>postgresAuthorityStore\<close> of \<^verbatim>\<open>services/api/src/finals-store.ts\<close>, with the
  recipients of a notification (\<^verbatim>\<open>notifications.ts\<close>) and the backup fence (\<^verbatim>\<open>backup-drain.ts\<close>).

  A state holds the tables of the schema \<^verbatim>\<open>issuer_v2\<close>, the remote anchor and the local variable
  \<^verbatim>\<open>anchorTouched\<close> of the running operation. \<open>sqlBegin\<close> is a database transaction: an exception restores
  the tables and leaves the anchor as it is. The primary keys, unique indices and \<^verbatim>\<open>CHECK\<close>s of the
  migrations are part of the insertions. The transaction callback \<^verbatim>\<open>operation\<close> is a function on the
  record, as the operations of the service authority are.
\<close>

section \<open>Tables\<close>

datatype BackupPhase = PhaseOpen | PhaseDraining | PhaseFenced

record InstitutionRow =
  iwState :: InstitutionRecord
  iwRevision :: int

record GateRow =
  grReady :: bool
  grToken :: "string option"
  grCheckedAt :: "int option"

record ApprovalRow =
  apInstitution :: string
  apAuthorization :: string
  apVersion :: int
  apBinding :: string
  apReceipt :: json

record GlobalQuotaRow =
  gqKey :: string
  gqUsed :: int
  gqLimit :: int
  gqExpiresAt :: int

datatype JobStatus = JobPending | JobProcessing | JobDone | JobFailed

record OutboxRow =
  obId :: string
  obInstitution :: string
  obKind :: string
  obObject :: string
  obPayload :: json
  obCreatedAt :: int
  obStatus :: JobStatus
  obAttempts :: nat
  obLeaseUntil :: "int option"
  obRetryAt :: int
  obLastError :: "string option"
  obClaim :: "string option"
  obHash :: "string option"
  obRaw :: "string option"
  obSigner :: "string option"
  obNonce :: "nat option"
  obReceiptBlock :: "string option"

record NotificationRow =
  ntInstitution :: string
  ntUser :: string
  ntId :: string
  ntCode :: string
  ntCreatedAt :: int
  ntExpiresAt :: int
  ntAcknowledgedAt :: "int option"

record AuditRow =
  arId :: string
  arInstitution :: string
  arEvent :: AuditEntry
  arRecordedAt :: int

record SignerLease =
  slSigner :: string
  slOwner :: string
  slExpiresAt :: int

record Issuer =
  isInstitutions :: "InstitutionRow dict"
  isGates :: "GateRow dict"
  isJournal :: "JournalRow list"
  isApprovals :: "ApprovalRow list"
  isGlobalQuota :: "GlobalQuotaRow list"
  isOutbox :: "OutboxRow list"
  isNotifications :: "NotificationRow list"
  isPreferences :: "((string \<times> string) \<times> bool) list"
  isAudit :: "AuditRow list"
  isLeases :: "SignerLease list"
  isStages :: "((string \<times> string) \<times> string option) list"
  isPhase :: "BackupPhase option"
  isBackupHolds :: bool

record 'w Store =
  stDb :: Issuer
  stAnchor :: 'w
  stTouched :: bool

section \<open>Steps\<close>

definition sqlBegin :: "('w Store, 'a) eff \<Rightarrow> ('w Store, 'a) eff" where
  "sqlBegin m s = (case m s of (Inl e, s') \<Rightarrow> (Inl e, s'\<lparr> stDb := stDb s \<rparr>) | (Inr v, s') \<Rightarrow> (Inr v, s'))"

definition sql :: "(Issuer \<Rightarrow> ('a \<times> Issuer) result) \<Rightarrow> ('w Store, 'a) eff" where
  "sql f s = (case f (stDb s) of Inl e \<Rightarrow> (Inl e, s) | Inr (v, db) \<Rightarrow> (Inr v, s\<lparr> stDb := db \<rparr>))"

definition sqlSet :: "(Issuer \<Rightarrow> Issuer) \<Rightarrow> ('w Store, unit) eff" where
  "sqlSet f = sql (\<lambda>db. Inr ((), f db))"

definition sqlGet :: "(Issuer \<Rightarrow> 'a result) \<Rightarrow> ('w Store, 'a) eff" where
  "sqlGet f = sql (\<lambda>db. bindE (f db) (\<lambda>v. Inr (v, db)))"

definition remote :: "('w, 'a) eff \<Rightarrow> ('w Store, 'a) eff" where
  "remote m s = (case m (stAnchor s) of (r, w) \<Rightarrow> (r, s\<lparr> stAnchor := w \<rparr>))"

definition setTouched :: "bool \<Rightarrow> ('w Store, unit) eff" where
  "setTouched b s = (Inr (), s\<lparr> stTouched := b \<rparr>)"

fun foldS :: "('b \<Rightarrow> 'a \<Rightarrow> ('s, 'b) eff) \<Rightarrow> 'b \<Rightarrow> 'a list \<Rightarrow> ('s, 'b) eff" where
  "foldS f acc [] = returnS acc"
| "foldS f acc (x # xs) = bindS (f acc x) (\<lambda>acc'. foldS f acc' xs)"

abbreviation forS :: "('a \<Rightarrow> ('s, unit) eff) \<Rightarrow> 'a list \<Rightarrow> ('s, unit) eff" where
  "forS f xs \<equiv> foldS (\<lambda>_. f) () xs"

section \<open>\<^verbatim>\<open>backup-drain.ts\<close> and \<^verbatim>\<open>notifications.ts\<close>\<close>

definition enterBackupWrite :: "bool \<Rightarrow> ('w Store, unit) eff" where
  "enterBackupWrite safety = sqlGet (\<lambda>db.
     if isBackupHolds db then Inl (HttpError 503 ''BACKUP_SNAPSHOT_BUSY_RETRY'')
     else if isPhase db = None \<or> isPhase db = Some PhaseFenced \<or> (isPhase db = Some PhaseDraining \<and> \<not> safety)
     then Inl (HttpError 503 ''BACKUP_WRITES_DRAINING'') else Inr ())"

definition recognizedNotices :: "string list" where
  "recognizedNotices = [''intent.created'', ''intent.cancelled'', ''authorization.issued'', ''attempt.ended'',
     ''attempt.failed'', ''attempt.cancelled'', ''attempt.declined'', ''attempt.no-answer'', ''institution.suspend'',
     ''configuration.activated'']"

definition noticeIntent :: "InstitutionRecord \<Rightarrow> string \<Rightarrow> ContactIntent option" where
  "noticeIntent r objectId =
     dget (irIntents r) (case Option.bind (irService r) (\<lambda>s. dget (ssAttempts s) objectId) of
       Some a \<Rightarrow> saIntent a
     | None \<Rightarrow> (case Option.bind (irService r) (\<lambda>s. dget (ssAuthorizations s) objectId) of
         Some auth \<Rightarrow> jstr (sauPayload auth) ''intentId'' | None \<Rightarrow> objectId))"

definition notificationRecipients :: "InstitutionRecord \<Rightarrow> string \<Rightarrow> string \<Rightarrow> string list" where
  "notificationRecipients r kind objectId =
     (if kind \<notin> set recognizedNotices then []
      else let ids = (case noticeIntent r objectId of
                 Some intent \<Rightarrow> [ciAgent intent, ciRecipient intent]
               | None \<Rightarrow> filter (\<lambda>i. memberPermits r i ''institution.recover'') (map fst (irMembers r)))
        in filter (\<lambda>i. dget (irMembers r) i \<noteq> None \<and> \<not> memberInactive r i) (rev (remdups (rev ids))))"

section \<open>Queries\<close>

definition institutionState :: "string \<Rightarrow> Issuer \<Rightarrow> InstitutionRecord result" where
  "institutionState i db =
     ofOption (Error ''INSTITUTION_NOT_PROVISIONED'') (map_option iwState (dget (isInstitutions db) i))"

definition gateReady :: "string \<Rightarrow> Issuer \<Rightarrow> bool" where
  "gateReady i db = (case dget (isGates db) i of Some g \<Rightarrow> grReady g | None \<Rightarrow> False)"

text \<open>\<^verbatim>\<open>UPDATE\<close>: a row that is not there is not created.\<close>

definition adjust :: "string \<Rightarrow> ('a \<Rightarrow> 'a) \<Rightarrow> 'a dict \<Rightarrow> 'a dict" where
  "adjust k f d = (case dget d k of None \<Rightarrow> d | Some v \<Rightarrow> dput k (f v) d)"

definition setGate :: "string \<Rightarrow> (GateRow \<Rightarrow> GateRow) \<Rightarrow> Issuer \<Rightarrow> Issuer" where
  "setGate i f db = db\<lparr> isGates := adjust i f (isGates db) \<rparr>"

definition setState :: "string \<Rightarrow> InstitutionRecord \<Rightarrow> Issuer \<Rightarrow> Issuer" where
  "setState i r db = db\<lparr> isInstitutions := adjust i (\<lambda>w. \<lparr> iwState = r, iwRevision = iwRevision w + 1 \<rparr>) (isInstitutions db) \<rparr>"

definition headAnchor :: "string \<Rightarrow> string \<Rightarrow> string \<Rightarrow> Issuer \<Rightarrow> Anchor" where
  "headAnchor deployment i epoch db = (case journalHead i (isJournal db) of (s, h) \<Rightarrow>
     \<lparr> anDeployment = deployment, anInstitution = i, anSequence = s, anHash = h, anEpoch = epoch \<rparr>)"

section \<open>The journal and its anchor\<close>

definition assertAnchored :: "'w anchorOptions \<Rightarrow> Anchor \<Rightarrow> ('w Store, unit) eff" where
  "assertAnchored opts localAnchor =
     bindS (remote (aoRead opts (anInstitution localAnchor))) (\<lambda>a. liftE (assertAnchorMatches localAnchor a))"

text \<open>The remote position first, then the row; what both \<^verbatim>\<open>checkpoint\<close> and \<^verbatim>\<open>appendJournal\<close> do.\<close>

definition appendEntry ::
    "lib \<Rightarrow> 'w anchorOptions option \<Rightarrow> string \<Rightarrow> string \<Rightarrow> string \<Rightarrow> string \<Rightarrow> string \<Rightarrow> ('w Store, Anchor) eff" where
  "appendEntry L options i previousEpoch epoch authorization binding =
     (case options of
        None \<Rightarrow> throwS (Error ''INDEPENDENT_ANCHOR_REQUIRED'')
      | Some opts \<Rightarrow>
          bindS (sqlGet (\<lambda>db. Inr (headAnchor (aoDeployment opts) i previousEpoch db))) (\<lambda>previous.
          bindS (assertAnchored opts previous) (\<lambda>_.
          let upcoming = previous\<lparr> anEpoch := epoch, anSequence := nextSequence (anSequence previous),
                 anHash := journalEntry L i authorization binding (anHash previous) \<rparr> in
          bindS (remote (aoAdvance opts previous upcoming)) (\<lambda>_.
          bindS (setTouched True) (\<lambda>_.
          bindS (sql (\<lambda>db. bindE (insertJournal
                     \<lparr> jrInstitution = i, jrSequence = anSequence upcoming, jrAuthorization = authorization,
                       jrBinding = binding, jrEntry = anHash upcoming, jrPrevious = anHash previous \<rparr> (isJournal db))
                   (\<lambda>rows. Inr ((), db\<lparr> isJournal := rows \<rparr>)))) (\<lambda>_.
          returnS upcoming))))))"

definition checkpoint ::
    "lib \<Rightarrow> 'w anchorOptions option \<Rightarrow> string \<Rightarrow> InstitutionRecord \<Rightarrow> string \<Rightarrow> ('w Store, JournalCursor) eff" where
  "checkpoint L options uuid r previousEpoch =
     bindS (appendEntry L options (irId r) previousEpoch (irEpoch r)
              (''authority-state:'' @ irEpoch r @ '':'' @ uuid) (authorityStateHash L r)) (\<lambda>upcoming.
     returnS \<lparr> jcSequence = anSequence upcoming, jcHash = anHash upcoming, jcEpoch = anEpoch upcoming,
               jcAuthority = Some (authorityStateHash L r) \<rparr>)"

text \<open>
  \<^verbatim>\<open>/ANCHOR|CONSUMPTION_HISTORY|AUTHORITY_METADATA/\<close>; the messages of the packages in use contain
  none of the three.
\<close>

definition containsText :: "string \<Rightarrow> string \<Rightarrow> bool" where
  "containsText needle s \<longleftrightarrow> list_ex (\<lambda>n. take (length needle) (drop n s) = needle) [0..<Suc (length s)]"

definition errorText :: "js_error \<Rightarrow> string" where
  "errorText e = (case e of Error m \<Rightarrow> m | HttpError _ c \<Rightarrow> c | HttpConflict m \<Rightarrow> m | PermanentJobError m _ \<Rightarrow> m | _ \<Rightarrow> [])"

definition closesGate :: "js_error \<Rightarrow> bool" where
  "closesGate e \<longleftrightarrow> list_ex (\<lambda>t. containsText t (errorText e)) [''ANCHOR'', ''CONSUMPTION_HISTORY'', ''AUTHORITY_METADATA'']"

definition closeGate :: "string \<Rightarrow> js_error \<Rightarrow> bool \<Rightarrow> ('w Store, unit) eff" where
  "closeGate i e forced =
     (if forced \<or> closesGate e then sqlSet (setGate i (\<lambda>g. g\<lparr> grReady := False \<rparr>)) else returnS ())"

text \<open>\<^verbatim>\<open>try { return await sql.begin(...) } catch (error) { await closeGate(id, error, anchorTouched); throw error; }\<close>\<close>

definition gated :: "string \<Rightarrow> ('w Store, 'a) eff \<Rightarrow> ('w Store, 'a) eff" where
  "gated i m s = (case sqlBegin m (s\<lparr> stTouched := False \<rparr>) of
     (Inr v, s') \<Rightarrow> (Inr v, s')
   | (Inl e, s') \<Rightarrow> (Inl e, snd (closeGate i e (stTouched s') s')))"

section \<open>Reading\<close>

definition blockRecovery :: "InstitutionRecord \<Rightarrow> InstitutionRecord" where
  "blockRecovery = onService (\<lambda>s. s\<lparr> ssReady := False \<rparr>)"

definition storeRead :: "'w anchorOptions option \<Rightarrow> string \<Rightarrow> ('w Store, InstitutionRecord) eff" where
  "storeRead options i = sqlGet (\<lambda>db. bindE (institutionState i db) (\<lambda>r.
     Inr (if irService r \<noteq> None \<and> (Option.is_none options \<or> \<not> gateReady i db) then blockRecovery r else r)))"

section \<open>Transactions\<close>

definition serviceConsumptions :: "InstitutionRecord \<Rightarrow> Signed dict" where
  "serviceConsumptions r = (case irService r of Some s \<Rightarrow> ssConsumptions s | None \<Rightarrow> [])"

definition claimedIds :: "InstitutionRecord \<Rightarrow> string list" where
  "claimedIds r = map fst (irConsumptions r) @ map fst (serviceConsumptions r)"

record Claim =
  clmId :: string
  clmVersion :: int
  clmBinding :: string
  clmReceipt :: json

definition claimOf :: "int \<Rightarrow> string \<times> Signed \<Rightarrow> Claim" where
  "claimOf version e = (case e of (i, item) \<Rightarrow>
     \<lparr> clmId = i, clmVersion = version, clmBinding = jstr (sgPayload item) ''bindingHash'',
       clmReceipt = JObj [(''payload'', sgPayload item), (''jws'', JStr (sgJws item))] \<rparr>)"

definition claimsOf :: "InstitutionRecord \<Rightarrow> Claim list" where
  "claimsOf r = map (claimOf 2) (irConsumptions r) @ map (claimOf 3) (serviceConsumptions r)"

text \<open>Before the callback runs: the gate, or the position of the anchor, decides whether the service may act.\<close>

definition admit :: "'w anchorOptions option \<Rightarrow> string \<Rightarrow> transactMode \<Rightarrow> InstitutionRecord \<Rightarrow> ('w Store, InstitutionRecord) eff" where
  "admit options i mode r =
     (if irService r = None \<or> mode = ModeCleanup then returnS r
      else bindS (sqlGet (\<lambda>db. Inr (gateReady i db, db))) (\<lambda>(ready, db).
        case options of
          None \<Rightarrow> returnS (blockRecovery r)
        | Some opts \<Rightarrow>
            if \<not> ready then returnS (blockRecovery r)
            else bindS (assertAnchored opts (headAnchor (aoDeployment opts) i (irEpoch r) db)) (\<lambda>_. returnS r)))"

definition cleanupForbidden :: "lib \<Rightarrow> InstitutionRecord \<Rightarrow> InstitutionRecord \<Rightarrow> bool" where
  "cleanupForbidden L before after \<longleftrightarrow>
     irService before = None \<or> authorityStateHash L before \<noteq> authorityStateHash L after \<or>
     irStatus before \<noteq> irStatus after \<or>
     list_ex (\<lambda>i. i \<notin> set (claimedIds before)) (map fst (serviceConsumptions after))"

definition existingApproval :: "string \<Rightarrow> string \<Rightarrow> Issuer \<Rightarrow> ApprovalRow option" where
  "existingApproval i authorization db =
     selectOne (\<lambda>a. apInstitution a = i \<and> apAuthorization a = authorization) (isApprovals db)"

definition approvalConflicts :: "lib \<Rightarrow> Claim \<Rightarrow> ApprovalRow \<Rightarrow> bool" where
  "approvalConflicts L claim a \<longleftrightarrow>
     apVersion a \<noteq> clmVersion claim \<or> apBinding a \<noteq> clmBinding claim \<or>
     hashCanonical L (apReceipt a) \<noteq> hashCanonical L (clmReceipt claim)"

text \<open>One new claim; the result is the epoch the next journal row starts from (\<^verbatim>\<open>journalEpoch\<close>).\<close>

definition recordClaim ::
    "lib \<Rightarrow> 'w anchorOptions option \<Rightarrow> string \<Rightarrow> InstitutionRecord \<Rightarrow> string \<Rightarrow> Claim \<Rightarrow> ('w Store, string) eff" where
  "recordClaim L options i after journalEpoch claim =
     bindS (sqlGet (\<lambda>db. Inr (existingApproval i (clmId claim) db))) (\<lambda>existing.
     case existing of
       Some a \<Rightarrow> if approvalConflicts L claim a then throwS (Error ''CROSS_PROFILE_CONSUMPTION_CONFLICT'')
                 else returnS journalEpoch
     | None \<Rightarrow>
         bindS (if irService after = None then returnS journalEpoch
                else bindS (appendEntry L options i journalEpoch (irEpoch after) (clmId claim) (clmBinding claim))
                       (\<lambda>upcoming. returnS (anEpoch upcoming))) (\<lambda>epoch.
         bindS (sqlSet (\<lambda>db. db\<lparr> isApprovals := isApprovals db @
                  [\<lparr> apInstitution = i, apAuthorization = clmId claim, apVersion = clmVersion claim,
                    apBinding = clmBinding claim, apReceipt = clmReceipt claim \<rparr>] \<rparr>)) (\<lambda>_.
         returnS epoch)))"

definition safetyEvents :: "string list" where
  "safetyEvents = [''credential.revoke'', ''intent.cancelled'', ''official.completed'', ''intent.reassigned'', ''call.cleanup'']"

definition needsCheckpoint :: "lib \<Rightarrow> transactMode \<Rightarrow> InstitutionRecord \<Rightarrow> InstitutionRecord \<Rightarrow> bool" where
  "needsCheckpoint L mode before after \<longleftrightarrow>
     mode \<noteq> ModeCleanup \<and> irService after \<noteq> None \<and>
     (irService before = None \<or> authorityStateHash L before \<noteq> authorityStateHash L after \<or> irStatus before \<noteq> irStatus after \<or>
      list_ex (\<lambda>e. peKind e \<in> set safetyEvents) (drop (length (irPendingEvents before)) (irPendingEvents after)))"

definition chargeUsage :: "PendingUsage \<Rightarrow> ('w Store, unit) eff" where
  "chargeUsage pu = sql (\<lambda>db.
     case selectOne (\<lambda>q. gqKey q = puKey pu) (isGlobalQuota db) of
       None \<Rightarrow>
         if puUnits pu < 0 \<or> puLimit pu < 0 \<or> puUnits pu > puLimit pu then Inl LibraryError
         else Inr ((), db\<lparr> isGlobalQuota := isGlobalQuota db @
                [\<lparr> gqKey = puKey pu, gqUsed = puUnits pu, gqLimit = puLimit pu, gqExpiresAt = puExpiresAt pu \<rparr>] \<rparr>)
     | Some q \<Rightarrow>
         if gqUsed q + puUnits pu > gqLimit q then Inl (HttpError 429 ''GLOBAL_QUOTA_EXHAUSTED'')
         else if gqUsed q + puUnits pu < 0 then Inl LibraryError
         else Inr ((), db\<lparr> isGlobalQuota := updateWhere (\<lambda>x. gqKey x = puKey pu)
                (\<lambda>x. x\<lparr> gqUsed := gqUsed x + puUnits pu \<rparr>) (isGlobalQuota db) \<rparr>))"

definition newJob :: "int \<Rightarrow> string \<Rightarrow> PendingEvent \<Rightarrow> OutboxRow" where
  "newJob now i e = \<lparr> obId = peId e, obInstitution = i, obKind = peKind e, obObject = peObject e, obPayload = pePayload e,
     obCreatedAt = now, obStatus = JobPending, obAttempts = 0, obLeaseUntil = None, obRetryAt = now, obLastError = None,
     obClaim = None, obHash = None, obRaw = None, obSigner = None, obNonce = None, obReceiptBlock = None \<rparr>"

definition enqueue :: "int \<Rightarrow> string \<Rightarrow> PendingEvent \<Rightarrow> Issuer \<Rightarrow> Issuer" where
  "enqueue now i e db =
     (if list_ex (\<lambda>j. obId j = peId e) (isOutbox db) then db
      else db\<lparr> isOutbox := isOutbox db @ [newJob now i e] \<rparr>)"

fun attemptStatusText :: "AttemptStatus \<Rightarrow> string" where
  "attemptStatusText SCreated = ''created''"
| "attemptStatusText SAuthorized = ''authorized''"
| "attemptStatusText SConsumed = ''consumed''"
| "attemptStatusText SAccepted = ''accepted''"
| "attemptStatusText SEnded = ''ended''"
| "attemptStatusText SDeclined = ''declined''"
| "attemptStatusText SNoAnswer = ''no-answer''"
| "attemptStatusText SFailed = ''failed''"
| "attemptStatusText SCancelled = ''cancelled''"

definition notify :: "int \<Rightarrow> string \<Rightarrow> string \<Rightarrow> string \<Rightarrow> string \<Rightarrow> Issuer \<Rightarrow> Issuer" where
  "notify now i noticeId code user db =
     (if list_ex (\<lambda>n. ntInstitution n = i \<and> ntUser n = user \<and> ntId n = noticeId) (isNotifications db) then db
      else db\<lparr> isNotifications := isNotifications db @
             [\<lparr> ntInstitution = i, ntUser = user, ntId = noticeId, ntCode = code, ntCreatedAt = now,
               ntExpiresAt = now + 86400, ntAcknowledgedAt = None \<rparr>] \<rparr>)"

definition noticeCode :: "InstitutionRecord \<Rightarrow> PendingEvent \<Rightarrow> string" where
  "noticeCode r e =
     (if peKind e = ''call.cleanup''
      then ''attempt.'' @ (case Option.bind (irService r) (\<lambda>s. dget (ssAttempts s) (peObject e)) of
             Some a \<Rightarrow> attemptStatusText (saStatus a) | None \<Rightarrow> ''undefined'')
      else peKind e)"

definition noticeIdOf :: "string \<Rightarrow> PendingEvent \<Rightarrow> string" where
  "noticeIdOf code e = (if startsWith ''attempt.'' code then ''terminal:'' @ peObject e @ '':'' @ code else peId e)"

definition notifyEvent :: "int \<Rightarrow> string \<Rightarrow> InstitutionRecord \<Rightarrow> PendingEvent \<Rightarrow> Issuer \<Rightarrow> Issuer" where
  "notifyEvent now i r e db =
     (let code = noticeCode r e in
      fold (notify now i (noticeIdOf code e) code) (notificationRecipients r code (peObject e)) db)"

definition insertAudit :: "int \<Rightarrow> string \<Rightarrow> AuditEntry \<Rightarrow> ('w Store, unit) eff" where
  "insertAudit now i e = sql (\<lambda>db.
     if list_ex (\<lambda>a. arId a = adId e) (isAudit db) then Inl LibraryError
     else Inr ((), db\<lparr> isAudit := isAudit db @ [\<lparr> arId = adId e, arInstitution = i, arEvent = e, arRecordedAt = now \<rparr>] \<rparr>))"

text \<open>What follows the callback: claims, checkpoint, usage, events, notices, audit and the record.\<close>

definition settleRecord ::
    "lib \<Rightarrow> 'w anchorOptions option \<Rightarrow> string \<Rightarrow> int \<Rightarrow> string \<Rightarrow> transactMode \<Rightarrow> InstitutionRecord \<Rightarrow> InstitutionRecord
       \<Rightarrow> ('w Store, unit) eff" where
  "settleRecord L options uuid now i mode before after =
     bindS (guardS (mode = ModeCleanup \<and> cleanupForbidden L before after)
              (Error ''CLEANUP_CANNOT_GRANT_OR_CHANGE_AUTHORITY'')) (\<lambda>_.
     let claims = filter (\<lambda>c. clmId c \<notin> set (claimedIds before)) (claimsOf after) in
     bindS (guardS (irEpoch before \<noteq> irEpoch after \<and> claims \<noteq> [])
              (Error ''AUTHORITY_CHANGE_AND_CONSUMPTION_MUST_BE_SEPARATE'')) (\<lambda>_.
     bindS (foldS (recordClaim L options i after) (irEpoch before) claims) (\<lambda>journalEpoch.
     bindS (if needsCheckpoint L mode before after
            then bindS (checkpoint L options uuid after journalEpoch) (\<lambda>_. returnS ()) else returnS ()) (\<lambda>_.
     bindS (forS chargeUsage (irPendingUsage after)) (\<lambda>_.
     bindS (sqlSet (fold (enqueue now i) (irPendingEvents after))) (\<lambda>_.
     bindS (sqlSet (fold (notifyEvent now i after) (irPendingEvents after))) (\<lambda>_.
     bindS (forS (insertAudit now i) (drop (length (irAudit before)) (irAudit after))) (\<lambda>_.
     sqlSet (setState i (after\<lparr> irPendingUsage := [], irPendingEvents := [], irAudit := [] \<rparr>))))))))))"

definition storeTransact ::
    "lib \<Rightarrow> 'w anchorOptions option \<Rightarrow> string \<Rightarrow> int \<Rightarrow> string \<Rightarrow> (InstitutionRecord \<Rightarrow> ('a \<times> InstitutionRecord) result)
       \<Rightarrow> transactMode \<Rightarrow> ('w Store, 'a) eff" where
  "storeTransact L options uuid now i operation mode = gated i (
     bindS (enterBackupWrite (mode \<noteq> ModeNormal)) (\<lambda>_.
     bindS (sqlGet (institutionState i)) (\<lambda>before.
     bindS (admit options i mode before) (\<lambda>admitted.
     bindS (liftE (operation admitted)) (\<lambda>(result, after).
     bindS (settleRecord L options uuid now i mode before after) (\<lambda>_. returnS result))))))"

section \<open>Recovery\<close>

definition isSpecialEntry :: "string \<Rightarrow> bool" where
  "isSpecialEntry authorization \<longleftrightarrow>
     startsWith ''key-generation:'' authorization \<or> startsWith ''authority-state:'' authorization"

definition claimRows :: "string \<Rightarrow> Issuer \<Rightarrow> JournalRow list" where
  "claimRows i db = filter (\<lambda>r. jrInstitution r = i \<and> \<not> isSpecialEntry (jrAuthorization r)) (isJournal db)"

definition missingApprovals :: "string \<Rightarrow> Issuer \<Rightarrow> JournalRow list" where
  "missingApprovals i db = filter (\<lambda>r. \<not> list_ex (\<lambda>a. apInstitution a = i \<and> apAuthorization a = jrAuthorization r \<and>
     apBinding a = jrBinding r) (isApprovals db)) (claimRows i db)"

definition historyInconsistent :: "lib \<Rightarrow> string \<Rightarrow> InstitutionRecord \<Rightarrow> JournalCursor \<Rightarrow> Issuer \<Rightarrow> bool" where
  "historyInconsistent L i r cursor db \<longleftrightarrow>
     jcEpoch cursor \<noteq> irEpoch r \<or>
     (jcSequence cursor \<noteq> ''0'' \<and> jcAuthority cursor \<noteq> Some (authorityStateHash L r)) \<or>
     missingApprovals i db \<noteq> [] \<or>
     length (filter (\<lambda>a. apInstitution a = i) (isApprovals db)) \<noteq> length (claimRows i db)"

text \<open>First phase: close the gate under a token, then scan a read-only snapshot.\<close>

definition verifySnapshot :: "lib \<Rightarrow> string \<Rightarrow> Issuer \<Rightarrow> JournalCursor result" where
  "verifySnapshot L i db =
     bindE (institutionState i db) (\<lambda>r.
     if irService r \<noteq> None \<and> irCheckpointVersion r \<noteq> Some 1 then Inl (Error ''AUTHORITY_METADATA_MIGRATION_REQUIRED'')
     else bindE (verifyJournal L i (isJournal db)) (\<lambda>cursor.
       if historyInconsistent L i r cursor db then Inl (Error ''CONSUMPTION_HISTORY_RECOVERY_REQUIRED'') else Inr cursor))"

definition startRecovery :: "lib \<Rightarrow> 'w anchorOptions option \<Rightarrow> string \<Rightarrow> string \<Rightarrow> ('w Store, JournalCursor) eff" where
  "startRecovery L options token i =
     (case options of
        None \<Rightarrow> throwS (Error ''INDEPENDENT_ANCHOR_REQUIRED'')
      | Some _ \<Rightarrow> bindS (sqlSet (setGate i (\<lambda>g. g\<lparr> grReady := False, grToken := Some token \<rparr>))) (\<lambda>_.
        sqlGet (verifySnapshot L i)))"

definition fenced :: "string \<Rightarrow> string \<Rightarrow> Issuer \<Rightarrow> bool" where
  "fenced i token db = (case dget (isGates db) i of
     Some g \<Rightarrow> grToken g = Some token \<and> \<not> grReady g | None \<Rightarrow> False)"

definition changedSince :: "string \<Rightarrow> InstitutionRecord \<Rightarrow> JournalCursor \<Rightarrow> Issuer \<Rightarrow> bool" where
  "changedSince i r verified db \<longleftrightarrow>
     irEpoch r \<noteq> jcEpoch verified \<or> journalHead i (isJournal db) \<noteq> (jcSequence verified, jcHash verified)"

text \<open>
  Second phase, under the lock of the institution. The transaction waits for the backup lock, so no
  state in which the backup holds it is one in which this phase runs.
\<close>

definition finishRecovery ::
    "lib \<Rightarrow> 'w anchorOptions option \<Rightarrow> string \<Rightarrow> string \<Rightarrow> int \<Rightarrow> string \<Rightarrow> bool \<Rightarrow> JournalCursor \<Rightarrow> ('w Store, unit) eff" where
  "finishRecovery L options token uuid now i allowBootstrap verified =
     (case options of
        None \<Rightarrow> throwS (Error ''INDEPENDENT_ANCHOR_REQUIRED'')
      | Some opts \<Rightarrow> sqlBegin (
          bindS (sqlGet (\<lambda>db. Inr (map_option iwState (dget (isInstitutions db) i), db))) (\<lambda>(row, db).
          bindS (guardS (\<not> fenced i token db) (Error ''RECOVERY_VERIFICATION_SUPERSEDED'')) (\<lambda>_.
          bindS (liftE (ofOption (Error ''CONSUMPTION_HISTORY_CHANGED_DURING_RECOVERY'') row)) (\<lambda>r.
          bindS (guardS (changedSince i r verified db) (Error ''CONSUMPTION_HISTORY_CHANGED_DURING_RECOVERY'')) (\<lambda>_.
          bindS (assertAnchored opts \<lparr> anDeployment = aoDeployment opts, anInstitution = i,
                   anSequence = jcSequence verified, anHash = jcHash verified, anEpoch = jcEpoch verified \<rparr>) (\<lambda>_.
          bindS (if jcSequence verified = ''0''
                 then bindS (guardS (\<not> allowBootstrap) (Error ''AUTHORITY_METADATA_CHECKPOINT_REQUIRED'')) (\<lambda>_.
                      bindS (enterBackupWrite False) (\<lambda>_.
                      bindS (checkpoint L options uuid r (irEpoch r)) (\<lambda>_. returnS ())))
                 else guardS (jcAuthority verified \<noteq> Some (authorityStateHash L r))
                        (Error ''AUTHORITY_METADATA_CHANGED_DURING_RECOVERY'')) (\<lambda>_.
          bindS (sql (\<lambda>db. if \<not> fenced i token db then Inl (Error ''RECOVERY_VERIFICATION_SUPERSEDED'')
                   else Inr ((), setGate i (\<lambda>g. g\<lparr> grReady := True, grCheckedAt := Some now \<rparr>) db))) (\<lambda>_.
          sqlSet (\<lambda>db. db\<lparr> isInstitutions := adjust i (\<lambda>w. w\<lparr> iwState :=
                    onService (\<lambda>s. s\<lparr> ssReady := True \<rparr>) (iwState w) \<rparr>) (isInstitutions db) \<rparr>)))))))))
      )"

definition verifyRecovery ::
    "lib \<Rightarrow> 'w anchorOptions option \<Rightarrow> string \<Rightarrow> string \<Rightarrow> int \<Rightarrow> string \<Rightarrow> bool \<Rightarrow> ('w Store, unit) eff" where
  "verifyRecovery L options token uuid now i allowBootstrap =
     bindS (startRecovery L options token i) (finishRecovery L options token uuid now i allowBootstrap)"

end
