(* ===== verification/Ledger_Events.thy ===== *)
theory Ledger_Events
  imports Management Store
begin

text \<open>
  The consumer of ledger events, \<^verbatim>\<open>services/api/src/ledger-events.ts\<close>. A tick reads the blocks after its
  cursor, at most fifty at once, and applies their events to the institution in one database transaction:
  a suspension, a recovery, a revoked delegation or a configuration that the ledger has accepted. The node
  and viem's decoding of a log are the record \<open>eventEnv\<close>; \<open>lgData\<close> stands for the topics and the data of
  a log. The state holds the tables of the issuer, the cursor of the deployment and its processed events.
\<close>

datatype LedgerEvent =
    InstitutionSuspendedEvent string string
  | InstitutionRecoveredEvent string string
  | DelegationRevokedEvent string string
  | ConfigurationUpdatedEvent string configurationEvent

fun eventInstitution :: "LedgerEvent \<Rightarrow> string" where
  "eventInstitution (InstitutionSuspendedEvent i _) = i"
| "eventInstitution (InstitutionRecoveredEvent i _) = i"
| "eventInstitution (DelegationRevokedEvent _ i) = i"
| "eventInstitution (ConfigurationUpdatedEvent i _) = i"

fun eventName :: "LedgerEvent \<Rightarrow> string" where
  "eventName (InstitutionSuspendedEvent _ _) = ''InstitutionSuspended''"
| "eventName (InstitutionRecoveredEvent _ _) = ''InstitutionRecovered''"
| "eventName (DelegationRevokedEvent _ _) = ''DelegationRevoked''"
| "eventName (ConfigurationUpdatedEvent _ _) = ''ConfigurationUpdated''"

record ChainLog =
  lgTransaction :: "string option"
  lgIndex :: "int option"
  lgBlock :: "int option"
  lgBlockHash :: "string option"
  lgData :: string

record LedgerConfiguration =
  lcEpoch :: string
  lcDirectoryHash :: string
  lcDirectoryVersion :: string
  lcPolicyVersion :: string
  lcPolicyHash :: string

record eventEnv =
  eeInstitution :: string
  eeDeploymentBlock :: int
  eeBlockHash :: "int \<Rightarrow> string option result"
  eeHead :: "int result"
  eeLogs :: "int \<Rightarrow> int \<Rightarrow> ChainLog list result"
  eeConfiguration :: "int \<Rightarrow> LedgerConfiguration result"
  eeDecode :: "string \<Rightarrow> LedgerEvent option"
  eeNow :: int

record EventStore =
  evIssuer :: Issuer
  evCursor :: "(int \<times> string) option"
  evProcessed :: "((string \<times> int) \<times> int \<times> string) list"

record Observation =
  onCursor :: "int option"
  onTo :: int
  onLogs :: "ChainLog list"
  onBlockHash :: string
  onConfiguration :: "LedgerConfiguration option"

section \<open>Reading the ledger\<close>

definition cursorConflicts :: "eventEnv \<Rightarrow> EventStore \<Rightarrow> bool result" where
  "cursorConflicts V s = (case evCursor s of None \<Rightarrow> Inr False
     | Some (n, h) \<Rightarrow> bindE (eeBlockHash V n) (\<lambda>v. Inr (v \<noteq> Some h)))"

definition blockGate :: "string \<Rightarrow> EventStore \<Rightarrow> EventStore" where
  "blockGate i s = s\<lparr> evIssuer := setGate i (\<lambda>g. g\<lparr> grReady := False \<rparr>) (evIssuer s) \<rparr>"

definition isConfigurationLog :: "eventEnv \<Rightarrow> ChainLog \<Rightarrow> bool" where
  "isConfigurationLog V g \<longleftrightarrow> (case eeDecode V (lgData g) of Some (ConfigurationUpdatedEvent _ _) \<Rightarrow> True | _ \<Rightarrow> False)"

definition observeBlocks :: "eventEnv \<Rightarrow> EventStore \<Rightarrow> Observation option result" where
  "observeBlocks V s =
     (let start = (case evCursor s of Some (n, _) \<Rightarrow> n + 1 | None \<Rightarrow> eeDeploymentBlock V) in
      bindE (eeHead V) (\<lambda>head.
      if head < start then Inr None
      else let upTo = (if start + 49 < head then start + 49 else head) in
        bindE (eeLogs V start upTo) (\<lambda>logs.
        if length logs > 10000 then Inl (Error ''LEDGER_EVENT_BATCH_TOO_LARGE'')
        else bindE (eeBlockHash V upTo) (\<lambda>h. case h of
            None \<Rightarrow> Inl (Error ''LEDGER_BLOCK_MISSING'')
          | Some hash \<Rightarrow>
              bindE (if list_ex (isConfigurationLog V) logs then bindE (eeConfiguration V upTo) (\<lambda>c. Inr (Some c))
                     else Inr None) (\<lambda>c.
              Inr (Some \<lparr> onCursor = map_option fst (evCursor s), onTo = upTo, onLogs = logs, onBlockHash = hash,
                onConfiguration = c \<rparr>))))))"

section \<open>Applying an event\<close>

definition configurationUnreconciled :: "LedgerConfiguration option \<Rightarrow> configurationEvent \<Rightarrow> bool" where
  "configurationUnreconciled c e \<longleftrightarrow> (case c of None \<Rightarrow> True
     | Some q \<Rightarrow> lcDirectoryHash q \<noteq> ceDirectoryHash e \<or> lcDirectoryVersion q \<noteq> ceDirectoryVersion e \<or>
         lcPolicyVersion q \<noteq> cePolicyVersion e \<or> lcEpoch q \<noteq> ceEpoch e \<or> lcPolicyHash q \<noteq> cePolicyHash e)"

definition confirmConfiguration ::
    "int \<Rightarrow> string \<Rightarrow> int \<Rightarrow> configurationEvent \<Rightarrow> ConfigurationProposal \<Rightarrow> InstitutionRecord \<Rightarrow> InstitutionRecord" where
  "confirmConfiguration now transaction block e p r =
     (let r1 = putProposal (p\<lparr> cpStatus := Confirmed, cpTransactionHash := Some transaction,
            cpBlock := Some (numberText block) \<rparr>) r in
      if ceInvalidated e
      then invalidateInstitution now (r1\<lparr> irObservedEpoch := Some (ceEpoch e), irStatus := InstitutionSuspended \<rparr>)
      else r1\<lparr> irDirectory := Some \<lparr> dirHash = ceDirectoryHash e, dirVersion = bigInt (ceDirectoryVersion e),
            dirEntries = jobj (cpContents p) ''directory'' \<rparr> \<rparr>)"

definition dmapWith :: "(string \<Rightarrow> 'a \<Rightarrow> 'b) \<Rightarrow> 'a dict \<Rightarrow> 'b dict" where
  "dmapWith f d = map (\<lambda>e. (fst e, f (fst e) (snd e))) d"

lemma dget_dmapWith [simp]: "dget (dmapWith f d) k = map_option (f k) (dget d k)"
  by (induction d) (auto simp: dmapWith_def)

lemma dvalues_dmapWith: "v \<in> set (dvalues (dmapWith f d)) \<Longrightarrow> \<exists>k w. w \<in> set (dvalues d) \<and> v = f k w"
  by (force simp: dmapWith_def dvalues_def)

definition revokeWhere :: "(string \<Rightarrow> bool) \<Rightarrow> ServiceState \<Rightarrow> ServiceState" where
  "revokeWhere f s = s\<lparr> ssCredentials :=
     dmapWith (\<lambda>d c. if f d then c\<lparr> sdState := CredentialRevoked \<rparr> else c) (ssCredentials s) \<rparr>"

text \<open>A recovery is observed like a suspension: only an explicit key activation makes the institution active.\<close>

definition suspendObserved :: "string \<Rightarrow> InstitutionRecord \<Rightarrow> InstitutionRecord" where
  "suspendObserved epoch r = onService (revokeWhere (\<lambda>_. True))
     (r\<lparr> irObservedEpoch := Some epoch, irStatus := InstitutionSuspended \<rparr>)"

fun applyEvent ::
    "lib \<Rightarrow> int \<Rightarrow> LedgerConfiguration option \<Rightarrow> string \<Rightarrow> int \<Rightarrow> LedgerEvent \<Rightarrow> InstitutionRecord \<Rightarrow> InstitutionRecord result" where
  "applyEvent L now c transaction block (ConfigurationUpdatedEvent _ e) r =
     bindE (configurationForEvent L r e) (\<lambda>p.
     if configurationUnreconciled c e then Inl (Error ''CONFIGURATION_EVENT_RECONCILIATION_REQUIRED'')
     else Inr (confirmConfiguration now transaction block e p r))"
| "applyEvent L now c transaction block (DelegationRevokedEvent delegation _) r =
     Inr (onService (revokeWhere (\<lambda>d. keccak256 L d = delegation)) r)"
| "applyEvent L now c transaction block (InstitutionSuspendedEvent _ epoch) r = Inr (suspendObserved epoch r)"
| "applyEvent L now c transaction block (InstitutionRecoveredEvent _ epoch) r = Inr (suspendObserved epoch r)"

text \<open>The calls whose authorization has lost its institution or its credential end.\<close>

definition authorityLost :: "RecordStatus \<Rightarrow> ServiceState \<Rightarrow> ServiceAttempt \<Rightarrow> bool" where
  "authorityLost status s a \<longleftrightarrow> (case dget (ssAuthorizations s) (authorizationKey a) of None \<Rightarrow> False
     | Some auth \<Rightarrow> status \<noteq> InstitutionActive \<or>
         (case dget (ssCredentials s) (jstr (sauPayload auth) ''vcDigest'') of
            Some c \<Rightarrow> sdState c = CredentialRevoked | None \<Rightarrow> False))"

definition endLost :: "int \<Rightarrow> RecordStatus \<Rightarrow> ServiceState \<Rightarrow> ServiceState" where
  "endLost now status s =
     (let lost = map authorizationKey (filter (authorityLost status s) (dvalues (ssAttempts s))) in
      s\<lparr> ssAuthorizations := dmapWith (\<lambda>i a. if i \<in> set lost then a\<lparr> sauCancelled := True \<rparr> else a) (ssAuthorizations s),
         ssAttempts := dmap (\<lambda>a. if authorityLost status s a \<and> \<not> terminal (saStatus a)
           then finishAttempt now SCancelled ''ledger-revocation'' a else a) (ssAttempts s) \<rparr>)"

definition noteEvent :: "int \<Rightarrow> string \<Rightarrow> int \<Rightarrow> string \<Rightarrow> string \<Rightarrow> InstitutionRecord \<Rightarrow> InstitutionRecord" where
  "noteEvent now name block blockHash transaction r = (onService (endLost now (irStatus r)) r)\<lparr>
     irLedgerObservation := Some \<lparr> loEvent = name, loBlock = numberText block, loBlockHash = blockHash,
       loTransactionHash = transaction, loAppliedAt = now \<rparr> \<rparr>"

definition applyLog ::
    "lib \<Rightarrow> eventEnv \<Rightarrow> LedgerConfiguration option \<Rightarrow> ChainLog \<Rightarrow>
     InstitutionRecord \<times> ((string \<times> int) \<times> int \<times> string) list \<Rightarrow>
     (InstitutionRecord \<times> ((string \<times> int) \<times> int \<times> string) list) result" where
  "applyLog L V c g rp = (case (lgTransaction g, lgIndex g, lgBlock g, lgBlockHash g, rp) of
     (Some transaction, Some index, Some block, Some blockHash, (r, processed)) \<Rightarrow>
       (case eeDecode V (lgData g) of None \<Rightarrow> Inr (r, processed)
        | Some e \<Rightarrow>
            if eventInstitution e \<noteq> keccak256 L (eeInstitution V) then Inr (r, processed)
            else if (transaction, index) \<in> set (map fst processed) then Inr (r, processed)
            else let processed' = processed @ [((transaction, index), block, blockHash)] in
              (case irService r of None \<Rightarrow> Inr (r, processed')
               | Some _ \<Rightarrow> bindE (applyEvent L (eeNow V) c transaction block e r) (\<lambda>r1.
                   Inr (noteEvent (eeNow V) (eventName e) block blockHash transaction r1, processed'))))
   | _ \<Rightarrow> Inl (Error ''UNCONFIRMED_EVENT''))"

fun applyLogs ::
    "lib \<Rightarrow> eventEnv \<Rightarrow> LedgerConfiguration option \<Rightarrow> ChainLog list \<Rightarrow>
     InstitutionRecord \<times> ((string \<times> int) \<times> int \<times> string) list \<Rightarrow>
     (InstitutionRecord \<times> ((string \<times> int) \<times> int \<times> string) list) result" where
  "applyLogs L V c [] rp = Inr rp"
| "applyLogs L V c (g # gs) rp = bindE (applyLog L V c g rp) (applyLogs L V c gs)"

section \<open>The transaction and the tick\<close>

definition writeAllowed :: "Issuer \<Rightarrow> unit result" where
  "writeAllowed db = fst (enterBackupWrite True \<lparr> stDb = db, stAnchor = (), stTouched = False \<rparr>)"

definition mediaCleanup :: "int \<Rightarrow> ServiceAttempt \<Rightarrow> PendingEvent" where
  "mediaCleanup now a = \<lparr> peId = ''ledger-cleanup:'' @ saId a, peKind = ''call.cleanup'', peObject = saId a, peAt = now,
     pePayload = JObj [] \<rparr>"

definition endedMedia :: "InstitutionRecord \<Rightarrow> ServiceAttempt list" where
  "endedMedia r = (case irService r of None \<Rightarrow> []
     | Some s \<Rightarrow> filter (\<lambda>a. saPbx a \<noteq> None \<and> terminal (saStatus a)) (dvalues (ssAttempts s)))"

definition applyObservation ::
    "lib \<Rightarrow> eventEnv \<Rightarrow> Observation \<Rightarrow> EventStore \<Rightarrow> unit result \<times> EventStore" where
  "applyObservation L V ob s = (case bindE (writeAllowed (evIssuer s)) (\<lambda>_.
       if map_option fst (evCursor s) \<noteq> onCursor ob then Inr s
       else bindE (ofOption (Error ''INSTITUTION_NOT_FOUND'')
              (map_option iwState (dget (isInstitutions (evIssuer s)) (eeInstitution V)))) (\<lambda>r0.
         bindE (applyLogs L V (onConfiguration ob) (onLogs ob) (r0, evProcessed s)) (\<lambda>(r, processed).
         let db = fold (\<lambda>a. enqueue (eeNow V) (irId r) (mediaCleanup (eeNow V) a)) (endedMedia r) (evIssuer s) in
         Inr \<lparr> evIssuer = setState (irId r) r db, evCursor = Some (onTo ob, onBlockHash ob), evProcessed = processed \<rparr>)))
     of Inl e \<Rightarrow> (Inl e, s) | Inr s' \<Rightarrow> (Inr (), s'))"

definition eventTick :: "lib \<Rightarrow> eventEnv \<Rightarrow> EventStore \<Rightarrow> unit result \<times> EventStore" where
  "eventTick L V s = (case cursorConflicts V s of
     Inl e \<Rightarrow> (Inl e, s)
   | Inr True \<Rightarrow> (Inl (Error ''LEDGER_CURSOR_ROLLBACK_OR_CONFLICT''), blockGate (eeInstitution V) s)
   | Inr False \<Rightarrow> (case observeBlocks V s of
       Inl e \<Rightarrow> (Inl e, s) | Inr None \<Rightarrow> (Inr (), s) | Inr (Some ob) \<Rightarrow> applyObservation L V ob s))"

end
