(* ===== verification/Pbx_Runtime.thy ===== *)
theory Pbx_Runtime
  imports Pbx
begin

text \<open>
  The routes of \<^verbatim>\<open>services/api/src/pbx-routes.ts\<close> that act on Asterisk, dialling, evidence and cleanup, and
  the runtime of \<^verbatim>\<open>services/api/src/pbx-runtime.ts\<close>: its handling of channel events and its tick. A call is
  taken down once it has ended; the record says that it is gone only after Asterisk was asked again.
\<close>

record 'w pbxHost =
  phAri :: "'w ari"
  phEnv :: "'w \<Rightarrow> serviceEnv"
  phRead :: "('w, InstitutionRecord) eff"
  phWrite :: "(InstitutionRecord \<Rightarrow> InstitutionRecord) \<Rightarrow> ('w, unit) eff"
  phRemove :: "string \<Rightarrow> ('w, unit) eff"
  phSweep :: "('w, unit) eff"
  phSessions :: "ServiceAttempt \<Rightarrow> ('w, bool) eff"
  phReady :: "'w \<Rightarrow> bool"

section \<open>What the routes and the runtime write\<close>

definition failAttempt :: "int \<Rightarrow> AttemptStatus \<Rightarrow> string \<Rightarrow> ServiceAttempt \<Rightarrow> ServiceAttempt" where
  "failAttempt now st reason a = a\<lparr> saStatus := st, saReason := Some reason, saEndedAt := Some now \<rparr>"

definition dialFailure :: "int \<Rightarrow> string \<Rightarrow> string \<Rightarrow> string \<Rightarrow> InstitutionRecord \<Rightarrow> InstitutionRecord" where
  "dialFailure now uuid user i r = (case attemptIn r i of None \<Rightarrow> r
     | Some a \<Rightarrow> serviceEvent now uuid user ''call.cleanup'' i (JObj [])
         (onAttempt i (\<lambda>a. withdrawConsent (if terminal (saStatus a) then a
            else failAttempt now SFailed ''pbx-dial-incomplete'' a)) r))"

definition putEvidence :: "string \<Rightarrow> PbxState \<Rightarrow> string \<Rightarrow> InstitutionRecord \<Rightarrow> InstitutionRecord" where
  "putEvidence i st jws = onAttempt i (\<lambda>a. a\<lparr> saPbx :=
     map_option (\<lambda>px. px\<lparr> pxEvidence := Some jws, pxState := st \<rparr>) (saPbx a) \<rparr>)"

definition cleanupCount :: "ServiceAttempt \<Rightarrow> int" where
  "cleanupCount a = (case saCleanup a of None \<Rightarrow> 0 | Some c \<Rightarrow> clAttempts c) + 1"

definition observedAbsent :: "int \<Rightarrow> ServiceAttempt \<Rightarrow> ServiceAttempt" where
  "observedAbsent now a = a\<lparr> saCleanup := Some \<lparr> clStatus = ''pbx-absent'', clObservedAt = now,
     clSource = ''ari-delete-readback'', clAttempts = cleanupCount a \<rparr> \<rparr>"

definition cleanedUp :: "int \<Rightarrow> ServiceAttempt \<Rightarrow> ServiceAttempt" where
  "cleanedUp now a = (case saPbx a of None \<Rightarrow> a
     | Some px \<Rightarrow> if terminal (saStatus a) then observedAbsent now (a\<lparr> saPbx := Some (px\<lparr> pxState := PbxEnded \<rparr>) \<rparr>) else a)"

definition reclaimed :: "int \<Rightarrow> ServiceAttempt \<Rightarrow> ServiceAttempt" where
  "reclaimed now a = (case saPbx a of None \<Rightarrow> a
     | Some px \<Rightarrow> if terminal (saStatus a)
         then observedAbsent now (a\<lparr> saPbx := Some (px\<lparr> pxState := PbxEnded, pxCredentials := [], pxReports := [],
           pxEvidence := None \<rparr>) \<rparr>)
         else a)"

definition cleanupRetry :: "int \<Rightarrow> ServiceAttempt \<Rightarrow> ServiceAttempt" where
  "cleanupRetry now a =
     (if (case saCleanup a of Some c \<Rightarrow> clStatus c = ''pbx-absent'' | None \<Rightarrow> False) then a
      else a\<lparr> saCleanup := Some \<lparr> clStatus = ''retry'', clObservedAt = now, clSource = ''server-request'',
        clAttempts = cleanupCount a \<rparr> \<rparr>)"

definition interrupted :: "int \<Rightarrow> string \<Rightarrow> ServiceAttempt \<Rightarrow> ServiceAttempt" where
  "interrupted now reason a = (if terminal (saStatus a) then a else withdrawConsent (failAttempt now SFailed reason a))"

definition usesChannel :: "string \<Rightarrow> ServiceAttempt \<Rightarrow> bool" where
  "usesChannel channel a \<longleftrightarrow> (case saPbx a of None \<Rightarrow> False
     | Some px \<Rightarrow> channel = pxSenderChannel px \<or> channel = pxRecipientChannel px)"

definition channelEnded :: "int \<Rightarrow> string \<Rightarrow> InstitutionRecord \<Rightarrow> InstitutionRecord" where
  "channelEnded now channel = onService (\<lambda>s. s\<lparr> ssAttempts := dmap (\<lambda>a.
     if usesChannel channel a \<and> \<not> terminal (saStatus a)
     then withdrawConsent (failAttempt now (if saStatus a = SAccepted then SEnded else SFailed) ''pbx-channel-ended'' a)
     else a) (ssAttempts s) \<rparr>)"

section \<open>Dialling\<close>

definition dialChecks :: "lib \<Rightarrow> serviceEnv \<Rightarrow> Actor \<Rightarrow> string \<Rightarrow> InstitutionRecord \<Rightarrow> ServiceAttempt result" where
  "dialChecks L E actor i r =
     bindE (party r actor i) (\<lambda>(s, attempt, intent).
     bindE (activeIntent L r (ciId intent) actor (seNow E)) (\<lambda>_.
     if acRole actor \<noteq> ''gateway'' \<or> saStatus attempt \<noteq> SAuthorized \<or> seNow E \<ge> saFirstConnectBy attempt \<or>
       Option.bind (saPbx attempt) (\<lambda>px. dget (pxCredentials px) ''recipient'') \<in> {None, Some []}
     then Inl (HttpError 409 ''PBX_DIAL_FORBIDDEN'')
     else bindE (ofOption LibraryError (authorizationOf s attempt)) (\<lambda>auth.
       bindE (serviceCredential L E r (jstr (sauPayload auth) ''vcDigest'')) (\<lambda>_. Inr attempt))))"

definition stillDialled :: "serviceEnv \<Rightarrow> Actor \<Rightarrow> string \<Rightarrow> InstitutionRecord \<Rightarrow> unit result" where
  "stillDialled E actor i r = bindE (party r actor i) (\<lambda>(s, latest, intent).
     if saStatus latest \<noteq> SAuthorized \<or> saFirstConnectBy latest \<le> seNow E
     then Inl (HttpError 409 ''DIAL_CANCELLED_OR_EXPIRED'') else Inr ())"

definition ignoreErrors :: "('w, unit) eff \<Rightarrow> ('w, unit) eff" where
  "ignoreErrors m = catchS m (\<lambda>_. returnS ())"

definition dialCall :: "lib \<Rightarrow> 'w pbxHost \<Rightarrow> string \<Rightarrow> Actor \<Rightarrow> string \<Rightarrow> ('w, json) eff" where
  "dialCall L H uuid actor i =
     bindS (phRead H) (\<lambda>r.
     bindS (readS (\<lambda>w. dialChecks L (phEnv H w) actor i r)) (\<lambda>attempt.
     catchS (bindS (prepareCall (phAri H) attempt) (\<lambda>reply.
             bindS (phRead H) (\<lambda>live.
             bindS (readS (\<lambda>w. stillDialled (phEnv H w) actor i live)) (\<lambda>_. returnS reply))))
       (\<lambda>e. bindS (\<lambda>w. phWrite H (dialFailure (seNow (phEnv H w)) uuid (acUser actor) i) w) (\<lambda>_.
            bindS (ignoreErrors (destroyCall (phAri H) attempt)) (\<lambda>_. throwS e)))))"

section \<open>Evidence\<close>

definition evidenceContextInvalid ::
    "lib \<Rightarrow> serviceEnv \<Rightarrow> ServiceAttempt \<Rightarrow> ContactIntent \<Rightarrow> ServiceAuthorization \<Rightarrow> ServiceKey \<Rightarrow> json \<Rightarrow> bool" where
  "evidenceContextInvalid L E attempt intent auth enrolled b \<longleftrightarrow>
     sauCancelled auth \<or> \<not> isStr b ''authorizationHash'' (hashCanonical L (sauPayload auth)) \<or>
     \<not> isStr b ''sessionId'' (saSession attempt) \<or> \<not> isStr b ''connectionGeneration'' (saGeneration attempt) \<or>
     \<not> isStr b ''recipientNonce'' (skNonce enrolled) \<or> \<not> isStr b ''recipientKeyHash'' (hashCanonical L (skKey enrolled)) \<or>
     \<not> isStr b ''callProfile'' (saProfile attempt) \<or> \<not> isStr b ''recipientId'' (ciRecipient intent) \<or>
     \<not> isStr b ''networkId'' (seNetwork E) \<or> \<not> isStr b ''registryAddress'' (seRegistry E) \<or> terminal (saStatus attempt)"

definition pbxStateOf :: "ServiceAttempt \<Rightarrow> PbxState option" where
  "pbxStateOf attempt = map_option pxState (saPbx attempt)"

definition continuesUnverified :: "ServiceAttempt \<Rightarrow> bool" where
  "continuesUnverified attempt \<longleftrightarrow>
     (case saLease attempt of None \<Rightarrow> False | Some l \<Rightarrow> isStr (sgPayload l) ''authority'' ''unavailable'') \<and>
     saUnverifiedChoice attempt = Some ''continue''"

definition startLapsed :: "serviceEnv \<Rightarrow> ServiceAttempt \<Rightarrow> bool" where
  "startLapsed E attempt \<longleftrightarrow> saStatus attempt \<notin> {SAuthorized, SConsumed, SAccepted} \<or>
     (saStatus attempt \<noteq> SAccepted \<and> seNow E \<ge> saFirstConnectBy attempt)"

definition bridgedChecks ::
    "lib \<Rightarrow> serviceEnv \<Rightarrow> ServiceAttempt \<Rightarrow> json \<Rightarrow> json \<Rightarrow> InstitutionRecord \<Rightarrow> InstitutionRecord result" where
  "bridgedChecks L E attempt a b r =
     (case saBinding attempt of None \<Rightarrow> Inl LibraryError
      | Some prior \<Rightarrow>
          if hashCanonical L prior \<noteq> hashCanonical L b then Inl (HttpError 409 ''PBX_BINDING_CHANGED'')
          else if pbxStateOf attempt = Some PbxBridged \<and> continuesUnverified attempt then Inr r
          else assertCurrent L E (jstr a ''vcDigest'') r)"

definition evidenceDecision ::
    "lib \<Rightarrow> serviceEnv \<Rightarrow> ServiceAttempt \<Rightarrow> ContactIntent \<Rightarrow> ServiceAuthorization \<Rightarrow> ServiceKey \<Rightarrow> json \<Rightarrow> string \<Rightarrow>
     InstitutionRecord \<Rightarrow> InstitutionRecord result" where
  "evidenceDecision L E attempt intent auth enrolled b st r =
     (if evidenceContextInvalid L E attempt intent auth enrolled b
      then Inl (HttpError 409 ''PBX_BINDING_CONTEXT_INVALID'')
      else if st = ''prepared'' then
        (if startLapsed E attempt then Inl (HttpError 409 ''PBX_START_EXPIRED'')
         else if pbxStateOf attempt = Some PbxBridged then Inl (HttpError 409 ''PBX_ALREADY_BRIDGED'') else Inr r)
      else bridgedChecks L E attempt (sauPayload auth) b r)"

definition evidenceChecks ::
    "lib \<Rightarrow> serviceEnv \<Rightarrow> Actor \<Rightarrow> string \<Rightarrow> json \<Rightarrow> string \<Rightarrow> InstitutionRecord \<Rightarrow> (ServiceAttempt \<times> InstitutionRecord) result" where
  "evidenceChecks L E actor i b st r =
     bindE (party r actor i) (\<lambda>(s, attempt, intent).
     if acRole actor \<notin> {''gateway'', ''recipient''} then Inl (HttpError 403 ''CALL_ROLE_REQUIRED'')
     else bindE (activeIntent L r (ciId intent) actor (seNow E)) (\<lambda>_.
       bindE (ofOption (HttpError 409 ''PBX_BINDING_CONTEXT_INVALID'') (authorizationOf s attempt)) (\<lambda>auth.
       bindE (ofOption (HttpError 409 ''PBX_BINDING_CONTEXT_INVALID'') (saRecipientKey attempt)) (\<lambda>enrolled.
       bindE (evidenceDecision L E attempt intent auth enrolled b st r) (\<lambda>r1. Inr (attempt, r1))))))"

definition pbxStateNamed :: "string \<Rightarrow> PbxState" where
  "pbxStateNamed st = (if st = ''prepared'' then PbxPrepared else PbxBridged)"

text \<open>The body of the transaction: what it answers and the record it commits.\<close>

definition evidenceCall ::
    "lib \<Rightarrow> 'w pbxHost \<Rightarrow> bridgeEnv \<Rightarrow> Actor \<Rightarrow> string \<Rightarrow> json \<Rightarrow> string \<Rightarrow> InstitutionRecord \<Rightarrow>
     ('w, Signed \<times> InstitutionRecord) eff" where
  "evidenceCall L H B actor i b st r =
     bindS (readS (\<lambda>w. evidenceChecks L (phEnv H w) actor i b st r)) (\<lambda>(attempt, r1).
     bindS (\<lambda>w. callEvidence L (phAri H) B (irId r) attempt b st (seNow (phEnv H w)) w) (\<lambda>sg.
     returnS (sg, putEvidence i (pbxStateNamed st) (sgJws sg) r1)))"

definition evidenceRoute ::
    "lib \<Rightarrow> 'w pbxHost \<Rightarrow> bridgeEnv \<Rightarrow> Actor \<Rightarrow> string \<Rightarrow> json \<Rightarrow> string \<Rightarrow> InstitutionRecord \<Rightarrow>
     ('w, Signed \<times> InstitutionRecord) eff" where
  "evidenceRoute L H B actor i bindingInput st r =
     bindS (liftE (parseWith serviceBindingSchema bindingInput)) (\<lambda>b.
     if st \<notin> {''prepared'', ''bridged''} then throwS ZodError else evidenceCall L H B actor i b st r)"

section \<open>Cleanup\<close>

definition cleanupChecks :: "Actor \<Rightarrow> string \<Rightarrow> InstitutionRecord \<Rightarrow> ServiceAttempt result" where
  "cleanupChecks actor i r =
     bindE (membership r actor [''institution'', ''gateway'', ''recipient'']) (\<lambda>_.
     bindE (ofOption (HttpError 404 ''ATTEMPT_NOT_FOUND'') (attemptIn r i)) (\<lambda>attempt.
     bindE (ofOption (HttpError 404 ''ATTEMPT_NOT_FOUND'') (dget (irIntents r) (saIntent attempt))) (\<lambda>intent.
     if ciInstitution intent \<noteq> acInstitution actor \<or> (acRole actor = ''gateway'' \<and> saAgent attempt \<noteq> acUser actor) \<or>
       (acRole actor = ''recipient'' \<and> ciRecipient intent \<noteq> acUser actor)
     then Inl (HttpError 404 ''ATTEMPT_NOT_FOUND'')
     else if \<not> terminal (saStatus attempt) then Inl (HttpError 409 ''TERMINAL_OUTCOME_REQUIRED'')
     else Inr attempt)))"

definition cleanupCall :: "'w pbxHost \<Rightarrow> Actor \<Rightarrow> string \<Rightarrow> ('w, json) eff" where
  "cleanupCall H actor i =
     bindS (phRead H) (\<lambda>r.
     bindS (liftE (cleanupChecks actor i r)) (\<lambda>attempt.
     bindS (destroyCall (phAri H) attempt) (\<lambda>_.
     bindS (phRemove H (saId attempt)) (\<lambda>_.
     bindS (\<lambda>w. phWrite H (onAttempt (saId attempt) (cleanedUp (seNow (phEnv H w)))) w) (\<lambda>_.
     returnS (JObj [(''cleaned'', JBool True), (''observation'', JStr ''ari-resource-absence-not-decoded-audio'')]))))))"

section \<open>The runtime\<close>

record PbxRuntime =
  prClosed :: bool
  prBusy :: bool
  prKnown :: "ServiceAttempt list"

definition knownCalls :: "InstitutionRecord \<Rightarrow> ServiceAttempt list" where
  "knownCalls r = (case irService r of None \<Rightarrow> []
     | Some s \<Rightarrow> take 100 (filter (\<lambda>a. case saPbx a of None \<Rightarrow> False | Some px \<Rightarrow> pxState px \<noteq> PbxEnded) (dvalues (ssAttempts s))))"

text \<open>A live call whose exchange is not observed, or whose browser session is gone, fails.\<close>

definition interruptionReason :: "bool \<Rightarrow> string" where
  "interruptionReason ready = (if ready then ''login-session-revoked'' else ''pbx-observation-unavailable'')"

definition watchCall :: "'w pbxHost \<Rightarrow> ServiceAttempt \<Rightarrow> ('w, ServiceAttempt) eff" where
  "watchCall H t =
     (if terminal (saStatus t) then returnS t
      else bindS (\<lambda>w. if phReady H w then phSessions H t w else (Inr False, w)) (\<lambda>alive.
        if alive then returnS t
        else bindS (\<lambda>w. phWrite H (onAttempt (saId t) (interrupted (seNow (phEnv H w)) (interruptionReason (phReady H w)))) w) (\<lambda>_.
          returnS (t\<lparr> saStatus := SFailed \<rparr>))))"

definition authorityLapsed :: "serviceEnv \<Rightarrow> ServiceAttempt \<Rightarrow> bool" where
  "authorityLapsed E t \<longleftrightarrow>
     (saAuthorityStatus t = Some Unavailable \<or> (case saAuthorityUntil t of None \<Rightarrow> 0 | Some n \<Rightarrow> n) \<le> seNow E \<or>
      (case saLease t of None \<Rightarrow> False | Some l \<Rightarrow> isStr (sgPayload l) ''authority'' ''unavailable'')) \<and>
     \<not> continuesUnverified t"

definition driveCall :: "'w pbxHost \<Rightarrow> ServiceAttempt \<Rightarrow> PbxSession \<Rightarrow> ('w, unit) eff" where
  "driveCall H t px =
     (if terminal (saStatus t) \<and> pxState px \<noteq> PbxEnded then
        bindS (destroyCall (phAri H) t) (\<lambda>_.
        bindS (phRemove H (saId t)) (\<lambda>_.
        (\<lambda>w. phWrite H (onAttempt (saId t) (reclaimed (seNow (phEnv H w)))) w)))
      else if saStatus t = SAccepted \<and> pxState px = PbxBridged then
        bindS (readS (\<lambda>w. Inr (authorityLapsed (phEnv H w) t))) (\<lambda>lapsed.
        if lapsed then bindS (mute (phAri H) (pxSenderChannel px) True) (\<lambda>_. mute (phAri H) (pxRecipientChannel px) True)
        else bindS (ariChannel (phAri H) (pxSenderChannel px)) (\<lambda>_.
             bindS (ariChannel (phAri H) (pxRecipientChannel px)) (\<lambda>_. returnS ())))
      else returnS ())"

definition noteRetry :: "'w pbxHost \<Rightarrow> ServiceAttempt \<Rightarrow> ('w, unit) eff" where
  "noteRetry H t = (if terminal (saStatus t)
     then ignoreErrors (\<lambda>w. phWrite H (onAttempt (saId t) (cleanupRetry (seNow (phEnv H w)))) w) else returnS ())"

definition tickCall :: "'w pbxHost \<Rightarrow> ServiceAttempt \<Rightarrow> 'w \<Rightarrow> 'w" where
  "tickCall H t w = (case watchCall H t w of
     (Inl e, w1) \<Rightarrow> snd (noteRetry H t w1)
   | (Inr t', w1) \<Rightarrow> (case saPbx t' of None \<Rightarrow> w1
       | Some px \<Rightarrow> snd (catchS (driveCall H t' px) (\<lambda>_. noteRetry H t') w1)))"

definition muteCall :: "'w pbxHost \<Rightarrow> ServiceAttempt \<Rightarrow> 'w \<Rightarrow> 'w" where
  "muteCall H t w = (case saPbx t of None \<Rightarrow> w
     | Some px \<Rightarrow> snd (mute (phAri H) (pxRecipientChannel px) True (snd (mute (phAri H) (pxSenderChannel px) True w))))"

text \<open>A tick; it does nothing while another one runs. When the record cannot be read the known calls are muted.\<close>

definition pbxTick :: "'w pbxHost \<Rightarrow> PbxRuntime \<times> 'w \<Rightarrow> PbxRuntime \<times> 'w" where
  "pbxTick H pw = (case pw of (p, w) \<Rightarrow>
     if prClosed p \<or> prBusy p then (p, w)
     else (case bindS (phSweep H) (\<lambda>_. phRead H) w of
       (Inl e, w1) \<Rightarrow> (p, fold (muteCall H) (prKnown p) w1)
     | (Inr r, w1) \<Rightarrow> (p\<lparr> prKnown := knownCalls r \<rparr>, fold (tickCall H) (knownCalls r) w1)))"

definition endsChannel :: "string \<Rightarrow> bool" where
  "endsChannel ty \<longleftrightarrow> ty \<in> {''StasisEnd'', ''ChannelDestroyed'', ''ChannelHangupRequest''}"

definition pbxEvent :: "'w pbxHost \<Rightarrow> string \<Rightarrow> string option \<Rightarrow> PbxRuntime \<times> 'w \<Rightarrow> unit result \<times> PbxRuntime \<times> 'w" where
  "pbxEvent H ty channel pw = (case channel of
     None \<Rightarrow> (Inr (), pw)
   | Some c \<Rightarrow>
       if \<not> endsChannel ty then (Inr (), pw)
       else (case pw of (p, w) \<Rightarrow>
         (case phWrite H (channelEnded (seNow (phEnv H w)) c) w of
            (Inl e, w1) \<Rightarrow> (Inl e, (p, w1))
          | (Inr _, w1) \<Rightarrow> (Inr (), pbxTick H (p, w1)))))"

end
