(* ===== verification/Issuer_Runs.thy ===== *)
theory Issuer_Runs
  imports Service_Runs Ledger_Events Pbx_Runtime
begin

text \<open>
  Runs of the whole issuer: besides the requests of the service profile and the sweeps, the management of
  the institution and the events of the ledger change the same record. The lemmas extend the locale
  \<open>service_invariant\<close> to those writes, so that an invariant of the service state holds over any
  interleaving of them.
\<close>

section \<open>Management as steps\<close>

datatype managementCall =
    MPropose Actor string json
  | MApprove Actor string json
  | MSubmit Actor string json
  | MActivate Actor string json
  | MMember Actor string json
  | MReassign Actor string json
  | MRegister Actor string json
  | MSuspend Actor string json
  | MRecover Actor string json
  | MActivateKey Actor string json

fun managementStep :: "lib \<Rightarrow> serviceEnv \<Rightarrow> managementEnv \<Rightarrow> (nat \<Rightarrow> string) \<Rightarrow> managementCall \<Rightarrow> serviceOp" where
  "managementStep L E M u (MPropose a q b) = proposeConfiguration L E M u a q b"
| "managementStep L E M u (MApprove a q b) = approveConfiguration L E M u a q b"
| "managementStep L E M u (MSubmit a q b) = submitConfiguration L E M u a q b"
| "managementStep L E M u (MActivate a q b) = activateConfiguration L E M u a q b"
| "managementStep L E M u (MMember a q b) = updateMember L E u a q b"
| "managementStep L E M u (MReassign a q b) = reassignIntent L E u a q b"
| "managementStep L E M u (MRegister a q b) = registerInstitutionRequest L E M u a q b"
| "managementStep L E M u (MSuspend a q b) = suspendInstitutionRequest L E u a q b"
| "managementStep L E M u (MRecover a q b) = recoverInstitutionRequest L E M u a q b"
| "managementStep L E M u (MActivateKey a q b) = activateKeyRequest L E M u a q b"

section \<open>The exchange as steps\<close>

datatype exchangeWrite =
    XDialFailed int string string string
  | XCleanedUp int string
  | XReclaimed int string
  | XRetry int string
  | XInterrupted int string string
  | XChannelEnded int string

fun exchangeStep :: "exchangeWrite \<Rightarrow> InstitutionRecord \<Rightarrow> InstitutionRecord" where
  "exchangeStep (XDialFailed now uuid user i) = dialFailure now uuid user i"
| "exchangeStep (XCleanedUp now i) = onAttempt i (cleanedUp now)"
| "exchangeStep (XReclaimed now i) = onAttempt i (reclaimed now)"
| "exchangeStep (XRetry now i) = onAttempt i (cleanupRetry now)"
| "exchangeStep (XInterrupted now reason i) = onAttempt i (interrupted now reason)"
| "exchangeStep (XChannelEnded now channel) = channelEnded now channel"

section \<open>Runs\<close>

text \<open>
  A run up to the clock value \<open>T\<close>: requests of the service profile and of the management, what the
  telephone exchange writes, logs of the ledger, sweeps (whose view of the record may be any earlier one), the stop after a restart, and the
  moves of audit entries and events into their tables.
\<close>

inductive serviceRun :: "lib \<Rightarrow> int \<Rightarrow> InstitutionRecord \<Rightarrow> InstitutionRecord \<Rightarrow> bool" for L T r0 where
  start: "serviceRun L T r0 r0"
| request: "serviceRun L T r0 r \<Longrightarrow> unusedId (''v3-'' @ u 0) r \<Longrightarrow> seNow E \<le> T \<Longrightarrow>
     serviceRun L T r0 (commit (serviceStep L E u c) r)"
| managing: "serviceRun L T r0 r \<Longrightarrow> unusedId (''v3-'' @ u 0) r \<Longrightarrow> seNow E \<le> T \<Longrightarrow>
     serviceRun L T r0 (commit (managementStep L E M u m) r)"
| observed: "serviceRun L T r0 r \<Longrightarrow> applyLogs L V c gs (r, p) = Inr (r', p') \<Longrightarrow> serviceRun L T r0 r'"
| exchange: "serviceRun L T r0 r \<Longrightarrow> serviceRun L T r0 (exchangeStep x r)"
| evidenced: "serviceRun L T r0 r \<Longrightarrow> evidenceChecks L E actor i b st r = Inr (a, r') \<Longrightarrow>
     serviceRun L T r0 (putEvidence i ps jws r')"
| swept: "serviceRun L T r0 r \<Longrightarrow> serviceRun L T r0 (sweep L E u seen r)"
| restart: "serviceRun L T r0 r \<Longrightarrow> serviceRun L T r0 (snd (stopInterruptedCalls E u r))"
| archive: "serviceRun L T r0 r \<Longrightarrow>
     serviceRun L T r0 (r\<lparr> irAudit := [], irPendingEvents := [], irPendingUsage := [] \<rparr>)"

section \<open>What the writes leave alone\<close>

lemma irService_putProposal [simp]: "irService (putProposal p r) = irService r"
  by (simp add: putProposal_def)

lemma irService_invalidate: "irService (invalidateInstitution now r) = map_option (invalidateService now) (irService r)"
  by (simp add: invalidateInstitution_def)

lemma irService_replaceServiceKey [simp]: "irService (replaceServiceKey k r) = irService r"
  by (simp add: replaceServiceKey_def split: option.split)

lemma irService_replaceServiceKeys [simp]: "irService (fold replaceServiceKey ks r) = irService r"
  by (induction ks arbitrary: r) simp_all

lemma irService_markRecovery [simp]: "irService (markRecovery L now b r) = irService r"
  by (simp add: markRecovery_def split: option.split)

lemma requestsOf_same: "irService r' = irService r \<Longrightarrow> requestsOf r' = requestsOf r"
  by (simp add: requestsOf_def)

lemma requestsOf_invalidate [simp]: "requestsOf (invalidateInstitution now r) = requestsOf r"
  by (cases "irService r") (simp_all add: requestsOf_def irService_invalidate invalidateService_def)

lemma serviceHas_frame [simp]:
  "serviceHas J (putProposal p r) = serviceHas J r" "serviceHas J (r\<lparr> irMembers := ms \<rparr>) = serviceHas J r"
  "serviceHas J (r\<lparr> irIntents := is \<rparr>) = serviceHas J r" "serviceHas J (r\<lparr> irRecovery := rc \<rparr>) = serviceHas J r"
  "serviceHas J (r\<lparr> irStatus := st \<rparr>) = serviceHas J r" "serviceHas J (r\<lparr> irDirectory := dir \<rparr>) = serviceHas J r"
  "serviceHas J (r\<lparr> irRegistrationOperation := op' \<rparr>) = serviceHas J r"
  "serviceHas J (r\<lparr> irRegistrationState := rs \<rparr>) = serviceHas J r"
  "serviceHas J (r\<lparr> irObservedEpoch := ep \<rparr>) = serviceHas J r"
  "serviceHas J (r\<lparr> irLedgerObservation := lo \<rparr>) = serviceHas J r"
  by (simp_all add: serviceHas_def)

lemma requestsOf_frame [simp]:
  "requestsOf (putProposal p r) = requestsOf r" "requestsOf (r\<lparr> irMembers := ms \<rparr>) = requestsOf r"
  "requestsOf (r\<lparr> irIntents := is \<rparr>) = requestsOf r" "requestsOf (r\<lparr> irRecovery := rc \<rparr>) = requestsOf r"
  "requestsOf (r\<lparr> irStatus := st \<rparr>) = requestsOf r" "requestsOf (r\<lparr> irDirectory := dir \<rparr>) = requestsOf r"
  "requestsOf (r\<lparr> irRegistrationOperation := op' \<rparr>) = requestsOf r"
  "requestsOf (r\<lparr> irRegistrationState := rs \<rparr>) = requestsOf r"
  by (simp_all add: requestsOf_def)

lemma requestsOf_authority [simp]:
  "requestsOf (applyConfiguration now p r) = requestsOf r" "requestsOf (installKey L now b r) = requestsOf r"
  using requestsOf_invalidate [of now r] requestsOf_invalidate [of now "markRecovery L now b r"]
  by (simp_all add: applyConfiguration_def installKey_def Let_def requestsOf_def)

lemma advances_finish: "\<not> terminal (saStatus a) \<Longrightarrow> terminal st \<Longrightarrow> advances a (finishAttempt now st reason a)"
  by (rule advances_from) (simp_all add: finishAttempt_def withdrawConsent_def)

lemma requestsOf_endAffected [simp]: "requestsOf (snd (endAffected E u actor reason f i nr)) = requestsOf (snd nr)"
  by (simp add: endAffected_def split: prod.split option.split)

lemma requestsOf_fold [simp]:
  "requestsOf (snd (fold (endAffected E u actor reason f) is nr)) = requestsOf (snd nr)"
  by (induction "is" arbitrary: nr) simp_all

lemma requestsOf_endAffectedAttempts: "requestsOf (snd (endAffectedAttempts E u actor reason f r)) = requestsOf r"
  by (simp add: endAffectedAttempts_def split: option.split)

lemma requestsOf_cleanupEvents [simp]: "requestsOf (cleanupEvents E u actor r) = requestsOf r"
proof -
  have "requestsOf (fold (\<lambda>(k, i). serviceEvent (seNow E) (u k) (acUser actor) ''call.cleanup'' i (JObj [])) xs r) = requestsOf r"
    for xs
    by (induction xs arbitrary: r) auto
  then show ?thesis by (simp add: cleanupEvents_def split: option.split)
qed

lemma bridgedChecks_record:
  "bridgedChecks L E attempt a b r = Inr r' \<Longrightarrow> r' = r \<or> assertCurrent L E (jstr a ''vcDigest'') r = Inr r'"
  by (simp add: bridgedChecks_def split: option.splits if_splits)

lemma evidenceChecks_record:
  assumes "evidenceChecks L E actor i b st r = Inr (a, r')"
  shows "r' = r \<or> (\<exists>d. assertCurrent L E d r = Inr r')"
proof -
  from assms obtain intent auth enrolled where "evidenceDecision L E a intent auth enrolled b st r = Inr r'"
    unfolding evidenceChecks_def by (auto simp: bindE_eq_Inr split: if_splits)
  then show ?thesis
    unfolding evidenceDecision_def using bridgedChecks_record [of L E a "sauPayload auth" b r r'] by (auto split: if_splits)
qed

section \<open>Invariants over management, exchange and ledger\<close>

context service_invariant begin

lemma has_same: "irService r' = irService r \<Longrightarrow> serviceHas I r \<Longrightarrow> serviceHas I r'"
  by (simp add: serviceHas_def)

lemma has_invalidate: "serviceHas I r \<Longrightarrow> serviceHas I (invalidateInstitution now r)"
proof (rule has_same)
  assume r: "serviceHas I r"
  have "I (invalidateService now s)" if "I s" for s
  proof -
    have "I (s\<lparr> ssAuthorizations := dmap (\<lambda>a. a\<lparr> sauCancelled := True \<rparr>) (ssAuthorizations s) \<rparr>)"
      by (rule withdrawing [OF that, where P = "\<lambda>_. True"]) simp
    from credentials [OF this] show ?thesis
      unfolding invalidateService_def
      by (rule moving [where s = "s\<lparr> ssAuthorizations := _, ssCredentials := _ \<rparr>", simplified])
        (simp add: invalidateAttempt_def advances_finish terminal_def)
  qed
  with r show "serviceHas I (onService (invalidateService now) r)" by (rule has_onService)
qed (simp add: irService_invalidate)

lemma has_endAffected: "serviceHas I (snd nr) \<Longrightarrow> serviceHas I (snd (endAffected E u actor reason f i nr))"
  unfolding endAffected_def
  by (auto simp: endMembership_def withdrawConsent_def terminal_def
      intro!: has_event has_writes has_onAttempt advances_from split: prod.splits option.splits)

lemma has_endAffectedAttempts:
  assumes "endAffectedAttempts E u actor reason f r = (n, r')" "serviceHas I r"
  shows "serviceHas I r'" "requestsOf r' = requestsOf r"
proof -
  have "serviceHas I (snd (fold (endAffected E u actor reason f) xs (0, r)))" for xs
    by (rule has_fold [where J = "\<lambda>nr. serviceHas I (snd nr)"], rule has_endAffected) (use assms(2) in simp_all)
  with assms show "serviceHas I r'"
    by (auto simp: endAffectedAttempts_def dest!: arg_cong [where f = snd] split: option.splits)
  show "requestsOf r' = requestsOf r"
    using requestsOf_endAffectedAttempts [of E u actor reason f r] assms(1) by simp
qed

lemma has_cleanupEvents: "serviceHas I r \<Longrightarrow> serviceHas I (cleanupEvents E u actor r)"
  unfolding cleanupEvents_def by (auto intro!: has_fold has_event split: option.split)

lemma keeps_managed:
  assumes op: "\<And>r. serviceHas I r \<Longrightarrow> ends (\<lambda>r'. serviceHas I r' \<and> requestsOf r' = requestsOf r) (op r)"
    and "seNow E \<le> T" "serviceHas I r" "unusedId i r"
  shows "ends (serviceHas I) (managed L E actor q input p op r)"
  unfolding managed_def
  by (intro ends_intros, rule keeps_idempotent [OF _ assms(2-4)], unfold keepsState_def)
    (blast intro: ends_intros op)

lemma has_applyConfiguration: "serviceHas I r \<Longrightarrow> serviceHas I (applyConfiguration now p r)"
  using has_invalidate [of r now] by (simp add: applyConfiguration_def Let_def serviceHas_def)

lemma has_installKey: "serviceHas I r \<Longrightarrow> serviceHas I (installKey L now b r)"
  using has_invalidate [of "markRecovery L now b r" now] by (simp add: installKey_def serviceHas_def)

lemma affected_kept:
  assumes "endAffectedAttempts E u actor reason f r0 = (n, r')" "irService r0 = irService r" "serviceHas I r"
  shows "serviceHas I r' \<and> requestsOf r' = requestsOf r"
  using has_endAffectedAttempts [OF assms(1)] has_same [OF assms(2,3)] requestsOf_same [OF assms(2)] by simp

lemma memberOperation_keeps:
  "serviceHas I r \<Longrightarrow> ends (\<lambda>r'. serviceHas I r' \<and> requestsOf r' = requestsOf r) (memberOperation E u actor b r)"
  unfolding memberOperation_def Let_def
  by (intro ends_intros conjI has_event, simp_all) (auto dest: affected_kept [where r = r])

lemma activateKeyOperation_keeps:
  "serviceHas I r \<Longrightarrow> ends (\<lambda>r'. serviceHas I r' \<and> requestsOf r' = requestsOf r) (activateKeyOperation L E M u actor b r)"
  unfolding activateKeyOperation_def
  by (intro ends_intros conjI has_event, simp_all add: has_installKey)

lemma configuration_keeps:
  assumes T: "seNow E \<le> T" and r: "serviceHas I r" "unusedId i r"
  shows "ends (serviceHas I) (proposeConfiguration L E M u a q b r)"
    "ends (serviceHas I) (approveConfiguration L E M u a q b r)"
    "ends (serviceHas I) (submitConfiguration L E M u a q b r)"
    "ends (serviceHas I) (activateConfiguration L E M u a q b r)"
    "ends (serviceHas I) (registerInstitutionRequest L E M u a q b r)"
    "ends (serviceHas I) (recoverInstitutionRequest L E M u a q b r)"
  unfolding proposeConfiguration_def approveConfiguration_def submitConfiguration_def activateConfiguration_def
    registerInstitutionRequest_def recoverInstitutionRequest_def Let_def
  by (intro ends_intros keeps_managed [OF _ T r] conjI has_event; simp add: has_applyConfiguration)+

lemma authority_keeps:
  assumes T: "seNow E \<le> T" and r: "serviceHas I r" "unusedId i r"
  shows "ends (serviceHas I) (updateMember L E u a q b r)"
    "ends (serviceHas I) (suspendInstitutionRequest L E u a q b r)"
    "ends (serviceHas I) (activateKeyRequest L E M u a q b r)"
  unfolding updateMember_def suspendInstitutionRequest_def activateKeyRequest_def Let_def
  by (intro ends_intros keeps_managed [OF _ T r] memberOperation_keeps activateKeyOperation_keeps conjI has_event
      has_cleanupEvents has_invalidate; simp)+

lemma reassign_keeps:
  assumes T: "seNow E \<le> T" and r: "serviceHas I r" "unusedId i r"
  shows "ends (serviceHas I) (reassignIntent L E u a q b r)"
  unfolding reassignIntent_def Let_def
  by (intro ends_intros keeps_managed [OF _ T r] conjI has_event, simp_all)
    (auto dest: affected_kept [OF _ refl])

lemma management_keeps:
  assumes T: "seNow E \<le> T" and r: "serviceHas I r" "unusedId i r"
  shows "ends (serviceHas I) (managementStep L E M u m r)"
  by (cases m) (simp_all only: managementStep.simps configuration_keeps [OF assms] authority_keeps [OF assms]
      reassign_keeps [OF assms])

lemma has_revokeWhere: "serviceHas I r \<Longrightarrow> serviceHas I (onService (revokeWhere f) r)"
  by (rule has_onService) (auto simp: revokeWhere_def intro: credentials)

lemma has_endLost: "serviceHas I r \<Longrightarrow> serviceHas I (onService (endLost now st) r)"
proof (rule has_onService)
  fix s assume "I s"
  let ?lost = "\<lambda>i. i \<in> set (map authorizationKey (filter (authorityLost st s) (dvalues (ssAttempts s))))"
  have "I (s\<lparr> ssAuthorizations := dmapWith (\<lambda>i a. if ?lost i then a\<lparr> sauCancelled := True \<rparr> else a) (ssAuthorizations s) \<rparr>)"
    by (rule withdrawing [OF \<open>I s\<close>, where P = ?lost]) simp
  then show "I (endLost now st s)"
    unfolding endLost_def Let_def
    by (rule moving [where s = "s\<lparr> ssAuthorizations := _ \<rparr>", simplified]) (simp add: advances_finish terminal_def)
qed

lemma has_confirmConfiguration: "serviceHas I r \<Longrightarrow> serviceHas I (confirmConfiguration now tx n e p r)"
  by (simp add: confirmConfiguration_def Let_def has_invalidate)

lemma has_applyEvent: "applyEvent L now c tx n e r = Inr r' \<Longrightarrow> serviceHas I r \<Longrightarrow> serviceHas I r'"
  by (cases e) (auto simp: bindE_eq_Inr suspendObserved_def has_confirmConfiguration intro!: has_revokeWhere split: if_splits)

lemma has_noteEvent: "serviceHas I r \<Longrightarrow> serviceHas I (noteEvent now name n h tx r)"
  by (simp add: noteEvent_def has_endLost)

lemma has_applyLog: "applyLog L V c g (r, p) = Inr (r', p') \<Longrightarrow> serviceHas I r \<Longrightarrow> serviceHas I r'"
  unfolding applyLog_def
  by (auto simp: bindE_eq_Inr Let_def intro: has_noteEvent has_applyEvent split: option.splits if_splits)

lemma has_applyLogs: "applyLogs L V c gs (r, p) = Inr (r', p') \<Longrightarrow> serviceHas I r \<Longrightarrow> serviceHas I r'"
  by (induction gs arbitrary: r p) (auto simp: bindE_eq_Inr dest: has_applyLog)

lemma advances_exchange:
  "advances a (cleanedUp now a)" "advances a (reclaimed now a)" "advances a (cleanupRetry now a)"
  "advances a (interrupted now reason a)"
  "advances a (withdrawConsent (if terminal (saStatus a) then a else failAttempt now SFailed reason a))"
  by (auto simp: cleanedUp_def reclaimed_def observedAbsent_def cleanupRetry_def interrupted_def failAttempt_def
      withdrawConsent_def terminal_def intro: advances_from split: option.split)

lemma has_channelEnded: "serviceHas I r \<Longrightarrow> serviceHas I (channelEnded now channel r)"
  unfolding channelEnded_def
  by (rule has_onService, assumption, rule moving)
    (auto simp: failAttempt_def withdrawConsent_def terminal_def intro: advances_from)

lemma has_dialFailure: "serviceHas I r \<Longrightarrow> serviceHas I (dialFailure now uuid user i r)"
  unfolding dialFailure_def by (auto intro: has_event has_onAttempt advances_exchange split: option.split)

lemma has_exchange: "serviceHas I r \<Longrightarrow> serviceHas I (exchangeStep x r)"
  by (cases x) (simp_all add: has_channelEnded has_dialFailure has_onAttempt advances_exchange)

lemma has_assertChecks:
  "evidenceChecks L E actor i b st r = Inr (a, r') \<Longrightarrow> serviceHas I r \<Longrightarrow> serviceHas I r'"
  using evidenceChecks_record has_assertCurrent by blast

lemma has_putEvidence: "serviceHas I r \<Longrightarrow> serviceHas I (putEvidence i ps jws r)"
  unfolding putEvidence_def by (rule has_onAttempt) simp_all

lemma commit_management: "seNow E \<le> T \<Longrightarrow> serviceHas I r \<Longrightarrow> unusedId i r \<Longrightarrow> serviceHas I (commit (managementStep L E M u m) r)"
  using management_keeps [of E r i L M u m] by (auto simp: commit_def answers_def split: sum.splits prod.splits)

theorem run_keeps: "serviceRun L T r0 r \<Longrightarrow> serviceHas I r0 \<Longrightarrow> serviceHas I r"
proof (induction rule: serviceRun.induct)
  case (archive r)
  then show ?case by (simp add: serviceHas_def)
qed (auto intro: commit_keeps commit_management has_applyLogs has_exchange has_assertChecks has_putEvidence has_sweep has_stop)

end

end
