(* ===== verification/Service_Scenario.thy ===== *)
theory Service_Scenario
  imports Service_Authority Authority_Scenario
begin

text \<open>
  An institution with one running call of the service profile: the call is connected, holds its first lease, and
  both sides have sent their proofs for the second. The library of the scenario gives every text the same digest.
\<close>

definition srDigest :: string where "srDigest = vrDigest (CHR ''a'')"

definition srBase :: "(string \<times> json) list" where
  "srBase = [(''protocol'', JStr ''callsign''), (''version'', JNum 3), (''networkId'', JStr ''777''),
     (''registryAddress'', JStr vrAddress)]"

definition srVc :: json where
  "srVc = JObj
    [(''@context'', JArr [JStr ''https://www.w3.org/ns/credentials/v2'', JObj [(''@vocab'', JStr ''urn:callsign:delegation:v1:'')]]),
     (''id'', JStr ''urn:uuid:1''), (''type'', JArr [JStr ''VerifiableCredential'', JStr ''CallCenterDelegation'']),
     (''issuer'', JStr ''urn:i''), (''validFrom'', JStr vrFrom), (''validUntil'', JStr vrUntil),
     (''credentialSubject'', JObj [(''id'', JStr ''urn:s''), (''institutionId'', JStr vrInstitution),
       (''publicKey'', demoJwk vrServiceKey), (''keyVersion'', JNum 1), (''scope'', vrPolicy)]),
     (''credentialStatus'', JObj [(''id'', JStr ''urn:uuid:1''), (''type'', JStr ''CallSignRegistryStatus''),
       (''networkId'', JStr ''777''), (''registryAddress'', JStr vrAddress), (''epoch'', JStr ''1''),
       (''approvalKeyVersion'', JNum 1)])]"

definition srBinding :: json where
  "srBinding = JObj (srBase @ vrClock @
    [(''type'', JStr ''ServiceSessionBinding''), (''authorizationHash'', JStr srDigest), (''sessionId'', JStr ''session''),
     (''connectionGeneration'', JStr ''generation''), (''recipientId'', JStr ''recipient''),
     (''recipientNonce'', JStr ''nonce-of-recipient''), (''recipientKeyHash'', JStr srDigest),
     (''senderSdpHash'', JStr srDigest), (''recipientSdpHash'', JStr srDigest),
     (''senderFingerprint'', JStr demoFingerprint), (''recipientFingerprint'', JStr demoFingerprint),
     (''callProfile'', JStr ''direct-webrtc-v3'')])"

definition srStart :: json where
  "srStart = JObj (srBase @
    [(''type'', JStr ''ContactStartAuthorization''), (''authorizationId'', JStr ''v3-auth''), (''attemptId'', JStr ''v3-att''),
     (''epoch'', JStr ''1''), (''approvalKeyVersion'', JNum 1), (''vcDigest'', JStr srDigest),
     (''serviceProofHash'', JStr srDigest), (''firstConsumeBy'', JNum 5100)])"

definition srReceipt :: Signed where
  "srReceipt = \<lparr> sgPayload = JObj (srBase @ [(''type'', JStr ''ServiceConsumptionReceipt''),
     (''authorizationId'', JStr ''v3-auth''), (''bindingHash'', JStr srDigest)]), sgJws = ''jws-receipt'' \<rparr>"

definition srRenewal :: Renewal where
  "srRenewal = \<lparr> rnNonce = ''renewal'', rnSequence = 2, rnPriorLeaseHash = srDigest, rnIssuedAt = 5000,
     rnExpiresAt = 5020, rnProofs = [(''sender'', ''jws-m''), (''recipient'', ''jws-n'')] \<rparr>"

definition srAttempt :: ServiceAttempt where
  "srAttempt = \<lparr> saId = ''v3-att'', saIntent = ''int-1'', saAgent = ''agent'', saSession = ''session'',
     saGeneration = ''generation'', saProfile = ''direct-webrtc-v3'', saStatus = SAccepted, saFirstConnectBy = 5100,
     saCallEndBy = 6000, saRevision = 3, saAuthorityStatus = Some Current, saAuthorityUntil = Some 5006,
     saAuthorization = Some ''v3-auth'', saBinding = Some srBinding,
     saLease = Some \<lparr> sgPayload = JObj [(''sequence'', JNum 1), (''expiresAt'', JNum 5030)], sgJws = ''jws-lease'' \<rparr>,
     saRecipientKey = Some \<lparr> skUser = ''recipient'', skKey = demoJwk vrKey, skNonce = ''nonce-of-recipient'' \<rparr>,
     saPossessions = [], saMediaReady = [], saRenewal = Some srRenewal, saOwnerSessions = [], saEndedAt = None,
     saReason = None, saConsent = None, saUnverifiedChoice = None, saCleanup = None, saPbx = None \<rparr>"

definition srProof :: "string \<Rightarrow> json" where
  "srProof role = JObj (srBase @ [(''type'', JStr ''LeaseRenewalProof''), (''role'', JStr role),
     (''authorizationId'', JStr ''v3-auth''), (''sessionId'', JStr ''session''), (''bindingHash'', JStr srDigest),
     (''nonce'', JStr ''renewal''), (''sequence'', JNum 2), (''priorLeaseHash'', JStr srDigest), (''issuedAt'', JNum 5000),
     (''expiresAt'', JNum 5020)])"

definition srMessages :: "((string \<times> string) \<times> json \<times> string) list" where
  "srMessages =
    [((''jws-v'', vrKey), JObj [(''alg'', JStr ''EdDSA''), (''typ'', JStr ''vc+jwt''), (''cty'', JStr ''vc''),
        (''kid'', JStr ''ikid'')], ''v''),
     ((''jws-m'', vrKey), vrHeader ''LeaseRenewalProof'' srDigest, ''m''),
     ((''jws-n'', vrKey), vrHeader ''LeaseRenewalProof'' srDigest, ''n'')]"

definition srLib :: lib where
  "srLib = vrLib\<lparr> sha256hex := (\<lambda>_. srDigest),
     validateJson := (\<lambda>t. case map_of [(''v'', srVc), (''m'', srProof ''sender''), (''n'', srProof ''recipient'')] t of
       Some v \<Rightarrow> Inr v | None \<Rightarrow> Inl ''unexpected''),
     compactVerify := (\<lambda>j k. map_of srMessages (j, k)) \<rparr>"

definition srEnv :: serviceEnv where
  "srEnv = \<lparr> seNetwork = ''777'', seRegistry = vrAddress,
     seSigningKey = (\<lambda>_. Inr \<lparr> akPrivate = vrKey, akKid = ''ikid'', akPublic = None \<rparr>),
     seWitnesses = (\<lambda>_ _. None), seTrust = vrChain, sePublished = (\<lambda>_. Inr ()), sePbx = None,
     sePolicy = servicePolicy, seNow = 5004, seMonotonic = 700 \<rparr>"

definition srUuid :: "nat \<Rightarrow> string" where
  "srUuid k = ''uuid-'' @ replicate k (CHR ''u'')"

definition srState :: ServiceState where
  "srState = newServiceState\<lparr>
     ssCredentials := [(srDigest, \<lparr> sdVc = srVc, sdJws = ''jws-v'', sdState = CredentialRegistered \<rparr>)],
     ssAttempts := [(''v3-att'', srAttempt)],
     ssChallenges := [(''challenge'', \<lparr> scPayloadOf = JObj [(''browserPublicKey'', demoJwk vrKey)], scUsed = True \<rparr>)],
     ssAuthorizations := [(''v3-auth'', \<lparr> sauPayload = srStart, sauJws = ''jws-start'', sauProofJws = ''jws-proof'',
       sauCancelled = False \<rparr>)],
     ssConsumptions := [(''v3-auth'', srReceipt)] \<rparr>"

definition srService :: RegisteredService where
  "srService = arService\<lparr> svDid := ''urn:s'' \<rparr>"

definition srRecord :: InstitutionRecord where
  "srRecord = arRecord\<lparr> irUri := Some ''urn:i'', irService := Some srState, irServices := [(''urn:s'', srService)],
     irMembers := [(''recipient'', arMember ''recipient'' None), (''agent'', arMember ''gateway'' (Some ''urn:s'')),
       (''manager'', (arMember ''institution'' None)\<lparr> mbPermissions := Some [''delegation.manage''] \<rparr>)],
     irIntents := [(''int-1'', arIntent\<lparr> ciService := ''urn:s'', ciPolicyHash := srDigest \<rparr>)],
     irAttempts := [], irCredentials := [], irAuthorizations := [], irRecipientKeys := [] \<rparr>"

abbreviation srRecipient :: Actor where "srRecipient \<equiv> arActor ''recipient'' ''recipient''"
abbreviation srManager :: Actor where "srManager \<equiv> arActor ''manager'' ''institution''"

section \<open>Evaluation\<close>

lemma sr_hash [simp]: "hashCanonical srLib v = srDigest"
  by (simp add: hashCanonical_def srLib_def)

lemma sr_import: "importJwk srLib (demoJwk x) = Some x"
  by (simp add: srLib_def vrLib_def demoJwk_def jstr_def jget_def)

lemma sr_record:
  "irService srRecord = Some srState" "ssReady srState" "irId srRecord = vrInstitution" "irEpoch srRecord = ''1''"
  "irKeyVersion srRecord = 1" "irKid srRecord = ''ikid''" "irPublicKey srRecord = demoJwk vrKey"
  "irStatus srRecord = InstitutionActive" "irPolicy srRecord = vrPolicy" "irUri srRecord = Some ''urn:i''"
  "ssRequests srState = []" "ssAttempts srState = [(''v3-att'', srAttempt)]"
  by (simp_all add: srRecord_def srState_def arRecord_def newServiceState_def)

lemma sr_members:
  "membership srRecord srRecipient roles = (if ''recipient'' \<in> set roles then Inr () else Inl (HttpError 403 ''OBJECT_FORBIDDEN''))"
  "membership srRecord srManager roles = (if ''institution'' \<in> set roles then Inr () else Inl (HttpError 403 ''OBJECT_FORBIDDEN''))"
  by (simp_all add: membership_def srRecord_def arRecord_def arActor_def memberRole_def memberInactive_def arMember_def)

lemma sr_party:
  "party srRecord srRecipient ''v3-att'' = Inr (srState, srAttempt, arIntent\<lparr> ciService := ''urn:s'', ciPolicyHash := srDigest \<rparr>)"
  "party srRecord srManager ''v3-att'' = Inr (srState, srAttempt, arIntent\<lparr> ciService := ''urn:s'', ciPolicyHash := srDigest \<rparr>)"
  unfolding party_def sr_members
  by (simp_all add: serviceState_def sr_record ofOption_def)
    (simp_all add: srRecord_def srAttempt_def attemptHidden_def assignmentChanged_def arIntent_def arRecord_def arActor_def
      memberRole_def memberInactive_def memberService_def arMember_def)

lemma sr_idempotent:
  assumes "isRequestId q" "membership srRecord actor everyRole = Inr ()"
  shows "idempotent srLib srEnv actor q input operation srRecord = bindE (operation srRecord) (\<lambda>(reply, r').
    Inr (reply, rememberReply (requestKey actor q) \<lparr> rqHash = srDigest, rqAt = 5004, rqReply = reply \<rparr> r'))"
proof -
  have "onService (ssRequests_update (\<lambda>_. [])) srRecord = srRecord"
    by (simp add: onService_def srRecord_def srState_def newServiceState_def)
  moreover have "seNow srEnv = 5004" by (simp add: srEnv_def)
  ultimately show ?thesis
    using assms by (simp add: idempotent_def serviceState_def sr_record liveRequests_def bindE_def)
qed

lemma sr_request: "isRequestId ''request-1''"
  by code_simp

lemmas sr_schema = vr_schema srBase_def serviceBase_def srDigest_def longFingerprint_def callProfileSchema_def

lemma sr_fingerprint: "lengthBetween 64 100 demoFingerprint"
  by code_simp

lemma srBinding_schema: "serviceBindingSchema srBinding"
  unfolding serviceBindingSchema_def srBinding_def
  by (rule zObject_in_order) (simp_all add: sr_schema sr_fingerprint [unfolded lengthBetween_def])

lemma srProof_schema: "role \<in> {''sender'', ''recipient''} \<Longrightarrow> renewalProofSchema (srProof role)"
  unfolding renewalProofSchema_def srProof_def
  by (auto simp: zObject_def sr_schema)

lemma srVc_schema: "serviceVcSchema srVc"
proof -
  have subject: "zObject
        [(''id'', registeredUriSchema), (''institutionId'', finalsId), (''publicKey'', publicKeySchema),
         (''keyVersion'', positiveInt), (''scope'', policySchema)] []
      (JObj [(''id'', JStr ''urn:s''), (''institutionId'', JStr vrInstitution),
       (''publicKey'', demoJwk vrServiceKey), (''keyVersion'', JNum 1), (''scope'', vrPolicy)])"
    using vrPolicy_schema
    by (intro zObject_in_order) (simp_all add: vr_schema vr_publicKeys [unfolded vr_texts] registeredUriSchema_def isRegisteredUri_def
        hasPrefix_def startsWith_def isNameChar_def)
  have status: "zObject
        [(''id'', finalsId), (''type'', zLiteral (JStr ''CallSignRegistryStatus'')), (''networkId'', finalsId),
         (''registryAddress'', address), (''epoch'', digitsString), (''approvalKeyVersion'', positiveInt)] []
       (JObj [(''id'', JStr ''urn:uuid:1''), (''type'', JStr ''CallSignRegistryStatus''),
       (''networkId'', JStr ''777''), (''registryAddress'', JStr vrAddress), (''epoch'', JStr ''1''),
       (''approvalKeyVersion'', JNum 1)])"
    by (rule zObject_in_order) (simp_all add: vr_schema)
  have ctx: "zObject [(''@vocab'', zLiteral (JStr ''urn:callsign:delegation:v1:''))] []
      (JObj [(''@vocab'', JStr ''urn:callsign:delegation:v1:'')])"
    by (rule zObject_in_order) (simp_all add: zLiteral_def)
  have issuer: "registeredUriSchema (JStr ''urn:i'')" by code_simp
  show ?thesis
    unfolding serviceVcSchema_def srVc_def
    by (rule zObject_in_order)
       (simp_all add: subject status ctx vr_dates isoDatetime_def zString_def zTuple_def zLiteral_def startsWith_def issuer)
qed

lemma sr_parse: "parseJsonNoDuplicateKeys srLib ''v'' = Inr srVc"
  "parseJsonNoDuplicateKeys srLib ''m'' = Inr (srProof ''sender'')"
  "parseJsonNoDuplicateKeys srLib ''n'' = Inr (srProof ''recipient'')"
  by (simp_all add: parseJsonNoDuplicateKeys_def srLib_def MAX_SIGNED_MESSAGE_BYTES_def)

lemma sr_compact: "compactVerify srLib ''jws-m'' vrKey = Some (vrHeader ''LeaseRenewalProof'' srDigest, ''m'')"
  "compactVerify srLib ''jws-n'' vrKey = Some (vrHeader ''LeaseRenewalProof'' srDigest, ''n'')"
  "compactVerify srLib ''jws-v'' vrKey = Some (JObj [(''alg'', JStr ''EdDSA''), (''typ'', JStr ''vc+jwt''), (''cty'', JStr ''vc''),
        (''kid'', JStr ''ikid'')], ''v'')"
  by (simp_all add: srLib_def srMessages_def)

lemma sr_verify:
  "verifyPayload srLib ''jws-m'' vrKey ''LeaseRenewalProof'' srDigest renewalProofSchema = Inr (srProof ''sender'')"
  "verifyPayload srLib ''jws-n'' vrKey ''LeaseRenewalProof'' srDigest renewalProofSchema = Inr (srProof ''recipient'')"
  "verifyServiceCredential srLib ''jws-v'' vrKey ''ikid'' = Inr srVc"
proof -
  have "isStr (srProof role) ''type'' ''LeaseRenewalProof''" for role
    by (simp add: srProof_def srBase_def isStr_def jget_def)
  then show "verifyPayload srLib ''jws-m'' vrKey ''LeaseRenewalProof'' srDigest renewalProofSchema = Inr (srProof ''sender'')"
    "verifyPayload srLib ''jws-n'' vrKey ''LeaseRenewalProof'' srDigest renewalProofSchema = Inr (srProof ''recipient'')"
    using srProof_schema unfolding verifyPayload_eq_Inr sr_compact
    by (simp_all add: sr_parse MAX_SIGNED_MESSAGE_BYTES_def) (simp_all add: vrHeader_def isStr_def jget_def)
  show "verifyServiceCredential srLib ''jws-v'' vrKey ''ikid'' = Inr srVc"
    using srVc_schema
    by (simp add: verifyServiceCredential_def verifyVc_def sr_compact sr_parse parseWith_def) (simp add: isStr_def jget_def)
qed

lemma sr_credential:
  "serviceCredential srLib srEnv srRecord srDigest =
     Inr (\<lparr> sdVc = srVc, sdJws = ''jws-v'', sdState = CredentialRegistered \<rparr>, srVc, srService)"
proof -
  have "dget (ssCredentials srState) srDigest = Some \<lparr> sdVc = srVc, sdJws = ''jws-v'', sdState = CredentialRegistered \<rparr>"
    "dget (irServices srRecord) ''urn:s'' = Some srService" by (simp_all add: srState_def srRecord_def)
  moreover have "jstr (jobj srVc ''credentialSubject'') ''id'' = ''urn:s''" "jobj (jobj srVc ''credentialSubject'') ''scope'' = vrPolicy"
    by (simp_all add: srVc_def member_defs)
  moreover have "\<not> serviceVcInvalid srLib srEnv srRecord srService srVc"
    using vr_dates
    by (simp add: serviceVcInvalid_def srEnv_def institutionName_def sr_record srService_def arService_def srVc_def member_defs)
  ultimately show ?thesis
    using srVc_schema vrPolicy_schema
    by (simp add: serviceCredential_def serviceState_def sr_record ofOption_def sr_import sr_verify serviceCredentialDigest_def
        policyHash_def parseWith_def bindE_def)
qed

lemma sr_renewal:
  "renewalProof srLib srEnv srRecord srAttempt ''sender'' ''jws-m'' = Inr (srProof ''sender'')"
  "renewalProof srLib srEnv srRecord srAttempt ''recipient'' ''jws-n'' = Inr (srProof ''recipient'')"
proof -
  have k: "sideKey srLib srState srAttempt sender = Some (demoJwk vrKey)" for sender
    by (simp add: sideKey_def authorizationOf_def challengeOf_def srState_def srAttempt_def srStart_def srBase_def dvalues_def
        isStr_def jget_def jobj_def)
  have t: "assertTemporalValidity (srProof role) 5004 = Inr ()" for role
    by (simp add: assertTemporalValidity_iff srProof_def srBase_def jnum_def jget_def isSafeInteger_def maxSafeInteger_def)
  have "saRenewal srAttempt = Some srRenewal" "saBinding srAttempt = Some srBinding" "seNow srEnv = 5004"
    by (simp_all add: srAttempt_def srEnv_def)
  with k t show "renewalProof srLib srEnv srRecord srAttempt ''sender'' ''jws-m'' = Inr (srProof ''sender'')"
    "renewalProof srLib srEnv srRecord srAttempt ''recipient'' ''jws-n'' = Inr (srProof ''recipient'')"
    by (simp_all add: renewalProof_def serviceState_def sr_record sr_import sr_verify ofOption_def)
qed

abbreviation srIntent :: ContactIntent where "srIntent \<equiv> arIntent\<lparr> ciService := ''urn:s'', ciPolicyHash := srDigest \<rparr>"

abbreviation srGranted :: ServiceAuthorization where
  "srGranted \<equiv> \<lparr> sauPayload = srStart, sauJws = ''jws-start'', sauProofJws = ''jws-proof'', sauCancelled = False \<rparr>"

lemma sr_intent: "activeIntent srLib srRecord ''int-1'' srRecipient 5004 = Inr srIntent"
proof -
  have "policyHash srLib vrPolicy = Inr srDigest"
    using vrPolicy_schema by (simp add: policyHash_def parseWith_def)
  moreover have "dget (irIntents srRecord) ''int-1'' = Some srIntent" by (simp add: srRecord_def)
  moreover have "\<not> intentHidden srRecord srRecipient srIntent"
    by (simp add: intentHidden_def arIntent_def arActor_def sr_record)
  ultimately show ?thesis
    by (simp add: activeIntent_def sr_members sr_record) (simp add: arIntent_def)
qed

lemma sr_leaseChecks:
  "leaseChecks srLib srEnv srRecipient ''v3-att'' 2 ''renewal'' ''jws-n'' (Some ''jws-m'') srRecord =
     Inr (srAttempt, srIntent, srGranted, srBinding)"
proof -
  have a: "authorizationOf srState srAttempt = Some srGranted" "saBinding srAttempt = Some srBinding"
    "saRenewal srAttempt = Some srRenewal" "leaseSequence srAttempt = 1"
    by (simp_all add: authorizationOf_def srState_def srAttempt_def leaseSequence_def jnum_def jget_def)
  have "\<not> leaseRefused srEnv srRecord srAttempt srGranted"
    by (simp add: leaseRefused_def srAttempt_def srEnv_def sr_record srStart_def srBase_def isStr_def isNum_def jget_def)
  moreover have "\<not> proofsDiffer srEnv srRenewal 2 ''renewal'' ''jws-n'' ''jws-m''"
    by (simp add: proofsDiffer_def srRenewal_def srEnv_def)
  moreover have "jstr srStart ''vcDigest'' = srDigest" "ciId srIntent = ''int-1''" "seNow srEnv = 5004"
    by (simp_all add: srStart_def srBase_def jstr_def jget_def arIntent_def srEnv_def)
  ultimately show ?thesis
    by (simp add: leaseChecks_def sr_members sr_party a sr_intent sr_credential sr_renewal ofOption_def)
qed

abbreviation srLeaseCall :: "(ServiceReply \<times> InstitutionRecord) result" where
  "srLeaseCall \<equiv> serviceLease srLib srEnv srUuid srRecipient ''request-1'' ''v3-att'' 2 ''renewal'' ''jws-n'' ''pause''
     (Some ''jws-m'') srRecord"

lemma srLease_schema:
  "serviceLeaseSchema (leasePayload srLib srEnv srRecord srAttempt srIntent srStart srBinding 2 ''renewal'' Unavailable)"
proof -
  have "leasePayload srLib srEnv srRecord srAttempt srIntent srStart srBinding 2 ''renewal'' Unavailable = JObj (srBase @
     [(''type'', JStr ''CallLease''), (''institutionId'', JStr vrInstitution), (''authorizationId'', JStr ''v3-auth''),
      (''bindingHash'', JStr srDigest), (''sessionId'', JStr ''session''), (''connectionGeneration'', JStr ''generation''),
      (''epoch'', JStr ''1''), (''approvalKeyVersion'', JNum 1), (''policyHash'', JStr srDigest), (''vcDigest'', JStr srDigest),
      (''sequence'', JNum 2), (''nonce'', JStr ''renewal''), (''authority'', JStr ''unavailable''), (''callEndBy'', JNum 6000),
      (''issuedAt'', JNum 5004), (''expiresAt'', JNum 5034)])"
    by (simp add: leasePayload_def serviceMessage_def srBase_def srEnv_def sr_record srAttempt_def srStart_def jobj_def jget_def
        servicePolicy_def)
  then show ?thesis by (simp add: serviceLeaseSchema_def zObject_def sr_schema)
qed

lemma sr_lease: "\<exists>l r'. srLeaseCall = Inr (ReplyLease Unavailable l, r')"
proof -
  have "currentStatus srLib srEnv d srRecord = (Unavailable, srRecord)" for d
    by (simp add: currentStatus_def srEnv_def)
  moreover have "saStatus srAttempt = SAccepted" "\<not> leaseExpired srEnv srAttempt"
    by (simp_all add: srAttempt_def leaseExpired_def srEnv_def jnum_def jget_def)
  moreover have "seSigningKey srEnv v = Inr \<lparr> akPrivate = vrKey, akKid = ''ikid'', akPublic = None \<rparr>" for v
    by (simp add: srEnv_def)
  ultimately show ?thesis
    using srLease_schema
    by (simp add: serviceLease_def sr_idempotent sr_request sr_members everyRole_def sr_leaseChecks parseWith_def serviceState_def
        sr_record Let_def)
qed

section \<open>Requests after the first\<close>

abbreviation srAfter :: "RequestEntry dict \<Rightarrow> InstitutionRecord" where
  "srAfter qs \<equiv> srRecord\<lparr> irService := Some (srState\<lparr> ssRequests := qs \<rparr>) \<rparr>"

lemma srAfter_Nil: "srRecord = srAfter []"
  by (simp add: srRecord_def srState_def newServiceState_def)

lemma srAfter_party:
  "party (srAfter qs) srRecipient ''v3-att'' = Inr (srState\<lparr> ssRequests := qs \<rparr>, srAttempt, srIntent)"
  unfolding party_def membership_def
  by (simp add: serviceState_def ofOption_def sr_record)
    (simp add: srRecord_def srAttempt_def attemptHidden_def assignmentChanged_def arIntent_def arRecord_def arActor_def
      memberRole_def memberInactive_def memberService_def arMember_def)

lemma sr_consume:
  assumes "isRequestId q" "dget qs (requestKey srRecipient q) = None" "liveRequests 5004 qs = qs" "length qs < 10000"
  shows "serviceConsume srLib srEnv srUuid srRecipient q ''v3-att'' srBinding x y (srAfter qs) =
    Inr (ReplySigned srReceipt, srAfter (dput (requestKey srRecipient q)
      \<lparr> rqHash = srDigest, rqAt = 5004, rqReply = ReplySigned srReceipt \<rparr> qs))"
proof -
  have m: "membership (srAfter qs) srRecipient roles = membership srRecord srRecipient roles" for qs roles
    by (simp add: membership_def memberRole_def memberInactive_def sessionGeneration_def)
  have a: "authorizationOf (srState\<lparr> ssRequests := qs \<rparr>) srAttempt = Some srGranted"
    "dget (ssConsumptions srState) ''v3-auth'' = Some srReceipt" "jstr srStart ''authorizationId'' = ''v3-auth''"
    "isStr (sgPayload srReceipt) ''bindingHash'' srDigest"
    by (simp_all add: authorizationOf_def srState_def srAttempt_def srStart_def srReceipt_def srBase_def jstr_def isStr_def jget_def)
  have e: "seNow srEnv = 5004" "sePublished srEnv r = Inr ()" for r by (simp_all add: srEnv_def)
  show ?thesis
    unfolding serviceConsume_def idempotent_def
    using assms a e srBinding_schema
    by (simp add: m sr_members everyRole_def serviceState_def sr_record onService_def srAfter_party ofOption_def parseWith_def
        rememberReply_def Let_def)
qed

end
