(* ===== verification/Service_Properties.thy ===== *)
theory Service_Properties
  imports Issuer_Runs Service_Scenario
begin

text \<open>
  What the service authority guarantees over its runs: invariants of the service state (instances of
  \<open>service_invariant\<close>) and the properties that rest on them.
\<close>

section \<open>Invariants\<close>




text \<open>An attempt on file is never taken back to an earlier status.\<close>

definition attemptAdvanced :: "string \<Rightarrow> ServiceAttempt \<Rightarrow> ServiceState \<Rightarrow> bool" where
  "attemptAdvanced i a s \<longleftrightarrow> (\<exists>a'. dget (ssAttempts s) i = Some a' \<and> advances a a')"

interpretation advance: service_invariant "attemptAdvanced i a" T for i a T
proof unfold_locales
  fix s attempts
  assume "attemptAdvanced i a s" and moved: "\<And>j. rel_option advances (dget (ssAttempts s) j) (dget attempts j)"
  then obtain b where b: "dget (ssAttempts s) i = Some b" "advances a b" by (auto simp: attemptAdvanced_def)
  from moved [of i, unfolded b] b(2) show "attemptAdvanced i a (s\<lparr> ssAttempts := attempts \<rparr>)"
    by (auto simp: attemptAdvanced_def option_rel_Some1 intro: advances_trans)
qed (auto simp: attemptAdvanced_def intro: advances_trans)



text \<open>A receipt on file is kept, and every receipt is filed under the authorization it names.\<close>

definition serviceReceiptOnFile :: "string \<Rightarrow> Signed \<Rightarrow> ServiceState \<Rightarrow> bool" where
  "serviceReceiptOnFile i receipt s \<longleftrightarrow> dget (ssConsumptions s) i = Some receipt"

interpretation filed_receipt: service_invariant "serviceReceiptOnFile i receipt" T for i receipt T
  by unfold_locales (auto simp: serviceReceiptOnFile_def)

definition receiptsFiled :: "ServiceState \<Rightarrow> bool" where
  "receiptsFiled s \<longleftrightarrow> (\<forall>i receipt. dget (ssConsumptions s) i = Some receipt \<longrightarrow>
     isStr (sgPayload receipt) ''authorizationId'' i)"

interpretation filing: service_invariant receiptsFiled T for T
  by unfold_locales (auto simp: receiptsFiled_def)

text \<open>An authorization stays on file, and a cancelled one stays cancelled.\<close>

definition authorizationKept :: "string \<Rightarrow> bool \<Rightarrow> ServiceState \<Rightarrow> bool" where
  "authorizationKept i c s \<longleftrightarrow> (\<exists>auth. dget (ssAuthorizations s) i = Some auth \<and> (c \<longrightarrow> sauCancelled auth))"


text \<open>No counter exceeds its limit.\<close>

definition withinQuota :: "ServiceState \<Rightarrow> bool" where
  "withinQuota s \<longleftrightarrow> (\<forall>q \<in> set (dvalues (ssQuotas s)). quUsed q \<le> quLimit q)"

lemma charge_within:
  "charge now day n kl qs = Inr qs' \<Longrightarrow> \<forall>q \<in> set (dvalues qs). quUsed q \<le> quLimit q \<Longrightarrow>
   \<forall>q \<in> set (dvalues qs'). quUsed q \<le> quLimit q"
  by (auto simp: charge_def Let_def dest!: dvalues_dput split: prod.splits if_splits)

lemma chargeAll_within:
  "chargeAll now day n kls qs = Inr qs' \<Longrightarrow> \<forall>q \<in> set (dvalues qs). quUsed q \<le> quLimit q \<Longrightarrow>
   \<forall>q \<in> set (dvalues qs'). quUsed q \<le> quLimit q"
  by (induction kls arbitrary: qs) (auto simp: bindE_eq_Inr dest: charge_within)

interpretation quota: service_invariant withinQuota T for T
proof unfold_locales
  fix s now day n ks qs
  assume "withinQuota s" "chargeAll now day n ks (ssQuotas s) = Inr qs"
  then show "withinQuota (s\<lparr> ssQuotas := qs \<rparr>)" by (auto simp: withinQuota_def dest: chargeAll_within)
qed (auto simp: withinQuota_def dvalues_def)

section \<open>The life of an attempt\<close>

text \<open>
  C20: Over any run of the issuer (requests, management, ledger events, the exchange, sweeps, restarts) the status of an attempt only moves
  forward, and an attempt that has ended, was declined, unanswered, failed or cancelled keeps that outcome.
\<close>

theorem attempt_outcome_is_final:
  assumes "serviceRun L T r0 r" "attemptIn r0 i = Some a"
  shows "\<exists>a'. attemptIn r i = Some a' \<and> attemptRank (saStatus a) \<le> attemptRank (saStatus a') \<and>
    (terminal (saStatus a) \<longrightarrow> saStatus a' = saStatus a)"
proof -
  from assms(2) have "serviceHas (attemptAdvanced i a) r0"
    by (auto simp: serviceHas_def attemptAdvanced_def attemptIn_def split: option.splits bind_splits)
  from advance.run_keeps [OF assms(1) this] show ?thesis
    by (auto simp: serviceHas_def attemptAdvanced_def attemptIn_def advances_def split: option.splits)
qed

theorem attempt_outcome_is_final_witness:
  "\<exists>a'. attemptIn (snd (stopInterruptedCalls srEnv srUuid srRecord)) ''v3-att'' = Some a' \<and>
     attemptRank (saStatus srAttempt) \<le> attemptRank (saStatus a')"
proof -
  have "attemptIn srRecord ''v3-att'' = Some srAttempt" by (simp add: attemptIn_def sr_record)
  from attempt_outcome_is_final [OF serviceRun.restart [OF serviceRun.start] this] show ?thesis by blast
qed

section \<open>Requests\<close>



definition newRequest :: "Actor \<Rightarrow> string \<Rightarrow> InstitutionRecord \<Rightarrow> bool" where
  "newRequest actor q r \<longleftrightarrow> (case irService r of None \<Rightarrow> True | Some s \<Rightarrow> dget (ssRequests s) (requestKey actor q) = None)"

lemma membership_cong: "irId r' = irId r \<Longrightarrow> irMembers r' = irMembers r \<Longrightarrow> membership r' actor roles = membership r actor roles"
  by (simp add: membership_def memberRole_def memberInactive_def sessionGeneration_def)

lemma membership_writes [simp]:
  "membership (onAttempt i f r) actor roles = membership r actor roles"
  "membership (serviceEvent now uuid user kind j p r) actor roles = membership r actor roles"
  "membership (rememberReply k e r) actor roles = membership r actor roles"
  by (rule membership_cong; simp add: onAttempt_def serviceEvent_def rememberReply_def onService_def Let_def)+


lemma remembered [simp]:
  "requestsOf (rememberReply k e r) = map_option (dput k e) (requestsOf r)" "attemptIn (rememberReply k e r) i = attemptIn r i"
  by (cases "irService r"; simp add: requestsOf_def attemptIn_def rememberReply_def)+



lemma idempotent_new:
  assumes "idempotent L E actor q input op r = Inr (reply, r')" "newRequest actor q r"
  obtains s r1 where "irService r = Some s" "ssReady s" "membership r actor everyRole = Inr ()" "isRequestId q"
    "op (onService (\<lambda>s. s\<lparr> ssRequests := liveRequests (seNow E) (ssRequests s) \<rparr>) r) = Inr (reply, r1)"
    "r' = rememberReply (requestKey actor q) \<lparr> rqHash = hashCanonical L input, rqAt = seNow E, rqReply = reply \<rparr> r1"
  using assms unfolding idempotent_def newRequest_def
  by (auto simp: bindE_eq_Inr serviceState_Inr Let_def onService_def split: if_splits option.splits)

lemma answers_idempotent:
  assumes "newRequest actor q r" "irService r = Some s"
    and "\<And>key entry. answers (\<lambda>reply r1. P reply (rememberReply key (entry reply) r1))
      (op (r\<lparr> irService := Some (s\<lparr> ssRequests := liveRequests (seNow E) (ssRequests s) \<rparr>) \<rparr>))"
  shows "answers P (idempotent L E actor q input op r)"
  using assms(1,2)
    answersD [OF assms(3) [of "requestKey actor q" "\<lambda>reply. \<lparr> rqHash = hashCanonical L input, rqAt = seNow E, rqReply = reply \<rparr>"]]
  unfolding answers_def by (auto elim!: idempotent_new simp: onService_def)





section \<open>Consumption\<close>

lemma consumptions_recorded:
  "irService r = Some s \<Longrightarrow> \<exists>s'. irService (serviceEvent now uuid user kind j p (recordServiceConsumption i k b receipt r)) = Some s' \<and>
     ssConsumptions s' = dput k receipt (ssConsumptions s)"
  by (auto simp: irService_serviceEvent recordServiceConsumption_def onAttempt_def split: option.splits)

text \<open>
  What a consumption under a new request answers: the receipt on file for the authorization, or a new one that
  is on file from then on.
\<close>

definition receiptFor :: "ServiceState \<Rightarrow> ServiceReply \<Rightarrow> InstitutionRecord \<Rightarrow> bool" where
  "receiptFor s reply r' \<longleftrightarrow> (\<forall>receipt. reply = ReplySigned receipt \<longrightarrow>
     (\<exists>k s'. isStr (sgPayload receipt) ''authorizationId'' k \<and>
        (dget (ssConsumptions s) k = None \<or> dget (ssConsumptions s) k = Some receipt) \<and>
        irService r' = Some s' \<and> dget (ssConsumptions s') k = Some receipt))"

lemma receiptFor_remember [simp]: "receiptFor s reply (rememberReply key entry r) = receiptFor s reply r"
  by (cases "irService r") (auto simp: receiptFor_def rememberReply_def)

lemma receiptFor_new:
  assumes p: "party (r\<lparr> irService := Some (s\<lparr> ssRequests := qs \<rparr>) \<rparr>) actor i = Inr (s0, a, intent)"
    and ok: "serviceConsumeChecks L E actor a intent auth b x y (r\<lparr> irService := Some (s\<lparr> ssRequests := qs \<rparr>) \<rparr>) = Inr rc"
    and none: "dget (ssConsumptions s0) k = None" and filed: "isStr (sgPayload receipt) ''authorizationId'' k"
  shows "receiptFor s (ReplySigned receipt) (serviceEvent now uuid user kind j pl (recordServiceConsumption i k b receipt rc))"
proof -
  from serviceConsumeChecks_frame(1) [OF ok]
  obtain s' where "irService rc = Some s'" by (auto simp: putCheckpoint_def)
  from consumptions_recorded [OF this] party_Inr(1) [OF p] none filed show ?thesis
    by (fastforce simp: receiptFor_def)
qed

lemma receiptFor_prior:
  assumes "party (r\<lparr> irService := Some (s\<lparr> ssRequests := qs \<rparr>) \<rparr>) actor i = Inr (s0, a, intent)"
    and "dget (ssConsumptions s0) k = Some receipt" "receiptsFiled s"
  shows "receiptFor s (ReplySigned receipt) (r\<lparr> irService := Some (s\<lparr> ssRequests := qs \<rparr>) \<rparr>)"
  using party_Inr(1) [OF assms(1)] assms(2,3) by (auto simp: receiptFor_def receiptsFiled_def intro!: exI [of _ k])

lemma serviceConsume_reply:
  assumes "newRequest actor q r" and r: "irService r = Some s" and filed: "receiptsFiled s"
  shows "answers (receiptFor s) (serviceConsume L E u actor q i b x y r)"
  unfolding serviceConsume_def
  by (rule answers_idempotent [OF assms(1) r], intro ends_intros,
      auto intro: receiptFor_prior filed; (rule receiptFor_new, assumption+, simp add: serviceReceipt_filed))

text \<open>
  C16: Whatever happens after a call of the service profile was first connected, a later consumption that answers
  with a receipt for the same authorization answers with the very same receipt.
\<close>

theorem service_consumes_once:
  assumes first: "serviceConsume L E u actor q i b x y r0 = Inr (ReplySigned receipt, r1)" "newRequest actor q r0"
      "serviceHas receiptsFiled r0" "seNow E \<le> T" "unusedId (''v3-'' @ u 0) r0"
    and run: "serviceRun L T r1 r"
    and again: "serviceConsume L E' u' actor' q' i' b' x' y' r = Inr (ReplySigned receipt', r')" "newRequest actor' q' r"
    and same: "sameMember (sgPayload receipt') (sgPayload receipt) ''authorizationId''"
  shows "receipt' = receipt"
proof -
  from first(3) obtain s0 where s0: "irService r0 = Some s0" "receiptsFiled s0"
    by (auto simp: serviceHas_def split: option.splits)
  from answersD [OF serviceConsume_reply [OF first(2) s0] first(1)]
  obtain k s1 where k: "isStr (sgPayload receipt) ''authorizationId'' k" "irService r1 = Some s1"
    "dget (ssConsumptions s1) k = Some receipt" by (auto simp: receiptFor_def)
  have "serviceHas receiptsFiled r1"
    using filing.keeps_consume [where u = u, OF first(4,3,5)] first(1) by (simp add: answers_def)
  with run have "serviceHas receiptsFiled r" by (rule filing.run_keeps)
  then obtain s where s: "irService r = Some s" "receiptsFiled s" by (auto simp: serviceHas_def split: option.splits)
  have "serviceHas (serviceReceiptOnFile k receipt) r"
    by (rule filed_receipt.run_keeps [OF run]) (use k in \<open>simp add: serviceHas_def serviceReceiptOnFile_def\<close>)
  then have "dget (ssConsumptions s) k = Some receipt" using s by (simp add: serviceHas_def serviceReceiptOnFile_def)
  moreover from answersD [OF serviceConsume_reply [OF again(2) s] again(1)]
  obtain k' where "isStr (sgPayload receipt') ''authorizationId'' k'"
    "dget (ssConsumptions s) k' = None \<or> dget (ssConsumptions s) k' = Some receipt'" by (auto simp: receiptFor_def)
  ultimately show ?thesis using k(1) same by (auto simp: sameMember_def isStr_def)
qed

theorem service_consumes_once_witness:
  "\<exists>r1 r2 receipt. serviceConsume srLib srEnv srUuid srRecipient ''request-1'' ''v3-att'' srBinding ''x'' ''y'' srRecord =
       Inr (ReplySigned srReceipt, r1) \<and>
     serviceConsume srLib srEnv srUuid srRecipient ''request-2'' ''v3-att'' srBinding ''x'' ''y'' r1 =
       Inr (ReplySigned receipt, r2) \<and> receipt = srReceipt"
proof -
  let ?e = "\<lparr> rqHash = srDigest, rqAt = 5004, rqReply = ReplySigned srReceipt \<rparr>"
  let ?r1 = "srAfter [(requestKey srRecipient ''request-1'', ?e)]"
  have first: "serviceConsume srLib srEnv srUuid srRecipient ''request-1'' ''v3-att'' srBinding ''x'' ''y'' srRecord =
      Inr (ReplySigned srReceipt, ?r1)"
    using sr_consume [of "''request-1''" "[]"] by (simp add: srAfter_Nil [symmetric] sr_request liveRequests_def)
  have new: "newRequest srRecipient ''request-1'' srRecord" "newRequest srRecipient ''request-2'' ?r1"
    by (simp_all add: newRequest_def sr_record requestKey_def arActor_def)
  have "isRequestId ''request-2''" by code_simp
  moreover have "requestKey srRecipient ''request-2'' \<noteq> requestKey srRecipient ''request-1''" by (simp add: requestKey_def)
  ultimately obtain r2 where again: "serviceConsume srLib srEnv srUuid srRecipient ''request-2'' ''v3-att'' srBinding ''x'' ''y'' ?r1 =
      Inr (ReplySigned srReceipt, r2)"
    by (simp add: sr_consume liveRequests_def)
  have "serviceHas receiptsFiled srRecord" "unusedId (''v3-'' @ srUuid 0) srRecord" "seNow srEnv \<le> 5004"
    by (simp_all add: serviceHas_def sr_record receiptsFiled_def unusedId_def srState_def srReceipt_def srBase_def isStr_def
        jget_def srUuid_def newServiceState_def srEnv_def)
  from service_consumes_once [OF first new(1) this(1,3,2) serviceRun.start again new(2)] first again
  show ?thesis by (auto simp: sameMember_def)
qed

section \<open>Leases\<close>

definition leaseGranted ::
    "lib \<Rightarrow> serviceEnv \<Rightarrow> InstitutionRecord \<Rightarrow> ServiceState \<Rightarrow> string \<Rightarrow> string \<Rightarrow> string option \<Rightarrow> ServiceReply \<Rightarrow> bool" where
  "leaseGranted L E r s i proof senderProof reply \<longleftrightarrow>
     (\<exists>a auth. dget (ssAttempts s) i = Some a \<and> authorizationOf s a = Some auth \<and>
        saStatus a \<in> {SConsumed, SAccepted} \<and> \<not> sauCancelled auth \<and> seNow E < saCallEndBy a \<and>
        (\<exists>jws q. senderProof = Some jws \<and> renewalProof L E r a ''sender'' jws = Inr q) \<and>
        (\<exists>q. renewalProof L E r a ''recipient'' proof = Inr q) \<and>
        (\<forall>status l. reply = ReplyLease status l \<longrightarrow>
           status \<noteq> Revoked \<and> (status = Unavailable \<longrightarrow> saStatus a = SAccepted \<and> \<not> leaseExpired E a) \<and>
           jnum (sgPayload l) ''sequence'' = leaseSequence a + 1 \<and>
           jnum (sgPayload l) ''expiresAt'' \<le> seNow E + leaseSeconds (sePolicy E) \<and>
           jnum (sgPayload l) ''expiresAt'' \<le> saCallEndBy a))"

lemma renewalProof_requests [simp]:
  "irService r = Some s \<Longrightarrow>
   renewalProof L E (r\<lparr> irService := Some (s\<lparr> ssRequests := qs \<rparr>) \<rparr>) a role jws = renewalProof L E r a role jws"
  by (simp add: renewalProof_def serviceState_def sideKey_def authorizationOf_def challengeOf_def bindE_def)

lemma party_requests:
  "party (r\<lparr> irService := Some (s\<lparr> ssRequests := qs \<rparr>) \<rparr>) actor i = Inr (s0, a, intent) \<Longrightarrow>
   s0 = s\<lparr> ssRequests := qs \<rparr> \<and> dget (ssAttempts s) i = Some a"
  using party_Inr(1,2) [of "r\<lparr> irService := Some (s\<lparr> ssRequests := qs \<rparr>) \<rparr>" actor i s0 a intent] by auto

lemma leaseChecks_grants:
  assumes "leaseChecks L E actor i n z p y (r\<lparr> irService := Some (s\<lparr> ssRequests := qs \<rparr>) \<rparr>) = Inr (a, intent, auth, b)"
    and "irService r = Some s"
  shows "dget (ssAttempts s) i = Some a \<and> authorizationOf s a = Some auth \<and> saStatus a \<in> {SConsumed, SAccepted} \<and>
    \<not> sauCancelled auth \<and> seNow E < saCallEndBy a \<and> n = leaseSequence a + 1 \<and>
    (\<exists>jws q. y = Some jws \<and> renewalProof L E r a ''sender'' jws = Inr q) \<and> (\<exists>q. renewalProof L E r a ''recipient'' p = Inr q)"
  using assms unfolding leaseChecks_def
  by (auto simp: bindE_eq_Inr ofOption_eq_Inr leaseRefused_def authorizationOf_def dest!: party_requests split: if_splits)

lemma leasePayload_members:
  "jnum (leasePayload L E r a intent p b n nonce st) ''sequence'' = n"
  "jnum (leasePayload L E r a intent p b n nonce st) ''expiresAt'' =
     min (seNow E + leaseSeconds (sePolicy E)) (saCallEndBy a)"
  by (simp_all add: leasePayload_def serviceMessage_def jnum_def jget_def)

lemma serviceLease_reply:
  assumes "newRequest actor q r" and r: "irService r = Some s"
  shows "answers (\<lambda>reply r'. leaseGranted L E r s i p y reply) (serviceLease L E u actor q i n z p c y r)"
  unfolding serviceLease_def
  by (rule answers_idempotent [OF assms(1) r], unfold Let_def, intro ends_intros;
      auto simp: leaseGranted_def leasePayload_members parseWith_eq_Inr dest!: leaseChecks_grants [OF _ r])

text \<open>
  C19: A lease is granted only to the next sequence number, while the call is connected and its authorization stands,
  on fresh proofs of both sides; it lasts at most the lease time of the policy and never past the end of the call;
  and when the ledger cannot be reached it is granted only to a running call whose last lease is still valid.
\<close>

theorem lease_is_bounded:
  assumes "serviceLease L E u actor q i n z p c y r = Inr (ReplyLease status l, r')" "newRequest actor q r"
  shows "\<exists>s a auth. irService r = Some s \<and> dget (ssAttempts s) i = Some a \<and> authorizationOf s a = Some auth \<and>
     saStatus a \<in> {SConsumed, SAccepted} \<and> \<not> sauCancelled auth \<and> seNow E < saCallEndBy a \<and>
     (\<exists>jws x. y = Some jws \<and> renewalProof L E r a ''sender'' jws = Inr x) \<and>
     (\<exists>x. renewalProof L E r a ''recipient'' p = Inr x) \<and>
     status \<noteq> Revoked \<and> (status = Unavailable \<longrightarrow> saStatus a = SAccepted \<and> \<not> leaseExpired E a) \<and>
     jnum (sgPayload l) ''sequence'' = leaseSequence a + 1 \<and>
     jnum (sgPayload l) ''expiresAt'' \<le> min (seNow E + leaseSeconds (sePolicy E)) (saCallEndBy a)"
proof -
  from assms obtain s where s: "irService r = Some s" unfolding serviceLease_def by (auto elim: idempotent_new)
  from answersD [OF serviceLease_reply [OF assms(2) s] assms(1)]
  obtain a auth where "dget (ssAttempts s) i = Some a" "authorizationOf s a = Some auth"
     "saStatus a \<in> {SConsumed, SAccepted}" "\<not> sauCancelled auth" "seNow E < saCallEndBy a"
     "\<exists>jws q. y = Some jws \<and> renewalProof L E r a ''sender'' jws = Inr q"
     "\<exists>q. renewalProof L E r a ''recipient'' p = Inr q"
     "status \<noteq> Revoked" "status = Unavailable \<longrightarrow> saStatus a = SAccepted \<and> \<not> leaseExpired E a"
     "jnum (sgPayload l) ''sequence'' = leaseSequence a + 1"
     "jnum (sgPayload l) ''expiresAt'' \<le> seNow E + leaseSeconds (sePolicy E)"
     "jnum (sgPayload l) ''expiresAt'' \<le> saCallEndBy a"
    unfolding leaseGranted_def by blast
  with s show ?thesis by (intro exI [of _ s] exI [of _ a] exI [of _ auth] conjI) simp_all
qed

theorem lease_is_bounded_witness:
  "\<exists>l r'. srLeaseCall = Inr (ReplyLease Unavailable l, r') \<and> jnum (sgPayload l) ''sequence'' = leaseSequence srAttempt + 1 \<and>
     jnum (sgPayload l) ''expiresAt'' \<le> 5034"
proof -
  obtain l r' where c: "srLeaseCall = Inr (ReplyLease Unavailable l, r')" using sr_lease by blast
  have "newRequest srRecipient ''request-1'' srRecord" by (simp add: newRequest_def sr_record)
  from lease_is_bounded [OF c this] c show ?thesis
    by (auto simp: sr_record servicePolicy_def srEnv_def)
qed

section \<open>Revocation\<close>

lemma fold_reaches:
  assumes "x \<in> set xs" "P s" and P: "\<And>y s. P s \<Longrightarrow> P (f y s)" and x: "\<And>s. P s \<Longrightarrow> Q (f x s)"
    and Q: "\<And>y s. Q s \<Longrightarrow> Q (f y s)"
  shows "Q (fold f xs s)"
proof -
  from \<open>x \<in> set xs\<close> obtain ys zs where xs: "xs = ys @ x # zs" by (meson split_list)
  have "P (fold f ys s)" using \<open>P s\<close> P by (induction ys arbitrary: s) auto
  then have "Q (f x (fold f ys s))" by (rule x)
  then have "Q (fold f zs (f x (fold f ys s)))" using Q by (induction zs arbitrary: s rule: rev_induct) auto
  then show ?thesis by (simp add: xs)
qed





lemma kept_remember [simp]:
  "serviceHas (authorizationKept i c) (rememberReply key entry r) = serviceHas (authorizationKept i c) r"
  by (cases "irService r") (simp_all add: serviceHas_def rememberReply_def authorizationKept_def)






section \<open>The owner of a call\<close>

lemma claimCall_new:
  assumes "claimRoute L E actor q i session r = Inr (reply, r')" "newRequest actor q r"
  obtains x role a where "session = Some x" "x \<noteq> []" "sideOf actor = Some role" "attemptIn r i = Some a"
    "\<not> ownedByAnother a role x" "attemptIn r' i = Some (a\<lparr> saOwnerSessions := dput role x (saOwnerSessions a) \<rparr>)"
proof -
  from assms(1) obtain x where x: "session = Some x" "x \<noteq> []" "claimCall L E actor q i x r = Inr (reply, r')"
    by (auto simp: claimRoute_def split: option.splits if_splits)
  from x(3) [unfolded claimCall_def] assms(2) show thesis
  proof (rule idempotent_new)
    fix s r1
    assume op: "bindE (party (onService (\<lambda>s. s\<lparr> ssRequests := liveRequests (seNow E) (ssRequests s) \<rparr>) r) actor i)
        (\<lambda>(s, attempt, intent). case sideOf actor of None \<Rightarrow> Inl (HttpError 409 ''CALL_NOT_CLAIMABLE'')
         | Some role \<Rightarrow> if terminal (saStatus attempt) \<or> seNow E \<ge> saFirstConnectBy attempt
             then Inl (HttpError 409 ''CALL_NOT_CLAIMABLE'')
             else if ownedByAnother attempt role x then Inl (HttpError 409 ''CALL_OWNED_BY_ANOTHER_SESSION'')
             else Inr (ReplyJson (JObj [(''claimed'', JBool True)]),
               onAttempt i (\<lambda>a. a\<lparr> saOwnerSessions := dput role x (saOwnerSessions a) \<rparr>)
                 (onService (\<lambda>s. s\<lparr> ssRequests := liveRequests (seNow E) (ssRequests s) \<rparr>) r))) = Inr (reply, r1)"
      and r: "irService r = Some s"
      and r': "r' = rememberReply (requestKey actor q)
        \<lparr> rqHash = hashCanonical L (JObj [(''action'', JStr ''claim''), (''attemptId'', JStr i), (''sessionId'', JStr x)]),
           rqAt = seNow E, rqReply = reply \<rparr> r1"
    have same: "attemptIn (onService (\<lambda>s. s\<lparr> ssRequests := liveRequests (seNow E) (ssRequests s) \<rparr>) r) i = attemptIn r i"
      using r by (simp add: attemptIn_def)
    from op obtain s' a intent role
      where p: "party (onService (\<lambda>s. s\<lparr> ssRequests := liveRequests (seNow E) (ssRequests s) \<rparr>) r) actor i = Inr (s', a, intent)"
        and role: "sideOf actor = Some role" "\<not> ownedByAnother a role x"
        and r1: "r1 = onAttempt i (\<lambda>a. a\<lparr> saOwnerSessions := dput role x (saOwnerSessions a) \<rparr>)
          (onService (\<lambda>s. s\<lparr> ssRequests := liveRequests (seNow E) (ssRequests s) \<rparr>) r)"
      by (auto simp: bindE_eq_Inr split: option.splits if_splits)
    from party_Inr(3) [OF p] same have "attemptIn r i = Some a" by simp
    with that x(1,2) role show thesis by (simp add: r' r1 same)
  qed
qed

text \<open>
  C21: Once a browser session has claimed its side of a call, no other session can claim that side, whatever
  has happened to the call in between.
\<close>

theorem claimed_call_has_one_owner:
  assumes first: "claimRoute L E actor q i session r0 = Inr (reply, r1)" "newRequest actor q r0"
    and run: "serviceRun L T r1 r"
    and again: "claimRoute L E' actor' q' i session' r = Inr (reply', r')" "newRequest actor' q' r"
    and side: "sideOf actor' = sideOf actor"
  shows "session' = session"
proof -
  from claimCall_new [OF first] obtain x role a where x: "session = Some x" "x \<noteq> []" "sideOf actor = Some role"
    and r1: "attemptIn r1 i = Some (a\<lparr> saOwnerSessions := dput role x (saOwnerSessions a) \<rparr>)" by metis
  let ?a = "a\<lparr> saOwnerSessions := dput role x (saOwnerSessions a) \<rparr>"
  from r1 have "serviceHas (attemptAdvanced i ?a) r1"
    by (auto simp: serviceHas_def attemptAdvanced_def attemptIn_def split: option.splits bind_splits)
  from advance.run_keeps [OF run this] obtain b where b: "attemptIn r i = Some b" "ownersKept ?a b"
    by (auto simp: serviceHas_def attemptAdvanced_def attemptIn_def advances_def split: option.splits)
  from claimCall_new [OF again] obtain y where y: "session' = Some y" "\<not> ownedByAnother b role y"
    using b(1) x(3) side by (metis option.inject)
  from b(2) x(2) have "dget (saOwnerSessions b) role = Some x" by (simp add: ownersKept_def)
  with x(1,2) y show ?thesis by (auto simp: ownedByAnother_def)
qed

definition srClaimed :: "RequestEntry dict \<Rightarrow> string dict \<Rightarrow> InstitutionRecord" where
  "srClaimed qs owners = srRecord\<lparr> irService := Some (srState\<lparr> ssRequests := qs,
     ssAttempts := [(''v3-att'', srAttempt\<lparr> saOwnerSessions := owners \<rparr>)] \<rparr>) \<rparr>"

lemma srClaimed_Nil: "srRecord = srClaimed [] []"
  by (simp add: srClaimed_def srRecord_def srState_def srAttempt_def newServiceState_def)

lemma srClaimed_claim:
  assumes "isRequestId q" "dget qs (requestKey srRecipient q) = None" "liveRequests 5004 qs = qs" "length qs < 10000"
    and "owners = [] \<or> owners = [(''recipient'', ''session-1'')]"
  shows "\<exists>reply. claimRoute srLib srEnv srRecipient q ''v3-att'' (Some ''session-1'') (srClaimed qs owners) =
    Inr (reply, srClaimed (dput (requestKey srRecipient q) \<lparr> rqHash = srDigest, rqAt = 5004, rqReply = reply \<rparr> qs)
      [(''recipient'', ''session-1'')])"
proof -
  have m: "membership (srClaimed qs owners) srRecipient roles = membership srRecord srRecipient roles" for qs owners roles
    by (simp add: srClaimed_def membership_def memberRole_def memberInactive_def sessionGeneration_def)
  have e: "seNow srEnv = 5004" "sideOf srRecipient = Some ''recipient''" by (simp_all add: srEnv_def sideOf_def arActor_def)
  have s: "irService (srClaimed qs owners) = Some (srState\<lparr> ssRequests := qs,
     ssAttempts := [(''v3-att'', srAttempt\<lparr> saOwnerSessions := owners \<rparr>)] \<rparr>)" for qs owners by (simp add: srClaimed_def)
  have p: "party (srClaimed qs owners) srRecipient ''v3-att'' = Inr (srState\<lparr> ssRequests := qs,
     ssAttempts := [(''v3-att'', srAttempt\<lparr> saOwnerSessions := owners \<rparr>)] \<rparr>, srAttempt\<lparr> saOwnerSessions := owners \<rparr>, srIntent)"
    for owners
    unfolding party_def m sr_members
    by (simp add: serviceState_def s sr_record ofOption_def)
      (simp add: srClaimed_def srRecord_def srAttempt_def attemptHidden_def assignmentChanged_def arIntent_def arRecord_def
        arActor_def memberRole_def memberInactive_def memberService_def arMember_def)
  have live: "onService (\<lambda>s. s\<lparr> ssRequests := qs \<rparr>) (srClaimed qs owners) = srClaimed qs owners"
    by (simp add: srClaimed_def onService_def)
  have own: "dput ''recipient'' ''session-1'' owners = [(''recipient'', ''session-1'')]"
    "\<not> ownedByAnother (srAttempt\<lparr> saOwnerSessions := owners \<rparr>) ''recipient'' ''session-1''"
    using assms(5) by (auto simp: ownedByAnother_def)
  have t: "\<not> terminal (saStatus srAttempt)" "\<not> saFirstConnectBy srAttempt \<le> 5004" by (simp_all add: srAttempt_def terminal_def)
  show ?thesis
    unfolding claimRoute_def claimCall_def idempotent_def
    using assms(1-4) own t
    by (simp add: m sr_members everyRole_def serviceState_def s sr_record live p e Let_def)
      (simp add: srClaimed_def onAttempt_def onService_def rememberReply_def)
qed

theorem claimed_call_has_one_owner_witness:
  "\<exists>r1 r2 reply reply' owner. claimRoute srLib srEnv srRecipient ''request-1'' ''v3-att'' (Some ''session-1'') srRecord = Inr (reply, r1) \<and>
     claimRoute srLib srEnv srRecipient ''request-2'' ''v3-att'' owner r1 = Inr (reply', r2) \<and> owner = Some ''session-1''"
proof -
  obtain reply r1 where first: "claimRoute srLib srEnv srRecipient ''request-1'' ''v3-att'' (Some ''session-1'') srRecord = Inr (reply, r1)"
    and r1: "r1 = srClaimed [(requestKey srRecipient ''request-1'', \<lparr> rqHash = srDigest, rqAt = 5004, rqReply = reply \<rparr>)]
      [(''recipient'', ''session-1'')]"
    using srClaimed_claim [of "''request-1''" "[]" "[]"] by (auto simp: srClaimed_Nil sr_request liveRequests_def)
  have "isRequestId ''request-2''" by code_simp
  moreover have "requestKey srRecipient ''request-2'' \<noteq> requestKey srRecipient ''request-1''" by (simp add: requestKey_def)
  ultimately obtain reply' r2 where again:
    "claimRoute srLib srEnv srRecipient ''request-2'' ''v3-att'' (Some ''session-1'') r1 = Inr (reply', r2)"
    unfolding r1
    using srClaimed_claim [of "''request-2''" "[(requestKey srRecipient ''request-1'',
      \<lparr> rqHash = srDigest, rqAt = 5004, rqReply = reply \<rparr>)]" "[(''recipient'', ''session-1'')]"]
    by (auto simp: liveRequests_def)
  have "newRequest srRecipient ''request-1'' srRecord" "newRequest srRecipient ''request-2'' r1"
    by (simp_all add: newRequest_def sr_record r1 srClaimed_def requestKey_def arActor_def)
  from claimed_call_has_one_owner [OF first this(1) serviceRun.start again this(2)] first again show ?thesis by blast
qed

section \<open>Quotas\<close>

text \<open>
  Over any run, no usage counter of a call, of a user or of the institution exceeds its limit.
\<close>

theorem usage_stays_within_quota:
  assumes "serviceRun L T r0 r" "serviceHas withinQuota r0"
  shows "serviceHas withinQuota r"
  using quota.run_keeps [OF assms] .

theorem usage_stays_within_quota_witness:
  "serviceHas withinQuota (sweep srLib srEnv srUuid srRecord srRecord)"
proof -
  have "serviceHas withinQuota srRecord"
    by (simp add: serviceHas_def sr_record withinQuota_def srState_def newServiceState_def dvalues_def)
  from usage_stays_within_quota [OF serviceRun.swept [OF serviceRun.start] this] show ?thesis .
qed

section \<open>The sweep\<close>

definition stillLive :: "serviceEnv \<Rightarrow> InstitutionRecord \<Rightarrow> ServiceAttempt \<Rightarrow> bool" where
  "stillLive E r a \<longleftrightarrow>
     (if saStatus a = SAccepted then \<not> leaseExpired E a \<and> seNow E < saCallEndBy a else seNow E < saFirstConnectBy a) \<and>
     irStatus r = InstitutionActive \<and>
     (\<exists>intent. dget (irIntents r) (saIntent a) = Some intent \<and> ciStatus intent = IntentOpen \<and> seNow E < ciExpiresAt intent)"

lemma record_frame [simp]:
  "irStatus (onAttempt i f r) = irStatus r" "irIntents (onAttempt i f r) = irIntents r"
  "irStatus (putCheckpoint d cp r) = irStatus r" "irIntents (putCheckpoint d cp r) = irIntents r"
  "irStatus (serviceEvent now uuid user kind i p r) = irStatus r"
  "irIntents (serviceEvent now uuid user kind i p r) = irIntents r"
  by (simp_all add: onAttempt_def putCheckpoint_def onService_def serviceEvent_def Let_def)

definition sameTimes :: "ServiceAttempt \<Rightarrow> ServiceAttempt \<Rightarrow> bool" where
  "sameTimes a a' \<longleftrightarrow> saStatus a' = saStatus a \<and> saLease a' = saLease a \<and> saCallEndBy a' = saCallEndBy a \<and>
     saFirstConnectBy a' = saFirstConnectBy a \<and> saIntent a' = saIntent a"

lemma stillLive_sameTimes: "sameTimes a a' \<Longrightarrow> stillLive E r a' = stillLive E r a"
  by (simp add: sameTimes_def stillLive_def leaseExpired_def)

lemma sweepAuthority_Inr:
  assumes "sweepAuthority L E observed checked i auth s r = Inr r'"
  shows "irStatus r' = irStatus r" "irIntents r' = irIntents r" "j \<noteq> i \<Longrightarrow> attemptIn r' j = attemptIn r j"
    "attemptIn r i = Some a \<Longrightarrow> \<exists>a'. attemptIn r' i = Some a' \<and> sameTimes a a'"
  using assms unfolding sweepAuthority_def Let_def
  by (auto simp: sameTimes_def split: sum.splits js_error.splits if_splits option.splits)

lemma sweepOne_frame [simp]:
  "irStatus (sweepOne L E u observed checked e r) = irStatus r" "irIntents (sweepOne L E u observed checked e r) = irIntents r"
  unfolding sweepOne_def sweepEnd_def
  by (auto simp: sweepAuthority_Inr(1,2) split: prod.splits option.splits sum.splits)

lemma sweepOne_other: "snd e \<noteq> i \<Longrightarrow> attemptIn (sweepOne L E u observed checked e r) i = attemptIn r i"
  unfolding sweepOne_def sweepEnd_def
  by (auto simp: attemptIn_serviceEvent sweepAuthority_Inr(3) split: prod.splits option.splits sum.splits)

lemma sweepOne_self:
  assumes "attemptIn (sweepOne L E u observed checked (k, i) r) i = Some a" "\<not> terminal (saStatus a)"
  shows "stillLive E r a"
proof -
  from assms obtain s b where s: "irService r = Some s" "dget (ssAttempts s) i = Some b" "attemptIn r i = Some b"
    by (auto simp: sweepOne_def attemptIn_def split: option.splits bind_splits)
  have live: "stillLive E r b" if "\<not> staleAuthority E r s b" "\<not> (saStatus b \<noteq> SAccepted \<and> saFirstConnectBy b \<le> seNow E)"
    "\<not> (saStatus b = SAccepted \<and> (leaseExpired E b \<or> saCallEndBy b \<le> seNow E))"
    using that by (auto simp: stillLive_def staleAuthority_def split: option.splits)
  from assms s live show ?thesis
    by (auto simp: sweepOne_def sweepEnd_def attemptIn_serviceEvent requestCleanup_def finishAttempt_def withdrawConsent_def
        terminal_def stillLive_sameTimes dest: sweepAuthority_Inr(4) split: option.splits sum.splits if_splits)
qed

lemma sweep_loop_other:
  "i \<notin> snd ` set es \<Longrightarrow> attemptIn (fold (sweepOne L E u observed checked) es r) i = attemptIn r i"
  by (induction es arbitrary: r) (auto simp: sweepOne_other)

lemma sweepOne_keeps_live:
  assumes "\<forall>a. attemptIn r i = Some a \<longrightarrow> \<not> terminal (saStatus a) \<longrightarrow> stillLive E r a"
  shows "\<forall>a. attemptIn (sweepOne L E u observed checked e r) i = Some a \<longrightarrow> \<not> terminal (saStatus a) \<longrightarrow> stillLive E r a"
proof (cases "snd e = i")
  case True
  then show ?thesis using sweepOne_self by (cases e) auto
next
  case False
  then show ?thesis using assms by (simp add: sweepOne_other)
qed

text \<open>
  C18: Every sweep ends the calls whose time is up: a call that is still open after a sweep rings within its
  connection window or holds an unexpired lease within its call limit, at an active institution and for a contact that
  is open and has not expired.
\<close>

theorem sweep_ends_lapsed_calls:
  assumes "attemptIn (sweep L E u observed r) i = Some a" "\<not> terminal (saStatus a)"
  shows "(if saStatus a = SAccepted then \<not> leaseExpired E a \<and> seNow E < saCallEndBy a else seNow E < saFirstConnectBy a) \<and>
     irStatus r = InstitutionActive \<and>
     (\<exists>intent. dget (irIntents r) (saIntent a) = Some intent \<and> ciStatus intent = IntentOpen \<and> seNow E < ciExpiresAt intent)"
proof -
  let ?f = "sweepOne L E u observed (sweepObserve L E observed)"
  from assms(1) obtain s where s: "irService r = Some s"
    by (auto simp: sweep_def sweepApply_def attemptIn_def split: option.splits)
  let ?es = "enumerate 0 (map fst (ssAttempts s))"
  let ?P = "\<lambda>r' :: InstitutionRecord. irStatus r' = irStatus r \<and> irIntents r' = irIntents r"
  let ?Q = "\<lambda>r' :: InstitutionRecord. ?P r' \<and> (\<forall>a. attemptIn r' i = Some a \<longrightarrow> \<not> terminal (saStatus a) \<longrightarrow> stillLive E r a)"
  have same: "stillLive E r' = stillLive E r" if "?P r'" for r'
    using that by (auto simp: stillLive_def)
  have fin: "attemptIn (fold ?f ?es r) i = Some a" using assms(1) s by (simp add: sweep_def sweepApply_def)
  have "i \<in> snd ` set ?es"
  proof (rule ccontr)
    assume n: "i \<notin> snd ` set ?es"
    then have "dget (ssAttempts s) i = None" by (simp add: map_of_eq_None_iff flip: set_map)
    then have "attemptIn r i = None" by (simp add: attemptIn_def s)
    with fin sweep_loop_other [OF n] show False by simp
  qed
  then obtain k where "(k, i) \<in> set ?es" by auto
  then have "?Q (fold ?f ?es r)"
  proof (rule fold_reaches [where P = ?P])
    fix r' assume p: "?P r'"
    show "?Q (?f (k, i) r')" using p sweepOne_self [of L E u observed _ k i r'] unfolding same [OF p] by auto
  next
    fix y r' assume q: "?Q r'"
    then have p: "?P r'" by blast
    from q have "\<forall>a. attemptIn r' i = Some a \<longrightarrow> \<not> terminal (saStatus a) \<longrightarrow> stillLive E r' a"
      unfolding same [OF p] by blast
    from p sweepOne_keeps_live [OF this] show "?Q (?f y r')" unfolding same [OF p] by simp
  qed simp_all
  with fin assms(2) show ?thesis by (auto simp: stillLive_def)
qed

definition srRinging :: InstitutionRecord where
  "srRinging = srRecord\<lparr> irService := Some (srState\<lparr> ssAttempts :=
     [(''v3-att'', srAttempt\<lparr> saStatus := SCreated, saAuthorization := None \<rparr>)] \<rparr>) \<rparr>"

theorem sweep_ends_lapsed_calls_witness:
  "attemptIn (sweep srLib srEnv srUuid srRinging srRinging) ''v3-att'' =
     Some (srAttempt\<lparr> saStatus := SCreated, saAuthorization := None \<rparr>) \<and> seNow srEnv < saFirstConnectBy srAttempt"
proof -
  let ?a = "srAttempt\<lparr> saStatus := SCreated, saAuthorization := None \<rparr>"
  have s: "irService srRinging = Some (srState\<lparr> ssAttempts := [(''v3-att'', ?a)] \<rparr>)" by (simp add: srRinging_def)
  have "\<not> staleAuthority srEnv srRinging (srState\<lparr> ssAttempts := [(''v3-att'', ?a)] \<rparr>) ?a"
    by (simp add: staleAuthority_def srRinging_def sr_record authorizationOf_def)
      (simp add: srRecord_def arRecord_def srAttempt_def arIntent_def srEnv_def memberRole_def memberInactive_def memberService_def
        arMember_def)
  then have "sweep srLib srEnv srUuid srRinging srRinging = srRinging"
    by (simp add: sweep_def sweepApply_def s sweepOne_def authorizationOf_def terminal_def) (simp add: srAttempt_def srEnv_def)
  then have a: "attemptIn (sweep srLib srEnv srUuid srRinging srRinging) ''v3-att'' = Some ?a" by (simp add: attemptIn_def s)
  from sweep_ends_lapsed_calls [OF a] a show ?thesis by (simp add: terminal_def)
qed

end
