(* ===== verification/Store_Logic.thy ===== *)
theory Store_Logic
  imports Store
begin

text \<open>
  Reasoning about the store. \<open>wp m Q E s\<close>: from \<open>s\<close>, the computation \<open>m\<close> returns with \<open>Q\<close> or throws
  with \<open>E\<close>. The locale \<open>anchored_store\<close> adds to the interface of the anchor what the store relies on
  beside it: the errors of \<^verbatim>\<open>advance\<close> are ones that close the gate, and an accepted move never lowers the
  epoch. Inside it stand the three facts about a transaction: it leaves the anchor alone or closes the
  gate, it commits only in step with the anchor, and it appends exactly the entries of its new claims.
\<close>

section \<open>Outcomes\<close>

definition wp :: "('s, 'a) eff \<Rightarrow> ('a \<Rightarrow> 's \<Rightarrow> bool) \<Rightarrow> (js_error \<Rightarrow> 's \<Rightarrow> bool) \<Rightarrow> 's \<Rightarrow> bool" where
  "wp m Q E s = (case m s of (Inl e, s') \<Rightarrow> E e s' | (Inr v, s') \<Rightarrow> Q v s')"

named_theorems wp_simps

lemma wp_basic [wp_simps]:
  "wp (returnS v) Q E = Q v"
  "wp (throwS e) Q E s = E e s"
  "wp (liftE r) Q E s = (case r of Inl e \<Rightarrow> E e s | Inr v \<Rightarrow> Q v s)"
  by (simp_all add: wp_def fun_eq_iff returnS_def throwS_def liftE_def split: sum.splits)

lemma wp_guardS [wp_simps]: "wp (guardS c e) Q E s = (if c then E e s else Q () s)"
  by (simp add: wp_def guardS_def)

lemma wp_setTouched [wp_simps]: "wp (setTouched b) Q E s = Q () (s\<lparr> stTouched := b \<rparr>)"
  by (simp add: wp_def setTouched_def)

lemma wp_bindS [wp_simps]: "wp (bindS m f) Q E s = wp m (\<lambda>v. wp (f v) Q E) E s"
  by (simp add: wp_def bindS_def split: prod.splits sum.splits)

lemma wp_sql [wp_simps]:
  "wp (sql f) Q E s = (case f (stDb s) of Inl e \<Rightarrow> E e s | Inr (v, db) \<Rightarrow> Q v (s\<lparr> stDb := db \<rparr>))"
  by (simp add: wp_def sql_def split: sum.splits prod.splits)

lemma wp_sqlSet [wp_simps]: "wp (sqlSet f) Q E s = Q () (s\<lparr> stDb := f (stDb s) \<rparr>)"
  by (simp add: sqlSet_def wp_sql)

lemma wp_sqlGet [wp_simps]: "wp (sqlGet f) Q E s = (case f (stDb s) of Inl e \<Rightarrow> E e s | Inr v \<Rightarrow> Q v s)"
  by (cases "f (stDb s)") (simp_all add: sqlGet_def wp_sql)

lemma wp_remote [wp_simps]:
  "wp (remote m) Q E s = wp m (\<lambda>v w. Q v (s\<lparr> stAnchor := w \<rparr>)) (\<lambda>e w. E e (s\<lparr> stAnchor := w \<rparr>)) (stAnchor s)"
  by (simp add: wp_def remote_def split: prod.splits sum.splits)

lemma wp_sqlBegin [wp_simps]: "wp (sqlBegin m) Q E s = wp m Q (\<lambda>e s'. E e (s'\<lparr> stDb := stDb s \<rparr>)) s"
  by (simp add: wp_def sqlBegin_def split: prod.splits sum.splits)

lemma wp_mono:
  "wp m Q E s \<Longrightarrow> (\<And>v s'. Q v s' \<Longrightarrow> Q' v s') \<Longrightarrow> (\<And>e s'. E e s' \<Longrightarrow> E' e s') \<Longrightarrow> wp m Q' E' s"
  by (auto simp: wp_def split: prod.splits sum.splits)

lemma wp_Inr: "wp m Q E s \<Longrightarrow> m s = (Inr v, s') \<Longrightarrow> Q v s'"
  by (simp add: wp_def)

lemma wp_Inl: "wp m Q E s \<Longrightarrow> m s = (Inl e, s') \<Longrightarrow> E e s'"
  by (simp add: wp_def)

text \<open>Triples: from every state with \<open>I\<close>, \<open>I\<close> again or an exception with \<open>E\<close>.\<close>

definition keeps :: "('s \<Rightarrow> bool) \<Rightarrow> (js_error \<Rightarrow> 's \<Rightarrow> bool) \<Rightarrow> ('s, 'a) eff \<Rightarrow> bool" where
  "keeps I E m \<longleftrightarrow> (\<forall>s. I s \<longrightarrow> wp m (\<lambda>_. I) E s)"

named_theorems keeps_intros

lemma keeps_bindS [keeps_intros]: "keeps I E m \<Longrightarrow> (\<And>v. keeps I E (f v)) \<Longrightarrow> keeps I E (bindS m f)"
  unfolding keeps_def wp_bindS by (blast intro: wp_mono)

lemma keeps_pure [keeps_intros]:
  "keeps I E (returnS v)" "(\<And>s. I s \<Longrightarrow> E e s) \<Longrightarrow> keeps I E (throwS e)"
  "(\<And>e s. I s \<Longrightarrow> E e s) \<Longrightarrow> keeps I E (liftE r)" "(\<And>s. I s \<Longrightarrow> E e s) \<Longrightarrow> keeps I E (guardS c e)"
  by (auto simp: keeps_def wp_simps split: sum.splits)

lemma keeps_if [keeps_intros]: "keeps I E m \<Longrightarrow> keeps I E m' \<Longrightarrow> keeps I E (if c then m else m')"
  by simp

lemma keeps_option [keeps_intros]:
  "keeps I E m \<Longrightarrow> (\<And>v. keeps I E (f v)) \<Longrightarrow> keeps I E (case x of None \<Rightarrow> m | Some v \<Rightarrow> f v)"
  by (cases x) simp_all

lemma keeps_prod [keeps_intros]: "(\<And>a b. keeps I E (f a b)) \<Longrightarrow> keeps I E (case x of (a, b) \<Rightarrow> f a b)"
  by (cases x) simp

lemma keeps_Let [keeps_intros]: "keeps I E (f v) \<Longrightarrow> keeps I E (let x = v in f x)"
  by simp

lemma keeps_foldS [keeps_intros]: "(\<And>acc x. keeps I E (f acc x)) \<Longrightarrow> keeps I E (foldS f acc xs)"
  by (induction xs arbitrary: acc) (simp_all add: keeps_intros)

lemma keeps_sqlGet [keeps_intros]: "(\<And>e s. I s \<Longrightarrow> E e s) \<Longrightarrow> keeps I E (sqlGet f)"
  by (auto simp: keeps_def wp_simps split: sum.splits)

lemma keeps_sql:
  "(\<And>e s. I s \<Longrightarrow> E e s) \<Longrightarrow> (\<And>s v db. I s \<Longrightarrow> f (stDb s) = Inr (v, db) \<Longrightarrow> I (s\<lparr> stDb := db \<rparr>)) \<Longrightarrow> keeps I E (sql f)"
  by (auto simp: keeps_def wp_simps split: sum.splits prod.splits)

lemma keeps_sqlSet: "(\<And>s. I s \<Longrightarrow> I (s\<lparr> stDb := f (stDb s) \<rparr>)) \<Longrightarrow> keeps I E (sqlSet f)"
  by (simp add: keeps_def wp_simps)

section \<open>The head of the journal\<close>

lemma insort_snoc: "f x \<le> f r \<Longrightarrow> insort_key f x (ys @ [r]) = insort_key f x ys @ [r]"
  by (induction ys) auto

lemma sort_key_snoc: "\<forall>x \<in> set xs. f x < f r \<Longrightarrow> sort_key f (xs @ [r]) = sort_key f xs @ [r]"
  by (induction xs) (auto simp: insort_snoc)

lemma journalOf_snoc:
  "\<forall>r \<in> set (journalOf i rows). bigInt (jrSequence r) < bigInt (jrSequence row) \<Longrightarrow> jrInstitution row = i \<Longrightarrow>
     journalOf i (rows @ [row]) = journalOf i rows @ [row]"
  unfolding journalOf_def by (simp add: sort_key_snoc)

definition journalNumbered :: "string \<Rightarrow> JournalRow list \<Rightarrow> bool" where
  "journalNumbered i rows \<longleftrightarrow> journalKeyed i rows \<and>
     list_all (\<lambda>r. isDigits (jrSequence r) \<and> 0 < bigInt (jrSequence r)) (journalOf i rows)"

lemma bigInt_nextSequence: "isDigits s \<Longrightarrow> bigInt (nextSequence s) = bigInt s + 1"
  using bigInt_nonneg [of s] by (simp add: nextSequence_def isDigits_def)

lemma digitChar_in: "digitChar n \<in> set digitChars"
  unfolding digitChar_def by (rule nth_mem) (simp add: digitChars_def)

lemma isDigits_decimalString: "isDigits (decimalString n)"
proof (induction n rule: decimalString.induct)
  case (1 n)
  then show ?case
    by (cases "n < 10") (auto simp: decimalString.simps [of n] isDigits_def digitChar_in)
qed

lemma journalHead_top:
  assumes "r \<in> set (journalOf i rows)"
  shows "bigInt (jrSequence r) \<le> bigInt (fst (journalHead i rows))"
proof -
  let ?f = "\<lambda>r. bigInt (jrSequence r)" and ?j = "journalOf i rows"
  from assms have "?j = butlast ?j @ [last ?j]" by (metis append_butlast_last_id empty_iff empty_set)
  then have "sorted (map ?f (butlast ?j @ [last ?j]))" using sorted_journalOf [of i rows] by simp
  moreover have "r \<in> set (butlast ?j @ [last ?j])" using assms \<open>?j = _\<close> by simp
  ultimately have "?f r \<le> ?f (last ?j)" by (auto simp: sorted_append)
  with assms show ?thesis by (auto simp: journalHead_def Let_def)
qed

lemma journalHead_digits: "journalNumbered i rows \<Longrightarrow> isDigits (fst (journalHead i rows))"
  by (auto simp: journalHead_def Let_def journalNumbered_def list_all_iff isDigits_def digitChars_def)

lemma insertJournal_next:
  assumes "journalNumbered i rows" "insertJournal row rows = Inr rows'"
    and row: "jrInstitution row = i" "jrSequence row = nextSequence (fst (journalHead i rows))"
  shows "journalOf i rows' = journalOf i rows @ [row]" and "journalNumbered i rows'"
    and "journalHead i rows' = (jrSequence row, jrEntry row)"
proof -
  from assms(2) have rows': "rows' = rows @ [row]" by (auto simp: insertJournal_def split: if_splits)
  have less: "bigInt (jrSequence r) < bigInt (jrSequence row)" if "r \<in> set (journalOf i rows)" for r
    using journalHead_top [OF that] bigInt_nextSequence [OF journalHead_digits [OF assms(1)]] row by simp
  with row show j: "journalOf i rows' = journalOf i rows @ [row]" unfolding rows' by (intro journalOf_snoc) auto
  have positive: "0 < bigInt (jrSequence row)"
    using bigInt_nextSequence [OF journalHead_digits [OF assms(1)]] journalHead_digits [OF assms(1)] row
      bigInt_nonneg [of "fst (journalHead i rows)"] by (simp add: isDigits_def)
  have fresh: "bigInt (jrSequence row) \<notin> (\<lambda>r. bigInt (jrSequence r)) ` set (journalOf i rows)"
    using less by fastforce
  show "journalNumbered i rows'"
    using assms(1) row positive fresh
    by (auto simp: journalNumbered_def journalKeyed_def j nextSequence_def isDigits_decimalString)
  show "journalHead i rows' = (jrSequence row, jrEntry row)"
    by (simp add: journalHead_def j)
qed

section \<open>The log of an institution\<close>

text \<open>
  The abstract state of the journal is the list of its entries. \<open>newEntries\<close> is its specification of a
  transaction: a claim that has no approval yet adds one entry, and counts as approved from then on.
\<close>

abbreviation logOf :: "string \<Rightarrow> Issuer \<Rightarrow> (string \<times> string) list" where
  "logOf i db \<equiv> entriesOf (journalOf i (isJournal db))"

definition approvedIds :: "string \<Rightarrow> Issuer \<Rightarrow> string set" where
  "approvedIds i db = apAuthorization ` {a \<in> set (isApprovals db). apInstitution a = i}"

fun newEntries :: "string set \<Rightarrow> Claim list \<Rightarrow> (string \<times> string) list" where
  "newEntries known [] = []"
| "newEntries known (c # cs) =
     (if clmId c \<in> known then newEntries known cs
      else (clmId c, clmBinding c) # newEntries (insert (clmId c) known) cs)"

definition logAfter ::
    "lib \<Rightarrow> string \<Rightarrow> transactMode \<Rightarrow> InstitutionRecord \<Rightarrow> InstitutionRecord \<Rightarrow> string set \<Rightarrow> (string \<times> string) list" where
  "logAfter L uuid mode before after known =
     newEntries known (filter (\<lambda>c. clmId c \<notin> set (claimedIds before)) (claimsOf after)) @
     (if needsCheckpoint L mode before after
      then [(''authority-state:'' @ irEpoch after @ '':'' @ uuid, authorityStateHash L after)] else [])"

lemma existingApproval_known: "existingApproval i a db = None \<longleftrightarrow> a \<notin> approvedIds i db"
  by (auto simp: existingApproval_def approvedIds_def selectOne_None)

lemma approvedIds_simps [simp]:
  "approvedIds i (db\<lparr> isJournal := rows \<rparr>) = approvedIds i db"
  "approvedIds i (db\<lparr> isApprovals := isApprovals db @ [a] \<rparr>) =
     (if apInstitution a = i then insert (apAuthorization a) (approvedIds i db) else approvedIds i db)"
  "approvedIds i (db\<lparr> isJournal := rows, isApprovals := isApprovals db @ [a] \<rparr>) =
     (if apInstitution a = i then insert (apAuthorization a) (approvedIds i db) else approvedIds i db)"
  by (auto simp: approvedIds_def)

lemma headAnchor_institution [simp]: "anInstitution (headAnchor d i e db) = i"
  by (simp add: headAnchor_def split: prod.splits)

lemma headAnchor_cong: "isJournal db' = isJournal db \<Longrightarrow> headAnchor d i e db' = headAnchor d i e db"
  by (simp add: headAnchor_def)

lemma headAnchor_head:
  "anSequence (headAnchor d i e db) = fst (journalHead i (isJournal db))"
  "anHash (headAnchor d i e db) = snd (journalHead i (isJournal db))"
  by (simp_all add: headAnchor_def split: prod.splits)

lemma headAnchor_append:
  assumes "journalHead i (isJournal db') = (s, h)"
  shows "(headAnchor d i e db)\<lparr> anEpoch := e', anSequence := s, anHash := h \<rparr> = headAnchor d i e' db'"
  using assms by (simp add: headAnchor_def split: prod.splits)

lemma isJournal_notifyEvent: "isJournal (notifyEvent now i r e db) = isJournal db"
proof -
  have "isJournal (fold (notify now i n c) us db) = isJournal db" for n c us
    by (induction us arbitrary: db) (simp_all add: notify_def)
  then show ?thesis by (simp add: notifyEvent_def Let_def)
qed

lemma isJournal_writes [simp]:
  "isJournal (fold (enqueue now i) es db) = isJournal db"
  "isJournal (fold (notifyEvent now i r) es db) = isJournal db"
  "isJournal (setState i r db) = isJournal db"
  by (induction es arbitrary: db) (simp_all add: enqueue_def isJournal_notifyEvent setState_def)

section \<open>The store on an anchor\<close>

locale anchored_store = consumption_anchor "aoRead opts" "aoAdvance opts" locate
  for opts :: "'w anchorOptions" and locate :: "'w \<Rightarrow> string \<Rightarrow> Anchor option" +
  assumes advance_closes: "aoAdvance opts p n w = (Inl e, w') \<Longrightarrow> closesGate e"
begin

lemma wp_read: "(\<And>a. locate w i = Some a \<Longrightarrow> \<forall>w'. locate w' = locate w \<longrightarrow> Q a w') \<Longrightarrow>
    (\<And>e w'. locate w' = locate w \<Longrightarrow> E e w') \<Longrightarrow> wp (aoRead opts i) Q E w"
  unfolding wp_def using read_returns [of i w] read_unmoved [of i w]
  by (cases "aoRead opts i w"; cases "fst (aoRead opts i w)") auto

lemma wp_advance: "(\<And>w'. locate w' (anInstitution n) = Some n \<Longrightarrow> Q () w') \<Longrightarrow>
    (\<And>e w'. closesGate e \<Longrightarrow> E e w') \<Longrightarrow> wp (aoAdvance opts p n) Q E w"
  by (auto simp: wp_def split: prod.splits sum.splits dest: advance_returns advance_closes)

text \<open>First fact: an exception leaves the anchor where it was, or the gate will be closed.\<close>

abbreviation untouched :: "'w \<Rightarrow> 'w Store \<Rightarrow> bool" where
  "untouched base s \<equiv> locate (stAnchor s) = locate base \<or> stTouched s"

abbreviation excused :: "'w \<Rightarrow> js_error \<Rightarrow> 'w Store \<Rightarrow> bool" where
  "excused base e s \<equiv> locate (stAnchor s) = locate base \<or> stTouched s \<or> closesGate e"

lemma untouched_sql: "keeps (untouched base) (excused base) (sql f)"
  by (rule keeps_sql) auto

lemma untouched_sqlSet: "keeps (untouched base) (excused base) (sqlSet f)"
  by (rule keeps_sqlSet) auto

lemma untouched_assertAnchored: "keeps (untouched base) (excused base) (assertAnchored opts a)"
  unfolding keeps_def assertAnchored_def wp_simps
  by (auto intro!: wp_read split: sum.splits)

lemma untouched_appendEntry: "keeps (untouched base) (excused base) (appendEntry L (Some opts) i pe e auth b)"
proof -
  have tail: "keeps (untouched base) (excused base) (bindS (remote (aoAdvance opts p n)) (\<lambda>_. bindS (setTouched True) (\<lambda>_.
      bindS (sql f) (\<lambda>_. returnS v))))" for p n f and v :: Anchor
    unfolding keeps_def wp_simps by (auto intro!: wp_advance split: sum.splits)
  show ?thesis
    unfolding appendEntry_def Let_def option.case
    by (rule keeps_bindS [OF keeps_sqlGet]) (auto intro!: keeps_bindS [OF untouched_assertAnchored tail])
qed

lemma untouched_transaction:
  "keeps (untouched base) (excused base)
     (bindS (enterBackupWrite b) (\<lambda>_. bindS (sqlGet (institutionState i)) (\<lambda>before.
      bindS (admit (Some opts) i mode before) (\<lambda>admitted. bindS (liftE (operation admitted)) (\<lambda>(x, after).
      bindS (settleRecord L (Some opts) uuid now i mode before after) (\<lambda>_. returnS x))))))"
  unfolding enterBackupWrite_def admit_def settleRecord_def recordClaim_def checkpoint_def chargeUsage_def insertAudit_def Let_def option.case
  by (auto intro!: keeps_intros untouched_sql untouched_sqlSet untouched_assertAnchored untouched_appendEntry)

text \<open>Second and third fact: what is committed is in step with the anchor, and extends the log as specified.\<close>

definition logged :: "string \<Rightarrow> bool \<Rightarrow> (string \<times> string) list \<Rightarrow> 'w Store \<Rightarrow> bool" where
  "logged i anchored xs s \<longleftrightarrow>
     journalNumbered i (isJournal (stDb s)) \<and> logOf i (stDb s) = xs \<and>
     (anchored \<longrightarrow> (\<exists>e. locate (stAnchor s) i = Some (headAnchor (aoDeployment opts) i e (stDb s))))"

lemma logged_frame:
  "logged i g xs s \<Longrightarrow> isJournal (stDb s') = isJournal (stDb s) \<Longrightarrow> locate (stAnchor s') = locate (stAnchor s) \<Longrightarrow>
     logged i g xs s'"
  by (simp add: logged_def headAnchor_def)

lemma logged_set: "logged i g xs s \<Longrightarrow> isJournal db = isJournal (stDb s) \<Longrightarrow> logged i g xs (s\<lparr> stDb := db \<rparr>)"
  by (erule logged_frame) simp_all

lemma wp_assertAnchored:
  "(\<And>w'. locate w' = locate (stAnchor s) \<Longrightarrow> locate w' (anInstitution a) = Some a \<Longrightarrow> Q () (s\<lparr> stAnchor := w' \<rparr>)) \<Longrightarrow>
   wp (assertAnchored opts a) Q (\<lambda>_ _. True) s"
  unfolding assertAnchored_def wp_simps
  by (auto intro!: wp_read simp: assertAnchorMatches_Inr split: sum.splits)

lemma wp_appendEntry:
  assumes "journalNumbered i (isJournal (stDb s))"
  shows "wp (appendEntry L (Some opts) i pe e auth b)
     (\<lambda>up s'. logged i True (logOf i (stDb s) @ [(auth, b)]) s' \<and> anEpoch up = e \<and>
              (\<exists>rows. stDb s' = (stDb s)\<lparr> isJournal := rows \<rparr>)) (\<lambda>_ _. True) s"
proof -
  let ?db = "stDb s"
  let ?prev = "headAnchor (aoDeployment opts) i pe ?db"
  let ?next = "?prev\<lparr> anEpoch := e, anSequence := nextSequence (anSequence ?prev),
                 anHash := journalEntry L i auth b (anHash ?prev) \<rparr>"
  let ?row = "\<lparr> jrInstitution = i, jrSequence = anSequence ?next, jrAuthorization = auth,
                jrBinding = b, jrEntry = anHash ?next, jrPrevious = anHash ?prev \<rparr>"
  have arrived: "logged i True (logOf i ?db @ [(auth, b)])
      (s\<lparr> stAnchor := w, stTouched := True, stDb := ?db\<lparr> isJournal := rows \<rparr> \<rparr>)"
    if "locate w i = Some ?next" "insertJournal ?row (isJournal ?db) = Inr rows" for w rows
  proof -
    note step = insertJournal_next [OF assms that(2)]
    have "?next = headAnchor (aoDeployment opts) i e (?db\<lparr> isJournal := rows \<rparr>)"
      by (rule headAnchor_append) (simp add: step headAnchor_head)
    with that step show ?thesis by (auto simp: logged_def headAnchor_head)
  qed
  show ?thesis
    unfolding appendEntry_def option.case wp_simps Let_def
    by (simp, rule wp_assertAnchored, simp, rule wp_advance)
      (auto split: sum.splits simp: bindE_eq_Inr intro: arrived)
qed

lemma logged_weaken: "logged i True xs s \<Longrightarrow> logged i g xs s"
  by (simp add: logged_def)

lemma wp_recordClaim:
  assumes "logged i g xs s" "irService after \<noteq> None"
  shows "wp (recordClaim L (Some opts) i after pe c)
     (\<lambda>_ s'. logged i g (xs @ newEntries (approvedIds i (stDb s)) [c]) s' \<and>
             approvedIds i (stDb s') = insert (clmId c) (approvedIds i (stDb s))) (\<lambda>_ _. True) s"
proof (cases "existingApproval i (clmId c) (stDb s)")
  case None
  then have new: "clmId c \<notin> approvedIds i (stDb s)" by (simp add: existingApproval_known)
  have logged: "journalNumbered i (isJournal (stDb s))" "logOf i (stDb s) = xs"
    using assms(1) by (auto simp: logged_def)
  show ?thesis
    unfolding recordClaim_def wp_simps using assms(2) None new
    by (auto simp: wp_simps logged(2) intro!: wp_mono [OF wp_appendEntry [OF logged(1)]] logged_set elim: logged_weaken)
next
  case (Some a)
  then have "clmId c \<in> approvedIds i (stDb s)" by (metis existingApproval_known option.distinct(1))
  with Some assms(1) show ?thesis
    unfolding recordClaim_def wp_simps by (auto simp: wp_simps)
qed

lemma wp_recordClaims:
  assumes "logged i g xs s" "irService after \<noteq> None"
  shows "wp (foldS (recordClaim L (Some opts) i after) pe cs)
     (\<lambda>_ s'. logged i g (xs @ newEntries (approvedIds i (stDb s)) cs) s') (\<lambda>_ _. True) s"
  using assms(1)
proof (induction cs arbitrary: pe xs s)
  case Nil
  then show ?case by (simp add: wp_simps)
next
  case (Cons c cs)
  show ?case
    unfolding foldS.simps wp_simps
  proof (rule wp_mono [OF wp_recordClaim [OF Cons.prems assms(2), of L pe c]])
    fix v s'
    assume "logged i g (xs @ newEntries (approvedIds i (stDb s)) [c]) s' \<and>
             approvedIds i (stDb s') = insert (clmId c) (approvedIds i (stDb s))"
    with Cons.IH [of "xs @ newEntries (approvedIds i (stDb s)) [c]" s' v]
    show "wp (foldS (recordClaim L (Some opts) i after) v cs)
       (\<lambda>_ s'. logged i g (xs @ newEntries (approvedIds i (stDb s)) (c # cs)) s') (\<lambda>_ _. True) s'"
      by (cases "clmId c \<in> approvedIds i (stDb s)") (simp_all add: insert_absorb)
  qed simp
qed

lemma logged_tail:
  "keeps (logged i g xs) (\<lambda>_ _. True) (bindS (forS chargeUsage us) (\<lambda>_.
     bindS (sqlSet (fold (enqueue now k) es)) (\<lambda>_. bindS (sqlSet (fold (notifyEvent now k r) es)) (\<lambda>_.
     bindS (forS (insertAudit now k) as) (\<lambda>_. sqlSet (setState k r'))))))"
  unfolding chargeUsage_def insertAudit_def
  by (intro keeps_bindS keeps_foldS keeps_sql keeps_sqlSet)
    (auto intro: logged_set split: option.splits if_splits)

lemma wp_settleRecord:
  assumes "logged i g xs s" "irService after \<noteq> None" "irId after = i"
  shows "wp (settleRecord L (Some opts) uuid now i mode before after)
     (\<lambda>_ s'. logged i g (xs @ logAfter L uuid mode before after (approvedIds i (stDb s))) s') (\<lambda>_ _. True) s"
proof -
  let ?cs = "filter (\<lambda>c. clmId c \<notin> set (claimedIds before)) (claimsOf after)"
  let ?ys = "xs @ newEntries (approvedIds i (stDb s)) ?cs"
  let ?tail = "\<lambda>_. bindS (forS chargeUsage (irPendingUsage after)) (\<lambda>_.
     bindS (sqlSet (fold (enqueue now i) (irPendingEvents after))) (\<lambda>_.
     bindS (sqlSet (fold (notifyEvent now i after) (irPendingEvents after))) (\<lambda>_.
     bindS (forS (insertAudit now i) (drop (length (irAudit before)) (irAudit after))) (\<lambda>_.
     sqlSet (setState i (after\<lparr> irPendingUsage := [], irPendingEvents := [], irAudit := [] \<rparr>))))))"
  have rest: "wp (bindS (if needsCheckpoint L mode before after
            then bindS (checkpoint L (Some opts) uuid after pe) (\<lambda>_. returnS ()) else returnS ()) ?tail)
     (\<lambda>_ s'. logged i g (xs @ logAfter L uuid mode before after (approvedIds i (stDb s))) s')
     (\<lambda>_ _. True) s'" if "logged i g ?ys s'" for pe s'
  proof -
    have tail: "wp (?tail v) (\<lambda>_ s'. logged i g zs s') (\<lambda>_ _. True) t" if "logged i g zs t" for zs t v
      using logged_tail [unfolded keeps_def, rule_format, OF that] by blast
    have numbered: "journalNumbered i (isJournal (stDb s'))" "logOf i (stDb s') = ?ys"
      using that by (auto simp: logged_def)
    show ?thesis
    proof (cases "needsCheckpoint L mode before after")
      case True
      then show ?thesis
        unfolding checkpoint_def assms(3) wp_bindS [where f = ?tail]
        by (simp add: wp_bindS [where f = "\<lambda>_. returnS ()"] wp_bindS [where m = "appendEntry L o' k x y a b" for o' k x y a b] wp_basic)
          (rule wp_mono [OF wp_appendEntry [OF numbered(1)]],
           auto simp: wp_basic logAfter_def numbered(2) intro!: tail elim: logged_weaken)
    next
      case False
      with that show ?thesis by (auto simp: wp_bindS [where f = ?tail] wp_basic logAfter_def intro!: tail)
    qed
  qed
  note claims = wp_mono [OF wp_recordClaims [OF assms(1,2)] rest]
  show ?thesis
    unfolding settleRecord_def Let_def wp_bindS [where m = "guardS c e" for c e] wp_guardS
      wp_bindS [where m = "foldS (recordClaim L (Some opts) i after) a xs" for a xs]
    by (simp only: claims if_cancel)
qed

lemma wp_admit:
  assumes "journalNumbered i (isJournal (stDb s))" "gateReady i (stDb s)" "irService before \<noteq> None" "mode \<noteq> ModeCleanup"
  shows "wp (admit (Some opts) i mode before)
     (\<lambda>r s'. r = before \<and> stDb s' = stDb s \<and> logged i True (logOf i (stDb s)) s') (\<lambda>_ _. True) s"
  unfolding admit_def using assms
  by (auto simp: wp_simps logged_def intro!: wp_assertAnchored)

lemma transact_commits:
  assumes run: "storeTransact L (Some opts) uuid now i operation mode s = (Inr v, s')"
    and state: "institutionState i (stDb s) = Inr before" "irService before \<noteq> None" "gateReady i (stDb s)"
      "journalNumbered i (isJournal (stDb s))" "mode \<noteq> ModeCleanup"
    and frame: "\<forall>v r. operation before = Inr (v, r) \<longrightarrow> irService r \<noteq> None \<and> irId r = i"
  shows "\<exists>after. operation before = Inr (v, after) \<and>
     logged i True (logOf i (stDb s) @ logAfter L uuid mode before after (approvedIds i (stDb s))) s'"
proof -
  let ?s = "s\<lparr> stTouched := False \<rparr>"
  let ?body = "bindS (enterBackupWrite (mode \<noteq> ModeNormal)) (\<lambda>_. bindS (sqlGet (institutionState i)) (\<lambda>before.
     bindS (admit (Some opts) i mode before) (\<lambda>admitted. bindS (liftE (operation admitted)) (\<lambda>(result, after).
     bindS (settleRecord L (Some opts) uuid now i mode before after) (\<lambda>_. returnS result)))))"
  let ?Q = "\<lambda>v t. \<exists>after. operation before = Inr (v, after) \<and>
     logged i True (logOf i (stDb s) @ logAfter L uuid mode before after (approvedIds i (stDb s))) t"
  have settle: "wp (settleRecord L (Some opts) uuid now i mode before after)
      (\<lambda>_. logged i True (logOf i (stDb s) @ logAfter L uuid mode before after (approvedIds i (stDb s)))) (\<lambda>_ _. True) t"
    if "operation before = Inr (x, after)" "stDb t = stDb s" "logged i True (logOf i (stDb s)) t" for x after t
    using wp_settleRecord [OF that(3), of after L uuid now mode before] frame that(1,2) by simp
  have "wp (bindS (admit (Some opts) i mode before) (\<lambda>admitted. bindS (liftE (operation admitted)) (\<lambda>(result, after).
     bindS (settleRecord L (Some opts) uuid now i mode before after) (\<lambda>_. returnS result)))) ?Q (\<lambda>_ _. True) ?s"
    unfolding wp_bindS
    by (rule wp_mono [OF wp_admit]) (use state in \<open>auto simp: wp_simps settle split: sum.splits prod.splits\<close>)
  then have "wp ?body ?Q (\<lambda>_ _. True) ?s"
    unfolding wp_bindS [where m = "enterBackupWrite b" for b] wp_bindS [where m = "sqlGet f" for f]
    using state(1) by (simp add: enterBackupWrite_def wp_sqlGet split: sum.splits)
  moreover from run have "?body ?s = (Inr v, s')"
    by (auto simp: storeTransact_def gated_def sqlBegin_def split: prod.splits sum.splits)
  ultimately show ?thesis by (rule wp_Inr)
qed

lemma gateReady_closed: "\<not> gateReady i (setGate i (\<lambda>g. g\<lparr> grReady := False \<rparr>) db)"
  by (simp add: gateReady_def setGate_def adjust_def split: option.splits)

lemma transact_fails:
  assumes run: "storeTransact L (Some opts) uuid now i operation mode s = (Inl e, s')"
  shows "(stDb s' = stDb s \<and> locate (stAnchor s') = locate (stAnchor s)) \<or>
     (stDb s' = setGate i (\<lambda>g. g\<lparr> grReady := False \<rparr>) (stDb s) \<and> \<not> gateReady i (stDb s'))"
proof -
  let ?s = "s\<lparr> stTouched := False \<rparr>"
  from run obtain t where t: "sqlBegin (bindS (enterBackupWrite (mode \<noteq> ModeNormal)) (\<lambda>_. bindS (sqlGet (institutionState i)) (\<lambda>before.
     bindS (admit (Some opts) i mode before) (\<lambda>admitted. bindS (liftE (operation admitted)) (\<lambda>(result, after).
     bindS (settleRecord L (Some opts) uuid now i mode before after) (\<lambda>_. returnS result)))))) ?s = (Inl e, t)"
    and s': "s' = snd (closeGate i e (stTouched t) t)"
    by (auto simp: storeTransact_def gated_def split: prod.splits sum.splits)
  have "wp (sqlBegin (bindS (enterBackupWrite (mode \<noteq> ModeNormal)) (\<lambda>_. bindS (sqlGet (institutionState i)) (\<lambda>before.
     bindS (admit (Some opts) i mode before) (\<lambda>admitted. bindS (liftE (operation admitted)) (\<lambda>(result, after).
     bindS (settleRecord L (Some opts) uuid now i mode before after) (\<lambda>_. returnS result))))))) (\<lambda>_ _. True)
     (\<lambda>e u. stDb u = stDb s \<and> excused (stAnchor s) e u) ?s"
    unfolding wp_sqlBegin
    by (rule wp_mono [OF untouched_transaction [unfolded keeps_def, rule_format, where base = "stAnchor s"]]) auto
  from wp_Inl [OF this t] have "stDb t = stDb s" "excused (stAnchor s) e t" by auto
  then show ?thesis
    unfolding s' by (auto simp: closeGate_def sqlSet_def sql_def returnS_def gateReady_closed)
qed

lemma startRecovery_snapshot:
  assumes "startRecovery L (Some opts) token i s = (Inr c, t)"
  shows "stDb t = setGate i (\<lambda>g. g\<lparr> grReady := False, grToken := Some token \<rparr>) (stDb s)" "stAnchor t = stAnchor s"
    "verifySnapshot L i (stDb s) = Inr c"
proof -
  have "verifySnapshot L i (setGate k f db) = verifySnapshot L i db" for k f db
    by (simp add: verifySnapshot_def setGate_def institutionState_def historyInconsistent_def missingApprovals_def claimRows_def
        cong: if_cong)
  with assms show "stDb t = setGate i (\<lambda>g. g\<lparr> grReady := False, grToken := Some token \<rparr>) (stDb s)" "stAnchor t = stAnchor s"
      "verifySnapshot L i (stDb s) = Inr c"
    by (auto simp: startRecovery_def bindS_Inr sqlSet_def sqlGet_def sql_def split: sum.splits prod.splits simp: bindE_eq_Inr)
qed

lemma finishRecovery_anchored:
  assumes "finishRecovery L (Some opts) token uuid now i ab c t = (Inr (), u)"
  shows "locate (stAnchor t) i = Some \<lparr> anDeployment = aoDeployment opts, anInstitution = i, anSequence = jcSequence c,
           anHash = jcHash c, anEpoch = jcEpoch c \<rparr>"
proof -
  from assms obtain a w where read: "aoRead opts i (stAnchor t) = (Inr a, w)"
    and eq: "\<lparr> anDeployment = aoDeployment opts, anInstitution = i, anSequence = jcSequence c,
           anHash = jcHash c, anEpoch = jcEpoch c \<rparr> = a"
    by (auto simp: finishRecovery_def sqlBegin_def bindS_Inr sqlGet_def sql_def bindE_eq_Inr guardS_Inr liftE_eq ofOption_eq_Inr
          assertAnchored_def remote_def assertAnchorMatches_Inr split: sum.splits prod.splits)
  from read_returns [OF read] eq show ?thesis by simp
qed

lemma recovery_in_step:
  assumes "verifyRecovery L (Some opts) token uuid now i ab s = (Inr (), s')"
  obtains c where "verifySnapshot L i (stDb s) = Inr c"
    "locate (stAnchor s) i = Some \<lparr> anDeployment = aoDeployment opts, anInstitution = i, anSequence = jcSequence c,
           anHash = jcHash c, anEpoch = jcEpoch c \<rparr>"
proof -
  from assms obtain c t where "startRecovery L (Some opts) token i s = (Inr c, t)"
    "finishRecovery L (Some opts) token uuid now i ab c t = (Inr (), s')"
    by (auto simp: verifyRecovery_def bindS_Inr)
  with startRecovery_snapshot [OF this(1)] finishRecovery_anchored [OF this(2)] that [of c] show ?thesis by simp
qed

end

lemma verifySnapshot_scan:
  assumes "verifySnapshot L i db = Inr c" "journalNumbered i (isJournal db)"
  shows "scanRows L i firstCursor (journalOf i (isJournal db)) = Inr c"
    and "\<exists>r. institutionState i db = Inr r \<and> irEpoch r = jcEpoch c"
proof -
  have all: "filter (\<lambda>r. bigInt (jrSequence r) > bigInt (jcSequence firstCursor)) (journalOf i (isJournal db)) =
      journalOf i (isJournal db)"
    using assms(2) by (auto simp: journalNumbered_def list_all_iff firstCursor_def bigInt_def digitValue_def)
  from assms obtain r where r: "institutionState i db = Inr r" "verifyJournal L i (isJournal db) = Inr c"
    "\<not> historyInconsistent L i r c db"
    by (auto simp: verifySnapshot_def bindE_eq_Inr throw_eq_Inr)
  then show "\<exists>r. institutionState i db = Inr r \<and> irEpoch r = jcEpoch c" by (auto simp: historyInconsistent_def)
  from r(2) assms(2) show "scanRows L i firstCursor (journalOf i (isJournal db)) = Inr c"
    unfolding verifyJournal_def by (simp add: verifyPages_scan journalNumbered_def all)
qed

section \<open>The HTTP anchor\<close>

definition httpOptions :: "string \<Rightarrow> string \<Rightarrow> AnchorWorld anchorOptions" where
  "httpOptions token d = \<lparr> aoDeployment = d, aoRead = anchorRead anchorFetch token d,
     aoAdvance = anchorAdvance anchorFetch token d \<rparr>"

lemma httpOptions_deployment [simp]: "aoDeployment (httpOptions token d) = d"
  by (simp add: httpOptions_def)

lemma httpOptions_client:
  "\<not> anchorConfigInvalid origin token \<Longrightarrow> httpConsumptionAnchor anchorFetch origin token d = Inr (httpOptions token d)"
  by (simp add: httpConsumptionAnchor_def httpOptions_def)

lemma anchor_texts: "closesGate (Error ''ANCHOR_DOMAIN_MISMATCH'')" "closesGate (Error ''ANCHOR_AUTH_REQUIRED'')"
  "closesGate (Error ''INDEPENDENT_ANCHOR_CONFLICT'')" "closesGate (Error ''INDEPENDENT_ANCHOR_OUTCOME_UNKNOWN'')"
  by code_simp+

interpretation store: anchored_store "httpOptions token d" "anchoredAt d" for token d
proof
  show "anchoredAt d (snd (aoRead (httpOptions token d) i w)) = anchoredAt d w" for i w
    by (simp add: httpOptions_def http.read_keeps)
  show "aoRead (httpOptions token d) i w = (Inr a, w') \<Longrightarrow> anchoredAt d w i = Some a" for i w a w'
    by (simp add: httpOptions_def http.read_returns)
  show "aoAdvance (httpOptions token d) p n w = (Inr (), w') \<Longrightarrow> anchoredAt d w' (anInstitution n) = Some n" for p n w w'
    by (simp add: httpOptions_def http.advance_returns)
  show "aoAdvance (httpOptions token d) p n w = (x, w') \<Longrightarrow> anchoredAt d w' = anchoredAt d w \<or>
      (anchoredAt d w (anInstitution n) = Some p \<and> bigInt (anSequence n) = bigInt (anSequence p) + 1 \<and>
       anchoredAt d w' = (anchoredAt d w)(anInstitution n := Some n))" for p n w x w'
    by (simp add: httpOptions_def http.advance_moves)
  show "aoAdvance (httpOptions token d) p n w = (Inl e, w') \<Longrightarrow> closesGate e" for p n w e w'
    by (auto simp: httpOptions_def anchorAdvance_def anchor_texts split: if_splits prod.splits sum.splits)
qed

end
