(* ===== verification/Store_Properties.thy ===== *)
theory Store_Properties
  imports Store_Logic Service_Scenario
begin

text \<open>
  What the issuer's store guarantees on the HTTP anchor, whatever the network between them does, and a
  store with one institution on which each statement is exercised.
\<close>

section \<open>A store\<close>

definition swToken :: string where "swToken = replicate 40 (CHR ''t'')"

definition swPosition :: "string \<Rightarrow> string \<Rightarrow> Anchor" where
  "swPosition n h = \<lparr> anDeployment = ''dep'', anInstitution = vrInstitution, anSequence = n, anHash = h, anEpoch = ''1'' \<rparr>"

definition swRow :: JournalRow where
  "swRow = \<lparr> jrInstitution = vrInstitution, jrSequence = ''1'', jrAuthorization = ''authority-state:1:u'',
     jrBinding = srDigest, jrEntry = srDigest, jrPrevious = zeroHash \<rparr>"

definition swIssuer :: "JournalRow list \<Rightarrow> bool \<Rightarrow> Issuer" where
  "swIssuer rows ready = \<lparr> isInstitutions = [(vrInstitution, \<lparr> iwState = srRecord\<lparr> irCheckpointVersion := Some 1 \<rparr>, iwRevision = 1 \<rparr>)],
     isGates = [(vrInstitution, \<lparr> grReady = ready, grToken = None, grCheckedAt = None \<rparr>)], isJournal = rows,
     isApprovals = [], isGlobalQuota = [], isOutbox = [], isNotifications = [], isPreferences = [], isAudit = [],
     isLeases = [], isStages = [], isPhase = Some PhaseOpen, isBackupHolds = False \<rparr>"

definition swStore :: "Issuer \<Rightarrow> Anchor \<Rightarrow> Fault list \<Rightarrow> AnchorWorld Store" where
  "swStore db a faults = \<lparr> stDb = db, stAnchor = \<lparr> awServer = \<lparr> asToken = swToken,
     asRows = [((''dep'', vrInstitution), anchorJson a)] \<rparr>, awFaults = faults \<rparr>, stTouched = False \<rparr>"

definition swGrant :: "InstitutionRecord \<Rightarrow> (unit \<times> InstitutionRecord) result" where
  "swGrant r = Inr ((), onService (\<lambda>s. s\<lparr> ssConsumptions := dput ''v3-new'' srReceipt (ssConsumptions s) \<rparr>) r)"

definition swRun :: "Fault list \<Rightarrow> unit result \<times> AnchorWorld Store" where
  "swRun faults = storeTransact srLib (Some (httpOptions swToken ''dep'')) ''u'' 5004 vrInstitution swGrant ModeNormal
     (swStore (swIssuer [] True) (swPosition ''0'' zeroHash) faults)"

lemma swIssuer_simps [simp]:
  "institutionState vrInstitution (swIssuer rows ready) = Inr (srRecord\<lparr> irCheckpointVersion := Some 1 \<rparr>)"
  "gateReady vrInstitution (swIssuer rows ready) = ready" "isJournal (swIssuer rows ready) = rows"
  "stDb (swStore db a faults) = db"
  by (simp_all add: institutionState_def gateReady_def swIssuer_def swStore_def)

lemma swNumbered: "journalNumbered vrInstitution []" "journalNumbered vrInstitution [swRow]"
  by (simp_all add: journalNumbered_def journalKeyed_def journalOf_def swRow_def isDigits_def digitChars_def bigInt_def digitValue_def)

lemma swRun_commits: "fst (swRun []) = Inr ()"
  by code_simp

lemma swRun_uncertain: "fst (swRun [Delivered, Delivered, LostReply True, LostRequest True]) = Inl (Error ''INDEPENDENT_ANCHOR_OUTCOME_UNKNOWN'')"
  by code_simp

section \<open>Properties\<close>

text \<open>
  C23: a transaction of an institution of the service profile that returns, while its gate is ready, has
  extended the journal by exactly the entries its new claims and its checkpoint call for, and the remote
  anchor stands at the head of the committed journal. The network may have lost or damaged any message.
\<close>

theorem committed_transaction_extends_log:
  assumes "storeTransact L (Some (httpOptions token d)) uuid now i operation mode s = (Inr v, s')"
    and "institutionState i (stDb s) = Inr before" "irService before \<noteq> None" "gateReady i (stDb s)"
    and "journalNumbered i (isJournal (stDb s))" "mode \<noteq> ModeCleanup"
    and "\<forall>v r. operation before = Inr (v, r) \<longrightarrow> irService r \<noteq> None \<and> irId r = i"
  shows "\<exists>after. operation before = Inr (v, after) \<and>
     logOf i (stDb s') = logOf i (stDb s) @ logAfter L uuid mode before after (approvedIds i (stDb s)) \<and>
     (\<exists>e. anchoredAt d (stAnchor s') i = Some (headAnchor d i e (stDb s')))"
  using store.transact_commits [OF assms] by (auto simp: store.logged_def)

theorem committed_transaction_extends_log_witness:
  "\<exists>s'. swRun [] = (Inr (), s') \<and> logOf vrInstitution (stDb s') = [(''v3-new'', srDigest)] \<and>
     (\<exists>e. anchoredAt ''dep'' (stAnchor s') vrInstitution = Some (headAnchor ''dep'' vrInstitution e (stDb s')))"
proof -
  let ?before = "srRecord\<lparr> irCheckpointVersion := Some 1 \<rparr>"
  obtain s' where run: "swRun [] = (Inr (), s')" using swRun_commits by (metis prod.collapse)
  have service: "irService ?before \<noteq> None" "irId ?before = vrInstitution" by (simp_all add: sr_record)
  have frame: "\<forall>v r. swGrant ?before = Inr (v, r) \<longrightarrow> irService r \<noteq> None \<and> irId r = vrInstitution"
    by (auto simp: swGrant_def onService_def sr_record)
  have "logAfter srLib ''u'' ModeNormal ?before (snd (the (case swGrant ?before of Inr p \<Rightarrow> Some p | Inl _ \<Rightarrow> None)))
      (approvedIds vrInstitution (swIssuer [] True)) = [(''v3-new'', srDigest)]"
    by code_simp
  with committed_transaction_extends_log [OF run [unfolded swRun_def] _ service(1) _ _ _ frame] run
  show ?thesis by (auto simp: swNumbered journalOf_def)
qed

text \<open>
  C26: a transaction that throws leaves the tables as they were but for the gate of its institution; and
  unless the anchor stands where it stood before, that gate is closed. An anchor whose outcome is unknown
  therefore blocks the institution until its history has been verified.
\<close>

theorem failed_transaction_is_fenced:
  assumes "storeTransact L (Some (httpOptions token d)) uuid now i operation mode s = (Inl e, s')"
  shows "(stDb s' = stDb s \<and> anchoredAt d (stAnchor s') = anchoredAt d (stAnchor s)) \<or>
     (stDb s' = setGate i (\<lambda>g. g\<lparr> grReady := False \<rparr>) (stDb s) \<and> \<not> gateReady i (stDb s'))"
  using store.transact_fails [OF assms] .

theorem failed_transaction_is_fenced_witness:
  "let s = swStore (swIssuer [] True) (swPosition ''0'' zeroHash) [Delivered, Delivered, LostReply True, LostRequest True];
       s' = snd (swRun [Delivered, Delivered, LostReply True, LostRequest True]) in
   (stDb s' = stDb s \<and> anchoredAt ''dep'' (stAnchor s') = anchoredAt ''dep'' (stAnchor s)) \<or>
     (stDb s' = setGate vrInstitution (\<lambda>g. g\<lparr> grReady := False \<rparr>) (stDb s) \<and> \<not> gateReady vrInstitution (stDb s'))"
  using failed_transaction_is_fenced [of srLib swToken "''dep''" "''u''" 5004 vrInstitution swGrant ModeNormal] swRun_uncertain
  unfolding Let_def swRun_def by (metis prod.collapse)



text \<open>
  C27: the anchor pins the history. If recovery opens the gate of an institution in two states of the
  database, at any two times, while the anchor stands at the same position, then the two journals hold the
  same entries in the same order and the two records have the same epoch: a database restored from an older
  or altered copy is not accepted in the place of the anchored one.
\<close>

theorem anchored_history_is_unique:
  assumes "verifyRecovery L (Some (httpOptions token d)) gate uuid now i bootstrap s = (Inr (), t)"
    and "verifyRecovery L (Some (httpOptions token' d)) gate' uuid' now' i bootstrap' s' = (Inr (), t')"
    and "anchoredAt d (stAnchor s) i = anchoredAt d (stAnchor s') i"
    and "journalNumbered i (isJournal (stDb s))" "journalNumbered i (isJournal (stDb s'))"
    and "\<forall>x \<in> set (journalOf i (isJournal (stDb s))). \<forall>y \<in> set (journalOf i (isJournal (stDb s'))).
           noCollision (hashCanonical L) (entryJson i x) (entryJson i y)"
  shows "logOf i (stDb s) = logOf i (stDb s') \<and>
     map_option irEpoch (map_option iwState (dget (isInstitutions (stDb s)) i)) =
     map_option irEpoch (map_option iwState (dget (isInstitutions (stDb s')) i))"
proof -
  obtain c where c: "verifySnapshot L i (stDb s) = Inr c" and
    at: "anchoredAt d (stAnchor s) i = Some \<lparr> anDeployment = d, anInstitution = i, anSequence = jcSequence c, anHash = jcHash c, anEpoch = jcEpoch c \<rparr>"
    using store.recovery_in_step [OF assms(1)] by auto
  obtain c' where c': "verifySnapshot L i (stDb s') = Inr c'" and
    at': "anchoredAt d (stAnchor s') i = Some \<lparr> anDeployment = d, anInstitution = i, anSequence = jcSequence c', anHash = jcHash c', anEpoch = jcEpoch c' \<rparr>"
    using store.recovery_in_step [OF assms(2)] by auto
  from at at' assms(3) have same: "jcSequence c = jcSequence c'" "jcHash c = jcHash c'" "jcEpoch c = jcEpoch c'" by simp_all
  note scans = verifySnapshot_scan [OF c assms(4)] verifySnapshot_scan [OF c' assms(5)]
  from scan_determines [OF scans(1) scans(3) _ same(2) assms(6)] same scans(2,4) show ?thesis
    by (auto simp: institutionState_def ofOption_eq_Inr)
qed

theorem anchored_history_is_unique_witness:
  "logOf vrInstitution (swIssuer [swRow] True) = logOf vrInstitution (swIssuer [swRow] False)"
proof -
  have run: "fst (verifyRecovery srLib (Some (httpOptions swToken ''dep'')) ''gate'' ''u'' 5004 vrInstitution True
      (swStore (swIssuer [swRow] True) (swPosition ''1'' srDigest) [])) = Inr ()"
    "fst (verifyRecovery srLib (Some (httpOptions swToken ''dep'')) ''gate'' ''u'' 5004 vrInstitution True
      (swStore (swIssuer [swRow] False) (swPosition ''1'' srDigest) [])) = Inr ()"
    by code_simp+
  then obtain t t' where runs: "verifyRecovery srLib (Some (httpOptions swToken ''dep'')) ''gate'' ''u'' 5004 vrInstitution True
      (swStore (swIssuer [swRow] True) (swPosition ''1'' srDigest) []) = (Inr (), t)"
    "verifyRecovery srLib (Some (httpOptions swToken ''dep'')) ''gate'' ''u'' 5004 vrInstitution True
      (swStore (swIssuer [swRow] False) (swPosition ''1'' srDigest) []) = (Inr (), t')"
    by (metis prod.collapse)
  show ?thesis
    using anchored_history_is_unique [OF runs]
    by (simp add: swNumbered)
qed

end
