(* ===== verification/Worker.thy ===== *)
theory Worker
  imports Store
begin

text \<open>
  The durable worker, \<^verbatim>\<open>services/api/src/service-worker.ts\<close>: it claims a job of the outbox, prepares and
  stores a signed transaction, broadcasts it, and completes or reschedules the job. \<open>WorkerStore\<close> and
  \<open>WorkerLedger\<close> are its two interfaces; \<open>postgresWorker\<close> is \<^verbatim>\<open>postgresWorkerStore\<close>. The store state is
  that of \<open>Store\<close>, with the ledger in the place of the remote party.

  An operation reads the clock once. The measurements are left out.
\<close>

section \<open>Interfaces\<close>

record SignedTransaction =
  stRaw :: string
  stHash :: string
  stSigner :: string
  stNonce :: string

record ('s) WorkerLedger =
  wlSigner :: "OutboxRow \<Rightarrow> string result"
  wlValidate :: "SignedTransaction \<Rightarrow> OutboxRow \<Rightarrow> ('s, unit) eff"
  wlPrepare :: "OutboxRow \<Rightarrow> InstitutionRecord \<Rightarrow> nat \<Rightarrow> ('s, SignedTransaction) eff"
  wlBroadcast :: "SignedTransaction \<Rightarrow> ('s, unit) eff"
  wlReceipt :: "string \<Rightarrow> ('s, (string \<times> bool) option) eff"

record ('s) WorkerStore =
  wsClaim :: "('s, OutboxRow option) eff"
  wsRecord :: "string \<Rightarrow> ('s, InstitutionRecord) eff"
  wsPersist :: "OutboxRow \<Rightarrow> string \<Rightarrow> (nat \<Rightarrow> ('s, SignedTransaction) eff) \<Rightarrow> ('s, SignedTransaction) eff"
  wsRenew :: "OutboxRow \<Rightarrow> ('s, bool) eff"
  wsComplete :: "OutboxRow \<Rightarrow> string option \<Rightarrow> ('s, unit) eff"
  wsRetry :: "OutboxRow \<Rightarrow> string \<Rightarrow> bool \<Rightarrow> string option \<Rightarrow> ('s, unit) eff"
  wsCleanup :: "OutboxRow \<Rightarrow> ('s, unit) eff"
  wsRecordStage :: "(string \<Rightarrow> string option \<Rightarrow> ('s, unit) eff) option"

section \<open>Processing a job\<close>

definition auditOnlyEvents :: "string list" where
  "auditOnlyEvents = [''intent.cancelled'', ''configuration.proposed'', ''configuration.approved'',
     ''configuration.activated'', ''member.registered'', ''intent.created'', ''attempt.created'', ''authorization.issued'',
     ''authorization.consumed'', ''call.lease'', ''official.completed'', ''analysis.consented'', ''analysis.withdrawn'',
     ''key.activated'', ''member.updated'', ''intent.reassigned'', ''attempt.ended'', ''attempt.declined'',
     ''attempt.no-answer'', ''attempt.failed'', ''attempt.cancelled'']"

definition ledgerKinds :: "string list" where
  "ledgerKinds = [''institution.configure'', ''credential.register'', ''credential.revoke'', ''institution.suspend'',
     ''institution.recover'', ''institution.register'']"

text \<open>The four columns of a stored transaction, where they are not \<^verbatim>\<open>null\<close>.\<close>

definition storedParts :: "OutboxRow \<Rightarrow> string list" where
  "storedParts j = concat (map (\<lambda>v. case v of None \<Rightarrow> [] | Some x \<Rightarrow> [x])
     [obRaw j, obHash j, obSigner j, map_option decimalString (obNonce j)])"

definition storedIncomplete :: "OutboxRow \<Rightarrow> bool" where
  "storedIncomplete j \<longleftrightarrow>
     storedParts j \<noteq> [] \<and> (length (storedParts j) \<noteq> 4 \<or> [] \<in> set (storedParts j))"

definition storedTransaction :: "OutboxRow \<Rightarrow> SignedTransaction option" where
  "storedTransaction j = (case (obRaw j, obHash j, obSigner j, obNonce j) of
     (Some raw, Some hash, Some signer, Some n) \<Rightarrow>
       if raw = [] \<or> hash = [] \<or> signer = [] then None
       else Some \<lparr> stRaw = raw, stHash = hash, stSigner = signer, stNonce = decimalString n \<rparr>
   | _ \<Rightarrow> None)"

definition jobTransaction :: "('s) WorkerStore \<Rightarrow> ('s) WorkerLedger \<Rightarrow> OutboxRow \<Rightarrow> ('s, SignedTransaction) eff" where
  "jobTransaction S G j = (case storedTransaction j of
     Some t \<Rightarrow> returnS t
   | None \<Rightarrow> bindS (liftE (wlSigner G j)) (\<lambda>signer.
       wsPersist S j signer (\<lambda>minimum. bindS (wsRecord S (obInstitution j)) (\<lambda>r. wlPrepare G j r minimum))))"

definition confirmTransaction :: "('s) WorkerStore \<Rightarrow> ('s) WorkerLedger \<Rightarrow> OutboxRow \<Rightarrow> SignedTransaction \<Rightarrow> ('s, unit) eff" where
  "confirmTransaction S G j t =
     bindS (wlValidate G t j) (\<lambda>_.
     bindS (wsRenew S j) (\<lambda>live.
     bindS (guardS (\<not> live) (Error ''CLAIM_LOST'')) (\<lambda>_.
     bindS (wlReceipt G (stHash t)) (\<lambda>first.
     bindS (case first of Some r \<Rightarrow> returnS (Some r)
            | None \<Rightarrow> bindS (wlBroadcast G t) (\<lambda>_. wlReceipt G (stHash t))) (\<lambda>receipt.
     case receipt of
       None \<Rightarrow> throwS (Error ''TRANSACTION_CONFIRMATION_PENDING'')
     | Some (block, success) \<Rightarrow>
         if \<not> success then throwS (PermanentJobError ''TRANSACTION_REVERTED'' (Some block))
         else wsComplete S j (Some block))))))"

definition jobBody :: "('s) WorkerStore \<Rightarrow> ('s) WorkerLedger \<Rightarrow> OutboxRow \<Rightarrow> ('s, unit) eff" where
  "jobBody S G j =
     (if obKind j = ''call.cleanup'' then bindS (wsCleanup S j) (\<lambda>_. wsComplete S j None)
      else if obKind j \<in> set auditOnlyEvents then wsComplete S j None
      else if obKind j \<notin> set ledgerKinds then throwS (PermanentJobError ''UNSUPPORTED_JOB_KIND'' None)
      else if storedIncomplete j then throwS (PermanentJobError ''INCOMPLETE_STORED_TRANSACTION'' None)
      else bindS (jobTransaction S G j) (confirmTransaction S G j))"

definition rescheduleJob :: "('s) WorkerStore \<Rightarrow> OutboxRow \<Rightarrow> js_error \<Rightarrow> ('s, unit) eff" where
  "rescheduleJob S j e = (case e of
     PermanentJobError code (Some block) \<Rightarrow>
       if block = [] then wsRetry S j code True None else wsRetry S j code True (Some block)
   | PermanentJobError code None \<Rightarrow> wsRetry S j code True None
   | _ \<Rightarrow> wsRetry S j ''DEPENDENCY_OR_CONFIRMATION_PENDING'' False None)"

definition processDurableJob :: "('s) WorkerStore \<Rightarrow> ('s) WorkerLedger \<Rightarrow> OutboxRow \<Rightarrow> ('s, unit) eff" where
  "processDurableJob S G j = catchS (jobBody S G j) (rescheduleJob S j)"

section \<open>A cycle\<close>

record ('s) WorkerTasks =
  wtEvents :: "('s, unit) eff"
  wtMaintenance :: "('s, unit) eff"
  wtReport :: "string \<Rightarrow> ('s, unit) eff"

text \<open>\<^verbatim>\<open>/^[A-Z][A-Z0-9_]{3,99}$/\<close>\<close>

definition isStageCode :: "string \<Rightarrow> bool" where
  "isStageCode m \<longleftrightarrow> 4 \<le> length m \<and> length m \<le> 100 \<and> hd m \<in> set upperChars \<and>
     allIn (upperChars @ digitChars @ ''_'') (tl m)"

definition stageCode :: "js_error option \<Rightarrow> string option" where
  "stageCode failure = (case failure of
     None \<Rightarrow> None
   | Some e \<Rightarrow> Some (if isStageCode (errorText e) then errorText e else ''DEPENDENCY_UNAVAILABLE''))"

definition recordStatus :: "('s) WorkerStore \<Rightarrow> ('s) WorkerTasks \<Rightarrow> string \<Rightarrow> js_error option \<Rightarrow> ('s, unit) eff" where
  "recordStatus S T stage failure = (case wsRecordStage S of
     None \<Rightarrow> returnS ()
   | Some f \<Rightarrow> catchS (f stage (stageCode failure)) (\<lambda>_. wtReport T ''status''))"

definition workerStage :: "('s) WorkerStore \<Rightarrow> ('s) WorkerTasks \<Rightarrow> string \<Rightarrow> ('s, unit) eff \<Rightarrow> ('s, unit) eff" where
  "workerStage S T stage run =
     catchS (bindS run (\<lambda>_. recordStatus S T stage None))
       (\<lambda>e. bindS (wtReport T stage) (\<lambda>_. recordStatus S T stage (Some e)))"

definition processNext :: "('s) WorkerStore \<Rightarrow> ('s) WorkerLedger \<Rightarrow> ('s, unit) eff" where
  "processNext S G = bindS (wsClaim S) (\<lambda>job. case job of None \<Rightarrow> returnS () | Some j \<Rightarrow> processDurableJob S G j)"

definition processWorkerCycle :: "('s) WorkerStore \<Rightarrow> ('s) WorkerLedger \<Rightarrow> ('s) WorkerTasks \<Rightarrow> ('s, unit) eff" where
  "processWorkerCycle S G T =
     bindS (workerStage S T ''events'' (wtEvents T)) (\<lambda>_.
     bindS (workerStage S T ''maintenance'' (wtMaintenance T)) (\<lambda>_.
     workerStage S T ''job'' (processNext S G)))"

section \<open>The receipt of a recovery\<close>

definition recordRecoveryReceipt ::
    "string \<Rightarrow> string option \<Rightarrow> string option \<Rightarrow> int \<Rightarrow> InstitutionRecord \<Rightarrow> (bool \<times> InstitutionRecord) result" where
  "recordRecoveryReceipt operation transactionHash block now r = (case irRecovery r of
     None \<Rightarrow> Inr (False, r)
   | Some rc \<Rightarrow>
       if rcHash rc \<noteq> operation then Inr (False, r)
       else (case (transactionHash, block) of
         (Some h, Some b) \<Rightarrow>
           if \<not> isAnyHash32 h \<or> \<not> isDigits b then Inl (Error ''RECOVERY_RECEIPT_REQUIRED'')
           else Inr (True, r\<lparr> irRecovery := Some (rc\<lparr> rcLedger := Some
                  \<lparr> rlTransactionHash = h, rlBlock = b, rlConfirmedAt = now \<rparr> \<rparr>) \<rparr>)
       | _ \<Rightarrow> Inl (Error ''RECOVERY_RECEIPT_REQUIRED'')))"

section \<open>The store of the worker\<close>

definition urgentKinds :: "string list" where
  "urgentKinds = [''call.cleanup'', ''credential.revoke'', ''institution.suspend'']"

definition gateAllows :: "Issuer \<Rightarrow> OutboxRow \<Rightarrow> bool" where
  "gateAllows db j \<longleftrightarrow> obKind j = ''call.cleanup'' \<or> gateReady (obInstitution j) db"

definition claimable :: "string option \<Rightarrow> int \<Rightarrow> Issuer \<Rightarrow> OutboxRow \<Rightarrow> bool" where
  "claimable scope now db j \<longleftrightarrow>
     (case scope of None \<Rightarrow> True | Some i \<Rightarrow> obInstitution j = i) \<and>
     (isPhase db = Some PhaseOpen \<or> obKind j \<in> set urgentKinds) \<and> gateAllows db j \<and>
     ((obStatus j = JobPending \<and> obRetryAt j \<le> now) \<or>
      (obStatus j = JobProcessing \<and> (case obLeaseUntil j of Some l \<Rightarrow> l < now | None \<Rightarrow> False)))"

text \<open>\<^verbatim>\<open>ORDER BY created_at LIMIT 1\<close>\<close>

definition oldest :: "OutboxRow list \<Rightarrow> OutboxRow option" where
  "oldest js = (case sort_key obCreatedAt js of [] \<Rightarrow> None | j # _ \<Rightarrow> Some j)"

definition updateJob :: "(OutboxRow \<Rightarrow> bool) \<Rightarrow> (OutboxRow \<Rightarrow> OutboxRow) \<Rightarrow> Issuer \<Rightarrow> Issuer" where
  "updateJob p f db = db\<lparr> isOutbox := updateWhere p f (isOutbox db) \<rparr>"

definition takeJob :: "string \<Rightarrow> int \<Rightarrow> OutboxRow \<Rightarrow> OutboxRow" where
  "takeJob token now j = j\<lparr> obStatus := JobProcessing, obClaim := Some token, obLeaseUntil := Some (now + 45),
     obAttempts := obAttempts j + 1 \<rparr>"

definition claimJob :: "string option \<Rightarrow> string \<Rightarrow> int \<Rightarrow> ('w Store, OutboxRow option) eff" where
  "claimJob scope token now = sqlBegin (
     bindS (enterBackupWrite True) (\<lambda>_. sql (\<lambda>db.
       case oldest (filter (claimable scope now db) (isOutbox db)) of
         None \<Rightarrow> Inr (None, db)
       | Some j \<Rightarrow> Inr (Some (takeJob token now j), updateJob (\<lambda>k. obId k = obId j) (takeJob token now) db))))"

definition workerRecord :: "string option \<Rightarrow> string \<Rightarrow> ('w Store, InstitutionRecord) eff" where
  "workerRecord scope i = sqlGet (\<lambda>db.
     if (case scope of None \<Rightarrow> False | Some k \<Rightarrow> i \<noteq> k)
     then Inl (PermanentJobError ''WORKER_INSTITUTION_SCOPE_MISMATCH'' None)
     else ofOption (PermanentJobError ''INSTITUTION_NOT_FOUND'' None) (map_option iwState (dget (isInstitutions db) i)))"

text \<open>The claim of the worker that holds \<open>j\<close>: the token it took and a lease that has not run out.\<close>

definition holds :: "int \<Rightarrow> OutboxRow \<Rightarrow> OutboxRow \<Rightarrow> bool" where
  "holds now j k \<longleftrightarrow> obId k = obId j \<and> obClaim k = obClaim j \<and> obClaim j \<noteq> None \<and> obStatus k = JobProcessing \<and>
     (case obLeaseUntil k of Some l \<Rightarrow> l > now | None \<Rightarrow> False)"

definition unfenced :: "Issuer \<Rightarrow> bool" where
  "unfenced db \<longleftrightarrow> isPhase db \<noteq> None \<and> isPhase db \<noteq> Some PhaseFenced"

definition renewJob :: "int \<Rightarrow> OutboxRow \<Rightarrow> ('w Store, bool) eff" where
  "renewJob now j = sql (\<lambda>db.
     let p = (\<lambda>k. holds now j k \<and> unfenced db \<and> gateAllows db k) in
     Inr (length (filter p (isOutbox db)) = 1, updateJob p (\<lambda>k. k\<lparr> obLeaseUntil := Some (now + 45) \<rparr>) db))"

section \<open>Preparing a transaction\<close>

definition acquireLease :: "string \<Rightarrow> string \<Rightarrow> int \<Rightarrow> ('w Store, unit) eff" where
  "acquireLease signerKey owner now = sql (\<lambda>db.
     case selectOne (\<lambda>l. slSigner l = signerKey) (isLeases db) of
       None \<Rightarrow> Inr ((), db\<lparr> isLeases := isLeases db @ [\<lparr> slSigner = signerKey, slOwner = owner, slExpiresAt = now + 40 \<rparr>] \<rparr>)
     | Some l \<Rightarrow>
         if \<not> slExpiresAt l < now then Inl (Error ''SIGNER_PREPARATION_BUSY'')
         else Inr ((), db\<lparr> isLeases := updateWhere (\<lambda>l. slSigner l = signerKey)
                (\<lambda>l. l\<lparr> slOwner := owner, slExpiresAt := now + 40 \<rparr>) (isLeases db) \<rparr>))"

definition releaseLease :: "string \<Rightarrow> string \<Rightarrow> ('w Store, unit) eff" where
  "releaseLease signerKey owner = sqlSet (\<lambda>db.
     db\<lparr> isLeases := filter (\<lambda>l. \<not> (slSigner l = signerKey \<and> slOwner l = owner)) (isLeases db) \<rparr>)"

definition claimedRow :: "int \<Rightarrow> OutboxRow \<Rightarrow> Issuer \<Rightarrow> OutboxRow result" where
  "claimedRow now j db = ofOption (Error ''CLAIM_LOST'')
     (selectOne (\<lambda>k. holds now j k \<and> unfenced db \<and> gateReady (obInstitution k) db) (isOutbox db))"

definition unresolvedSigner :: "string \<Rightarrow> Issuer \<Rightarrow> bool" where
  "unresolvedSigner signerKey db \<longleftrightarrow> list_ex (\<lambda>k. obSigner k = Some signerKey \<and> obStatus k = JobFailed \<and> obRaw k \<noteq> None \<and>
     obReceiptBlock k = None) (isOutbox db)"

definition minimumNonce :: "string \<Rightarrow> Issuer \<Rightarrow> nat" where
  "minimumNonce signerKey db = fold max (map Suc (concat (map (\<lambda>k. if obSigner k = Some signerKey
     then (case obNonce k of Some n \<Rightarrow> [n] | None \<Rightarrow> []) else []) (isOutbox db)))) 0"

definition preparedMismatch :: "string \<Rightarrow> nat \<Rightarrow> SignedTransaction \<Rightarrow> bool" where
  "preparedMismatch signerKey minimum t \<longleftrightarrow>
     toLowerCase (stSigner t) \<noteq> signerKey \<or> \<not> isDigits (stNonce t) \<or> bigInt (stNonce t) < int minimum"

definition leaseHeld :: "string \<Rightarrow> string \<Rightarrow> int \<Rightarrow> Issuer \<Rightarrow> bool" where
  "leaseHeld signerKey owner now db \<longleftrightarrow>
     list_ex (\<lambda>l. slSigner l = signerKey \<and> slOwner l = owner \<and> slExpiresAt l > now) (isLeases db)"

text \<open>\<^verbatim>\<open>outbox_signer_nonce_unique\<close> of the migrations refuses a nonce a signer has used.\<close>

definition storeTransaction :: "string \<Rightarrow> string \<Rightarrow> int \<Rightarrow> OutboxRow \<Rightarrow> SignedTransaction \<Rightarrow> ('w Store, unit) eff" where
  "storeTransaction signerKey owner now j t = sqlBegin (sql (\<lambda>db.
     let p = (\<lambda>k. holds now j k \<and> obRaw k = None \<and> gateReady (obInstitution k) db);
         nonce = nat (bigInt (stNonce t)) in
     if \<not> leaseHeld signerKey owner now db then Inl (Error ''SIGNER_LEASE_LOST'')
     else if \<not> list_ex p (isOutbox db) then Inl (Error ''CLAIM_LOST'')
     else if list_ex (\<lambda>k. \<not> p k \<and> obSigner k = Some signerKey \<and> obNonce k = Some nonce) (isOutbox db) then Inl LibraryError
     else Inr ((), updateJob p (\<lambda>k. k\<lparr> obRaw := Some (stRaw t), obHash := Some (stHash t), obSigner := Some signerKey,
            obNonce := Some nonce \<rparr>) db)))"

definition rowTransaction :: "OutboxRow \<Rightarrow> SignedTransaction" where
  "rowTransaction k = \<lparr> stRaw = the (obRaw k), stHash = (case obHash k of Some h \<Rightarrow> h | None \<Rightarrow> ''null''),
     stSigner = (case obSigner k of Some a \<Rightarrow> a | None \<Rightarrow> ''null''),
     stNonce = (case obNonce k of Some n \<Rightarrow> decimalString n | None \<Rightarrow> ''null'') \<rparr>"

text \<open>The body of the \<^verbatim>\<open>try\<close> of \<^verbatim>\<open>persist\<close>, run under the lease of the signer.\<close>

definition prepareRow ::
    "string \<Rightarrow> int \<Rightarrow> OutboxRow \<Rightarrow> string \<Rightarrow> (nat \<Rightarrow> ('w Store, SignedTransaction) eff) \<Rightarrow> ('w Store, SignedTransaction) eff" where
  "prepareRow owner now j signerKey prepare =
     bindS (sqlGet (claimedRow now j)) (\<lambda>existing.
     if obRaw existing \<noteq> None \<and> obRaw existing \<noteq> Some [] then returnS (rowTransaction existing)
     else bindS (sqlGet (\<lambda>db. if unresolvedSigner signerKey db then Inl (Error ''SIGNER_REQUIRES_RECONCILIATION'')
                  else Inr (minimumNonce signerKey db))) (\<lambda>minimum.
       bindS (prepare minimum) (\<lambda>signed.
       bindS (guardS (preparedMismatch signerKey minimum signed)
                (PermanentJobError ''PREPARED_SIGNER_OR_NONCE_MISMATCH'' None)) (\<lambda>_.
       bindS (storeTransaction signerKey owner now j signed) (\<lambda>_. returnS signed)))))"

definition persistJob ::
    "string \<Rightarrow> int \<Rightarrow> OutboxRow \<Rightarrow> string \<Rightarrow> (nat \<Rightarrow> ('w Store, SignedTransaction) eff) \<Rightarrow> ('w Store, SignedTransaction) eff" where
  "persistJob owner now j signer prepare =
     (let signerKey = toLowerCase signer in
      bindS (acquireLease signerKey owner now) (\<lambda>_.
      finallyS (prepareRow owner now j signerKey prepare) (releaseLease signerKey owner)))"

section \<open>Completing and rescheduling\<close>

definition bumpState :: "string \<Rightarrow> (InstitutionRecord \<Rightarrow> InstitutionRecord) \<Rightarrow> Issuer \<Rightarrow> Issuer" where
  "bumpState i f db = db\<lparr> isInstitutions := adjust i (\<lambda>w. \<lparr> iwState = f (iwState w), iwRevision = iwRevision w + 1 \<rparr>) (isInstitutions db) \<rparr>"

definition setRegistration :: "string \<Rightarrow> string \<Rightarrow> RegistrationState \<Rightarrow> Issuer \<Rightarrow> Issuer" where
  "setRegistration i operation status db =
     (case dget (isInstitutions db) i of
        Some w \<Rightarrow> if irRegistrationOperation (iwState w) = Some operation
          then bumpState i (\<lambda>r. r\<lparr> irRegistrationState := Some status \<rparr>) db else db
      | None \<Rightarrow> db)"

text \<open>The registration, the receipt of a recovery, the end of a call and the state of a delegation.\<close>

definition completeRecovery :: "int \<Rightarrow> OutboxRow \<Rightarrow> OutboxRow \<Rightarrow> string option \<Rightarrow> Issuer \<Rightarrow> (unit \<times> Issuer) result" where
  "completeRecovery now j row block db =
     bindE (ofOption LibraryError (map_option iwState (dget (isInstitutions db) (obInstitution j)))) (\<lambda>r.
     bindE (recordRecoveryReceipt (obObject j) (obHash row) block now r) (\<lambda>(changed, r').
     Inr ((), if changed then setState (obInstitution j) r' db else db)))"

definition closePbx :: "int \<Rightarrow> nat \<Rightarrow> ServiceAttempt \<Rightarrow> ServiceAttempt" where
  "closePbx now attempts a = a\<lparr>
     saCleanup := Some \<lparr> clStatus = ''pbx-absent'', clObservedAt = now, clSource = ''ari-delete-readback'',
       clAttempts = max (int attempts) ((case saCleanup a of Some c \<Rightarrow> clAttempts c | None \<Rightarrow> 0) + 1) \<rparr>,
     saPbx := map_option (\<lambda>x. x\<lparr> pxState := PbxEnded, pxCredentials := [], pxReports := [], pxEvidence := None \<rparr>) (saPbx a) \<rparr>"

definition completeCleanup :: "int \<Rightarrow> OutboxRow \<Rightarrow> Issuer \<Rightarrow> Issuer" where
  "completeCleanup now j db =
     (case Option.bind (map_option iwState (dget (isInstitutions db) (obInstitution j)))
             (\<lambda>r. map_option (\<lambda>a. (r, a)) (Option.bind (irService r) (\<lambda>s. dget (ssAttempts s) (obObject j)))) of
        None \<Rightarrow> db
      | Some (r, a) \<Rightarrow>
          if \<not> terminal (saStatus a) then db
          else let code = ''attempt.'' @ attemptStatusText (saStatus a);
                   told = fold (notify now (irId r) (''terminal:'' @ saId a @ '':'' @ code) code)
                            (notificationRecipients r code (saId a)) db in
            if saPbx a = None then told
            else setState (obInstitution j) (onAttempt (obObject j) (closePbx now (obAttempts j)) r) told)"

definition settleCredential :: "string \<Rightarrow> ServiceDelegation \<Rightarrow> ServiceDelegation" where
  "settleCredential kind c =
     (if kind = ''credential.revoke'' then c\<lparr> sdState := CredentialRevoked \<rparr>
      else if sdState c = CredentialPending then c\<lparr> sdState := CredentialRegistered \<rparr> else c)"

definition completeCredential :: "OutboxRow \<Rightarrow> Issuer \<Rightarrow> (unit \<times> Issuer) result" where
  "completeCredential j db =
     bindE (ofOption LibraryError (map_option iwState (dget (isInstitutions db) (obInstitution j)))) (\<lambda>r.
     Inr ((), case Option.bind (irService r) (\<lambda>s. dget (ssCredentials s) (obObject j)) of
       None \<Rightarrow> db
     | Some c \<Rightarrow> setState (obInstitution j) (onService (\<lambda>s. s\<lparr> ssCredentials :=
         dput (obObject j) (settleCredential (obKind j) c) (ssCredentials s) \<rparr>) r) db))"

definition applyCompletion :: "int \<Rightarrow> OutboxRow \<Rightarrow> OutboxRow \<Rightarrow> string option \<Rightarrow> Issuer \<Rightarrow> (unit \<times> Issuer) result" where
  "applyCompletion now j row block db =
     (if obKind j = ''institution.register'' then Inr ((), setRegistration (obInstitution j) (obObject j) RegistrationConfirmed db)
      else if obKind j = ''institution.recover'' then completeRecovery now j row block db
      else if obKind j = ''call.cleanup'' then Inr ((), completeCleanup now j db)
      else if obKind j \<in> {''credential.register'', ''credential.revoke''} then completeCredential j db
      else Inr ((), db))"

definition completeJob :: "int \<Rightarrow> OutboxRow \<Rightarrow> string option \<Rightarrow> ('w Store, unit) eff" where
  "completeJob now j block = sqlBegin (
     bindS (enterBackupWrite True) (\<lambda>_.
     bindS (sqlGet (\<lambda>db. ofOption (Error ''CLAIM_LOST'')
              (selectOne (\<lambda>k. holds now j k \<and> gateAllows db k) (isOutbox db)))) (\<lambda>row.
     bindS (sql (applyCompletion now j row block)) (\<lambda>_.
     sqlSet (updateJob (\<lambda>k. obId k = obId j) (\<lambda>k. k\<lparr> obStatus := JobDone, obLeaseUntil := None, obClaim := None,
       obReceiptBlock := block, obLastError := None \<rparr>))))))"

definition retryDelay :: "nat \<Rightarrow> int" where
  "retryDelay attempts = min 300 (2 ^ min attempts 8)"

definition failConfiguration :: "OutboxRow \<Rightarrow> string \<Rightarrow> Issuer \<Rightarrow> Issuer" where
  "failConfiguration j code = bumpState (obInstitution j) (\<lambda>r. r\<lparr> irProposals := adjust (obObject j)
     (\<lambda>p. p\<lparr> cpStatus := ProposalFailed, cpFailure := Some code \<rparr>) (irProposals r) \<rparr>)"

definition operatorsOf :: "string \<Rightarrow> Issuer \<Rightarrow> string list" where
  "operatorsOf i db = (case dget (isInstitutions db) i of
     None \<Rightarrow> []
   | Some w \<Rightarrow> filter (\<lambda>u. memberPermits (iwState w) u ''institution.recover'') (map fst (irMembers (iwState w))))"

definition retryJob :: "int \<Rightarrow> OutboxRow \<Rightarrow> string \<Rightarrow> bool \<Rightarrow> string option \<Rightarrow> ('w Store, unit) eff" where
  "retryJob now j code permanent receiptBlock = sqlBegin (
     bindS (enterBackupWrite True) (\<lambda>_. sqlSet (\<lambda>db.
       let failed = (permanent \<or> obAttempts j \<ge> 12);
           settled = updateJob (holds now j) (\<lambda>k. k\<lparr> obStatus := (if failed then JobFailed else JobPending),
             obRetryAt := now + retryDelay (obAttempts j), obLeaseUntil := None, obClaim := None,
             obLastError := Some (jsSlice 100 code),
             obReceiptBlock := (case receiptBlock of Some b \<Rightarrow> Some b | None \<Rightarrow> obReceiptBlock k) \<rparr>) db in
       case selectOne (holds now j) (isOutbox db) of
         None \<Rightarrow> settled
       | Some row \<Rightarrow>
           if \<not> failed then settled
           else let told = fold (notify now (obInstitution j) (''worker:'' @ obId j @ '':'' @ decimalString (obAttempts j))
                             ''worker.requires-operator'') (operatorsOf (obInstitution j) settled) settled;
                    unsent = (obRaw row = None \<or> obRaw row = Some [] \<or> receiptBlock \<noteq> None) in
             if obKind j = ''institution.configure'' \<and> unsent then failConfiguration j code told
             else if obKind j = ''institution.register'' \<and> unsent
             then setRegistration (obInstitution j) (obObject j) RegistrationFailed told
             else told)))"

definition recordStage :: "string option \<Rightarrow> string \<Rightarrow> string option \<Rightarrow> ('w Store, unit) eff" where
  "recordStage scope stage code = (case scope of
     None \<Rightarrow> throwS (Error ''WORKER_INSTITUTION_SCOPE_REQUIRED'')
   | Some i \<Rightarrow> if i = [] then throwS (Error ''WORKER_INSTITUTION_SCOPE_REQUIRED'')
       else sqlSet (\<lambda>db. db\<lparr> isStages := ((i, stage), code) # filter (\<lambda>e. fst e \<noteq> (i, stage)) (isStages db) \<rparr>))"

definition cleanupJob :: "(OutboxRow \<Rightarrow> ('w Store, unit) eff) \<Rightarrow> int \<Rightarrow> OutboxRow \<Rightarrow> ('w Store, unit) eff" where
  "cleanupJob cleanup now j =
     bindS (sqlGet (\<lambda>db. if \<not> list_ex (holds now j) (isOutbox db) then Inl (Error ''CLAIM_LOST'') else Inr ())) (\<lambda>_. cleanup j)"

definition postgresWorker ::
    "string option \<Rightarrow> (OutboxRow \<Rightarrow> ('w Store, unit) eff) \<Rightarrow> string \<Rightarrow> string \<Rightarrow> int \<Rightarrow> ('w Store) WorkerStore" where
  "postgresWorker scope cleanup token owner now = \<lparr> wsClaim = claimJob scope token now, wsRecord = workerRecord scope,
     wsPersist = persistJob owner now, wsRenew = renewJob now, wsComplete = completeJob now, wsRetry = retryJob now,
     wsCleanup = cleanupJob cleanup now, wsRecordStage = Some (recordStage scope) \<rparr>"

end
