(* ===== verification/Worker_Ledger.thy ===== *)
theory Worker_Ledger
  imports Worker Governance
begin

text \<open>
  The ledger of the worker, \<^verbatim>\<open>services/api/src/worker-ledger.ts\<close>: which registry call a job stands for, how
  its transaction is built and signed, and the checks on a stored transaction before it is sent. The
  node (\<open>ChainNode\<close>) and viem's codecs (\<open>ChainCodec\<close>) are parameters. The values of a decoded call are
  hexadecimal texts, integers, structs and lists of signatures.
\<close>

section \<open>Node, codecs, configuration\<close>

datatype evmValue = EvHex string | EvUint int | EvStruct "(string \<times> evmValue) list" | EvSignatures "string list"

record WorkerCall =
  wcFunction :: string
  wcArgs :: "evmValue list"

record ParsedTransaction =
  ptChain :: int
  ptTo :: "string option"
  ptNonce :: int
  ptData :: "string option"

record ChainCodec =
  ccParse :: "string \<Rightarrow> ParsedTransaction option"
  ccSender :: "string \<Rightarrow> string option"
  ccHash :: "string \<Rightarrow> string"
  ccDecode :: "string \<Rightarrow> WorkerCall option"
  ccEncode :: "WorkerCall \<Rightarrow> string"
  ccSign :: "string \<Rightarrow> int \<Rightarrow> string \<Rightarrow> string \<Rightarrow> int \<Rightarrow> int \<times> int \<Rightarrow> string"

text \<open>\<^verbatim>\<open>TransactionReceiptNotFoundError\<close> is the answer \<open>None\<close> of \<open>cnReceipt\<close>.\<close>

record ('w) ChainNode =
  cnGenesis :: "('w, string option) eff"
  cnCode :: "('w, string option) eff"
  cnChainId :: "('w, int) eff"
  cnProfile :: "('w, string) eff"
  cnCount :: "string \<Rightarrow> ('w, int) eff"
  cnFees :: "string \<Rightarrow> string \<Rightarrow> int \<Rightarrow> ('w, int \<times> int) eff"
  cnSend :: "string \<Rightarrow> ('w, string) eff"
  cnReceipt :: "string \<Rightarrow> ('w, (string \<times> bool) option) eff"

record WorkerConfig =
  wfNetwork :: int
  wfGenesis :: string
  wfRegistry :: string
  wfCodeHash :: string
  wfAdministrator :: string
  wfStopper :: string
  wfApprovers :: "string list"

section \<open>The call a job stands for\<close>

definition jobFunctions :: "(string \<times> string) list" where
  "jobFunctions = [(''institution.configure'', ''updateConfiguration''), (''institution.register'', ''registerInstitution''),
     (''institution.recover'', ''recoverInstitution''), (''institution.suspend'', ''suspendInstitution''),
     (''credential.register'', ''grantDelegation''), (''credential.revoke'', ''revokeDelegation'')]"

definition callMismatch :: js_error where
  "callMismatch = PermanentJobError ''STORED_TRANSACTION_CALL_MISMATCH'' None"

definition argument :: "WorkerCall \<Rightarrow> nat \<Rightarrow> evmValue option" where
  "argument c n = (if n < length (wcArgs c) then Some (wcArgs c ! n) else None)"

text \<open>\<^verbatim>\<open>String(v)\<close>, for the decoded members and for those of the stored request, which are texts.\<close>

definition valueText :: "evmValue option \<Rightarrow> string" where
  "valueText v = (case v of Some (EvHex s) \<Rightarrow> s | Some (EvUint n) \<Rightarrow> intText n | None \<Rightarrow> ''undefined''
     | Some _ \<Rightarrow> ''[object Object]'')"

definition memberText :: "json \<Rightarrow> string" where
  "memberText v = (case v of JStr s \<Rightarrow> s | JNum n \<Rightarrow> intText n | JBool b \<Rightarrow> (if b then ''true'' else ''false'')
     | JNull \<Rightarrow> ''null'' | _ \<Rightarrow> ''[object Object]'')"

definition signatureTexts :: "json list \<Rightarrow> string list option" where
  "signatureTexts vs = (if list_all (\<lambda>v. case v of JStr _ \<Rightarrow> True | _ \<Rightarrow> False) vs
     then Some (map (\<lambda>v. case v of JStr s \<Rightarrow> s | _ \<Rightarrow> []) vs) else None)"

definition requestMismatch :: "(string \<times> evmValue) list \<Rightarrow> string \<Rightarrow> evmValue option \<Rightarrow> json \<Rightarrow> bool" where
  "requestMismatch decoded institution sgs payload \<longleftrightarrow>
     (case (jget payload ''request'', jget payload ''signatures'') of
        (Some (JObj request), Some (JArr given)) \<Rightarrow>
          map_of decoded ''institutionId'' \<noteq> Some (EvHex institution) \<or>
          list_ex (\<lambda>(k, v). toLowerCase (valueText (map_of decoded k)) \<noteq> toLowerCase (memberText v)) request \<or>
          (case (sgs, signatureTexts given) of
             (Some (EvSignatures ss), Some ts) \<Rightarrow> map toLowerCase ss \<noteq> map toLowerCase ts | _ \<Rightarrow> True)
      | _ \<Rightarrow> True)"

definition assertWorkerCalldata :: "lib \<Rightarrow> ChainCodec \<Rightarrow> string option \<Rightarrow> OutboxRow \<Rightarrow> unit result" where
  "assertWorkerCalldata L K data j =
     bindE (ofOption callMismatch data) (\<lambda>d.
     if d = [] then Inl callMismatch
     else bindE (ofOption LibraryError (ccDecode K d)) (\<lambda>c.
       let expected = map_of jobFunctions (obKind j); institution = keccak256 L (obInstitution j);
           object = Some (EvHex (keccak256 L (obObject j))) in
       if expected \<noteq> Some (wcFunction c) then Inl callMismatch
       else if wcFunction c \<in> {''grantDelegation'', ''revokeDelegation''} then
         (if argument c 0 \<noteq> object \<or> (wcFunction c = ''grantDelegation'' \<and>
               (argument c 1 \<noteq> Some (EvHex institution) \<or> argument c 4 \<noteq> Some (EvUint 4)))
          then Inl callMismatch else Inr ())
       else if wcFunction c = ''suspendInstitution'' then
         (if argument c 0 \<noteq> Some (EvHex institution) then Inl callMismatch else Inr ())
       else (case argument c 0 of
           Some (EvStruct decoded) \<Rightarrow>
             if requestMismatch decoded institution (argument c 1) (obPayload j) then Inl callMismatch else Inr ()
         | _ \<Rightarrow> Inl callMismatch)))"

section \<open>Checks on the deployment and on a stored transaction\<close>

definition accountFor :: "WorkerConfig \<Rightarrow> OutboxRow \<Rightarrow> string" where
  "accountFor cfg j = (if obKind j = ''institution.suspend'' then wfStopper cfg else wfAdministrator cfg)"

definition deploymentMismatch :: "ChainCodec \<Rightarrow> WorkerConfig \<Rightarrow> string option \<Rightarrow> string option \<Rightarrow> int \<Rightarrow> bool" where
  "deploymentMismatch K cfg genesis code cid \<longleftrightarrow>
     cid \<noteq> wfNetwork cfg \<or> map_option toLowerCase genesis \<noteq> Some (toLowerCase (wfGenesis cfg)) \<or>
     (case code of None \<Rightarrow> True | Some c \<Rightarrow> c = [] \<or> ccHash K c \<noteq> wfCodeHash cfg)"

definition assertDeployment :: "ChainCodec \<Rightarrow> WorkerConfig \<Rightarrow> ('w) ChainNode \<Rightarrow> ('w, unit) eff" where
  "assertDeployment K cfg N =
     bindS (cnGenesis N) (\<lambda>genesis. bindS (cnCode N) (\<lambda>code. bindS (cnChainId N) (\<lambda>cid.
     guardS (deploymentMismatch K cfg genesis code cid) (PermanentJobError ''LEDGER_DEPLOYMENT_MISMATCH'' None))))"

text \<open>\<^verbatim>\<open>/^0x(?:[0-9a-fA-F]{2})+$/\<close>\<close>

definition isRawTransaction :: "string \<Rightarrow> bool" where
  "isRawTransaction s \<longleftrightarrow> take 2 s = ''0x'' \<and> 2 < length s \<and> even (length s) \<and> allIn anyHexChars (drop 2 s)"

definition storedContextInvalid :: "ChainCodec \<Rightarrow> WorkerConfig \<Rightarrow> OutboxRow \<Rightarrow> SignedTransaction \<Rightarrow> ParsedTransaction \<Rightarrow> string \<Rightarrow> bool" where
  "storedContextInvalid K cfg j t p sender \<longleftrightarrow>
     ccHash K (stRaw t) \<noteq> stHash t \<or> ptChain p \<noteq> wfNetwork cfg \<or>
     map_option toLowerCase (ptTo p) \<noteq> Some (toLowerCase (wfRegistry cfg)) \<or> intText (ptNonce p) \<noteq> stNonce t \<or>
     toLowerCase sender \<noteq> toLowerCase (stSigner t) \<or> toLowerCase (stSigner t) \<noteq> toLowerCase (accountFor cfg j)"

definition validateStored :: "lib \<Rightarrow> ChainCodec \<Rightarrow> WorkerConfig \<Rightarrow> ('w) ChainNode \<Rightarrow> SignedTransaction \<Rightarrow> OutboxRow \<Rightarrow> ('w, unit) eff" where
  "validateStored L K cfg N t j =
     bindS (guardS (\<not> isRawTransaction (stRaw t)) (PermanentJobError ''STORED_TRANSACTION_INVALID'' None)) (\<lambda>_.
     bindS (liftE (ofOption LibraryError (ccParse K (stRaw t)))) (\<lambda>p.
     bindS (liftE (ofOption LibraryError (ccSender K (stRaw t)))) (\<lambda>sender.
     bindS (guardS (storedContextInvalid K cfg j t p sender)
              (PermanentJobError ''STORED_TRANSACTION_CONTEXT_INVALID'' None)) (\<lambda>_.
     bindS (liftE (assertWorkerCalldata L K (ptData p) j)) (\<lambda>_. assertDeployment K cfg N)))))"

section \<open>Building the call\<close>

definition quorumPayload :: "schema \<Rightarrow> schema" where
  "quorumPayload request = zObject
     [(''request'', request), (''signatures'', zArray 2 3 (zString (\<lambda>s. length s = 132 \<and> take 2 s = ''0x'' \<and>
        allIn anyHexChars (drop 2 s))))] []"

definition payloadSignatures :: "json \<Rightarrow> string list" where
  "payloadSignatures b = map (\<lambda>v. case v of JStr s \<Rightarrow> s | _ \<Rightarrow> []) (jarr b ''signatures'')"

definition hexMember :: "json \<Rightarrow> string \<Rightarrow> string \<times> evmValue" where
  "hexMember r k = (k, EvHex (jstr r k))"

definition uintMember :: "json \<Rightarrow> string \<Rightarrow> string \<times> evmValue" where
  "uintMember r k = (k, EvUint (bigInt (jstr r k)))"

definition quorumCall :: "string \<Rightarrow> (string \<times> evmValue) list \<Rightarrow> json \<Rightarrow> WorkerCall" where
  "quorumCall name members b = \<lparr> wcFunction = name, wcArgs = [EvStruct members, EvSignatures (payloadSignatures b)] \<rparr>"

definition registrationCall ::
    "lib \<Rightarrow> recoverAddress \<Rightarrow> WorkerConfig \<Rightarrow> int \<Rightarrow> OutboxRow \<Rightarrow> InstitutionRecord \<Rightarrow> WorkerCall result" where
  "registrationCall L recover cfg now j r =
     bindE (parseWith (quorumPayload registrationSchema) (obPayload j)) (\<lambda>b.
     let q = jobj b ''request'' in
     if irRegistrationOperation r \<noteq> Some (obObject j) then Inl (PermanentJobError ''REGISTRATION_SUPERSEDED'' None)
     else bindE (rawKey (irPublicKey r)) (\<lambda>key.
       if toLowerCase (jstr q ''institutionId'') \<noteq> toLowerCase (keccak256 L (irId r)) \<or>
          toLowerCase (jstr q ''approvalPublicKey'') \<noteq> key
       then Inl (PermanentJobError ''REGISTRATION_CONTEXT_MISMATCH'' None)
       else bindE (verifyRegistrationApprovers L recover (wfNetwork cfg) (wfRegistry cfg) q (payloadSignatures b)
                (wfApprovers cfg) now) (\<lambda>_.
         Inr (quorumCall ''registerInstitution'' [hexMember q ''institutionId'', hexMember q ''administrator'',
           hexMember q ''approvalPublicKey'', hexMember q ''emergencyStopper'', hexMember q ''directoryHash'',
           uintMember q ''directoryVersion'', uintMember q ''policyVersion'', hexMember q ''nonce'', uintMember q ''deadline''] b))))"

definition configurationCall ::
    "lib \<Rightarrow> recoverAddress \<Rightarrow> WorkerConfig \<Rightarrow> int \<Rightarrow> OutboxRow \<Rightarrow> InstitutionRecord \<Rightarrow> WorkerCall result" where
  "configurationCall L recover cfg now j r =
     bindE (parseWith (quorumPayload configurationSchema) (obPayload j)) (\<lambda>b.
     case dget (irProposals r) (obObject j) of
       None \<Rightarrow> Inl (PermanentJobError ''CONFIGURATION_NOT_SUBMITTED'' None)
     | Some p \<Rightarrow>
         if cpStatus p \<noteq> Submitted then Inl (PermanentJobError ''CONFIGURATION_NOT_SUBMITTED'' None)
         else let q = jobj b ''request'' in
           bindE (assertConfiguration L r q (cpContents p)) (\<lambda>_.
           bindE (configurationSigners recover (wfNetwork cfg) (wfRegistry cfg) q (payloadSignatures b) (wfApprovers cfg) now False) (\<lambda>_.
           Inr (quorumCall ''updateConfiguration''
             (map (\<lambda>(k, _). if k \<in> set uint64Fields then uintMember q k else hexMember q k) configurationFields) b))))"

text \<open>\<^verbatim>\<open>BigInt(Date.parse(d)/1000)\<close> throws on a date with a fraction of a second.\<close>

definition wholeSeconds :: "string \<Rightarrow> int result" where
  "wholeSeconds d = (if dateParse d mod 1000 \<noteq> 0 then Inl LibraryError else Inr (dateParse d div 1000))"

definition jobCredential :: "OutboxRow \<Rightarrow> InstitutionRecord \<Rightarrow> ServiceDelegation option" where
  "jobCredential j r = Option.bind (irService r) (\<lambda>s. dget (ssCredentials s) (obObject j))"

definition grantCall :: "lib \<Rightarrow> OutboxRow \<Rightarrow> InstitutionRecord \<Rightarrow> WorkerCall result" where
  "grantCall L j r = (case jobCredential j r of
     None \<Rightarrow> Inl (PermanentJobError ''DELEGATION_NO_LONGER_ISSUABLE'' None)
   | Some c \<Rightarrow>
       if sdState c \<noteq> CredentialPending \<or> \<not> isStr (jobj (sdVc c) ''credentialStatus'') ''epoch'' (irEpoch r) \<or>
          irStatus r \<noteq> InstitutionActive
       then Inl (PermanentJobError ''DELEGATION_NO_LONGER_ISSUABLE'' None)
       else bindE (rawKey (jobj (jobj (sdVc c) ''credentialSubject'') ''publicKey'')) (\<lambda>key.
         bindE (wholeSeconds (jstr (sdVc c) ''validFrom'')) (\<lambda>from.
         bindE (wholeSeconds (jstr (sdVc c) ''validUntil'')) (\<lambda>until.
         Inr \<lparr> wcFunction = ''grantDelegation'', wcArgs = [EvHex (keccak256 L (obObject j)), EvHex (keccak256 L (irId r)),
               EvUint (bigInt (irEpoch r)), EvHex key, EvUint 4, EvUint from, EvUint until] \<rparr>))))"

definition revocationCall :: "lib \<Rightarrow> OutboxRow \<Rightarrow> InstitutionRecord \<Rightarrow> WorkerCall result" where
  "revocationCall L j r = (case jobCredential j r of
     None \<Rightarrow> Inl (PermanentJobError ''DELEGATION_NOT_FOUND'' None)
   | Some c \<Rightarrow> Inr \<lparr> wcFunction = ''revokeDelegation'', wcArgs = [EvHex (keccak256 L (obObject j)),
       EvUint (bigInt (jstr (jobj (sdVc c) ''credentialStatus'') ''epoch''))] \<rparr>)"

definition recoveryCall ::
    "lib \<Rightarrow> recoverAddress \<Rightarrow> WorkerConfig \<Rightarrow> int \<Rightarrow> OutboxRow \<Rightarrow> InstitutionRecord \<Rightarrow> WorkerCall result" where
  "recoveryCall L recover cfg now j r =
     bindE (parseWith (quorumPayload recoveryV2Schema) (obPayload j)) (\<lambda>b.
     let q = jobj b ''request'' in
     if toLowerCase (jstr q ''institutionId'') \<noteq> toLowerCase (keccak256 L (irId r)) \<or>
        \<not> isStr q ''expectedEpoch'' (case irObservedEpoch r of Some e \<Rightarrow> e | None \<Rightarrow> irEpoch r)
     then Inl (PermanentJobError ''RECOVERY_INSTITUTION_OR_EPOCH_MISMATCH'' None)
     else bindE (verifyRecoveryApprovers recover (wfNetwork cfg) (wfRegistry cfg) q (payloadSignatures b) (wfApprovers cfg) now) (\<lambda>_.
       Inr (quorumCall ''recoverInstitution'' [hexMember q ''institutionId'', uintMember q ''expectedEpoch'',
         hexMember q ''newAdministrator'', hexMember q ''newApprovalPublicKey'', hexMember q ''newEmergencyStopper'',
         hexMember q ''nonce'', uintMember q ''deadline''] b)))"

definition jobCall ::
    "lib \<Rightarrow> recoverAddress \<Rightarrow> WorkerConfig \<Rightarrow> int \<Rightarrow> OutboxRow \<Rightarrow> InstitutionRecord \<Rightarrow> WorkerCall result" where
  "jobCall L recover cfg now j r =
     (if obKind j = ''institution.register'' then registrationCall L recover cfg now j r
      else if obKind j = ''institution.configure'' then configurationCall L recover cfg now j r
      else if obKind j = ''credential.register'' then grantCall L j r
      else if obKind j = ''credential.revoke'' then revocationCall L j r
      else if obKind j = ''institution.suspend'' then
        Inr \<lparr> wcFunction = ''suspendInstitution'', wcArgs = [EvHex (keccak256 L (irId r)), EvUint (bigInt (irEpoch r))] \<rparr>
      else recoveryCall L recover cfg now j r)"

section \<open>The ledger\<close>

definition prepareTransaction ::
    "lib \<Rightarrow> recoverAddress \<Rightarrow> ChainCodec \<Rightarrow> WorkerConfig \<Rightarrow> ('w) ChainNode \<Rightarrow> int \<Rightarrow> OutboxRow \<Rightarrow> InstitutionRecord \<Rightarrow> nat
       \<Rightarrow> ('w, SignedTransaction) eff" where
  "prepareTransaction L recover K cfg N now j r minimum =
     bindS (assertDeployment K cfg N) (\<lambda>_.
     bindS (cnProfile N) (\<lambda>profile.
     bindS (guardS (profile \<noteq> keccak256 L ''CALLSIGN_SERVICE_JOINT_CONFIGURATION_1'')
              (PermanentJobError ''SERVICE_REGISTRY_PROFILE_REQUIRED'' None)) (\<lambda>_.
     bindS (liftE (jobCall L recover cfg now j r)) (\<lambda>c.
     let data = ccEncode K c; account = accountFor cfg j in
     bindS (cnCount N account) (\<lambda>pending.
     let nonce = max pending (int minimum) in
     bindS (guardS (\<not> isSafeInteger nonce) (PermanentJobError ''NONCE_OVERFLOW'' None)) (\<lambda>_.
     bindS (cnFees N account data nonce) (\<lambda>fees.
     let raw = ccSign K account (wfNetwork cfg) (wfRegistry cfg) data nonce fees in
     returnS \<lparr> stRaw = raw, stHash = ccHash K raw, stSigner = account, stNonce = intText nonce \<rparr>)))))))"

text \<open>A failed broadcast is forgiven when the receipt of the stored hash is there.\<close>

definition broadcastTransaction :: "('w) ChainNode \<Rightarrow> SignedTransaction \<Rightarrow> ('w, unit) eff" where
  "broadcastTransaction N t =
     catchS (bindS (cnSend N (stRaw t)) (\<lambda>hash. guardS (hash \<noteq> stHash t) (Error ''TRANSACTION_HASH_MISMATCH'')))
       (\<lambda>e. bindS (cnReceipt N (stHash t)) (\<lambda>receipt. if receipt = None then throwS e else returnS ()))"

definition workerLedger ::
    "lib \<Rightarrow> recoverAddress \<Rightarrow> ChainCodec \<Rightarrow> WorkerConfig \<Rightarrow> ('w) ChainNode \<Rightarrow> int \<Rightarrow> ('w Store) WorkerLedger" where
  "workerLedger L recover K cfg N now = \<lparr> wlSigner = (\<lambda>j. Inr (accountFor cfg j)),
     wlValidate = (\<lambda>t j. remote (validateStored L K cfg N t j)),
     wlPrepare = (\<lambda>j r minimum. remote (prepareTransaction L recover K cfg N now j r minimum)),
     wlBroadcast = (\<lambda>t. remote (broadcastTransaction N t)),
     wlReceipt = (\<lambda>h. remote (cnReceipt N h)) \<rparr>"

end
