(* ===== verification/Worker_Logic.thy ===== *)
theory Worker_Logic
  imports Worker_Ledger Store_Logic
begin

text \<open>
  The life of a claimed job. Between the claim and its end only the row of the job changes, and that row
  stays held (\<open>heldDb\<close>); a transaction is written into it once, with a nonce above every nonce of its
  signer (\<open>wrote\<close>); and the job always ends done, failed, or pending with an attempt to spare (\<open>endedRow\<close>).
  The locale \<open>worker_chain\<close> is the interface to the ledger and to the cleanup: they leave the tables alone.
\<close>

section \<open>Rows of a claimed job\<close>

definition txOf :: "OutboxRow \<Rightarrow> string option \<times> string option \<times> string option \<times> nat option" where
  "txOf k = (obRaw k, obHash k, obSigner k, obNonce k)"

definition sameTx :: "OutboxRow \<Rightarrow> OutboxRow \<Rightarrow> bool" where
  "sameTx k0 k \<longleftrightarrow> txOf k = txOf k0"

definition wrote :: "Issuer \<Rightarrow> OutboxRow \<Rightarrow> OutboxRow \<Rightarrow> bool" where
  "wrote db0 k0 k \<longleftrightarrow> sameTx k0 k \<or> (obRaw k0 = None \<and> obRaw k \<noteq> None \<and>
     (\<exists>sg n. obSigner k = Some sg \<and> obNonce k = Some n \<and> minimumNonce sg db0 \<le> n))"

definition onlyRow :: "string \<Rightarrow> (OutboxRow \<Rightarrow> OutboxRow \<Rightarrow> bool) \<Rightarrow> OutboxRow \<Rightarrow> OutboxRow \<Rightarrow> bool" where
  "onlyRow i P k0 k \<longleftrightarrow> obId k = obId k0 \<and> (if obId k0 = i then P k0 k else k = k0)"

definition changes :: "string \<Rightarrow> (OutboxRow \<Rightarrow> OutboxRow \<Rightarrow> bool) \<Rightarrow> Issuer \<Rightarrow> Issuer \<Rightarrow> bool" where
  "changes i P db0 db \<longleftrightarrow> isPhase db = isPhase db0 \<and> isBackupHolds db = isBackupHolds db0 \<and>
     list_all2 (onlyRow i P) (isOutbox db0) (isOutbox db)"

definition held :: "int \<Rightarrow> OutboxRow \<Rightarrow> OutboxRow \<Rightarrow> bool" where
  "held now j k \<longleftrightarrow> obStatus k = JobProcessing \<and> obClaim k = obClaim j \<and> obClaim j \<noteq> None \<and>
     (\<exists>l. obLeaseUntil k = Some l \<and> now < l) \<and> obAttempts k = obAttempts j"

abbreviation heldDb :: "int \<Rightarrow> OutboxRow \<Rightarrow> (OutboxRow \<Rightarrow> OutboxRow \<Rightarrow> bool) \<Rightarrow> Issuer \<Rightarrow> Issuer \<Rightarrow> bool" where
  "heldDb now j T \<equiv> changes (obId j) (\<lambda>k0 k. held now j k \<and> T k0 k)"

definition ended :: "OutboxRow \<Rightarrow> OutboxRow \<Rightarrow> bool" where
  "ended j k \<longleftrightarrow> obAttempts k = obAttempts j \<and>
     (obStatus k = JobDone \<or> obStatus k = JobFailed \<or> (obStatus k = JobPending \<and> obAttempts j < 12))"

abbreviation endedDb :: "OutboxRow \<Rightarrow> (OutboxRow \<Rightarrow> OutboxRow \<Rightarrow> bool) \<Rightarrow> Issuer \<Rightarrow> Issuer \<Rightarrow> bool" where
  "endedDb j T \<equiv> changes (obId j) (\<lambda>k0 k. ended j k \<and> T k0 k)"

lemma changes_mono:
  "changes i P db0 db \<Longrightarrow> (\<And>k0 k. P k0 k \<Longrightarrow> Q k0 k) \<Longrightarrow> changes i Q db0 db"
  unfolding changes_def by (auto elim!: list_all2_mono simp: onlyRow_def split: if_splits)

lemma changes_frame:
  "changes i P db0 db \<Longrightarrow> isPhase db' = isPhase db \<Longrightarrow> isBackupHolds db' = isBackupHolds db \<Longrightarrow>
     isOutbox db' = isOutbox db \<Longrightarrow> changes i P db0 db'"
  by (simp add: changes_def)

text \<open>An update that reaches only rows of the job turns one relation into another.\<close>

lemma changes_update:
  assumes "changes i P db0 db" "\<And>k. p k \<Longrightarrow> obId k = i" "\<And>k. obId (f k) = obId k"
    and "\<And>k0 k. P k0 k \<Longrightarrow> obId k0 = i \<Longrightarrow> obId k = i \<Longrightarrow> k \<in> set (isOutbox db) \<Longrightarrow> Q k0 (if p k then f k else k)"
  shows "changes i Q db0 (updateJob p f db)"
proof -
  from assms(1) have rows: "list_all2 (onlyRow i P) (isOutbox db0) (isOutbox db)" by (simp add: changes_def)
  have "list_all2 (onlyRow i Q) xs (updateWhere p f ys)"
    if "list_all2 (onlyRow i P) xs ys" "set ys \<subseteq> set (isOutbox db)" for xs ys
    using that
  proof (induction rule: list_all2_induct)
    case (Cons x xs y ys)
    then show ?case using assms(2,3) assms(4) [of x y]
      by (auto simp: updateWhere_def onlyRow_def split: if_splits)
  qed (simp add: updateWhere_def)
  with rows assms(1) show ?thesis by (simp add: changes_def updateJob_def)
qed

lemma minimumNonce_same:
  assumes "changes i (\<lambda>k0 k. P k0 k \<and> sameTx k0 k) db0 db"
  shows "minimumNonce sg db = minimumNonce sg db0"
proof -
  let ?f = "\<lambda>k. if obSigner k = Some sg then (case obNonce k of Some n \<Rightarrow> [n] | None \<Rightarrow> []) else []"
  have "list_all2 (\<lambda>k0 k. ?f k0 = ?f k) (isOutbox db0) (isOutbox db)"
    using assms unfolding changes_def
    by (auto elim!: list_all2_mono simp: onlyRow_def sameTx_def txOf_def split: if_splits)
  then have "map ?f (isOutbox db0) = map ?f (isOutbox db)"
    by (induction rule: list_all2_induct) simp_all
  then show ?thesis by (simp add: minimumNonce_def)
qed

lemma held_row:
  assumes "changes (obId j) (\<lambda>k0 k. held now j k \<and> T k0 k) db0 db" "j0 \<in> set (isOutbox db0)" "obId j0 = obId j"
  shows "\<exists>k \<in> set (isOutbox db). holds now j k"
proof -
  from assms obtain n where n: "n < length (isOutbox db0)" "isOutbox db0 ! n = j0" by (auto simp: in_set_conv_nth)
  with assms have "onlyRow (obId j) (\<lambda>k0 k. held now j k \<and> T k0 k) j0 (isOutbox db ! n)" "n < length (isOutbox db)"
    by (auto simp: changes_def dest: list_all2_nthD list_all2_lengthD)
  with assms(3) have "holds now j (isOutbox db ! n)" by (auto simp: onlyRow_def held_def holds_def)
  with \<open>n < length (isOutbox db)\<close> show ?thesis by (meson nth_mem)
qed

section \<open>Operations of the store\<close>

lemma wp_catchS [wp_simps]: "wp (catchS m h) Q E s = wp m Q (\<lambda>e. wp (h e) Q E) s"
  by (simp add: wp_def catchS_def split: prod.splits sum.splits)

lemma wp_finallyS [wp_simps]:
  "wp (finallyS m c) Q E s = wp m (\<lambda>v s'. Q v (snd (c s'))) (\<lambda>e s'. E e (snd (c s'))) s"
  by (simp add: wp_def finallyS_def split: prod.splits sum.splits)

lemma wp_neutral:
  "stDb (snd (m s)) = stDb s \<Longrightarrow> (\<And>v s'. stDb s' = stDb s \<Longrightarrow> Q v s') \<Longrightarrow> (\<And>e s'. stDb s' = stDb s \<Longrightarrow> E e s') \<Longrightarrow> wp m Q E s"
  by (auto simp: wp_def split: prod.splits sum.splits)

lemma bindS_sqlGet: "bindS (sqlGet f) g s = (case f (stDb s) of Inl e \<Rightarrow> (Inl e, s) | Inr v \<Rightarrow> g v s)"
  by (simp add: bindS_def sqlGet_def sql_def split: sum.splits)

lemma bindS_cong_wp: "wp m (\<lambda>v s'. f v s' = g v s') (\<lambda>_ _. True) s \<Longrightarrow> bindS m f s = bindS m g s"
  by (simp add: bindS_def wp_def split: prod.splits sum.splits)

definition inOutbox :: "SignedTransaction \<Rightarrow> Issuer \<Rightarrow> bool" where
  "inOutbox t db \<longleftrightarrow> (\<exists>k \<in> set (isOutbox db). obRaw k = Some (stRaw t))"

lemma held_renew:
  "heldDb now j T db0 (stDb s) \<Longrightarrow> (\<And>k0 k l. T k0 (k\<lparr> obLeaseUntil := l \<rparr>) = T k0 k) \<Longrightarrow>
     wp (renewJob now j) (\<lambda>_ s'. heldDb now j T db0 (stDb s')) E s"
  unfolding renewJob_def Let_def wp_simps
  by (auto intro!: changes_update simp: holds_def held_def)

lemma inOutbox_updateJob:
  "k \<in> set (isOutbox db) \<Longrightarrow> obRaw (if p k then f k else k) = Some (stRaw t) \<Longrightarrow> inOutbox t (updateJob p f db)"
  unfolding inOutbox_def updateJob_def by (auto simp: updateWhere_in intro!: bexI)

lemma renew_keeps_stored: "inOutbox t (stDb s) \<Longrightarrow> wp (renewJob now j) (\<lambda>_ s'. inOutbox t (stDb s')) E s"
  unfolding renewJob_def Let_def wp_simps
  by (auto simp: inOutbox_def [of t "stDb s"] intro: inOutbox_updateJob)

lemma wrote_lease [simp]:
  "sameTx k0 (k\<lparr> obLeaseUntil := l \<rparr>) = sameTx k0 k" "wrote db0 k0 (k\<lparr> obLeaseUntil := l \<rparr>) = wrote db0 k0 k"
  by (simp_all add: sameTx_def wrote_def txOf_def)

lemma same_wrote: "heldDb now j sameTx db0 db \<Longrightarrow> heldDb now j (wrote db0) db0 db"
  by (erule changes_mono) (simp add: wrote_def)

lemma release_db: "stDb (snd (releaseLease sg owner s)) =
    (stDb s)\<lparr> isLeases := filter (\<lambda>l. \<not> (slSigner l = sg \<and> slOwner l = owner)) (isLeases (stDb s)) \<rparr>"
  by (simp add: releaseLease_def sqlSet_def sql_def)

lemma held_release: "heldDb now j T db0 (stDb s) \<Longrightarrow> heldDb now j T db0 (stDb (snd (releaseLease sg owner s)))"
  by (erule changes_frame) (simp_all add: release_db)

lemma stored_release: "inOutbox t (stDb (snd (releaseLease sg owner s))) = inOutbox t (stDb s)"
  by (simp add: release_db inOutbox_def)

lemma acquire_keeps:
  "wp (acquireLease sg owner now) (\<lambda>_ s'. isPhase (stDb s') = isPhase (stDb s) \<and> isBackupHolds (stDb s') = isBackupHolds (stDb s) \<and>
      isOutbox (stDb s') = isOutbox (stDb s)) (\<lambda>_ s'. stDb s' = stDb s) s"
  unfolding acquireLease_def wp_simps by (auto split: option.splits)

lemma store_transaction:
  assumes held: "heldDb now j sameTx db0 (stDb s)" and m: "minimumNonce sg db0 \<le> nat (bigInt (stNonce t))"
  shows "wp (storeTransaction sg owner now j t) (\<lambda>_ s'. heldDb now j (wrote db0) db0 (stDb s') \<and> inOutbox t (stDb s'))
     (\<lambda>_ s'. heldDb now j (wrote db0) db0 (stDb s')) s"
proof -
  let ?p = "\<lambda>k. holds now j k \<and> obRaw k = None \<and> gateReady (obInstitution k) (stDb s)"
  let ?f = "\<lambda>k. k\<lparr> obRaw := Some (stRaw t), obHash := Some (stHash t), obSigner := Some sg, obNonce := Some (nat (bigInt (stNonce t))) \<rparr>"
  have "heldDb now j (wrote db0) db0 (updateJob ?p ?f (stDb s))"
    by (rule changes_update [OF held])
      (use m in \<open>auto simp: holds_def held_def wrote_def sameTx_def txOf_def split: if_splits\<close>)
  moreover have "inOutbox t (updateJob ?p ?f (stDb s))" if "list_ex ?p (isOutbox (stDb s))"
    using that by (auto simp: list_ex_iff intro: inOutbox_updateJob)
  ultimately show ?thesis
    using same_wrote [OF held] unfolding storeTransaction_def Let_def wp_simps by auto
qed

lemma persist_writes:
  fixes s :: "'w Store"
  assumes held: "heldDb now j sameTx db0 (stDb s)" and prep: "\<And>n s. stDb (snd (prep n s)) = stDb s"
  shows "wp (persistJob owner now j signer prep)
     (\<lambda>t s'. heldDb now j (wrote db0) db0 (stDb s') \<and> inOutbox t (stDb s')) (\<lambda>_ s'. heldDb now j (wrote db0) db0 (stDb s')) s"
proof -
  let ?sg = "toLowerCase signer"
  let ?Q = "\<lambda>t s'. heldDb now j (wrote db0) db0 (stDb s') \<and> inOutbox t (stDb s')"
  let ?E = "\<lambda>_ s'. heldDb now j (wrote db0) db0 (stDb s')"
  have new: "wp (bindS (prep (minimumNonce ?sg (stDb s1))) (\<lambda>signed.
       bindS (guardS (preparedMismatch ?sg (minimumNonce ?sg (stDb s1)) signed) (PermanentJobError c None)) (\<lambda>_.
       bindS (storeTransaction ?sg owner now j signed) (\<lambda>_. returnS signed)))) ?Q ?E s1"
    if h: "heldDb now j sameTx db0 (stDb s1)" for s1 :: "'w Store" and c
    unfolding wp_bindS
  proof (rule wp_neutral [OF prep])
    fix v and s2 :: "'w Store" assume d: "stDb s2 = stDb s1"
    then have h2: "heldDb now j sameTx db0 (stDb s2)" using h by simp
    show "wp (guardS (preparedMismatch ?sg (minimumNonce ?sg (stDb s1)) v) (PermanentJobError c None))
      (\<lambda>va. wp (storeTransaction ?sg owner now j v) (\<lambda>va. wp (returnS v) ?Q ?E) ?E) ?E s2"
    proof (cases "preparedMismatch ?sg (minimumNonce ?sg (stDb s1)) v")
      case False
      then have "minimumNonce ?sg db0 \<le> nat (bigInt (stNonce v))"
        by (auto simp: preparedMismatch_def minimumNonce_same [OF h])
      from store_transaction [OF h2 this] False show ?thesis by (simp only: wp_guardS wp_basic if_False)
    qed (use same_wrote [OF h2] in \<open>simp add: wp_guardS\<close>)
  qed (use same_wrote [OF h] in simp)
  have body: "wp (prepareRow owner now j ?sg prep) ?Q ?E s1"
    if h: "heldDb now j sameTx db0 (stDb s1)" for s1
    unfolding prepareRow_def wp_bindS [where m = "sqlGet _"] wp_sqlGet
    using same_wrote [OF h] new [OF h]
    by (auto simp: claimedRow_def ofOption_def rowTransaction_def inOutbox_def wp_simps split: option.splits sum.splits
        dest!: selectOne_Some)
  show ?thesis
    unfolding persistJob_def Let_def wp_bindS [where m = "acquireLease _ _ _"] wp_finallyS
  proof (rule wp_mono [OF acquire_keeps])
    fix v and s1 :: "'w Store"
    assume "isPhase (stDb s1) = isPhase (stDb s) \<and> isBackupHolds (stDb s1) = isBackupHolds (stDb s) \<and>
      isOutbox (stDb s1) = isOutbox (stDb s)"
    then have "heldDb now j sameTx db0 (stDb s1)" by (blast intro: changes_frame [OF held])
    then show "wp (prepareRow owner now j ?sg prep)
        (\<lambda>v s'. ?Q v (snd (releaseLease ?sg owner s'))) (\<lambda>e s'. ?E e (snd (releaseLease ?sg owner s'))) s1"
      by (rule wp_mono [OF body]) (auto simp: stored_release intro: held_release)
  qed (use same_wrote [OF held] in simp)
qed

section \<open>The end of a job\<close>

lemma same_notices:
  "isOutbox (fold (notify now i n c) us db) = isOutbox db" "isPhase (fold (notify now i n c) us db) = isPhase db"
  "isBackupHolds (fold (notify now i n c) us db) = isBackupHolds db"
  by (induction us arbitrary: db) (simp_all add: notify_def)

lemma outbox_applyCompletion:
  assumes "applyCompletion now j row block db = Inr (u, db')"
  shows "isOutbox db' = isOutbox db" and "isPhase db' = isPhase db" and "isBackupHolds db' = isBackupHolds db"
proof -
  from assms have "isOutbox db' = isOutbox db \<and> isPhase db' = isPhase db \<and> isBackupHolds db' = isBackupHolds db"
    by (auto simp: applyCompletion_def setRegistration_def bumpState_def completeRecovery_def completeCleanup_def
        completeCredential_def setState_def bindE_def ofOption_def Let_def same_notices
        split: if_splits option.splits sum.splits prod.splits)
  then show "isOutbox db' = isOutbox db" and "isPhase db' = isPhase db" and "isBackupHolds db' = isBackupHolds db" by simp_all
qed

definition blind :: "(OutboxRow \<Rightarrow> OutboxRow \<Rightarrow> bool) \<Rightarrow> bool" where
  "blind T \<longleftrightarrow> (\<forall>k0 k k'. txOf k' = txOf k \<longrightarrow> T k0 k \<longrightarrow> T k0 k')"

lemma blind_wrote: "blind (wrote db0)"
  by (auto simp: blind_def wrote_def sameTx_def txOf_def)

lemma completed_job:
  assumes "heldDb now j T db0 (stDb s)" "blind T"
  shows "wp (completeJob now j block) (\<lambda>_ s'. endedDb j T db0 (stDb s')) (\<lambda>_ s'. heldDb now j T db0 (stDb s')) s"
proof -
  have "endedDb j T db0 (updateJob (\<lambda>k. obId k = obId j) (\<lambda>k. k\<lparr> obStatus := JobDone, obLeaseUntil := None, obClaim := None,
      obReceiptBlock := block, obLastError := None \<rparr>) db)"
    if "isOutbox db = isOutbox (stDb s)" "isPhase db = isPhase (stDb s)" "isBackupHolds db = isBackupHolds (stDb s)" for db
    by (rule changes_update [OF changes_frame [OF assms(1)]])
      (use that assms(2) in \<open>auto simp: ended_def held_def blind_def txOf_def\<close>)
  with assms(1) show ?thesis
    unfolding completeJob_def enterBackupWrite_def wp_simps ofOption_def
    by (auto split: option.splits sum.splits simp: outbox_applyCompletion)
qed

lemma retried_job:
  assumes "heldDb now j T db0 (stDb s)" "blind T" and rows: "\<exists>j0 \<in> set (isOutbox db0). obId j0 = obId j"
    and env: "fst (enterBackupWrite True s) = Inr ()"
  shows "wp (retryJob now j code permanent block) (\<lambda>_ s'. endedDb j T db0 (stDb s')) (\<lambda>_ _. False) s"
proof -
  let ?up = "updateJob (holds now j) (\<lambda>k. k\<lparr> obStatus := (if permanent \<or> obAttempts j \<ge> 12 then JobFailed else JobPending),
             obRetryAt := now + retryDelay (obAttempts j), obLeaseUntil := None, obClaim := None,
             obLastError := Some (jsSlice 100 code),
             obReceiptBlock := (case block of Some b \<Rightarrow> Some b | None \<Rightarrow> obReceiptBlock k) \<rparr>) (stDb s)"
  from rows obtain j0 where "j0 \<in> set (isOutbox db0)" "obId j0 = obId j" by blast
  from held_row [OF assms(1) this] have found: "selectOne (holds now j) (isOutbox (stDb s)) \<noteq> None"
    by (auto simp: selectOne_None)
  have up: "endedDb j T db0 ?up"
    by (rule changes_update [OF assms(1)]) (use assms(2) in \<open>auto simp: ended_def held_def holds_def blind_def txOf_def\<close>)
  have enter: "wp (enterBackupWrite True) Q E s = Q () s" for Q E
    using env by (auto simp: wp_def enterBackupWrite_def sqlGet_def sql_def split: if_splits)
  obtain row where row: "selectOne (holds now j) (isOutbox (stDb s)) = Some row" using found by blast
  show ?thesis
    unfolding retryJob_def wp_sqlBegin wp_bindS enter wp_sqlSet Let_def row option.case
    by (rule changes_frame [OF up])
      (simp_all add: failConfiguration_def setRegistration_def bumpState_def same_notices split: option.splits)
qed

section \<open>The claim\<close>

definition rowWork :: "OutboxRow \<Rightarrow> nat" where
  "rowWork k = (if obStatus k \<in> {JobDone, JobFailed} then 0 else max 1 (12 - obAttempts k))"

definition claimedRowOf :: "OutboxRow \<Rightarrow> OutboxRow \<Rightarrow> bool" where
  "claimedRowOf k0 k \<longleftrightarrow> sameTx k0 k \<and> obStatus k0 \<in> {JobPending, JobProcessing} \<and> obAttempts k = obAttempts k0 + 1"

definition movedRow :: "Issuer \<Rightarrow> OutboxRow \<Rightarrow> OutboxRow \<Rightarrow> bool" where
  "movedRow db0 k0 k \<longleftrightarrow> wrote db0 k0 k \<and> rowWork k < rowWork k0"

lemma claimed_then_ended:
  assumes "claimedRowOf k0 k1" "ended k1 k" "wrote db0 k1 k"
  shows "movedRow db0 k0 k"
  using assms by (auto simp: claimedRowOf_def ended_def movedRow_def wrote_def sameTx_def txOf_def rowWork_def)

lemma changes_trans:
  assumes "changes i P a b" "changes i Q b c" "\<And>x y z. obId y = i \<Longrightarrow> y \<in> set (isOutbox b) \<Longrightarrow> P x y \<Longrightarrow> Q y z \<Longrightarrow> R x z"
  shows "changes i R a c"
proof -
  have "list_all2 (onlyRow i R) xs zs"
    if "list_all2 (onlyRow i P) xs ys" "list_all2 (onlyRow i Q) ys zs" "set ys \<subseteq> set (isOutbox b)" for xs ys zs
    using that
  proof (induction arbitrary: zs rule: list_all2_induct)
    case (Cons x xs y ys)
    then obtain z zt where "zs = z # zt" "onlyRow i Q y z" "list_all2 (onlyRow i Q) ys zt" by (auto simp: list_all2_Cons1)
    with Cons assms(3) [of y x z] show ?case by (auto simp: onlyRow_def split: if_splits)
  qed simp
  with assms(1,2) show ?thesis by (auto simp: changes_def)
qed

lemma claim_idle:
  assumes "fst (claimJob scope token now s) = Inl e \<or> fst (claimJob scope token now s) = Inr None"
  shows "stDb (snd (claimJob scope token now s)) = stDb s"
  using assms
  by (auto simp: claimJob_def sqlBegin_def enterBackupWrite_def bindS_sqlGet sql_def split: option.splits sum.splits if_splits)

lemma enter_ready: "fst (enterBackupWrite True s) = Inr () \<longleftrightarrow>
    \<not> isBackupHolds (stDb s) \<and> isPhase (stDb s) \<noteq> None \<and> isPhase (stDb s) \<noteq> Some PhaseFenced"
  by (auto simp: enterBackupWrite_def sqlGet_def sql_def)

lemma oldest_in: "oldest js = Some j \<Longrightarrow> j \<in> set js"
  unfolding oldest_def by (metis (no_types, lifting) list.case_eq_if list.collapse list.set_intros(1) option.discI option.inject set_sort)

lemma claim_takes:
  assumes "claimJob scope token now s = (Inr (Some j), s1)" "distinct (map obId (isOutbox (stDb s)))"
  shows "heldDb now j sameTx (stDb s1) (stDb s1)" and "j \<in> set (isOutbox (stDb s1))"
    and "fst (enterBackupWrite True s1) = Inr ()" and "changes (obId j) (\<lambda>k0 k. claimedRowOf k0 k \<and> k = j) (stDb s) (stDb s1)"
proof -
  from assms(1) obtain j0 where j0: "oldest (filter (claimable scope now (stDb s)) (isOutbox (stDb s))) = Some j0"
    and j: "j = takeJob token now j0" and enter: "\<not> isBackupHolds (stDb s) \<and> isPhase (stDb s) \<noteq> None \<and> isPhase (stDb s) \<noteq> Some PhaseFenced"
    and db: "stDb s1 = updateJob (\<lambda>k. obId k = obId j0) (takeJob token now) (stDb s)"
    by (auto simp: claimJob_def sqlBegin_def enterBackupWrite_def bindS_sqlGet sql_def
        split: option.splits sum.splits if_splits)
  from j0 have in0: "j0 \<in> set (isOutbox (stDb s))" and able: "claimable scope now (stDb s) j0"
    using oldest_in [OF j0] by auto
  have unique: "k = j0" if "k \<in> set (isOutbox (stDb s))" "obId k = obId j0" for k
    using that in0 assms(2) by (auto simp: distinct_map dest: inj_onD)
  have refl: "changes i (\<lambda>k0 k. k = k0) d d" for i d
    by (simp add: changes_def onlyRow_def list.rel_refl)
  have [simp]: "obId (takeJob token now k) = obId k" for k by (simp add: takeJob_def)
  show "changes (obId j) (\<lambda>k0 k. claimedRowOf k0 k \<and> k = j) (stDb s) (stDb s1)"
    unfolding db
    by (rule changes_update [OF refl])
      (use able in \<open>auto simp: j claimedRowOf_def sameTx_def txOf_def claimable_def takeJob_def dest: unique\<close>)
  show "j \<in> set (isOutbox (stDb s1))"
    using in0 by (auto simp: db j updateJob_def updateWhere_in)
  show "fst (enterBackupWrite True s1) = Inr ()"
    using enter by (simp add: enter_ready db updateJob_def)
  have "k = j" if k: "k \<in> set (isOutbox (stDb s1))" "obId k = obId j" for k
  proof -
    from k(1) obtain q where q: "q \<in> set (isOutbox (stDb s))" "k = (if obId q = obId j0 then takeJob token now q else q)"
      by (auto simp: db updateJob_def updateWhere_in)
    with k(2) have "obId q = obId j0" by (auto simp: j split: if_splits)
    with q(2) unique [OF q(1)] show ?thesis by (simp add: j)
  qed
  moreover have "held now j j \<and> sameTx j j" by (simp add: held_def sameTx_def j takeJob_def)
  ultimately have "held now j k \<and> sameTx k k" if "k \<in> set (isOutbox (stDb s1))" "obId k = obId j" for k
    using that by blast
  then show "heldDb now j sameTx (stDb s1) (stDb s1)"
    by (auto simp: changes_def onlyRow_def intro!: list.rel_refl_strong)
qed

lemma minimumNonce_claim:
  assumes "changes i (\<lambda>k0 k. claimedRowOf k0 k \<and> k = j) db0 db"
  shows "minimumNonce sg db = minimumNonce sg db0"
  by (rule minimumNonce_same [where P = "\<lambda>_ _. True"]) (rule changes_mono [OF assms], simp add: claimedRowOf_def)

lemma wrote_claim: "changes i (\<lambda>k0 k. claimedRowOf k0 k \<and> k = j) db0 db \<Longrightarrow> wrote db = wrote db0"
  by (simp add: fun_eq_iff wrote_def minimumNonce_claim)

section \<open>A claimed job\<close>

lemma worker_ops:
  "wsClaim (postgresWorker scope cleanup token owner now) = claimJob scope token now"
  "wsRecord (postgresWorker scope cleanup token owner now) = workerRecord scope"
  "wsPersist (postgresWorker scope cleanup token owner now) = persistJob owner now"
  "wsRenew (postgresWorker scope cleanup token owner now) = renewJob now"
  "wsComplete (postgresWorker scope cleanup token owner now) = completeJob now"
  "wsRetry (postgresWorker scope cleanup token owner now) = retryJob now"
  "wsCleanup (postgresWorker scope cleanup token owner now) = cleanupJob cleanup now"
  by (simp_all add: postgresWorker_def)

locale worker_chain =
  fixes G :: "('w Store) WorkerLedger" and cleanup :: "OutboxRow \<Rightarrow> ('w Store, unit) eff"
  assumes validate_db: "stDb (snd (wlValidate G t j s)) = stDb s"
    and prepare_db: "stDb (snd (wlPrepare G j r n s)) = stDb s"
    and broadcast_db: "stDb (snd (wlBroadcast G t s)) = stDb s"
    and receipt_db: "stDb (snd (wlReceipt G h s)) = stDb s"
    and cleanup_db: "stDb (snd (cleanup j s)) = stDb s"
begin

lemma prepare_record_db: "stDb (snd (bindS (workerRecord scope i) (\<lambda>r. wlPrepare G j r n) s)) = stDb s"
  using prepare_db [of j _ n s] by (simp add: workerRecord_def bindS_sqlGet split: sum.splits)

lemma transaction_held:
  assumes "heldDb now j sameTx db0 (stDb s)" "j \<in> set (isOutbox db0)"
  shows "wp (jobTransaction (postgresWorker scope cleanup token owner now) G j)
     (\<lambda>t s'. heldDb now j (wrote db0) db0 (stDb s') \<and> inOutbox t (stDb s')) (\<lambda>_ s'. heldDb now j (wrote db0) db0 (stDb s')) s"
proof (cases "storedTransaction j")
  case None
  show ?thesis
    using persist_writes [OF assms(1) prepare_record_db] same_wrote [OF assms(1)]
    unfolding jobTransaction_def None option.case wp_simps
    by (auto simp: postgresWorker_def split: sum.splits)
next
  case (Some t)
  then have raw: "obRaw j = Some (stRaw t)" by (auto simp: storedTransaction_def split: option.splits if_splits)
  from assms(2) obtain n where n: "n < length (isOutbox db0)" "isOutbox db0 ! n = j" by (auto simp: in_set_conv_nth)
  with assms(1) have "n < length (isOutbox (stDb s))"
    "onlyRow (obId j) (\<lambda>k0 k. held now j k \<and> sameTx k0 k) j (isOutbox (stDb s) ! n)"
    by (auto simp: changes_def dest: list_all2_nthD list_all2_lengthD)
  then have "inOutbox t (stDb s)"
    unfolding inOutbox_def using raw by (intro bexI [of _ "isOutbox (stDb s) ! n"]) (auto simp: onlyRow_def sameTx_def txOf_def)
  with same_wrote [OF assms(1)] show ?thesis by (simp add: jobTransaction_def Some wp_simps)
qed

lemma confirm_ends:
  assumes "heldDb now j (wrote db0) db0 (stDb s)"
  shows "wp (confirmTransaction (postgresWorker scope cleanup token owner now) G j t)
     (\<lambda>_ s'. endedDb j (wrote db0) db0 (stDb s')) (\<lambda>_ s'. heldDb now j (wrote db0) db0 (stDb s')) s"
proof -
  let ?H = "\<lambda>s'. heldDb now j (wrote db0) db0 (stDb s')" and ?D = "\<lambda>_ s'. endedDb j (wrote db0) db0 (stDb s')"
  have confirmed: "wp (case r of (block, success) \<Rightarrow>
       if \<not> success then throwS (PermanentJobError d (Some block)) else completeJob now j (Some block)) ?D (\<lambda>_. ?H) s'"
    if "?H s'" for r d and s' :: "'w Store"
    using that completed_job [OF that blind_wrote] by (simp add: wp_simps split: prod.splits)
  have settle: "wp (case receipt of None \<Rightarrow> throwS (Error c) | Some (block, success) \<Rightarrow>
       if \<not> success then throwS (PermanentJobError d (Some block)) else completeJob now j (Some block)) ?D (\<lambda>_. ?H) s'"
    if "?H s'" for receipt c d and s' :: "'w Store"
    using that confirmed [OF that] by (cases receipt) (simp_all only: option.case wp_basic)
  have look: "wp (bindS (case first of Some r \<Rightarrow> returnS (Some r) | None \<Rightarrow> bindS (wlBroadcast G t) (\<lambda>_. wlReceipt G h)) (\<lambda>receipt.
       case receipt of None \<Rightarrow> throwS (Error c) | Some (block, success) \<Rightarrow>
       if \<not> success then throwS (PermanentJobError d (Some block)) else completeJob now j (Some block))) ?D (\<lambda>_. ?H) s'"
    if "?H s'" for first h c d and s' :: "'w Store"
  proof (cases first)
    case None
    show ?thesis
      unfolding None option.case wp_bindS
      by (rule wp_neutral [OF broadcast_db]) (use that in \<open>auto intro!: wp_neutral [OF receipt_db] settle\<close>)
  next
    case (Some r)
    show ?thesis
      unfolding Some option.case wp_bindS wp_basic by (rule confirmed [OF that])
  qed
  have live: "wp (bindS (guardS (\<not> live) e) (\<lambda>_. bindS (wlReceipt G h) f)) ?D (\<lambda>_. ?H) s'"
    if "?H s'" "\<And>r s''. ?H s'' \<Longrightarrow> wp (f r) ?D (\<lambda>_. ?H) s''" for live e h f and s' :: "'w Store"
    unfolding wp_bindS wp_guardS using that by (auto intro!: wp_neutral [OF receipt_db])
  show ?thesis
    unfolding confirmTransaction_def worker_ops wp_bindS [where m = "wlValidate _ _ _"] wp_bindS [where m = "renewJob _ _"]
  proof (rule wp_neutral [OF validate_db])
    fix v and s1 :: "'w Store" assume "stDb s1 = stDb s"
    then have "?H s1" using assms by simp
    from held_renew [OF this wrote_lease(2)]
    show "wp (renewJob now j) (\<lambda>v. wp (bindS (guardS (\<not> v) (Error ''CLAIM_LOST'')) (\<lambda>_.
       bindS (wlReceipt G (stHash t)) (\<lambda>first.
       bindS (case first of Some r \<Rightarrow> returnS (Some r)
            | None \<Rightarrow> bindS (wlBroadcast G t) (\<lambda>_. wlReceipt G (stHash t))) (\<lambda>receipt.
       case receipt of
         None \<Rightarrow> throwS (Error ''TRANSACTION_CONFIRMATION_PENDING'')
       | Some (block, success) \<Rightarrow>
         if \<not> success then throwS (PermanentJobError ''TRANSACTION_REVERTED'' (Some block))
         else completeJob now j (Some block))))) ?D (\<lambda>_. ?H)) (\<lambda>_. ?H) s1"
      by (rule wp_mono) (rule live, assumption, rule look, assumption)
  qed (use assms in simp)
qed

lemma processed_job:
  assumes "heldDb now j sameTx db0 (stDb s)" "j \<in> set (isOutbox db0)" "fst (enterBackupWrite True s) = Inr ()"
  shows "wp (processDurableJob (postgresWorker scope cleanup token owner now) G j)
     (\<lambda>_ s'. endedDb j (wrote db0) db0 (stDb s')) (\<lambda>_ _. False) s"
proof -
  let ?S = "postgresWorker scope cleanup token owner now"
  let ?H = "\<lambda>s'. heldDb now j (wrote db0) db0 (stDb s')" and ?D = "\<lambda>_ s'. endedDb j (wrote db0) db0 (stDb s')"
  have start: "?H s" by (rule same_wrote [OF assms(1)])
  have ready: "fst (enterBackupWrite True s') = Inr ()" if "?H s'" for s' :: "'w Store"
    using that start assms(3) by (auto simp: enterBackupWrite_def sqlGet_def sql_def changes_def split: if_splits)
  have finish: "wp (completeJob now j b) ?D (\<lambda>_. ?H) s'" if "?H s'" for b and s' :: "'w Store"
    by (rule completed_job [OF that blind_wrote])
  have "wp (jobBody ?S G j) ?D (\<lambda>_. ?H) s"
  proof -
    have clean: "wp (bindS (cleanupJob cleanup now j) (\<lambda>_. completeJob now j None)) ?D (\<lambda>_. ?H) s"
      unfolding cleanupJob_def wp_simps
      using start by (auto intro!: wp_neutral [OF cleanup_db] finish)
    have send: "wp (bindS (jobTransaction ?S G j) (confirmTransaction ?S G j)) ?D (\<lambda>_. ?H) s"
      unfolding wp_bindS
      by (rule wp_mono [OF transaction_held [OF assms(1,2)]]) (auto intro: confirm_ends)
    show ?thesis
      unfolding jobBody_def using start finish [OF start] clean send
      by (auto simp: wp_basic worker_ops)
  qed
  moreover have "wp (rescheduleJob ?S j e) ?D (\<lambda>_ _. False) s'" if "?H s'" for e and s' :: "'w Store"
    using retried_job [OF that blind_wrote _ ready [OF that]] assms(2)
    unfolding rescheduleJob_def postgresWorker_def by (auto split: js_error.splits option.splits)
  ultimately show ?thesis
    unfolding processDurableJob_def wp_catchS by (auto elim: wp_mono)
qed

text \<open>Only a transaction that the outbox holds reaches the network.\<close>

abbreviation (input) guarded :: "('w Store) WorkerLedger \<Rightarrow> (SignedTransaction \<Rightarrow> ('w Store, unit) eff) \<Rightarrow> ('w Store) WorkerLedger" where
  "guarded H X \<equiv> H\<lparr> wlBroadcast := \<lambda>t s. if inOutbox t (stDb s) then wlBroadcast H t s else X t s \<rparr>"

lemma confirm_guarded:
  assumes "inOutbox t (stDb s)"
  shows "confirmTransaction (postgresWorker scope cleanup token owner now) G j t s =
     confirmTransaction (postgresWorker scope cleanup token owner now) (guarded G X) j t s"
proof -
  have ops: "wlValidate (guarded G X) = wlValidate G" "wlReceipt (guarded G X) = wlReceipt G"
    "wlBroadcast (guarded G X) = (\<lambda>t s. if inOutbox t (stDb s) then wlBroadcast G t s else X t s)"
    by simp_all
  have look: "bindS (case first of Some r \<Rightarrow> returnS (Some r) | None \<Rightarrow> bindS (wlBroadcast G t) (\<lambda>_. wlReceipt G h)) f s' =
      bindS (case first of Some r \<Rightarrow> returnS (Some r) | None \<Rightarrow>
        bindS (\<lambda>s. if inOutbox t (stDb s) then wlBroadcast G t s else X t s) (\<lambda>_. wlReceipt G h)) f s'"
    if "inOutbox t (stDb s')" for first h f and s' :: "'w Store"
    using that by (cases first) (simp_all add: bindS_def)
  show ?thesis
    unfolding confirmTransaction_def worker_ops ops
    apply (rule bindS_cong_wp, rule wp_neutral [OF validate_db])
     apply (rule bindS_cong_wp, rule wp_mono [OF renew_keeps_stored [where t = t and E = "\<lambda>_ _. True"]])
       apply (simp add: assms)
      apply (rule bindS_cong_wp, simp only: wp_guardS if_bool_eq_conj simp_thms, intro conjI impI, simp)
      apply (rule bindS_cong_wp, rule wp_neutral [OF receipt_db])
       apply (rule look, simp)
      apply simp_all
    done
qed

lemma process_guarded:
  assumes "heldDb now j sameTx db0 (stDb s)" "j \<in> set (isOutbox db0)"
  shows "processDurableJob (postgresWorker scope cleanup token owner now) G j s =
     processDurableJob (postgresWorker scope cleanup token owner now) (guarded G X) j s"
proof -
  let ?S = "postgresWorker scope cleanup token owner now"
  have "jobTransaction ?S (guarded G X) j = jobTransaction ?S G j" by (simp add: jobTransaction_def cong: option.case_cong)
  moreover have "bindS (jobTransaction ?S G j) (confirmTransaction ?S G j) s =
      bindS (jobTransaction ?S G j) (confirmTransaction ?S (guarded G X) j) s"
    by (rule bindS_cong_wp, rule wp_mono [OF transaction_held [OF assms]]) (auto intro: confirm_guarded)
  ultimately show ?thesis
    by (simp add: processDurableJob_def catchS_def jobBody_def)
qed

text \<open>A round: either nothing is claimed and the outbox stays, or one job moves towards its end.\<close>

lemma next_idle:
  assumes "fst (claimJob scope token now s) = Inl e \<or> fst (claimJob scope token now s) = Inr None"
  shows "stDb (snd (processNext (postgresWorker scope cleanup token owner now) G s)) = stDb s"
  using claim_idle [OF assms] assms
  by (auto simp: processNext_def worker_ops bindS_def returnS_def split: prod.splits sum.splits)

lemma next_claimed:
  assumes "claimJob scope token now s = (Inr (Some j), s1)" "distinct (map obId (isOutbox (stDb s)))"
  shows "changes (obId j) (movedRow (stDb s)) (stDb s)
     (stDb (snd (processNext (postgresWorker scope cleanup token owner now) G s)))"
proof -
  note taken = claim_takes [OF assms]
  let ?S = "postgresWorker scope cleanup token owner now"
  have "wp (processDurableJob ?S G j) (\<lambda>_ s'. endedDb j (wrote (stDb s1)) (stDb s1) (stDb s')) (\<lambda>_ _. False) s1"
    using taken by (intro processed_job)
  then have "endedDb j (wrote (stDb s1)) (stDb s1) (stDb (snd (processDurableJob ?S G j s1)))"
    by (auto simp: wp_def split: prod.splits sum.splits)
  with taken(4) have "changes (obId j) (movedRow (stDb s)) (stDb s) (stDb (snd (processDurableJob ?S G j s1)))"
    by (rule changes_trans) (auto intro: claimed_then_ended simp: wrote_claim [OF taken(4)])
  then show ?thesis using assms(1) by (simp add: processNext_def worker_ops bindS_def)
qed

lemma next_guarded:
  assumes "distinct (map obId (isOutbox (stDb s)))"
  shows "processNext (postgresWorker scope cleanup token owner now) G s =
     processNext (postgresWorker scope cleanup token owner now) (guarded G X) s"
  unfolding processNext_def worker_ops
  using process_guarded [OF claim_takes(1,2)] assms
  by (auto simp: bindS_def returnS_def split: prod.splits sum.splits option.splits)

end

end
