(* ===== verification/Worker_Properties.thy ===== *)
theory Worker_Properties
  imports Worker_Logic Store_Properties
begin

text \<open>
  What the worker guarantees, on the store of the issuer and on the ledger of \<open>Worker_Ledger\<close>, whatever the
  node answers: its work is bounded, a job is signed for once, and only what is stored is sent.
\<close>

section \<open>Rounds\<close>

text \<open>One round: the random token and owner it draws, its time, and what the node and the cleanup do.\<close>

record 'w WorkerRound =
  rdToken :: string
  rdOwner :: string
  rdNow :: int
  rdNode :: "'w ChainNode"
  rdCleanup :: "OutboxRow \<Rightarrow> ('w, unit) eff"

record WorkerSetup =
  wuLib :: lib
  wuRecover :: recoverAddress
  wuCodec :: ChainCodec
  wuConfig :: WorkerConfig
  wuScope :: "string option"

definition roundStore :: "WorkerSetup \<Rightarrow> 'w WorkerRound \<Rightarrow> ('w Store) WorkerStore" where
  "roundStore P R = postgresWorker (wuScope P) (\<lambda>j. remote (rdCleanup R j)) (rdToken R) (rdOwner R) (rdNow R)"

definition roundLedger :: "WorkerSetup \<Rightarrow> 'w WorkerRound \<Rightarrow> ('w Store) WorkerLedger" where
  "roundLedger P R = workerLedger (wuLib P) (wuRecover P) (wuCodec P) (wuConfig P) (rdNode R) (rdNow R)"

definition roundOf :: "WorkerSetup \<Rightarrow> 'w WorkerRound \<Rightarrow> 'w Store \<Rightarrow> 'w Store" where
  "roundOf P R s = snd (processNext (roundStore P R) (roundLedger P R) s)"

definition claimsJob :: "WorkerSetup \<Rightarrow> 'w WorkerRound \<Rightarrow> 'w Store \<Rightarrow> bool" where
  "claimsJob P R s = (case fst (wsClaim (roundStore P R) s) of Inr (Some _) \<Rightarrow> True | _ \<Rightarrow> False)"

fun runRounds :: "WorkerSetup \<Rightarrow> 'w WorkerRound list \<Rightarrow> 'w Store \<Rightarrow> 'w Store" where
  "runRounds P [] s = s"
| "runRounds P (R # Rs) s = runRounds P Rs (roundOf P R s)"




abbreviation keyedJobs :: "'w Store \<Rightarrow> bool" where
  "keyedJobs s \<equiv> distinct (map obId (isOutbox (stDb s)))"

lemma remote_db: "stDb (snd (remote m s)) = stDb s"
  by (simp add: remote_def split: prod.splits sum.splits)

interpretation chain: worker_chain "roundLedger P R" "\<lambda>j. remote (rdCleanup R j)"
  by unfold_locales (simp_all add: roundLedger_def workerLedger_def remote_db)

lemma changes_ids: "changes i P db0 db \<Longrightarrow> map obId (isOutbox db) = map obId (isOutbox db0)"
proof -
  have "list_all2 (onlyRow i P) xs ys \<Longrightarrow> map obId ys = map obId xs" for xs ys
    by (induction rule: list_all2_induct) (auto simp: onlyRow_def)
  then show "changes i P db0 db \<Longrightarrow> map obId (isOutbox db) = map obId (isOutbox db0)" by (simp add: changes_def)
qed

lemma round_step:
  assumes "keyedJobs s"
  shows "(\<not> claimsJob P R s \<and> stDb (roundOf P R s) = stDb s) \<or>
    (claimsJob P R s \<and> (\<exists>j. (\<exists>k \<in> set (isOutbox (stDb s)). obId k = j) \<and>
       changes j (movedRow (stDb s)) (stDb s) (stDb (roundOf P R s))))"
proof (cases "claimsJob P R s")
  case True
  then obtain j s1 where c: "claimJob (wuScope P) (rdToken R) (rdNow R) s = (Inr (Some j), s1)"
    by (cases "claimJob (wuScope P) (rdToken R) (rdNow R) s")
      (auto simp: claimsJob_def roundStore_def worker_ops split: sum.splits option.splits)
  from claim_takes(2) [OF c assms] have "obId j \<in> set (map obId (isOutbox (stDb s1)))" by simp
  then have "obId j \<in> set (map obId (isOutbox (stDb s)))"
    by (simp only: changes_ids [OF claim_takes(4) [OF c assms]])
  then have "\<exists>k \<in> set (isOutbox (stDb s)). obId k = obId j" by (auto simp: eq_commute)
  with chain.next_claimed [OF c assms] True show ?thesis by (auto simp: roundOf_def roundStore_def)
next
  case False
  then obtain e where "fst (claimJob (wuScope P) (rdToken R) (rdNow R) s) = Inl e \<or>
      fst (claimJob (wuScope P) (rdToken R) (rdNow R) s) = Inr None"
    by (auto simp: claimsJob_def roundStore_def worker_ops split: sum.splits option.splits)
  from chain.next_idle [OF this] False show ?thesis by (simp add: roundOf_def roundStore_def)
qed

lemma round_keyed: "keyedJobs s \<Longrightarrow> keyedJobs (roundOf P R s)"
  using round_step [of s P R] by (auto simp: changes_ids)




section \<open>Transactions\<close>

text \<open>Two stored transactions with the same signer and the same nonce belong to the same job.\<close>

definition noncesUnique :: "Issuer \<Rightarrow> bool" where
  "noncesUnique db \<longleftrightarrow> (\<forall>k \<in> set (isOutbox db). \<forall>k' \<in> set (isOutbox db).
     obRaw k \<noteq> None \<and> obRaw k' \<noteq> None \<and> obSigner k \<noteq> None \<and> obNonce k \<noteq> None \<and> obSigner k = obSigner k' \<and>
     obNonce k = obNonce k' \<longrightarrow> obId k = obId k')"

definition transactionsKept :: "Issuer \<Rightarrow> Issuer \<Rightarrow> bool" where
  "transactionsKept db0 db \<longleftrightarrow> (\<forall>k0 \<in> set (isOutbox db0). obRaw k0 \<noteq> None \<longrightarrow>
     (\<exists>k \<in> set (isOutbox db). obId k = obId k0 \<and> txOf k = txOf k0))"

lemma above_minimumNonce:
  assumes "k \<in> set (isOutbox db)" "obSigner k = Some sg" "obNonce k = Some n"
  shows "n < minimumNonce sg db"
proof -
  have member: "x \<in> set xs \<Longrightarrow> x \<le> fold max xs a" for x xs and a :: nat
  proof (induction xs arbitrary: a)
    case (Cons y ys)
    have "b \<le> fold max zs b" for zs and b :: nat by (induction zs arbitrary: b) (auto intro: le_trans [OF max.cobounded2])
    with Cons show ?case by (auto intro: le_trans [OF max.cobounded1])
  qed simp
  have "Suc n \<le> minimumNonce sg db"
    unfolding minimumNonce_def by (rule member) (use assms in \<open>force intro!: imageI\<close>)
  then show ?thesis by simp
qed

lemma list_all2_back: "list_all2 P xs ys \<Longrightarrow> y \<in> set ys \<Longrightarrow> \<exists>x \<in> set xs. P x y"
  by (induction rule: list_all2_induct) auto

lemma list_all2_forth: "list_all2 P xs ys \<Longrightarrow> x \<in> set xs \<Longrightarrow> \<exists>y \<in> set ys. P x y"
  by (induction rule: list_all2_induct) auto

lemma moved_transactions:
  assumes "changes i (movedRow db0) db0 db" "distinct (map obId (isOutbox db0))"
  shows "transactionsKept db0 db" and "noncesUnique db0 \<Longrightarrow> noncesUnique db"
proof -
  from assms(1) have rows: "list_all2 (onlyRow i (movedRow db0)) (isOutbox db0) (isOutbox db)" by (simp add: changes_def)
  have origin: "\<exists>k0 \<in> set (isOutbox db0). onlyRow i (movedRow db0) k0 k" if "k \<in> set (isOutbox db)" for k
    using list_all2_back [OF rows that] .
  show "transactionsKept db0 db"
    unfolding transactionsKept_def
  proof (intro ballI impI)
    fix k0 assume k0: "k0 \<in> set (isOutbox db0)" "obRaw k0 \<noteq> None"
    with list_all2_forth [OF rows] obtain k where "k \<in> set (isOutbox db)" "onlyRow i (movedRow db0) k0 k" by blast
    with k0 show "\<exists>k \<in> set (isOutbox db). obId k = obId k0 \<and> txOf k = txOf k0"
      by (auto simp: onlyRow_def movedRow_def wrote_def sameTx_def split: if_splits)
  qed
  show "noncesUnique db" if unique: "noncesUnique db0"
    unfolding noncesUnique_def
  proof (intro ballI impI)
    fix k k'
    assume k: "k \<in> set (isOutbox db)" "k' \<in> set (isOutbox db)" and same: "obRaw k \<noteq> None \<and> obRaw k' \<noteq> None \<and>
      obSigner k \<noteq> None \<and> obNonce k \<noteq> None \<and> obSigner k = obSigner k' \<and> obNonce k = obNonce k'"
    from origin [OF k(1)] origin [OF k(2)] obtain k0 k0' where olds: "k0 \<in> set (isOutbox db0)" "k0' \<in> set (isOutbox db0)"
      and steps: "onlyRow i (movedRow db0) k0 k" "onlyRow i (movedRow db0) k0' k'" by blast
    have case_split: "txOf l = txOf l0 \<or> (obId l = i \<and> (\<exists>sg n. obSigner l = Some sg \<and> obNonce l = Some n \<and> minimumNonce sg db0 \<le> n))"
      if "onlyRow i (movedRow db0) l0 l" for l0 l
      using that by (auto simp: onlyRow_def movedRow_def wrote_def sameTx_def split: if_splits)
    have clash: "\<not> (minimumNonce sg db0 \<le> n)"
      if "txOf l = txOf l0" "l0 \<in> set (isOutbox db0)" "obSigner l = Some sg" "obNonce l = Some n" for l0 l sg n
      using that above_minimumNonce [of l0 db0 sg n] by (simp add: txOf_def)
    have ids: "obId k = obId k0" "obId k' = obId k0'" using steps by (simp_all add: onlyRow_def)
    show "obId k = obId k'"
    proof (cases "txOf k = txOf k0 \<and> txOf k' = txOf k0'")
      case True
      with bspec [OF bspec [OF unique [unfolded noncesUnique_def] olds(1)] olds(2)] same
      show ?thesis unfolding ids txOf_def prod.inject by metis
    next
      case False
      with case_split [OF steps(1)] case_split [OF steps(2)] clash [OF _ olds(1)] clash [OF _ olds(2)] same
      show ?thesis by metis
    qed
  qed
qed

lemma runs_transactions:
  assumes "keyedJobs s"
  shows "transactionsKept (stDb s) (stDb (runRounds P Rs s)) \<and>
    (noncesUnique (stDb s) \<longrightarrow> noncesUnique (stDb (runRounds P Rs s)))"
  using assms
proof (induction Rs arbitrary: s)
  case Nil
  then show ?case by (auto simp: transactionsKept_def)
next
  case (Cons R Rs)
  have "transactionsKept (stDb s) (stDb (roundOf P R s)) \<and> (noncesUnique (stDb s) \<longrightarrow> noncesUnique (stDb (roundOf P R s)))"
    using round_step [OF Cons.prems, of P R] moved_transactions [OF _ Cons.prems]
    by (auto simp: transactionsKept_def)
  with Cons.IH [OF round_keyed [OF Cons.prems, of P R]] show ?case
    by (auto simp: transactionsKept_def txOf_def) (metis (no_types, lifting))+
qed

section \<open>A queue\<close>

definition wkJob :: OutboxRow where
  "wkJob = \<lparr> obId = ''job-1'', obInstitution = vrInstitution, obKind = ''institution.suspend'', obObject = ''o'', obPayload = JNull,
     obCreatedAt = 1, obStatus = JobPending, obAttempts = 0, obLeaseUntil = None, obRetryAt = 0, obLastError = None,
     obClaim = None, obHash = None, obRaw = None, obSigner = None, obNonce = None, obReceiptBlock = None \<rparr>"

definition wkStore :: "AnchorWorld Store" where
  "wkStore = swStore ((swIssuer [] True)\<lparr> isOutbox := [wkJob] \<rparr>) (swPosition ''0'' zeroHash) []"

definition wkSetup :: WorkerSetup where
  "wkSetup = \<lparr> wuLib = srLib, wuRecover = (\<lambda>_ _. None),
     wuCodec = \<lparr> ccParse = (\<lambda>_. Some \<lparr> ptChain = 777, ptTo = Some ''0xr'', ptNonce = 0, ptData = Some ''d'' \<rparr>),
       ccSender = (\<lambda>_. Some ''0xs''), ccHash = (\<lambda>_. ''h''),
       ccDecode = (\<lambda>_. Some \<lparr> wcFunction = ''suspendInstitution'', wcArgs = [EvHex (keccak256 srLib vrInstitution), EvUint 1] \<rparr>),
       ccEncode = (\<lambda>_. ''d''), ccSign = (\<lambda>_ _ _ _ _ _. ''0x01'') \<rparr>,
     wuConfig = \<lparr> wfNetwork = 777, wfGenesis = ''g'', wfRegistry = ''0xr'', wfCodeHash = ''h'', wfAdministrator = ''0xa'',
       wfStopper = ''0xs'', wfApprovers = [] \<rparr>, wuScope = None \<rparr>"

definition wkRound :: "AnchorWorld WorkerRound" where
  "wkRound = \<lparr> rdToken = ''t'', rdOwner = ''o'', rdNow = 100,
     rdNode = \<lparr> cnGenesis = returnS (Some ''g''), cnCode = returnS (Some ''c''), cnChainId = returnS 777,
       cnProfile = returnS (keccak256 srLib ''CALLSIGN_SERVICE_JOINT_CONFIGURATION_1''), cnCount = (\<lambda>_. returnS 0),
       cnFees = (\<lambda>_ _ _. returnS (1, 1)), cnSend = (\<lambda>_. returnS ''h''), cnReceipt = (\<lambda>_. returnS (Some (''5'', True))) \<rparr>,
     rdCleanup = (\<lambda>_. returnS ()) \<rparr>"

lemma wkKeyed: "keyedJobs wkStore"
  by (simp add: wkStore_def swStore_def)

lemma wkNonces: "noncesUnique (stDb wkStore)"
  by (simp add: noncesUnique_def wkStore_def swStore_def wkJob_def)


lemma wkEnds: "map (\<lambda>k. (obStatus k, obRaw k, obNonce k)) (isOutbox (stDb (runRounds wkSetup [wkRound] wkStore))) =
    [(JobDone, Some ''0x01'', Some 0)]"
  by code_simp

section \<open>Properties\<close>



text \<open>
  C30: a job is signed for once. Through any number of rounds the signed transaction, its hash, signer and
  nonce of a job stay what they were when they were stored, and no two jobs come to hold transactions of
  the same signer with the same nonce.
\<close>

theorem worker_signs_once:
  assumes "distinct (map obId (isOutbox (stDb s)))" "noncesUnique (stDb s)"
  shows "transactionsKept (stDb s) (stDb (runRounds P rounds s)) \<and> noncesUnique (stDb (runRounds P rounds s))"
  using runs_transactions [OF assms(1)] assms(2) by blast

theorem worker_signs_once_witness:
  "let s = runRounds wkSetup [wkRound] wkStore in
     map (\<lambda>k. (obStatus k, obRaw k, obNonce k)) (isOutbox (stDb s)) = [(JobDone, Some ''0x01'', Some 0)] \<and> noncesUnique (stDb s)"
  using worker_signs_once [OF wkKeyed wkNonces, of wkSetup "[wkRound]"] wkEnds by (simp add: Let_def)

text \<open>
  Nothing is sent to the network that the outbox does not hold: whatever a broadcast of a transaction
  that is not stored would do (\<open>X\<close>), a round of the worker is the same.
\<close>

theorem worker_sends_only_stored:
  assumes "distinct (map obId (isOutbox (stDb s)))"
  shows "processNext (roundStore P R) (roundLedger P R) s = processNext (roundStore P R) ((roundLedger P R)\<lparr> wlBroadcast :=
     \<lambda>t s'. if inOutbox t (stDb s') then wlBroadcast (roundLedger P R) t s' else X t s' \<rparr>) s"
  unfolding roundStore_def by (rule chain.next_guarded [OF assms])

theorem worker_sends_only_stored_witness:
  "processNext (roundStore wkSetup wkRound) (roundLedger wkSetup wkRound) wkStore =
     processNext (roundStore wkSetup wkRound) ((roundLedger wkSetup wkRound)\<lparr> wlBroadcast :=
       \<lambda>t s'. if inOutbox t (stDb s') then wlBroadcast (roundLedger wkSetup wkRound) t s' else throwS LibraryError s' \<rparr>) wkStore"
  by (rule worker_sends_only_stored [OF wkKeyed])

end
