(* ===== verification/Witness.thy ===== *)
theory Witness
  imports Worker_Ledger Registry
begin

text \<open>
  A ledger witness, \<^verbatim>\<open>services/witness/src/server.ts\<close>: its key, and the snapshots it signs of the registry
  on its own node. The node (\<open>WitnessNode\<close>) answers each call or fails (\<open>None\<close>); \<open>wnStorage n\<close> is the
  registry's storage after block \<open>n\<close>.
\<close>

section \<open>The key of a witness\<close>

record PersistedKey =
  pkPrivate :: json
  pkPublic :: json
  pkKid :: string

datatype KeyFile = KeyAbsent | KeyUnreadable | KeyStored PersistedKey

record WitnessFiles =
  wfKeyFile :: KeyFile
  wfPublished :: "(string \<times> string \<times> json) option"

text \<open>\<^verbatim>\<open>WITNESS_ID\<close>, \<^verbatim>\<open>WITNESS_PREPROVISIONED_KEYS\<close>, the new key pair and whether the directories can be written.\<close>

record KeySetup =
  ksWitness :: string
  ksPreprovisioned :: bool
  ksPair :: "json \<times> json \<times> keyHandle"
  ksWritable :: bool

definition publishPublicKey :: "KeySetup \<Rightarrow> PersistedKey \<Rightarrow> WitnessFiles \<Rightarrow> unit result \<times> WitnessFiles" where
  "publishPublicKey K k fs =
     (if \<not> ksWritable K then (Inl LibraryError, fs)
      else (Inr (), fs\<lparr> wfPublished := Some (ksWitness K, pkKid k, pkPublic k) \<rparr>))"

definition createKey :: "KeySetup \<Rightarrow> (WitnessFiles, PersistedKey \<times> keyHandle) eff" where
  "createKey K = (case ksPair K of (private, public, handle) \<Rightarrow>
     let k = \<lparr> pkPrivate = private, pkPublic = public,
               pkKid = ksWitness K @ ''-'' @ jsSlice 16 (jstr public ''x'') \<rparr> in
     bindS (guardS (\<not> ksWritable K) LibraryError) (\<lambda>_.
     bindS (modifyS (\<lambda>fs. fs\<lparr> wfKeyFile := KeyStored k \<rparr>)) (\<lambda>_.
     bindS (publishPublicKey K k) (\<lambda>_. returnS (k, handle)))))"

definition loadOrCreateKey :: "lib \<Rightarrow> KeySetup \<Rightarrow> (WitnessFiles, PersistedKey \<times> keyHandle) eff" where
  "loadOrCreateKey L K fs = (case wfKeyFile fs of
     KeyStored k \<Rightarrow>
       bindS (if ksPreprovisioned K then returnS () else publishPublicKey K k) (\<lambda>_.
       bindS (liftE (ofOption LibraryError (importJwk L (pkPrivate k)))) (\<lambda>h. returnS (k, h))) fs
   | KeyUnreadable \<Rightarrow> throwS LibraryError fs
   | KeyAbsent \<Rightarrow> if ksPreprovisioned K then throwS LibraryError fs else createKey K fs)"

text \<open>A witness that starts again has the key it started with, as long as its key file is there.\<close>

lemma loadOrCreateKey_stable:
  assumes "loadOrCreateKey L K fs = (Inr (k, h), fs')"
    and pair: "importJwk L (fst (ksPair K)) = Some (snd (snd (ksPair K)))"
  shows "loadOrCreateKey L K fs' = (Inr (k, h), fs')"
  using assms
  by (cases "ksPair K")
    (auto simp: loadOrCreateKey_def createKey_def publishPublicKey_def bindS_def returnS_def throwS_def guardS_def modifyS_def
      liftE_def ofOption_def Let_def split: KeyFile.splits if_splits option.splits)

section \<open>The node\<close>

record WitnessBlock =
  wbNumber :: nat
  wbHash :: "string option"
  wbTimestamp :: nat

record WitnessNode =
  wnChainId :: "nat option"
  wnLatest :: "WitnessBlock option"
  wnBlock :: "nat \<Rightarrow> WitnessBlock option"
  wnStorage :: "nat \<Rightarrow> Registry option"
  wnProfile :: "nat \<Rightarrow> string option"
  wnCode :: "nat \<Rightarrow> string option option"

record WitnessDeployment =
  wdNetworkId :: string
  wdGenesisHash :: string
  wdRegistryAddress :: string
  wdInstitutionId :: string
  wdRegistryProfile :: "string option"
  wdRegistryCodeHash :: "string option"

record WitnessEnv =
  weWitness :: string
  weRpcUrl :: string
  weKey :: PersistedKey
  weHandle :: keyHandle
  weDeployment :: "WitnessDeployment option"
  weServiceProfile :: "string option"
  weCodeHash :: "string \<Rightarrow> string"

definition rpc :: "'a option \<Rightarrow> 'a result" where
  "rpc v = ofOption LibraryError v"

definition witnessHealth :: "WitnessEnv \<Rightarrow> WitnessNode \<Rightarrow> json result" where
  "witnessHealth E N = bindE (rpc (wnLatest N)) (\<lambda>b. Inr (JObj
     [(''status'', JStr ''ok''), (''witnessId'', JStr (weWitness E)), (''kid'', JStr (pkKid (weKey E))),
      (''publicJwk'', pkPublic (weKey E)), (''blockNumber'', JStr (decimalString (wbNumber b))),
      (''rpcBoundary'', JStr (weRpcUrl E))]))"

definition witnessHead :: "WitnessEnv \<Rightarrow> WitnessNode \<Rightarrow> json result" where
  "witnessHead E N = bindE (rpc (wnLatest N)) (\<lambda>b. Inr (JObj
     [(''witnessId'', JStr (weWitness E)), (''blockNumber'', JStr (decimalString (wbNumber b))),
      (''blockHash'', (case wbHash b of Some h \<Rightarrow> JStr h | None \<Rightarrow> JNull)),
      (''blockTimestamp'', JNum (int (wbTimestamp b)))]))"

section \<open>A snapshot\<close>

definition querySchema :: schema where
  "querySchema = zObject [(''institutionId'', zString (lengthBetween 16 128)), (''delegationId'', zString (lengthBetween 16 128)),
     (''blockNumber'', zString isDecimalInteger), (''blockHash'', zString isHash32)] []"

definition wrongChain :: "WitnessDeployment \<Rightarrow> nat \<Rightarrow> WitnessBlock \<Rightarrow> bool" where
  "wrongChain d chainId genesis \<longleftrightarrow> decimalString chainId \<noteq> wdNetworkId d \<or> wbHash genesis \<noteq> Some (wdGenesisHash d)"

text \<open>The fields of the joint-configuration profile, where the deployment declares it.\<close>

definition profileFields :: "lib \<Rightarrow> WitnessEnv \<Rightarrow> WitnessNode \<Rightarrow> WitnessDeployment \<Rightarrow> string \<Rightarrow> nat \<Rightarrow> (string \<times> json) list result" where
  "profileFields L E N d institutionKey n =
     (if wdRegistryProfile d = Some registryProfileName
      then bindE (rpc (wnProfile N n)) (\<lambda>profile.
           bindE (rpc (wnStorage N n)) (\<lambda>R.
           bindE (rpc (wnCode N n)) (\<lambda>code.
             if profile \<noteq> keccak256 L registryProfileName \<or>
                (case code of None \<Rightarrow> True | Some c \<Rightarrow> c = [] \<or> Some (weCodeHash E c) \<noteq> wdRegistryCodeHash d)
             then Inl (Error ''WITNESS_REGISTRY_PROFILE_OR_CODE_MISMATCH'')
             else Inr [(''registryProfile'', JStr registryProfileName), (''policyHash'', JStr (policyHashes R institutionKey))])))
      else if weServiceProfile E = Some registryProfileName then Inl (Error ''SERVICE_DEPLOYMENT_METADATA_REQUIRED'')
      else Inr [])"

definition institutionFields :: "Institution \<Rightarrow> json" where
  "institutionFields i = JObj
     [(''exists'', JBool (iExists i)), (''status'', JStr (if iStatus i = Active then ''Active'' else ''Suspended'')),
      (''epoch'', JStr (decimalString (unat (iEpoch i)))), (''approvalPublicKey'', JStr (iApprovalPublicKey i)),
      (''policyVersion'', JStr (decimalString (unat (iPolicyVersion i))))]"

definition delegationFields :: "Delegation \<Rightarrow> json" where
  "delegationFields d = JObj
     [(''exists'', JBool (dExists d)), (''epoch'', JStr (decimalString (unat (dEpoch d)))),
      (''gatewayPublicKey'', JStr (dGatewayPublicKey d)), (''purposeMask'', JStr (decimalString (unat (dPurposeMask d)))),
      (''validFrom'', JNum (int (unat (dValidFrom d)))), (''validUntil'', JNum (int (unat (dValidUntil d)))),
      (''revoked'', JBool (dRevoked d))]"

definition snapshotOf ::
    "WitnessDeployment \<Rightarrow> (string \<times> json) list \<Rightarrow> json \<Rightarrow> WitnessBlock \<Rightarrow> string \<Rightarrow> Institution \<Rightarrow> Delegation \<Rightarrow> json" where
  "snapshotOf d extra query b h i g = JObj (
     [(''protocol'', JStr ''callsign''), (''version'', JNum 1), (''type'', JStr ''SignedStateSnapshot''),
      (''networkId'', JStr (wdNetworkId d)), (''genesisHash'', JStr (wdGenesisHash d)),
      (''registryAddress'', JStr (wdRegistryAddress d))] @ extra @
     [(''policyVersion'', JStr (decimalString (unat (iPolicyVersion i)))),
      (''blockNumber'', JStr (decimalString (nat (bigInt (jstr query ''blockNumber''))))), (''blockHash'', JStr h),
      (''blockTimestamp'', JNum (int (wbTimestamp b))), (''institutionId'', JStr (jstr query ''institutionId'')),
      (''institutionState'', institutionFields i), (''delegationId'', JStr (jstr query ''delegationId'')),
      (''delegationState'', delegationFields g), (''directoryHash'', JStr (iDirectoryHash i)),
      (''directoryVersion'', JStr (decimalString (unat (iDirectoryVersion i))))])"

text \<open>The hash of a block of the own node that is the block the query names.\<close>

definition canonicalHash :: "WitnessBlock \<Rightarrow> json \<Rightarrow> string result" where
  "canonicalHash b query = (case wbHash b of
     None \<Rightarrow> Inl (Error ''PROPOSED_BLOCK_NOT_CANONICAL_ON_OWN_NODE'')
   | Some h \<Rightarrow>
       if h = [] \<or> toLowerCase h \<noteq> toLowerCase (jstr query ''blockHash'')
       then Inl (Error ''PROPOSED_BLOCK_NOT_CANONICAL_ON_OWN_NODE'') else Inr h)"

definition witnessSnapshot :: "lib \<Rightarrow> WitnessEnv \<Rightarrow> WitnessNode \<Rightarrow> json \<Rightarrow> json result" where
  "witnessSnapshot L E N body =
     bindE (parseWith querySchema body) (\<lambda>query.
     bindE (rpc (weDeployment E)) (\<lambda>d.
     bindE (rpc (wnChainId N)) (\<lambda>chainId.
     bindE (rpc (wnBlock N 0)) (\<lambda>genesis.
     if wrongChain d chainId genesis then Inl (Error ''OWN_NODE_CHAIN_MISMATCH'')
     else let n = nat (bigInt (jstr query ''blockNumber'')) in
       bindE (rpc (wnBlock N n)) (\<lambda>b.
       bindE (canonicalHash b query) (\<lambda>h.
         let institutionKey = keccak256 L (jstr query ''institutionId''); delegationKey = keccak256 L (jstr query ''delegationId'') in
         if toLowerCase institutionKey \<noteq> toLowerCase (wdInstitutionId d) then Inl (Error ''INSTITUTION_QUERY_NOT_DEPLOYED'')
         else bindE (rpc (wnStorage N n)) (\<lambda>R.
           let i = institutions R institutionKey; g = delegations R delegationKey in
           if dExists g \<and> toLowerCase (dInstitutionId g) \<noteq> toLowerCase institutionKey
           then Inl (Error ''DELEGATION_INSTITUTION_MISMATCH'')
           else bindE (profileFields L E N d institutionKey n) (\<lambda>extra.
             parseWith stateSnapshotSchema (snapshotOf d extra query b h i g)))))))))"

definition snapshotReply :: "lib \<Rightarrow> WitnessEnv \<Rightarrow> WitnessNode \<Rightarrow> json \<Rightarrow> json result" where
  "snapshotReply L E N body = bindE (witnessSnapshot L E N body) (\<lambda>s. Inr (JObj
     [(''witnessId'', JStr (weWitness E)), (''snapshot'', s),
      (''jws'', JStr (signPayload L s (weHandle E) (pkKid (weKey E))))]))"

text \<open>What a witness signs is the state of its own node at the block that was asked for.\<close>

lemma witnessSnapshot_Inr:
  assumes "witnessSnapshot L E N body = Inr s"
  shows "\<exists>d b R. weDeployment E = Some d \<and> wnBlock N (nat (bigInt (jstr body ''blockNumber''))) = Some b \<and>
     wnStorage N (nat (bigInt (jstr body ''blockNumber''))) = Some R \<and>
     (\<exists>h. wbHash b = Some h \<and> toLowerCase h = toLowerCase (jstr body ''blockHash'') \<and>
       (\<exists>extra. s = snapshotOf d extra body b h (institutions R (keccak256 L (jstr body ''institutionId'')))
          (delegations R (keccak256 L (jstr body ''delegationId''))))) \<and>
     stateSnapshotSchema s"
proof -
  have ask: "rpc v = Inr w \<longleftrightarrow> v = Some w" for v and w :: 'z by (auto simp: rpc_def ofOption_def split: option.splits)
  have same: "canonicalHash b q = Inr h \<longleftrightarrow>
      wbHash b = Some h \<and> h \<noteq> [] \<and> toLowerCase h = toLowerCase (jstr q ''blockHash'')" for b q h
    by (auto simp: canonicalHash_def split: option.splits)
  show ?thesis
    using assms unfolding witnessSnapshot_def Let_def result_simps ask same by auto
qed

end
