(* ===== verification/Aggregate.thy ===== *)
theory Aggregate
  imports Witness
begin

text \<open>
  Collecting a quorum, \<^verbatim>\<open>services/api/src/witness-aggregate.ts\<close>. Every witness proposes its latest block;
  all are asked for a snapshot of each proposed block; the first group of snapshots that verifies as a
  quorum resolves the promise. The tasks the program has in flight are the list \<open>agTasks\<close>, and an event
  is the arrival of one reply or the end of one verification, in any order.

  A verification of a group takes time, and reads the live array of its signatures: \<open>GroupTask\<close> keeps the
  number of signatures it started with, and ends having read any number between that and those the group
  has by then. The promise resolves with the group itself (its key), whatever is added to it later. The
  abort of the remaining requests is a reply \<open>NoReply\<close>. The chain of a head ends with the last of its
  collections.
\<close>

section \<open>State\<close>

record WitnessEndpoint =
  epWitness :: string
  epUrl :: string

record AggregateInput =
  aiEndpoints :: "WitnessEndpoint list"
  aiInstitution :: string
  aiDelegation :: string
  aiTrust :: TrustBundle
  aiNow :: "int option"
  aiAllowTransition :: bool

text \<open>Whether the response was \<^verbatim>\<open>ok\<close>, the length of its text, and what \<^verbatim>\<open>JSON.parse\<close> makes of it.\<close>

datatype HttpReply = NoReply | HttpReply bool nat "json option"

datatype AggregateTask =
    HeadTask WitnessEndpoint
  | CollectTask WitnessEndpoint string json
  | GroupTask string nat int string

record Aggregation =
  agProposals :: "string list"
  agGroups :: "StateBundle dict"
  agPending :: int
  agSettled :: bool
  agOutcome :: "string result option"
  agUnavailable :: string
  agTasks :: "AggregateTask list"

section \<open>Steps\<close>

definition witnessReply :: "HttpReply \<Rightarrow> json result" where
  "witnessReply r = (case r of
     NoReply \<Rightarrow> Inl LibraryError
   | HttpReply okay len parsed \<Rightarrow>
       if \<not> okay then Inl (Error ''WITNESS_UNAVAILABLE'')
       else if len > 65536 then Inl (Error ''WITNESS_RESPONSE_TOO_LARGE'')
       else ofOption LibraryError parsed)"

definition settle :: "string result \<Rightarrow> Aggregation \<Rightarrow> Aggregation" where
  "settle r A = (if agOutcome A = None then A\<lparr> agOutcome := Some r \<rparr> else A)"

definition failure :: "Aggregation \<Rightarrow> string result" where
  "failure A = Inl (HttpError 503 (agUnavailable A))"

definition finished :: "Aggregation \<Rightarrow> Aggregation" where
  "finished A = (let A1 = A\<lparr> agPending := agPending A - 1 \<rparr> in
     if agPending A1 = 0 \<and> \<not> agSettled A1 then settle (failure A1) A1 else A1)"

definition headOf :: "AggregateTask \<Rightarrow> string option" where
  "headOf t = (case t of HeadTask _ \<Rightarrow> None | CollectTask _ k _ \<Rightarrow> Some k | GroupTask _ _ _ k \<Rightarrow> Some k)"

definition finishCollect :: "string \<Rightarrow> Aggregation \<Rightarrow> Aggregation" where
  "finishCollect k A = (let A1 = finished A in
     if list_ex (\<lambda>t. headOf t = Some k) (agTasks A1) then A1 else finished A1)"

definition startAggregation :: "AggregateInput \<Rightarrow> Aggregation" where
  "startAggregation I =
     (let A = \<lparr> agProposals = [], agGroups = [], agPending = int (length (aiEndpoints I)), agSettled = False, agOutcome = None,
                agUnavailable = ''WITNESS_THRESHOLD_UNAVAILABLE'', agTasks = map HeadTask (aiEndpoints I) \<rparr> in
      if agPending A = 0 then settle (failure A) A else A)"

definition memberKey :: "json \<Rightarrow> string \<Rightarrow> string" where
  "memberKey j k = (case jget j k of None \<Rightarrow> ''undefined'' | Some v \<Rightarrow> memberText v)"

definition headKey :: "json \<Rightarrow> string" where
  "headKey j = memberKey j ''blockNumber'' @ '':'' @ memberKey j ''blockHash''"

definition collectQuery :: "AggregateInput \<Rightarrow> json \<Rightarrow> json" where
  "collectQuery I j = JObj ([(''institutionId'', JStr (aiInstitution I)), (''delegationId'', JStr (aiDelegation I))] @
     concat (map (\<lambda>k. case jget j k of None \<Rightarrow> [] | Some v \<Rightarrow> [(k, v)]) [''blockNumber'', ''blockHash'']))"

definition headArrives :: "AggregateInput \<Rightarrow> HttpReply \<Rightarrow> Aggregation \<Rightarrow> Aggregation" where
  "headArrives I r A = (case witnessReply r of
     Inl _ \<Rightarrow> finished A
   | Inr j \<Rightarrow>
       if j = JNull \<or> headKey j \<in> set (agProposals A) then finished A
       else A\<lparr> agProposals := agProposals A @ [headKey j], agPending := agPending A + int (length (aiEndpoints I)),
               agTasks := agTasks A @ map (\<lambda>e. CollectTask e (headKey j) (collectQuery I j)) (aiEndpoints I) \<rparr>)"

definition groupTrust :: "AggregateInput \<Rightarrow> json \<Rightarrow> TrustBundle" where
  "groupTrust I s = (if aiAllowTransition I then (aiTrust I)\<lparr> policyVersion := jstr s ''policyVersion'' \<rparr> else aiTrust I)"

definition groupContext :: "AggregateInput \<Rightarrow> int \<Rightarrow> VerificationContext" where
  "groupContext I now = \<lparr> maxStateAgeSeconds = None, maxFutureSkewSeconds = None, nowWallSeconds = now, nowMonotonicMs = 0,
     expectedInstitutionId = aiInstitution I, expectedDelegationId = aiDelegation I \<rparr>"

text \<open>A reply counts when its single signature verifies at the time of its own block.\<close>

definition collected :: "lib \<Rightarrow> AggregateInput \<Rightarrow> WitnessEndpoint \<Rightarrow> HttpReply \<Rightarrow> (json \<times> WitnessSignature) result" where
  "collected L I e r =
     bindE (witnessReply r) (\<lambda>j.
     if j = JNull \<or> jget j ''witnessId'' \<noteq> Some (JStr (epWitness e)) then Inl LibraryError
     else bindE (ofOption LibraryError (jget j ''snapshot'')) (\<lambda>s.
       bindE (case jget j ''jws'' of Some (JStr w) \<Rightarrow> Inr w | _ \<Rightarrow> Inl LibraryError) (\<lambda>jws.
       let sg = \<lparr> sigWitnessId = epWitness e, sigJws = jws \<rparr> in
       bindE (verifyStateBundle L \<lparr> snapshot = s, signatures = [sg] \<rparr> ((groupTrust I s)\<lparr> witnessThreshold := 1 \<rparr>)
                (groupContext I (jnum s ''blockTimestamp''))) (\<lambda>_. Inr (s, sg)))))"

definition addSignature :: "lib \<Rightarrow> json \<Rightarrow> WitnessSignature \<Rightarrow> StateBundle dict \<Rightarrow> StateBundle dict" where
  "addSignature L s sg groups =
     (let key = hashCanonical L s;
          g = (case dget groups key of Some g \<Rightarrow> g | None \<Rightarrow> \<lparr> snapshot = s, signatures = [] \<rparr>) in
      dput key (if list_ex (\<lambda>o'. sigWitnessId o' = sigWitnessId sg) (signatures g) then g
                else g\<lparr> signatures := signatures g @ [sg] \<rparr>) groups)"

definition signaturesIn :: "string \<Rightarrow> Aggregation \<Rightarrow> WitnessSignature list" where
  "signaturesIn key A = (case dget (agGroups A) key of Some g \<Rightarrow> signatures g | None \<Rightarrow> [])"

definition snapshotArrives ::
    "lib \<Rightarrow> AggregateInput \<Rightarrow> WitnessEndpoint \<Rightarrow> string \<Rightarrow> HttpReply \<Rightarrow> int \<Rightarrow> Aggregation \<Rightarrow> Aggregation" where
  "snapshotArrives L I e k r now A = (case collected L I e r of
     Inl _ \<Rightarrow> finishCollect k A
   | Inr (s, sg) \<Rightarrow>
       let A1 = A\<lparr> agGroups := addSignature L s sg (agGroups A) \<rparr>; key = hashCanonical L s; n = length (signaturesIn key A1) in
       if \<not> agSettled A1 \<and> witnessThreshold (aiTrust I) \<le> int n
       then A1\<lparr> agTasks := agTasks A1 @ [GroupTask key n (case aiNow I of Some t \<Rightarrow> t | None \<Rightarrow> now) k] \<rparr>
       else finishCollect k A1)"

definition groupBundle :: "string \<Rightarrow> nat \<Rightarrow> Aggregation \<Rightarrow> StateBundle" where
  "groupBundle key n A = (case dget (agGroups A) key of
     Some g \<Rightarrow> g\<lparr> signatures := take n (signatures g) \<rparr> | None \<Rightarrow> \<lparr> snapshot = JNull, signatures = [] \<rparr>)"

definition groupJudged :: "lib \<Rightarrow> AggregateInput \<Rightarrow> string \<Rightarrow> int \<Rightarrow> string \<Rightarrow> nat \<Rightarrow> Aggregation \<Rightarrow> Aggregation" where
  "groupJudged L I key now k m A =
     (let g = groupBundle key m A in
      case verifyStateBundle L g (groupTrust I (snapshot g)) (groupContext I now) of
        Inr _ \<Rightarrow> finishCollect k (if agSettled A then A else settle (Inr key) (A\<lparr> agSettled := True \<rparr>))
      | Inl err \<Rightarrow> finishCollect k (A\<lparr> agUnavailable := (if err = Error ''STALE_SNAPSHOT''
            then ''STALE_WITNESS_QUORUM_CHAIN_PROGRESS_UNAVAILABLE'' else ''WITNESS_QUORUM_TIME_INVALID'') \<rparr>))"

datatype AggregateEvent = Arrives AggregateTask HttpReply int | Judged AggregateTask nat

definition aggregateStep :: "lib \<Rightarrow> AggregateInput \<Rightarrow> Aggregation \<Rightarrow> AggregateEvent \<Rightarrow> Aggregation" where
  "aggregateStep L I A ev = (case ev of
     Arrives t r now \<Rightarrow>
       if t \<notin> set (agTasks A) then A
       else let A1 = A\<lparr> agTasks := remove1 t (agTasks A) \<rparr> in
         (case t of
            HeadTask _ \<Rightarrow> headArrives I r A1
          | CollectTask e k _ \<Rightarrow> snapshotArrives L I e k r now A1
          | GroupTask _ _ _ _ \<Rightarrow> A)
   | Judged t m \<Rightarrow>
       if t \<notin> set (agTasks A) then A
       else (case t of
          GroupTask key n now k \<Rightarrow>
            if n \<le> m \<and> m \<le> length (signaturesIn key A)
            then groupJudged L I key now k m (A\<lparr> agTasks := remove1 t (agTasks A) \<rparr>) else A
        | _ \<Rightarrow> A))"

definition aggregateWitnesses :: "lib \<Rightarrow> AggregateInput \<Rightarrow> AggregateEvent list \<Rightarrow> Aggregation" where
  "aggregateWitnesses L I events = foldl (aggregateStep L I) (startAggregation I) events"

section \<open>What a group holds\<close>

text \<open>\<open>agreed\<close>: snapshots with the same hash have the same canonical bytes, among those that are received.\<close>

definition verifiedGroup :: "lib \<Rightarrow> AggregateInput \<Rightarrow> StateBundle \<Rightarrow> bool" where
  "verifiedGroup L I g \<longleftrightarrow> distinct (map sigWitnessId (signatures g)) \<and>
     (\<forall>sg \<in> set (signatures g). verifyWitnessSignature L (aiTrust I) (canonicalBytes L (snapshot g)) sg = Inr ())"

definition groupsVerified :: "lib \<Rightarrow> AggregateInput \<Rightarrow> json set \<Rightarrow> Aggregation \<Rightarrow> bool" where
  "groupsVerified L I S A \<longleftrightarrow> (\<forall>key g. dget (agGroups A) key = Some g \<longrightarrow>
     hashCanonical L (snapshot g) = key \<and> snapshot g \<in> S \<and> verifiedGroup L I g)"

text \<open>The resolved group has once been verified with some of its first signatures.\<close>

definition resolvedVerified :: "lib \<Rightarrow> AggregateInput \<Rightarrow> Aggregation \<Rightarrow> bool" where
  "resolvedVerified L I A \<longleftrightarrow> (\<forall>key. agOutcome A = Some (Inr key) \<longrightarrow>
     (\<exists>g n now v. dget (agGroups A) key = Some g \<and>
        verifyStateBundle L (g\<lparr> signatures := take n (signatures g) \<rparr>) (groupTrust I (snapshot g)) (groupContext I now) = Inr v))"

lemma verifySignatures_grows:
  assumes "distinct (unique @ map sigWitnessId sgs)" "\<forall>sg \<in> set sgs. verifyWitnessSignature L tb bytes sg = Inr ()"
  shows "verifySignatures L tb bytes unique sgs = Inr (unique @ map sigWitnessId sgs)"
  using assms by (induction sgs arbitrary: unique) simp_all

lemma verifyWitnessSignature_cong:
  "witnessPublicKeys tb' = witnessPublicKeys tb \<Longrightarrow>
     verifyWitnessSignature L tb' bytes sg = verifyWitnessSignature L tb bytes sg"
  by (simp add: verifyWitnessSignature_def trustedWitness_def)

lemma groupTrust_keys: "witnessPublicKeys (groupTrust I s) = witnessPublicKeys (aiTrust I)"
  by (simp add: groupTrust_def)

text \<open>A bundle that verifies still verifies with more verified signatures of other witnesses.\<close>

lemma verifyStateBundle_grows:
  assumes "verifyStateBundle L (g\<lparr> signatures := take n (signatures g) \<rparr>) tb context = Inr v"
    and "distinct (map sigWitnessId (signatures g))"
    and "\<forall>sg \<in> set (signatures g). verifyWitnessSignature L tb (canonicalBytes L (snapshot g)) sg = Inr ()"
  shows "\<exists>v. verifyStateBundle L g tb context = Inr v"
proof -
  have all: "verifySignatures L tb (canonicalBytes L (snapshot g)) [] (signatures g) = Inr (map sigWitnessId (signatures g))"
    using verifySignatures_grows [of "[]" "signatures g"] assms(2,3) by simp
  have sgs: "verifySignatures L tb (canonicalBytes L (snapshot g)) [] (take n (signatures g)) =
      Inr (map sigWitnessId (take n (signatures g)))"
    by (subst verifySignatures_grows) (use assms(2,3) in \<open>auto simp flip: take_map dest: in_set_takeD\<close>)
  from verifyStateBundle_Inr(2,11) [OF assms(1)] sgs have "signerIds v = map sigWitnessId (take n (signatures g))" by simp
  then have "length (signerIds v) \<le> length (signatures g)" by simp
  with verifyStateBundle_Inr(12) [OF assms(1)] have "witnessThreshold tb \<le> int (length (signatures g))" by simp
  with assms(1) all sgs show ?thesis
    unfolding verifyStateBundle_def Let_def by (auto simp: result_simps split: if_splits)
qed

section \<open>Invariants\<close>

lemma same_groups [simp]:
  "agGroups (settle r A) = agGroups A" "agGroups (finished A) = agGroups A" "agGroups (finishCollect k A) = agGroups A"
  "agTasks (settle r A) = agTasks A" "agTasks (finished A) = agTasks A" "agTasks (finishCollect k A) = agTasks A"
  "agProposals (settle r A) = agProposals A" "agProposals (finished A) = agProposals A" "agProposals (finishCollect k A) = agProposals A"
  "agSettled (settle r A) = agSettled A" "agSettled (finished A) = agSettled A" "agSettled (finishCollect k A) = agSettled A"
  "agPending (settle r A) = agPending A" "agPending (finished A) = agPending A - 1"
  by (simp_all add: settle_def finished_def finishCollect_def Let_def)

lemma outcome_finished:
  "agOutcome (finished A) = Some (Inr key) \<longleftrightarrow> agOutcome A = Some (Inr key)"
  "agOutcome (finishCollect k A) = Some (Inr key) \<longleftrightarrow> agOutcome A = Some (Inr key)"
  by (auto simp: finished_def finishCollect_def settle_def failure_def Let_def)

lemma collected_Inr:
  assumes "collected L I e r = Inr (s, sg)"
  shows "verifyWitnessSignature L (aiTrust I) (canonicalBytes L s) sg = Inr ()"
    and "\<exists>j. witnessReply r = Inr j \<and> jget j ''snapshot'' = Some s"
proof -
  from assms obtain v where v: "verifyStateBundle L \<lparr> snapshot = s, signatures = [sg] \<rparr>
      ((groupTrust I s)\<lparr> witnessThreshold := 1 \<rparr>) (groupContext I (jnum s ''blockTimestamp'')) = Inr v"
    by (auto simp: collected_def Let_def result_simps split: if_splits)
  from verifyStateBundle_Inr(2,11) [OF v]
  have "verifyWitnessSignature L ((groupTrust I s)\<lparr> witnessThreshold := 1 \<rparr>) (canonicalBytes L s) sg = Inr ()"
    by (auto simp: result_simps)
  then show "verifyWitnessSignature L (aiTrust I) (canonicalBytes L s) sg = Inr ()"
    by (subst (asm) verifyWitnessSignature_cong [where tb = "aiTrust I"]) (simp_all add: groupTrust_def)
  from assms show "\<exists>j. witnessReply r = Inr j \<and> jget j ''snapshot'' = Some s"
    by (auto simp: collected_def Let_def result_simps split: if_splits)
qed

lemma addSignature_groups:
  assumes "groupsVerified L I S A" "s \<in> S" "verifyWitnessSignature L (aiTrust I) (canonicalBytes L s) sg = Inr ()"
    and agree: "\<forall>a \<in> S. \<forall>b \<in> S. hashCanonical L a = hashCanonical L b \<longrightarrow> canonicalBytes L a = canonicalBytes L b"
  shows "groupsVerified L I S (A\<lparr> agGroups := addSignature L s sg (agGroups A) \<rparr>)"
    and "dget (agGroups A) key = Some g \<Longrightarrow> \<exists>extra. dget (addSignature L s sg (agGroups A)) key =
      Some (g\<lparr> signatures := signatures g @ extra \<rparr>)"
proof -
  show "groupsVerified L I S (A\<lparr> agGroups := addSignature L s sg (agGroups A) \<rparr>)"
    unfolding groupsVerified_def
  proof (intro allI impI)
    fix key g assume g: "dget (agGroups (A\<lparr> agGroups := addSignature L s sg (agGroups A) \<rparr>)) key = Some g"
    show "hashCanonical L (snapshot g) = key \<and> snapshot g \<in> S \<and> verifiedGroup L I g"
    proof (cases "key = hashCanonical L s")
      case False
      with g assms(1) show ?thesis by (auto simp: addSignature_def Let_def groupsVerified_def)
    next
      case True
      show ?thesis
      proof (cases "dget (agGroups A) key")
        case None
        with True g assms(2,3) show ?thesis by (auto simp: addSignature_def Let_def verifiedGroup_def)
      next
        case (Some h)
        with assms(1) have h: "hashCanonical L (snapshot h) = key" "snapshot h \<in> S" "verifiedGroup L I h"
          by (auto simp: groupsVerified_def)
        have bytes: "canonicalBytes L (snapshot h) = canonicalBytes L s"
          by (rule agree [rule_format, OF h(2) assms(2)]) (use h(1) True in simp)
        have "g = (if list_ex (\<lambda>o'. sigWitnessId o' = sigWitnessId sg) (signatures h) then h
            else h\<lparr> signatures := signatures h @ [sg] \<rparr>)"
          using g unfolding True addSignature_def Let_def Some [unfolded True] option.case by simp
        with h bytes assms(3) show ?thesis
          by (cases "list_ex (\<lambda>o'. sigWitnessId o' = sigWitnessId sg) (signatures h)")
            (auto simp: verifiedGroup_def list_ex_iff)
      qed
    qed
  qed
  show "\<exists>extra. dget (addSignature L s sg (agGroups A)) key = Some (g\<lparr> signatures := signatures g @ extra \<rparr>)"
    if "dget (agGroups A) key = Some g"
    using that by (cases "list_ex (\<lambda>o'. sigWitnessId o' = sigWitnessId sg) (signatures g)")
      (auto simp: addSignature_def Let_def intro: exI [of _ "[]"])
qed

abbreviation keepsGroups :: "Aggregation \<Rightarrow> Aggregation \<Rightarrow> bool" where
  "keepsGroups A B \<equiv> \<forall>key g. dget (agGroups A) key = Some g \<longrightarrow>
     (\<exists>extra. dget (agGroups B) key = Some (g\<lparr> signatures := signatures g @ extra \<rparr>))"

lemma resolved_grows:
  assumes "resolvedVerified L I A" "keepsGroups A B" "\<And>key. agOutcome B = Some (Inr key) \<Longrightarrow> agOutcome A = Some (Inr key)"
  shows "resolvedVerified L I B"
  unfolding resolvedVerified_def
proof (intro allI impI)
  fix key assume "agOutcome B = Some (Inr key)"
  with assms(1,3) obtain g n now v where g: "dget (agGroups A) key = Some g" and v:
    "verifyStateBundle L (g\<lparr> signatures := take n (signatures g) \<rparr>) (groupTrust I (snapshot g)) (groupContext I now) = Inr v"
    unfolding resolvedVerified_def by blast
  from assms(2) g obtain extra where e: "dget (agGroups B) key = Some (g\<lparr> signatures := signatures g @ extra \<rparr>)" by blast
  have "take (min n (length (signatures g))) (signatures g @ extra) = take n (signatures g)" by (simp add: min_def)
  with e v show "\<exists>g n now v. dget (agGroups B) key = Some g \<and>
      verifyStateBundle L (g\<lparr> signatures := take n (signatures g) \<rparr>) (groupTrust I (snapshot g)) (groupContext I now) = Inr v"
    by (intro exI [of _ "g\<lparr> signatures := signatures g @ extra \<rparr>"] exI [of _ "min n (length (signatures g))"] exI [of _ now]
        exI [of _ v]) simp
qed

text \<open>The snapshots a sequence of events brings.\<close>

definition snapshotsIn :: "AggregateEvent list \<Rightarrow> json set" where
  "snapshotsIn events = {s. \<exists>t r now j. Arrives t r now \<in> set events \<and> witnessReply r = Inr j \<and> jget j ''snapshot'' = Some s}"

definition soundAggregation :: "lib \<Rightarrow> AggregateInput \<Rightarrow> json set \<Rightarrow> Aggregation \<Rightarrow> bool" where
  "soundAggregation L I S A \<longleftrightarrow> groupsVerified L I S A \<and> resolvedVerified L I A"

lemma sound_frame:
  "soundAggregation L I S A \<Longrightarrow> agGroups B = agGroups A \<Longrightarrow>
     (\<And>key. agOutcome B = Some (Inr key) \<Longrightarrow> agOutcome A = Some (Inr key)) \<Longrightarrow> soundAggregation L I S B"
  unfolding soundAggregation_def
  by (auto simp: groupsVerified_def intro!: resolved_grows [where A = A] exI [of _ "[]"])

lemma sound_snapshot:
  assumes "soundAggregation L I S A" "\<forall>j s. witnessReply r = Inr j \<and> jget j ''snapshot'' = Some s \<longrightarrow> s \<in> S"
    and agree: "\<forall>a \<in> S. \<forall>b \<in> S. hashCanonical L a = hashCanonical L b \<longrightarrow> canonicalBytes L a = canonicalBytes L b"
  shows "soundAggregation L I S (snapshotArrives L I e k r now A)"
proof (cases "collected L I e r")
  case (Inl err)
  with assms(1) show ?thesis
    unfolding snapshotArrives_def Inl sum.case by (elim sound_frame) (simp_all add: outcome_finished)
next
  case (Inr p)
  obtain s sg where p: "p = (s, sg)" by (cases p)
  from collected_Inr [OF Inr [unfolded p]] assms(2) have sg: "s \<in> S"
    "verifyWitnessSignature L (aiTrust I) (canonicalBytes L s) sg = Inr ()" by blast+
  from assms(1) have groups: "groupsVerified L I S A" by (simp add: soundAggregation_def)
  let ?A1 = "A\<lparr> agGroups := addSignature L s sg (agGroups A) \<rparr>"
  from addSignature_groups [OF groups sg agree] have "groupsVerified L I S ?A1" "keepsGroups A ?A1" by simp_all
  with assms(1) have "soundAggregation L I S ?A1"
    unfolding soundAggregation_def by (auto elim!: resolved_grows)
  then show ?thesis
    unfolding snapshotArrives_def Inr p sum.case prod.case Let_def
    by (simp split del: if_split split: if_splits) (auto elim!: sound_frame simp: outcome_finished)
qed

lemma sound_judged:
  assumes "soundAggregation L I S A"
  shows "soundAggregation L I S (groupJudged L I key now k m A)"
proof (cases "verifyStateBundle L (groupBundle key m A) (groupTrust I (snapshot (groupBundle key m A))) (groupContext I now)")
  case (Inl err)
  with assms(1) show ?thesis
    unfolding groupJudged_def Let_def Inl sum.case by (elim sound_frame) (simp_all add: outcome_finished)
next
  case (Inr v)
  from verifyStateBundle_Inr(2,3) [OF Inr] obtain g where g: "dget (agGroups A) key = Some g"
    by (auto simp: groupBundle_def stateSnapshotSchema_def zObject_def split: option.splits)
  have "resolvedVerified L I (settle (Inr key) (A\<lparr> agSettled := True \<rparr>))"
    using assms(1) Inr g unfolding soundAggregation_def resolvedVerified_def groupBundle_def
    by (auto simp: settle_def split: if_splits)
  with assms(1) have "soundAggregation L I S (if agSettled A then A else settle (Inr key) (A\<lparr> agSettled := True \<rparr>))"
    by (auto simp: soundAggregation_def groupsVerified_def)
  then show ?thesis
    unfolding groupJudged_def Let_def Inr sum.case by (elim sound_frame) (simp_all add: outcome_finished)
qed

lemma sound_step:
  assumes "soundAggregation L I S A" "snapshotsIn [ev] \<subseteq> S"
    and "\<forall>a \<in> S. \<forall>b \<in> S. hashCanonical L a = hashCanonical L b \<longrightarrow> canonicalBytes L a = canonicalBytes L b"
  shows "soundAggregation L I S (aggregateStep L I A ev)"
proof -
  have tasks: "soundAggregation L I S (A\<lparr> agTasks := ts \<rparr>)" for ts
    using assms(1) by (elim sound_frame) simp_all
  show ?thesis
  proof (cases ev)
    case (Arrives t r now)
    have heads: "soundAggregation L I S (headArrives I r (A\<lparr> agTasks := ts \<rparr>))" for ts
      using tasks [of ts] by (auto elim!: sound_frame simp: headArrives_def outcome_finished split: sum.splits)
    have "\<forall>j s. witnessReply r = Inr j \<and> jget j ''snapshot'' = Some s \<longrightarrow> s \<in> S"
      using assms(2) by (auto simp: snapshotsIn_def Arrives)
    from sound_snapshot [OF tasks this assms(3)] heads assms(1) show ?thesis
      by (auto simp: aggregateStep_def Arrives Let_def split: AggregateTask.splits)
  next
    case (Judged t m)
    with assms(1) sound_judged [OF tasks] show ?thesis
      by (auto simp: aggregateStep_def split: AggregateTask.splits)
  qed
qed

lemma sound_aggregation:
  assumes "\<forall>a \<in> snapshotsIn events. \<forall>b \<in> snapshotsIn events.
      hashCanonical L a = hashCanonical L b \<longrightarrow> canonicalBytes L a = canonicalBytes L b"
  shows "soundAggregation L I (snapshotsIn events) (aggregateWitnesses L I events)"
proof -
  have "soundAggregation L I (snapshotsIn events) (foldl (aggregateStep L I) A es)"
    if "soundAggregation L I (snapshotsIn events) A" "set es \<subseteq> set events" for A es
    using that
  proof (induction es arbitrary: A)
    case (Cons ev es)
    have "snapshotsIn [ev] \<subseteq> snapshotsIn events" using Cons.prems(2) by (auto simp: snapshotsIn_def)
    from sound_step [OF Cons.prems(1) this assms] Cons show ?case by simp
  qed simp
  moreover have "soundAggregation L I (snapshotsIn events) (startAggregation I)"
    by (auto simp: soundAggregation_def groupsVerified_def resolvedVerified_def startAggregation_def settle_def failure_def Let_def)
  ultimately show ?thesis unfolding aggregateWitnesses_def by blast
qed

text \<open>The counter of pending operations: the tasks in flight, and the heads that wait for theirs.\<close>

definition openHeads :: "AggregateTask list \<Rightarrow> string set" where
  "openHeads ts = {k. \<exists>t \<in> set ts. headOf t = Some k}"

definition counted :: "AggregateInput \<Rightarrow> Aggregation \<Rightarrow> bool" where
  "counted I A \<longleftrightarrow> agPending A = int (length (agTasks A)) + int (card (openHeads (agTasks A))) \<and>
     openHeads (agTasks A) \<subseteq> set (agProposals A) \<and> (agSettled A \<longrightarrow> agOutcome A \<noteq> None) \<and>
     (agPending A = 0 \<longrightarrow> agOutcome A \<noteq> None) \<and> (agTasks A \<noteq> [] \<longrightarrow> aiEndpoints I \<noteq> [])"

lemma openHeads_simps [simp]:
  "openHeads [] = {}" "openHeads (t # ts) = (case headOf t of Some k \<Rightarrow> insert k (openHeads ts) | None \<Rightarrow> openHeads ts)"
  "openHeads (ts @ us) = openHeads ts \<union> openHeads us"
  by (auto simp: openHeads_def split: option.splits)

lemma finite_openHeads [simp]: "finite (openHeads ts)"
  by (induction ts) (auto split: option.splits)

lemma openHeads_remove:
  assumes "t \<in> set ts"
  shows "openHeads ts = (case headOf t of Some k \<Rightarrow> insert k (openHeads (remove1 t ts)) | None \<Rightarrow> openHeads (remove1 t ts))"
proof -
  have "set ts = insert t (set (remove1 t ts))"
  proof (intro set_eqI)
    show "u \<in> set ts \<longleftrightarrow> u \<in> insert t (set (remove1 t ts))" for u
      using assms set_remove1_subset [of t ts] by (cases "u = t") auto
  qed
  then show ?thesis by (auto simp: openHeads_def split: option.splits)
qed

lemma outcome_kept:
  "agOutcome A \<noteq> None \<Longrightarrow> agOutcome (settle r A) \<noteq> None" "agOutcome A \<noteq> None \<Longrightarrow> agOutcome (finished A) \<noteq> None"
  by (auto simp: finished_def settle_def Let_def)

lemma outcome_at_zero: "agSettled A \<longrightarrow> agOutcome A \<noteq> None \<Longrightarrow> agPending A = 1 \<Longrightarrow> agOutcome (finished A) \<noteq> None"
  by (auto simp: finished_def settle_def Let_def)

text \<open>A collection that ends takes its task off the count, and its head with it when it was the last.\<close>

lemma counted_finishCollect:
  assumes "agPending A = int (length ts) + 1 + int (card (insert k (openHeads ts)))" "agTasks A = ts"
    and "openHeads ts \<subseteq> set (agProposals A)" "agSettled A \<longrightarrow> agOutcome A \<noteq> None" "ts \<noteq> [] \<longrightarrow> aiEndpoints I \<noteq> []"
  shows "counted I (finishCollect k A)"
proof (cases "k \<in> openHeads ts")
  case True
  then have more: "list_ex (\<lambda>t. headOf t = Some k) ts" by (auto simp: openHeads_def list_ex_iff)
  then have "ts \<noteq> []" by auto
  moreover from this have "int (length ts) + int (card (openHeads ts)) \<noteq> 0"
    by (metis add_is_0 length_0_conv of_nat_0_eq_iff of_nat_add)
  moreover have "agSettled (finished A) \<longrightarrow> agOutcome (finished A) \<noteq> None" using assms(4) outcome_kept(2) by auto
  ultimately show ?thesis
    using assms True more by (simp add: counted_def finishCollect_def Let_def insert_absorb)
next
  case False
  then have last: "\<not> list_ex (\<lambda>t. headOf t = Some k) ts" by (auto simp: openHeads_def list_ex_iff)
  from False have card: "card (insert k (openHeads ts)) = card (openHeads ts) + 1" by simp
  have kept: "agSettled (finished A) \<longrightarrow> agOutcome (finished A) \<noteq> None" using assms(4) outcome_kept(2) by auto
  show ?thesis
    using assms last card kept outcome_at_zero [OF kept] outcome_kept(2) [of "finished A"]
    by (auto simp: counted_def finishCollect_def Let_def)
qed

lemma counted_finished:
  assumes "agPending A = int (length ts) + 1 + int (card (openHeads ts))" "agTasks A = ts"
    and "openHeads ts \<subseteq> set (agProposals A)" "agSettled A \<longrightarrow> agOutcome A \<noteq> None" "ts \<noteq> [] \<longrightarrow> aiEndpoints I \<noteq> []"
  shows "counted I (finished A)"
  using assms outcome_at_zero [OF assms(4)] outcome_kept(2) [of A] by (auto simp: counted_def)

lemma counted_heads:
  assumes "counted I A" "HeadTask e \<in> set (agTasks A)"
  shows "counted I (headArrives I r (A\<lparr> agTasks := remove1 (HeadTask e) (agTasks A) \<rparr>))"
proof -
  let ?ts = "remove1 (HeadTask e) (agTasks A)"
  have heads: "openHeads (agTasks A) = openHeads ?ts" using openHeads_remove [OF assms(2)] by (simp add: headOf_def)
  have len: "length (agTasks A) = length ?ts + 1" using assms(2) by (simp add: length_remove1) (cases "agTasks A", simp_all)
  from assms have ends: "aiEndpoints I \<noteq> []" by (auto simp: counted_def)
  have stop: "counted I (finished (A\<lparr> agTasks := ?ts \<rparr>))"
    by (rule counted_finished) (use assms(1) heads len ends in \<open>auto simp: counted_def\<close>)
  have "counted I (A\<lparr> agTasks := ?ts, agProposals := agProposals A @ [k], agPending := agPending A + int (length (aiEndpoints I)),
      agTasks := ?ts @ map (\<lambda>e. CollectTask e k q) (aiEndpoints I) \<rparr>)" if "k \<notin> set (agProposals A)" for k q
  proof -
    have "openHeads (map (\<lambda>e. CollectTask e k q) (aiEndpoints I)) = {k}"
      using ends by (auto simp: openHeads_def headOf_def neq_Nil_conv)
    moreover from that assms(1) heads have "k \<notin> openHeads ?ts" by (auto simp: counted_def)
    ultimately show ?thesis
      using assms(1) heads len ends by (auto simp: counted_def)
  qed
  with stop show ?thesis by (auto simp: headArrives_def split: sum.splits)
qed

lemma counted_snapshots:
  assumes "counted I A" "CollectTask e k q \<in> set (agTasks A)"
  shows "counted I (snapshotArrives L I e k r now (A\<lparr> agTasks := remove1 (CollectTask e k q) (agTasks A) \<rparr>))"
proof -
  let ?ts = "remove1 (CollectTask e k q) (agTasks A)"
  have heads: "openHeads (agTasks A) = insert k (openHeads ?ts)" using openHeads_remove [OF assms(2)] by (simp add: headOf_def)
  have len: "length (agTasks A) = length ?ts + 1" using assms(2) by (simp add: length_remove1) (cases "agTasks A", simp_all)
  from assms have ends: "aiEndpoints I \<noteq> []" by (auto simp: counted_def)
  have stop_any: "counted I (finishCollect k B)" if "agTasks B = ?ts" "agPending B = agPending A" "agProposals B = agProposals A"
    "agSettled B = agSettled A" "agOutcome B = agOutcome A" for B
    by (rule counted_finishCollect) (use that assms(1) heads len ends in \<open>auto simp: counted_def\<close>)
  have stop: "counted I (finishCollect k (A\<lparr> agTasks := ?ts, agGroups := gs \<rparr>))"
    "counted I (finishCollect k (A\<lparr> agTasks := ?ts \<rparr>))" for gs
    by (rule stop_any; simp)+
  have "counted I (A\<lparr> agGroups := gs, agTasks := ?ts @ [GroupTask key n t k] \<rparr>)" for key n t gs
    using assms(1) heads len ends by (auto simp: counted_def headOf_def)
  with stop show ?thesis by (simp add: snapshotArrives_def Let_def split: sum.splits)
qed

lemma counted_judged:
  assumes "counted I A" "GroupTask key n now k \<in> set (agTasks A)"
  shows "counted I (groupJudged L I key now k m (A\<lparr> agTasks := remove1 (GroupTask key n now k) (agTasks A) \<rparr>))"
proof -
  let ?ts = "remove1 (GroupTask key n now k) (agTasks A)"
  have heads: "openHeads (agTasks A) = insert k (openHeads ?ts)" using openHeads_remove [OF assms(2)] by (simp add: headOf_def)
  have len: "length (agTasks A) = length ?ts + 1" using assms(2) by (simp add: length_remove1) (cases "agTasks A", simp_all)
  have stop: "counted I (finishCollect k B)" if "agTasks B = ?ts" "agPending B = agPending A" "agProposals B = agProposals A"
    "agSettled B \<longrightarrow> agOutcome B \<noteq> None" for B
    by (rule counted_finishCollect) (use that assms heads len in \<open>auto simp: counted_def\<close>)
  have "agSettled A \<longrightarrow> agOutcome A \<noteq> None" using assms(1) by (simp add: counted_def)
  then show ?thesis
    unfolding groupJudged_def Let_def
    by (auto intro!: stop split: sum.splits) (auto simp: settle_def)
qed

lemma counted_run: "counted I (aggregateWitnesses L I events)"
proof -
  have "counted I A \<Longrightarrow> counted I (aggregateStep L I A ev)" for A ev
    by (auto simp: aggregateStep_def Let_def counted_heads counted_snapshots counted_judged split: AggregateEvent.splits AggregateTask.splits)
  moreover have "counted I (startAggregation I)"
  proof -
    have "openHeads (map HeadTask es) = {}" for es by (auto simp: openHeads_def headOf_def)
    then show ?thesis by (auto simp: counted_def startAggregation_def Let_def settle_def)
  qed
  ultimately show ?thesis
    unfolding aggregateWitnesses_def by (induction events rule: rev_induct) simp_all
qed

end
