(* ===== verification/Aggregate_Properties.thy ===== *)
theory Aggregate_Properties
  imports Aggregate Verifier_Properties
begin

text \<open>
  What the aggregation of witnesses guarantees for every order of replies and verifications, and one
  run of it, with a single witness.
\<close>

section \<open>A run\<close>

definition agInput :: AggregateInput where
  "agInput = \<lparr> aiEndpoints = [\<lparr> epWitness = ''w1'', epUrl = ''u'' \<rparr>], aiInstitution = replicate 20 (CHR ''i''),
     aiDelegation = replicate 20 (CHR ''d''), aiTrust = demoTrust\<lparr> witnessThreshold := 1 \<rparr>, aiNow = Some 5004,
     aiAllowTransition = False \<rparr>"

definition agHead :: json where
  "agHead = JObj [(''blockNumber'', JStr ''12''), (''blockHash'', JStr ''h'')]"

abbreviation agKey :: string where
  "agKey \<equiv> hashCanonical (demoLib []) demoSnapshot"

definition agReply :: json where
  "agReply = JObj [(''witnessId'', JStr ''w1''), (''snapshot'', demoSnapshot), (''jws'', JStr (sigJws (demoSignature ''w1'')))]"

definition agEvents :: "AggregateEvent list" where
  "agEvents = [Arrives (HeadTask \<lparr> epWitness = ''w1'', epUrl = ''u'' \<rparr>) (HttpReply True 90 (Some agHead)) 5004,
     Arrives (CollectTask \<lparr> epWitness = ''w1'', epUrl = ''u'' \<rparr> ''12:h'' (collectQuery agInput agHead)) (HttpReply True 900 (Some agReply)) 5004,
     Judged (GroupTask agKey 1 5004 ''12:h'') 1]"

definition agQuorum :: Aggregation where
  "agQuorum = aggregateWitnesses (demoLib []) agInput agEvents"

lemma agVerified:
  assumes "now \<in> {5000, 5004}"
  shows "\<exists>v. verifyStateBundle (demoLib []) \<lparr> snapshot = demoSnapshot, signatures = [demoSignature ''w1''] \<rparr>
     (demoTrust\<lparr> witnessThreshold := 1 \<rparr>) (groupContext agInput now) = Inr v"
proof -
  have "verifySignatures (demoLib []) (demoTrust\<lparr> witnessThreshold := 1 \<rparr>) (demoCanonical demoSnapshot) [] [demoSignature ''w1''] =
      Inr [''w1'']"
    using verifyWitnessSignature_cong [of "demoTrust\<lparr> witnessThreshold := 1 \<rparr>" demoTrust] demoWitness_verifies [of "''w1''"]
    by simp (simp add: demoSignature_def)
  moreover have "canonicalBytes (demoLib []) demoSnapshot = demoCanonical demoSnapshot"
    by (simp add: canonicalBytes_def demoLib_def)
  moreover have "validWitnessTrust (demoTrust\<lparr> witnessThreshold := 1 \<rparr>)"
    by (simp add: validWitnessTrust_def demoTrust_def demoWitness_def demoJwk_def jget_def)
  moreover have "jnum demoSnapshot ''version'' = 1" "jnum demoSnapshot ''blockTimestamp'' = 5000"
    "isStr demoSnapshot ''networkId'' ''7''" "isStr demoSnapshot ''policyVersion'' ''1''"
    "isStr demoSnapshot ''genesisHash'' (demoHash32 (CHR ''9''))"
    "jstr demoSnapshot ''registryAddress'' = ''0x'' @ replicate 40 (CHR ''1'')"
    "isStr demoSnapshot ''institutionId'' (replicate 20 (CHR ''i''))"
    "isStr demoSnapshot ''delegationId'' (replicate 20 (CHR ''d''))"
    by (simp_all add: demoSnapshot_def member_defs)
  ultimately show ?thesis
    using demoSnapshot_schema assms
    by (auto simp: verifyStateBundle_def parseWith_def maxAge_def maxFuture_def groupContext_def agInput_def)
      (simp_all add: demoTrust_def)
qed

lemma agCollected: "collected (demoLib []) agInput \<lparr> epWitness = ''w1'', epUrl = ''u'' \<rparr> (HttpReply True 900 (Some agReply)) =
    Inr (demoSnapshot, demoSignature ''w1'')"
proof -
  have "jnum demoSnapshot ''blockTimestamp'' = 5000" by (simp add: demoSnapshot_def member_defs)
  moreover have "(groupTrust agInput demoSnapshot)\<lparr> witnessThreshold := 1 \<rparr> = demoTrust\<lparr> witnessThreshold := 1 \<rparr>"
    by (simp add: groupTrust_def agInput_def)
  moreover have "\<lparr> sigWitnessId = ''w1'', sigJws = sigJws (demoSignature ''w1'') \<rparr> = demoSignature ''w1''"
    by (simp add: demoSignature_def)
  ultimately show ?thesis
    using agVerified [of 5000]
    by (auto simp: collected_def witnessReply_def ofOption_def agReply_def jget_def Let_def)
qed

lemma agQuorum_resolves: "agOutcome agQuorum = Some (Inr agKey) \<and> agTasks agQuorum = [] \<and>
    dget (agGroups agQuorum) agKey = Some \<lparr> snapshot = demoSnapshot, signatures = [demoSignature ''w1''] \<rparr>"
proof -
  have key: "headKey agHead = ''12:h''" by (simp add: headKey_def memberKey_def memberText_def agHead_def jget_def)
  have trust: "groupTrust agInput demoSnapshot = demoTrust\<lparr> witnessThreshold := 1 \<rparr>"
    by (simp add: groupTrust_def agInput_def)
  obtain v where v: "verifyStateBundle (demoLib []) \<lparr> snapshot = demoSnapshot, signatures = [demoSignature ''w1''] \<rparr>
      (demoTrust\<lparr> witnessThreshold := 1 \<rparr>) (groupContext agInput 5004) = Inr v" using agVerified [of 5004] by blast
  let ?e = "\<lparr> epWitness = ''w1'', epUrl = ''u'' \<rparr>" and ?q = "collectQuery agInput agHead"
  have ends: "aiEndpoints agInput = [?e]" "aiNow agInput = Some 5004" "witnessThreshold (aiTrust agInput) = 1"
    by (simp_all add: agInput_def)
  have first: "aggregateStep (demoLib []) agInput (startAggregation agInput)
      (Arrives (HeadTask ?e) (HttpReply True 90 (Some agHead)) 5004) = \<lparr> agProposals = [''12:h''], agGroups = [], agPending = 2,
        agSettled = False, agOutcome = None, agUnavailable = ''WITNESS_THRESHOLD_UNAVAILABLE'', agTasks = [CollectTask ?e ''12:h'' ?q] \<rparr>"
    by (simp add: startAggregation_def Let_def ends aggregateStep_def headArrives_def witnessReply_def ofOption_def key)
      (simp add: agHead_def)
  have second: "aggregateStep (demoLib []) agInput \<lparr> agProposals = [''12:h''], agGroups = [], agPending = 2,
        agSettled = False, agOutcome = None, agUnavailable = ''WITNESS_THRESHOLD_UNAVAILABLE'', agTasks = [CollectTask ?e ''12:h'' ?q] \<rparr>
      (Arrives (CollectTask ?e ''12:h'' ?q) (HttpReply True 900 (Some agReply)) 5004) = \<lparr> agProposals = [''12:h''],
        agGroups = [(agKey, \<lparr> snapshot = demoSnapshot, signatures = [demoSignature ''w1''] \<rparr>)], agPending = 2, agSettled = False,
        agOutcome = None, agUnavailable = ''WITNESS_THRESHOLD_UNAVAILABLE'', agTasks = [GroupTask agKey 1 5004 ''12:h''] \<rparr>"
    by (simp add: aggregateStep_def snapshotArrives_def agCollected addSignature_def signaturesIn_def Let_def ends)
  show ?thesis
    by (simp add: agQuorum_def aggregateWitnesses_def agEvents_def first second)
      (simp add: aggregateStep_def groupJudged_def groupBundle_def signaturesIn_def Let_def trust v finishCollect_def finished_def settle_def)
qed

lemma snapshotsIn_simps:
  "snapshotsIn [] = {}" "snapshotsIn (Judged t m # es) = snapshotsIn es"
  "witnessReply r = Inr j \<Longrightarrow> snapshotsIn (Arrives t r now # es) = set_option (jget j ''snapshot'') \<union> snapshotsIn es"
  unfolding snapshotsIn_def by auto

lemma agSnapshots: "snapshotsIn agEvents = {demoSnapshot}"
proof -
  have members: "jget agHead ''snapshot'' = None" "jget agReply ''snapshot'' = Some demoSnapshot"
    by (simp_all add: agHead_def agReply_def jget_def)
  have replies: "witnessReply (HttpReply True 90 (Some agHead)) = Inr agHead" "witnessReply (HttpReply True 900 (Some agReply)) = Inr agReply"
    by (simp_all add: witnessReply_def ofOption_def)
  show ?thesis
    unfolding agEvents_def snapshotsIn_simps(3) [OF replies(1)] snapshotsIn_simps(3) [OF replies(2)] snapshotsIn_simps(1,2) members
    by simp
qed

section \<open>Properties\<close>

text \<open>
  C31: whatever the witnesses answer, and in whatever order replies and verifications come in, a group of
  signatures with which the aggregation resolves is a state bundle that verifies under the trust bundle
  (with the policy version of its snapshot where a transition is allowed): also with the signatures that
  were added to it while it was being verified or later. This holds unless two of the received snapshots
  have different canonical bytes with the same digest.
\<close>

theorem aggregate_resolves_with_quorum:
  assumes "agOutcome (aggregateWitnesses L I events) = Some (Inr key)"
    and "\<forall>a \<in> snapshotsIn events. \<forall>b \<in> snapshotsIn events.
      hashCanonical L a = hashCanonical L b \<longrightarrow> canonicalBytes L a = canonicalBytes L b"
  shows "\<exists>g now v. dget (agGroups (aggregateWitnesses L I events)) key = Some g \<and>
    verifyStateBundle L g (groupTrust I (snapshot g)) (groupContext I now) = Inr v"
proof -
  let ?A = "aggregateWitnesses L I events"
  from sound_aggregation [OF assms(2), of I] assms(1) obtain g n now v where g: "dget (agGroups ?A) key = Some g"
    and v: "verifyStateBundle L (g\<lparr> signatures := take n (signatures g) \<rparr>) (groupTrust I (snapshot g)) (groupContext I now) = Inr v"
    and checked: "verifiedGroup L I g"
    unfolding soundAggregation_def groupsVerified_def resolvedVerified_def by blast
  from checked have "\<forall>sg \<in> set (signatures g).
      verifyWitnessSignature L (groupTrust I (snapshot g)) (canonicalBytes L (snapshot g)) sg = Inr ()"
    by (simp add: verifiedGroup_def verifyWitnessSignature_cong [OF groupTrust_keys])
  with verifyStateBundle_grows [OF v] checked g show ?thesis by (auto simp: verifiedGroup_def)
qed

theorem aggregate_resolves_with_quorum_witness:
  "\<exists>g now v. dget (agGroups agQuorum) agKey = Some g \<and> map sigWitnessId (signatures g) = [''w1''] \<and>
     verifyStateBundle (demoLib []) g (groupTrust agInput (snapshot g)) (groupContext agInput now) = Inr v"
proof -
  have "map sigWitnessId [demoSignature ''w1''] = [''w1'']" by (simp add: demoSignature_def)
  with aggregate_resolves_with_quorum [of "demoLib []" agInput agEvents agKey] agQuorum_resolves show ?thesis
    unfolding agSnapshots agQuorum_def by fastforce
qed

text \<open>
  C32: the aggregation never hangs: once every request it has made has been answered or aborted and every
  verification has ended, it has resolved or it has been rejected.
\<close>

theorem aggregate_settles:
  assumes "agTasks (aggregateWitnesses L I events) = []"
  shows "agOutcome (aggregateWitnesses L I events) \<noteq> None"
  using counted_run [of I L events] assms by (simp add: counted_def)

theorem aggregate_settles_witness:
  "agTasks agQuorum = [] \<and> agOutcome agQuorum \<noteq> None"
  using aggregate_settles [of "demoLib []" agInput agEvents] agQuorum_resolves unfolding agQuorum_def by blast

end
