(* ===== verification/Quota.thy ===== *)
theory Quota
  imports Store_Logic "HOL-Library.Multiset"
begin

text \<open>
  The analysis quotas, \<^verbatim>\<open>services/api/src/quota.ts\<close>: an amount is reserved on several budgets at once and
  later settled with what was used. The tables are row lists; the primary keys and the \<^verbatim>\<open>CHECK\<close>
  constraints of the migration are written out. \<^verbatim>\<open>localeCompare\<close> is the parameter \<open>arrange\<close>, which sorts the
  scopes.
\<close>

section \<open>Tables\<close>

record QuotaScope =
  qsKey :: string
  qsLimit :: int

record QuotaBalance =
  qbKey :: string
  qbUsed :: int
  qbReserved :: int
  qbLimit :: int
  qbExpiresAt :: int

datatype ReservationState = Reserved | Settled | Released

record Reservation =
  rvId :: string
  rvInstitution :: string
  rvUnit :: string
  rvScopes :: "QuotaScope list"
  rvReserved :: int
  rvActual :: "int option"
  rvState :: ReservationState
  rvExpiresAt :: int

record QuotaDb =
  qdBalances :: "QuotaBalance list"
  qdReservations :: "Reservation list"
  qdRequests :: "GlobalQuotaRow list"

section \<open>Operations\<close>

definition balanceFits :: "QuotaBalance \<Rightarrow> bool" where
  "balanceFits b \<longleftrightarrow> 0 \<le> qbUsed b \<and> 0 \<le> qbReserved b \<and> qbUsed b + qbReserved b \<le> qbLimit b"

definition chargeRequest :: "string \<Rightarrow> string \<Rightarrow> int \<Rightarrow> int \<Rightarrow> (QuotaDb, unit) eff" where
  "chargeRequest institution user now limit =
     bindS (guardS (\<not> isSafeInteger limit \<or> limit < 300 \<or> limit > 10000) (Error ''REQUEST_BUDGET_POLICY_INVALID'')) (\<lambda>_.
     let key = ''api:'' @ institution @ '':'' @ user @ '':'' @ intText (now div 60) in
     updateS (\<lambda>D. case selectOne (\<lambda>q. gqKey q = key) (qdRequests D) of
       None \<Rightarrow> Inr ((), D\<lparr> qdRequests := qdRequests D @
         [\<lparr> gqKey = key, gqUsed = 1, gqLimit = limit, gqExpiresAt = (now div 60 + 1) * 60 \<rparr>] \<rparr>)
     | Some q \<Rightarrow>
         if gqLimit q \<noteq> limit \<or> \<not> gqUsed q < gqLimit q then Inl (HttpError 429 ''API_REQUEST_QUOTA_EXHAUSTED'')
         else Inr ((), D\<lparr> qdRequests := updateWhere (\<lambda>q. gqKey q = key) (\<lambda>q. q\<lparr> gqUsed := gqUsed q + 1 \<rparr>) (qdRequests D) \<rparr>)))"

definition quotaInputInvalid :: "int \<Rightarrow> QuotaScope list \<Rightarrow> bool" where
  "quotaInputInvalid amount scopes \<longleftrightarrow>
     \<not> isSafeInteger amount \<or> amount \<le> 0 \<or> scopes = [] \<or> \<not> allDistinct qsKey scopes \<or>
     list_ex (\<lambda>s. \<not> isSafeInteger (qsLimit s) \<or> qsLimit s < amount) scopes"

definition scopesJson :: "QuotaScope list \<Rightarrow> json" where
  "scopesJson scopes = JArr (map (\<lambda>s. JObj [(''key'', JStr (qsKey s)), (''limit'', JNum (qsLimit s))]) scopes)"

definition reservationDiffers :: "lib \<Rightarrow> string \<Rightarrow> string \<Rightarrow> int \<Rightarrow> QuotaScope list \<Rightarrow> Reservation \<Rightarrow> bool" where
  "reservationDiffers L institution un amount ordered r \<longleftrightarrow>
     rvInstitution r \<noteq> institution \<or> rvUnit r \<noteq> un \<or> rvReserved r \<noteq> amount \<or>
     hashCanonical L (scopesJson (rvScopes r)) \<noteq> hashCanonical L (scopesJson ordered)"

definition reserveScope :: "int \<Rightarrow> int \<Rightarrow> QuotaScope \<Rightarrow> QuotaDb \<Rightarrow> (unit \<times> QuotaDb) result" where
  "reserveScope amount expiresAt sc D =
     (case selectOne (\<lambda>b. qbKey b = qsKey sc) (qdBalances D) of
        None \<Rightarrow>
          let b = \<lparr> qbKey = qsKey sc, qbUsed = 0, qbReserved = amount, qbLimit = qsLimit sc, qbExpiresAt = expiresAt \<rparr> in
          if \<not> balanceFits b then Inl LibraryError else Inr ((), D\<lparr> qdBalances := qdBalances D @ [b] \<rparr>)
      | Some b \<Rightarrow>
          if qbLimit b \<noteq> qsLimit sc \<or> qbUsed b + qbReserved b + amount > qbLimit b then Inl (Error ''QUOTA_EXHAUSTED'')
          else Inr ((), D\<lparr> qdBalances := updateWhere (\<lambda>b. qbKey b = qsKey sc)
                 (\<lambda>b. b\<lparr> qbReserved := qbReserved b + amount \<rparr>) (qdBalances D) \<rparr>))"

definition reserve ::
    "lib \<Rightarrow> (QuotaScope list \<Rightarrow> QuotaScope list) \<Rightarrow> string \<Rightarrow> string \<Rightarrow> string \<Rightarrow> int \<Rightarrow> QuotaScope list \<Rightarrow> int \<Rightarrow> (QuotaDb, unit) eff" where
  "reserve L arrange rid institution un amount scopes expiresAt =
     bindS (guardS (quotaInputInvalid amount scopes) (Error ''QUOTA_INPUT_INVALID'')) (\<lambda>_.
     let ordered = arrange scopes in
     atomically (
       bindS (readS (\<lambda>D. Inr (selectOne (\<lambda>r. rvId r = rid) (qdReservations D)))) (\<lambda>prior.
       case prior of
         Some r \<Rightarrow> guardS (reservationDiffers L institution un amount ordered r) (Error ''QUOTA_IDEMPOTENCY_CONFLICT'')
       | None \<Rightarrow>
           bindS (forS (\<lambda>sc. updateS (reserveScope amount expiresAt sc)) ordered) (\<lambda>_.
           modifyS (\<lambda>D. D\<lparr> qdReservations := qdReservations D @ [\<lparr> rvId = rid, rvInstitution = institution, rvUnit = un,
             rvScopes = ordered, rvReserved = amount, rvActual = None, rvState = Reserved, rvExpiresAt = expiresAt \<rparr>] \<rparr>)))))"

definition settleScope :: "int \<Rightarrow> int \<Rightarrow> QuotaScope \<Rightarrow> QuotaDb \<Rightarrow> (unit \<times> QuotaDb) result" where
  "settleScope reserved actual sc D =
     (let bs = updateWhere (\<lambda>b. qbKey b = qsKey sc)
        (\<lambda>b. b\<lparr> qbReserved := qbReserved b - reserved, qbUsed := qbUsed b + actual \<rparr>) (qdBalances D) in
      if list_ex (\<lambda>b. qbKey b = qsKey sc \<and> \<not> balanceFits b) bs then Inl LibraryError
      else Inr ((), D\<lparr> qdBalances := bs \<rparr>))"

definition settleQuota :: "string \<Rightarrow> int \<Rightarrow> (QuotaDb, unit) eff" where
  "settleQuota rid actual = atomically (
     bindS (readS (\<lambda>D. ofOption (Error ''QUOTA_RESERVATION_MISSING'') (selectOne (\<lambda>r. rvId r = rid) (qdReservations D)))) (\<lambda>r.
     bindS (guardS (\<not> isSafeInteger actual \<or> actual < 0 \<or> actual > rvReserved r) (Error ''QUOTA_SETTLEMENT_INVALID'')) (\<lambda>_.
     if rvState r \<noteq> Reserved
     then guardS (rvActual r \<noteq> Some actual) (Error ''QUOTA_SETTLEMENT_CONFLICT'')
     else bindS (forS (\<lambda>sc. updateS (settleScope (rvReserved r) actual sc)) (rvScopes r)) (\<lambda>_.
       modifyS (\<lambda>D. D\<lparr> qdReservations := updateWhere (\<lambda>r. rvId r = rid)
         (\<lambda>r. r\<lparr> rvActual := Some actual, rvState := (if actual = 0 then Released else Settled) \<rparr>) (qdReservations D) \<rparr>)))))"

definition analysisScopes :: "string \<Rightarrow> string \<Rightarrow> string \<Rightarrow> string \<Rightarrow> int \<Rightarrow> int \<Rightarrow> QuotaScope list" where
  "analysisScopes institution user attempt un cap now =
     (let day = intText (now div 86400) in
      [\<lparr> qsKey = ''call:'' @ attempt @ '':'' @ un, qsLimit = cap \<rparr>,
       \<lparr> qsKey = ''user:'' @ institution @ '':'' @ user @ '':'' @ day @ '':'' @ un, qsLimit = cap * 20 \<rparr>,
       \<lparr> qsKey = ''institution:'' @ institution @ '':'' @ day @ '':'' @ un, qsLimit = cap * 100 \<rparr>,
       \<lparr> qsKey = ''global:'' @ day @ '':'' @ un, qsLimit = cap * 1000 \<rparr>])"

section \<open>The books\<close>

text \<open>
  What the balances ought to say: the reserved part of a budget is the sum of its open reservations, the
  used part the sum of what the settled ones used.
\<close>

definition reservedAt :: "string \<Rightarrow> QuotaDb \<Rightarrow> int" where
  "reservedAt k D = (case selectOne (\<lambda>b. qbKey b = k) (qdBalances D) of Some b \<Rightarrow> qbReserved b | None \<Rightarrow> 0)"

definition usedAt :: "string \<Rightarrow> QuotaDb \<Rightarrow> int" where
  "usedAt k D = (case selectOne (\<lambda>b. qbKey b = k) (qdBalances D) of Some b \<Rightarrow> qbUsed b | None \<Rightarrow> 0)"

definition onScope :: "string \<Rightarrow> Reservation \<Rightarrow> bool" where
  "onScope k r \<longleftrightarrow> k \<in> qsKey ` set (rvScopes r)"

definition openOn :: "string \<Rightarrow> Reservation list \<Rightarrow> int" where
  "openOn k rs = sum_list (map (\<lambda>r. if onScope k r \<and> rvState r = Reserved then rvReserved r else 0) rs)"

definition spentOn :: "string \<Rightarrow> Reservation list \<Rightarrow> int" where
  "spentOn k rs = sum_list (map (\<lambda>r. if onScope k r then (case rvActual r of Some a \<Rightarrow> a | None \<Rightarrow> 0) else 0) rs)"

definition rowsFit :: "QuotaDb \<Rightarrow> bool" where
  "rowsFit D \<longleftrightarrow> distinct (map qbKey (qdBalances D)) \<and> list_all balanceFits (qdBalances D)"

definition balanced :: "QuotaDb \<Rightarrow> bool" where
  "balanced D \<longleftrightarrow> distinct (map rvId (qdReservations D)) \<and> rowsFit D \<and>
     list_all (\<lambda>r. 0 < rvReserved r \<and> distinct (map qsKey (rvScopes r)) \<and>
       (rvState r = Reserved \<longrightarrow> rvActual r = None) \<and>
       list_all (\<lambda>s. list_ex (\<lambda>b. qbKey b = qsKey s) (qdBalances D)) (rvScopes r)) (qdReservations D) \<and>
     (\<forall>k. reservedAt k D = openOn k (qdReservations D) \<and> usedAt k D = spentOn k (qdReservations D))"

lemma wp_eff [wp_simps]:
  "wp (updateS f) Q E s = (case f s of Inl e \<Rightarrow> E e s | Inr (v, s') \<Rightarrow> Q v s')"
  "wp (readS g) Q' E s = (case g s of Inl e \<Rightarrow> E e s | Inr v \<Rightarrow> Q' v s)"
  "wp (modifyS h) Q'' E = (\<lambda>s. Q'' () (h s))"
  "wp (atomically m) Q' E s = wp m Q' (\<lambda>e _. E e s) s"
  by (simp_all add: fun_eq_iff wp_def updateS_def readS_def modifyS_def atomically_def split: sum.splits prod.splits)

lemma selectOne_snoc: "selectOne p (xs @ [b]) = (case selectOne p xs of Some x \<Rightarrow> Some x | None \<Rightarrow> if p b then Some b else None)"
  by (induction xs) (auto simp: selectOne_def)

lemma selectOne_updateWhere:
  "(\<And>b. g (f b) = g b) \<Longrightarrow> selectOne (\<lambda>b. g b = k) (updateWhere (\<lambda>b. g b = k') f bs) =
     map_option (\<lambda>b. if k = k' then f b else b) (selectOne (\<lambda>b. g b = k) bs)"
  by (induction bs) (auto simp: selectOne_def updateWhere_def)

definition hasBalance :: "string \<Rightarrow> QuotaDb \<Rightarrow> bool" where
  "hasBalance k D \<longleftrightarrow> list_ex (\<lambda>b. qbKey b = k) (qdBalances D)"

lemma hasBalance_select: "hasBalance k D \<longleftrightarrow> selectOne (\<lambda>b. qbKey b = k) (qdBalances D) \<noteq> None"
  by (auto simp: hasBalance_def selectOne_None list_ex_iff)

text \<open>The balances of some budgets move by \<open>r\<close> reserved and \<open>u\<close> used; nothing else changes.\<close>

definition shifted :: "int \<Rightarrow> int \<Rightarrow> string set \<Rightarrow> QuotaDb \<Rightarrow> QuotaDb \<Rightarrow> bool" where
  "shifted r u K D D' \<longleftrightarrow> qdReservations D' = qdReservations D \<and> rowsFit D' \<and>
     (\<forall>k. hasBalance k D \<longrightarrow> hasBalance k D') \<and> (\<forall>k \<in> K. hasBalance k D') \<and>
     (\<forall>k. reservedAt k D' = reservedAt k D + (if k \<in> K then r else 0)) \<and>
     (\<forall>k. usedAt k D' = usedAt k D + (if k \<in> K then u else 0))"

lemma shifted_trans:
  "shifted r u K D D1 \<Longrightarrow> shifted r u K' D1 D2 \<Longrightarrow> K \<inter> K' = {} \<Longrightarrow> shifted r u (K \<union> K') D D2"
  unfolding shifted_def by (auto simp: disjoint_iff)

lemma rowsFit_update:
  assumes "rowsFit D" "selectOne (\<lambda>b. qbKey b = k) (qdBalances D) = Some b" "balanceFits (f b)" "\<And>b. qbKey (f b) = qbKey b"
  shows "rowsFit (D\<lparr> qdBalances := updateWhere (\<lambda>b. qbKey b = k) f (qdBalances D) \<rparr>)"
proof -
  have b: "b \<in> set (qdBalances D)" "qbKey b = k" using assms(2) by (auto dest: selectOne_Some)
  have same: "x = b" if "x \<in> set (qdBalances D)" "qbKey x = k" for x
    using that b assms(1) by (auto simp: rowsFit_def distinct_map dest: inj_onD)
  have "map qbKey (updateWhere (\<lambda>b. qbKey b = k) f (qdBalances D)) = map qbKey (qdBalances D)"
    using assms(4) by (simp add: updateWhere_def)
  moreover have "balanceFits (f x)" if "x \<in> set (qdBalances D)" "qbKey x = k" for x using same [OF that] assms(3) by simp
  ultimately show ?thesis using assms(1) by (auto simp: rowsFit_def list_all_iff updateWhere_in)
qed

lemma reserveScope_shifts:
  assumes "reserveScope amount e sc D = Inr ((), D')" "rowsFit D" "0 < amount"
  shows "shifted amount 0 {qsKey sc} D D'"
proof (cases "selectOne (\<lambda>b. qbKey b = qsKey sc) (qdBalances D)")
  case None
  then have "qsKey sc \<notin> qbKey ` set (qdBalances D)" by (auto simp: selectOne_None)
  with assms None show ?thesis
    by (auto simp: reserveScope_def Let_def shifted_def reservedAt_def usedAt_def hasBalance_select selectOne_snoc rowsFit_def
        split: if_splits option.splits)
next
  case (Some b)
  then have b: "b \<in> set (qdBalances D)" by (auto dest: selectOne_Some)
  have D': "D' = D\<lparr> qdBalances := updateWhere (\<lambda>b. qbKey b = qsKey sc) (\<lambda>b. b\<lparr> qbReserved := qbReserved b + amount \<rparr>) (qdBalances D) \<rparr>"
    and room: "qbUsed b + qbReserved b + amount \<le> qbLimit b"
    using assms(1) Some by (auto simp: reserveScope_def split: if_splits)
  have "rowsFit D'"
    unfolding D' by (rule rowsFit_update [OF assms(2) Some]) (use assms(2,3) b room in \<open>auto simp: rowsFit_def list_all_iff balanceFits_def\<close>)
  with Some show ?thesis
    by (auto simp: D' shifted_def reservedAt_def usedAt_def hasBalance_select selectOne_updateWhere split: option.splits)
qed

lemma settleScope_shifts:
  assumes "settleScope r a sc D = Inr ((), D')" "rowsFit D" "hasBalance (qsKey sc) D"
  shows "shifted (- r) a {qsKey sc} D D'"
proof -
  from assms(3) obtain b where b: "selectOne (\<lambda>b. qbKey b = qsKey sc) (qdBalances D) = Some b" by (auto simp: hasBalance_select)
  then have at: "b \<in> set (qdBalances D)" "qbKey b = qsKey sc" by (auto dest: selectOne_Some)
  then have "b\<lparr> qbReserved := qbReserved b - r, qbUsed := qbUsed b + a \<rparr> \<in> set (updateWhere (\<lambda>b. qbKey b = qsKey sc)
      (\<lambda>b. b\<lparr> qbReserved := qbReserved b - r, qbUsed := qbUsed b + a \<rparr>) (qdBalances D))"
    by (auto simp: updateWhere_in intro!: bexI [of _ b])
  with at(2) have fits: "balanceFits (b\<lparr> qbReserved := qbReserved b - r, qbUsed := qbUsed b + a \<rparr>)"
    using assms(1) by (fastforce simp: settleScope_def Let_def list_ex_iff split: if_splits)
  have D': "D' = D\<lparr> qdBalances := updateWhere (\<lambda>b. qbKey b = qsKey sc)
      (\<lambda>b. b\<lparr> qbReserved := qbReserved b - r, qbUsed := qbUsed b + a \<rparr>) (qdBalances D) \<rparr>"
    using assms(1) by (auto simp: settleScope_def Let_def split: if_splits)
  have "rowsFit D'" unfolding D' by (rule rowsFit_update [OF assms(2) b]) (use fits in simp_all)
  with b show ?thesis
    by (auto simp: D' shifted_def reservedAt_def usedAt_def hasBalance_select selectOne_updateWhere split: option.splits)
qed

text \<open>The loop over the scopes of a reservation.\<close>

lemma wp_scopes:
  assumes step: "\<And>sc D D'. sc \<in> set scs \<Longrightarrow> f sc D = Inr ((), D') \<Longrightarrow> rowsFit D \<Longrightarrow> P sc D \<Longrightarrow> shifted r u {qsKey sc} D D'"
    and mono: "\<And>sc D D' K. shifted r u K D D' \<Longrightarrow> P sc D \<Longrightarrow> P sc D'"
    and "rowsFit D" "\<forall>sc \<in> set scs. P sc D" "distinct (map qsKey scs)"
  shows "wp (forS (\<lambda>sc. updateS (f sc)) scs) (\<lambda>_ D'. shifted r u (qsKey ` set scs) D D') (\<lambda>_ _. True) D"
  using assms
proof (induction scs arbitrary: D)
  case Nil
  then show ?case by (simp add: wp_simps shifted_def)
next
  case (Cons sc scs)
  show ?case
  proof (cases "f sc D")
    case (Inr p)
    then obtain D1 where D1: "f sc D = Inr ((), D1)" by (cases p) auto
    have first: "shifted r u {qsKey sc} D D1" using Cons.prems(1) [OF _ D1] Cons.prems(3,4) by simp
    then have "rowsFit D1" by (simp add: shifted_def)
    moreover have "\<forall>sc' \<in> set scs. P sc' D1" using Cons.prems(2) [OF first] Cons.prems(4) by simp
    ultimately have "wp (forS (\<lambda>sc. updateS (f sc)) scs) (\<lambda>_ D'. shifted r u (qsKey ` set scs) D1 D') (\<lambda>_ _. True) D1"
      using Cons.IH Cons.prems(1,2,5) by simp
    then have "wp (forS (\<lambda>sc. updateS (f sc)) scs) (\<lambda>_ D'. shifted r u (insert (qsKey sc) (qsKey ` set scs)) D D') (\<lambda>_ _. True) D1"
      by (rule wp_mono) (use shifted_trans [OF first] Cons.prems(5) in auto)
    with D1 show ?thesis by (simp add: wp_simps)
  qed (simp add: wp_simps)
qed

section \<open>Keeping the books\<close>

lemma sum_updateWhere:
  assumes "distinct (map rvId rs)" "r \<in> set rs" "\<And>x. rvId (f x) = rvId x"
  shows "sum_list (map g (updateWhere (\<lambda>x. rvId x = rvId r) f rs)) = sum_list (map g rs) + (g (f r) - g r :: int)"
  using assms
proof (induction rs)
  case (Cons x xs)
  show ?case
  proof (cases "x = r")
    case True
    then have "updateWhere (\<lambda>x. rvId x = rvId r) f xs = xs"
      using Cons.prems(1) by (auto simp: updateWhere_def image_iff intro!: map_idI)
    with True show ?thesis by (simp add: updateWhere_def)
  next
    case False
    with Cons.prems have "rvId x \<noteq> rvId r" "r \<in> set xs" by auto
    with Cons show ?thesis by (simp add: updateWhere_def)
  qed
qed simp

lemma balanced_reserve:
  assumes "balanced D" "\<forall>xs. mset (arrange xs) = mset xs"
  shows "wp (reserve L arrange rid institution un amount scopes expiresAt) (\<lambda>_. balanced) (\<lambda>_. balanced) D"
proof (cases "quotaInputInvalid amount scopes \<or> selectOne (\<lambda>r. rvId r = rid) (qdReservations D) \<noteq> None")
  case True
  with assms(1) show ?thesis by (auto simp: reserve_def Let_def wp_simps split: option.splits)
next
  case False
  let ?scs = "arrange scopes"
  let ?r = "\<lparr> rvId = rid, rvInstitution = institution, rvUnit = un, rvScopes = ?scs, rvReserved = amount, rvActual = None,
      rvState = Reserved, rvExpiresAt = expiresAt \<rparr>"
  from False have positive: "0 < amount" and keys: "distinct (map qsKey scopes)"
    by (auto simp: quotaInputInvalid_def allDistinct_def not_le)
  have same: "mset ?scs = mset scopes" using assms(2) by simp
  then have d: "distinct (map qsKey ?scs)" using keys by (metis mset_eq_imp_distinct_iff mset_map)
  from False have new: "rid \<notin> rvId ` set (qdReservations D)" by (auto simp: selectOne_None)
  have loop: "wp (forS (\<lambda>sc. updateS (reserveScope amount expiresAt sc)) ?scs)
      (\<lambda>_ D'. shifted amount 0 (qsKey ` set ?scs) D D') (\<lambda>_ _. True) D"
  proof (rule wp_scopes [where P = "\<lambda>_ _. True"])
    show "shifted amount 0 {qsKey sc} Da D'" if "reserveScope amount expiresAt sc Da = Inr ((), D')" "rowsFit Da" for sc Da D'
      by (rule reserveScope_shifts [OF that positive])
  qed (use assms(1) d in \<open>simp_all add: balanced_def\<close>)
  have "balanced (D'\<lparr> qdReservations := qdReservations D' @ [?r] \<rparr>)" if "shifted amount 0 (qsKey ` set ?scs) D D'" for D'
    using that assms(1) positive d new
    by (auto simp: balanced_def shifted_def rowsFit_def openOn_def spentOn_def onScope_def list_all_iff hasBalance_def
        reservedAt_def usedAt_def)
  with loop have "wp (forS (\<lambda>sc. updateS (reserveScope amount expiresAt sc)) ?scs)
      (\<lambda>_ D'. balanced (D'\<lparr> qdReservations := qdReservations D' @ [?r] \<rparr>)) (\<lambda>_ _. balanced D) D"
    using assms(1) by (auto elim: wp_mono)
  with False show ?thesis by (simp add: reserve_def Let_def wp_simps)
qed

text \<open>Settling never runs into a \<^verbatim>\<open>CHECK\<close>, and keeps the books.\<close>

lemma balanced_settle:
  assumes "balanced D"
  shows "wp (settleQuota rid actual) (\<lambda>_. balanced) (\<lambda>_. balanced) D"
proof (cases "selectOne (\<lambda>r. rvId r = rid) (qdReservations D)")
  case None
  with assms show ?thesis by (simp add: settleQuota_def wp_simps ofOption_def)
next
  case (Some r)
  then have r: "r \<in> set (qdReservations D)" "rvId r = rid" by (auto dest: selectOne_Some)
  show ?thesis
  proof (cases "(\<not> isSafeInteger actual \<or> actual < 0 \<or> actual > rvReserved r) \<or> rvState r \<noteq> Reserved")
    case True
    with Some assms show ?thesis by (auto simp: settleQuota_def wp_simps ofOption_def)
  next
    case False
    let ?f = "\<lambda>r. r\<lparr> rvActual := Some actual, rvState := (if actual = 0 then Released else Settled) \<rparr>"
    from assms r have scopes: "distinct (map qsKey (rvScopes r))" "\<forall>sc \<in> set (rvScopes r). hasBalance (qsKey sc) D"
      and ids: "distinct (map rvId (qdReservations D))" and none: "rvActual r = None"
      using False by (auto simp: balanced_def list_all_iff hasBalance_def)
    have loop: "wp (forS (\<lambda>sc. updateS (settleScope (rvReserved r) actual sc)) (rvScopes r))
        (\<lambda>_ D'. shifted (- rvReserved r) actual (qsKey ` set (rvScopes r)) D D') (\<lambda>_ _. True) D"
    proof (rule wp_scopes [where P = "\<lambda>sc. hasBalance (qsKey sc)"])
      show "shifted (- rvReserved r) actual {qsKey sc} Da D'"
        if "settleScope (rvReserved r) actual sc Da = Inr ((), D')" "rowsFit Da" "hasBalance (qsKey sc) Da" for sc Da D'
        by (rule settleScope_shifts [OF that])
    qed (use assms scopes in \<open>simp_all add: balanced_def shifted_def\<close>)
    have "balanced (D'\<lparr> qdReservations := updateWhere (\<lambda>r. rvId r = rid) ?f (qdReservations D') \<rparr>)"
      if shift: "shifted (- rvReserved r) actual (qsKey ` set (rvScopes r)) D D'" for D'
    proof -
      have rows: "qdReservations D' = qdReservations D" using shift by (simp add: shifted_def)
      have "openOn k (updateWhere (\<lambda>x. rvId x = rid) ?f (qdReservations D)) =
          openOn k (qdReservations D) - (if onScope k r then rvReserved r else 0)" for k
        using sum_updateWhere [OF ids r(1), where f = ?f] False r(2) by (simp add: openOn_def onScope_def)
      moreover have "spentOn k (updateWhere (\<lambda>x. rvId x = rid) ?f (qdReservations D)) =
          spentOn k (qdReservations D) + (if onScope k r then actual else 0)" for k
        using sum_updateWhere [OF ids r(1), where f = ?f] none r(2) by (simp add: spentOn_def onScope_def)
      moreover have "map rvId (updateWhere (\<lambda>x. rvId x = rid) ?f (qdReservations D)) = map rvId (qdReservations D)"
        by (simp add: updateWhere_def)
      ultimately show ?thesis
        using assms shift rows
        by (auto simp: balanced_def shifted_def rowsFit_def list_all_iff hasBalance_def updateWhere_in onScope_def
            reservedAt_def usedAt_def split: if_splits)
    qed
    with loop have "wp (forS (\<lambda>sc. updateS (settleScope (rvReserved r) actual sc)) (rvScopes r))
        (\<lambda>_ D'. balanced (D'\<lparr> qdReservations := updateWhere (\<lambda>r. rvId r = rid) ?f (qdReservations D') \<rparr>)) (\<lambda>_ _. balanced D) D"
      using assms by (auto elim: wp_mono)
    with Some False show ?thesis by (simp add: settleQuota_def wp_simps ofOption_def)
  qed
qed

section \<open>Runs\<close>

datatype QuotaCall =
    ReserveCall string string string int "QuotaScope list" int
  | SettleCall string int

definition quotaCall :: "lib \<Rightarrow> (QuotaScope list \<Rightarrow> QuotaScope list) \<Rightarrow> QuotaDb \<Rightarrow> QuotaCall \<Rightarrow> QuotaDb" where
  "quotaCall L arrange D c = (case c of
     ReserveCall rid institution un amount scopes expiresAt \<Rightarrow> snd (reserve L arrange rid institution un amount scopes expiresAt D)
   | SettleCall rid actual \<Rightarrow> snd (settleQuota rid actual D))"

lemma wp_snd: "wp m (\<lambda>_. P) (\<lambda>_. P) s \<Longrightarrow> P (snd (m s))"
  by (auto simp: wp_def split: prod.splits sum.splits)

lemma balanced_run:
  assumes "\<forall>xs. mset (arrange xs) = mset xs"
  shows "balanced D \<Longrightarrow> balanced (foldl (quotaCall L arrange) D calls)"
proof (induction calls arbitrary: D)
  case (Cons c calls)
  have "balanced (quotaCall L arrange D c)"
    using wp_snd [OF balanced_reserve [OF Cons.prems assms]] wp_snd [OF balanced_settle [OF Cons.prems]]
    by (auto simp: quotaCall_def split: QuotaCall.splits)
  with Cons.IH show ?case by simp
qed simp

definition emptyQuota :: QuotaDb where
  "emptyQuota = \<lparr> qdBalances = [], qdReservations = [], qdRequests = [] \<rparr>"

lemma balanced_empty: "balanced emptyQuota"
  by (simp add: balanced_def rowsFit_def emptyQuota_def reservedAt_def usedAt_def openOn_def spentOn_def selectOne_def)

definition qtScopes :: "QuotaScope list" where
  "qtScopes = [\<lparr> qsKey = ''call:a:s'', qsLimit = 10 \<rparr>, \<lparr> qsKey = ''global:1:s'', qsLimit = 100 \<rparr>]"

definition qtLib :: lib where
  "qtLib = \<lparr> canonicalize = (\<lambda>_. []), sha256hex = id, sha256b64 = id, validateJson = (\<lambda>_. Inl []), importJwk = (\<lambda>_. None),
     compactVerify = (\<lambda>_ _. None), compactSign = (\<lambda>_ _ _. []), keccak256 = id \<rparr>"

definition qtCalls :: "QuotaCall list" where
  "qtCalls = [ReserveCall ''r1'' ''i'' ''s'' 6 qtScopes 900, ReserveCall ''r2'' ''i'' ''s'' 6 qtScopes 900, SettleCall ''r1'' 4,
     ReserveCall ''r2'' ''i'' ''s'' 5 qtScopes 900]"

lemma qtRun: "let D = foldl (quotaCall qtLib (\<lambda>xs. xs)) emptyQuota qtCalls in
    (usedAt ''call:a:s'' D, reservedAt ''call:a:s'' D, usedAt ''global:1:s'' D) = (4, 5, 4)"
  by code_simp

text \<open>
  C33: the books of the quotas balance: after any calls that reserve and settle, successful or not, the
  reserved part of every budget is the sum of its open reservations, the used part the sum of what settled
  reservations used, and both together stay within the limit of the budget.
\<close>

theorem quota_books_balance:
  assumes "\<forall>xs. mset (arrange xs) = mset xs"
  shows "let D = foldl (quotaCall L arrange) emptyQuota calls in
     reservedAt k D = openOn k (qdReservations D) \<and> usedAt k D = spentOn k (qdReservations D) \<and>
     list_all (\<lambda>b. qbUsed b + qbReserved b \<le> qbLimit b) (qdBalances D)"
  using balanced_run [OF assms balanced_empty, of L calls]
  by (auto simp: Let_def balanced_def rowsFit_def balanceFits_def list_all_iff)

theorem quota_books_balance_witness:
  "let D = foldl (quotaCall qtLib (\<lambda>xs. xs)) emptyQuota qtCalls in
     usedAt ''call:a:s'' D = 4 \<and> spentOn ''call:a:s'' (qdReservations D) = 4 \<and> openOn ''call:a:s'' (qdReservations D) = 5"
  using quota_books_balance [of "\<lambda>xs. xs" qtLib qtCalls "''call:a:s''"] qtRun by (simp add: Let_def)

end
