(* ===== verification/Identity.thy ===== *)
theory Identity
  imports Journal Service_Authority Ledger
begin

text \<open>
  Resolving an institution's DID, \<^verbatim>\<open>services/api/src/did.ts\<close>, and the signing key of the API,
  \<^verbatim>\<open>services/api/src/keys.ts\<close>. \<^verbatim>\<open>new URL(text)\<close> is the parameter \<open>parseUrl\<close>; a fetch is what it brings:
  nothing, or a status and the chunks of its body, whose stream may break off.
\<close>

section \<open>Documents\<close>

text \<open>\<^verbatim>\<open>z.object({...}).passthrough()\<close>\<close>

definition zOpenObject :: "(string \<times> schema) list \<Rightarrow> schema" where
  "zOpenObject req v = (case v of
     JObj ms \<Rightarrow> list_all (\<lambda>(k, p). case map_of ms k of Some w \<Rightarrow> p w | None \<Rightarrow> False) req | _ \<Rightarrow> False)"

definition documentSchema :: schema where
  "documentSchema = zOpenObject
     [(''id'', zString (\<lambda>_. True)),
      (''verificationMethod'', zArray 0 16 (zObject [(''id'', zString (\<lambda>_. True)), (''controller'', zString (\<lambda>_. True)),
         (''type'', zLiteral (JStr ''JsonWebKey2020'')), (''publicKeyJwk'', publicKeySchema)] [])),
      (''assertionMethod'', zArray 0 16 (zString (\<lambda>_. True))), (''authentication'', zArray 0 16 (zString (\<lambda>_. True)))]"

definition foreignMethod :: "string \<Rightarrow> json \<Rightarrow> bool" where
  "foreignMethod did m \<longleftrightarrow> \<not> isStr m ''controller'' did \<or> \<not> startsWith (did @ ''#'') (jstr m ''id'')"

definition validateDocument :: "json \<Rightarrow> string \<Rightarrow> json result" where
  "validateDocument value did =
     bindE (parseWith documentSchema value) (\<lambda>doc.
     let methods = jarr doc ''verificationMethod'' in
     if \<not> isStr doc ''id'' did \<or> \<not> allDistinct (\<lambda>m. jstr m ''id'') methods \<or> list_ex (foreignMethod did) methods
     then Inl (Error ''DID_CONTROLLER_MISMATCH'') else Inr doc)"

section \<open>Resolution\<close>

record ParsedUrl =
  puHref :: string
  puProtocol :: string
  puUsername :: string
  puPassword :: string
  puPort :: string
  puSearch :: string
  puFragment :: string

datatype DidFetch = FetchFailed | FetchAnswered bool "(string list \<times> bool) option"

record DidResolver =
  drLocal :: "json dict"
  drRemote :: "string dict"
  drParse :: "string \<Rightarrow> ParsedUrl option"
  drFetch :: "string \<Rightarrow> DidFetch"

definition urlForbidden :: "ParsedUrl \<Rightarrow> bool" where
  "urlForbidden u \<longleftrightarrow> puProtocol u \<noteq> ''https:'' \<or> puUsername u \<noteq> [] \<or> puPassword u \<noteq> [] \<or> puPort u \<noteq> [] \<or>
     puSearch u \<noteq> [] \<or> puFragment u \<noteq> []"

text \<open>\<^verbatim>\<open>/^[a-zA-Z0-9._-]+$/\<close>\<close>

definition isPathPart :: "string \<Rightarrow> bool" where
  "isPathPart p \<longleftrightarrow> p \<noteq> [] \<and> allIn (lowerChars @ upperChars @ digitChars @ ''._-'') p \<and> p \<noteq> ''.'' \<and> p \<noteq> ''..''"

fun joinSlash :: "string list \<Rightarrow> string" where
  "joinSlash [] = []"
| "joinSlash [p] = p"
| "joinSlash (p # ps) = p @ ''/'' @ joinSlash ps"

definition expectedUrl :: "string list \<Rightarrow> string" where
  "expectedUrl parts = ''https://'' @ hd parts @ ''/'' @
     (if length parts = 1 then ''.well-known/did.json'' else joinSlash (tl parts) @ ''/did.json'')"

text \<open>The loop over the chunks; a stream that breaks off throws after the chunks it has given.\<close>

fun readChunks :: "nat \<Rightarrow> string \<Rightarrow> string list \<Rightarrow> bool \<Rightarrow> string result" where
  "readChunks n bytes [] complete = (if complete then Inr bytes else Inl LibraryError)"
| "readChunks n bytes (c # cs) complete =
     (if n + length c > 32768 then Inl (Error ''DID_DOCUMENT_TOO_LARGE'')
      else readChunks (n + length c) (bytes @ c) cs complete)"

definition fetchedDocument :: "DidFetch \<Rightarrow> string result" where
  "fetchedDocument r = (case r of
     FetchFailed \<Rightarrow> Inl LibraryError
   | FetchAnswered okay None \<Rightarrow> Inl (Error ''DID_RESOLUTION_FAILED'')
   | FetchAnswered okay (Some (chunks, complete)) \<Rightarrow>
       if \<not> okay then Inl (Error ''DID_RESOLUTION_FAILED'') else readChunks 0 [] chunks complete)"

definition resolveDid :: "lib \<Rightarrow> DidResolver \<Rightarrow> string \<Rightarrow> json result" where
  "resolveDid L R did = (case dget (drLocal R) did of
     Some doc \<Rightarrow> validateDocument doc did
   | None \<Rightarrow> (case dget (drRemote R) did of
       None \<Rightarrow> Inl (Error ''DID_NOT_TRUSTED'')
     | Some pinned \<Rightarrow>
         if pinned = [] \<or> \<not> startsWith ''did:web:'' did then Inl (Error ''DID_NOT_TRUSTED'')
         else bindE (ofOption LibraryError (drParse R pinned)) (\<lambda>u.
           if urlForbidden u then Inl (Error ''DID_URL_FORBIDDEN'')
           else let parts = splitColon (drop 8 did) in
             if \<not> list_all isPathPart parts then Inl (Error ''DID_METHOD_UNSUPPORTED'')
             else if puHref u \<noteq> expectedUrl parts then Inl (Error ''DID_URL_MISMATCH'')
             else bindE (fetchedDocument (drFetch R (puHref u))) (\<lambda>bytes.
               bindE (parseJsonNoDuplicateKeys L bytes) (\<lambda>v. validateDocument v did)))))"

text \<open>A resolved document is the document of the DID, and every key in it is under its control.\<close>

lemma resolveDid_controlled:
  assumes "resolveDid L R did = Inr doc"
  shows "isStr doc ''id'' did" and "list_all (\<lambda>m. isStr m ''controller'' did \<and> startsWith (did @ ''#'') (jstr m ''id''))
    (jarr doc ''verificationMethod'')"
proof -
  have "validateDocument v did = Inr doc \<Longrightarrow> isStr doc ''id'' did \<and> list_all (\<lambda>m. \<not> foreignMethod did m) (jarr doc ''verificationMethod'')" for v
    by (auto simp: validateDocument_def Let_def result_simps list_ex_iff list_all_iff)
  then have "isStr doc ''id'' did \<and> list_all (\<lambda>m. \<not> foreignMethod did m) (jarr doc ''verificationMethod'')"
    using assms by (auto simp: resolveDid_def Let_def result_simps split: option.splits)
  then show "isStr doc ''id'' did" and "list_all (\<lambda>m. isStr m ''controller'' did \<and> startsWith (did @ ''#'') (jstr m ''id''))
    (jarr doc ''verificationMethod'')"
    by (auto simp: foreignMethod_def list_all_iff)
qed

text \<open>The only URL that is ever asked for is the one the DID determines.\<close>

lemma resolveDid_location:
  assumes "g (expectedUrl (splitColon (drop 8 did))) = drFetch R (expectedUrl (splitColon (drop 8 did)))"
  shows "resolveDid L (R\<lparr> drFetch := g \<rparr>) did = resolveDid L R did"
  using assms by (auto simp: resolveDid_def Let_def bindE_def ofOption_def split: option.splits sum.splits)

section \<open>The signing key\<close>

record StoredKey =
  skKid :: string
  skPrivate :: json
  skPublic :: json

record SigningKey =
  sgKid :: string
  sgPrivate :: keyHandle
  sgPublic :: keyHandle
  sgJwk :: json

datatype SigningKeyFile = NoSigningKey | BrokenSigningKey | SigningKeyFile StoredKey

text \<open>
  The generated pair is given with its exported form; \<open>writable\<close> says whether the file can be written.
  The identifier is the digest of the raw key, in base64url, cut to 22 characters.
\<close>

definition loadOrCreateSigningKey ::
    "lib \<Rightarrow> keyHandle \<times> keyHandle \<times> json \<times> json \<Rightarrow> bool \<Rightarrow> (SigningKeyFile, SigningKey) eff" where
  "loadOrCreateSigningKey L pair writable f = (case f of
     SigningKeyFile k \<Rightarrow>
       (bindE (ofOption LibraryError (importJwk L (skPrivate k))) (\<lambda>private.
        bindE (ofOption LibraryError (importJwk L (skPublic k))) (\<lambda>public.
          Inr \<lparr> sgKid = skKid k, sgPrivate = private, sgPublic = public, sgJwk = skPublic k \<rparr>)), f)
   | BrokenSigningKey \<Rightarrow> (Inl LibraryError, f)
   | NoSigningKey \<Rightarrow> (case pair of (private, public, privateJwk, publicJwk) \<Rightarrow>
       let kid = jsSlice 22 (sha256b64 L (map char_of (bufferFromBase64url (jstr publicJwk ''x'')))) in
       if \<not> writable then (Inl LibraryError, f)
       else (Inr \<lparr> sgKid = kid, sgPrivate = private, sgPublic = public, sgJwk = publicJwk \<rparr>,
             SigningKeyFile \<lparr> skKid = kid, skPrivate = privateJwk, skPublic = publicJwk \<rparr>)))"

lemma signingKey_stable:
  assumes "loadOrCreateSigningKey L pair writable f = (Inr k, f')"
    and "importJwk L (fst (snd (snd pair))) = Some (fst pair)" "importJwk L (snd (snd (snd pair))) = Some (fst (snd pair))"
  shows "loadOrCreateSigningKey L pair' writable' f' = (Inr k, f')"
  using assms
  by (cases pair) (auto simp: loadOrCreateSigningKey_def Let_def bindE_def ofOption_def
      split: SigningKeyFile.splits if_splits option.splits sum.splits)

end
