(* ===== verification/Sessions.thy ===== *)
theory Sessions
  imports Effects
begin

text \<open>
  The connections of a session, \<^verbatim>\<open>services/api/src/session-connections.ts\<close>: logging out closes them at once,
  and a periodic check closes them when the session has expired or was ended elsewhere. A connection is a
  number; its closure variables \<^verbatim>\<open>closed\<close> and \<^verbatim>\<open>checking\<close> are \<open>Watch\<close>. The timers fire as events: the
  interval, the end of a check, and the deadline of a check, which ends the race the same way as a failure.
  \<open>scInvalidated\<close> records the calls of \<^verbatim>\<open>invalidate\<close>.
\<close>

record Watch =
  wtSession :: string
  wtClosed :: bool
  wtChecking :: bool

record SessionConnections =
  scSessions :: "nat list dict"
  scWatches :: "Watch list"
  scInvalidated :: "nat list"

section \<open>Operations\<close>

definition setWatch :: "nat \<Rightarrow> (Watch \<Rightarrow> Watch) \<Rightarrow> SessionConnections \<Rightarrow> SessionConnections" where
  "setWatch i f S = S\<lparr> scWatches := (scWatches S)[i := f (scWatches S ! i)] \<rparr>"

definition stopWatch :: "nat \<Rightarrow> SessionConnections \<Rightarrow> SessionConnections" where
  "stopWatch i S =
     (if i \<ge> length (scWatches S) \<or> wtClosed (scWatches S ! i) then S
      else let sid = wtSession (scWatches S ! i);
               S1 = setWatch i (\<lambda>w. w\<lparr> wtClosed := True \<rparr>) S;
               entries = filter (\<lambda>k. k \<noteq> i) (case dget (scSessions S1) sid of Some es \<Rightarrow> es | None \<Rightarrow> []) in
           S1\<lparr> scSessions := (if entries = [] then ddelete sid (scSessions S1) else dput sid entries (scSessions S1)) \<rparr>)"

definition revokeWatch :: "nat \<Rightarrow> SessionConnections \<Rightarrow> SessionConnections" where
  "revokeWatch i S =
     (if i \<ge> length (scWatches S) \<or> wtClosed (scWatches S ! i) then S
      else let S1 = stopWatch i S in S1\<lparr> scInvalidated := scInvalidated S1 @ [i] \<rparr>)"

definition pollWatch :: "nat \<Rightarrow> SessionConnections \<Rightarrow> SessionConnections" where
  "pollWatch i S =
     (if i \<ge> length (scWatches S) \<or> wtClosed (scWatches S ! i) \<or> wtChecking (scWatches S ! i) then S
      else setWatch i (\<lambda>w. w\<lparr> wtChecking := True \<rparr>) S)"

text \<open>The end of the race: \<open>passed\<close> says whether the check came back in time and did not throw.\<close>

definition checkEnds :: "nat \<Rightarrow> bool \<Rightarrow> SessionConnections \<Rightarrow> SessionConnections" where
  "checkEnds i passed S =
     (if i \<ge> length (scWatches S) \<or> \<not> wtChecking (scWatches S ! i) then S
      else setWatch i (\<lambda>w. w\<lparr> wtChecking := False \<rparr>) (if passed then S else revokeWatch i S))"

definition watchSession :: "string \<Rightarrow> SessionConnections \<Rightarrow> nat \<times> SessionConnections" where
  "watchSession sid S =
     (let i = length (scWatches S);
          S1 = S\<lparr> scWatches := scWatches S @ [\<lparr> wtSession = sid, wtClosed = False, wtChecking = False \<rparr>],
                  scSessions := dput sid ((case dget (scSessions S) sid of Some es \<Rightarrow> es | None \<Rightarrow> []) @ [i]) (scSessions S) \<rparr> in
      (i, pollWatch i S1))"

definition revokeSession :: "string \<Rightarrow> SessionConnections \<Rightarrow> SessionConnections" where
  "revokeSession sid S = fold revokeWatch (case dget (scSessions S) sid of Some es \<Rightarrow> es | None \<Rightarrow> []) S"

definition closeSessions :: "SessionConnections \<Rightarrow> SessionConnections" where
  "closeSessions S = fold revokeSession (map fst (scSessions S)) S"

section \<open>Invariant\<close>

text \<open>The registered connections are exactly the open ones, and a connection is invalidated at most once.\<close>

definition registered :: "SessionConnections \<Rightarrow> string \<Rightarrow> nat set" where
  "registered S sid = (case dget (scSessions S) sid of Some es \<Rightarrow> set es | None \<Rightarrow> {})"

definition openIn :: "Watch list \<Rightarrow> string \<Rightarrow> nat set" where
  "openIn ws sid = {i. i < length ws \<and> \<not> wtClosed (ws ! i) \<and> wtSession (ws ! i) = sid}"

definition connectionsInv :: "SessionConnections \<Rightarrow> bool" where
  "connectionsInv S \<longleftrightarrow> (\<forall>sid. registered S sid = openIn (scWatches S) sid) \<and> distinct (scInvalidated S) \<and>
     (\<forall>i \<in> set (scInvalidated S). i < length (scWatches S) \<and> wtClosed (scWatches S ! i))"

lemma openIn_update:
  assumes "i < length ws"
  shows "openIn (ws[i := w]) sid =
    (if \<not> wtClosed w \<and> wtSession w = sid then insert i (openIn ws sid) else openIn ws sid - {i})"
  using assms by (auto simp: openIn_def nth_list_update split: if_splits)

lemma setWatch_inv:
  assumes "connectionsInv S" "\<And>w. wtClosed (f w) = wtClosed w" "\<And>w. wtSession (f w) = wtSession w"
  shows "connectionsInv (setWatch i f S)"
proof (cases "i < length (scWatches S)")
  case True
  have "openIn ((scWatches S)[i := f (scWatches S ! i)]) sid = openIn (scWatches S) sid" for sid
    using True assms(2,3) by (auto simp: openIn_update) (auto simp: openIn_def)
  with assms True show ?thesis by (auto simp: connectionsInv_def registered_def setWatch_def nth_list_update)
next
  case False
  then have "setWatch i f S = S" by (cases S) (simp add: setWatch_def list_update_beyond)
  with assms(1) show ?thesis by simp
qed

text \<open>Stopping takes a connection out of the register and leaves the others alone.\<close>

lemma stopWatch_inv:
  assumes "connectionsInv S" "i < length (scWatches S)" "\<not> wtClosed (scWatches S ! i)"
  shows "connectionsInv (stopWatch i S)" and "scInvalidated (stopWatch i S) = scInvalidated S"
    and "scWatches (stopWatch i S) = (scWatches S)[i := (scWatches S ! i)\<lparr> wtClosed := True \<rparr>]"
proof -
  let ?sid = "wtSession (scWatches S ! i)"
  have sessions: "registered (stopWatch i S) sid = (if sid = ?sid then registered S sid - {i} else registered S sid)" for sid
    using assms(2,3) by (auto simp: stopWatch_def Let_def setWatch_def registered_def filter_empty_conv split: option.splits)
  have reg: "registered S sid = openIn (scWatches S) sid" for sid using assms(1) by (simp add: connectionsInv_def)
  show watches: "scWatches (stopWatch i S) = (scWatches S)[i := (scWatches S ! i)\<lparr> wtClosed := True \<rparr>]"
    and inval: "scInvalidated (stopWatch i S) = scInvalidated S"
    using assms(2,3) by (auto simp: stopWatch_def Let_def setWatch_def)
  have "registered (stopWatch i S) sid = openIn (scWatches (stopWatch i S)) sid" for sid
    unfolding sessions watches openIn_update [OF assms(2)] reg by (auto simp: openIn_def)
  with assms(1,2) show "connectionsInv (stopWatch i S)"
    by (auto simp: connectionsInv_def inval watches nth_list_update)
qed

lemma revokeWatch_inv: "connectionsInv S \<Longrightarrow> connectionsInv (revokeWatch i S)"
proof (cases "i \<ge> length (scWatches S) \<or> wtClosed (scWatches S ! i)")
  case False
  assume inv: "connectionsInv S"
  from False have i: "i < length (scWatches S)" "\<not> wtClosed (scWatches S ! i)" by simp_all
  then have "i \<notin> set (scInvalidated S)" using inv by (auto simp: connectionsInv_def)
  with stopWatch_inv [OF inv i] i False show ?thesis
    by (auto simp: revokeWatch_def Let_def connectionsInv_def registered_def)
qed (simp add: revokeWatch_def)

lemma fold_inv: "(\<And>x S. connectionsInv S \<Longrightarrow> connectionsInv (f x S)) \<Longrightarrow> connectionsInv S \<Longrightarrow> connectionsInv (fold f xs S)"
  by (induction xs arbitrary: S) auto

lemma pollWatch_inv: "connectionsInv S \<Longrightarrow> connectionsInv (pollWatch i S)"
  by (auto simp: pollWatch_def intro!: setWatch_inv)

lemma checkEnds_inv: "connectionsInv S \<Longrightarrow> connectionsInv (checkEnds i passed S)"
  by (auto simp: checkEnds_def intro!: setWatch_inv revokeWatch_inv)

lemma revokeSession_inv: "connectionsInv S \<Longrightarrow> connectionsInv (revokeSession sid S)"
  unfolding revokeSession_def by (rule fold_inv [OF revokeWatch_inv])

lemma watchSession_inv:
  assumes "connectionsInv S"
  shows "connectionsInv (snd (watchSession sid S))"
proof -
  let ?S1 = "S\<lparr> scWatches := scWatches S @ [\<lparr> wtSession = sid, wtClosed = False, wtChecking = False \<rparr>],
      scSessions := dput sid ((case dget (scSessions S) sid of Some es \<Rightarrow> es | None \<Rightarrow> []) @ [length (scWatches S)]) (scSessions S) \<rparr>"
  have reg: "registered ?S1 s = (if s = sid then insert (length (scWatches S)) (registered S s) else registered S s)" for s
    by (auto simp: registered_def split: option.splits)
  have "openIn (ws @ [w]) s = (if \<not> wtClosed w \<and> wtSession w = s then insert (length ws) (openIn ws s) else openIn ws s)" for ws w s
    by (auto simp: openIn_def nth_append less_Suc_eq)
  then have "connectionsInv ?S1"
    using assms by (simp add: connectionsInv_def reg nth_append less_Suc_eq)
  then show ?thesis by (simp add: watchSession_def Let_def pollWatch_inv)
qed

section \<open>Ending a session\<close>

lemma revokeWatch_closes: "connectionsInv S \<Longrightarrow> i < length (scWatches S) \<Longrightarrow> wtClosed (scWatches (revokeWatch i S) ! i)"
  using stopWatch_inv(3) [of S i] by (auto simp: revokeWatch_def Let_def)

lemma revokeWatch_keeps: "length (scWatches (revokeWatch i S)) = length (scWatches S)"
  "wtSession (scWatches (revokeWatch i S) ! k) = wtSession (scWatches S ! k)"
  "wtClosed (scWatches S ! k) \<Longrightarrow> wtClosed (scWatches (revokeWatch i S) ! k)"
  by (auto simp: revokeWatch_def Let_def stopWatch_def setWatch_def nth_list_update)

lemma fold_revoke_closes:
  "connectionsInv S \<Longrightarrow> set es \<subseteq> {..<length (scWatches S)} \<Longrightarrow> k \<in> set es \<or> wtClosed (scWatches S ! k) \<Longrightarrow>
     wtClosed (scWatches (fold revokeWatch es S) ! k)"
proof (induction es arbitrary: S)
  case (Cons e es)
  show ?case
    using Cons.IH [OF revokeWatch_inv [OF Cons.prems(1)], of e] Cons.prems revokeWatch_closes [OF Cons.prems(1), of e]
    by (auto simp: revokeWatch_keeps intro: revokeWatch_keeps(3))
qed simp

text \<open>When a session has been revoked, every one of its connections is closed.\<close>

lemma revokeSession_closes:
  assumes "connectionsInv S" "k < length (scWatches S)" "wtSession (scWatches S ! k) = sid"
  shows "wtClosed (scWatches (revokeSession sid S) ! k)"
proof -
  have reg: "registered S sid = openIn (scWatches S) sid" using assms(1) by (simp add: connectionsInv_def)
  show ?thesis
  proof (cases "dget (scSessions S) sid")
    case None
    with reg assms(2,3) show ?thesis by (auto simp: registered_def openIn_def revokeSession_def)
  next
    case (Some es)
    with reg have "set es = openIn (scWatches S) sid" by (simp add: registered_def)
    with fold_revoke_closes [OF assms(1), of es k] Some assms(2,3) show ?thesis
      by (auto simp: revokeSession_def openIn_def)
  qed
qed

end
