(* ===== verification/Patterns.thy ===== *)
theory Patterns
  imports Prelude
begin

text \<open>
  JavaScript strings as sequences of characters, and the regular expressions of the sources.

  A string is cut into its characters, each the bytes of one UTF-8 sequence. A regular expression
  is a value of \<open>rx\<close>; \<open>rests r xs\<close> lists what a match of \<open>r\<close> at the front of \<open>xs\<close> can leave,
  in the order in which backtracking tries them, so that its head is what \<^verbatim>\<open>exec\<close> returns.
  A bounded repetition counts UTF-16 code units, as the source's expressions (without the flag
  \<^verbatim>\<open>u\<close>) do: a character outside the basic plane counts twice.
\<close>

named_theorems pattern_eval

section \<open>Characters\<close>

function chars :: "string \<Rightarrow> string list" where
  "chars [] = []"
| "chars (c # s) = (c # takeWhile continuation s) # chars (dropWhile continuation s)"
  by pat_completeness auto
termination
  by (relation "measure length") (auto simp: le_imp_less_Suc length_dropWhile_le)

text \<open>The UTF-8 encoding of a code point, and of a text given by its code points.\<close>

definition utf8 :: "nat \<Rightarrow> string" where
  "utf8 n = (if n < 128 then [char_of n]
     else if n < 2048 then [char_of (192 + n div 64), char_of (128 + n mod 64)]
     else if n < 65536 then [char_of (224 + n div 4096), char_of (128 + n div 64 mod 64), char_of (128 + n mod 64)]
     else [char_of (240 + n div 262144), char_of (128 + n div 4096 mod 64), char_of (128 + n div 64 mod 64),
           char_of (128 + n mod 64)])"

definition points :: "nat list \<Rightarrow> string" where
  "points ns = concat (map utf8 ns)"

lemma concat_chars [simp]: "concat (chars s) = s"
  by (induction s rule: chars.induct) auto

text \<open>\<^verbatim>\<open>\s\<close>, the white space and line terminators of ECMAScript, and \<^verbatim>\<open>.\<close>.\<close>

definition whiteChars :: "string list" where
  "whiteChars = map utf8 ([9, 10, 11, 12, 13, 32, 160, 5760] @ [8192..<8203] @ [8232, 8233, 8239, 8287, 12288, 65279])"

definition isWhite :: "string \<Rightarrow> bool" where
  "isWhite c \<longleftrightarrow> c \<in> set whiteChars"

definition notLineEnd :: "string \<Rightarrow> bool" where
  "notLineEnd c \<longleftrightarrow> c \<notin> set (map utf8 [10, 13, 8232, 8233])"

definition blank :: "string \<Rightarrow> bool" where
  "blank s \<longleftrightarrow> list_all isWhite (chars s)"

text \<open>\<^verbatim>\<open>s.trim()\<close>, \<^verbatim>\<open>s.slice(0, n)\<close> and \<^verbatim>\<open>s.slice(-n)\<close>; a surrogate pair that the cut splits is left out.\<close>

definition trimmed :: "string list \<Rightarrow> string list" where
  "trimmed xs = rev (dropWhile isWhite (rev (dropWhile isWhite xs)))"

fun firstUnits :: "nat \<Rightarrow> string list \<Rightarrow> string list" where
  "firstUnits n [] = []"
| "firstUnits n (c # cs) = (if jsLength c \<le> n then c # firstUnits (n - jsLength c) cs else [])"

definition lastUnits :: "nat \<Rightarrow> string list \<Rightarrow> string list" where
  "lastUnits n xs = rev (firstUnits n (rev xs))"

definition jsTrim :: "string \<Rightarrow> string" where
  "jsTrim s = concat (trimmed (chars s))"

definition sliceTo :: "nat \<Rightarrow> string \<Rightarrow> string" where
  "sliceTo n s = concat (firstUnits n (chars s))"

definition sliceLast :: "nat \<Rightarrow> string \<Rightarrow> string" where
  "sliceLast n s = concat (lastUnits n (chars s))"

text \<open>\<^verbatim>\<open>s.includes(t)\<close>\<close>

fun textContains :: "'a list \<Rightarrow> 'a list \<Rightarrow> bool" where
  "textContains [] t \<longleftrightarrow> t = []"
| "textContains (c # s) t \<longleftrightarrow> take (length t) (c # s) = t \<or> textContains s t"

lemma textContains_iff: "textContains s t \<longleftrightarrow> (\<exists>u v. s = u @ t @ v)"
proof (induction s)
  case (Cons c s)
  have "take (length t) (c # s) = t \<longleftrightarrow> (\<exists>v. c # s = t @ v)"
    by (metis append_eq_conv_conj)
  moreover have "(\<exists>u v. c # s = u @ t @ v) \<longleftrightarrow> (\<exists>v. c # s = t @ v) \<or> (\<exists>u v. s = u @ t @ v)"
    by (auto simp: Cons_eq_append_conv)
  ultimately show ?case using Cons.IH by simp
qed simp

text \<open>\<^verbatim>\<open>xs.join(' ')\<close>\<close>

fun joinSpace :: "string list \<Rightarrow> string" where
  "joinSpace [] = []"
| "joinSpace [x] = x"
| "joinSpace (x # xs) = x @ CHR '' '' # joinSpace xs"

section \<open>Regular expressions\<close>

datatype rx =
    Empty
  | Fail
  | One "string \<Rightarrow> bool"
  | UpTo nat "string \<Rightarrow> bool"     \<comment> \<open>\<^verbatim>\<open>p{0,n}\<close>\<close>
  | Many "string \<Rightarrow> bool"         \<comment> \<open>\<^verbatim>\<open>p*\<close>\<close>
  | Then rx rx
  | Or rx rx
  | More rx                       \<comment> \<open>\<^verbatim>\<open>r+\<close>\<close>
  | AtEnd                         \<comment> \<open>\<^verbatim>\<open>$\<close>\<close>

fun upToRests :: "(string \<Rightarrow> bool) \<Rightarrow> nat \<Rightarrow> string list \<Rightarrow> string list list" where
  "upToRests p n [] = [[]]"
| "upToRests p n (x # xs) = (if p x \<and> jsLength x \<le> n then upToRests p (n - jsLength x) xs else []) @ [x # xs]"

fun manyRests :: "(string \<Rightarrow> bool) \<Rightarrow> string list \<Rightarrow> string list list" where
  "manyRests p [] = [[]]"
| "manyRests p (x # xs) = (if p x then manyRests p xs else []) @ [x # xs]"

text \<open>Further rounds of a repetition, at most \<open>n\<close>; a round that consumes nothing is not tried.\<close>

primrec again :: "nat \<Rightarrow> (string list \<Rightarrow> string list list) \<Rightarrow> string list \<Rightarrow> string list list" where
  "again 0 m xs = [xs]"
| "again (Suc n) m xs = concat (map (again n m) (filter (\<lambda>ys. length ys < length xs) (m xs))) @ [xs]"

primrec rests :: "rx \<Rightarrow> string list \<Rightarrow> string list list" where
  "rests Empty xs = [xs]"
| "rests Fail xs = []"
| "rests (One p) xs = (case xs of [] \<Rightarrow> [] | x # ys \<Rightarrow> if p x then [ys] else [])"
| "rests (UpTo n p) xs = upToRests p n xs"
| "rests (Many p) xs = manyRests p xs"
| "rests (Then a b) xs = concat (map (rests b) (rests a xs))"
| "rests (Or a b) xs = rests a xs @ rests b xs"
| "rests (More a) xs = concat (map (again (length xs) (rests a)) (rests a xs))"
| "rests AtEnd xs = (if xs = [] then [[]] else [])"

text \<open>A literal text, one of several characters, an alternation, a sequence and an option \<^verbatim>\<open>r?\<close>.\<close>

definition literal :: "string \<Rightarrow> rx" where
  "literal s = foldr (\<lambda>c. Then (One (\<lambda>x. x = c))) (chars s) Empty"

definition anyOf :: "rx list \<Rightarrow> rx" where
  "anyOf rs = foldr Or rs Fail"

definition inOrder :: "rx list \<Rightarrow> rx" where
  "inOrder rs = foldr Then rs Empty"

definition words :: "nat list list \<Rightarrow> rx" where
  "words ws = anyOf (map (\<lambda>w. literal (points w)) ws)"

definition maybe :: "rx \<Rightarrow> rx" where
  "maybe r = Or r Empty"

definition spaces :: rx where
  "spaces = Many isWhite"

definition upTo :: "nat \<Rightarrow> rx" where
  "upTo n = UpTo n notLineEnd"

text \<open>\<^verbatim>\<open>r.test(s)\<close> and \<^verbatim>\<open>r.exec(s)\<close>: the leftmost match, with what precedes and follows it.\<close>

fun occurs :: "rx \<Rightarrow> string list \<Rightarrow> bool" where
  "occurs r [] \<longleftrightarrow> rests r [] \<noteq> []"
| "occurs r (x # xs) \<longleftrightarrow> rests r (x # xs) \<noteq> [] \<or> occurs r xs"

type_synonym occurrence = "string list \<times> string list \<times> string list"

fun execRx :: "rx \<Rightarrow> string list \<Rightarrow> occurrence option" where
  "execRx r xs = (case rests r xs of
     ys # _ \<Rightarrow> Some ([], take (length xs - length ys) xs, ys)
   | [] \<Rightarrow> (case xs of [] \<Rightarrow> None
       | x # xs' \<Rightarrow> map_option (\<lambda>(before, m, after). (x # before, m, after)) (execRx r xs')))"

declare execRx.simps [simp del]

text \<open>
  \<^verbatim>\<open>s.matchAll(r)\<close>: the successive matches of a global expression, each with what precedes it since
  the previous one, and what is left. The global expressions of the sources match no empty text.
\<close>

primrec occurrences :: "nat \<Rightarrow> rx \<Rightarrow> string list \<Rightarrow> (string list \<times> string list) list \<times> string list" where
  "occurrences 0 r xs = ([], xs)"
| "occurrences (Suc n) r xs = (case execRx r xs of
     None \<Rightarrow> ([], xs)
   | Some (before, m, after) \<Rightarrow>
       if m = [] then ([], xs)
       else (case occurrences n r after of (ms, left) \<Rightarrow> ((before, m) # ms, left)))"

definition allOccurrences :: "rx \<Rightarrow> string list \<Rightarrow> (string list \<times> string list) list \<times> string list" where
  "allOccurrences r xs = occurrences (Suc (length xs)) r xs"

text \<open>\<^verbatim>\<open>s.match(r)\<close> and \<^verbatim>\<open>s.replace(r, f)\<close> with the flag \<^verbatim>\<open>g\<close>.\<close>

definition matchAll :: "rx \<Rightarrow> string list \<Rightarrow> string list list" where
  "matchAll r xs = map snd (fst (allOccurrences r xs))"

definition replaceAll :: "rx \<Rightarrow> (string list \<Rightarrow> string list) \<Rightarrow> string list \<Rightarrow> string list" where
  "replaceAll r f xs = (case allOccurrences r xs of (ms, left) \<Rightarrow> concat (map (\<lambda>(b, m). b @ f m) ms) @ left)"

end
