(* ===== verification/Analysis.thy ===== *)
theory Analysis
  imports Finals Patterns
begin

text \<open>
  The messages of the risk analysis,
      \<^verbatim>\<open>packages/protocol/src/analysis.ts\<close>: the four risk
  categories and codes, the result of an analysis, what a language model may answer, the
  revisions of a transcript and the events the analysis publishes.
\<close>

section \<open>Analyses\<close>

definition transferCategory :: string where "transferCategory = points [49569, 44552, 32, 50976, 46020]"
definition remoteCategory :: string where "remoteCategory = points [50896, 44201, 51228, 50612, 32, 49444,
    52824]"
definition otpCategory :: string where "otpCategory = points [51064, 51613, 48264, 54840, 32, 50836, 44396]"
definition secrecyCategory :: string where "secrecyCategory = points [48708, 48128, 32, 50976, 51648, 32,
    44053, 50836]"

definition riskCategories :: "string list" where
  "riskCategories = [transferCategory, remoteCategory, otpCategory, secrecyCategory]"

definition riskSignalSchema :: "nat \<Rightarrow> schema" where
  "riskSignalSchema longest = zObject
    [(''category'', zEnum riskCategories), (''evidenceSpan'', zString (lengthBetween 1 longest)),
     (''explanation'', zString (lengthBetween 1 400))] []"

definition riskAnalysisSchema :: schema where
  "riskAnalysisSchema = zObject
    [(''signals'', zArray 0 8 (riskSignalSchema 160)), (''recommendedAction'', zString (lengthBetween 1 600)),
     (''limitations'', zString (lengthBetween 1 600))] []"

definition purposeAssessmentSchema :: schema where
  "purposeAssessmentSchema v \<longleftrightarrow> zObject
    [(''relation'', zEnum [''suspected'', ''not-detected'', ''undetermined'']),
     (''evidenceSpan'', zString (lengthBetween 0 600)), (''reason'',
         zString (lengthBetween 1 400))] [] v \<and>
     (jstr v ''relation'' \<noteq> ''suspected'' \<or> jstr v ''evidenceSpan'' \<noteq> [])"

definition serviceAnalysisSchema :: schema where
  "serviceAnalysisSchema = zObject
    [(''signals'', zArray 0 8 (riskSignalSchema 160)), (''recommendedAction'', zString (lengthBetween 1 600)),
     (''limitations'', zString (lengthBetween 1 600))] [(''purpose'', purposeAssessmentSchema)]"

text \<open>A signal and an analysis, as the values they are in the code.\<close>

record RiskSignal =
  rsCategory :: string
  rsEvidence :: string
  rsExplanation :: string

record RiskAnalysis =
  raSignals :: "RiskSignal list"
  raAction :: string
  raLimitations :: string

definition signalJson :: "RiskSignal \<Rightarrow> json" where
  "signalJson s = JObj [(''category'', JStr (rsCategory s)), (''evidenceSpan'', JStr (rsEvidence s)),
     (''explanation'', JStr (rsExplanation s))]"

definition readSignal :: "json \<Rightarrow> RiskSignal" where
  "readSignal v = \<lparr> rsCategory = jstr v ''category'', rsEvidence = jstr v ''evidenceSpan'',
     rsExplanation = jstr v ''explanation'' \<rparr>"

definition analysisJson :: "RiskAnalysis \<Rightarrow> json" where
  "analysisJson a = JObj [(''signals'', JArr (map signalJson (raSignals a))),
     (''recommendedAction'', JStr (raAction a)), (''limitations'', JStr (raLimitations a))]"

definition readAnalysis :: "json \<Rightarrow> RiskAnalysis" where
  "readAnalysis v = \<lparr> raSignals = map readSignal (jarr v ''signals''),
      raAction = jstr v ''recommendedAction'',
     raLimitations = jstr v ''limitations'' \<rparr>"

section \<open>Transcripts\<close>

definition segmentIdSchema :: schema where
  "segmentIdSchema = zString (lengthBetween 1 100)"

definition transcriptRevisionSchema :: schema where
  "transcriptRevisionSchema = zObject
    [(''streamId'', segmentIdSchema), (''segmentId'', segmentIdSchema), (''revision'', positiveInt),
     (''final'', zBool), (''text'', zString (lengthBetween 0 4000)), (''source'',
         zLiteral (JStr ''remote''))] []"

section \<open>Assessments\<close>

definition riskCodes :: "string list" where
  "riskCodes = [''OTP'', ''TRANSFER'', ''REMOTE_CONTROL'', ''SECRECY'']"

definition riskCodeSchema :: schema where
  "riskCodeSchema = zEnum riskCodes"

definition RISK_CRITERIA :: "string \<Rightarrow> string" where
  "RISK_CRITERIA code =
     (if code = ''OTP'' then points [51064, 51613, 48264, 54840, 183, 51068, 54924, 50857, 32, 48708,
         48128, 48264, 54840, 32, 46321, 32, 51064, 51613, 32, 48708, 48128, 51012, 32, 49345, 45824,
         50640, 44172, 32, 51204, 45804, 54616, 46972, 45716, 32, 50836, 44396]
      else if code = ''TRANSFER'' then points [49688, 49888, 51088, 50640, 44172, 32, 51088, 44552, 51012,
          32, 51060, 52404, 54616, 44144, 45208, 32, 51077, 44552, 54616, 46972, 45716, 32, 50836, 44396]
      else if code = ''REMOTE_CONTROL'' then points [50896, 44201, 51228, 50612, 32, 46020, 44396, 32,
          49444, 52824, 32, 46608, 45716, 32, 50896, 44201, 32, 51217, 44540, 51012, 32, 54728, 50857,
          54616, 46972, 45716, 32, 50836, 44396]
      else points [51008, 54665, 183, 44032, 51313, 32, 46321, 32, 46021, 47549, 51201, 51064, 32, 49345,
          45812, 51060, 45208, 32, 54869, 51064, 51012, 32, 47561, 45716, 32, 50836, 44396])"

definition riskClassificationSchema :: schema where
  "riskClassificationSchema = zEnum [''detected'', ''not-detected'', ''undetermined'']"

text \<open>\<^verbatim>\<open>/^u[0-5]$/\<close>,
    and what the model answers about one code; the explanation is trimmed.\<close>

definition isUnitId :: "string \<Rightarrow> bool" where
  "isUnitId s \<longleftrightarrow> s \<in> set [''u0'', ''u1'', ''u2'', ''u3'', ''u4'', ''u5'']"

record ProviderAssessment =
  paCode :: string
  paResult :: string
  paEvidenceIds :: "string list"
  paExplanation :: string

definition providerAssessmentSchema :: schema where
  "providerAssessmentSchema = zObject
    [(''code'', riskCodeSchema), (''result'', riskClassificationSchema),
     (''evidenceIds'', zArray 0 6 (zString isUnitId)),
     (''explanation'', zString (\<lambda>s. lengthBetween 1 160 (jsTrim s)))] []"

definition riskProviderOutputSchema :: schema where
  "riskProviderOutputSchema = zObject [(''assessments'', zArray 0 4 providerAssessmentSchema)] []"

definition stringOf :: "json \<Rightarrow> string" where
  "stringOf v = (case v of JStr s \<Rightarrow> s | _ \<Rightarrow> [])"

definition readAssessment :: "json \<Rightarrow> ProviderAssessment" where
  "readAssessment v = \<lparr> paCode = jstr v ''code'', paResult = jstr v ''result'',
     paEvidenceIds = map stringOf (jarr v ''evidenceIds''),
         paExplanation = jsTrim (jstr v ''explanation'') \<rparr>"

definition parseProviderOutput :: "json \<Rightarrow> ProviderAssessment list result" where
  "parseProviderOutput v =
     bindE (parseWith riskProviderOutputSchema v) (\<lambda>w. Inr (map readAssessment (jarr w ''assessments'')))"

text \<open>The evidence and the assessment that the server publishes.\<close>

record RiskUnit =
  ruId :: string
  ruSegment :: string
  ruRevision :: int
  ruText :: string

record RiskEvidence =
  reSegment :: string
  reRevision :: int
  reQuote :: string
  reState :: string
  reWithdrawal :: "(string \<times> int \<times> string) option"

record RiskAssessment =
  rkCode :: string
  rkResult :: string
  rkSource :: string
  rkExplanation :: string
  rkEvidence :: "RiskEvidence list"
  rkEvaluated :: "int option"

definition withdrawalJson :: "string \<times> int \<times> string \<Rightarrow> json" where
  "withdrawalJson w = (case w of (segment, revision, quote) \<Rightarrow>
     JObj [(''segmentId'', JStr segment), (''revision'', JNum revision), (''quote'', JStr quote)])"

definition evidenceJson :: "RiskEvidence \<Rightarrow> json" where
  "evidenceJson e = JObj ([(''segmentId'', JStr (reSegment e)), (''revision'', JNum (reRevision e)),
     (''quote'', JStr (reQuote e)), (''state'', JStr (reState e))] @
     (case reWithdrawal e of None \<Rightarrow> [] | Some w \<Rightarrow> [(''withdrawal'',
         withdrawalJson w)]))"

definition assessmentJson :: "RiskAssessment \<Rightarrow> json" where
  "assessmentJson a = JObj ([(''code'', JStr (rkCode a)), (''result'', JStr (rkResult a)),
     (''source'', JStr (rkSource a)), (''explanation'', JStr (rkExplanation a)),
     (''evidence'', JArr (map evidenceJson (rkEvidence a)))] @
     (case rkEvaluated a of None \<Rightarrow> [] | Some n \<Rightarrow> [(''evaluatedContextRevision'',
         JNum n)]))"

definition quoteSchema :: schema where
  "quoteSchema = zString (lengthBetween 1 4000)"

definition withdrawalSchema :: schema where
  "withdrawalSchema = zObject
    [(''segmentId'', segmentIdSchema), (''revision'', positiveInt), (''quote'', quoteSchema)] []"

definition riskEvidenceSchema :: schema where
  "riskEvidenceSchema = zObject
    [(''segmentId'', segmentIdSchema), (''revision'', positiveInt),
     (''quote'', zString (\<lambda>s. lengthBetween 1 4000 s \<and> 0 < jsLength (jsTrim s))),
     (''state'', zEnum [''active'', ''withdrawn''])] [(''withdrawal'', withdrawalSchema)]"

definition riskAssessmentSchema :: schema where
  "riskAssessmentSchema = zObject
    [(''code'', riskCodeSchema), (''result'', riskClassificationSchema), (''source'', zEnum [''rules'',
        ''llm'']),
     (''explanation'', zString (lengthBetween 1 400)), (''evidence'', zArray 0 6 riskEvidenceSchema)]
    [(''evaluatedContextRevision'', positiveInt)]"

section \<open>Events\<close>

definition dependencySchema :: schema where
  "dependencySchema = zObject [(''segmentId'', zString (lengthBetween 0 100)), (''revision'',
      positiveInt)] []"

definition eventFields :: "(string \<times> schema) list" where
  "eventFields =
    [(''streamId'', segmentIdSchema), (''segmentId'', zString (lengthBetween 0 100)), (''revision'',
        nonnegativeInt),
     (''contextRevision'', positiveInt), (''eventSequence'', positiveInt), (''contextId'', digest),
     (''dependencies'', zArray 0 6 dependencySchema), (''policyHash'', digest), (''policyVersion'',
         positiveInt),
     (''status'', zEnum [''partial'', ''analyzing'', ''analyzed'', ''unavailable'', ''withdrawn'']),
     (''engine'', zString (lengthBetween 0 40))]"

definition legacyServiceAnalysisEventSchema :: schema where
  "legacyServiceAnalysisEventSchema = zObject (eventFields @
    [(''analyzerVersion'', zLiteral (JStr ''purpose-context-1'')), (''signals'',
        zArray 0 8 (riskSignalSchema 160)),
     (''purpose'', purposeAssessmentSchema)]) []"

definition serviceRiskEventSchema :: schema where
  "serviceRiskEventSchema = zObject (eventFields @
    [(''analyzerVersion'', zLiteral (JStr ''risk-context-2'')),
     (''promptVersion'', zLiteral (JStr ''callsign-risk-2'')), (''assessments'',
         zArray 0 8 riskAssessmentSchema),
     (''signals'', zArray 0 8 (riskSignalSchema 4000)), (''action'', zString (lengthBetween 1 300)),
     (''limitations'', zString (lengthBetween 1 400))]) []"

definition serviceAnalysisEventSchema :: schema where
  "serviceAnalysisEventSchema v \<longleftrightarrow> serviceRiskEventSchema v \<or> legacyServiceAnalysisEventSchema v"

end
