(* ===== verification/Risk.thy ===== *)
theory Risk
  imports Analysis
begin

text \<open>
  The rule-based analysis of a transcript and its local language model,
  \<^verbatim>\<open>services/api/src/risk.ts\<close>. Sentences are sequences of characters (\<open>jsText\<close>), the texts of
  the messages are strings. The HTTP replies of the model server,
      what \<^verbatim>\<open>new URL\<close> reads and what
  \<^verbatim>\<open>JSON.parse\<close> makes of the answer are the fields of \<open>OllamaEnv\<close>.
\<close>

type_synonym jsText = "string list"

section \<open>Sentences\<close>

definition isPoint :: "nat list \<Rightarrow> string \<Rightarrow> bool" where
  "isPoint ns c \<longleftrightarrow> c \<in> set (map utf8 ns)"

text \<open>A quotation from the character \<open>a\<close> to the next \<open>b\<close>.\<close>

definition quotation :: "nat \<Rightarrow> nat \<Rightarrow> rx" where
  "quotation a b = inOrder [One (isPoint [a]), Many (\<lambda>c. \<not> isPoint [b] c), One (isPoint [b])]"

definition quotedText :: rx where
  "quotedText = anyOf [quotation 8220 8221, quotation 8216 8217, quotation 34 34]"

definition sentenceEnd :: "string \<Rightarrow> bool" where
  "sentenceEnd = isPoint [46, 33, 63, 12290]"

definition sentenceOf :: "rx \<Rightarrow> rx" where
  "sentenceOf quote = Then (More (Or quote (One (\<lambda>c. \<not> sentenceEnd c \<and> \<not> isPoint [10] c)))) (maybe (One sentenceEnd))"

definition correctionText :: rx where
  "correctionText = anyOf [literal (points [51221, 51221, 54633, 45768, 45796]),
      inOrder [literal (points [51096, 47803]), spaces, literal (points [47568, 54664, 49845, 45768,
      45796])], literal (points [50500, 45768, 50836])]"

text \<open>\<^verbatim>\<open>quote => ' '.repeat(quote.length)\<close> and \<^verbatim>\<open>s.slice(n)\<close>, in UTF-16 units.\<close>

definition unitsOf :: "jsText \<Rightarrow> nat" where
  "unitsOf xs = sum_list (map jsLength xs)"

definition blanked :: "rx \<Rightarrow> jsText \<Rightarrow> jsText" where
  "blanked quote xs = replaceAll quote (\<lambda>q. replicate (unitsOf q) '' '') xs"

fun dropUnits :: "nat \<Rightarrow> jsText \<Rightarrow> jsText" where
  "dropUnits n [] = []"
| "dropUnits n (c # cs) = (if n = 0 then c # cs else dropUnits (n - jsLength c) cs)"

definition addFragment :: "jsText \<Rightarrow> jsText list \<Rightarrow> jsText list" where
  "addFragment fragment sentences = (case execRx correctionText (blanked quotedText fragment) of
     Some (before, m, after) \<Rightarrow>
       let rest = dropUnits (unitsOf (before @ m)) fragment in
         butlast sentences @ (if trimmed rest \<noteq> [] then [rest] else [])
   | None \<Rightarrow> sentences @ [fragment])"

definition correctedSentences :: "string \<Rightarrow> jsText list" where
  "correctedSentences transcript = fold addFragment (matchAll (sentenceOf quotedText) (chars transcript)) []"

section \<open>Requests\<close>

definition withdrawnText :: rx where
  "withdrawnText = anyOf [literal (points [52712, 49548]), literal (points [51221, 51221]),
      inOrder [literal (points [51096, 47803]), spaces, literal (points [47568])]]"

definition negatedText :: rx where
  "negatedText = anyOf
    [inOrder [words [[50508, 47140, 51452, 51648], [47568, 54616, 51648], [47568, 50432, 54616, 51648],
        [48372, 45236, 51648], [49444, 52824, 54616, 51648], [50836, 44396, 54616, 51648], [44277, 50976,
        54616, 51648], [49569, 44552, 54616, 51648], [51077, 44552, 54616, 51648]], upTo 12,
        words [[47560], [50506], [47568]]],
     inOrder [literal (points [54616, 51648]), spaces, literal (points [47560])],
         inOrder [literal (points [54596, 50836]), spaces, literal (points [50630])],
     inOrder [literal (points [51208, 45824]), upTo 20, words [[44552, 51648], [50504]]]]"

definition openSecretText :: rx where
  "openSecretText = anyOf
    [inOrder [literal (points [48708, 48128, 47196]), upTo 8, anyOf [inOrder [literal (points [54616,
        51648]), spaces, literal (points [47560])], inOrder [literal (points [54596, 50836]), spaces,
        literal (points [50630])]]],
     inOrder [literal (points [49704, 44592, 51648]), spaces, literal (points [47560])]]"

definition requestSentence :: "jsText \<Rightarrow> string \<Rightarrow> jsText option" where
  "requestSentence original category =
     (let sentence = replaceAll quotedText (\<lambda>_. []) original in
      if occurs withdrawnText sentence then None
      else if category \<noteq> secrecyCategory \<and> occurs negatedText sentence then None
      else if category = secrecyCategory \<and> occurs openSecretText sentence then None
      else Some sentence)"

definition currentRiskEvidence :: "string \<Rightarrow> RiskSignal \<Rightarrow> bool" where
  "currentRiskEvidence transcript signal \<longleftrightarrow> list_ex (\<lambda>original.
     case requestSentence original (rsCategory signal) of
       None \<Rightarrow> False | Some sentence \<Rightarrow> textContains (concat sentence) (rsEvidence signal))
     (correctedSentences transcript)"

section \<open>The rules\<close>

record RiskRule =
  rrCategory :: string
  rrPhrases :: "string list"
  rrExplanation :: string

definition rules :: "RiskRule list" where
  "rules =
    [\<lparr> rrCategory = transferCategory, rrPhrases = [points [49569, 44552], points [44228, 51340,
        47196, 32, 48372, 45236], points [51077, 44552]],
       rrExplanation = points [51204, 54868, 32, 51473, 32, 51088, 44552, 32, 51060, 46041, 32, 50836,
           44396, 45716, 32, 44277, 49885, 32, 44592, 44288, 32, 44221, 47196, 50640, 49436, 32, 48324,
           46020, 47196, 32, 54869, 51064, 54644, 50556, 32, 54633, 45768, 45796, 46] \<rparr>,
     \<lparr> rrCategory = remoteCategory, rrPhrases = [points [50896, 44201, 51228, 50612], points [50545,
         51012, 32, 49444, 52824], points [50528, 45768, 45936, 49828, 53356], ''AnyDesk''],
       rrExplanation = points [50896, 44201, 51228, 50612, 32, 50545, 32, 49444, 52824, 32, 50836, 44396,
           45716, 32, 44592, 44592, 32, 53685, 51228, 44428, 51012, 32, 45336, 44600, 32, 49688, 32, 51080,
           51004, 48064, 47196, 32, 49688, 54665, 54616, 51648, 32, 47560, 49464, 50836, 46] \<rparr>,
     \<lparr> rrCategory = otpCategory, rrPhrases = [points [51064, 51613, 48264, 54840], ''OTP'',
         points [51068, 54924, 50857, 32, 48708, 48128, 48264, 54840]],
       rrExplanation = points [51064, 51613, 48264, 54840, 45716, 32, 44228, 51221, 183, 44144, 47000, 32,
           44428, 54620, 51004, 47196, 32, 51060, 50612, 51656, 32, 49688, 32, 51080, 51004, 48064, 47196,
           32, 51204, 54868, 32, 49345, 45824, 50640, 44172, 32, 51204, 45804, 54616, 51648, 32, 47560,
           49464, 50836, 46] \<rparr>,
     \<lparr> rrCategory = secrecyCategory, rrPhrases = [points [50500, 47924, 50640, 44172, 46020, 32,
         47568, 54616, 51648], points [48708, 48128, 47196], points [44032, 51313, 50640, 44172, 32, 50508,
         47532, 51648]],
       rrExplanation = points [51452, 48320, 44284, 32, 49345, 51032, 54616, 51648, 32, 47803, 54616,
           44172, 32, 54616, 45716, 32, 50836, 44396, 45716, 32, 54032, 45800, 51012, 32, 44256, 47549,
           49884, 53412, 45716, 32, 50948, 54744, 32, 49888, 54840, 51077, 45768, 45796, 46] \<rparr>]"

text \<open>
  \<^verbatim>\<open>toLocaleLowerCase('ko-KR')\<close>,
      as far as the phrases can tell: the letters A to Z, and the two
  other characters whose lower case contains a letter a to z (U+212A and U+0130).
\<close>

definition lowerChar :: "string \<Rightarrow> string" where
  "lowerChar c = (if c = utf8 8490 then ''k'' else if c = utf8 304 then CHR ''i'' # utf8 775 else toLowerCase c)"

definition koLower :: "jsText \<Rightarrow> string" where
  "koLower xs = concat (map lowerChar xs)"

definition demandText :: rx where
  "demandText = words [[50508, 47140], [48520, 47084], [48372, 45236], [49569, 44552], [51077, 44552],
      [49444, 52824], [48708, 48128], [47568, 54616, 51648], [50508, 47532, 51648]]"

definition ruleApplies :: "RiskRule \<Rightarrow> jsText \<Rightarrow> bool" where
  "ruleApplies rule original = (case requestSentence original (rrCategory rule) of
     None \<Rightarrow> False
   | Some sentence \<Rightarrow>
       sentence \<noteq> [] \<and>
       list_ex (\<lambda>phrase. textContains (koLower sentence) (koLower (chars phrase))) (rrPhrases rule) \<and>
       occurs demandText sentence)"

definition ruleSignal :: "jsText list \<Rightarrow> RiskRule \<Rightarrow> RiskSignal list" where
  "ruleSignal sentences rule = (case find (ruleApplies rule) sentences of
     None \<Rightarrow> []
   | Some evidence \<Rightarrow> [\<lparr> rsCategory = rrCategory rule,
       rsEvidence = concat (firstUnits 160 (trimmed evidence)), rsExplanation = rrExplanation rule \<rparr>])"

definition alertAction :: string where
  "alertAction = points [50836, 44396, 47484, 32, 49688, 54665, 54616, 51648, 32, 47568, 44256, 32, 53685,
      54868, 47484, 32, 51333, 47308, 54620, 32, 46244, 44, 32, 67, 97, 108, 108, 83, 105, 103, 110, 51032,
      32, 44277, 49885, 32, 50629, 47924, 32, 44221, 47196, 45208, 32, 44592, 44288, 51032, 32, 44277,
      44060, 32, 45824, 54364, 48264, 54840, 47196, 32, 51649, 51217, 32, 51116, 54869, 51064, 54616,
      49464, 50836, 46]"

definition calmAction :: string where
  "calmAction = points [48156, 49888, 32, 51064, 51613, 32, 44208, 44284, 50752, 32, 48324, 44060, 47196,
      32, 48124, 44048, 54620, 32, 50836, 52397, 51008, 32, 44277, 49885, 32, 50629, 47924, 32, 44221,
      47196, 50640, 49436, 32, 45796, 49884, 32, 54869, 51064, 54616, 49464, 50836, 46]"

definition ruleLimitations :: string where
  "ruleLimitations = points [44256, 51221, 32, 47928, 44396, 47484, 32, 52286, 45716, 32, 44508, 52825, 32,
      44592, 48152, 32, 48516, 49437, 51077, 45768, 45796, 46, 32, 50948, 54744, 32, 49888, 54840, 44032,
      32, 50630, 45796, 45716, 32, 44208, 44284, 45716, 32, 53685, 54868, 44032, 32, 50504, 51204, 54616,
      45796, 45716, 32, 46907, 51060, 32, 50500, 45785, 45768, 45796, 46]"

definition analyzeWithRules :: "string \<Rightarrow> RiskAnalysis" where
  "analyzeWithRules transcript =
     (let found = concat (map (ruleSignal (correctedSentences transcript)) rules) in
      \<lparr> raSignals = found, raAction = if found \<noteq> [] then alertAction else calmAction,
        raLimitations = ruleLimitations \<rparr>)"

section \<open>The local language model\<close>

datatype OllamaReply = OllamaTimeout | OllamaBroken | OllamaAnswer bool nat "json option"

record OllamaEnv =
  ogUrl :: "string \<Rightarrow> (string \<times> string) option"
  ogTags :: "string \<Rightarrow> OllamaReply"
  ogChat :: "string \<Rightarrow> string \<Rightarrow> string \<Rightarrow> OllamaReply"
  ogParse :: "string \<Rightarrow> json option"

record RiskAnalysisResult =
  rrAnalysis :: RiskAnalysis
  rrEngine :: string
  rrModel :: "string option"

definition localOllamaUrl :: "OllamaEnv \<Rightarrow> string \<Rightarrow> bool" where
  "localOllamaUrl V link = (case ogUrl V link of
     None \<Rightarrow> False
   | Some (protocol, hostname) \<Rightarrow> protocol = ''http:'' \<and> hostname \<in> set [''127.0.0.1'',
       ''localhost'', ''[::1]''])"

definition fallback :: "string \<Rightarrow> string \<Rightarrow> RiskAnalysisResult" where
  "fallback transcript reason =
     (let result = analyzeWithRules transcript in
      \<lparr> rrAnalysis = (if reason = [] then result
          else result\<lparr> raLimitations := raLimitations result @ points [32, 47196, 52972, 32, 76, 76,
              77, 32, 48120, 49324, 50857, 32, 49324, 50976, 58, 32] @ reason @ ''.'' \<rparr>),
        rrEngine = ''rules'', rrModel = None \<rparr>)"

text \<open>\<^verbatim>\<open>z.object({...})\<close> without \<^verbatim>\<open>strict()\<close>: other members are allowed.\<close>

definition zLooseObject :: "(string \<times> schema) list \<Rightarrow> (string \<times> schema) list \<Rightarrow> schema" where
  "zLooseObject req opt v = (case v of
     JObj ms \<Rightarrow> zObject req opt (JObj (filter (\<lambda>m. fst m \<in> fst ` set (req @ opt)) ms)) | _ \<Rightarrow> False)"

definition tagsSchema :: schema where
  "tagsSchema = zLooseObject [(''models'', \<lambda>v. (case v of
     JArr xs \<Rightarrow> list_all (zLooseObject [(''name'', zString (\<lambda>_. True))] [(''model'',
         zString (\<lambda>_. True))]) xs
   | _ \<Rightarrow> False))] []"

definition ollamaResponseSchema :: schema where
  "ollamaResponseSchema = zLooseObject [(''message'', zLooseObject [(''content'',
      zString (\<lambda>_. True))] [])] []"

text \<open>The reasons of a fallback are exceptions here: \<open>Inl\<close> the text after the colon.\<close>

definition readReply :: "string \<Rightarrow> schema \<Rightarrow> OllamaReply \<Rightarrow> string + json" where
  "readReply refused schema r = (case r of
     OllamaTimeout \<Rightarrow> Inl ''timeout''
   | OllamaBroken \<Rightarrow> Inl (points [51025, 45813, 32, 44160, 51613, 32, 49892, 54056])
   | OllamaAnswer okay status body \<Rightarrow>
       if \<not> okay then Inl (refused @ decimalString status)
       else (case body of
           Some v \<Rightarrow> if schema v then Inr v else Inl (points [51025, 45813, 32, 44160, 51613,
               32, 49892, 54056]) | None \<Rightarrow> Inl (points [51025, 45813, 32, 44160, 51613, 32,
               49892, 54056])))"

definition modelAnalysis :: "OllamaEnv \<Rightarrow> string \<Rightarrow> string \<Rightarrow> string \<Rightarrow> string + RiskAnalysis" where
  "modelAnalysis V endpoint model transcript =
     bindE (readReply (points [47784, 45944, 32, 47785, 47197, 32, 72, 84, 84, 80,
         32]) tagsSchema (ogTags V endpoint)) (\<lambda>tags.
     if \<not> list_ex (\<lambda>item. isStr item ''name'' model \<or> isStr item ''model'' model) (jarr tags ''models'')
     then Inl (points [49444, 51221, 32, 47784, 45944, 32, 48120, 49444, 52824])
     else bindE (readReply (points [48516, 49437, 32, 72, 84, 84, 80,
         32]) ollamaResponseSchema (ogChat V endpoint model transcript)) (\<lambda>reply.
     case ogParse V (jstr (jobj reply ''message'') ''content'') of
       None \<Rightarrow> Inl (points [51025, 45813, 32, 44160, 51613, 32, 49892, 54056])
     | Some v \<Rightarrow>
         if \<not> riskAnalysisSchema v then Inl (points [51025, 45813, 32, 44160, 51613, 32, 49892, 54056])
         else if list_ex (\<lambda>signal. \<not> textContains transcript (rsEvidence signal)) (raSignals (readAnalysis v))
         then Inl (points [51025, 45813, 32, 44540, 44144, 44032, 32, 51077, 47141, 50640, 32, 50630, 51020])
         else Inr (readAnalysis v)))"

definition analyzeTranscript :: "OllamaEnv \<Rightarrow> string \<Rightarrow> string option \<Rightarrow> string option \<Rightarrow> RiskAnalysisResult" where
  "analyzeTranscript V transcript url model = (case model of
     None \<Rightarrow> fallback transcript (points [47784, 45944, 32, 48120, 49444, 51221])
   | Some name \<Rightarrow>
       if name = [] then fallback transcript (points [47784, 45944, 32, 48120, 49444, 51221])
       else let endpoint = (case url of Some u \<Rightarrow> u | None \<Rightarrow> ''http://127.0.0.1:11434'') in
         if \<not> localOllamaUrl V endpoint then fallback transcript (points [54728, 50857, 46104, 51648,
             32, 50506, 51008, 32, 101, 110, 100, 112, 111, 105, 110, 116])
         else (case modelAnalysis V endpoint name transcript of
             Inl reason \<Rightarrow> fallback transcript reason
           | Inr analysis \<Rightarrow> \<lparr> rrAnalysis = analysis, rrEngine = ''ollama'',
               rrModel = Some name \<rparr>))"

end
