(* ===== verification/Risk_Assessment.thy ===== *)
theory Risk_Assessment
  imports Risk
begin

text \<open>
  The four risk requests in a bounded snapshot of a transcript,
  \<^verbatim>\<open>services/api/src/risk-assessment.ts\<close>: the rules that find a request,
      a withdrawal and a
  warning, the evidence they quote, and the check of what a language model answers. The units of
  a snapshot have different segments, so the code's identity of unit objects is equality here.
\<close>

section \<open>Snapshots\<close>

definition snapshotUnits :: "(string \<times> int \<times> string) list \<Rightarrow> RiskUnit list" where
  "snapshotUnits segments = map (\<lambda>(i, segment, revision, content).
     \<lparr> ruId = CHR ''u'' # decimalString i, ruSegment = segment, ruRevision = revision,
         ruText = content \<rparr>)
     (zip [0..<length segments] segments)"

definition badSegment :: "string \<times> int \<times> string \<Rightarrow> bool" where
  "badSegment s = (case s of (segment, revision, content) \<Rightarrow>
     segment = [] \<or> jsLength segment > 100 \<or> revision < 1)"

definition riskSnapshot :: "(string \<times> int \<times> string) list \<Rightarrow> RiskUnit list result" where
  "riskSnapshot segments =
     (if length segments > 6 \<or> sum_list (map (\<lambda>(_, _, content). jsLength content) segments) > 4000
      then Inl (Error ''RISK_SNAPSHOT_LIMIT'')
      else if list_ex badSegment segments \<or> \<not> distinct (map fst segments)
      then Inl (Error ''RISK_SNAPSHOT_ID_INVALID'')
      else Inr (snapshotUnits segments))"

text \<open>\<^verbatim>\<open>[...new Set(policy.forbiddenRequests)]\<close>\<close>

definition forbiddenRequests :: "json \<Rightarrow> string list" where
  "forbiddenRequests pol = map stringOf (jarr pol ''forbiddenRequests'')"

definition applicableCodes :: "json \<Rightarrow> string list" where
  "applicableCodes pol = rev (remdups (rev (forbiddenRequests pol)))"

definition unitJson :: "RiskUnit \<Rightarrow> json" where
  "unitJson u = JObj [(''id'', JStr (ruId u)), (''segmentId'', JStr (ruSegment u)),
     (''revision'', JNum (ruRevision u)), (''text'', JStr (ruText u))]"

definition riskRequestData :: "RiskUnit list \<Rightarrow> json \<Rightarrow> json" where
  "riskRequestData units pol = JObj
     [(''applicableCodes'', JArr (map JStr (applicableCodes pol))),
      (''criteria'', JObj (map (\<lambda>code. (code, JStr (RISK_CRITERIA code))) (applicableCodes pol))),
      (''utterances'', JArr (map unitJson units))]"

section \<open>Requests, warnings and withdrawals\<close>

text \<open>A literal with the flag \<^verbatim>\<open>i\<close>.\<close>

definition anyCase :: "string \<Rightarrow> rx" where
  "anyCase s = inOrder (map (\<lambda>c. One (\<lambda>x. toLowerCase x = toLowerCase c)) (chars s))"

definition subjects :: "string \<Rightarrow> rx" where
  "subjects code =
     (if code = ''OTP'' then anyOf [literal (points [51064, 51613, 48264, 54840]),
         inOrder [literal (points [51064, 51613]), spaces, literal (points [48708, 48128])], anyCase ''OTP'',
        inOrder [literal (points [51068, 54924, 50857]), spaces, words [[48708, 48128], [50516, 54840]]]]
      else if code = ''TRANSFER'' then anyOf [words [[49569, 44552], [51060, 52404], [51077, 44552]],
          inOrder [literal (points [44228, 51340]), upTo 8, words [[48372, 45236], [50734]]]]
      else if code = ''REMOTE_CONTROL'' then anyOf [inOrder [literal (points [50896, 44201]), spaces,
          literal (points [51228, 50612])],
        inOrder [literal (points [50896, 44201]), spaces, literal (points [51217, 49549])],
            literal (points [50528, 45768, 45936, 49828, 53356]), anyCase ''AnyDesk'']
      else anyOf [words [[51008, 54665], [44032, 51313], [44221, 52272]], inOrder [literal (points [45796,
          47480]), spaces, literal (points [49324, 46988])], words [[50500, 47924, 50640, 44172], [51452,
          48320]]])"

definition quotedSpeech :: rx where
  "quotedSpeech = anyOf [quotation 8220 8221, quotation 8216 8217, quotation 34 34, quotation 39 39]"

definition spoken :: "jsText \<Rightarrow> jsText" where
  "spoken = blanked quotedSpeech"

definition sentences :: "jsText \<Rightarrow> jsText list" where
  "sentences content = matchAll (sentenceOf quotedSpeech) content"

definition preventionText :: rx where
  "preventionText = anyOf
    [inOrder [words [[50508, 47140], [47568, 50432], [47568, 54616], [51069, 50612], [48372, 45236],
        [49569, 44552], [51077, 44552], [49444, 52824], [54728, 50857], [51025, 54616], [46384, 47476]],
        upTo 16,
       anyOf [inOrder [literal (points [50504]), spaces, literal (points [46121])], words [[50506], [47560,
           49464, 50836], [47560, 49901, 49884, 50724], [44552, 51648]]]],
     inOrder [literal (points [54596, 50836]), spaces, literal (points [50630])]]"

definition prevention :: "jsText \<Rightarrow> bool" where
  "prevention content \<longleftrightarrow> occurs preventionText content"

definition withdrawalText :: rx where
  "withdrawalText = inOrder [words [[50836, 52397], [50836, 44396]], maybe (words [[51008], [45716],
      [51012], [47484]]), spaces,
     anyOf [words [[52712, 49548, 54633, 45768, 45796], [52384, 54924, 54633, 45768, 45796], [52712, 49548,
         54624, 44172, 50836]], inOrder [literal (points [54616, 51648]), spaces, literal (points [50506,
         44192, 49845, 45768, 45796])]],
     maybe (One (isPoint [46, 33, 12290])), spaces, AtEnd]"

text \<open>Where the subjects of requests stand: the code, the index and the end of every occurrence.\<close>

fun positions :: "nat \<Rightarrow> (jsText \<times> jsText) list \<Rightarrow> (nat \<times> nat) list" where
  "positions n [] = []"
| "positions n ((b, m) # ms) =
     (n + unitsOf b, n + unitsOf b + unitsOf m) # positions (n + unitsOf b + unitsOf m) ms"

definition requestTargets :: "jsText \<Rightarrow> (string \<times> nat \<times> nat) list" where
  "requestTargets prefix =
     concat (map (\<lambda>code. map (Pair code) (positions 0 (fst (allOccurrences (subjects code) prefix)))) riskCodes)"

definition latestTarget :: "(string \<times> nat \<times> nat) list \<Rightarrow> (string \<times> nat \<times> nat) option" where
  "latestTarget ts = fold (\<lambda>t best. (case best of
     None \<Rightarrow> Some t | Some b \<Rightarrow> if fst (snd t) > fst (snd b) then Some t else Some b)) ts None"

definition withdrawsRequest :: "string \<Rightarrow> jsText \<Rightarrow> bool" where
  "withdrawsRequest code sentence = (case execRx withdrawalText (spoken sentence) of
     None \<Rightarrow> False
   | Some (prefix, _, _) \<Rightarrow> (case latestTarget (requestTargets prefix) of
       None \<Rightarrow> False
     | Some (kind, _,
         end_of_target) \<Rightarrow> kind = code \<and> unitsOf prefix \<le> end_of_target + 12))"

definition explicitWithdrawal :: "jsText \<Rightarrow> string \<Rightarrow> bool" where
  "explicitWithdrawal content code \<longleftrightarrow> list_ex (withdrawsRequest code) (sentences content)"

definition followsText :: rx where
  "followsText = inOrder [words [[44536], [54644, 45817]], upTo 8, words [[50504, 45236], [45236, 50857],
      [50836, 44396]], upTo 8, words [[45824, 47196], [46384, 46972]]]"

definition secrecyDemand :: rx where
  "secrecyDemand = anyOf
    [inOrder [words [[54869, 51064], [49345, 45812], [49345, 51032], [50508, 47532], [47568, 54616]], upTo 14,
       anyOf [words [[47560, 49464, 50836], [47560, 49901, 49884, 50724], [47568, 50500]],
           inOrder [literal (points [54616, 51648]), spaces, literal (points [47560])],
           inOrder [literal (points [50504]), spaces, literal (points [46121])]]],
     inOrder [literal (points [50500, 47924, 50640, 44172, 46020]), spaces, literal (points [47568, 54616,
         51648])]]"

definition consultText :: rx where
  "consultText = inOrder [words [[54869, 51064], [49345, 45812], [49345, 51032]], upTo 8, words [[54616,
      49464, 50836], [54616, 49492, 46020]]]"

definition otpDemand :: rx where
  "otpDemand = anyOf
    [inOrder [literal (points [50508, 47140]), spaces, literal (points [51452])], literal (points [50508,
        47140, 45804]), inOrder [literal (points [51069, 50612]), spaces, literal (points [51452])],
        literal (points [51069, 50612, 45804]),
     inOrder [literal (points [47568, 50432, 54644]), spaces, literal (points [51452])],
         inOrder [literal (points [48520, 47084]), spaces, literal (points [51452])],
         inOrder [literal (points [51204, 45804, 54644]), spaces, literal (points [51452])],
     inOrder [literal (points [44277, 50976, 54644]), spaces, literal (points [51452])]]"

definition transferDemand :: rx where
  "transferDemand = anyOf
    [inOrder [words [[49569, 44552], [51060, 52404], [51077, 44552]],
       anyOf [inOrder [literal (points [54644]), spaces, literal (points [51452])], words [[54644], [54616,
           49464], [54616, 49464, 50836], [54616, 49901, 49884, 50724], [54644, 51452], [54644, 45804]]]],
     inOrder [literal (points [44228, 51340]), upTo 12, literal (points [48372, 45236]), spaces,
         literal (points [51452])]]"

definition remoteDemand :: rx where
  "remoteDemand = anyOf
    [inOrder [words [[49444, 52824], [54728, 50857], [51217, 49549]],
       anyOf [inOrder [literal (points [54644]), spaces, literal (points [51452])], words [[54644], [54616,
           49464], [54616, 49464, 50836], [54616, 49901, 49884, 50724], [54644, 51452]]]],
     inOrder [literal (points [51217, 49549, 51012]), spaces, literal (points [54728, 50857])]]"

definition withPrevious :: "'a list \<Rightarrow> ('a option \<times> 'a) list" where
  "withPrevious xs = zip (None # map Some xs) xs"

definition demands :: "string \<Rightarrow> jsText option \<Rightarrow> jsText \<Rightarrow> bool" where
  "demands code previous original =
     (let plain = spoken original;
          sentence = (if occurs followsText plain then (case previous of None \<Rightarrow> [] | Some p \<Rightarrow> p) @ original else plain) in
      if \<not> occurs (subjects code) sentence \<or> explicitWithdrawal original code then False
      else if code = ''SECRECY'' then occurs secrecyDemand sentence \<and> \<not> occurs consultText sentence
      else if prevention sentence then False
      else if code = ''OTP'' then occurs otpDemand sentence
      else if code = ''TRANSFER'' then occurs transferDemand sentence
      else occurs remoteDemand sentence)"

definition hasDemand :: "jsText \<Rightarrow> string \<Rightarrow> bool" where
  "hasDemand content code \<longleftrightarrow>
     list_ex (\<lambda>(previous,
         original). demands code previous original) (withPrevious (sentences content))"

section \<open>Evidence\<close>

definition withdrawnLater :: "string \<Rightarrow> RiskUnit \<Rightarrow> bool" where
  "withdrawnLater code u \<longleftrightarrow> list_ex (\<lambda>row. explicitWithdrawal row code)
     (takeWhile (\<lambda>row. \<not> hasDemand row code) (rev (sentences (chars (ruText u)))))"

definition riskEvidenceFor :: "RiskUnit \<Rightarrow> RiskUnit list \<Rightarrow> string \<Rightarrow> RiskEvidence" where
  "riskEvidenceFor u units code =
     (let withdrawal = find (\<lambda>v. if v = u then withdrawnLater code u else explicitWithdrawal (chars (ruText v)) code)
            (dropWhile (\<lambda>v. v \<noteq> u) units) in
      \<lparr> reSegment = ruSegment u, reRevision = ruRevision u, reQuote = ruText u,
        reState = (if withdrawal \<noteq> None then ''withdrawn'' else ''active''),
        reWithdrawal = map_option (\<lambda>v. (ruSegment v, ruRevision v, ruText v)) withdrawal \<rparr>)"

definition unitDemands :: "string \<Rightarrow> RiskUnit \<Rightarrow> bool" where
  "unitDemands code u = hasDemand (chars (ruText u)) code"

definition ruleMatches :: "string \<Rightarrow> RiskUnit option \<times> RiskUnit \<Rightarrow> bool" where
  "ruleMatches code pu = (case pu of (previous, u) \<Rightarrow> unitDemands code u \<or> (case previous of
     None \<Rightarrow> False
   | Some p \<Rightarrow> \<not> unitDemands code p \<and> hasDemand (chars (ruText p @ '' '' @ ruText u)) code))"

definition supportedUnit :: "string \<Rightarrow> (RiskUnit option \<times> RiskUnit) list \<Rightarrow> RiskUnit \<Rightarrow> bool" where
  "supportedUnit code matches u \<longleftrightarrow>
     u \<in> set (map snd matches) \<or> list_ex (\<lambda>(previous,
         v). previous = Some u \<and> \<not> unitDemands code v) matches"

definition ruleFound :: string where
  "ruleFound = points [50640, 32, 54644, 45817, 54616, 45716, 32, 54364, 54788, 51012, 32, 44508, 52825,
      51004, 47196, 32, 54869, 51064, 54664, 49845, 45768, 45796, 46]"

definition ruleNotFound :: string where
  "ruleNotFound = points [44508, 52825, 47564, 51004, 47196, 32, 54644, 45817, 32, 50836, 44396, 51032, 32,
      50976, 47924, 47484, 32, 54869, 51221, 54616, 51648, 32, 47803, 54664, 49845, 45768, 45796, 46]"

definition ruleAssessment :: "RiskUnit list \<Rightarrow> string \<Rightarrow> RiskAssessment" where
  "ruleAssessment units code =
     (let matches = filter (ruleMatches code) (withPrevious units) in
      \<lparr> rkCode = code, rkResult = (if matches \<noteq> [] then ''detected'' else ''undetermined''),
          rkSource = ''rules'',
        rkExplanation = (if matches \<noteq> [] then RISK_CRITERIA code @ ruleFound else ruleNotFound),
        rkEvidence = map (\<lambda>u. riskEvidenceFor u units code) (filter (supportedUnit code matches) units),
        rkEvaluated = None \<rparr>)"

definition ruleRiskAssessments :: "RiskUnit list \<Rightarrow> json \<Rightarrow> RiskAssessment list" where
  "ruleRiskAssessments units pol = map (ruleAssessment units) (applicableCodes pol)"

section \<open>What a language model answers\<close>

definition askedText :: rx where
  "askedText = inOrder [words [[49569, 44552], [51060, 52404], [51077, 44552]], literal (points [54616,
      49512, 45208, 50836])]"

definition contradictsDemand :: "jsText \<Rightarrow> string \<Rightarrow> bool" where
  "contradictsDemand content code \<longleftrightarrow>
     \<not> hasDemand content code \<and>
     (let relevant = filter (occurs (subjects code)) (map spoken (sentences content)) in
      relevant = [] \<or> list_all (\<lambda>row. prevention row \<or> explicitWithdrawal row code \<or> occurs askedText row) relevant)"

text \<open>The character class of the Hangul syllables, U+AC00 to U+D7A3.\<close>

definition isHangul :: "string \<Rightarrow> bool" where
  "isHangul c = (case map of_char c of
     [a, b, d] \<Rightarrow> (let n = (a - 224) * 4096 + (b - 128) * 64 + (d - 128 :: nat) in
       224 \<le> a \<and> a < 240 \<and> 44032 \<le> n \<and> n \<le> 55203)
   | _ \<Rightarrow> False)"

definition linkText :: rx where
  "linkText = anyOf [inOrder [literal ''http'', maybe (literal ''s''), literal ''://''], literal ''www.'',
     inOrder [literal ''<'', More (One (\<lambda>c. c \<noteq> ''>'')), literal ''>'']]"

definition badExplanation :: "string \<Rightarrow> bool" where
  "badExplanation s \<longleftrightarrow> \<not> list_ex isHangul (chars s) \<or> occurs linkText (chars s)"

definition selectUnit :: "RiskUnit list \<Rightarrow> string \<Rightarrow> RiskUnit result" where
  "selectUnit units uid = (case find (\<lambda>u. ruId u = uid) units of
     None \<Rightarrow> Inl (Error ''LLM_EVIDENCE_ID_INVALID'')
   | Some u \<Rightarrow> if jsTrim (ruText u) = [] then Inl (Error ''LLM_EVIDENCE_ID_INVALID'') else Inr u)"

definition checkAssessment :: "RiskUnit list \<Rightarrow> ProviderAssessment \<Rightarrow> RiskAssessment result" where
  "checkAssessment units a =
     (if badExplanation (paExplanation a) then Inl (Error ''LLM_EXPLANATION_INVALID'')
      else bindE (mapE (selectUnit units) (paEvidenceIds a)) (\<lambda>selected.
        if \<not> distinct (paEvidenceIds a) \<or> (paResult a = ''detected'' \<and> selected = [])
        then Inl (Error ''LLM_EVIDENCE_REQUIRED'')
        else if paResult a = ''detected'' \<and>
          contradictsDemand (chars (joinSpace (map ruText (filter (\<lambda>u. u \<in> set selected) units)))) (paCode a)
        then Inl (Error ''LLM_EVIDENCE_CONTEXT_INVALID'')
        else Inr \<lparr> rkCode = paCode a, rkResult = paResult a, rkSource = ''llm'',
            rkExplanation = paExplanation a,
          rkEvidence = map (\<lambda>u. riskEvidenceFor u units (paCode a)) selected,
              rkEvaluated = None \<rparr>))"

definition validateRiskOutput :: "json \<Rightarrow> RiskUnit list \<Rightarrow> json \<Rightarrow> RiskAssessment list result" where
  "validateRiskOutput v units pol = bindE (parseProviderOutput v) (\<lambda>output.
     let codes = applicableCodes pol in
     if length output \<noteq> length codes \<or> \<not> distinct (map paCode output) \<or> \<not> list_all (\<lambda>a. paCode a \<in> set codes) output
     then Inl (Error ''LLM_RISK_SCOPE_MISMATCH'')
     else mapE (checkAssessment units) output)"

end
