(* ===== verification/Analyzer.thy ===== *)
theory Analyzer
  imports Institution Risk_Assessment
begin

text \<open>
  The analysis of a call in progress,
      \<^verbatim>\<open>services/api/src/service-analysis.ts\<close>: the policy a
  session is analysed under, the check of a model's answer,
      and \<^verbatim>\<open>ServiceRevisionAnalyzer\<close>, the
  object that keeps the recent utterances of the other party and publishes what the rules and the
  model say of them. Its state is \<open>Analyzer\<close>; \<open>azFlight\<close> is the call of \<^verbatim>\<open>flush\<close> that waits for
  the provider (there is at most one), so that \<^verbatim>\<open>flush\<close> is two steps,
      \<open>flushStart\<close> and
  \<open>flushEnd\<close>, and anything may happen between them. Abort controllers are numbered, a timer is
  whether (or until when) it is set. Every operation reads the clock once.
\<close>

section \<open>Answers of a model\<close>

definition categoryCode :: "string \<Rightarrow> string" where
  "categoryCode category =
     (if category = otpCategory then ''OTP'' else if category = transferCategory then ''TRANSFER''
      else if category = remoteCategory then ''REMOTE_CONTROL'' else ''SECRECY'')"

definition codeCategory :: "string \<Rightarrow> string" where
  "codeCategory code =
     (if code = ''OTP'' then otpCategory else if code = ''TRANSFER'' then transferCategory
      else if code = ''REMOTE_CONTROL'' then remoteCategory else secrecyCategory)"

record PurposeAssessment =
  ppRelation :: string
  ppEvidence :: string
  ppReason :: string

record ServiceAnalysis =
  vaSignals :: "RiskSignal list"
  vaPurpose :: "PurposeAssessment option"
  vaAction :: string
  vaLimitations :: string

definition unknownPurpose :: "string \<Rightarrow> PurposeAssessment" where
  "unknownPurpose reason = \<lparr> ppRelation = ''undetermined'', ppEvidence = [],
      ppReason = reason \<rparr>"

definition readPurpose :: "json \<Rightarrow> PurposeAssessment" where
  "readPurpose v = \<lparr> ppRelation = jstr v ''relation'', ppEvidence = jstr v ''evidenceSpan'',
      ppReason = jstr v ''reason'' \<rparr>"

definition readServiceAnalysis :: "json \<Rightarrow> ServiceAnalysis" where
  "readServiceAnalysis v = \<lparr> vaSignals = map readSignal (jarr v ''signals''),
     vaPurpose = map_option readPurpose (jget v ''purpose''), vaAction = jstr v ''recommendedAction'',
     vaLimitations = jstr v ''limitations'' \<rparr>"

definition mergePolicySignals :: "json \<Rightarrow> string \<Rightarrow> RiskSignal list \<Rightarrow> RiskSignal list" where
  "mergePolicySignals pol transcript candidates = take 8 (dvalues (fold
     (\<lambda>s found. dput (rsCategory s @ '':'' @ jsTrim (rsEvidence s)) s found)
     (filter (\<lambda>s. categoryCode (rsCategory s) \<in> set (forbiddenRequests pol) \<and> textContains transcript (rsEvidence s))
        candidates) []))"

definition linkAnyCase :: rx where
  "linkAnyCase = anyOf [inOrder [anyCase ''http'', maybe (anyCase ''s''), literal ''://''],
     inOrder [anyCase ''www'', literal ''.'']]"

definition evidenceInvalid :: "string \<Rightarrow> ServiceAnalysis \<Rightarrow> bool" where
  "evidenceInvalid transcript a \<longleftrightarrow>
     list_ex (\<lambda>s. occurs linkAnyCase (chars (rsExplanation s))) (vaSignals a) \<or>
     (case vaPurpose a of None \<Rightarrow> False | Some p \<Rightarrow> occurs linkAnyCase (chars (ppReason p))) \<or>
     list_ex (\<lambda>s. \<not> textContains transcript (rsEvidence s) \<or> \<not> currentRiskEvidence transcript s) (vaSignals a) \<or>
     (case vaPurpose a of None \<Rightarrow> False | Some p \<Rightarrow> ppEvidence p \<noteq> [] \<and>
        (\<not> textContains transcript (ppEvidence p) \<or>
         \<not> textContains (joinSpace (map concat (correctedSentences transcript))) (ppEvidence p)))"

definition officialAction :: string where
  "officialAction = points [48324, 46020, 32, 51064, 51613, 54620, 32, 44277, 49885, 32, 50629, 47924, 32,
      54868, 47732, 50640, 49436, 32, 54869, 51064, 54616, 49464, 50836, 46]"

definition remoteLimitations :: string where
  "remoteLimitations = points [52572, 44540, 32, 49345, 45824, 48169, 32, 48156, 54868, 47564, 32, 48516,
      49437, 54620, 32, 48372, 51312, 32, 50504, 45236, 51060, 47728, 32, 53685, 54868, 32, 51204, 52404,
      51032, 32, 50504, 51204, 32, 54032, 51221, 51060, 32, 50500, 45785, 45768, 45796, 46]"

definition checkedServiceAnalysis :: "(string \<Rightarrow> json option) \<Rightarrow> string \<Rightarrow> string \<Rightarrow> ServiceAnalysis result" where
  "checkedServiceAnalysis jsonParse content transcript =
     bindE (ofOption (Error ''LLM_ANALYSIS_JSON_INVALID'') (jsonParse content)) (\<lambda>payload.
     bindE (parseWith serviceAnalysisSchema payload) (\<lambda>v.
     if evidenceInvalid transcript (readServiceAnalysis v) then Inl (Error ''LLM_EVIDENCE_INVALID'')
     else Inr ((readServiceAnalysis v)\<lparr> vaAction := officialAction,
         vaLimitations := remoteLimitations \<rparr>)))"

section \<open>The policy of a session\<close>

definition assertAnalysisPolicy :: "lib \<Rightarrow> InstitutionRecord \<Rightarrow> ServiceAttempt \<Rightarrow> string result" where
  "assertAnalysisPolicy L r attempt =
     bindE (policyHash L (irPolicy r)) (\<lambda>h.
       (case (dget (irIntents r) (saIntent attempt),
          case irService r of None \<Rightarrow> None
            | Some s \<Rightarrow> dget (ssAuthorizations s) (case saAuthorization attempt of Some i \<Rightarrow> i | None \<Rightarrow> []),
          saLease attempt, saBinding attempt) of
         (Some intent, Some auth, Some lease, Some binding) \<Rightarrow>
           (let a = sauPayload auth; l = sgPayload lease in
            if ciPolicyHash intent \<noteq> h \<or> \<not> isStr a ''policyHash'' h \<or> \<not> isStr l ''policyHash'' h \<or>
              \<not> isStr a ''epoch'' (irEpoch r) \<or> \<not> isNum a ''approvalKeyVersion'' (irKeyVersion r) \<or>
              \<not> isStr l ''epoch'' (irEpoch r) \<or> \<not> isNum l ''approvalKeyVersion'' (irKeyVersion r) \<or>
              \<not> sameMember l a ''vcDigest'' \<or> \<not> sameMember l a ''authorizationId'' \<or>
              \<not> isStr l ''sessionId'' (saSession attempt) \<or> \<not> isStr l ''connectionGeneration'' (saGeneration attempt) \<or>
              \<not> isStr l ''bindingHash'' (hashCanonical L binding)
            then Inl (Error ''ANALYSIS_POLICY_BINDING_MISMATCH'') else Inr h)
       | _ \<Rightarrow> Inl (Error ''ANALYSIS_POLICY_BINDING_MISMATCH'')))"

definition purposeAuthorityCurrent :: "ServiceAttempt \<Rightarrow> int \<Rightarrow> bool" where
  "purposeAuthorityCurrent attempt now \<longleftrightarrow>
     saAuthorityStatus attempt = Some Current \<and>
     (case saAuthorityUntil attempt of Some t \<Rightarrow> t | None \<Rightarrow> 0) > now \<and>
     (case saLease attempt of Some l \<Rightarrow> isStr (sgPayload l) ''authority'' ''current'' | None \<Rightarrow> False)"

section \<open>The state of an analyser\<close>

record Segment =
  zgStream :: string
  zgSegment :: string
  zgRevision :: int
  zgFinal :: bool
  zgText :: string
  zgAt :: int
  zgOrder :: nat

record SeenRevision =
  znRevision :: int
  znFinal :: bool
  znOrder :: nat

datatype AnalysisProvider = NoProvider | TextProvider | RiskProvider bool

text \<open>What a suspended \<^verbatim>\<open>flush\<close> remembers.\<close>

record Flight =
  flVersion :: nat
  flController :: nat
  flText :: string
  flUnits :: "RiskUnit list"

datatype EventBody = PurposeBody PurposeAssessment | RiskBody "RiskAssessment list"

record AnalysisEvent =
  evStream :: string
  evSegment :: string
  evRevision :: int
  evContextRevision :: nat
  evSequence :: nat
  evContextId :: string
  evDependencies :: "(string \<times> int) list"
  evPolicyHash :: string
  evPolicyVersion :: int
  evStatus :: string
  evEngine :: string
  evSignals :: "RiskSignal list"
  evBody :: EventBody

record Analyzer =
  azPolicy :: json
  azProvider :: AnalysisProvider
  azSegments :: "Segment dict"
  azSeen :: "SeenRevision dict"
  azStream :: string
  azActive :: bool
  azVersion :: nat
  azCalls :: nat
  azController :: nat
  azAborted :: "nat list"
  azRunningController :: "nat option"
  azTimer :: bool
  azExpiry :: "int option"
  azRetained :: "RiskAssessment list"
  azRunning :: bool
  azQueued :: bool
  azSequence :: nat
  azContext :: string
  azFlight :: "Flight option"
  azEvents :: "AnalysisEvent list"

type_synonym 'a analyzerOp = "(Analyzer, 'a) eff"

definition newAnalyzer :: "json \<Rightarrow> AnalysisProvider \<Rightarrow> Analyzer" where
  "newAnalyzer pol provider = \<lparr> azPolicy = pol, azProvider = provider, azSegments = [], azSeen = [],
      azStream = [],
     azActive = False, azVersion = 0, azCalls = 0, azController = 0, azAborted = [],
         azRunningController = None,
     azTimer = False, azExpiry = None, azRetained = [], azRunning = False, azQueued = False, azSequence = 0,
     azContext = [], azFlight = None, azEvents = [] \<rparr>"

definition riskMode :: "Analyzer \<Rightarrow> bool" where
  "riskMode z \<longleftrightarrow> (case azProvider z of RiskProvider _ \<Rightarrow> True | _ \<Rightarrow> False)"

definition analysisSegments :: nat where "analysisSegments = 6"
definition analysisCharacters :: nat where "analysisCharacters = 4000"
definition retentionMs :: int where "retentionMs = 60000"
definition analysisRequests :: nat where "analysisRequests = 20"

section \<open>The context\<close>

text \<open>
  \<^verbatim>\<open>/^\d+(?:\.\d+)?$/\<close> and the order of two such identifiers as numbers. \<^verbatim>\<open>Number\<close> is taken
  exactly: two identifiers that only differ beyond double precision are not told apart by the code.
\<close>

definition numericId :: "string \<Rightarrow> bool" where
  "numericId s \<longleftrightarrow> (let w = takeWhile (\<lambda>c. c \<noteq> CHR ''.'') s; f = dropWhile (\<lambda>c. c \<noteq> CHR ''.'') s in
     isDigits w \<and> (f = [] \<or> isDigits (tl f)))"

definition numericLess :: "string \<Rightarrow> string \<Rightarrow> bool" where
  "numericLess s t =
     (let value = (\<lambda>u. bigInt (filter (\<lambda>c. c \<noteq> CHR ''.'') u));
          places = (\<lambda>u. length (tl (dropWhile (\<lambda>c. c \<noteq> CHR ''.'') u))) in
      value s * 10 ^ places t < value t * 10 ^ places s)"

definition segmentBefore :: "Segment \<Rightarrow> Segment \<Rightarrow> bool" where
  "segmentBefore a b =
     (if numericId (zgSegment a) \<and> numericId (zgSegment b) then numericLess (zgSegment a) (zgSegment b)
      else zgOrder a < zgOrder b)"

text \<open>
  \<^verbatim>\<open>sort\<close> as a stable insertion sort. Where numeric and other identifiers are mixed the code's
  comparison is not transitive, and ECMAScript leaves the order to the implementation.
\<close>

fun insertBy :: "('a \<Rightarrow> 'a \<Rightarrow> bool) \<Rightarrow> 'a \<Rightarrow> 'a list \<Rightarrow> 'a list" where
  "insertBy lt x [] = [x]"
| "insertBy lt x (y # ys) = (if lt x y then x # y # ys else y # insertBy lt x ys)"

definition ordered :: "Analyzer \<Rightarrow> Segment list" where
  "ordered z = fold (insertBy segmentBefore) (dvalues (azSegments z)) []"

definition lastOnes :: "nat \<Rightarrow> 'a list \<Rightarrow> 'a list" where
  "lastOnes n xs = rev (take n (rev xs))"

definition contextOf :: "int \<Rightarrow> Analyzer \<Rightarrow> Segment list" where
  "contextOf now z = lastOnes analysisSegments (filter (\<lambda>s. zgFinal s \<and> zgAt s + retentionMs > now) (ordered z))"

definition contextText :: "int \<Rightarrow> Analyzer \<Rightarrow> string" where
  "contextText now z = sliceLast analysisCharacters (joinSpace (map zgText (contextOf now z)))"

definition ruleSignals :: "int \<Rightarrow> Analyzer \<Rightarrow> RiskSignal list" where
  "ruleSignals now z =
     mergePolicySignals (azPolicy z) (contextText now z) (raSignals (analyzeWithRules (contextText now z)))"

definition contextId :: "lib \<Rightarrow> int \<Rightarrow> Analyzer \<Rightarrow> string" where
  "contextId L now z = hashCanonical L (JArr (map (\<lambda>s. JObj [(''segmentId'', JStr (zgSegment s)),
     (''revision'', JNum (zgRevision s)), (''text'', JStr (zgText s))]) (contextOf now z)))"

definition pick :: "Segment \<Rightarrow> string \<times> int \<times> string" where
  "pick s = (zgSegment s, zgRevision s, zgText s)"

section \<open>Publishing\<close>

definition riskAction :: string where
  "riskAction = points [48124, 44048, 54620, 32, 50836, 44396, 45716, 32, 49688, 54665, 54616, 51648, 32,
      47568, 44256, 32, 48324, 46020, 32, 51064, 51613, 54620, 32, 44277, 49885, 32, 50629, 47924, 32,
      44221, 47196, 50640, 49436, 32, 54869, 51064, 54616, 49464, 50836, 46]"

definition riskLimitations :: string where
  "riskLimitations = points [52572, 44540, 32, 49345, 45824, 32, 48156, 54868, 51032, 32, 45348, 32, 44032,
      51648, 32, 50948, 54744, 32, 50836, 44396, 47564, 32, 48516, 49437, 54633, 45768, 45796, 46, 32,
      48120, 53456, 51648, 45716, 32, 50504, 51204, 32, 54032, 51221, 51060, 32, 50500, 45768, 47728, 32,
      47785, 51201, 32, 51060, 53448, 183, 48156, 49888, 51088, 32, 51064, 51613, 51008, 32, 48516, 49437,
      54616, 51648, 32, 50506, 49845, 45768, 45796, 46]"

definition purposeJson :: "PurposeAssessment \<Rightarrow> json" where
  "purposeJson p = JObj [(''relation'', JStr (ppRelation p)), (''evidenceSpan'', JStr (ppEvidence p)),
     (''reason'', JStr (ppReason p))]"

definition eventJson :: "AnalysisEvent \<Rightarrow> json" where
  "eventJson e = JObj ([(''streamId'', JStr (evStream e)), (''segmentId'', JStr (evSegment e)),
     (''revision'', JNum (evRevision e)), (''contextRevision'', JNum (int (evContextRevision e))),
     (''eventSequence'', JNum (int (evSequence e))), (''contextId'', JStr (evContextId e)),
     (''dependencies'', JArr (map (\<lambda>(segment, revision).
        JObj [(''segmentId'', JStr segment), (''revision'', JNum revision)]) (evDependencies e))),
     (''policyHash'', JStr (evPolicyHash e)), (''policyVersion'', JNum (evPolicyVersion e)),
     (''status'', JStr (evStatus e)), (''engine'', JStr (evEngine e)),
     (''signals'', JArr (map signalJson (evSignals e)))] @
     (case evBody e of
        RiskBody rows \<Rightarrow> [(''analyzerVersion'', JStr ''risk-context-2''), (''promptVersion'',
            JStr ''callsign-risk-2''),
          (''assessments'', JArr (map assessmentJson rows)), (''action'', JStr riskAction),
          (''limitations'', JStr riskLimitations)]
      | PurposeBody p \<Rightarrow> [(''analyzerVersion'', JStr ''purpose-context-1''), (''purpose'',
          purposeJson p)]))"

definition stillQuoted :: "RiskUnit list \<Rightarrow> RiskAssessment \<Rightarrow> bool" where
  "stillQuoted units row \<longleftrightarrow> rkEvidence row \<noteq> [] \<and> list_all (\<lambda>e. list_ex (\<lambda>u.
     ruSegment u = reSegment e \<and> ruRevision u = reRevision e \<and> ruText u = reQuote e) units) (rkEvidence row)"

definition refreshed :: "RiskUnit list \<Rightarrow> RiskAssessment \<Rightarrow> RiskAssessment" where
  "refreshed units row = row\<lparr> rkEvidence := concat (map (\<lambda>e.
     (case find (\<lambda>u. ruSegment u = reSegment e) units of
        Some u \<Rightarrow> [riskEvidenceFor u units (rkCode row)] | None \<Rightarrow> [])) (rkEvidence row)) \<rparr>"

definition activeSignal :: "RiskAssessment \<Rightarrow> RiskSignal list" where
  "activeSignal row =
     (if rkResult row = ''detected''
      then map (\<lambda>e. \<lparr> rsCategory = codeCategory (rkCode row), rsEvidence = reQuote e,
          rsExplanation = rkExplanation row \<rparr>)
        (take 1 (filter (\<lambda>e. reState e = ''active'') (rkEvidence row)))
      else [])"

definition emit :: "AnalysisEvent \<Rightarrow> unit analyzerOp" where
  "emit e = bindS (guardS (\<not> serviceAnalysisEventSchema (eventJson e)) ZodError) (\<lambda>_.
     modifyS (\<lambda>z. z\<lparr> azEvents := azEvents z @ [e] \<rparr>))"

definition publishedRows :: "string \<Rightarrow> RiskAssessment list option \<Rightarrow> RiskUnit list \<Rightarrow> Analyzer \<Rightarrow> RiskAssessment list" where
  "publishedRows status assessments units z =
     (if status = ''withdrawn'' then []
      else case assessments of Some rs \<Rightarrow> rs
        | None \<Rightarrow> if riskMode z then ruleRiskAssessments units (azPolicy z) @ map (refreshed units) (azRetained z) else [])"

definition analysisEvent ::
    "lib \<Rightarrow> int \<Rightarrow> string \<Rightarrow> string \<Rightarrow> RiskSignal list \<Rightarrow> PurposeAssessment \<Rightarrow> RiskAssessment list \<Rightarrow> string
      \<Rightarrow> Analyzer \<Rightarrow> AnalysisEvent" where
  "analysisEvent L now status engine signals purpose rows h z =
     (let context = contextOf now z in
      \<lparr> evStream = azStream z, evSegment = (if context = [] then [] else zgSegment (last context)),
        evRevision = (if context = [] then 0 else zgRevision (last context)), evContextRevision = azVersion z,
        evSequence = azSequence z, evContextId = contextId L now z,
        evDependencies = map (\<lambda>s. (zgSegment s, zgRevision s)) context, evPolicyHash = h,
        evPolicyVersion = jnum (azPolicy z) ''version'', evStatus = status, evEngine = engine,
        evSignals = (if riskMode z then concat (map activeSignal rows) else signals),
        evBody = (if riskMode z then RiskBody rows else PurposeBody purpose) \<rparr>)"

definition publish ::
    "lib \<Rightarrow> int \<Rightarrow> string \<Rightarrow> string \<Rightarrow> RiskSignal list \<Rightarrow> PurposeAssessment \<Rightarrow> RiskAssessment list option
      \<Rightarrow> unit analyzerOp" where
  "publish L now status engine signals purpose assessments =
     bindS (readS (\<lambda>z. if riskMode z then riskSnapshot (map pick (contextOf now z)) else Inr [])) (\<lambda>units.
     bindS (modifyS (\<lambda>z. z\<lparr> azRetained := filter (stillQuoted units) (azRetained z),
         azSequence := azSequence z + 1 \<rparr>)) (\<lambda>_.
     bindS (readS (\<lambda>z. bindE (policyHash L (azPolicy z)) (\<lambda>h. Inr
       (analysisEvent L now status engine signals purpose (publishedRows status assessments units z) h z)))) emit))"

section \<open>Starting and stopping\<close>

definition abortRunning :: "Analyzer \<Rightarrow> Analyzer" where
  "abortRunning z = z\<lparr> azAborted := azController z # (case azRunningController z of Some c \<Rightarrow> [c] | None \<Rightarrow> []) @ azAborted z \<rparr>"

definition stopAnalysis :: "lib \<Rightarrow> int \<Rightarrow> unit analyzerOp" where
  "stopAnalysis L now =
     bindS (modifyS (\<lambda>z. (abortRunning z)\<lparr> azTimer := False, azExpiry := None,
         azVersion := azVersion z + 1,
        azQueued := False \<rparr>)) (\<lambda>_.
     bindS (readS (\<lambda>z. Inr (azActive z))) (\<lambda>active.
     bindS (if active then publish L now ''withdrawn'' ''stopped'' []
          (unknownPurpose (points [46041, 51032, 32, 52384, 54924, 32, 46608, 45716, 32, 53685, 54868, 32,
              51333, 47308, 47196, 32, 48516, 49437, 51012, 32, 51473, 45800, 54664, 49845, 45768, 45796,
              46])) None else returnS ()) (\<lambda>_.
     modifyS (\<lambda>z. z\<lparr> azActive := False, azRetained := [], azSegments := [],
         azSeen := [] \<rparr>))))"

definition startAnalysis :: "lib \<Rightarrow> int \<Rightarrow> string \<Rightarrow> unit analyzerOp" where
  "startAnalysis L now stream = bindS (stopAnalysis L now) (\<lambda>_.
     modifyS (\<lambda>z. z\<lparr> azStream := stream, azActive := True, azCalls := 0, azContext := [],
         azSeen := [] \<rparr>))"

definition isCurrent :: "AnalysisEvent \<Rightarrow> Analyzer \<Rightarrow> bool" where
  "isCurrent e z \<longleftrightarrow> azActive z \<and> evStream e = azStream z \<and> evContextRevision e = azVersion z \<and> evSequence e = azSequence z"

section \<open>New utterances\<close>

definition isNewRevision :: "json \<Rightarrow> SeenRevision option \<Rightarrow> bool" where
  "isNewRevision v old = (case old of None \<Rightarrow> True
     | Some o' \<Rightarrow> \<not> (jnum v ''revision'' \<le> znRevision o' \<or> (znFinal o' \<and> \<not> jbool v ''final'')))"

definition fileSegment :: "int \<Rightarrow> json \<Rightarrow> Analyzer \<Rightarrow> Analyzer" where
  "fileSegment now v z =
     (let segment = jstr v ''segmentId'';
          place = (case dget (azSeen z) segment of Some o' \<Rightarrow> znOrder o' | None \<Rightarrow> length (azSeen z)) in
      z\<lparr> azSeen := dput segment \<lparr> znRevision = jnum v ''revision'',
          znFinal = jbool v ''final'', znOrder = place \<rparr> (azSeen z),
         azSegments := (if jsTrim (jstr v ''text'') \<noteq> []
           then dput segment \<lparr> zgStream = jstr v ''streamId'', zgSegment = segment,
               zgRevision = jnum v ''revision'',
             zgFinal = jbool v ''final'', zgText = jstr v ''text'', zgAt = now,
                 zgOrder = place \<rparr> (azSegments z)
           else ddelete segment (azSegments z)) \<rparr>)"

definition forgetExpired :: "int \<Rightarrow> Analyzer \<Rightarrow> Analyzer" where
  "forgetExpired now z = z\<lparr> azSegments := filter (\<lambda>e. \<not> zgAt (snd e) + retentionMs \<le> now) (azSegments z) \<rparr>"

definition deleteOldest :: "Analyzer \<Rightarrow> Analyzer" where
  "deleteOldest z = z\<lparr> azSegments := ddelete (zgSegment (hd (ordered z))) (azSegments z) \<rparr>"

text \<open>The two loops delete one segment a round, so the number of segments bounds the rounds.\<close>

primrec dropSegments :: "nat \<Rightarrow> Analyzer \<Rightarrow> Analyzer" where
  "dropSegments 0 z = z"
| "dropSegments (Suc n) z = (if length (azSegments z) > analysisSegments then dropSegments n (deleteOldest z) else z)"

definition contextSize :: "Analyzer \<Rightarrow> nat" where
  "contextSize z = sum_list (map (\<lambda>s. jsLength (zgText s) + (if riskMode z then 0 else 1)) (dvalues (azSegments z)))"

definition cutText :: "Segment \<Rightarrow> Segment" where
  "cutText s = s\<lparr> zgText := sliceLast 3999 (zgText s) \<rparr>"

primrec dropCharacters :: "nat \<Rightarrow> Analyzer \<Rightarrow> Analyzer" where
  "dropCharacters 0 z = z"
| "dropCharacters (Suc n) z =
     (if contextSize z > analysisCharacters
      then if length (azSegments z) = 1 then z\<lparr> azSegments := dmap cutText (azSegments z) \<rparr>
        else dropCharacters n (deleteOldest z)
      else z)"

definition appendOnly :: "Segment list \<Rightarrow> Segment list \<Rightarrow> bool" where
  "appendOnly previous context \<longleftrightarrow>
     length context > length previous \<and> map pick previous = take (length previous) (map pick context)"

definition earliest :: "Analyzer \<Rightarrow> int option" where
  "earliest z = (case map zgAt (dvalues (azSegments z)) of [] \<Rightarrow> None | t # ts \<Rightarrow> Some (fold min ts t))"

definition newContext :: "lib \<Rightarrow> int \<Rightarrow> bool \<Rightarrow> Analyzer \<Rightarrow> Analyzer" where
  "newContext L now appended z =
     (let z1 = z\<lparr> azContext := contextId L now z, azVersion := azVersion z + 1 \<rparr>;
          z2 = (if appended then z1 else abortRunning z1) in
      z2\<lparr> azController := azController z + 1, azQueued := contextText now z \<noteq> [],
          azTimer := True \<rparr>)"

definition changed :: "lib \<Rightarrow> int \<Rightarrow> string \<Rightarrow> bool \<Rightarrow> unit analyzerOp" where
  "changed L now status appended =
     bindS (readS (\<lambda>z. Inr z)) (\<lambda>z.
     if contextId L now z = azContext z \<and> contextText now z \<noteq> [] then returnS ()
     else
       bindS (modifyS (\<lambda>z. if contextId L now z \<noteq> azContext z then newContext L now appended z else z)) (\<lambda>_.
       bindS (modifyS (\<lambda>z. z\<lparr> azExpiry := None \<rparr>)) (\<lambda>_.
       bindS (publish L now status ''rules'' (ruleSignals now z)
         (unknownPurpose (points [52572, 44540, 32, 49345, 45824, 32, 48156, 54868, 51032, 32, 47785,
             51201, 32, 44288, 44228, 47484, 32, 54869, 51064, 32, 51473, 51077, 45768, 45796, 46, 32,
             44256, 44061, 32, 48156, 54868, 45716, 32, 49688, 51665, 54616, 51648, 32, 50506, 49845,
             45768, 45796, 46])) None) (\<lambda>_.
       modifyS (\<lambda>z. z\<lparr> azExpiry := map_option (\<lambda>t. max (now + 1) (t + retentionMs)) (earliest z) \<rparr>)))))"

definition accept :: "lib \<Rightarrow> int \<Rightarrow> json \<Rightarrow> bool analyzerOp" where
  "accept L now v =
     bindS (liftE (parseWith transcriptRevisionSchema v)) (\<lambda>_.
     bindS (readS (\<lambda>z. Inr z)) (\<lambda>z.
     bindS (guardS (\<not> azActive z \<or> \<not> isStr v ''streamId'' (azStream z)) (Error ''ANALYSIS_CONSENT_REQUIRED'')) (\<lambda>_.
     let old = dget (azSeen z) (jstr v ''segmentId'') in
     if \<not> isNewRevision v old then returnS False
     else
       bindS (guardS (old = None \<and> length (azSeen z) \<ge> 256) (Error ''TRANSCRIPT_SESSION_LIMIT'')) (\<lambda>_.
       let previous = contextOf now z;
           filed = forgetExpired now (fileSegment now v z);
           short = dropSegments (length (azSegments filed)) filed;
           next = dropCharacters (length (azSegments short)) short in
       bindS (modifyS (\<lambda>_. next)) (\<lambda>_.
       bindS (changed L now (if jbool v ''final'' then ''analyzing'' else ''partial'')
          (appendOnly previous (contextOf now next))) (\<lambda>_. returnS True))))))"

text \<open>The timer that \<^verbatim>\<open>changed\<close> sets for the oldest segment.\<close>

definition expire :: "lib \<Rightarrow> int \<Rightarrow> unit analyzerOp" where
  "expire L now =
     bindS (readS (\<lambda>z. Inr (azActive z))) (\<lambda>active.
     bindS (modifyS (\<lambda>z. z\<lparr> azExpiry := None \<rparr>)) (\<lambda>_.
     if \<not> active then returnS ()
     else bindS (modifyS (forgetExpired now)) (\<lambda>_. changed L now ''analyzing'' False)))"

section \<open>Asking the model\<close>

definition failureEngine :: "js_error \<Rightarrow> string" where
  "failureEngine e = (case e of
     Error m \<Rightarrow> if m \<in> set [''request-limit'', ''not-configured'',
         ''LLM_ANALYSIS_JSON_INVALID'', ''LLM_RESPONSE_INCOMPLETE'',
         ''LLM_EVIDENCE_CONTEXT_INVALID'', ''LLM_EVIDENCE_ID_INVALID'', ''LLM_EVIDENCE_REQUIRED'',
         ''LLM_EXPLANATION_INVALID'', ''LLM_RISK_SCOPE_MISMATCH''] then m else ''rules-fallback''
   | ZodError \<Rightarrow> ''response-schema-invalid''
   | _ \<Rightarrow> ''rules-fallback'')"

text \<open>\<^verbatim>\<open>this.active&&version===this.version&&!controller.signal.aborted\<close>\<close>

definition flightCurrent :: "Flight \<Rightarrow> Analyzer \<Rightarrow> bool" where
  "flightCurrent f z \<longleftrightarrow> azActive z \<and> flVersion f = azVersion z \<and> flController f \<notin> set (azAborted z)"

definition whenCurrent :: "Flight \<Rightarrow> unit analyzerOp \<Rightarrow> unit analyzerOp" where
  "whenCurrent f m = bindS (readS (\<lambda>z. Inr (flightCurrent f z))) (\<lambda>current. if current then m else returnS ())"

definition publishFailure :: "lib \<Rightarrow> int \<Rightarrow> Flight \<Rightarrow> js_error \<Rightarrow> unit analyzerOp" where
  "publishFailure L now f e = whenCurrent f (
     bindS (readS (\<lambda>z. Inr (ruleSignals now z))) (\<lambda>signals.
     publish L now ''unavailable'' (failureEngine e) signals
       (unknownPurpose (points [47785, 51201, 32, 48516, 49437, 51012, 32, 49688, 54665, 54624, 32, 49688,
           32, 50630, 49845, 45768, 45796, 46, 32, 54869, 51064, 32, 44032, 45733, 54620, 32, 44508, 52825,
           32, 44540, 44144, 47564, 32, 54364, 49884, 54633, 45768, 45796, 46])) None))"

definition flushDone :: "unit analyzerOp" where
  "flushDone = modifyS (\<lambda>z. z\<lparr> azRunning := False, azRunningController := None,
      azFlight := None,
     azTimer := azTimer z \<or> (azActive z \<and> azQueued z) \<rparr>)"

definition callProvider :: "int \<Rightarrow> Flight \<Rightarrow> unit analyzerOp" where
  "callProvider now f =
     bindS (readS (\<lambda>z. Inr z)) (\<lambda>z.
     bindS (guardS (azProvider z = NoProvider \<or> azProvider z = RiskProvider False) (Error ''not-configured'')) (\<lambda>_.
     bindS (guardS (azCalls z \<ge> analysisRequests) (Error ''request-limit'')) (\<lambda>_.
     bindS (modifyS (\<lambda>z. z\<lparr> azCalls := azCalls z + 1 \<rparr>)) (\<lambda>_.
     bindS (liftE (if riskMode z then riskSnapshot (map pick (contextOf now z)) else Inr [])) (\<lambda>units.
     modifyS (\<lambda>z. z\<lparr> azFlight := Some (f\<lparr> flUnits := units \<rparr>) \<rparr>))))))"

definition flushStart :: "lib \<Rightarrow> int \<Rightarrow> unit analyzerOp" where
  "flushStart L now =
     bindS (readS (\<lambda>z. Inr z)) (\<lambda>z.
     bindS (modifyS (\<lambda>z. z\<lparr> azTimer := False \<rparr>)) (\<lambda>_.
     if \<not> azActive z \<or> \<not> azQueued z \<or> azRunning z then returnS ()
     else
       let f = \<lparr> flVersion = azVersion z, flController = azController z, flText = contextText now z,
           flUnits = [] \<rparr> in
       bindS (modifyS (\<lambda>z. z\<lparr> azQueued := False, azRunning := True,
           azRunningController := Some (azController z) \<rparr>)) (\<lambda>_.
       catchS (callProvider now f) (\<lambda>e. finallyS (publishFailure L now f e) flushDone))))"

definition riskAnswer :: "lib \<Rightarrow> int \<Rightarrow> Flight \<Rightarrow> json \<Rightarrow> unit analyzerOp" where
  "riskAnswer L now f v =
     bindS (readS (\<lambda>z. validateRiskOutput v (flUnits f) (azPolicy z))) (\<lambda>rows.
     whenCurrent f (
       let evaluated = map (\<lambda>row. row\<lparr> rkEvaluated := Some (int (flVersion f)) \<rparr>) rows in
       bindS (modifyS (\<lambda>z. z\<lparr> azRetained := filter (\<lambda>row. rkResult row = ''detected'') evaluated \<rparr>)) (\<lambda>_.
       bindS (readS (\<lambda>z. Inr (ruleRiskAssessments (flUnits f) (azPolicy z)))) (\<lambda>ruled.
       publish L now ''analyzed'' ''rules+llm'' [] (unknownPurpose []) (Some (ruled @ evaluated))))))"

definition textAnswer :: "lib \<Rightarrow> int \<Rightarrow> Flight \<Rightarrow> json \<Rightarrow> unit analyzerOp" where
  "textAnswer L now f v =
     bindS (liftE (parseWith serviceAnalysisSchema v)) (\<lambda>w.
     let a = readServiceAnalysis w;
         purpose = (case vaPurpose a of None \<Rightarrow> None
           | Some p \<Rightarrow> if ppRelation p = ''not-detected'' \<and> ppEvidence p = [] then None else Some p) in
     bindS (guardS (evidenceInvalid (flText f) a) (Error ''EVIDENCE_CONTEXT_MISMATCH'')) (\<lambda>_.
     whenCurrent f (bindS (readS (\<lambda>z. Inr z)) (\<lambda>z.
       publish L now (if purpose \<noteq> None then ''analyzed'' else ''unavailable'') ''rules+llm''
         (mergePolicySignals (azPolicy z) (flText f) (ruleSignals now z @ vaSignals a))
         (case purpose of Some p \<Rightarrow> p
          | None \<Rightarrow> unknownPurpose (points [47785, 51201, 32, 54032, 45800, 51012, 32, 46263,
              48155, 52840, 54616, 45716, 32, 48156, 54868, 32, 44540, 44144, 44032, 32, 50630, 49845,
              45768, 45796, 46, 32, 44277, 49885, 32, 50629, 47924, 50640, 49436, 32, 54869, 51064, 54616,
              49464, 50836, 46])) None))))"

text \<open>The provider answers, or fails with an exception.\<close>

definition flushEnd :: "lib \<Rightarrow> int \<Rightarrow> json result \<Rightarrow> unit analyzerOp" where
  "flushEnd L now answer =
     bindS (readS (\<lambda>z. Inr z)) (\<lambda>z.
     case azFlight z of
       None \<Rightarrow> returnS ()
     | Some f \<Rightarrow> finallyS (catchS
         (bindS (liftE answer) (if riskMode z then riskAnswer L now f else textAnswer L now f))
         (publishFailure L now f)) flushDone)"

end
