(* ===== verification/Patterns_Logic.thy ===== *)
theory Patterns_Logic
  imports Patterns
begin

text \<open>
  Facts of the texts and expressions of \<open>Patterns\<close>: the characters of a text given by its code
  points, and that a match is a piece of the text, so that cutting, deleting and collecting matches
  give no new character.
\<close>

section \<open>Code points\<close>

lemma char_of_small: "a < 256 \<Longrightarrow> b < 256 \<Longrightarrow> (char_of a = char_of b) = (a = (b::nat))"
  by (metis of_char_of mod_less)

lemma small_div: "n < 65536 \<Longrightarrow> 224 + n div 4096 < (256::nat)" "n < 1114112 \<Longrightarrow> 240 + n div 262144 < (256::nat)"
  "n < 2048 \<Longrightarrow> 192 + n div 64 < (256::nat)" "128 + n mod 64 < (256::nat)"
  by simp_all

lemma utf8_bytes:
  "n < 1114112 \<Longrightarrow> \<exists>b cs. utf8 n = b # cs \<and> \<not> continuation b \<and> list_all continuation cs"
  by (auto simp: utf8_def continuation_def Let_def)

lemma chars_append:
  assumes "list_all continuation cs" "rest = [] \<or> \<not> continuation (hd rest)"
  shows "chars (b # cs @ rest) = (b # cs) # chars rest"
proof -
  have "takeWhile continuation (cs @ rest) = cs" "dropWhile continuation (cs @ rest) = rest"
    using assms by (induction cs; cases rest; simp)+
  then show ?thesis by simp
qed

lemma chars_points: "\<forall>n \<in> set ns. n < 1114112 \<Longrightarrow> chars (points ns) = map utf8 ns"
proof (induction ns)
  case (Cons n ns)
  then obtain b cs where b: "utf8 n = b # cs" "list_all continuation cs" using utf8_bytes by force
  have "points ns = [] \<or> \<not> continuation (hd (points ns))"
  proof (cases ns)
    case (Cons m ms)
    with Cons.prems utf8_bytes [of m] show ?thesis by (auto simp: points_def)
  qed (simp add: points_def)
  with chars_append [OF b(2)] b(1) Cons show ?case by (simp add: points_def)
qed (simp add: points_def)

lemma split64: "(n :: nat) = (n div 4096 * 64 + n div 64 mod 64) * 64 + n mod 64"
  "(n :: nat) = ((n div 262144 * 64 + n div 4096 mod 64) * 64 + n div 64 mod 64) * 64 + n mod 64"
proof -
  have a: "n div 64 div 64 = n div 4096" "n div 4096 div 64 = n div 262144"
    by (simp_all add: div_mult2_eq [symmetric])
  have b: "n div 4096 * 64 + n div 64 mod 64 = n div 64" using a(1) div_mult_mod_eq [of "n div 64" 64] by simp
  have c: "n div 262144 * 64 + n div 4096 mod 64 = n div 4096" using a(2) div_mult_mod_eq [of "n div 4096" 64] by simp
  show "n = (n div 4096 * 64 + n div 64 mod 64) * 64 + n mod 64" unfolding b by simp
  show "n = ((n div 262144 * 64 + n div 4096 mod 64) * 64 + n div 64 mod 64) * 64 + n mod 64" unfolding c b by simp
qed

lemma utf8_inj:
  assumes "n < 1114112" "m < 1114112" "utf8 n = utf8 m"
  shows "n = m"
proof -
  have len: "length (utf8 k) = (if k < 128 then 1 else if k < 2048 then 2 else if k < 65536 then 3 else 4)" for k
    by (simp add: utf8_def)
  have l: "length (utf8 n) = length (utf8 m)" using assms(3) by simp
  consider "n < 128" "m < 128" | "128 \<le> n" "n < 2048" "128 \<le> m" "m < 2048"
    | "2048 \<le> n" "n < 65536" "2048 \<le> m" "m < 65536" | "65536 \<le> n" "65536 \<le> m"
    using l unfolding len by (auto split: if_splits)
  then show ?thesis
  proof cases
    case 1
    with assms(3) show ?thesis by (simp add: utf8_def char_of_small)
  next
    case 2
    with assms(3) have "n div 64 = m div 64" "n mod 64 = m mod 64"
      by (simp_all add: utf8_def char_of_small)
    then show ?thesis by (metis div_mult_mod_eq)
  next
    case 3
    with assms(3) have "n div 4096 = m div 4096" "n div 64 mod 64 = m div 64 mod 64" "n mod 64 = m mod 64"
      by (simp_all add: utf8_def char_of_small)
    then show ?thesis using split64(1) [of n] split64(1) [of m] by metis
  next
    case 4
    with assms have "n div 262144 = m div 262144" "n div 4096 mod 64 = m div 4096 mod 64" "n div 64 mod 64 = m div 64 mod 64"
      "n mod 64 = m mod 64"
      by (simp_all add: utf8_def char_of_small)
    then show ?thesis using split64(2) [of n] split64(2) [of m] by metis
  qed
qed
section \<open>Matching\<close>

lemma rests_suffix: "ys \<in> set (rests r xs) \<Longrightarrow> \<exists>p. xs = p @ ys"
proof (induction r arbitrary: xs ys)
  case (One q)
  then show ?case by (cases xs) (auto split: if_splits)
next
  case (UpTo n q)
  have "ys \<in> set (upToRests q n xs) \<Longrightarrow> \<exists>p. xs = p @ ys" for n
    by (induction q n xs rule: upToRests.induct) (auto split: if_splits simp: Cons_eq_append_conv)
  with UpTo show ?case by simp
next
  case (Many q)
  have "ys \<in> set (manyRests q xs) \<Longrightarrow> \<exists>p. xs = p @ ys"
    by (induction q xs rule: manyRests.induct) (auto split: if_splits simp: Cons_eq_append_conv)
  with Many show ?case by simp
next
  case (Then a b)
  then obtain zs where "zs \<in> set (rests a xs)" "ys \<in> set (rests b zs)" by auto
  with Then.IH obtain p q where "xs = p @ zs" "zs = q @ ys" by blast
  then show ?case by simp
next
  case (More a)
  have step: "ys \<in> set (again n (rests a) zs) \<Longrightarrow> \<exists>p. zs = p @ ys" for n zs
  proof (induction n arbitrary: zs)
    case (Suc n)
    show ?case
    proof (cases "ys = zs")
      case False
      with Suc.prems obtain us where "us \<in> set (rests a zs)" "ys \<in> set (again n (rests a) us)" by auto
      with More.IH Suc.IH obtain p q where "zs = p @ us" "us = q @ ys" by blast
      then show ?thesis by simp
    qed simp
  qed simp
  from More.prems obtain zs where "zs \<in> set (rests a xs)" "ys \<in> set (again (length xs) (rests a) zs)" by auto
  with More.IH step obtain p q where "xs = p @ zs" "zs = q @ ys" by blast
  then show ?case by simp
qed (auto split: if_splits)

lemma execRx_split: "execRx r xs = Some (before, m, after) \<Longrightarrow> xs = before @ m @ after"
proof (induction xs arbitrary: before)
  case Nil
  then show ?case using rests_suffix [of _ r "[]"]
    by (auto simp: execRx.simps [of r "[]"] split: list.splits)
next
  case (Cons x xs)
  show ?case
  proof (cases "rests r (x # xs)")
    case Nil
    with Cons.prems obtain b where "execRx r xs = Some (b, m, after)" "before = x # b"
      by (auto simp: execRx.simps [of r "x # xs"])
    with Cons.IH show ?thesis by simp
  next
    case (Cons ys zs)
    then have "\<exists>p. x # xs = p @ ys" using rests_suffix [of ys r "x # xs"] by simp
    then obtain p where p: "x # xs = p @ ys" by blast
    have "before = []" "after = ys" "m = take (length (x # xs) - length ys) (x # xs)"
      using Cons.prems Cons by (auto simp: execRx.simps [of r "x # xs"])
    with p show ?thesis by simp
  qed
qed

lemma occurrences_join:
  "occurrences n r xs = (ms, left) \<Longrightarrow> concat (map (\<lambda>(b, m). b @ m) ms) @ left = xs"
proof (induction n arbitrary: xs ms left)
  case (Suc n)
  show ?case
  proof (cases "execRx r xs")
    case None
    with Suc.prems show ?thesis by simp
  next
    case (Some o')
    obtain b m a where o': "o' = (b, m, a)" by (cases o') auto
    obtain ms' left' where rest: "occurrences n r a = (ms', left')" by (cases "occurrences n r a")
    show ?thesis
      using Suc.prems Suc.IH [OF rest] execRx_split [OF Some [unfolded o']] Some o' rest
      by (auto split: if_splits)
  qed
qed simp

lemma replaceAll_delete_set: "set (replaceAll r (\<lambda>_. []) xs) \<subseteq> set xs"
proof -
  obtain ms left where e: "allOccurrences r xs = (ms, left)" by (cases "allOccurrences r xs")
  then have "concat (map (\<lambda>(b, m). b @ m) ms) @ left = xs"
    unfolding allOccurrences_def by (rule occurrences_join)
  then have "set xs = (\<Union>(b, m) \<in> set ms. set b \<union> set m) \<union> set left" by force
  then show ?thesis by (force simp: replaceAll_def e)
qed

lemma rests_literal: "rests (foldr (\<lambda>c. Then (One (\<lambda>x. x = c))) cs Empty) xs \<noteq> [] \<Longrightarrow> \<exists>v. xs = cs @ v"
  by (induction cs arbitrary: xs) (auto split: list.splits if_splits)

lemma occurs_rests: "occurs r xs \<Longrightarrow> \<exists>u v. xs = u @ v \<and> rests r v \<noteq> []"
proof (induction xs)
  case (Cons x xs)
  show ?case
  proof (cases "rests r (x # xs) = []")
    case True
    with Cons.prems have "occurs r xs" by simp
    with Cons.IH obtain u v where "xs = u @ v" "rests r v \<noteq> []" by blast
    then have "x # xs = (x # u) @ v \<and> rests r v \<noteq> []" by simp
    then show ?thesis by blast
  qed (metis append_Nil)
qed simp

lemma occurs_words:
  assumes "occurs (words ws) xs"
  shows "\<exists>w \<in> set ws. set (chars (points w)) \<subseteq> set xs"
proof -
  from occurs_rests [OF assms] obtain u v where v: "xs = u @ v" "rests (words ws) v \<noteq> []" by blast
  have "\<exists>w \<in> set ws. rests (literal (points w)) v \<noteq> []"
    using v(2) unfolding words_def anyOf_def by (induction ws) auto
  then obtain w where "w \<in> set ws" "rests (literal (points w)) v \<noteq> []" by blast
  with rests_literal [of "chars (points w)" v] v(1) show ?thesis by (auto simp: literal_def)
qed

lemma chars_length: "c \<in> set (chars s) \<Longrightarrow> jsLength c \<le> 2"
proof (induction s rule: chars.induct)
  case (2 b s)
  have "jsLength (takeWhile continuation s) = 0"
    by (induction s) (auto simp: continuation_def)
  with 2 show ?case by (auto split: if_splits)
qed simp

lemma matchAll_set: "m \<in> set (matchAll r xs) \<Longrightarrow> set m \<subseteq> set xs"
proof -
  obtain ms left where e: "allOccurrences r xs = (ms, left)" by (cases "allOccurrences r xs")
  then have xs: "concat (map (\<lambda>(b, m). b @ m) ms) @ left = xs"
    unfolding allOccurrences_def by (rule occurrences_join)
  assume "m \<in> set (matchAll r xs)"
  with e xs show ?thesis by (force simp: matchAll_def)
qed

end
