(* ===== verification/Analyzer_Properties.thy ===== *)
theory Analyzer_Properties
  imports Analyzer Patterns_Logic Finals_Scenario
begin

text \<open>
  What the risk analysis promises: the rules always give an analysis of the published form, every
  quotation it publishes was spoken by the other party of that stream, and a withdrawn analysis
  stays silent.
\<close>

section \<open>The rules give an analysis of the published form\<close>

lemma firstUnits_positive:
  "c \<in> set xs \<Longrightarrow> 0 < jsLength c \<Longrightarrow> (\<forall>x \<in> set xs. jsLength x \<le> n) \<Longrightarrow> 0 < unitsOf (firstUnits n xs)"
proof (induction xs)
  case (Cons x xs)
  then show ?case by (cases "jsLength x = 0") (auto simp: unitsOf_def)
qed simp

lemma firstUnits_bound: "unitsOf (firstUnits n xs) \<le> n"
proof (induction xs arbitrary: n)
  case (Cons x xs)
  have "unitsOf (firstUnits (n - jsLength x) xs) \<le> n - jsLength x" by (rule Cons.IH)
  then show ?case by (auto simp: unitsOf_def)
qed (simp add: unitsOf_def)

lemma jsLength_concat: "jsLength (concat xs) = unitsOf xs"
  by (induction xs) (auto simp: unitsOf_def)

lemma trimmed_set: "c \<in> set xs \<Longrightarrow> \<not> isWhite c \<Longrightarrow> c \<in> set (trimmed xs)"
proof -
  have drop: "\<not> isWhite c \<Longrightarrow> c \<in> set ys \<Longrightarrow> c \<in> set (dropWhile isWhite ys)" for ys
    by (induction ys) auto
  assume "c \<in> set xs" "\<not> isWhite c"
  then show ?thesis by (simp add: trimmed_def drop)
qed

lemma dropUnits_set: "set (dropUnits n xs) \<subseteq> set xs"
  by (induction n xs rule: dropUnits.induct) auto

lemma addFragment_set:
  "set f \<subseteq> C \<Longrightarrow> \<forall>s \<in> set ss. set s \<subseteq> C \<Longrightarrow> s \<in> set (addFragment f ss) \<Longrightarrow> set s \<subseteq> C"
  using dropUnits_set by (fastforce simp: addFragment_def Let_def dest: in_set_butlastD split: option.splits if_splits)

lemma correctedSentences_set: "s \<in> set (correctedSentences t) \<Longrightarrow> set s \<subseteq> set (chars t)"
proof -
  have "\<forall>f \<in> set fs. set f \<subseteq> C \<Longrightarrow> \<forall>s \<in> set ss. set s \<subseteq> C \<Longrightarrow> \<forall>s \<in> set (fold addFragment fs ss). set s \<subseteq> C" for fs ss and C :: "string set"
  proof (induction fs arbitrary: ss)
    case (Cons f fs)
    from Cons.prems have "\<forall>s \<in> set (addFragment f ss). set s \<subseteq> C" using addFragment_set by (metis list.set_intros(1))
    with Cons show ?case by simp
  qed simp
  from this [of "matchAll (sentenceOf quotedText) (chars t)" "set (chars t)" "[]"] matchAll_set
  show "s \<in> set (correctedSentences t) \<Longrightarrow> set s \<subseteq> set (chars t)"
    unfolding correctedSentences_def by fastforce
qed

text \<open>A sentence that asks for something has a character other than white space.\<close>

lemma demandText_char:
  assumes "occurs demandText xs"
  shows "\<exists>c \<in> set xs. \<not> isWhite c \<and> jsLength c = 1"
proof -
  obtain w where w: "w \<in> set [[50508, 47140], [48520, 47084], [48372, 45236], [49569, 44552], [51077, 44552],
      [49444, 52824], [48708, 48128], [47568, 54616, 51648], [50508, 47532, 51648]]"
    "set (chars (points w)) \<subseteq> set xs"
    using occurs_words [OF assms [unfolded demandText_def]] by blast
  have hangul: "\<not> isWhite (utf8 n) \<and> jsLength (utf8 n) = 1" if "44032 \<le> n" "n \<le> 55203" for n
  proof -
    have "n = m" if "utf8 n = utf8 m" "m < 1114112" for m
      using utf8_inj [of n m] that \<open>n \<le> 55203\<close> by simp
    moreover have "\<forall>m \<in> set ([9, 10, 11, 12, 13, 32, 160, 5760] @ [8192..<8203] @ [8232, 8233, 8239, 8287, 12288, 65279]).
        m < 1114112 \<and> m \<noteq> n" using that by auto
    ultimately have "\<not> isWhite (utf8 n)" unfolding isWhite_def whiteChars_def set_map by blast
    moreover have "\<not> 64 \<le> n mod 64" "\<not> 64 \<le> n div 64 mod 64" "n div 4096 < 16"
      using that by (simp_all add: not_le)
    then have "jsLength (utf8 n) = 1" using that by (simp add: utf8_def)
    ultimately show ?thesis by simp
  qed
  have "w \<noteq> [] \<and> (\<forall>n \<in> set w. 44032 \<le> n \<and> n \<le> 55203)" using w(1) by auto
  then have "w \<noteq> []" "\<forall>n \<in> set w. 44032 \<le> n \<and> n \<le> 55203" by blast+
  moreover from this(2) have "\<forall>n \<in> set w. n < 1114112" by force
  ultimately have "utf8 (hd w) \<in> set (chars (points w))" "\<not> isWhite (utf8 (hd w)) \<and> jsLength (utf8 (hd w)) = 1"
    using chars_points [of w] hangul [of "hd w"] by simp_all
  then have "\<exists>c \<in> set (chars (points w)). \<not> isWhite c \<and> jsLength c = 1" by blast
  with w(2) show ?thesis by blast
qed

lemma ruleApplies_char:
  assumes "ruleApplies rule s"
  shows "\<exists>c \<in> set s. \<not> isWhite c \<and> jsLength c = 1"
proof -
  from assms obtain sentence where "requestSentence s (rrCategory rule) = Some sentence" "occurs demandText sentence"
    by (auto simp: ruleApplies_def split: option.splits)
  moreover from this(1) have "set sentence \<subseteq> set s"
    using replaceAll_delete_set by (auto simp: requestSentence_def Let_def split: if_splits)
  ultimately show ?thesis using demandText_char by blast
qed

lemma evidence_length:
  assumes "\<exists>c \<in> set s. \<not> isWhite c \<and> jsLength c = 1" and "\<forall>c \<in> set s. jsLength c \<le> 2"
  shows "lengthBetween 1 160 (concat (firstUnits 160 (trimmed s)))"
proof -
  from assms(1) trimmed_set obtain c where c: "c \<in> set (trimmed s)" "jsLength c = 1" by blast
  have "set (trimmed s) \<subseteq> set s" by (auto simp: trimmed_def dest!: set_dropWhileD)
  with assms(2) have "\<forall>x \<in> set (trimmed s). jsLength x \<le> 160" by fastforce
  with c firstUnits_positive [of c "trimmed s" 160] firstUnits_bound [of 160 "trimmed s"]
  show ?thesis by (simp add: lengthBetween_def jsLength_concat)
qed

lemma rule_texts:
  "rule \<in> set rules \<Longrightarrow> rrCategory rule \<in> set riskCategories \<and> lengthBetween 1 400 (rrExplanation rule)"
  by (auto simp: rules_def riskCategories_def lengthBetween_def points_def utf8_def)

lemma ruleSignal_conforms:
  assumes "rule \<in> set rules" and "x \<in> set (ruleSignal (correctedSentences t) rule)"
  shows "riskSignalSchema 160 (signalJson x)"
proof -
  obtain s where s: "find (ruleApplies rule) (correctedSentences t) = Some s"
    using assms(2) by (cases "find (ruleApplies rule) (correctedSentences t)") (auto simp: ruleSignal_def)
  then have x: "x = \<lparr> rsCategory = rrCategory rule, rsEvidence = concat (firstUnits 160 (trimmed s)),
      rsExplanation = rrExplanation rule \<rparr>"
    using assms(2) by (simp add: ruleSignal_def)
  from s have "ruleApplies rule s" "s \<in> set (correctedSentences t)" by (auto simp: find_Some_iff)
  moreover from this(2) have "\<forall>c \<in> set s. jsLength c \<le> 2" using correctedSentences_set [of s t] chars_length by blast
  ultimately have "lengthBetween 1 160 (concat (firstUnits 160 (trimmed s)))"
    using evidence_length [of s] ruleApplies_char [of rule s] by blast
  with rule_texts [OF assms(1)] show ?thesis unfolding riskSignalSchema_def signalJson_def x
    by (intro zObject_in_order) (simp_all add: zString_def zEnum_def del: lengthBetween_def)
qed

lemma ruleSignal_single: "length (ruleSignal ss rule) \<le> 1"
  by (simp add: ruleSignal_def split: option.split)

text \<open>
  C34: Whatever the transcript, the analysis by rules is of the published form: at most eight
  signals, each with one of the four categories and a quotation of 1 to 160 units that is not
  blank.
\<close>

theorem rule_analysis_conforms: "riskAnalysisSchema (analysisJson (analyzeWithRules transcript))"
proof -
  let ?found = "concat (map (ruleSignal (correctedSentences transcript)) rules)"
  have short: "length (concat (map f xs)) \<le> length xs"
    if "\<And>x. length (f x) \<le> 1" for f :: "RiskRule \<Rightarrow> RiskSignal list" and xs
  proof (induction xs)
    case (Cons x xs)
    then show ?case using that [of x] by simp
  qed simp
  have "length rules = 4" by (simp add: rules_def)
  then have "length ?found \<le> 8" using short [of "ruleSignal (correctedSentences transcript)" rules] ruleSignal_single by force
  moreover have "list_all (riskSignalSchema 160) (map signalJson ?found)"
    using ruleSignal_conforms by (auto simp: list_all_iff)
  ultimately have "zArray 0 8 (riskSignalSchema 160) (JArr (map signalJson ?found))" by (simp add: zArray_def)
  moreover have "lengthBetween 1 600 alertAction" "lengthBetween 1 600 calmAction" "lengthBetween 1 600 ruleLimitations"
    by (simp_all add: lengthBetween_def alertAction_def calmAction_def ruleLimitations_def points_def utf8_def)
  ultimately show ?thesis
    by (simp add: riskAnalysisSchema_def zObject_def analysisJson_def analyzeWithRules_def Let_def zString_def)
qed

section \<open>Runs of an analyser\<close>

datatype AnalyzerCall = CallStart string | CallStop | CallAccept json | CallExpire | CallFlush | CallAnswer "json result"

definition analyzerStep :: "lib \<Rightarrow> int \<times> AnalyzerCall \<Rightarrow> Analyzer \<Rightarrow> Analyzer" where
  "analyzerStep L c z = (case c of (now, call) \<Rightarrow> (case call of
     CallStart stream \<Rightarrow> snd (startAnalysis L now stream z)
   | CallStop \<Rightarrow> snd (stopAnalysis L now z)
   | CallAccept v \<Rightarrow> snd (accept L now v z)
   | CallExpire \<Rightarrow> snd (expire L now z)
   | CallFlush \<Rightarrow> snd (flushStart L now z)
   | CallAnswer answer \<Rightarrow> snd (flushEnd L now answer z)))"

definition analyzerRun :: "lib \<Rightarrow> (int \<times> AnalyzerCall) list \<Rightarrow> Analyzer \<Rightarrow> Analyzer" where
  "analyzerRun L calls z = fold (analyzerStep L) calls z"

type_synonym spokenText = "string \<times> string \<times> int \<times> string"

text \<open>What an event quotes, with its stream, and what a call brings as a final utterance.\<close>

definition quotedRow :: "string \<Rightarrow> RiskAssessment \<Rightarrow> spokenText list" where
  "quotedRow stream row = concat (map (\<lambda>e. (stream, reSegment e, reRevision e, reQuote e) #
     (case reWithdrawal e of None \<Rightarrow> [] | Some w \<Rightarrow> [(stream, w)])) (rkEvidence row))"

definition quotedIn :: "AnalysisEvent \<Rightarrow> spokenText list" where
  "quotedIn e = (case evBody e of
     RiskBody rows \<Rightarrow> concat (map (quotedRow (evStream e)) rows) | PurposeBody _ \<Rightarrow> [])"


section \<open>Evidence quotes what was spoken\<close>

definition unitsIn :: "(string \<times> int \<times> string) set \<Rightarrow> RiskUnit list \<Rightarrow> bool" where
  "unitsIn Q units \<longleftrightarrow> (\<forall>u \<in> set units. (ruSegment u, ruRevision u, ruText u) \<in> Q)"

definition evidenceIn :: "(string \<times> int \<times> string) set \<Rightarrow> RiskEvidence \<Rightarrow> bool" where
  "evidenceIn Q e \<longleftrightarrow> (reSegment e, reRevision e, reQuote e) \<in> Q \<and>
     (case reWithdrawal e of None \<Rightarrow> True | Some w \<Rightarrow> w \<in> Q)"

definition rowIn :: "(string \<times> int \<times> string) set \<Rightarrow> RiskAssessment \<Rightarrow> bool" where
  "rowIn Q row \<longleftrightarrow> (\<forall>e \<in> set (rkEvidence row). evidenceIn Q e)"

lemma find_in_set: "find P xs = Some x \<Longrightarrow> x \<in> set xs"
  by (induction xs) (auto split: if_splits)

lemma riskEvidenceFor_in:
  assumes "unitsIn Q units" and "u \<in> set units"
  shows "evidenceIn Q (riskEvidenceFor u units code)"
proof -
  have "(ruSegment v, ruRevision v, ruText v) \<in> Q" if "find P (dropWhile R units) = Some v" for v P R
    using find_in_set [OF that] assms(1) by (auto simp: unitsIn_def dest: set_dropWhileD)
  with assms show ?thesis by (auto simp: riskEvidenceFor_def Let_def unitsIn_def evidenceIn_def split: option.splits)
qed

lemma ruleRiskAssessments_in:
  "unitsIn Q units \<Longrightarrow> row \<in> set (ruleRiskAssessments units pol) \<Longrightarrow> rowIn Q row"
  using riskEvidenceFor_in
  by (fastforce simp: ruleRiskAssessments_def ruleAssessment_def Let_def rowIn_def)

lemma refreshed_in: "unitsIn Q units \<Longrightarrow> rowIn Q (refreshed units row)"
  by (auto simp: refreshed_def rowIn_def split: option.splits) (metis find_in_set riskEvidenceFor_in)




lemma quotedRow_in: "set (quotedRow stream row) \<subseteq> H \<longleftrightarrow> rowIn {q. (stream, q) \<in> H} row"
proof -
  have "set ((stream, reSegment e, reRevision e, reQuote e) # (case reWithdrawal e of None \<Rightarrow> [] | Some w \<Rightarrow> [(stream, w)])) \<subseteq> H
      \<longleftrightarrow> evidenceIn {q. (stream, q) \<in> H} e" for e
    by (auto simp: evidenceIn_def split: option.splits)
  then show ?thesis unfolding quotedRow_def rowIn_def set_concat set_map UN_subset_iff image_image ball_simps by blast
qed

section \<open>The invariant\<close>

definition spoken_by :: "spokenText set \<Rightarrow> Analyzer \<Rightarrow> (string \<times> int \<times> string) set" where
  "spoken_by H z = {q. (azStream z, q) \<in> H}"

definition segmentsIn :: "(string \<times> int \<times> string) set \<Rightarrow> Segment dict \<Rightarrow> bool" where
  "segmentsIn Q d \<longleftrightarrow> (\<forall>s \<in> set (dvalues d). jsLength (zgText s) \<le> 4000 \<and> (zgFinal s \<longrightarrow> pick s \<in> Q))"

definition flightIn :: "(string \<times> int \<times> string) set \<Rightarrow> Analyzer \<Rightarrow> Flight \<Rightarrow> bool" where
  "flightIn Q z f \<longleftrightarrow> flVersion f \<le> azVersion z \<and> (flVersion f = azVersion z \<longrightarrow> unitsIn Q (flUnits f))"

definition analysisInv :: "spokenText set \<Rightarrow> Analyzer \<Rightarrow> bool" where
  "analysisInv H z \<longleftrightarrow>
     (riskMode z \<longrightarrow> segmentsIn (spoken_by H z) (azSegments z) \<and> list_all (rowIn (spoken_by H z)) (azRetained z) \<and>
        (\<forall>f. azFlight z = Some f \<longrightarrow> flightIn (spoken_by H z) z f)) \<and>
     (\<forall>e \<in> set (azEvents z). set (quotedIn e) \<subseteq> H)"

lemma ordered_set: "set (ordered z) = set (dvalues (azSegments z))"
proof -
  have "set (insertBy lt x ys) = insert x (set ys)" for lt :: "Segment \<Rightarrow> Segment \<Rightarrow> bool" and x ys
    by (induction ys) auto
  then have "set (fold (insertBy lt) xs ys) = set xs \<union> set ys" for lt :: "Segment \<Rightarrow> Segment \<Rightarrow> bool" and xs ys
    by (induction xs arbitrary: ys) auto
  then show ?thesis by (simp add: ordered_def)
qed

lemma context_in: "segmentsIn Q (azSegments z) \<Longrightarrow> s \<in> set (contextOf now z) \<Longrightarrow> pick s \<in> Q"
  by (auto simp: contextOf_def lastOnes_def segmentsIn_def ordered_set dest!: in_set_takeD)

lemma snapshot_in:
  assumes "riskSnapshot (map pick (contextOf now z)) = Inr units" and "segmentsIn Q (azSegments z)"
  shows "unitsIn Q units"
proof -
  have "units = snapshotUnits (map pick (contextOf now z))"
    using assms(1) by (auto simp: riskSnapshot_def split: if_splits)
  moreover have "(ruSegment u, ruRevision u, ruText u) \<in> set ss" if "u \<in> set (snapshotUnits ss)" for u ss
    using that by (auto simp: snapshotUnits_def dest: set_zip_rightD)
  ultimately show ?thesis using context_in [OF assms(2)] by (fastforce simp: unitsIn_def)
qed


section \<open>Every operation keeps the invariant\<close>

lemma analysisInv_frame:
  "analysisInv H z \<Longrightarrow> azProvider z' = azProvider z \<Longrightarrow> azStream z' = azStream z \<Longrightarrow> azSegments z' = azSegments z \<Longrightarrow>
   set (azRetained z') \<subseteq> set (azRetained z) \<Longrightarrow> azVersion z' \<ge> azVersion z \<Longrightarrow> azFlight z' = azFlight z \<or> azFlight z' = None \<Longrightarrow>
   azEvents z' = azEvents z \<Longrightarrow> analysisInv H z'"
  by (auto simp: analysisInv_def riskMode_def spoken_by_def list_all_iff flightIn_def subset_iff)

text \<open>What \<^verbatim>\<open>publish\<close> changes: it forgets retained rows, counts, and adds at most one event.\<close>

lemma publish_shape:
  assumes "publish L now status engine signals purpose assessments z = (r, z')"
  obtains (unchanged) "z' = z"
  | (refused) R n where "set R \<subseteq> set (azRetained z)" "z' = z\<lparr> azRetained := R, azSequence := n \<rparr>"
  | (published) R n e where "set R \<subseteq> set (azRetained z)"
      "z' = z\<lparr> azRetained := R, azSequence := n, azEvents := azEvents z @ [e] \<rparr>" "evStream e = azStream z"
      "\<And>rows. evBody e = RiskBody rows \<Longrightarrow> riskMode z \<and> (\<exists>units. riskSnapshot (map pick (contextOf now z)) = Inr units \<and>
         (\<forall>row \<in> set rows. row \<in> set (case assessments of Some rs \<Rightarrow> rs | None \<Rightarrow> []) \<or>
           row \<in> set (ruleRiskAssessments units (azPolicy z)) \<or> row \<in> range (refreshed units)))"
proof -
  note step = assms [unfolded publish_def]
  show ?thesis
  proof (cases "if riskMode z then riskSnapshot (map pick (contextOf now z)) else Inr []")
    case (Inl e)
    with step have "z' = z" by (simp add: bindS_def readS_def)
    then show ?thesis by (rule unchanged)
  next
    case (Inr units)
    let ?R = "filter (stillQuoted units) (azRetained z)"
    let ?y = "z\<lparr> azRetained := ?R, azSequence := Suc (azSequence z) \<rparr>"
    have same: "riskMode ?y = riskMode z" by (simp add: riskMode_def)
    show ?thesis
    proof (cases "z' = ?y")
      case True
      then show ?thesis by (intro refused [of ?R]) auto
    next
      case False
      define E where "E = (\<lambda>h. analysisEvent L now status engine signals purpose (publishedRows status assessments units ?y) h ?y)"
      have "\<exists>h. z' = ?y\<lparr> azEvents := azEvents z @ [E h] \<rparr>" unfolding E_def
        using False step Inr
        by (auto simp: bindS_def readS_def modifyS_def emit_def guardS_def bindE_eq_Inr
            split: prod.splits sum.splits if_splits)
      then obtain h where e: "z' = ?y\<lparr> azEvents := azEvents z @ [E h] \<rparr>" by blast
      have "evStream (E h) = azStream z" by (simp add: E_def analysisEvent_def Let_def)
      moreover have "riskMode z \<and> rows = publishedRows status assessments units ?y" if "evBody (E h) = RiskBody rows" for rows
        using that by (auto simp: E_def analysisEvent_def Let_def same split: if_splits)
      ultimately show ?thesis using Inr e
        by (intro published [where R = ?R and n = "Suc (azSequence z)" and e = "E h"])
          (auto simp: publishedRows_def split: option.splits if_splits)
    qed
  qed
qed

lemma publish_inv:
  assumes "analysisInv H z" and "publish L now status engine signals purpose assessments z = (r, z')"
    and "\<And>rs row. riskMode z \<Longrightarrow> assessments = Some rs \<Longrightarrow> row \<in> set rs \<Longrightarrow> rowIn (spoken_by H z) row"
  shows "analysisInv H z'"
  using assms(2)
proof (cases rule: publish_shape)
  case (published R n e)
  have "set (quotedIn e) \<subseteq> H"
  proof (cases "evBody e")
    case (RiskBody rows)
    from published(4) [OF this] obtain units where risk: "riskMode z"
      and snap: "riskSnapshot (map pick (contextOf now z)) = Inr units"
      and rows: "\<forall>row \<in> set rows. row \<in> set (case assessments of Some rs \<Rightarrow> rs | None \<Rightarrow> []) \<or>
           row \<in> set (ruleRiskAssessments units (azPolicy z)) \<or> row \<in> range (refreshed units)" by blast
    have units: "unitsIn (spoken_by H z) units"
      using assms(1) risk snapshot_in [OF snap] by (simp add: analysisInv_def)
    have "rowIn (spoken_by H z) row" if "row \<in> set rows" for row
      using that rows assms(3) [OF risk] ruleRiskAssessments_in [OF units] refreshed_in [OF units]
      by (fastforce split: option.splits)
    with RiskBody published(3) show ?thesis
      using quotedRow_in [of "azStream z" _ H] by (auto simp: quotedIn_def spoken_by_def)
  qed (simp add: quotedIn_def)
  moreover have "analysisInv H (z\<lparr> azRetained := R, azSequence := n \<rparr>)"
    by (rule analysisInv_frame [OF assms(1)]) (use published(1) in auto)
  ultimately show ?thesis unfolding published(2) by (simp add: analysisInv_def riskMode_def spoken_by_def flightIn_def)
qed (use analysisInv_frame [OF assms(1)] assms(1) in auto)

lemma publish_preserves [preserves_intros]:
  "preserves (analysisInv H) (publish L now status engine signals purpose None)"
  unfolding preserves_def
proof (intro allI impI)
  fix z assume inv: "analysisInv H z"
  obtain r z' where p: "publish L now status engine signals purpose None z = (r, z')"
    by (cases "publish L now status engine signals purpose None z")
  from publish_inv [OF inv p] p show "analysisInv H (snd (publish L now status engine signals purpose None z))" by simp
qed










lemma analysisInv_mono: "analysisInv H z \<Longrightarrow> H \<subseteq> H' \<Longrightarrow> analysisInv H' z"
  by (fastforce simp: analysisInv_def spoken_by_def segmentsIn_def list_all_iff rowIn_def evidenceIn_def flightIn_def unitsIn_def
      split: option.splits)






text \<open>After a stop nothing is remembered, and a flight is older than the version.\<close>

lemma publish_keeps:
  "publish L now status engine signals purpose assessments z = (r, z') \<Longrightarrow>
   azVersion z' = azVersion z \<and> azFlight z' = azFlight z \<and> azActive z' = azActive z \<and> azProvider z' = azProvider z \<and>
   azStream z' = azStream z"
  by (erule publish_shape) simp_all

lemma stop_result:
  assumes "stopAnalysis L now z = (Inr u, z')"
  shows "\<not> azActive z' \<and> azRetained z' = [] \<and> azSegments z' = [] \<and> azFlight z' = azFlight z \<and>
    azVersion z' = Suc (azVersion z) \<and> azProvider z' = azProvider z"
  using assms publish_keeps
  by (fastforce simp: stopAnalysis_def result_simps bindS_def modifyS_def readS_def returnS_def abortRunning_def
      split: prod.splits sum.splits if_splits)


lemma catchS_inv:
  assumes "I (snd (m z))" and "\<And>e. preserves I (h e)"
  shows "I (snd (catchS m h z))"
proof -
  obtain r z' where "m z = (r, z')" by (cases "m z")
  with assms show ?thesis by (cases r) (simp_all add: catchS_def preserves_def)
qed

lemma finallyS_inv: "I (snd (m z)) \<Longrightarrow> preserves I c \<Longrightarrow> I (snd (finallyS m c z))"
  by (cases "m z") (simp add: preserves_def finallyS_def)

lemma preserves_finallyS [preserves_intros]:
  assumes "preserves I m" "preserves I c"
  shows "preserves I (finallyS m c)"
  using finallyS_inv [of I m _ c] assms by (simp add: preserves_def)











section \<open>A withdrawn analysis is silent\<close>

definition quiet :: "AnalysisEvent list \<Rightarrow> Analyzer \<Rightarrow> bool" where
  "quiet events z \<longleftrightarrow> \<not> azActive z \<and> azEvents z = events"

lemma quiet_modifyS: "(\<And>z. azActive (f z) = azActive z \<and> azEvents (f z) = azEvents z) \<Longrightarrow> preserves (quiet E) (modifyS f)"
  by (rule preserves_modifyS) (simp add: quiet_def)

lemma quiet_whenCurrent [preserves_intros]: "preserves (quiet E) (whenCurrent f m)"
  by (simp add: preserves_def quiet_def whenCurrent_def flightCurrent_def bindS_def readS_def returnS_def)

lemma quiet_flushDone [preserves_intros]: "preserves (quiet E) flushDone"
  unfolding flushDone_def by (rule quiet_modifyS) simp

lemma preserves_catchS [preserves_intros]:
  assumes "preserves I m" "\<And>e. preserves I (h e)"
  shows "preserves I (catchS m h)"
  using catchS_inv [of I m _ h] assms by (simp add: preserves_def)

lemma quiet_flushEnd: "preserves (quiet E) (flushEnd L now answer)"
proof -
  have "preserves (quiet E) (riskAnswer L now f v)" "preserves (quiet E) (textAnswer L now f v)"
    "preserves (quiet E) (publishFailure L now f e)" for f v e
    unfolding riskAnswer_def textAnswer_def publishFailure_def by (intro preserves_intros)+
  then have "preserves (quiet E) (case azFlight z of None \<Rightarrow> returnS () | Some f \<Rightarrow> finallyS (catchS
         (bindS (liftE answer) (if riskMode z then riskAnswer L now f else textAnswer L now f))
         (publishFailure L now f)) flushDone)" for z
    by (cases "azFlight z") (simp_all add: preserves_pure preserves_finallyS preserves_catchS preserves_bindS quiet_flushDone)
  then show ?thesis unfolding flushEnd_def by (intro preserves_intros)
qed

lemma quiet_step:
  assumes "quiet E z" and "\<And>stream. snd c \<noteq> CallStart stream"
  shows "quiet E (analyzerStep L c z)"
proof -
  obtain now call where c: "c = (now, call)" by (cases c)
  have off: "\<not> azActive z" using assms(1) by (simp add: quiet_def)
  show ?thesis
  proof (cases call)
    case (CallAccept v)
    with off have "snd (accept L now v z) = z"
      by (simp add: accept_def bindS_def liftE_def parseWith_def readS_def guardS_def)
    with CallAccept c assms show ?thesis by (simp add: analyzerStep_def)
  next
    case (CallAnswer answer)
    with c assms quiet_flushEnd show ?thesis by (simp add: analyzerStep_def preserves_def)
  qed (use assms c off in \<open>auto simp: analyzerStep_def quiet_def stopAnalysis_def expire_def flushStart_def bindS_def
      readS_def modifyS_def returnS_def abortRunning_def\<close>)
qed

text \<open>
  C36: Once an analysis is withdrawn nothing more is published before the next start, also by an
  answer of the model that was still awaited.
\<close>

theorem withdrawn_analysis_is_silent:
  assumes "stopAnalysis L now z = (Inr u, z1)"
    and "\<forall>c \<in> set calls. \<forall>stream. snd c \<noteq> CallStart stream"
  shows "azEvents (analyzerRun L calls z1) = azEvents z1"
proof -
  have run: "quiet E z \<Longrightarrow> \<forall>c \<in> set cs. \<forall>stream. snd c \<noteq> CallStart stream \<Longrightarrow> quiet E (fold (analyzerStep L) cs z)" for E z cs
    by (induction cs arbitrary: z) (simp_all add: quiet_step)
  have "quiet (azEvents z1) z1" using stop_result [OF assms(1)] by (simp add: quiet_def)
  from run [OF this assms(2)] show ?thesis by (simp add: analyzerRun_def quiet_def)
qed

definition azLib :: lib where
  "azLib = vrLib\<lparr> sha256hex := (\<lambda>_. vrDigest (CHR ''1'')) \<rparr>"

definition azLive :: Analyzer where
  "azLive = (newAnalyzer vrPolicy (RiskProvider True))\<lparr> azStream := ''stream'', azActive := True, azRunning := True,
     azFlight := Some \<lparr> flVersion = 0, flController = 0, flText = [], flUnits = [] \<rparr> \<rparr>"

definition azWithdrawn :: AnalysisEvent where
  "azWithdrawn = \<lparr> evStream = ''stream'', evSegment = [], evRevision = 0, evContextRevision = 1, evSequence = 1,
     evContextId = vrDigest (CHR ''1''), evDependencies = [], evPolicyHash = vrDigest (CHR ''1''),
     evPolicyVersion = jnum vrPolicy ''version'', evStatus = ''withdrawn'', evEngine = ''stopped'', evSignals = [],
     evBody = RiskBody [] \<rparr>"

lemma azWithdrawn_schema: "serviceAnalysisEventSchema (eventJson azWithdrawn)"
proof -
  have "jnum vrPolicy ''version'' = 1" by (simp add: vrPolicy_def jnum_def jget_def)
  moreover have "lengthBetween 1 300 riskAction" "lengthBetween 1 400 riskLimitations"
    by (simp_all add: lengthBetween_def riskAction_def riskLimitations_def points_def utf8_def)
  ultimately have "serviceRiskEventSchema (eventJson azWithdrawn)"
    by (simp add: serviceRiskEventSchema_def eventFields_def eventJson_def azWithdrawn_def zObject_def segmentIdSchema_def
        zString_def zInt_def zArray_def zEnum_def zLiteral_def digest_def positiveInt_def nonnegativeInt_def
        isSafeInteger_def maxSafeInteger_def isHex64_def vrDigest_def char_classes allIn_def lengthBetween_def)
      (simp add: list_all_iff)
  then show ?thesis by (simp add: serviceAnalysisEventSchema_def)
qed

lemma azLive_stops:
  "\<exists>z1. stopAnalysis azLib 5 azLive = (Inr (), z1) \<and> azEvents z1 = [azWithdrawn]"
proof -
  let ?z = "(abortRunning azLive)\<lparr> azTimer := False, azExpiry := None, azVersion := 1, azQueued := False \<rparr>"
  let ?y = "?z\<lparr> azRetained := [], azSequence := 1 \<rparr>"
  have live: "contextOf t ?z = []" "contextOf t ?y = []" for t
    by (simp_all add: contextOf_def ordered_def dvalues_def lastOnes_def abortRunning_def azLive_def newAnalyzer_def)
  have units: "riskSnapshot [] = Inr []" by (simp add: riskSnapshot_def snapshotUnits_def)
  have hash: "hashCanonical azLib v = vrDigest (CHR ''1'')" for v by (simp add: hashCanonical_def azLib_def)
  have digest: "policyHash azLib vrPolicy = Inr (vrDigest (CHR ''1''))"
    by (simp add: policyHash_def parseWith_def vrPolicy_schema hash)
  have event: "analysisEvent azLib 5 ''withdrawn'' ''stopped'' [] p [] (vrDigest (CHR ''1'')) ?y = azWithdrawn" for p
    unfolding analysisEvent_def live Let_def contextId_def hash azWithdrawn_def
    by (simp add: abortRunning_def azLive_def newAnalyzer_def riskMode_def)
  have "azRetained ?z = []" "azPolicy ?y = vrPolicy" "riskMode ?z" "azSequence ?z = 0" "azEvents ?y = []"
    by (simp_all add: abortRunning_def azLive_def newAnalyzer_def riskMode_def)
  then have p: "publish azLib 5 ''withdrawn'' ''stopped'' [] p None ?z = (Inr (), ?y\<lparr> azEvents := [azWithdrawn] \<rparr>)" for p
    by (simp add: publish_def bindS_def readS_def modifyS_def live units digest publishedRows_def event emit_def guardS_def
        azWithdrawn_schema del: One_nat_def)
  have "azActive azLive" "azVersion azLive = 0" "azActive ?z"
    by (simp_all add: azLive_def newAnalyzer_def abortRunning_def)
  then show ?thesis by (simp add: stopAnalysis_def bindS_def readS_def modifyS_def p [simplified])
qed

theorem withdrawn_analysis_is_silent_witness:
  "\<exists>z1. azEvents z1 = [azWithdrawn] \<and>
     azEvents (analyzerRun azLib [(6, CallAnswer (Inr JNull)), (7, CallAccept JNull), (8, CallFlush)] z1) = [azWithdrawn]"
proof -
  obtain z1 where z1: "stopAnalysis azLib 5 azLive = (Inr (), z1)" "azEvents z1 = [azWithdrawn]"
    using azLive_stops by blast
  have "azEvents (analyzerRun azLib [(6, CallAnswer (Inr JNull)), (7, CallAccept JNull), (8, CallFlush)] z1) = azEvents z1"
    by (rule withdrawn_analysis_is_silent [OF z1(1)]) simp
  with z1(2) show ?thesis by auto
qed

text \<open>
  The timer that \<^verbatim>\<open>changed\<close> arms for the oldest segment is lost when that segment was not final:
  the context is the same without it, and \<^verbatim>\<open>changed\<close> returns before it arms the timer again.
\<close>

lemma expiry_not_rearmed:
  assumes "azActive z" and "contextId L now (forgetExpired now z) = azContext z"
    and "contextText now (forgetExpired now z) \<noteq> []"
  shows "azExpiry (snd (expire L now z)) = None"
proof -
  let ?y = "forgetExpired now (z\<lparr> azExpiry := None \<rparr>)"
  have "contextOf now ?y = contextOf now (forgetExpired now z)" "azContext ?y = azContext z"
    by (simp_all add: contextOf_def ordered_def forgetExpired_def)
  with assms have "contextId L now ?y = azContext ?y" "contextText now ?y \<noteq> []"
    by (simp_all add: contextId_def contextText_def)
  with assms(1) show ?thesis
    by (simp add: expire_def changed_def bindS_def readS_def modifyS_def returnS_def) (simp add: forgetExpired_def)
qed

end
