(* ===== verification/Management_Properties.thy ===== *)
theory Management_Properties
  imports Management Service_Scenario
begin

text \<open>
  What the activation of a new approval key leaves of the old authority: nothing. The epoch, the key
  and its version advance, every authorization, credential and live attempt of both profiles is ended,
  and a service whose key changed has a higher key version.
\<close>

definition serviceEnded :: "ServiceState \<Rightarrow> bool" where
  "serviceEnded s \<longleftrightarrow> list_all sauCancelled (dvalues (ssAuthorizations s)) \<and>
     list_all (\<lambda>c. sdState c = CredentialRevoked) (dvalues (ssCredentials s)) \<and>
     list_all (\<lambda>a. terminal (saStatus a)) (dvalues (ssAttempts s))"

definition authorityEnded :: "InstitutionRecord \<Rightarrow> bool" where
  "authorityEnded r \<longleftrightarrow> list_all aiCancelled (dvalues (irAuthorizations r)) \<and>
     list_all diRevoked (dvalues (irCredentials r)) \<and>
     list_all (\<lambda>a. caStatus a \<in> {CallEnded, CallCancelled}) (dvalues (irAttempts r)) \<and>
     pred_option serviceEnded (irService r)"

lemma invalidated: "terminal (saStatus (invalidateAttempt now a))" "caStatus (endCall c) \<in> {CallEnded, CallCancelled}"
  by (auto simp: invalidateAttempt_def finishAttempt_def withdrawConsent_def terminal_def endCall_def)

lemma invalidateService_ended: "serviceEnded (invalidateService now s)"
  by (simp add: serviceEnded_def invalidateService_def dvalues_dmap list_all_iff invalidated(1))

lemma invalidateInstitution_ended: "authorityEnded (invalidateInstitution now r)"
  using invalidated(2) by (cases "irService r") (auto simp: authorityEnded_def invalidateInstitution_def onService_def
      dvalues_dmap list_all_iff invalidateService_ended)

lemma authorityEnded_cong:
  "irAuthorizations r' = irAuthorizations r \<Longrightarrow> irCredentials r' = irCredentials r \<Longrightarrow>
   irAttempts r' = irAttempts r \<Longrightarrow> irService r' = irService r \<Longrightarrow> authorityEnded r' = authorityEnded r"
  by (simp add: authorityEnded_def)

lemma replaceServiceKey_keeps [simp]:
  "irAuthorizations (replaceServiceKey k r) = irAuthorizations r" "irCredentials (replaceServiceKey k r) = irCredentials r"
  "irAttempts (replaceServiceKey k r) = irAttempts r" "irService (replaceServiceKey k r) = irService r"
  by (simp_all add: replaceServiceKey_def split: option.split)

lemma fold_replaceServiceKey_ended: "authorityEnded (fold replaceServiceKey ks r) = authorityEnded r"
proof (induction ks arbitrary: r)
  case (Cons k ks)
  then show ?case by (simp add: authorityEnded_cong [of "replaceServiceKey k r" r])
qed simp

definition keysAdvance :: "InstitutionRecord \<Rightarrow> InstitutionRecord \<Rightarrow> bool" where
  "keysAdvance r r' \<longleftrightarrow> (\<forall>uri s'. dget (irServices r') uri = Some s' \<longrightarrow>
     (\<exists>s. dget (irServices r) uri = Some s \<and> (s' = s \<or> svVersion s < svVersion s')))"

lemma replaceServiceKey_advances:
  assumes "keysAdvance r r'" "\<not> serviceKeyStale L r k"
  shows "keysAdvance r (replaceServiceKey k r')"
  using assms unfolding keysAdvance_def replaceServiceKey_def serviceKeyStale_def
  by (auto split: option.splits)

lemma fold_replaceServiceKey_advances:
  "keysAdvance r r' \<Longrightarrow> \<not> list_ex (serviceKeyStale L r) ks \<Longrightarrow> keysAdvance r (fold replaceServiceKey ks r')"
  by (induction ks arbitrary: r') (auto intro: replaceServiceKey_advances)

lemma installKey_ends: "authorityEnded (installKey L now b r)"
proof -
  let ?r = "fold replaceServiceKey (jarr b ''serviceKeys'') (invalidateInstitution now (markRecovery L now b r))"
  have "authorityEnded (installKey L now b r) = authorityEnded ?r"
    unfolding installKey_def by (rule authorityEnded_cong; simp)
  then show ?thesis by (simp add: fold_replaceServiceKey_ended invalidateInstitution_ended)
qed

lemma installKey_advances:
  assumes "\<not> list_ex (serviceKeyStale L r) (jarr b ''serviceKeys'')"
  shows "keysAdvance r (installKey L now b r)"
proof -
  have "keysAdvance r (invalidateInstitution now (markRecovery L now b r))"
    by (simp add: keysAdvance_def invalidateInstitution_def onService_def markRecovery_def split: option.split)
  from fold_replaceServiceKey_advances [OF this assms] show ?thesis
    by (simp add: keysAdvance_def installKey_def)
qed

lemma key_event:
  "kind \<noteq> ''call.cleanup'' \<Longrightarrow> serviceEvent now i user kind ob payload r = r\<lparr>
     irAudit := irAudit r @ [\<lparr> adId = i, adEvent = kind, adActor = user, adAt = now, adObject = ob \<rparr>],
     irPendingEvents := irPendingEvents r @ [\<lparr> peId = i, peKind = kind, peObject = ob, peAt = now, pePayload = payload \<rparr>] \<rparr>"
  by (simp add: serviceEvent_def)

text \<open>
  C37: an approval key that is activated is a new one of a later generation: the epoch and the key
  version have grown and the key differs. Nothing of the old generation survives: every authorization,
  credential and live attempt, of the finals and of the service profile, is ended, and each service
  keeps its key or has one of a higher version.
\<close>
theorem new_key_ends_old_authority:
  assumes "activateKeyOperation L E M u actor b r = Inr (reply, r')"
  shows "bigInt (irEpoch r) < bigInt (irEpoch r') \<and> irKeyVersion r < irKeyVersion r' \<and>
    hashCanonical L (irPublicKey r') \<noteq> hashCanonical L (irPublicKey r) \<and>
    irStatus r' = InstitutionActive \<and> authorityEnded r' \<and> keysAdvance r r'"
proof -
  from assms have fresh: "\<not> keyStale L r b" and keys: "\<not> list_ex (serviceKeyStale L r) (jarr b ''serviceKeys'')"
    and r': "r' = serviceEvent (seNow E) (u 0) (acUser actor) ''key.activated'' (irId r)
      (JObj [(''epoch'', jobj b ''epoch''), (''version'', jobj b ''version'')]) (installKey L (seNow E) b r)"
    unfolding activateKeyOperation_def by (auto simp: bindE_def split: if_splits sum.splits)
  have same: "irEpoch r' = jstr b ''epoch''" "irKeyVersion r' = jnum b ''version''" "irPublicKey r' = jobj b ''publicKey''"
    "irStatus r' = InstitutionActive" "authorityEnded r' = authorityEnded (installKey L (seNow E) b r)"
    "keysAdvance r r' = keysAdvance r (installKey L (seNow E) b r)"
    unfolding r' by (simp_all add: key_event installKey_def authorityEnded_def keysAdvance_def)
  show ?thesis
    using fresh installKey_ends installKey_advances [OF keys] unfolding keyStale_def same by simp
qed

definition mrLib :: lib where
  "mrLib = srLib\<lparr> canonicalize := (\<lambda>v. jstr v ''x''), sha256hex := (\<lambda>t. t) \<rparr>"

definition mrManagement :: managementEnv where
  "mrManagement = \<lparr> meApprovers = [], meRecover = (\<lambda>_ _. None), meTypedHash = (\<lambda>_. []), meNonce = [],
     meConfirmConfiguration = None, meConfirmKey = (\<lambda>_ _. Inr ()) \<rparr>"

definition mrBody :: json where
  "mrBody = JObj [(''kid'', JStr ''ikid-2''), (''publicKey'', demoJwk vrServiceKey), (''epoch'', JStr ''2''),
     (''version'', JNum 2), (''serviceKeys'', JArr [])]"

lemma mr_activated: "\<exists>reply r'. activateKeyOperation mrLib srEnv mrManagement srUuid srManager mrBody srRecord = Inr (reply, r')"
proof -
  have keys: "jarr mrBody ''serviceKeys'' = []" by (simp add: mrBody_def jarr_def jget_def)
  have "hashCanonical mrLib (jobj mrBody ''publicKey'') \<noteq> hashCanonical mrLib (irPublicKey srRecord)"
    by (simp add: sr_record hashCanonical_def canonicalBytes_def mrLib_def mrBody_def jobj_def jget_def demoJwk_def jstr_def
        vrServiceKey_def vrKey_def replicate_append_same eval_nat_numeral)
  moreover have "bigInt ''1'' < bigInt (jstr mrBody ''epoch'')" "1 < jnum mrBody ''version''"
    by (simp_all add: mrBody_def jstr_def jnum_def jget_def bigInt_def digitValue_def)
  ultimately show ?thesis
    by (simp add: activateKeyOperation_def keyStale_def sr_record keys approveServiceKeys_def mrManagement_def bindE_def)
qed

theorem new_key_ends_old_authority_witness:
  "\<exists>reply r'. activateKeyOperation mrLib srEnv mrManagement srUuid srManager mrBody srRecord = Inr (reply, r') \<and>
     bigInt (irEpoch srRecord) < bigInt (irEpoch r') \<and> authorityEnded r'"
proof -
  obtain reply r' where run: "activateKeyOperation mrLib srEnv mrManagement srUuid srManager mrBody srRecord = Inr (reply, r')"
    using mr_activated by blast
  show ?thesis using new_key_ends_old_authority [OF run] run by blast
qed

end
