(* ===== verification/Ledger_Events_Properties.thy ===== *)
theory Ledger_Events_Properties
  imports Ledger_Events Service_Scenario
begin































end
