(* ===== verification/Oidc.thy ===== *)
theory Oidc
  imports Identity Quota Sessions Patterns Database Management
begin

text \<open>
  The login flow of the issuer, \<^verbatim>\<open>services/api/src/oidc-flow.ts\<close>: an authorization code request with PKCE,
  then the exchange of the code. The flow keeps the logins that have begun, by their state; \<open>OidcOptions\<close>
  holds the configuration, the URL parser, the token endpoint and the JSON parser. The three random
  values of a login and the clock in milliseconds are arguments. The exchange awaits the provider after the
  login has been forgotten, and changes nothing later.
\<close>

record TokenRequest =
  trUrl :: string
  trCode :: string
  trRedirect :: string
  trClient :: string
  trVerifier :: string

record TokenReply =
  tyStatus :: int
  tyText :: "string result"

record OidcOptions =
  ooAuthorizationUrl :: string
  ooTokenUrl :: string
  ooRedirect :: string
  ooClient :: string
  ooOfficialClient :: string
  ooParse :: "string \<Rightarrow> ParsedUrl option"
  ooFetch :: "TokenRequest \<Rightarrow> TokenReply result"
  ooJson :: "string \<Rightarrow> json option"

record PendingLogin =
  plVerifier :: string
  plNonce :: string
  plOfficial :: bool
  plExpiresAt :: int

record LoginStart =
  lsState :: string
  lsUrl :: string
  lsQuery :: "(string \<times> string) list"

record LoginResult =
  lrIdToken :: string
  lrOfficial :: bool
  lrNonce :: string

definition endpointForbidden :: "ParsedUrl \<Rightarrow> bool" where
  "endpointForbidden v \<longleftrightarrow> puProtocol v \<noteq> ''https:'' \<or> puUsername v \<noteq> [] \<or> puPassword v \<noteq> [] \<or> puFragment v \<noteq> []"

definition checkEndpoint :: "OidcOptions \<Rightarrow> string \<Rightarrow> unit result" where
  "checkEndpoint F url = bindE (ofOption LibraryError (ooParse F url)) (\<lambda>v.
     if endpointForbidden v then Inl (Error ''OIDC_HTTPS_REQUIRED'') else Inr ())"

definition newLoginFlow :: "OidcOptions \<Rightarrow> PendingLogin dict result" where
  "newLoginFlow F = bindE (checkEndpoint F (ooAuthorizationUrl F)) (\<lambda>_.
     bindE (checkEndpoint F (ooTokenUrl F)) (\<lambda>_.
     if ooClient F = ooOfficialClient F then Inl (Error ''OIDC_SEPARATE_CLIENTS_REQUIRED'') else Inr []))"

definition clientFor :: "OidcOptions \<Rightarrow> bool \<Rightarrow> string" where
  "clientFor F official = (if official then ooOfficialClient F else ooClient F)"

definition loginQuery :: "lib \<Rightarrow> OidcOptions \<Rightarrow> bool \<Rightarrow> string \<Rightarrow> string \<Rightarrow> string \<Rightarrow> (string \<times> string) list" where
  "loginQuery L F official st verifier n =
     [(''client_id'', clientFor F official), (''redirect_uri'', ooRedirect F), (''response_type'', ''code''),
      (''max_age'', ''0''), (''prompt'', ''login''), (''scope'', ''openid''), (''state'', st), (''nonce'', n),
      (''code_challenge_method'', ''S256''), (''code_challenge'', sha256b64 L verifier)]"

definition dropExpired :: "int \<Rightarrow> PendingLogin dict \<Rightarrow> PendingLogin dict" where
  "dropExpired now d = filter (\<lambda>e. now < plExpiresAt (snd e)) d"

definition beginLogin ::
    "lib \<Rightarrow> OidcOptions \<Rightarrow> int \<Rightarrow> string \<Rightarrow> string \<Rightarrow> string \<Rightarrow> bool \<Rightarrow> (PendingLogin dict, LoginStart) eff" where
  "beginLogin L F now st verifier n official d0 =
     (let d = dropExpired now d0 in
      if length d \<ge> 100 then (Inl (Error ''OIDC_PENDING_LIMIT''), d)
      else (Inr \<lparr> lsState = st, lsUrl = ooAuthorizationUrl F, lsQuery = loginQuery L F official st verifier n \<rparr>,
        dput st \<lparr> plVerifier = verifier, plNonce = n, plOfficial = official, plExpiresAt = now + 300000 \<rparr> d))"

definition loginStateInvalid :: "PendingLogin option \<Rightarrow> int \<Rightarrow> string \<Rightarrow> string \<Rightarrow> string \<Rightarrow> bool" where
  "loginStateInvalid pending now st cookie code \<longleftrightarrow>
     (case pending of None \<Rightarrow> True | Some p \<Rightarrow> plExpiresAt p \<le> now) \<or>
     length st \<noteq> length cookie \<or> st \<noteq> cookie \<or> code = [] \<or> jsLength code > 8192"

definition tokenRequest :: "OidcOptions \<Rightarrow> PendingLogin \<Rightarrow> string \<Rightarrow> TokenRequest" where
  "tokenRequest F p code = \<lparr> trUrl = ooTokenUrl F, trCode = code, trRedirect = ooRedirect F,
     trClient = clientFor F (plOfficial p), trVerifier = plVerifier p \<rparr>"

definition readTokens :: "OidcOptions \<Rightarrow> TokenReply \<Rightarrow> string result" where
  "readTokens F a =
     (if \<not> (200 \<le> tyStatus a \<and> tyStatus a < 300) then Inl (Error (if tyStatus a \<in> {400, 401} then ''OIDC_CODE_EXCHANGE_FAILED''
        else ''OIDC_PROVIDER_UNAVAILABLE''))
      else bindE (tyText a) (\<lambda>raw.
        if jsLength raw > 32768 then Inl (Error ''OIDC_RESPONSE_TOO_LARGE'')
        else bindE (ofOption LibraryError (ooJson F raw)) (\<lambda>v.
          if v = JNull then Inl LibraryError
          else case jget v ''id_token'' of
            Some (JStr t) \<Rightarrow> if jsLength t > 16384 then Inl (Error ''OIDC_ID_TOKEN_REQUIRED'') else Inr t
          | _ \<Rightarrow> Inl (Error ''OIDC_ID_TOKEN_REQUIRED''))))"

definition finishFlow :: "OidcOptions \<Rightarrow> int \<Rightarrow> string \<Rightarrow> string \<Rightarrow> string \<Rightarrow> (PendingLogin dict, LoginResult) eff" where
  "finishFlow F now st cookie code d =
     (if loginStateInvalid (dget d st) now st cookie code then (Inl (Error ''OIDC_STATE_INVALID''), d)
      else let p = the (dget d st) in
        (bindE (ooFetch F (tokenRequest F p code)) (\<lambda>a. bindE (readTokens F a) (\<lambda>t.
           Inr \<lparr> lrIdToken = t, lrOfficial = plOfficial p, lrNonce = plNonce p \<rparr>)), ddelete st d))"

section \<open>Runs\<close>

datatype FlowCall =
    BeginCall int string string string bool
  | FinishCall int string string string

fun flowStep :: "lib \<Rightarrow> OidcOptions \<Rightarrow> FlowCall \<Rightarrow> PendingLogin dict \<Rightarrow> PendingLogin dict" where
  "flowStep L F (BeginCall now st verifier n official) d = snd (beginLogin L F now st verifier n official d)"
| "flowStep L F (FinishCall now st cookie code) d = snd (finishFlow F now st cookie code d)"

definition flowRun :: "lib \<Rightarrow> OidcOptions \<Rightarrow> FlowCall list \<Rightarrow> PendingLogin dict \<Rightarrow> PendingLogin dict" where
  "flowRun L F calls d = fold (flowStep L F) calls d"

definition begunBy :: "FlowCall list \<Rightarrow> string \<Rightarrow> PendingLogin \<Rightarrow> bool" where
  "begunBy calls st p \<longleftrightarrow> BeginCall (plExpiresAt p - 300000) st (plVerifier p) (plNonce p) (plOfficial p) \<in> set calls"

definition beginsState :: "string \<Rightarrow> FlowCall \<Rightarrow> bool" where
  "beginsState st c \<longleftrightarrow> (case c of BeginCall _ s _ _ _ \<Rightarrow> s = st | FinishCall _ _ _ _ \<Rightarrow> False)"

lemma in_dput: "e \<in> set (dput k v d) \<Longrightarrow> e = (k, v) \<or> e \<in> set d"
  by (induction d) (auto split: if_splits)

lemma dget_in: "dget d k = Some v \<Longrightarrow> (k, v) \<in> set d"
  by (induction d) (auto split: if_splits)

lemma flowStep_pending:
  "e \<in> set (flowStep L F c d) \<Longrightarrow> e \<in> set d \<or> begunBy [c] (fst e) (snd e) \<and> beginsState (fst e) c"
  by (cases c) (auto simp: beginLogin_def finishFlow_def dropExpired_def Let_def begunBy_def beginsState_def ddelete_def
      dest!: in_dput split: if_splits)

lemma flowRun_pending:
  "e \<in> set (flowRun L F calls d) \<Longrightarrow>
     e \<in> set d \<or> begunBy calls (fst e) (snd e) \<and> list_ex (beginsState (fst e)) calls"
proof (induction calls arbitrary: d)
  case (Cons c calls)
  then have "e \<in> set (flowRun L F calls (flowStep L F c d))" by (simp add: flowRun_def)
  from Cons.IH [OF this] flowStep_pending [of e L F c d] show ?case by (auto simp: begunBy_def)
qed (simp add: flowRun_def)

lemma finishFlow_success:
  assumes "finishFlow F now st cookie code d = (Inr res, d')"
  obtains p a where "dget d st = Some p" "now < plExpiresAt p" "cookie = st" "d' = ddelete st d"
    "ooFetch F (tokenRequest F p code) = Inr a" "readTokens F a = Inr (lrIdToken res)"
    "lrOfficial res = plOfficial p" "lrNonce res = plNonce p"
proof -
  from assms have valid: "\<not> loginStateInvalid (dget d st) now st cookie code" by (auto simp: finishFlow_def)
  then obtain p where p: "dget d st = Some p" "now < plExpiresAt p" "cookie = st"
    by (cases "dget d st") (auto simp: loginStateInvalid_def)
  have "d' = ddelete st d" and "bindE (ooFetch F (tokenRequest F p code)) (\<lambda>a. bindE (readTokens F a) (\<lambda>t.
      Inr \<lparr> lrIdToken = t, lrOfficial = plOfficial p, lrNonce = plNonce p \<rparr>)) = Inr res"
    using assms valid p(1) by (simp_all add: finishFlow_def Let_def)
  then show ?thesis using that p by (auto simp: bindE_def split: sum.splits)
qed

lemma finishFlow_unknown: "st \<notin> fst ` set d \<Longrightarrow> fst (finishFlow F now st cookie code d) = Inl (Error ''OIDC_STATE_INVALID'')"
  using dget_in [of d st] by (cases "dget d st") (force simp: finishFlow_def loginStateInvalid_def)+

text \<open>
  C39: a login that the flow finishes was begun in the same flow less than five minutes before, in the
  browser that holds its state: the code was exchanged with the verifier whose digest that login had sent
  as the challenge, for its client, and its nonce and its purpose are handed on. No later request finishes
  a login with the state again, unless it was drawn anew.
\<close>
theorem login_rests_on_one_begin:
  assumes "finishFlow F now st cookie code (flowRun L F calls []) = (Inr res, d')"
  shows "(\<exists>t verifier a. BeginCall t st verifier (lrNonce res) (lrOfficial res) \<in> set calls \<and> now < t + 300000 \<and>
      ooFetch F \<lparr> trUrl = ooTokenUrl F, trCode = code, trRedirect = ooRedirect F,
        trClient = clientFor F (lrOfficial res), trVerifier = verifier \<rparr> = Inr a \<and>
      readTokens F a = Inr (lrIdToken res)) \<and> cookie = st \<and>
    (\<forall>later now' cookie' code'. \<not> list_ex (beginsState st) later \<longrightarrow>
       fst (finishFlow F now' st cookie' code' (flowRun L F later d')) = Inl (Error ''OIDC_STATE_INVALID''))"
proof -
  from assms obtain p a where p: "dget (flowRun L F calls []) st = Some p" and rest: "now < plExpiresAt p" "cookie = st"
    "d' = ddelete st (flowRun L F calls [])" "ooFetch F (tokenRequest F p code) = Inr a" "readTokens F a = Inr (lrIdToken res)"
    "lrOfficial res = plOfficial p" "lrNonce res = plNonce p"
    by (rule finishFlow_success)
  have "begunBy calls st p" using flowRun_pending [OF dget_in [OF p]] by simp
  then have "\<exists>t verifier a. BeginCall t st verifier (lrNonce res) (lrOfficial res) \<in> set calls \<and> now < t + 300000 \<and>
      ooFetch F \<lparr> trUrl = ooTokenUrl F, trCode = code, trRedirect = ooRedirect F,
        trClient = clientFor F (lrOfficial res), trVerifier = verifier \<rparr> = Inr a \<and>
      readTokens F a = Inr (lrIdToken res)"
    using rest by (force simp: begunBy_def tokenRequest_def)
  moreover have "fst (finishFlow F now' st cookie' code' (flowRun L F later d')) = Inl (Error ''OIDC_STATE_INVALID'')"
    if "\<not> list_ex (beginsState st) later" for later now' cookie' code'
    by (rule finishFlow_unknown) (use that rest(3) flowRun_pending in \<open>fastforce simp: ddelete_def\<close>)
  ultimately show ?thesis using rest(2) by blast
qed

definition oidcDemo :: OidcOptions where
  "oidcDemo = \<lparr> ooAuthorizationUrl = ''https://idp/authorize'', ooTokenUrl = ''https://idp/token'', ooRedirect = ''https://web'',
     ooClient = ''work'', ooOfficialClient = ''official'', ooParse = (\<lambda>_. None),
     ooFetch = (\<lambda>_. Inr \<lparr> tyStatus = 200, tyText = Inr ''body'' \<rparr>),
     ooJson = (\<lambda>_. Some (JObj [(''id_token'', JStr ''token'')])) \<rparr>"

theorem login_rests_on_one_begin_witness:
  "\<exists>res d'. finishFlow oidcDemo 200 ''state'' ''state'' ''code'' (flowRun qtLib oidcDemo [BeginCall 100 ''state'' ''verifier'' ''nonce'' False] [])
      = (Inr res, d') \<and> lrNonce res = ''nonce'' \<and>
     fst (finishFlow oidcDemo 300 ''state'' ''state'' ''code'' d') = Inl (Error ''OIDC_STATE_INVALID'')"
proof -
  let ?d = "flowRun qtLib oidcDemo [BeginCall 100 ''state'' ''verifier'' ''nonce'' False] []"
  have d: "?d = [(''state'', \<lparr> plVerifier = ''verifier'', plNonce = ''nonce'', plOfficial = False, plExpiresAt = 300100 \<rparr>)]"
    by (simp add: flowRun_def beginLogin_def dropExpired_def Let_def)
  have run: "finishFlow oidcDemo 200 ''state'' ''state'' ''code'' ?d =
      (Inr \<lparr> lrIdToken = ''token'', lrOfficial = False, lrNonce = ''nonce'' \<rparr>, [])"
    unfolding d by (simp add: finishFlow_def loginStateInvalid_def tokenRequest_def oidcDemo_def readTokens_def bindE_def
        ofOption_def jget_def jsLength_def ddelete_def)
  from login_rests_on_one_begin [OF run] have "fst (finishFlow oidcDemo 300 ''state'' ''state'' ''code'' (flowRun qtLib oidcDemo [] [])) =
      Inl (Error ''OIDC_STATE_INVALID'')" by simp
  then show ?thesis using run by (simp add: flowRun_def)
qed

end
