(* ===== verification/Login.thy ===== *)
theory Login
  imports Oidc "HOL-Library.List_Lexorder"
begin

text \<open>
  Sign-in at the issuer: the session part of \<^verbatim>\<open>services/api/src/finals-server.ts\<close> (service token, scoped
  session, the actor of a request, login, \<^verbatim>\<open>me\<close> and logout), the filming role (\<^verbatim>\<open>filming-actor.ts\<close>) and the
  accounts of members (\<^verbatim>\<open>account-management.ts\<close>).

  The state holds the authentication database, the logins that have begun, the watched connections, the
  request quota and the record of the institution. \<open>ieVerify\<close> is jose's \<^verbatim>\<open>jwtVerify\<close> with the key set of the
  provider; \<open>ieTransaction\<close> is the outcome of a store transaction. A request runs without interleaving,
  and \<open>charged\<close> says whether its quota has been taken.
\<close>

datatype JwtResult = JwtPayload json | JwtRefused string | JwtFailed js_error

record FilmingConfig =
  fmEnabled :: bool
  fmOperator :: "string option"
  fmGateway :: "string option"
  fmRecipient :: "string option"

record IssuerEnv =
  ieOrigin :: string
  iePublic :: bool
  iePlatformToken :: string
  ieSenderToken :: string
  ieInstitution :: string
  ieIssuer :: string
  ieAudience :: string
  ieOfficialAudience :: string
  ieClient :: string
  ieOfficialClient :: string
  ieHttpsKeys :: bool
  ieVerify :: "string \<Rightarrow> string \<Rightarrow> string \<Rightarrow> JwtResult"
  ieFlow :: "OidcOptions option"
  ieFilming :: FilmingConfig
  ieRequestLimit :: int
  ieTransaction :: "unit result"
  ieMs :: int

record LoginState =
  lgDb :: database
  lgPending :: "PendingLogin dict"
  lgConnections :: SessionConnections
  lgQuota :: QuotaDb
  lgRecord :: InstitutionRecord

record IssuerRequest =
  qrBase :: request
  qrUrl :: string
  qrServiceToken :: "string option"
  qrFilmingRole :: "string option"
  qrCharged :: bool

record IssuerLogin =
  ilUser :: userRow
  ilCsrf :: string
  ilOfficial :: bool
  ilCookie :: "string \<times> string"

definition ieNow :: "IssuerEnv \<Rightarrow> int" where
  "ieNow E = ieMs E div 1000"

section \<open>Sessions and actors\<close>

definition authenticateService :: "string option \<Rightarrow> string \<Rightarrow> unit result" where
  "authenticateService supplied expected = (case supplied of
     None \<Rightarrow> Inl (HttpError 401 ''SERVICE_AUTH_INVALID'')
   | Some t \<Rightarrow> if length t \<noteq> length expected \<or> t \<noteq> expected then Inl (HttpError 401 ''SERVICE_AUTH_INVALID'') else Inr ())"

definition policyFor :: "IssuerEnv \<Rightarrow> string \<Rightarrow> SessionPolicy" where
  "policyFor E purpose = \<lparr> spPurpose = purpose, spIssuer = ieIssuer E,
     spClientId = (if purpose = ''official'' then ieOfficialClient E else ieClient E),
     spAudience = (if purpose = ''official'' then ieOfficialAudience E else ieAudience E) \<rparr>"

definition assertMembershipGeneration :: "AuthSession \<Rightarrow> int \<Rightarrow> unit result" where
  "assertMembershipGeneration session generation =
     (if asMembershipGeneration session \<noteq> generation then Inl (HttpError 401 ''MEMBERSHIP_SESSION_REVOKED'') else Inr ())"

definition scopedSession :: "lib \<Rightarrow> IssuerEnv \<Rightarrow> string \<Rightarrow> IssuerRequest \<Rightarrow> LoginState \<Rightarrow> AuthSession result" where
  "scopedSession L E purpose q s =
     bindE (sessionForRequest L (Some (policyFor E purpose)) (ieMs E) (qrBase q) (lgDb s)) (\<lambda>session.
     let r = lgRecord s in
     bindE (membership r \<lparr> acUser = asUserId session, acRole = asRole session, acInstitution = irId r, acService = None,
              acGeneration = None \<rparr> everyRole) (\<lambda>_.
     bindE (assertMembershipGeneration session (sessionGeneration r (asUserId session))) (\<lambda>_. Inr session)))"

definition filmingForbidden :: "FilmingConfig \<Rightarrow> Actor \<Rightarrow> bool" where
  "filmingForbidden c actor \<longleftrightarrow> \<not> fmEnabled c \<or> acRole actor \<noteq> ''institution'' \<or> fmOperator c \<noteq> Some (acUser actor) \<or>
     fmGateway c \<in> {None, Some []} \<or> fmRecipient c \<in> {None, Some []} \<or> fmGateway c = fmRecipient c"

definition filmingUser :: "FilmingConfig \<Rightarrow> string \<Rightarrow> string option" where
  "filmingUser c role = (if role = ''gateway'' then fmGateway c else if role = ''recipient'' then fmRecipient c else None)"

definition filmingActor :: "Actor \<Rightarrow> string option \<Rightarrow> InstitutionRecord \<Rightarrow> FilmingConfig \<Rightarrow> Actor result" where
  "filmingActor actor role r c = (case role of
     None \<Rightarrow> Inr actor
   | Some role \<Rightarrow>
       if filmingForbidden c actor then Inl (HttpError 403 ''FILMING_NOT_ALLOWED'')
       else (case filmingUser c role of
           None \<Rightarrow> Inl (HttpError 403 ''FILMING_ROLE_FORBIDDEN'')
         | Some user \<Rightarrow>
             if user = [] \<or> user = acUser actor then Inl (HttpError 403 ''FILMING_ROLE_FORBIDDEN'')
             else let played = \<lparr> acUser = user,
                    acRole = (if fmGateway c = Some user then ''gateway'' else ''recipient''), acInstitution = acInstitution actor,
                    acService = None, acGeneration = Some (sessionGeneration r user) \<rparr> in
               bindE (membership r played [acRole played]) (\<lambda>_. Inr played)))"

definition expectedServiceToken :: "IssuerEnv \<Rightarrow> string \<Rightarrow> string" where
  "expectedServiceToken E url =
     (if url \<in> {''/v2/sender-context'', ''/v3/sender-context''} then ieSenderToken E else iePlatformToken E)"

definition needsRecentLogin :: "string \<Rightarrow> string \<Rightarrow> bool" where
  "needsRecentLogin url purpose \<longleftrightarrow> take 15 url = ''/v3/management/'' \<or> url = ''/v3/credentials'' \<or> url = ''/v3/revoke'' \<or>
     purpose = ''official''"

definition onQuota :: "(QuotaDb, 'a) eff \<Rightarrow> (LoginState, 'a) eff" where
  "onQuota m s = (case m (lgQuota s) of (v, q) \<Rightarrow> (v, s\<lparr> lgQuota := q \<rparr>))"

definition baseActor :: "IssuerEnv \<Rightarrow> AuthSession \<Rightarrow> Actor" where
  "baseActor E session = \<lparr> acUser = asUserId session, acRole = asRole session, acInstitution = ieInstitution E,
     acService = None, acGeneration = Some (asMembershipGeneration session) \<rparr>"

definition checkedActor :: "lib \<Rightarrow> IssuerEnv \<Rightarrow> bool \<Rightarrow> string \<Rightarrow> IssuerRequest \<Rightarrow> LoginState \<Rightarrow> Actor result" where
  "checkedActor L E write purpose q s =
     bindE (authenticateService (qrServiceToken q) (expectedServiceToken E (qrUrl q))) (\<lambda>_.
     bindE (scopedSession L E purpose q s) (\<lambda>session.
     bindE (if write then assertCsrf (qrBase q) session (ieOrigin E) else Inr ()) (\<lambda>_.
     bindE (if write \<and> needsRecentLogin (qrUrl q) purpose then assertRecentAuthentication session (ieMs E) else Inr ()) (\<lambda>_.
     bindE (membership (lgRecord s) (baseActor E session) everyRole) (\<lambda>_.
     bindE (assertMembershipGeneration session (sessionGeneration (lgRecord s) (asUserId session))) (\<lambda>_.
     if purpose \<noteq> ''work'' \<and> qrFilmingRole q \<noteq> None then Inl (HttpError 403 ''FILMING_OFFICIAL_FORBIDDEN'')
     else filmingActor (baseActor E session) (qrFilmingRole q) (lgRecord s) (ieFilming E)))))))"

definition actorFor :: "lib \<Rightarrow> IssuerEnv \<Rightarrow> bool \<Rightarrow> string \<Rightarrow> IssuerRequest \<Rightarrow> (LoginState, Actor) eff" where
  "actorFor L E write purpose q =
     bindS (readS (checkedActor L E write purpose q)) (\<lambda>actor.
     if qrCharged q then returnS actor
     else bindS (onQuota (chargeRequest (acInstitution actor) (acUser actor) (ieNow E) (ieRequestLimit E))) (\<lambda>_. returnS actor))"

definition officialActorFor :: "lib \<Rightarrow> IssuerEnv \<Rightarrow> IssuerRequest \<Rightarrow> (LoginState, Actor) eff" where
  "officialActorFor L E q = bindS (actorFor L E False ''official'' q) (\<lambda>actor.
     if acRole actor \<noteq> ''recipient'' then throwS (HttpError 403 ''OFFICIAL_ROLE_REQUIRED'') else returnS actor)"

section \<open>Login\<close>

definition tokenErrors :: "string list" where
  "tokenErrors = [''ERR_JWT_EXPIRED'', ''ERR_JWT_CLAIM_VALIDATION_FAILED'', ''ERR_JWS_SIGNATURE_VERIFICATION_FAILED'',
     ''ERR_JWS_INVALID'', ''ERR_JWT_INVALID'', ''ERR_JOSE_ALG_NOT_ALLOWED'', ''ERR_JWKS_NO_MATCHING_KEY'']"

definition verifiedIdentity :: "IssuerEnv \<Rightarrow> string \<Rightarrow> bool \<Rightarrow> json result" where
  "verifiedIdentity E idToken official =
     (case ieVerify E idToken (ieIssuer E) (if official then ieOfficialAudience E else ieAudience E) of
        JwtPayload p \<Rightarrow> Inr p
      | JwtRefused code \<Rightarrow> Inl (if code \<in> set tokenErrors then HttpError 401 ''OIDC_TOKEN_INVALID'' else LibraryError)
      | JwtFailed e \<Rightarrow> Inl e)"

definition clientMismatch :: "json \<Rightarrow> string \<Rightarrow> bool" where
  "clientMismatch p client \<longleftrightarrow> (jget p ''azp'' \<noteq> None \<and> \<not> isStr p ''azp'' client) \<or>
     (length (jarr p ''aud'') > 1 \<and> \<not> isStr p ''azp'' client)"

definition previousSessions :: "lib \<Rightarrow> IssuerRequest \<Rightarrow> string \<Rightarrow> string \<Rightarrow> database \<Rightarrow> sessionRow list" where
  "previousSessions L q purpose user D = (case dget (cookies (qrBase q)) (sessionCookie purpose) of
     None \<Rightarrow> []
   | Some t \<Rightarrow> if t = [] then [] else filter (\<lambda>s. sTokenHash s = tokenHash L t \<and> sUserId s = user \<and> sPurpose s = purpose) (sessions D))"

text \<open>The transaction of a login: the token is used up, the session it replaces goes, the new one is stored.\<close>

definition useToken :: "lib \<Rightarrow> int \<Rightarrow> string \<Rightarrow> int \<Rightarrow> database \<Rightarrow> database result" where
  "useToken L ms idToken expires D =
     (let uses = filter (\<lambda>o'. \<not> olExpiresAt o' < ms) (oidcLoginUses D) in
      if list_ex (\<lambda>o'. olTokenHash o' = tokenHash L idToken) uses then Inl (HttpError 401 ''OIDC_TOKEN_ALREADY_USED'')
      else Inr (D\<lparr> oidcLoginUses := uses @ [\<lparr> olTokenHash = tokenHash L idToken, olExpiresAt = expires * 1000 \<rparr>] \<rparr>))"

definition openSession :: "lib \<Rightarrow> int \<Rightarrow> string \<Rightarrow> json \<Rightarrow> sessionRow list \<Rightarrow> sessionRow \<Rightarrow> database \<Rightarrow> database result" where
  "openSession L ms idToken p previous row D =
     bindE (useToken L ms idToken (jnum p ''exp'') D) (\<lambda>D1.
       insertSession row (case previous of [] \<Rightarrow> D1
         | s # _ \<Rightarrow> D1\<lparr> sessions := filter (\<lambda>r. sId r \<noteq> sId s) (sessions D1) \<rparr>))"

definition loginUser :: "IssuerEnv \<Rightarrow> json \<Rightarrow> bool \<Rightarrow> LoginState \<Rightarrow> userRow result" where
  "loginUser E p official s = (case selectOne (\<lambda>v. uId v = ieIssuer E @ ''|'' @ jstr p ''sub'') (users (lgDb s)) of
     None \<Rightarrow> Inl (HttpError 403 ''ACCOUNT_NOT_PROVISIONED'')
   | Some v \<Rightarrow> if official \<and> uRole v \<noteq> ''recipient'' then Inl (HttpError 403 ''ACCOUNT_NOT_PROVISIONED'')
       else bindE (membership (lgRecord s) \<lparr> acUser = uId v, acRole = uRole v, acInstitution = irId (lgRecord s),
              acService = None, acGeneration = None \<rparr> everyRole) (\<lambda>_. Inr v))"

definition acceptedIdentity :: "IssuerEnv \<Rightarrow> string \<Rightarrow> bool \<Rightarrow> string option \<Rightarrow> json result" where
  "acceptedIdentity E idToken official expectedNonce =
     (if ieAudience E = ieOfficialAudience E then Inl (HttpError 503 ''OFFICIAL_AUDIENCE_MUST_DIFFER'')
      else if \<not> ieHttpsKeys E then Inl (HttpError 503 ''OIDC_HTTPS_REQUIRED'')
      else bindE (verifiedIdentity E idToken official) (\<lambda>p.
        if expectedNonce \<notin> {None, Some []} \<and> jget p ''nonce'' \<noteq> map_option JStr expectedNonce
        then Inl (HttpError 401 ''OIDC_NONCE_INVALID'')
        else if clientMismatch p (if official then ieOfficialClient E else ieClient E)
        then Inl (HttpError 401 ''OIDC_CLIENT_MISMATCH'') else Inr p))"

definition newSession :: "lib \<Rightarrow> IssuerEnv \<Rightarrow> string \<Rightarrow> string \<Rightarrow> string \<Rightarrow> json \<Rightarrow> bool \<Rightarrow> userRow \<Rightarrow> LoginState \<Rightarrow> sessionRow" where
  "newSession L E i token csrf p official v s =
     (let purpose = (if official then ''official'' else ''work''); pol = policyFor E purpose in
      \<lparr> sId = i, sTokenHash = tokenHash L token, sCsrfToken = csrf, sUserId = uId v, sExpiresAt = ieMs E + 3600000,
        sPurpose = purpose, sOidcIssuer = Some (spIssuer pol), sOidcClientId = Some (spClientId pol),
        sOidcAudience = Some (spAudience pol), sMembershipGeneration = sessionGeneration (lgRecord s) (uId v),
        sAuthenticatedAt = Some (jnum p ''auth_time'' * 1000) \<rparr>)"

definition finishLogin ::
    "lib \<Rightarrow> IssuerEnv \<Rightarrow> string \<Rightarrow> string \<Rightarrow> string \<Rightarrow> IssuerRequest \<Rightarrow> string \<Rightarrow> bool \<Rightarrow> string option \<Rightarrow> (LoginState, IssuerLogin) eff" where
  "finishLogin L E i token csrf q idToken official expectedNonce =
     bindS (liftE (acceptedIdentity E idToken official expectedNonce)) (\<lambda>p.
     bindS (readS (loginUser E p official)) (\<lambda>v.
     let purpose = (if official then ''official'' else ''work'') in
     bindS (readS (\<lambda>s. Inr (previousSessions L q purpose (uId v) (lgDb s)))) (\<lambda>previous.
     bindS (updateS (\<lambda>s. bindE (openSession L (ieMs E) idToken p previous (newSession L E i token csrf p official v s) (lgDb s))
              (\<lambda>D. Inr ((), s\<lparr> lgDb := D \<rparr>)))) (\<lambda>_.
     bindS (modifyS (\<lambda>s. s\<lparr> lgConnections := fold (\<lambda>o'. revokeSession (sId o')) previous (lgConnections s) \<rparr>)) (\<lambda>_.
     returnS \<lparr> ilUser = v, ilCsrf = csrf, ilOfficial = official, ilCookie = (sessionCookie purpose, token) \<rparr>)))))"

definition onPending :: "(PendingLogin dict, 'a) eff \<Rightarrow> (LoginState, 'a) eff" where
  "onPending m s = (case m (lgPending s) of (v, d) \<Rightarrow> (v, s\<lparr> lgPending := d \<rparr>))"

definition authStart :: "lib \<Rightarrow> IssuerEnv \<Rightarrow> string \<Rightarrow> string \<Rightarrow> string \<Rightarrow> IssuerRequest \<Rightarrow> (LoginState, LoginStart) eff" where
  "authStart L E st verifier n q =
     bindS (liftE (authenticateService (qrServiceToken q) (iePlatformToken E))) (\<lambda>_.
     case ieFlow E of
       None \<Rightarrow> throwS (HttpError 503 ''OIDC_LOGIN_NOT_CONFIGURED'')
     | Some F \<Rightarrow>
         if headerOrigin (qrBase q) \<noteq> Some (ieOrigin E) then throwS (HttpError 503 ''OIDC_LOGIN_NOT_CONFIGURED'')
         else bindS (liftE (parseWith (zObject [(''official'', zBool)] []) (reqBody (qrBase q)))) (\<lambda>b.
           onPending (beginLogin L F (ieMs E) st verifier n (jbool b ''official''))))"

definition callbackError :: "js_error \<Rightarrow> js_error" where
  "callbackError e = (if e = Error ''OIDC_STATE_INVALID'' then HttpError 401 ''OIDC_STATE_INVALID''
     else if e = Error ''OIDC_CODE_EXCHANGE_FAILED'' then HttpError 401 ''OIDC_CODE_EXCHANGE_FAILED'' else e)"

definition authCallback :: "lib \<Rightarrow> IssuerEnv \<Rightarrow> string \<Rightarrow> string \<Rightarrow> string \<Rightarrow> IssuerRequest \<Rightarrow> (LoginState, IssuerLogin) eff" where
  "authCallback L E i token csrf q =
     bindS (liftE (authenticateService (qrServiceToken q) (iePlatformToken E))) (\<lambda>_.
     case ieFlow E of
       None \<Rightarrow> throwS (HttpError 401 ''OIDC_STATE_INVALID'')
     | Some F \<Rightarrow>
         if headerOrigin (qrBase q) \<noteq> Some (ieOrigin E) then throwS (HttpError 401 ''OIDC_STATE_INVALID'')
         else bindS (liftE (parseWith (zObject [(''state'', zString (lengthBetween 0 100)), (''code'', zString (lengthBetween 0 8192))] [])
                  (reqBody (qrBase q)))) (\<lambda>b.
           bindS (rethrowS callbackError (onPending (finishFlow F (ieMs E) (jstr b ''state'')
                    (case dget (cookies (qrBase q)) ''oidc_state'' of Some c \<Rightarrow> c | None \<Rightarrow> []) (jstr b ''code'')))) (\<lambda>res.
           finishLogin L E i token csrf q (lrIdToken res) (lrOfficial res) (Some (lrNonce res)))))"

definition directLogin :: "lib \<Rightarrow> IssuerEnv \<Rightarrow> string \<Rightarrow> string \<Rightarrow> string \<Rightarrow> IssuerRequest \<Rightarrow> (LoginState, IssuerLogin) eff" where
  "directLogin L E i token csrf q =
     bindS (liftE (authenticateService (qrServiceToken q) (iePlatformToken E))) (\<lambda>_.
     bindS (guardS (iePublic E) (HttpError 404 ''DIRECT_TOKEN_LOGIN_DISABLED'')) (\<lambda>_.
     bindS (guardS (headerOrigin (qrBase q) \<noteq> Some (ieOrigin E)) (HttpError 403 ''ORIGIN_FORBIDDEN'')) (\<lambda>_.
     bindS (liftE (parseWith (zObject [(''idToken'', zString (lengthBetween 1 16384))] [(''official'', zBool)]) (reqBody (qrBase q)))) (\<lambda>b.
     finishLogin L E i token csrf q (jstr b ''idToken'') (jbool b ''official'') None))))"

definition purposeIn :: "json \<Rightarrow> string result" where
  "purposeIn v = bindE (parseWith (zObject [(''purpose'', zEnum [''work'', ''official''])] []) v) (\<lambda>b. Inr (jstr b ''purpose''))"

definition authMe :: "lib \<Rightarrow> IssuerEnv \<Rightarrow> IssuerRequest \<Rightarrow> (LoginState, AuthSession) eff" where
  "authMe L E q =
     bindS (liftE (authenticateService (qrServiceToken q) (iePlatformToken E))) (\<lambda>_.
     bindS (liftE (purposeIn (reqQuery (qrBase q)))) (\<lambda>purpose.
     bindS (readS (scopedSession L E purpose q)) (\<lambda>session.
     bindS (readS (\<lambda>s. membership (lgRecord s) ((baseActor E session)\<lparr> acGeneration := None \<rparr>) everyRole)) (\<lambda>_.
     if purpose = ''official'' \<and> asRole session \<noteq> ''recipient'' then throwS (HttpError 403 ''OFFICIAL_ROLE_REQUIRED'')
     else returnS session))))"

section \<open>Logout\<close>

definition failLogout :: "int \<Rightarrow> ServiceAttempt \<Rightarrow> ServiceAttempt" where
  "failLogout now a = withdrawConsent (a\<lparr> saStatus := SFailed, saReason := Some ''logout'', saEndedAt := Some now \<rparr>)"

definition endSessionCalls :: "int \<Rightarrow> (nat \<Rightarrow> string) \<Rightarrow> string \<Rightarrow> string \<Rightarrow> InstitutionRecord \<Rightarrow> InstitutionRecord" where
  "endSessionCalls now u user session r =
     fold (\<lambda>(k, i, a). \<lambda>r. serviceEvent now (u k) user ''call.cleanup'' i (JObj []) (onAttempt i (failLogout now) r))
       (enumerate 0 (filter (\<lambda>e. session \<in> set (dvalues (saOwnerSessions (snd e)))) (liveAttempts r))) r"

definition authLogout :: "lib \<Rightarrow> IssuerEnv \<Rightarrow> (nat \<Rightarrow> string) \<Rightarrow> IssuerRequest \<Rightarrow> (LoginState, string) eff" where
  "authLogout L E u q =
     bindS (liftE (authenticateService (qrServiceToken q) (iePlatformToken E))) (\<lambda>_.
     bindS (liftE (purposeIn (reqBody (qrBase q)))) (\<lambda>purpose.
     bindS (readS (scopedSession L E purpose q)) (\<lambda>session.
     bindS (liftE (assertCsrf (qrBase q) session (ieOrigin E))) (\<lambda>_.
     bindS (modifyS (\<lambda>s. s\<lparr> lgDb := (lgDb s)\<lparr> sessions := filter (\<lambda>r. sId r \<noteq> asSessionId session) (sessions (lgDb s)) \<rparr> \<rparr>)) (\<lambda>_.
     bindS (liftE (ieTransaction E)) (\<lambda>_.
     bindS (modifyS (\<lambda>s. s\<lparr> lgRecord := endSessionCalls (ieNow E) u (asUserId session) (asSessionId session) (lgRecord s) \<rparr>)) (\<lambda>_.
     bindS (modifyS (\<lambda>s. s\<lparr> lgConnections := revokeSession (asSessionId session) (lgConnections s) \<rparr>)) (\<lambda>_.
     returnS purpose))))))))"

section \<open>Accounts\<close>

text \<open>\<open>isUrl\<close> is zod's \<^verbatim>\<open>z.url()\<close>. The order of the permission names is that of their ASCII codes.\<close>

definition accountPermissionNames :: "string list" where
  "accountPermissionNames = [''contact.manage'', ''delegation.manage'', ''institution.suspend'', ''institution.recover'', ''key.activate'']"

definition accountSchema :: "(string \<Rightarrow> bool) \<Rightarrow> schema" where
  "accountSchema isUrl = zObject
     [(''issuer'', zString (\<lambda>v. isUrl v \<and> jsLength v \<le> 200 \<and> CHR ''|'' \<notin> set v)),
      (''subject'', zString (\<lambda>v. lengthBetween 1 255 v \<and> \<not> list_ex isWhite (chars v))),
      (''displayName'', zString (\<lambda>v. lengthBetween 1 100 (jsTrim v))),
      (''role'', zEnum [''institution'', ''gateway'', ''recipient'']), (''active'', zBool),
      (''permissions'', zArray 0 5 (zEnum accountPermissionNames))]
     [(''serviceUri'', zString (lengthBetween 0 300))]"

record AccountInput =
  aiIssuer :: string
  aiSubject :: string
  aiDisplayName :: string
  aiRole :: string
  aiActive :: bool
  aiPermissions :: "string list"
  aiService :: "string option"
  aiUser :: string
  aiActorGeneration :: int

definition accountScopeInvalid :: "InstitutionRecord \<Rightarrow> Actor \<Rightarrow> string \<Rightarrow> string \<Rightarrow> string \<Rightarrow> bool" where
  "accountScopeInvalid r actor given issuer user \<longleftrightarrow> given \<noteq> issuer \<or> jsLength user > 200 \<or> user = acUser actor \<or>
     memberRole r user = Some ''approver'' \<or> memberPermits r user ''governance.approve''"

definition accountPermissionInvalid :: "InstitutionRecord \<Rightarrow> Actor \<Rightarrow> string \<Rightarrow> string list \<Rightarrow> string \<Rightarrow> bool" where
  "accountPermissionInvalid r actor role permissions uri \<longleftrightarrow>
     list_ex (\<lambda>p. \<not> memberPermits r (acUser actor) p) permissions \<or> (role \<noteq> ''institution'' \<and> permissions \<noteq> []) \<or>
     (if role = ''gateway'' then uri = [] \<or> serviceInactive r uri else uri \<noteq> [])"

definition accountInput :: "(string \<Rightarrow> bool) \<Rightarrow> InstitutionRecord \<Rightarrow> Actor \<Rightarrow> json \<Rightarrow> string \<Rightarrow> AccountInput result" where
  "accountInput isUrl r actor body issuer =
     bindE (requirePermission r actor ''institution.recover'') (\<lambda>_.
     if acRole actor \<noteq> ''institution'' then Inl (HttpError 403 ''ACCOUNT_MANAGER_REQUIRED'')
     else bindE (parseWith (accountSchema isUrl) body) (\<lambda>b.
       let user = jstr b ''issuer'' @ ''|'' @ jstr b ''subject''; permissions = textsOf (jarr b ''permissions'') in
       if accountScopeInvalid r actor (jstr b ''issuer'') issuer user then Inl (HttpError 403 ''ACCOUNT_SCOPE_INVALID'')
       else if accountPermissionInvalid r actor (jstr b ''role'') permissions (jstr b ''serviceUri'')
       then Inl (HttpError 403 ''ACCOUNT_PERMISSION_OR_SERVICE_INVALID'')
       else Inr \<lparr> aiIssuer = jstr b ''issuer'', aiSubject = jstr b ''subject'', aiDisplayName = jsTrim (jstr b ''displayName''),
         aiRole = jstr b ''role'', aiActive = jbool b ''active'',
         aiPermissions = sort_key (map (of_char :: char \<Rightarrow> nat)) (remdups permissions),
         aiService = (if jget b ''serviceUri'' = None then None else Some (jstr b ''serviceUri'')), aiUser = user,
         aiActorGeneration = (case acGeneration actor of Some g \<Rightarrow> g | None \<Rightarrow> 0) \<rparr>))"

definition startsAny :: "string list \<Rightarrow> string \<Rightarrow> bool" where
  "startsAny ps v \<longleftrightarrow> list_ex (\<lambda>p. take (length p) v = p) ps"

definition accountError :: "js_error \<Rightarrow> js_error" where
  "accountError e =
     (if startsAny [''AUTHORITY_METADATA'', ''CONSUMPTION_HISTORY'', ''INDEPENDENT_ANCHOR''] (errorText e)
      then HttpError 503 ''CONSUMPTION_HISTORY_RECOVERY_REQUIRED''
      else if startsAny [''ACCOUNT_'', ''IDEMPOTENCY_''] (errorText e) then HttpError 409 (jsSlice 100 (errorText e)) else e)"

text \<open>\<open>manage\<close> is the store's \<^verbatim>\<open>manageAccount\<close>, which is optional in its interface.\<close>

definition manageAccountRequest ::
    "(string \<Rightarrow> bool) \<Rightarrow> (string \<Rightarrow> string \<Rightarrow> string \<Rightarrow> AccountInput \<Rightarrow> (InstitutionRecord, json) eff) option \<Rightarrow> string \<Rightarrow>
     Actor \<Rightarrow> string \<Rightarrow> json \<Rightarrow> (InstitutionRecord, json) eff" where
  "manageAccountRequest isUrl manage issuer actor requestId body =
     bindS (liftE (parseWith (zString isRequestId) (JStr requestId))) (\<lambda>_.
     bindS (readS (\<lambda>r. accountInput isUrl r actor body issuer)) (\<lambda>b.
     rethrowS accountError (case manage of
       None \<Rightarrow> throwS (HttpError 503 ''DURABLE_ACCOUNT_STORE_REQUIRED'')
     | Some m \<Rightarrow> m (acInstitution actor) (acUser actor) requestId b)))"

end
