(* ===== verification/Login_Properties.thy ===== *)
theory Login_Properties
  imports Login Service_Scenario
begin

text \<open>
  A session carries the generation of the membership it was opened under. Logging in keeps the stored
  sessions at or below the generation of their members, and a change of the member moves past them.
\<close>

definition sessionsCurrent :: "LoginState \<Rightarrow> bool" where
  "sessionsCurrent s \<longleftrightarrow> (\<forall>row \<in> set (sessions (lgDb s)). sMembershipGeneration row \<le> sessionGeneration (lgRecord s) (sUserId row))"

lemma openSession_sessions:
  assumes "openSession L ms idToken p previous row D = Inr D'" "r \<in> set (sessions D')"
  shows "r = row \<or> r \<in> set (sessions D)"
  using assms unfolding openSession_def useToken_def insertSession_def Let_def
  by (auto simp: bindE_def split: if_splits list.splits)

lemma finishLogin_current:
  assumes "sessionsCurrent s" "finishLogin L E i token csrf q idToken official expectedNonce s = (v, s')"
  shows "sessionsCurrent s'"
proof (cases "lgDb s' = lgDb s")
  case True
  moreover have "lgRecord s' = lgRecord s"
    using assms(2) unfolding finishLogin_def
    by (auto simp: bindS_def liftE_def readS_def updateS_def modifyS_def returnS_def Let_def bindE_def split: prod.splits sum.splits)
  ultimately show ?thesis using assms(1) by (simp add: sessionsCurrent_def)
next
  case False
  then obtain p user previous where "openSession L (ieMs E) idToken p previous (newSession L E i token csrf p official user s)
      (lgDb s) = Inr (lgDb s')" "lgRecord s' = lgRecord s"
    using assms(2) unfolding finishLogin_def
    by (auto simp: bindS_def liftE_def readS_def updateS_def modifyS_def returnS_def Let_def bindE_def split: prod.splits sum.splits)
  then show ?thesis
    using assms(1) openSession_sessions by (fastforce simp: sessionsCurrent_def newSession_def Let_def)
qed

lemma irMembers_events [simp]:
  "irMembers (serviceEvent now i user kind ob payload r) = irMembers r"
  "irMembers (cancelStart k r) = irMembers r" "irMembers (onAttempt i' f r) = irMembers r"
  by (simp_all add: serviceEvent_def onAttempt_def onService_def cancelStart_def Let_def)

lemma endAffectedAttempts_members: "irMembers (snd (endAffectedAttempts E u actor reason affected r)) = irMembers r"
proof -
  have "irMembers (snd (fold (endAffected E u actor reason affected) is nr)) = irMembers (snd nr)" for "is" nr
    by (induction "is" arbitrary: nr) (simp_all add: endAffected_def split: prod.split option.split)
  then show ?thesis by (simp add: endAffectedAttempts_def split: option.split)
qed

lemma memberOperation_generation:
  assumes "memberOperation E u actor b r = Inr (reply, r')"
  shows "sessionGeneration r' (jstr b ''userId'') = sessionGeneration r (jstr b ''userId'') + 1"
proof -
  from assms obtain m k where m: "dget (irMembers r) (jstr b ''userId'') = Some m"
    and r': "r' = serviceEvent (seNow E) (u k) (acUser actor) ''member.updated'' (jstr b ''userId'') (JObj [])
      (snd (endAffectedAttempts E u actor ''membership-changed'' (ofMember r (jstr b ''userId''))
        (r\<lparr> irMembers := dput (jstr b ''userId'') (updatedMember b m) (irMembers r) \<rparr>)))"
    unfolding memberOperation_def Let_def by (auto split: option.splits if_splits prod.splits)
  show ?thesis by (simp add: r' endAffectedAttempts_members sessionGeneration_def m updatedMember_def split: option.split)
qed

lemma sessionRowFor_in:
  "sessionRowFor L D token ms = Some (row, user) \<Longrightarrow> row \<in> set (sessions D) \<and> uId user = sUserId row"
  by (auto simp: sessionRowFor_def selectOne_def find_Some_iff split: option.splits)

lemma sessionForRequest_row:
  assumes "sessionForRequest L pol ms req D = Inr session"
  obtains row where "row \<in> set (sessions D)" "sUserId row = asUserId session"
    "sMembershipGeneration row = asMembershipGeneration session"
  using assms unfolding sessionForRequest_def Let_def
  by (auto split: if_splits option.splits dest!: sessionRowFor_in)

lemma scopedSession_row:
  assumes "scopedSession L E purpose q s = Inr session"
  obtains row where "row \<in> set (sessions (lgDb s))" "sUserId row = asUserId session"
    "sMembershipGeneration row = sessionGeneration (lgRecord s) (asUserId session)"
proof -
  from assms have request: "sessionForRequest L (Some (policyFor E purpose)) (ieMs E) (qrBase q) (lgDb s) = Inr session"
    and generation: "asMembershipGeneration session = sessionGeneration (lgRecord s) (asUserId session)"
    unfolding scopedSession_def assertMembershipGeneration_def Let_def
    by (auto simp: bindE_def split: if_splits sum.splits)
  from request show ?thesis by (rule sessionForRequest_row) (use generation that in simp)
qed

text \<open>
  C40: when a manager changes a member, every session that the member has open ends at once: no request
  of such a session is given an actor any more, whatever cookie, token and purpose it carries. The
  stored sessions are never ahead of their members, and a login, successful or not, keeps it so.
\<close>
theorem changed_member_is_signed_out:
  assumes "sessionsCurrent s" "memberOperation V u actor b (lgRecord s) = Inr (reply, r')"
  shows "(\<forall>L E purpose q session. scopedSession L E purpose q (s\<lparr> lgRecord := r' \<rparr>) = Inr session \<longrightarrow>
      asUserId session \<noteq> jstr b ''userId'') \<and>
    (\<forall>L E i token csrf q idToken official n. sessionsCurrent (snd (finishLogin L E i token csrf q idToken official n s)))"
proof (intro conjI allI impI)
  fix L E purpose q session
  assume "scopedSession L E purpose q (s\<lparr> lgRecord := r' \<rparr>) = Inr session"
  then obtain row where row: "row \<in> set (sessions (lgDb s))" "sUserId row = asUserId session"
    "sMembershipGeneration row = sessionGeneration r' (asUserId session)"
    by (rule scopedSession_row) simp
  then have "sessionGeneration r' (asUserId session) \<le> sessionGeneration (lgRecord s) (asUserId session)"
    using assms(1) by (auto simp: sessionsCurrent_def)
  then show "asUserId session \<noteq> jstr b ''userId''" using memberOperation_generation [OF assms(2)] by auto
next
  fix L E i token csrf q idToken official n
  show "sessionsCurrent (snd (finishLogin L E i token csrf q idToken official n s))"
    using finishLogin_current [OF assms(1)] by (metis prod.collapse)
qed

definition lgSession :: sessionRow where
  "lgSession = \<lparr> sId = ''session-1'', sTokenHash = ''hash'', sCsrfToken = ''csrf'', sUserId = ''agent'', sExpiresAt = 9000000,
     sPurpose = ''work'', sOidcIssuer = Some ''iss'', sOidcClientId = Some ''work'', sOidcAudience = Some ''aud'',
     sMembershipGeneration = 0, sAuthenticatedAt = Some 0 \<rparr>"

definition lgDemo :: LoginState where
  "lgDemo = \<lparr> lgDb = emptyDatabase\<lparr> sessions := [lgSession] \<rparr>, lgPending = [],
     lgConnections = \<lparr> scSessions = [], scWatches = [], scInvalidated = [] \<rparr>,
     lgQuota = \<lparr> qdBalances = [], qdReservations = [], qdRequests = [] \<rparr>, lgRecord = srRecord \<rparr>"

definition lgChange :: json where
  "lgChange = JObj [(''userId'', JStr ''agent''), (''active'', JBool False), (''permissions'', JArr []),
     (''serviceUri'', JStr ''urn:s'')]"

lemma lg_changed: "\<exists>reply r'. memberOperation srEnv srUuid srManager lgChange (lgRecord lgDemo) = Inr (reply, r')"
proof -
  have body: "jstr lgChange ''userId'' = ''agent''" "jarr lgChange ''permissions'' = []" "jstr lgChange ''serviceUri'' = ''urn:s''"
    by (simp_all add: lgChange_def jstr_def jarr_def jget_def)
  have "dget (irMembers srRecord) ''agent'' = Some (arMember ''gateway'' (Some ''urn:s''))"
    "dget (irServices srRecord) ''urn:s'' = Some srService"
    by (simp_all add: srRecord_def)
  moreover have "svActive srService" by (simp add: srService_def arService_def)
  ultimately show ?thesis
    by (simp add: memberOperation_def body lgDemo_def arMember_def arActor_def memberPermits_def scopeInvalid_def serviceInactive_def
        textsOf_def Let_def case_prod_beta)
qed

theorem changed_member_is_signed_out_witness:
  "\<exists>reply r'. memberOperation srEnv srUuid srManager lgChange srRecord = Inr (reply, r') \<and>
     (\<forall>L E purpose q session. scopedSession L E purpose q (lgDemo\<lparr> lgRecord := r' \<rparr>) = Inr session \<longrightarrow>
        asUserId session \<noteq> ''agent'')"
proof -
  have current: "sessionsCurrent lgDemo"
    by (simp add: sessionsCurrent_def lgDemo_def lgSession_def sessionGeneration_def srRecord_def arMember_def)
  obtain reply r' where run: "memberOperation srEnv srUuid srManager lgChange (lgRecord lgDemo) = Inr (reply, r')"
    using lg_changed by blast
  moreover have "lgRecord lgDemo = srRecord" "jstr lgChange ''userId'' = ''agent''"
    by (simp_all add: lgDemo_def lgChange_def jstr_def jget_def)
  ultimately show ?thesis using changed_member_is_signed_out [OF current run] by auto
qed

end
