(* ===== verification/Pbx_Properties.thy ===== *)
theory Pbx_Properties
  imports Pbx_Runtime Service_Runs Service_Scenario
begin

text \<open>
  What the evidence of the telephone exchange stands for: the authority accepts what the bridge has signed
  for the same attempt, and a bridged call rests on the acceptance of both sides.
\<close>

section \<open>What an answer of the evidence route implies\<close>

lemma evidenceDecision_context:
  "evidenceDecision L E a intent auth enrolled b st r = Inr r1 \<Longrightarrow> \<not> evidenceContextInvalid L E a intent auth enrolled b"
  by (auto simp: evidenceDecision_def split: if_splits)

lemma evidenceDecision_prepared:
  "evidenceDecision L E a intent auth enrolled b ''prepared'' r = Inr r1 \<Longrightarrow> r1 = r"
  by (auto simp: evidenceDecision_def split: if_splits)

lemma evidenceDecision_bridged:
  "evidenceDecision L E a intent auth enrolled b ''bridged'' r = Inr r1 \<Longrightarrow>
   \<exists>prior. saBinding a = Some prior \<and> hashCanonical L prior = hashCanonical L b"
  by (auto simp: evidenceDecision_def bridgedChecks_def split: if_splits option.splits)

lemma evidenceChecks_Inr:
  assumes "evidenceChecks L E actor i b st r = Inr (a, r1)"
  obtains s intent auth enrolled where "party r actor i = Inr (s, a, intent)" "authorizationOf s a = Some auth"
    "saRecipientKey a = Some enrolled" "evidenceDecision L E a intent auth enrolled b st r = Inr r1"
  using assms unfolding evidenceChecks_def by (auto simp: bindE_eq_Inr ofOption_eq_Inr split: if_splits)

lemma callEvidence_Inr:
  assumes "callEvidence L A B inst a b st now w = (Inr sg, w')"
  obtains px aid sender recipient ob where "saPbx a = Some px" "saAuthorization a = Some aid"
    "dget (pxReports px) ''sender'' = Some sender" "dget (pxReports px) ''recipient'' = Some recipient"
    "\<not> channelMismatch px sender recipient ob" "sdpChecks L (brFingerprint B) sender recipient b = Inr ()"
    "st = ''prepared'' \<or> \<not> acceptanceMissing a now"
    "sgPayload sg = evidencePayload L B inst aid a px b ob st now" "pbxEvidenceSchema (sgPayload sg)"
    "sgJws sg = signPayload L (sgPayload sg) (brPrivate B) (brKid B)"
  using assms unfolding callEvidence_def bridgeCall_def
  by (auto simp: result_simps Let_def parseWith_eq_Inr split: option.splits if_splits)

lemma sdpChecks_Inr:
  assumes "sdpChecks L pinned sender recipient b = Inr ()"
  shows "isStr b ''senderSdpHash'' (hashSdp L (prSdp sender))" "isStr b ''recipientSdpHash'' (hashSdp L (prSdp recipient))"
    "extractSingleSdpFingerprint (prRemoteSdp sender) = Inr pinned"
    "extractSingleSdpFingerprint (prRemoteSdp recipient) = Inr pinned"
  using assms unfolding sdpChecks_def by (auto simp: bindE_eq_Inr split: if_splits)

lemma evidenceCall_Inr:
  assumes "evidenceCall L H B actor i b st r w = (Inr (sg, r'), w')"
  obtains a r1 w1 where "evidenceChecks L (phEnv H w) actor i b st r = Inr (a, r1)"
    "callEvidence L (phAri H) B (irId r) a b st (seNow (phEnv H w)) w = (Inr sg, w1)"
    "r' = putEvidence i (pbxStateNamed st) (sgJws sg) r1"
  using assms unfolding evidenceCall_def by (auto simp: result_simps)

section \<open>Bridging\<close>

text \<open>
  C24: Bridged evidence is given only while both sides have proved that their media is ready, the call is
  accepted under an unexpired lease that is current or that the caller chose to continue without, the
  authorization stands, the binding is the consumed one, the channels are those of the calls that the browsers
  reported, and both browsers saw the pinned certificate of the exchange.
\<close>

theorem bridging_rests_on_acceptance:
  assumes "evidenceCall L H B actor i b ''bridged'' r w = (Inr (sg, r'), w')"
  shows "\<exists>s a intent auth px sender recipient lease prior.
    party r actor i = Inr (s, a, intent) \<and> authorizationOf s a = Some auth \<and> \<not> sauCancelled auth \<and>
    saStatus a = SAccepted \<and> dget (saMediaReady a) ''sender'' \<noteq> None \<and> dget (saMediaReady a) ''recipient'' \<noteq> None \<and>
    saLease a = Some lease \<and> seNow (phEnv H w) < jnum (sgPayload lease) ''expiresAt'' \<and>
    (isStr (sgPayload lease) ''authority'' ''current'' \<or> saUnverifiedChoice a = Some ''continue'') \<and>
    saBinding a = Some prior \<and> hashCanonical L prior = hashCanonical L b \<and> saPbx a = Some px \<and>
    dget (pxReports px) ''sender'' = Some sender \<and> dget (pxReports px) ''recipient'' = Some recipient \<and>
    isStr (sgPayload sg) ''senderCallId'' (prCallId sender) \<and> isStr (sgPayload sg) ''recipientCallId'' (prCallId recipient) \<and>
    extractSingleSdpFingerprint (prRemoteSdp sender) = Inr (brFingerprint B) \<and>
    extractSingleSdpFingerprint (prRemoteSdp recipient) = Inr (brFingerprint B)"
proof -
  from assms obtain a r1 w1 where checks: "evidenceChecks L (phEnv H w) actor i b ''bridged'' r = Inr (a, r1)"
    and call: "callEvidence L (phAri H) B (irId r) a b ''bridged'' (seNow (phEnv H w)) w = (Inr sg, w1)"
    by (rule evidenceCall_Inr)
  from checks obtain s intent auth enrolled where p: "party r actor i = Inr (s, a, intent)"
    and auth: "authorizationOf s a = Some auth"
    and d: "evidenceDecision L (phEnv H w) a intent auth enrolled b ''bridged'' r = Inr r1"
    by (rule evidenceChecks_Inr)
  from call obtain px sender recipient where px: "saPbx a = Some px"
    "dget (pxReports px) ''sender'' = Some sender" "dget (pxReports px) ''recipient'' = Some recipient"
    "sdpChecks L (brFingerprint B) sender recipient b = Inr ()" "\<not> acceptanceMissing a (seNow (phEnv H w))"
    "isStr (sgPayload sg) ''senderCallId'' (prCallId sender) \<and> isStr (sgPayload sg) ''recipientCallId'' (prCallId recipient)"
    by (rule callEvidence_Inr) (auto simp: channelMismatch_def evidencePayload_def isStr_def jget_def)
  from evidenceDecision_context [OF d] have "\<not> sauCancelled auth" by (simp add: evidenceContextInvalid_def)
  with p auth evidenceDecision_bridged [OF d] px(1-3,5,6) sdpChecks_Inr(3,4) [OF px(4)] show ?thesis
    unfolding acceptanceMissing_def by (fastforce split: option.splits)
qed

section \<open>Prepared evidence at the authority\<close>

lemma attemptIn_putEvidence:
  "attemptIn r i = Some a \<Longrightarrow> saPbx a = Some px \<Longrightarrow>
   attemptIn (putEvidence i ps jws r) i = Some (a\<lparr> saPbx := Some (px\<lparr> pxEvidence := Some jws, pxState := ps \<rparr>) \<rparr>)"
  by (simp add: putEvidence_def)

lemma evidence_clock:
  "assertTemporalValidity (evidencePayload L B inst aid a px b ob st now) t = Inr () \<longleftrightarrow>
   isSafeInteger t \<and> now \<le> t \<and> t < now + 8"
  by (simp add: assertTemporalValidity_iff evidencePayload_def jnum_def jget_def)

text \<open>
  C25: What the bridge signs as prepared is what the authority asks for when the call is consumed: on the
  record that the evidence route commits, the check of the exchange passes for the next eight seconds. The
  hypotheses are that jose verifies what it signed, that the authorization on file names itself and the
  network, and that the authority knows the public key of the bridge.
\<close>

theorem prepared_evidence_is_accepted:
  assumes route: "evidenceCall L H B actor i b ''prepared'' r w = (Inr (sg, r'), w')"
    and jose: "verifyPayload L (signPayload L (sgPayload sg) (brPrivate B) (brKid B)) pk ''AsteriskSessionEvidence'' (brKid B)
        pbxEvidenceSchema = Inr (sgPayload sg)" "sgJws sg \<noteq> []"
    and key: "sePbx E' = Some (brKid B, jwk)" "importJwk L jwk = Some pk"
    and filed: "\<And>s k auth. irService r = Some s \<Longrightarrow> dget (ssAuthorizations s) k = Some auth \<Longrightarrow>
        isStr (sauPayload auth) ''authorizationId'' k \<and> isStr (sauPayload auth) ''networkId'' (brNetwork B) \<and>
        isStr (sauPayload auth) ''registryAddress'' (brRegistry B)"
    and clock: "seNow (phEnv H w) \<le> seNow E'" "seNow E' < seNow (phEnv H w) + 8" "isSafeInteger (seNow E')"
  shows "\<exists>s a auth enrolled. irService r = Some s \<and> attemptIn r' i = Some a \<and> authorizationOf s a = Some auth \<and>
    saRecipientKey a = Some enrolled \<and> checkPbx L E' r' a enrolled (sauPayload auth) (hashCanonical L b) = Inr ()"
proof -
  let ?now = "seNow (phEnv H w)"
  from route obtain a r1 w1 where checks: "evidenceChecks L (phEnv H w) actor i b ''prepared'' r = Inr (a, r1)"
    and call: "callEvidence L (phAri H) B (irId r) a b ''prepared'' ?now w = (Inr sg, w1)"
    and r': "r' = putEvidence i (pbxStateNamed ''prepared'') (sgJws sg) r1"
    by (rule evidenceCall_Inr)
  from checks obtain s intent auth enrolled where p: "party r actor i = Inr (s, a, intent)"
    and auth: "authorizationOf s a = Some auth" and enrolled: "saRecipientKey a = Some enrolled"
    and d: "evidenceDecision L (phEnv H w) a intent auth enrolled b ''prepared'' r = Inr r1"
    by (rule evidenceChecks_Inr)
  from call obtain px aid sender recipient ob where px: "saPbx a = Some px" "saAuthorization a = Some aid"
    and sg: "sgPayload sg = evidencePayload L B (irId r) aid a px b ob ''prepared'' ?now"
      "sgJws sg = signPayload L (sgPayload sg) (brPrivate B) (brKid B)"
    by (rule callEvidence_Inr)
  let ?px = "px\<lparr> pxEvidence := Some (sgJws sg), pxState := PbxPrepared \<rparr>"
  let ?a = "a\<lparr> saPbx := Some ?px \<rparr>"
  from evidenceDecision_prepared [OF d] have r1: "r1 = r" .
  have a': "attemptIn r' i = Some ?a"
    using attemptIn_putEvidence [OF party_Inr(3) [OF p] px(1)] by (simp add: r' r1 pbxStateNamed_def)
  have "dget (ssAuthorizations s) aid = Some auth" using auth px(2) by (simp add: authorizationOf_def)
  from filed [OF party_Inr(1) [OF p] this] have f: "isStr (sauPayload auth) ''authorizationId'' aid"
    "isStr (sauPayload auth) ''networkId'' (brNetwork B)" "isStr (sauPayload auth) ''registryAddress'' (brRegistry B)"
    by blast+
  from evidenceDecision_context [OF d] have "isStr b ''recipientNonce'' (skNonce enrolled)"
    by (simp add: evidenceContextInvalid_def)
  then have "\<not> pbxMismatch r' ?a ?px enrolled (sauPayload auth) (hashCanonical L b) (sgPayload sg)"
    using f by (simp add: pbxMismatch_def sg(1) evidencePayload_def r' r1 putEvidence_def onAttempt_def onService_def
        sameMembers_def sameMember_def isStr_def jget_def jobj_def)
  moreover have "assertTemporalValidity (sgPayload sg) (seNow E') = Inr ()"
    unfolding sg(1) evidence_clock using clock by simp
  ultimately have "checkPbx L E' r' ?a enrolled (sauPayload auth) (hashCanonical L b) = Inr ()"
    using jose key by (simp add: checkPbx_def ofOption_def sg(2) [symmetric])
  with a' auth enrolled party_Inr(1) [OF p] show ?thesis
    by (intro exI [of _ s] exI [of _ ?a]) (simp add: authorizationOf_def)
qed

section \<open>An exchange with two channels\<close>

definition pbReport :: "string \<Rightarrow> PbxReport" where
  "pbReport proof' = \<lparr> prCallId = ''call-id'', prSdp = vrSdp, prRemoteSdp = vrSdp, prFingerprint = demoFingerprint, prProof = proof' \<rparr>"

definition pbPx :: PbxSession where
  "pbPx = \<lparr> pxBridge = ''cs-1-bridge'', pxSenderChannel = ''cs-1-sender'', pxRecipientChannel = ''cs-1-recipient'',
     pxSenderEndpoint = ''cs-1-s'', pxRecipientEndpoint = ''cs-1-r'', pxState = PbxBridged, pxEvidence = None,
     pxCredentials = [], pxReports = [(''sender'', pbReport ''p''), (''recipient'', pbReport ''q'')] \<rparr>"

definition pbLease :: Signed where
  "pbLease = \<lparr> sgPayload = JObj [(''authority'', JStr ''unavailable''), (''sequence'', JNum 1), (''expiresAt'', JNum 5030)],
     sgJws = ''jws-lease'' \<rparr>"

definition pbAttempt :: "AttemptStatus \<Rightarrow> PbxState \<Rightarrow> ServiceAttempt" where
  "pbAttempt st ps = srAttempt\<lparr> saStatus := st, saPbx := Some (pbPx\<lparr> pxState := ps \<rparr>), saLease := Some pbLease,
     saUnverifiedChoice := Some ''continue'', saMediaReady := [(''sender'', ''m''), (''recipient'', ''n'')] \<rparr>"

definition pbState :: "ServiceAttempt \<Rightarrow> ServiceState" where
  "pbState a = srState\<lparr> ssAttempts := [(''v3-att'', a)] \<rparr>"

definition pbRecord :: "ServiceAttempt \<Rightarrow> InstitutionRecord" where
  "pbRecord a = srRecord\<lparr> irService := Some (pbState a) \<rparr>"

definition pbBridge :: bridgeEnv where
  "pbBridge = \<lparr> brNetwork = ''777'', brRegistry = vrAddress, brFingerprint = demoFingerprint, brPrivate = ''pk'', brKid = ''pbx'' \<rparr>"

definition pbObserved :: Observed where
  "pbObserved = \<lparr> obSender = \<lparr> acId = ''c'', acState = ''Up'', acName = ''PJSIP/cs-1-s-1'' \<rparr>,
     obRecipient = \<lparr> acId = ''c'', acState = ''Up'', acName = ''PJSIP/cs-1-r-1'' \<rparr>,
     obSenderCall = ''call-id'', obRecipientCall = ''call-id'' \<rparr>"

text \<open>Asterisk answers a question about a variable, a channel or a bridge, whatever it was asked before.\<close>

definition pbAnswer :: "string \<Rightarrow> (string \<times> string) list \<Rightarrow> json" where
  "pbAnswer path query =
     (if query = [(''variable'', ''CHANNEL(pjsip,call-id)'')] then JObj [(''value'', JStr ''call-id'')]
      else if query = [(''variable'', ''TIMEOUT(absolute)'')] then JObj [(''value'', JStr ''9'')]
      else if path = ''bridges/cs-1-bridge'' then JObj [(''channels'', JArr [JStr ''cs-1-sender'', JStr ''cs-1-recipient''])]
      else JObj [(''id'', JStr ''c''), (''state'', JStr ''Up''),
        (''name'', JStr (if path = ''channels/cs-1-sender'' then ''PJSIP/cs-1-s-1'' else ''PJSIP/cs-1-r-1''))])"

definition pbAri :: "unit ari" where
  "pbAri = \<lparr> arReply = (\<lambda>meth path query body. returnS \<lparr> apOk = True, apStatus = 200, apLength = 9, apJson = Some (pbAnswer path query) \<rparr>),
     arNumber = (\<lambda>_. Some 9), arNanos = (\<lambda>_. 0), arUnix = (\<lambda>_. 5004), arApplication = ''callsign'' \<rparr>"

definition pbHost :: "unit pbxHost" where
  "pbHost = \<lparr> phAri = pbAri, phEnv = (\<lambda>_. srEnv), phRead = returnS (pbRecord (pbAttempt SAuthorized PbxReserved)),
     phWrite = (\<lambda>_. returnS ()), phRemove = (\<lambda>_. returnS ()), phSweep = returnS (), phSessions = (\<lambda>_. returnS True),
     phReady = (\<lambda>_. True) \<rparr>"

definition pbEvidence :: "AttemptStatus \<Rightarrow> PbxState \<Rightarrow> string \<Rightarrow> json" where
  "pbEvidence as ps st =
     evidencePayload srLib pbBridge vrInstitution ''v3-auth'' (pbAttempt as ps) (pbPx\<lparr> pxState := ps \<rparr>) srBinding pbObserved st 5004"

definition pbLib :: lib where
  "pbLib = srLib\<lparr> compactVerify := demoVerify, validateJson := demoValidate [pbEvidence SAuthorized PbxReserved ''prepared''] \<rparr>"

lemma pb_ari: "arReply (phAri pbHost) meth path query body =
    returnS \<lparr> apOk = True, apStatus = 200, apLength = 9, apJson = Some (pbAnswer path query) \<rparr>"
  "arNumber (phAri pbHost) t = Some 9" "arNanos (phAri pbHost) w = 0" "phEnv pbHost w = srEnv"
  by (simp_all add: pbHost_def pbAri_def)

lemma pb_request: "ariRequest (phAri pbHost) meth path query body = returnS (pbAnswer path query)"
  by (rule ext) (simp add: ariRequest_def pb_ari bindS_def returnS_def liftE_def ofOption_def)

lemma pb_uri: "encodeURIComponent ''cs-1-sender'' = ''cs-1-sender''" "encodeURIComponent ''cs-1-recipient'' = ''cs-1-recipient''"
  by code_simp+

lemma pb_observe: "observeCall (phAri pbHost) (pbPx\<lparr> pxState := ps \<rparr>) w = (Inr pbObserved, w)"
  by (simp add: observeCall_def ariChannel_def ariCallId_def pb_request pb_uri pbPx_def bindS_def returnS_def liftE_def
      ariText_def pbAnswer_def jget_def bindE_def pbObserved_def lengthBetween_def jsLength_def)

lemma pb_lifetime: "1 \<le> n \<Longrightarrow> n \<le> 120 \<Longrightarrow> i \<in> {''cs-1-sender'', ''cs-1-recipient''} \<Longrightarrow>
    9 \<le> n + 1 \<Longrightarrow> limitLifetime (phAri pbHost) i n w = (Inr (), w)"
  by (auto simp: limitLifetime_def pb_request pb_uri bindS_def returnS_def liftE_def guardS_def ariText_def pbAnswer_def jget_def
      lifetimeUnverifiable_def pb_ari Let_def)

lemma pb_limit:
  assumes "12 \<le> until' - now" "until' - now \<le> 120"
  shows "limitBoth (phAri pbHost) (pbPx\<lparr> pxState := ps \<rparr>) 0 now until' muted w = (Inr (), w)"
proof -
  have "secondsLeft (phAri pbHost) 0 now until' w = until' - now - 3" by (simp add: secondsLeft_def pb_ari)
  with assms show ?thesis
    by (simp add: limitBoth_def bindS_def readS_def pbPx_def pb_lifetime mute_def pb_request returnS_def)
qed

lemma pb_join: "joinBridge (phAri pbHost) (pbPx\<lparr> pxState := ps \<rparr>) session w = (Inr (), w)"
  by (simp add: joinBridge_def pb_request bindS_def catchS_def returnS_def liftE_def guardS_def pbPx_def bridgeMembers_def
      pbAnswer_def jget_def)

lemma pb_accepted: "\<not> acceptanceMissing (pbAttempt SAccepted ps) 5004"
  by (simp add: acceptanceMissing_def pbAttempt_def pbLease_def jnum_def jget_def isStr_def)

lemma pb_sdp: "sha256hex L = (\<lambda>_. srDigest) \<Longrightarrow> sdpChecks L demoFingerprint (pbReport x) (pbReport y) srBinding = Inr ()"
  by (simp add: sdpChecks_def pbReport_def vr_sdp hashSdp_def srBinding_def srBase_def vrClock_def isStr_def jget_def)

lemma pb_hash: "sha256hex L = (\<lambda>_. srDigest) \<Longrightarrow> hashCanonical L v = srDigest"
  by (simp add: hashCanonical_def)

lemma pb_schema: "st \<in> {''prepared'', ''bridged''} \<Longrightarrow> pbxEvidenceSchema (pbEvidence as ps st)"
  unfolding pbxEvidenceSchema_def pbEvidence_def evidencePayload_def
  by (auto simp: zObject_def sr_schema sr_fingerprint [unfolded lengthBetween_def] pbBridge_def pbAttempt_def srAttempt_def pbPx_def
      pbObserved_def srBinding_def jobj_def jget_def vrClock_def positiveInt_def)

lemma pb_call:
  assumes L: "sha256hex L = (\<lambda>_. srDigest)" and st: "st = ''prepared'' \<or> st = ''bridged'' \<and> as = SAccepted"
  shows "callEvidence L (phAri pbHost) pbBridge vrInstitution (pbAttempt as ps) srBinding st 5004 w =
    (Inr \<lparr> sgPayload = pbEvidence as ps st, sgJws = signPayload L (pbEvidence as ps st) ''pk'' ''pbx'' \<rparr>, w)"
proof -
  let ?px = "pbPx\<lparr> pxState := ps \<rparr>"
  have e: "evidencePayload L pbBridge vrInstitution ''v3-auth'' (pbAttempt k ps) ?px srBinding pbObserved z 5004 = pbEvidence k ps z" for k z
    by (simp add: pbEvidence_def evidencePayload_def pb_hash [OF L])
  have a: "saPbx (pbAttempt k ps) = Some ?px" "saAuthorization (pbAttempt k ps) = Some ''v3-auth''"
    "saFirstConnectBy (pbAttempt k ps) = 5100" "saLease (pbAttempt k ps) = Some pbLease"
    "jnum (sgPayload pbLease) ''expiresAt'' = 5030" for k
    by (simp_all add: pbAttempt_def srAttempt_def pbLease_def jnum_def jget_def)
  have r: "dget (pxReports pbPx) ''sender'' = Some (pbReport ''p'')" "dget (pxReports pbPx) ''recipient'' = Some (pbReport ''q'')"
    by (simp_all add: pbPx_def)
  have c: "\<not> channelMismatch ?px (pbReport ''p'') (pbReport ''q'') pbObserved"
    by (simp add: channelMismatch_def pbPx_def pbObserved_def pbReport_def startsWith_def)
  have b: "bridgeCall (phAri pbHost) (pbAttempt as ps) ?px 0 5004 w = (Inr (), w)" if "st = ''bridged''"
    using that st pb_accepted [of ps]
    by (simp add: bridgeCall_def bindS_def guardS_def pb_join a pb_limit catchS_def Let_def)
  have B: "brFingerprint pbBridge = demoFingerprint" "brPrivate pbBridge = ''pk''" "brKid pbBridge = ''pbx''"
    by (simp_all add: pbBridge_def)
  have s: "parseWith pbxEvidenceSchema (pbEvidence k ps z) = Inr (pbEvidence k ps z)" if "z \<in> {''prepared'', ''bridged''}" for k z
    using pb_schema [OF that, of k ps] by (simp add: parseWith_def)
  note step = bindS_def pb_observe guardS_def c liftE_def pb_sdp [OF L] e s returnS_def
  from st show ?thesis
  proof
    assume "st = ''prepared''"
    then show ?thesis
      unfolding callEvidence_def a B option.case prod.case pb_ari
      by (simp add: r demoFingerprint_ok) (simp add: step pb_limit)
  next
    assume "st = ''bridged'' \<and> as = SAccepted"
    with b show ?thesis
      unfolding callEvidence_def a B option.case prod.case pb_ari
      by (simp add: r demoFingerprint_ok) (simp add: step)
  qed
qed

lemma pb_membership: "membership (pbRecord a) actor roles = membership srRecord actor roles"
  by (simp add: pbRecord_def membership_def memberRole_def memberInactive_def sessionGeneration_def)

lemma pb_party:
  "party (pbRecord (pbAttempt as ps)) srRecipient ''v3-att'' = Inr (pbState (pbAttempt as ps), pbAttempt as ps, srIntent)"
proof -
  have "irService (pbRecord a) = Some (pbState a)" "ssReady (pbState a)" "ssAttempts (pbState a) = [(''v3-att'', a)]" for a
    by (simp_all add: pbRecord_def pbState_def sr_record)
  then show ?thesis
    unfolding party_def pb_membership sr_members
    by (simp add: serviceState_def ofOption_def)
      (simp add: pbRecord_def srRecord_def pbAttempt_def srAttempt_def attemptHidden_def assignmentChanged_def arIntent_def
        arRecord_def arActor_def memberRole_def memberInactive_def memberService_def arMember_def)
qed

lemma pb_checks:
  assumes L: "sha256hex L = (\<lambda>_. srDigest)"
    and st: "st = ''prepared'' \<and> as = SAuthorized \<and> ps = PbxReserved \<or> st = ''bridged'' \<and> as = SAccepted \<and> ps = PbxBridged"
  shows "evidenceChecks L srEnv srRecipient ''v3-att'' srBinding st (pbRecord (pbAttempt as ps)) =
    Inr (pbAttempt as ps, pbRecord (pbAttempt as ps))"
proof -
  have "policyHash L = policyHash srLib"
    by (rule ext) (simp add: policyHash_def pb_hash [OF L])
  moreover have "intentHidden (pbRecord a) = intentHidden srRecord" "irIntents (pbRecord a) = irIntents srRecord"
    "irStatus (pbRecord a) = irStatus srRecord" "irPolicy (pbRecord a) = irPolicy srRecord" for a
    by (intro ext) (simp_all add: pbRecord_def intentHidden_def memberService_def)
  ultimately have i: "activeIntent L (pbRecord a) ''int-1'' srRecipient 5004 = Inr srIntent" for a
    using sr_intent by (simp only: activeIntent_def pb_membership)
  have a: "authorizationOf (pbState (pbAttempt as ps)) (pbAttempt as ps) = Some srGranted"
    "saRecipientKey (pbAttempt as ps) = Some \<lparr> skUser = ''recipient'', skKey = demoJwk vrKey, skNonce = ''nonce-of-recipient'' \<rparr>"
    "ciId srIntent = ''int-1''" "seNow srEnv = 5004" "acRole srRecipient = ''recipient''"
    by (simp_all add: pbState_def pbAttempt_def authorizationOf_def srAttempt_def srState_def arIntent_def srEnv_def arActor_def)
  have "evidenceDecision L srEnv (pbAttempt as ps) srIntent srGranted
      \<lparr> skUser = ''recipient'', skKey = demoJwk vrKey, skNonce = ''nonce-of-recipient'' \<rparr> srBinding st (pbRecord (pbAttempt as ps)) =
    Inr (pbRecord (pbAttempt as ps))"
    using st unfolding evidenceDecision_def evidenceContextInvalid_def startLapsed_def pbxStateOf_def bridgedChecks_def
      continuesUnverified_def pb_hash [OF L]
    by (auto simp: pbAttempt_def srAttempt_def srBinding_def srBase_def vrClock_def arIntent_def srEnv_def pbPx_def pbLease_def
        isStr_def jget_def terminal_def)
  then show ?thesis
    by (simp add: evidenceChecks_def pb_party i a ofOption_def)
qed

lemma pb_route:
  assumes L: "sha256hex L = (\<lambda>_. srDigest)"
    and st: "st = ''prepared'' \<and> as = SAuthorized \<and> ps = PbxReserved \<or> st = ''bridged'' \<and> as = SAccepted \<and> ps = PbxBridged"
  shows "evidenceCall L pbHost pbBridge srRecipient ''v3-att'' srBinding st (pbRecord (pbAttempt as ps)) w =
    (Inr (\<lparr> sgPayload = pbEvidence as ps st, sgJws = signPayload L (pbEvidence as ps st) ''pk'' ''pbx'' \<rparr>,
       putEvidence ''v3-att'' (pbxStateNamed st) (signPayload L (pbEvidence as ps st) ''pk'' ''pbx'') (pbRecord (pbAttempt as ps))), w)"
proof -
  have "irId (pbRecord a) = vrInstitution" "seNow srEnv = 5004" for a
    by (simp_all add: pbRecord_def sr_record srEnv_def)
  then show ?thesis
    using pb_call [OF L, of st as ps w] st
    unfolding evidenceCall_def
    by (simp only: bindS_def readS_def pb_ari pb_checks [OF L st] prod.case sum.case) (auto simp: returnS_def)
qed

theorem bridging_rests_on_acceptance_witness:
  "\<exists>sg r' s a lease. evidenceCall srLib pbHost pbBridge srRecipient ''v3-att'' srBinding ''bridged''
       (pbRecord (pbAttempt SAccepted PbxBridged)) () = (Inr (sg, r'), ()) \<and>
     party (pbRecord (pbAttempt SAccepted PbxBridged)) srRecipient ''v3-att'' = Inr (s, a, srIntent) \<and>
     saStatus a = SAccepted \<and> saLease a = Some lease \<and> 5004 < jnum (sgPayload lease) ''expiresAt''"
proof -
  have "sha256hex srLib = (\<lambda>_. srDigest)" by (simp add: srLib_def)
  from pb_route [OF this, of "''bridged''" SAccepted PbxBridged "()"] obtain sg r'
    where route: "evidenceCall srLib pbHost pbBridge srRecipient ''v3-att'' srBinding ''bridged''
       (pbRecord (pbAttempt SAccepted PbxBridged)) () = (Inr (sg, r'), ())" by simp
  have "phEnv pbHost () = srEnv" "seNow srEnv = 5004" by (simp_all add: pb_ari srEnv_def)
  with bridging_rests_on_acceptance [OF route] route show ?thesis by (auto simp: pb_party)
qed

lemma pb_jose:
  "verifyPayload pbLib (signPayload pbLib (pbEvidence SAuthorized PbxReserved ''prepared'') ''pk'' ''pbx'') ''pk''
     ''AsteriskSessionEvidence'' ''pbx'' pbxEvidenceSchema = Inr (pbEvidence SAuthorized PbxReserved ''prepared'')"
  "signPayload pbLib (pbEvidence SAuthorized PbxReserved ''prepared'') ''pk'' ''pbx'' \<noteq> []"
proof -
  let ?v = "pbEvidence SAuthorized PbxReserved ''prepared''"
  have v: "isStr ?v ''type'' ''AsteriskSessionEvidence''" "demoCanonical ?v = ''AsteriskSessionEvidence.''"
    by (simp_all add: pbEvidence_def evidencePayload_def isStr_def jget_def demoCanonical_def jstr_def)
  then have ty: "jstr ?v ''type'' = ''AsteriskSessionEvidence''" by (blast intro: isStr_jstr)
  have L: "canonicalBytes pbLib ?v = ''AsteriskSessionEvidence.''" "compactSign pbLib = demoSign" "compactVerify pbLib = demoVerify"
    "validateJson pbLib ''AsteriskSessionEvidence.'' = Inr ?v"
    using v(2) by (simp_all add: canonicalBytes_def pbLib_def srLib_def vrLib_def demoValidate_def)
  have h: "jstr (protectedHeader ''AsteriskSessionEvidence'' ''pbx'') ''typ'' = ''callsign/AsteriskSessionEvidence+jws''"
    "jstr (protectedHeader ''AsteriskSessionEvidence'' ''pbx'') ''kid'' = ''pbx''"
    by (simp_all add: protectedHeader_def messageTyp_def jstr_def jget_def)
  have jws: "signPayload pbLib ?v ''pk'' ''pbx'' = ''pk|callsign/AsteriskSessionEvidence+jws|pbx|AsteriskSessionEvidence.''"
    by (simp add: signPayload_def L ty demoSign_def bar_def h)
  then show "signPayload pbLib ?v ''pk'' ''pbx'' \<noteq> []" by simp
  have "demoVerify ''pk|callsign/AsteriskSessionEvidence+jws|pbx|AsteriskSessionEvidence.'' ''pk'' =
      Some (vrHeader ''AsteriskSessionEvidence'' ''pbx'', ''AsteriskSessionEvidence.'')"
    by code_simp
  moreover have "isUtf8 ''AsteriskSessionEvidence.''" by code_simp
  ultimately show "verifyPayload pbLib (signPayload pbLib ?v ''pk'' ''pbx'') ''pk'' ''AsteriskSessionEvidence'' ''pbx''
      pbxEvidenceSchema = Inr ?v"
    unfolding verifyPayload_eq_Inr jws L(3)
    using v(1) L(4) pb_schema [of "''prepared''" SAuthorized PbxReserved]
    by (simp add: MAX_SIGNED_MESSAGE_BYTES_def parseJsonNoDuplicateKeys_def)
      (simp add: vrHeader_def isStr_def jget_def)
qed

theorem prepared_evidence_is_accepted_witness:
  "\<exists>sg r' a auth enrolled. evidenceCall pbLib pbHost pbBridge srRecipient ''v3-att'' srBinding ''prepared''
       (pbRecord (pbAttempt SAuthorized PbxReserved)) () = (Inr (sg, r'), ()) \<and>
     checkPbx pbLib (srEnv\<lparr> sePbx := Some (''pbx'', demoJwk ''pk''), seNow := 5008 \<rparr>) r' a enrolled
       (sauPayload (auth :: ServiceAuthorization)) (hashCanonical pbLib srBinding) = Inr ()"
proof -
  let ?r = "pbRecord (pbAttempt SAuthorized PbxReserved)" and ?E = "srEnv\<lparr> sePbx := Some (''pbx'', demoJwk ''pk''), seNow := 5008 \<rparr>"
  let ?v = "pbEvidence SAuthorized PbxReserved ''prepared''"
  let ?sg = "\<lparr> sgPayload = ?v, sgJws = signPayload pbLib ?v ''pk'' ''pbx'' \<rparr>"
  have "sha256hex pbLib = (\<lambda>_. srDigest)" by (simp add: pbLib_def srLib_def)
  from pb_route [OF this, of "''prepared''" SAuthorized PbxReserved "()"] obtain r'
    where route: "evidenceCall pbLib pbHost pbBridge srRecipient ''v3-att'' srBinding ''prepared'' ?r () = (Inr (?sg, r'), ())"
    by simp
  have B: "brPrivate pbBridge = ''pk''" "brKid pbBridge = ''pbx''" "brNetwork pbBridge = ''777''" "brRegistry pbBridge = vrAddress"
    "seNow (phEnv pbHost ()) = 5004"
    by (simp_all add: pbBridge_def pb_ari srEnv_def)
  have k: "sePbx ?E = Some (brKid pbBridge, demoJwk ''pk'')" "importJwk pbLib (demoJwk ''pk'') = Some ''pk''"
    by (simp_all add: B pbLib_def srLib_def vrLib_def demoJwk_def jstr_def jget_def)
  have f: "isStr (sauPayload auth) ''authorizationId'' k \<and> isStr (sauPayload auth) ''networkId'' (brNetwork pbBridge) \<and>
      isStr (sauPayload auth) ''registryAddress'' (brRegistry pbBridge)"
    if "irService ?r = Some s" "dget (ssAuthorizations s) k = Some auth" for s k auth
    using that by (auto simp: B pbRecord_def pbState_def srState_def srStart_def srBase_def isStr_def jget_def split: if_splits)
  have j: "verifyPayload pbLib (signPayload pbLib (sgPayload ?sg) (brPrivate pbBridge) (brKid pbBridge)) ''pk''
      ''AsteriskSessionEvidence'' (brKid pbBridge) pbxEvidenceSchema = Inr (sgPayload ?sg)" "sgJws ?sg \<noteq> []"
    using pb_jose by (simp_all add: B)
  have c: "seNow (phEnv pbHost ()) \<le> seNow ?E" "seNow ?E < seNow (phEnv pbHost ()) + 8" "isSafeInteger (seNow ?E)"
    by (simp_all add: B isSafeInteger_def maxSafeInteger_def)
  have "\<exists>s a auth enrolled. irService ?r = Some s \<and> attemptIn r' ''v3-att'' = Some a \<and> authorizationOf s a = Some auth \<and>
      saRecipientKey a = Some enrolled \<and> checkPbx pbLib ?E r' a enrolled (sauPayload auth) (hashCanonical pbLib srBinding) = Inr ()"
    by (rule prepared_evidence_is_accepted [OF route j k _ c]) (rule f)
  with route show ?thesis by blast
qed

end
