(* ===== verification/Spec2Isabelle.thy ===== *)
theory Spec2Isabelle
  imports Protocol_Properties Verifier_Properties Finals_Properties Registry_Properties Server_Properties
    Authority_Properties Governance Service_Verifier Service_Properties Store_Properties Worker_Properties Aggregate_Properties Quota Identity Sessions Analyzer_Properties
    Management_Properties Ledger_Events_Properties Login_Properties Pbx_Properties
begin

text \<open>
  CallSign lets the recipient of a call check, in the browser and before anything is said, that the call comes
  from an institution that a permissioned ledger knows, through a call centre that the institution has delegated,
  for a contact it has opened. This library is a model of the TypeScript code of the repository, with the two
  Solidity contracts it relies on, and the theorems that make its parts correct.

  \<^bold>\<open>Parts of the program and their theories.\<close>

  \<^item> Messages (\<^verbatim>\<open>packages/protocol/src\<close>): \<open>Protocol\<close> and \<open>Base64\<close> (\<^verbatim>\<open>index.ts\<close>), \<open>Finals\<close> (\<^verbatim>\<open>finals.ts\<close>),
    \<open>Service_Protocol\<close> (\<^verbatim>\<open>service.ts\<close>, \<^verbatim>\<open>configuration.ts\<close>, \<^verbatim>\<open>recovery.ts\<close>), \<open>Analysis\<close> (\<^verbatim>\<open>analysis.ts\<close>).
    A payload is a \<open>json\<close> value and a zod schema a predicate on it (\<open>Json\<close>).
  \<^item> The verifier of the browser (\<^verbatim>\<open>packages/verifier/src\<close>): \<open>Verifier\<close> (state bundles of witnesses and the
    monotonic guard), \<open>Finals\<close> and \<open>Service_Verifier\<close> (the call packages of the two profiles).
  \<^item> The ledger: \<open>Contracts\<close> and \<open>Registry\<close> (\<^verbatim>\<open>contracts/src\<close>), \<open>Ledger\<close> (\<^verbatim>\<open>ledger.ts\<close>), \<open>Governance\<close>
    (\<^verbatim>\<open>governance-v2.ts\<close>, \<^verbatim>\<open>configuration.ts\<close>), \<open>Ledger_Events\<close> (\<^verbatim>\<open>ledger-events.ts\<close>).
  \<^item> The demonstration API (\<^verbatim>\<open>services/api/src\<close>): \<open>Database\<close> (\<^verbatim>\<open>schema.ts\<close>, \<^verbatim>\<open>auth.ts\<close>, \<^verbatim>\<open>consumption.ts\<close>,
    \<^verbatim>\<open>seed.ts\<close>), \<open>Server\<close> and \<open>Server_Governance\<close> (\<^verbatim>\<open>server.ts\<close>).
  \<^item> The issuer: \<open>Institution\<close> (the record of \<^verbatim>\<open>finals-model.ts\<close> and \<^verbatim>\<open>service-state.ts\<close>), \<open>Authority\<close>
    (\<^verbatim>\<open>finals-authority.ts\<close>), \<open>Service_Current\<close> and \<open>Service_Authority\<close> (\<^verbatim>\<open>service-current.ts\<close>,
    \<^verbatim>\<open>service-authority.ts\<close>, \<^verbatim>\<open>retention.ts\<close>), \<open>Service_Routes\<close> (\<^verbatim>\<open>service-routes.ts\<close>), \<open>Management\<close> (\<^verbatim>\<open>service-management.ts\<close>), \<open>Oidc\<close> and \<open>Login\<close>
    (\<^verbatim>\<open>oidc-flow.ts\<close>, the session part of \<^verbatim>\<open>finals-server.ts\<close>, \<^verbatim>\<open>account-management.ts\<close>), \<open>Identity\<close>
    (\<^verbatim>\<open>did.ts\<close>, \<^verbatim>\<open>keys.ts\<close>), \<open>Sessions\<close> (\<^verbatim>\<open>session-connections.ts\<close>), \<open>Quota\<close> (\<^verbatim>\<open>quota.ts\<close>).
  \<^item> The telephone exchange: \<open>Telephony\<close> (\<^verbatim>\<open>asterisk.ts\<close>), \<open>Pbx\<close> and \<open>Pbx_Runtime\<close> (\<^verbatim>\<open>pbx-routes.ts\<close>,
    \<^verbatim>\<open>pbx-runtime.ts\<close>).
  \<^item> The runs of the service profile: \<open>Service_Runs\<close> (its requests and the locale of their invariants) and
    \<open>Issuer_Runs\<close> (any interleaving of those requests with management, the exchange, ledger events, sweeps, the stop
    after a restart and the archiving of pending rows, all on the one record of the institution).
  \<^item> Its storage and worker: \<open>Anchor\<close> (\<^verbatim>\<open>consumption-anchor.ts\<close>), \<open>Journal\<close>, \<open>Store\<close> (\<^verbatim>\<open>finals-store.ts\<close>),
    \<open>Worker\<close> (\<^verbatim>\<open>service-worker.ts\<close>), \<open>Worker_Ledger\<close> (\<^verbatim>\<open>worker-ledger.ts\<close>).
  \<^item> The witnesses: \<open>Witness\<close> (\<^verbatim>\<open>services/witness/src/server.ts\<close>), \<open>Aggregate\<close> (\<^verbatim>\<open>witness-aggregate.ts\<close>).
  \<^item> The analysis of speech: \<open>Patterns\<close> (regular expressions), \<open>Risk\<close>, \<open>Risk_Assessment\<close>, \<open>Analyzer\<close>
    (\<^verbatim>\<open>risk.ts\<close>, \<^verbatim>\<open>risk-assessment.ts\<close>, \<^verbatim>\<open>service-analysis.ts\<close>).

  \<^bold>\<open>How the model reads.\<close> A function of the code keeps its name. An exception is a \<open>js_error\<close> on the left of a
  \<open>result\<close>; a function with state is an \<open>eff\<close>, which maps a state to a result and a state (\<open>Effects\<close>), and an
  operation of the service authority maps the record to a result with the new record. A table is the list of its
  rows, an object used as a dictionary an association list (\<open>dict\<close>); contract integers are words. Strings are the
  bytes of their UTF-8 form. The clock, random values and the code outside the repository (jose, viem, zod's
  formats, the canonical form, hash functions, the node, the identity provider, Asterisk) are arguments or the
  fields of the records \<open>lib\<close>, \<open>evm\<close>, \<open>ari\<close> and of the \<^verbatim>\<open>...Env\<close> records; what a theorem needs of them is a hypothesis in it. Waiting
  for a reply is a step of its own where other events can come between (\<open>Aggregate\<close>, \<open>Analyzer\<close>, \<open>Sessions\<close>,
  \<open>Ledger_Events\<close>); elsewhere an operation holds the row lock of its institution and is one step. Every function of
  the model terminates: loops follow lists or a measure, and there is no fuel.

  \<^bold>\<open>Interfaces.\<close> Each contract between parts is a locale, interpreted on the model: \<open>monotone_acceptor\<close> by the
  monotonic guard, \<open>once_store\<close> by the atomic consumption of the database, \<open>consumption_anchor\<close> by the HTTP anchor
  client, \<open>anchored_store\<close>, which extends it, by the issuer's store, \<open>worker_chain\<close> by the worker's ledger. The
  locales \<open>server_invariant\<close>, \<open>authority_invariant\<close> and \<open>service_invariant\<close> lift an invariant of the operations to the
  runs of a service, and are interpreted once for each invariant. The laws of \<open>service_invariant\<close> are the few writes
  that the operations make on the service state: an attempt may only advance, an authorization may only be
  withdrawn, a consumption is only added.

  \<^bold>\<open>What the theorems show.\<close>

  \<^item> \<open>Verifier_Properties\<close>, \<open>Finals_Properties\<close>, \<open>Protocol_Properties\<close>: an accepted state has a quorum of distinct
    pinned witnesses and is fresh, the guard accepts one history and does not forget a revocation, an accepted call
    is authorized, bound to its transport and rests on the ledger; signing round-trips.
  \<^item> \<open>Registry_Properties\<close>: over every history of the registry, suspension and revocation end delegations for good
    and recovery needs two approvers.
  \<^item> \<open>Server_Properties\<close>, \<open>Authority_Properties\<close>, \<open>Service_Properties\<close>: over any run of each of the three services an
    authorization is consumed once, receipts rest on their checks, revocation stops calls, leases are bounded,
    outcomes are final, a claimed call keeps its browser session, repeated requests get the same reply. For the
    service profile the runs are those of \<open>Issuer_Runs\<close>.
  \<^item> \<open>Pbx_Properties\<close>: what the bridge signs as prepared is what the authority asks for, and a call is reported as
    bridged only after both sides accepted it.
  \<^item> \<open>Management_Properties\<close>, \<open>Ledger_Events_Properties\<close>, \<open>Login_Properties\<close>, \<open>Oidc\<close>: a new key or a suspension
    seen on the ledger ends every call of the old authority, a changed member is signed out, a login state is
    single-use and bound to its verifier.
  \<^item> \<open>Store_Properties\<close>, \<open>Worker_Properties\<close>, \<open>Quota\<close>: transactions refine an abstract log, failures close the gate,
    the anchored history is unique, the worker ends, signs once and sends only what is stored, budgets balance.
  \<^item> \<open>Aggregate_Properties\<close>: whatever the witnesses answer, the aggregation resolves only with a verified quorum, and
    it settles.
  \<^item> \<open>Analyzer_Properties\<close>: the rules produce only well-formed results, published evidence was spoken, a
    withdrawn analysis is silent.

  \<^bold>\<open>Not modelled.\<close> The web application (views and browser media around the verifier), the relay of telephone
  frames (\<^verbatim>\<open>pbx-relay.ts\<close>), the sockets and clients of speech and language services, telemetry, maintenance and
  backup tools, scripts and infrastructure. They drive external systems or only format what the modelled parts
  decide. Of the exchange the sealing of credentials (AES-GCM, a parameter), the event socket with its reconnects,
  the timers, the checks of the client's constructor and the query \<^verbatim>\<open>sessionsAlive\<close> (a parameter) are left out. Of
  \<^verbatim>\<open>finals-server.ts\<close> the assembly of the adapters and the forwarding roles are left out, of \<^verbatim>\<open>service-routes.ts\<close>
  the routes that only parse a body and call an operation of the authority, of \<^verbatim>\<open>finals-store.ts\<close> the recall view
  and \<^verbatim>\<open>manageAccount\<close>, whose effect is a SQL function; of \<^verbatim>\<open>service-management.ts\<close> the overview route.
\<close>

end
